(* ===== verification/Prelude_Go.thy ===== *)
theory Prelude_Go imports Main "HOL-Library.Word" "HOL-Library.Sublist" "HOL-Library.Char_ord" begin

text \<open>
  What every component shares: the Go string functions the code uses, on byte strings; the
  error values the services return; and the result-and-state functions the handlers are
  written in.  A Go function \<open>func f(ctx, ...) (T, error)\<close> that touches state
  is a function \<open>'s \<Rightarrow> (go_error + T) \<times> 's\<close>: \<open>Inl\<close> is a non-nil error, and the state
  comes back in both cases, since a Go function that fails keeps the writes it already made.

  A \<^typ>\<open>string\<close> is the byte sequence of the Go string.  \<open>strings.ToLower\<close>, \<open>strings.TrimSpace\<close>
  and \<open>unicode\<close> classes are written for ASCII; on bytes above 127 they leave the byte alone, so
  the statements about them that matter outside ASCII carry an \<open>is_ascii\<close> hypothesis or are about
  code that rejects such bytes.
\<close>

named_theorems go_io "unfolding rules of the result-and-state combinators"
named_theorems keeps_intros "rules for predicates every step of a handler keeps"

section \<open>Strings\<close>

definition char_in :: "char \<Rightarrow> nat \<Rightarrow> nat \<Rightarrow> bool" where
  "char_in c lo hi \<longleftrightarrow> lo \<le> of_char c \<and> of_char c \<le> hi"

definition is_lower_char :: "char \<Rightarrow> bool" where
  "is_lower_char c = char_in c 97 122"

definition is_upper_char :: "char \<Rightarrow> bool" where
  "is_upper_char c = char_in c 65 90"

definition is_digit_char :: "char \<Rightarrow> bool" where
  "is_digit_char c = char_in c 48 57"

definition is_space_char :: "char \<Rightarrow> bool" where
  "is_space_char c \<longleftrightarrow> char_in c 9 13 \<or> c = CHR '' ''"

definition is_ascii :: "string \<Rightarrow> bool" where
  "is_ascii s = list_all (\<lambda>c. of_char c < (128::nat)) s"

definition lower_char :: "char \<Rightarrow> char" where
  "lower_char c = (if is_upper_char c then char_of (of_char c + (32::nat)) else c)"

definition to_lower :: "string \<Rightarrow> string" where
  "to_lower s = map lower_char s"

definition trim_left_by :: "(char \<Rightarrow> bool) \<Rightarrow> string \<Rightarrow> string" where
  "trim_left_by p s = dropWhile p s"

definition trim_right_by :: "(char \<Rightarrow> bool) \<Rightarrow> string \<Rightarrow> string" where
  "trim_right_by p s = rev (dropWhile p (rev s))"

definition trim_by :: "(char \<Rightarrow> bool) \<Rightarrow> string \<Rightarrow> string" where
  "trim_by p s = trim_right_by p (trim_left_by p s)"

definition trim_space :: "string \<Rightarrow> string" where
  "trim_space s = trim_by is_space_char s"

definition has_prefix :: "string \<Rightarrow> string \<Rightarrow> bool" where
  "has_prefix s p = (take (length p) s = p)"

definition has_suffix :: "string \<Rightarrow> string \<Rightarrow> bool" where
  "has_suffix s p = (length p \<le> length s \<and> drop (length s - length p) s = p)"

definition trim_prefix :: "string \<Rightarrow> string \<Rightarrow> string" where
  "trim_prefix s p = (if has_prefix s p then drop (length p) s else s)"

fun contains :: "string \<Rightarrow> string \<Rightarrow> bool" where
  "contains [] t = (t = [])"
| "contains (c # s) t = (has_prefix (c # s) t \<or> contains s t)"

text \<open>\<open>strings.Split(s, sep)\<close> for a one-byte separator: never the empty list.\<close>

fun split_on :: "char \<Rightarrow> string \<Rightarrow> string list" where
  "split_on d [] = [[]]"
| "split_on d (c # s) =
     (if c = d then [] # split_on d s
      else (case split_on d s of [] \<Rightarrow> [[c]] | p # ps \<Rightarrow> (c # p) # ps))"

fun join_with :: "string \<Rightarrow> string list \<Rightarrow> string" where
  "join_with sep [] = []"
| "join_with sep [x] = x"
| "join_with sep (x # y # ys) = x @ sep @ join_with sep (y # ys)"

text \<open>\<open>strings.SplitN(s, sep, n)\<close> for a one-byte separator: at most \<open>n\<close> pieces.\<close>

fun split_n :: "char \<Rightarrow> nat \<Rightarrow> string \<Rightarrow> string list" where
  "split_n d 0 s = []"
| "split_n d (Suc 0) s = [s]"
| "split_n d (Suc (Suc n)) s =
     (if d \<in> set s
      then takeWhile (\<lambda>c. c \<noteq> d) s # split_n d (Suc n) (tl (dropWhile (\<lambda>c. c \<noteq> d) s))
      else [s])"

definition replace_char :: "char \<Rightarrow> char \<Rightarrow> string \<Rightarrow> string" where
  "replace_char a b s = map (\<lambda>c. if c = a then b else c) s"

definition equal_fold :: "string \<Rightarrow> string \<Rightarrow> bool" where
  "equal_fold s t = (to_lower s = to_lower t)"

fun digits_of :: "nat \<Rightarrow> string" where
  "digits_of n = (if n < 10 then [char_of (48 + n)] else digits_of (n div 10) @ [char_of (48 + n mod 10)])"

declare digits_of.simps [simp del]

definition pad_left :: "nat \<Rightarrow> char \<Rightarrow> string \<Rightarrow> string" where
  "pad_left n c s = replicate (n - length s) c @ s"

text \<open>\<open>strings.ReplaceAll\<close> of a nonempty text.\<close>

function replace_all :: "string \<Rightarrow> string \<Rightarrow> string \<Rightarrow> string" where
  "replace_all old new [] = []"
| "replace_all old new (c # s) =
     (if old \<noteq> [] \<and> has_prefix (c # s) old then new @ replace_all old new (drop (length old) (c # s))
      else c # replace_all old new s)"
  by pat_completeness auto
termination
  by (relation "measure (\<lambda>(old, new, s). length s)") auto

definition trim_suffix :: "string \<Rightarrow> string \<Rightarrow> string" where
  "trim_suffix s p = (if has_suffix s p then take (length s - length p) s else s)"

subsection \<open>Lemmas on strings\<close>

lemma replace_all_char: "replace_all [a] new s = concat (map (\<lambda>c. if c = a then new else [c]) s)"
  by (induction "[a]" new s rule: replace_all.induct) (auto simp: has_prefix_def)

lemma split_on_not_Nil [simp]: "split_on d s \<noteq> []"
  by (induction s) (auto split: list.splits)

lemma split_on_no_sep: "d \<notin> set s \<Longrightarrow> split_on d s = [s]"
  by (induction s) auto

lemma join_split_on: "join_with [d] (split_on d s) = s"
proof (induction s)
  case (Cons c s)
  obtain p ps where p: "split_on d s = p # ps" by (cases "split_on d s") auto
  with Cons show ?case by (cases ps) auto
qed simp

lemma split_on_parts: "p \<in> set (split_on d s) \<Longrightarrow> set p \<subseteq> set s - {d}"
proof (induction s arbitrary: p)
  case (Cons c s)
  obtain q qs where q: "split_on d s = q # qs" by (cases "split_on d s") auto
  have q1: "set q \<subseteq> set s - {d}" and q2: "r \<in> set qs \<Longrightarrow> set r \<subseteq> set s - {d}" for r
    using Cons.IH q by auto
  show ?case
  proof (cases "c = d")
    case True
    with Cons.prems q have "p = [] \<or> p = q \<or> p \<in> set qs" by auto
    with q1 q2[of p] show ?thesis by auto
  next
    case False
    with Cons.prems q have "p = c # q \<or> p \<in> set qs" by auto
    with False q1 q2[of p] show ?thesis by auto
  qed
qed auto

lemma split_on_append_sep: "split_on d (s @ d # t) = split_on d s @ split_on d t"
proof (induction s)
  case (Cons c s)
  obtain p ps where p: "split_on d s = p # ps" by (cases "split_on d s") auto
  with Cons show ?case by auto
qed simp

lemma of_char_lower_char:
  "of_char (lower_char c) = (if is_upper_char c then of_char c + 32 else (of_char c :: nat))"
  by (simp add: lower_char_def is_upper_char_def char_in_def)

lemma lower_char_idem [simp]: "lower_char (lower_char c) = lower_char c"
  by (simp add: lower_char_def is_upper_char_def char_in_def)

lemma to_lower_idem [simp]: "to_lower (to_lower s) = to_lower s"
  by (simp add: to_lower_def)

lemma lower_char_not_upper [simp]: "\<not> is_upper_char (lower_char c)"
  by (simp add: lower_char_def is_upper_char_def char_in_def)

lemma is_space_lower_char [simp]: "is_space_char (lower_char c) = is_space_char c"
proof (cases "is_upper_char c")
  case True
  then have u: "65 \<le> (of_char c :: nat)" "(of_char c :: nat) \<le> 90"
    by (auto simp: is_upper_char_def char_in_def)
  have "(of_char (lower_char c) :: nat) = of_char c + 32" using True by (simp add: of_char_lower_char)
  with u show ?thesis
    by (auto simp: is_space_char_def char_in_def)
next
  case False then show ?thesis by (simp add: lower_char_def)
qed

lemma dropWhile_map_lower:
  "dropWhile p (map lower_char s) = map lower_char (dropWhile (p \<circ> lower_char) s)"
  by (simp add: dropWhile_map)

lemma trim_space_to_lower: "trim_space (to_lower s) = to_lower (trim_space s)"
  by (simp add: trim_space_def trim_by_def trim_right_by_def trim_left_by_def to_lower_def
      dropWhile_map_lower rev_map comp_def)

lemma trim_right_by_idem [simp]: "trim_right_by p (trim_right_by p s) = trim_right_by p s"
  by (simp add: trim_right_by_def dropWhile_idem)

lemma trim_right_by_last: "trim_right_by p s \<noteq> [] \<Longrightarrow> \<not> p (last (trim_right_by p s))"
  by (simp add: trim_right_by_def last_rev hd_dropWhile)

lemma trim_right_by_Nil: "trim_right_by p s = [] \<longleftrightarrow> list_all p s"
  by (simp add: trim_right_by_def list_all_iff)

lemma trim_right_by_snoc:
  "trim_right_by p (s @ [c]) = (if p c then trim_right_by p s else s @ [c])"
  by (simp add: trim_right_by_def)

lemma trim_right_by_fixed: "s = [] \<or> \<not> p (last s) \<Longrightarrow> trim_right_by p s = s"
  by (cases s rule: rev_cases) (auto simp: trim_right_by_snoc, simp add: trim_right_by_def)

lemma trim_right_by_prefix: "\<exists>t. s = trim_right_by p s @ t \<and> list_all p t"
  unfolding trim_right_by_def
  by (rule exI [of _ "rev (takeWhile p (rev s))"])
     (metis list_all_iff rev_append rev_rev_ident set_rev set_takeWhileD takeWhile_dropWhile_id)

lemma trim_right_by_hd:
  "trim_right_by p s \<noteq> [] \<Longrightarrow> hd (trim_right_by p s) = hd s"
  by (metis hd_append2 trim_right_by_prefix)

lemma trim_left_by_fixed: "s = [] \<or> \<not> p (hd s) \<Longrightarrow> trim_left_by p s = s"
  by (cases s) (auto simp: trim_left_by_def)

lemma trim_by_fixed: "s = [] \<or> (\<not> p (hd s) \<and> \<not> p (last s)) \<Longrightarrow> trim_by p s = s"
  by (auto simp: trim_by_def trim_left_by_fixed trim_right_by_fixed)

lemma trim_by_hd_last:
  "trim_by p s \<noteq> [] \<Longrightarrow> \<not> p (hd (trim_by p s)) \<and> \<not> p (last (trim_by p s))"
  unfolding trim_by_def
  by (metis hd_dropWhile trim_left_by_def trim_right_by_def trim_right_by_hd trim_right_by_last
      dropWhile.simps(1) rev.simps(1))

lemma trim_by_idem [simp]: "trim_by p (trim_by p s) = trim_by p s"
  by (metis trim_by_fixed trim_by_hd_last)

lemma set_trim_right_by: "set (trim_right_by p s) \<subseteq> set s"
  by (auto simp: trim_right_by_def dest: set_dropWhileD)

lemma set_trim_by: "set (trim_by p s) \<subseteq> set s"
  by (auto simp: trim_by_def trim_right_by_def trim_left_by_def dest!: set_dropWhileD)

lemma length_trim_by: "length (trim_by p s) \<le> length s"
  by (metis trim_by_def trim_left_by_def trim_right_by_def length_dropWhile_le length_rev order_trans)

lemma has_prefix_iff: "has_prefix s p \<longleftrightarrow> (\<exists>t. s = p @ t)"
  by (auto simp: has_prefix_def) (metis append_take_drop_id)

lemma has_suffix_iff: "has_suffix s p \<longleftrightarrow> (\<exists>t. s = t @ p)"
  by (auto simp: has_suffix_def) (metis append_take_drop_id)

lemma contains_iff: "contains s t \<longleftrightarrow> (\<exists>u v. s = u @ t @ v)"
proof (induction s)
  case (Cons c s)
  show ?case
  proof
    assume "contains (c # s) t"
    then consider "has_prefix (c # s) t" | "contains s t" by auto
    then show "\<exists>u v. c # s = u @ t @ v"
    proof cases
      case 1 then show ?thesis by (metis append_Nil has_prefix_iff)
    next
      case 2 then show ?thesis using Cons.IH by (metis append_Cons)
    qed
  next
    assume "\<exists>u v. c # s = u @ t @ v"
    then obtain u v where uv: "c # s = u @ t @ v" by blast
    show "contains (c # s) t"
    proof (cases u)
      case Nil
      with uv have "has_prefix (c # s) t" by (auto simp: has_prefix_iff)
      then show ?thesis by simp
    next
      case (Cons a u')
      with uv Cons.IH show ?thesis by auto
    qed
  qed
qed auto

lemma length_digits_of: "n < 10 ^ Suc k \<Longrightarrow> length (digits_of n) \<le> Suc k"
proof (induction k arbitrary: n)
  case (Suc k)
  then have "n div 10 < 10 ^ Suc k" by (simp add: less_mult_imp_div_less)
  with Suc show ?case by (subst digits_of.simps) auto
qed (subst digits_of.simps, simp)

lemma digits_of_not_Nil [simp]: "digits_of n \<noteq> []"
  by (subst digits_of.simps) auto

lemma is_digit_char_digit: "k < 10 \<Longrightarrow> is_digit_char (char_of (48 + k :: nat))"
  by (simp add: is_digit_char_def char_in_def)

lemma digits_of_digits: "list_all is_digit_char (digits_of n)"
proof (induction n rule: digits_of.induct)
  case (1 n)
  show ?case
  proof (cases "n < 10")
    case True
    then show ?thesis using is_digit_char_digit [of n] by (subst digits_of.simps) simp
  next
    case False
    then show ?thesis using 1 is_digit_char_digit [of "n mod 10"] by (subst digits_of.simps) simp
  qed
qed

section \<open>Errors\<close>

text \<open>
  The error values of the services: the sentinel \<open>sql.ErrNoRows\<close>, a driver or network failure,
  a constraint violation, a message made with \<open>errors.New\<close> or \<open>fmt.Errorf\<close> (the text before the
  wrapped cause), and the \<open>apierr.ProblemDetail\<close> of an HTTP answer.
\<close>

datatype go_error =
    ErrNoRows
  | ErrIO
  | ErrUnique
  | ErrMsg string
  | ErrWrap string go_error
  | ErrProblem nat string
  | ErrTokenExpired
  | ErrInvalidToken

section \<open>Result-and-state functions\<close>

type_synonym ('s, 'a) act = "'s \<Rightarrow> (go_error + 'a) \<times> 's"

definition ret :: "'a \<Rightarrow> ('s, 'a) act" where
  "ret x = (\<lambda>s. (Inr x, s))"

definition err :: "go_error \<Rightarrow> ('s, 'a) act" where
  "err e = (\<lambda>s. (Inl e, s))"

text \<open>\<open>handle m h k\<close> is Go's \<open>x, err := m(); if err != nil { h(err) } else { k(x) }\<close>.\<close>

definition handle :: "('s, 'a) act \<Rightarrow> (go_error \<Rightarrow> ('s, 'b) act) \<Rightarrow> ('a \<Rightarrow> ('s, 'b) act) \<Rightarrow> ('s, 'b) act" where
  "handle m h k = (\<lambda>s. case m s of (Inl e, s') \<Rightarrow> h e s' | (Inr x, s') \<Rightarrow> k x s')"

text \<open>\<open>bind\<close> is \<open>if err != nil { return err }\<close>; \<open>seq\<close> drops the value; \<open>attempt\<close> is
  \<open>_ = m()\<close> and \<open>if err := m(); err != nil { log }\<close>: the error is not propagated.\<close>

definition bind :: "('s, 'a) act \<Rightarrow> ('a \<Rightarrow> ('s, 'b) act) \<Rightarrow> ('s, 'b) act" where
  "bind m k = handle m err k"

definition seq :: "('s, 'a) act \<Rightarrow> ('s, 'b) act \<Rightarrow> ('s, 'b) act" where
  "seq m k = bind m (\<lambda>_. k)"

definition attempt :: "('s, 'a) act \<Rightarrow> ('s, unit) act" where
  "attempt m = handle m (\<lambda>_. ret ()) (\<lambda>_. ret ())"

definition gets :: "('s \<Rightarrow> 'a) \<Rightarrow> ('s, 'a) act" where
  "gets f = (\<lambda>s. (Inr (f s), s))"

definition modify :: "('s \<Rightarrow> 's) \<Rightarrow> ('s, unit) act" where
  "modify f = (\<lambda>s. (Inr (), f s))"

fun for_each :: "('a \<Rightarrow> ('s, unit) act) \<Rightarrow> 'a list \<Rightarrow> ('s, unit) act" where
  "for_each f [] = ret ()"
| "for_each f (x # xs) = seq (f x) (for_each f xs)"

lemma handle_eval [simp]:
  "m s = (Inl e, s') \<Longrightarrow> handle m h k s = h e s'"
  "m s = (Inr x, s') \<Longrightarrow> handle m h k s = k x s'"
  by (simp_all add: handle_def)

lemma ret_eval [simp, go_io]: "ret x s = (Inr x, s)" by (simp add: ret_def)
lemma err_eval [simp, go_io]: "err e s = (Inl e, s)" by (simp add: err_def)
lemma gets_eval [simp, go_io]: "gets f s = (Inr (f s), s)" by (simp add: gets_def)
lemma modify_eval [simp, go_io]: "modify f s = (Inr (), f s)" by (simp add: modify_def)

lemma handle_cases:
  "handle m h k s = (r, s'') \<longleftrightarrow>
     (\<exists>e s'. m s = (Inl e, s') \<and> h e s' = (r, s'')) \<or> (\<exists>x s'. m s = (Inr x, s') \<and> k x s' = (r, s''))"
  by (auto simp: handle_def split: prod.splits sum.splits)

lemma bind_Inr [go_io]:
  "bind m k s = (Inr y, s'') \<longleftrightarrow> (\<exists>x s'. m s = (Inr x, s') \<and> k x s' = (Inr y, s''))"
  by (auto simp: bind_def handle_cases)

lemma bind_Inl:
  "bind m k s = (Inl e, s'') \<longleftrightarrow>
     m s = (Inl e, s'') \<or> (\<exists>x s'. m s = (Inr x, s') \<and> k x s' = (Inl e, s''))"
  by (auto simp: bind_def handle_cases)

lemma seq_Inr [go_io]:
  "seq m k s = (Inr y, s'') \<longleftrightarrow> (\<exists>x s'. m s = (Inr x, s') \<and> k s' = (Inr y, s''))"
  by (auto simp: seq_def bind_Inr)

lemma attempt_eval [go_io]: "attempt m s = (Inr (), snd (m s))"
  by (auto simp: attempt_def handle_def split: prod.splits sum.splits)

text \<open>\<open>keeps P m\<close>: whatever \<open>m\<close> returns, an error included, the state it leaves satisfies \<open>P\<close>
  if the state it started from did.\<close>

definition keeps :: "('s \<Rightarrow> bool) \<Rightarrow> ('s, 'a) act \<Rightarrow> bool" where
  "keeps P m \<longleftrightarrow> (\<forall>s. P s \<longrightarrow> P (snd (m s)))"

lemma keepsD: "keeps P m \<Longrightarrow> P s \<Longrightarrow> m s = (r, s') \<Longrightarrow> P s'"
  by (auto simp: keeps_def dest!: spec [of _ s])

lemma keeps_ret [keeps_intros, simp]: "keeps P (ret x)" by (simp add: keeps_def)
lemma keeps_err [keeps_intros, simp]: "keeps P (err e)" by (simp add: keeps_def)
lemma keeps_gets [keeps_intros, simp]: "keeps P (gets f)" by (simp add: keeps_def)
lemma keeps_modify [keeps_intros]: "(\<And>s. P s \<Longrightarrow> P (f s)) \<Longrightarrow> keeps P (modify f)" by (simp add: keeps_def)

lemma keeps_handle [keeps_intros]:
  "keeps P m \<Longrightarrow> (\<And>e. keeps P (h e)) \<Longrightarrow> (\<And>x. keeps P (k x)) \<Longrightarrow> keeps P (handle m h k)"
  unfolding keeps_def handle_def by (fastforce split: prod.splits sum.splits)

lemma keeps_bind [keeps_intros]:
  "keeps P m \<Longrightarrow> (\<And>x. keeps P (k x)) \<Longrightarrow> keeps P (bind m k)"
  unfolding bind_def by (intro keeps_intros)

lemma keeps_seq [keeps_intros]: "keeps P m \<Longrightarrow> keeps P k \<Longrightarrow> keeps P (seq m k)"
  unfolding seq_def by (intro keeps_intros)

lemma keeps_attempt [keeps_intros]: "keeps P m \<Longrightarrow> keeps P (attempt m)"
  unfolding attempt_def by (intro keeps_intros)

lemma keeps_if [keeps_intros]:
  "(b \<Longrightarrow> keeps P m) \<Longrightarrow> (\<not> b \<Longrightarrow> keeps P n) \<Longrightarrow> keeps P (if b then m else n)"
  by simp

lemma keeps_option [keeps_intros]:
  "(x = None \<Longrightarrow> keeps P m) \<Longrightarrow> (\<And>y. x = Some y \<Longrightarrow> keeps P (n y)) \<Longrightarrow>
   keeps P (case x of None \<Rightarrow> m | Some y \<Rightarrow> n y)"
  by (cases x) auto

lemma keeps_let [keeps_intros]: "(\<And>x. keeps P (f x)) \<Longrightarrow> keeps P (let x = v in f x)"
  by simp

lemma keeps_pair [keeps_intros]: "(\<And>x y. keeps P (f x y)) \<Longrightarrow> keeps P (case z of (x, y) \<Rightarrow> f x y)"
  by (cases z) simp

lemma keeps_for_each [keeps_intros]: "(\<And>x. keeps P (f x)) \<Longrightarrow> keeps P (for_each f xs)"
  by (induction xs) (auto intro: keeps_intros)

text \<open>\<open>ensures A m Q\<close>: from a state that satisfies \<open>A\<close>, the result and the state \<open>m\<close> ends with
  satisfy \<open>Q\<close>; \<open>succeeds B\<close> is the \<open>Q\<close> of an action that returns no error.\<close>

definition ensures :: "('s \<Rightarrow> bool) \<Rightarrow> ('s, 'a) act \<Rightarrow> (go_error + 'a \<Rightarrow> 's \<Rightarrow> bool) \<Rightarrow> bool" where
  "ensures A m Q \<longleftrightarrow> (\<forall>s. A s \<longrightarrow> Q (fst (m s)) (snd (m s)))"

definition succeeds :: "('a \<Rightarrow> 's \<Rightarrow> bool) \<Rightarrow> go_error + 'a \<Rightarrow> 's \<Rightarrow> bool" where
  "succeeds B r s = (case r of Inl _ \<Rightarrow> False | Inr x \<Rightarrow> B x s)"

lemma succeeds_simps [simp]: "succeeds B (Inr x) s = B x s" "succeeds B (Inl e) s = False"
  by (simp_all add: succeeds_def)

lemma ensuresD: "ensures A m Q \<Longrightarrow> A s \<Longrightarrow> m s = (r, s') \<Longrightarrow> Q r s'"
  unfolding ensures_def by (metis fst_conv snd_conv)

lemma ens_pre: "ensures A m Q \<Longrightarrow> (\<And>s. B s \<Longrightarrow> A s) \<Longrightarrow> ensures B m Q"
  by (simp add: ensures_def)

lemma ens_post: "ensures A m Q \<Longrightarrow> (\<And>r s. Q r s \<Longrightarrow> R r s) \<Longrightarrow> ensures A m R"
  by (simp add: ensures_def)

lemma ens_ret: "(\<And>s. A s \<Longrightarrow> Q (Inr x) s) \<Longrightarrow> ensures A (ret x) Q"
  by (simp add: ensures_def)

lemma ens_err: "(\<And>s. A s \<Longrightarrow> Q (Inl e) s) \<Longrightarrow> ensures A (err e) Q"
  by (simp add: ensures_def)

lemma ens_modify: "(\<And>s. A s \<Longrightarrow> Q (Inr ()) (f s)) \<Longrightarrow> ensures A (modify f) Q"
  by (simp add: ensures_def)

lemma ens_handle:
  "ensures A m R \<Longrightarrow> (\<And>e. ensures (R (Inl e)) (h e) Q) \<Longrightarrow> (\<And>x. ensures (R (Inr x)) (k x) Q) \<Longrightarrow>
   ensures A (handle m h k) Q"
  unfolding ensures_def handle_def by (fastforce split: prod.splits sum.splits)

lemma ens_bind: "ensures A m (succeeds B) \<Longrightarrow> (\<And>x. ensures (B x) (k x) Q) \<Longrightarrow> ensures A (bind m k) Q"
  unfolding bind_def by (rule ens_handle) (auto simp: ensures_def)

lemma ens_seq: "ensures A m (succeeds (\<lambda>_. B)) \<Longrightarrow> ensures B k Q \<Longrightarrow> ensures A (seq m k) Q"
  unfolding seq_def by (rule ens_bind)

lemma ens_gets: "(\<And>x. ensures (\<lambda>s. A s \<and> x = f s) (k x) Q) \<Longrightarrow> ensures A (bind (gets f) k) Q"
  by (simp add: ensures_def bind_def)

lemma ens_if: "(b \<Longrightarrow> ensures A m Q) \<Longrightarrow> (\<not> b \<Longrightarrow> ensures A n Q) \<Longrightarrow> ensures A (if b then m else n) Q"
  by simp

lemma ens_for_each: "(\<And>x. ensures A (f x) (succeeds (\<lambda>_. A))) \<Longrightarrow> ensures A (for_each f xs) (succeeds (\<lambda>_. A))"
  by (induction xs) (auto intro: ens_ret ens_seq)

end
