(* ===== verification/Model_Data.thy ===== *)
theory Model_Data imports Prelude_Go begin

text \<open>
  The data of the program, from \<open>apps/api/internal/model\<close>: one record per database model,
  with the columns of the struct in its order.  Bun relation fields (\<open>bun:"rel:..."\<close>), which
  a query only fills on request, are left out, but for \<open>Project.Team\<close>, which the project store
  attaches.  \<open>BaseModel\<close> is embedded by record extension, as the Go structs embed it, so the row
  operations of \<open>Pg_Store\<close> work on every model.  A \<open>*T\<close> is \<open>T option\<close>; a Go string type with a
  closed set of constants is a datatype, one that takes values from outside unchecked (roles,
  environments) is a \<open>string\<close>.  Times are nanoseconds as \<open>int\<close>.
\<close>

type_synonym uuid = "128 word"
type_synonym time = int
type_synonym duration = int
type_synonym str_map = "string \<rightharpoonup> string"

definition uuid_nil :: uuid where
  "uuid_nil = 0"

definition second :: duration where "second = 1000000000"
definition minute :: duration where "minute = 60 * second"
definition hour :: duration where "hour = 60 * minute"

lemma duration_pos [simp]: "0 < second" "0 < minute" "0 < hour"
  by (simp_all add: second_def minute_def hour_def)

record base_model =
  bm_id :: uuid
  bm_created :: time
  bm_updated :: time
  bm_deleted :: "time option"

section \<open>Organisations, users, teams\<close>

type_synonym role = string

definition role_admin :: role where "role_admin = ''admin''"
definition role_member :: role where "role_member = ''member''"

lemma role_distinct [simp]: "role_admin \<noteq> role_member" "role_member \<noteq> role_admin"
  by (simp_all add: role_admin_def role_member_def)

lemma role_nonempty [simp]: "role_admin \<noteq> []" "role_member \<noteq> []"
  by (simp_all add: role_admin_def role_member_def)

record organization = base_model +
  org_name :: string
  org_description :: string

record user = base_model +
  u_org :: uuid
  u_email :: string
  u_password_hash :: string
  u_display_name :: string
  u_first_name :: string
  u_last_name :: string
  u_role :: role
  u_avatar :: string
  u_2fa_secret :: string
  u_2fa_enabled :: bool
  u_token_version :: int
  u_super_admin :: bool

definition predefined_avatars :: "string list" where
  "predefined_avatars =
     [''bear'', ''cat'', ''dog'', ''fox'', ''koala'', ''lion'', ''monkey'', ''owl'',
      ''panda'', ''penguin'', ''rabbit'', ''tiger'', ''whale'', ''wolf'']"

definition is_valid_avatar :: "string \<Rightarrow> bool" where
  "is_valid_avatar a = list_ex (\<lambda>x. x = a) predefined_avatars"

record team = base_model +
  t_org :: uuid
  t_name :: string
  t_description :: string

record team_member =
  tm_id :: uuid
  tm_team :: uuid
  tm_user :: uuid
  tm_created :: time

record invitation =
  inv_id :: uuid
  inv_org :: uuid
  inv_email :: string
  inv_role :: string
  inv_token :: string
  inv_invited_by :: "uuid option"
  inv_expires :: time
  inv_accepted :: "time option"
  inv_created :: time

record org_member =
  om_id :: uuid
  om_email :: string
  om_display_name :: string
  om_first_name :: string
  om_last_name :: string
  om_avatar :: string
  om_role :: string
  om_created :: time

record api_key = base_model +
  ak_org :: uuid
  ak_user :: uuid
  ak_name :: string
  ak_prefix :: string
  ak_hash :: string
  ak_role :: role
  ak_last_used :: "time option"
  ak_expires :: "time option"

record setting =
  st_key :: string
  st_value :: string

record user_identity = base_model +
  ui_user :: uuid
  ui_provider :: string
  ui_subject :: string
  ui_email :: string

record used_challenge =
  uc_jti :: string
  uc_expires :: time

section \<open>Projects\<close>

type_synonym environment = string

definition valid_environments :: "environment list" where
  "valid_environments = [''prod'', ''testing'', ''sandbox'', ''qa'', ''poc'', ''development'']"

definition env_is_valid :: "environment \<Rightarrow> bool" where
  "env_is_valid e = list_ex (\<lambda>v. e = v) valid_environments"

record resource_quota =
  rq_cpu :: string
  rq_mem :: string
  rq_pods :: int
  rq_pvcs :: int
  rq_storage :: string

definition zero_quota :: resource_quota where
  "zero_quota = \<lparr>rq_cpu = [], rq_mem = [], rq_pods = 0, rq_pvcs = 0, rq_storage = []\<rparr>"

record project = base_model +
  p_org :: uuid
  p_team :: uuid
  p_team_row :: "team option"
  p_name :: string
  p_namespace :: string
  p_description :: string
  p_environment :: environment
  p_env :: "str_map option"
  p_service_account :: string
  p_quota :: "resource_quota option"
  p_netpol :: bool

text \<open>\<open>AfterScanRow\<close>: a row read from the database has no nil map or nil quota.\<close>

definition project_after_scan :: "project \<Rightarrow> project" where
  "project_after_scan p =
     (let p = (if p_env p = None then p\<lparr>p_env := Some Map.empty\<rparr> else p)
      in if p_quota p = None then p\<lparr>p_quota := Some zero_quota\<rparr> else p)"

section \<open>Applications, deployments, domains\<close>

datatype source_type = SourceGit | SourceImage

datatype app_status =
    AppIdle | AppBuilding | AppDeploying | AppRestarting | AppRunning | AppPartial
  | AppStopping | AppStopped | AppError

record port_mapping =
  pm_container :: int
  pm_service :: int
  pm_protocol :: string

record health_check =
  hc_path :: string
  hc_port :: int
  hc_initial_delay :: int
  hc_period :: int
  hc_timeout :: int
  hc_failures :: int
  hc_type :: string
  hc_command :: string

record autoscaling =
  as_enabled :: bool
  as_min :: int
  as_max :: int
  as_cpu :: int
  as_mem :: int

record volume_mount =
  vm_name :: string
  vm_path :: string
  vm_size :: string
  vm_class :: string
  vm_pvc :: string

record strategy_config =
  sc_max_surge :: string
  sc_max_unavailable :: string

record application = base_model +
  a_project :: uuid
  a_name :: string
  a_description :: string
  a_critical :: bool
  a_source :: source_type
  a_git_repo :: string
  a_git_branch :: string
  a_git_provider :: "uuid option"
  a_registry :: "uuid option"
  a_image :: string
  a_compose :: string
  a_build_type :: string
  a_dockerfile :: string
  a_build_context :: string
  a_watch_paths :: "string list"
  a_build_args :: str_map
  a_no_cache :: bool
  a_replicas :: int
  a_cpu_limit :: string
  a_mem_limit :: string
  a_env :: str_map
  a_secrets :: str_map
  a_ports :: "port_mapping list"
  a_health :: health_check
  a_autoscaling :: autoscaling
  a_cpu_request :: string
  a_mem_request :: string
  a_volumes :: "volume_mount list"
  a_strategy :: string
  a_strategy_config :: strategy_config
  a_grace :: int
  a_node_pool :: string
  a_build_env :: str_map
  a_target :: "uuid option"
  a_provider :: string
  a_region :: string
  a_namespace :: string
  a_k8s_name :: string
  a_status :: app_status
  a_webhook_secret :: string
  a_auto_deploy :: bool

datatype deploy_status =
    DeployQueued | DeployBuilding | DeployDeploying | DeploySuccess | DeployFailed | DeployCancelled

record deployment = base_model +
  d_app :: uuid
  d_status :: deploy_status
  d_cancel :: bool
  d_commit :: string
  d_image :: string
  d_log :: string
  d_started :: "time option"
  d_finished :: "time option"
  d_trigger :: string
  d_triggered_by :: "uuid option"
  d_app_name :: string
  d_project :: uuid

record domain = base_model +
  dom_app :: uuid
  dom_host :: string
  dom_tls :: bool
  dom_auto_cert :: bool
  dom_cert_secret :: string
  dom_force_https :: bool
  dom_cert_expiry :: "time option"
  dom_ready :: bool

end
