(* ===== verification/Rate_Limiter.thy ===== *)
theory Rate_Limiter imports Model_Data begin

text \<open>
  \<open>RateLimit\<close> of \<open>api/middleware/auth.go\<close>: a fixed window per client address.  The state is the map
  \<open>attempts\<close> guarded by the mutex; a request runs the handler's critical section, a tick of the window
  timer the cleaning loop.  A trace is the order in which they took the mutex, with the time each read.
  Times in a trace never go back, as \<open>time.Now\<close> carries the monotonic clock.
\<close>

record rl_entry =
  rl_count :: int
  rl_reset :: time

type_synonym rl_state = "string \<rightharpoonup> rl_entry"

definition rate_limit :: "int \<Rightarrow> duration \<Rightarrow> time \<Rightarrow> string \<Rightarrow> rl_state \<Rightarrow> bool \<times> rl_state" where
  "rate_limit maxAttempts window t ip st =
     (case st ip of
        None \<Rightarrow> (True, st(ip \<mapsto> \<lparr>rl_count = 1, rl_reset = t + window\<rparr>))
      | Some e \<Rightarrow>
          if t > rl_reset e then (True, st(ip \<mapsto> \<lparr>rl_count = 1, rl_reset = t + window\<rparr>))
          else (let e' = e\<lparr>rl_count := rl_count e + 1\<rparr> in
                (\<not> rl_count e' > maxAttempts, st(ip \<mapsto> e'))))"

definition rl_cleanup :: "time \<Rightarrow> rl_state \<Rightarrow> rl_state" where
  "rl_cleanup t st = (\<lambda>k. case st k of None \<Rightarrow> None | Some e \<Rightarrow> if t > rl_reset e then None else Some e)"

datatype rl_event = Request string time | Tick time

primrec ev_time :: "rl_event \<Rightarrow> time" where
  "ev_time (Request ip t) = t"
| "ev_time (Tick t) = t"

primrec is_request_of :: "string \<Rightarrow> rl_event \<Rightarrow> bool" where
  "is_request_of ip (Request i t) = (i = ip)"
| "is_request_of ip (Tick t) = False"

primrec is_request :: "rl_event \<Rightarrow> bool" where
  "is_request (Request i t) = True"
| "is_request (Tick t) = False"

text \<open>The requests let through, in order, with their time.\<close>

fun rl_run :: "int \<Rightarrow> duration \<Rightarrow> rl_state \<Rightarrow> rl_event list \<Rightarrow> (string \<times> time) list" where
  "rl_run m w st [] = []"
| "rl_run m w st (Request ip t # evs) =
     (case rate_limit m w t ip st of (ok, st') \<Rightarrow> (if ok then [(ip, t)] else []) @ rl_run m w st' evs)"
| "rl_run m w st (Tick t # evs) = rl_run m w (rl_cleanup t st) evs"

definition rl_trace :: "rl_event list \<Rightarrow> bool" where
  "rl_trace evs = sorted (map ev_time evs)"

section \<open>Cleaning is not observable, addresses are independent\<close>

text \<open>Two states that no later request can tell apart: they agree but for entries expired by \<open>t\<close>.\<close>

definition rl_live :: "time \<Rightarrow> rl_entry option \<Rightarrow> rl_entry option" where
  "rl_live t e = (case e of None \<Rightarrow> None | Some e \<Rightarrow> if t > rl_reset e then None else Some e)"

definition rl_agree :: "string set \<Rightarrow> time \<Rightarrow> rl_state \<Rightarrow> rl_state \<Rightarrow> bool" where
  "rl_agree A t s1 s2 \<longleftrightarrow> (\<forall>k \<in> A. rl_live t (s1 k) = rl_live t (s2 k))"

lemma rl_live_mono: "rl_live t e1 = rl_live t e2 \<Longrightarrow> t \<le> t' \<Longrightarrow> rl_live t' e1 = rl_live t' e2"
  by (auto simp: rl_live_def split: option.splits if_splits)

lemma rl_agree_mono: "rl_agree A t s1 s2 \<Longrightarrow> t \<le> t' \<Longrightarrow> rl_agree A t' s1 s2"
  by (auto simp: rl_agree_def intro: rl_live_mono)

lemma rl_live_idem: "t \<le> t' \<Longrightarrow> rl_live t' (rl_live t e) = rl_live t' e"
  by (auto simp: rl_live_def split: option.splits)

lemma rl_cleanup_live: "rl_cleanup t st k = rl_live t (st k)"
  by (simp add: rl_cleanup_def rl_live_def)

lemma rl_agree_cleanup: "rl_agree A t (rl_cleanup t st) st"
  by (simp add: rl_agree_def rl_cleanup_live rl_live_idem)

lemma rl_agree_trans: "rl_agree A t s1 s2 \<Longrightarrow> rl_agree A t s2 s3 \<Longrightarrow> rl_agree A t s1 s3"
  by (simp add: rl_agree_def)

lemma rl_agree_sym: "rl_agree A t s1 s2 \<Longrightarrow> rl_agree A t s2 s1"
  by (simp add: rl_agree_def)

lemma rate_limit_live:
  "rate_limit m w t ip st =
     (case rl_live t (st ip) of
        None \<Rightarrow> (True, st(ip \<mapsto> \<lparr>rl_count = 1, rl_reset = t + w\<rparr>))
      | Some e \<Rightarrow> (rl_count e + 1 \<le> m, st(ip \<mapsto> e\<lparr>rl_count := rl_count e + 1\<rparr>)))"
  by (auto simp: rate_limit_def rl_live_def Let_def split: option.splits)

lemma rate_limit_agree:
  assumes "rl_agree A t s1 s2" "ip \<in> A"
  shows "fst (rate_limit m w t ip s1) = fst (rate_limit m w t ip s2)"
    and "rl_agree A t (snd (rate_limit m w t ip s1)) (snd (rate_limit m w t ip s2))"
  using assms by (auto simp: rate_limit_live rl_agree_def split: option.splits)

lemma rate_limit_frame: "ip \<notin> A \<Longrightarrow> rl_agree A t (snd (rate_limit m w t ip s)) s"
  by (auto simp: rate_limit_live rl_agree_def split: option.splits)

lemma rl_run_cleanup_agree:
  assumes "rl_agree UNIV t s1 s2" "\<forall>e \<in> set evs. t \<le> ev_time e" "rl_trace evs"
  shows "rl_run m w s1 evs = rl_run m w s2 (filter is_request evs)"
  using assms
proof (induction evs arbitrary: s1 s2 t)
  case (Cons e evs)
  have later: "\<forall>x \<in> set evs. ev_time e \<le> ev_time x" and tr: "rl_trace evs"
    using Cons.prems(3) by (auto simp: rl_trace_def)
  show ?case
  proof (cases e)
    case (Request ip t')
    with Cons.prems have a: "rl_agree UNIV t' s1 s2" by (auto intro: rl_agree_mono)
    from rate_limit_agree [OF this, of ip m w] Cons.IH [OF _ _ tr] later Request
    show ?thesis by (auto split: prod.splits)
  next
    case (Tick t')
    with Cons.prems have "rl_agree UNIV t' s1 s2" by (auto intro: rl_agree_mono)
    then have "rl_agree UNIV t' (rl_cleanup t' s1) s2" using rl_agree_cleanup rl_agree_trans by blast
    from Cons.IH [OF this _ tr] later Tick show ?thesis by simp
  qed
qed simp

lemma rl_run_of_address:
  assumes "rl_agree {ip} t s1 s2" "\<forall>e \<in> set evs. t \<le> ev_time e" "rl_trace evs"
  shows "filter (\<lambda>(i, _). i = ip) (rl_run m w s1 evs) = rl_run m w s2 (filter (is_request_of ip) evs)"
  using assms
proof (induction evs arbitrary: s1 s2 t)
  case (Cons e evs)
  have later: "\<forall>x \<in> set evs. ev_time e \<le> ev_time x" and tr: "rl_trace evs"
    using Cons.prems(3) by (auto simp: rl_trace_def)
  show ?case
  proof (cases e)
    case (Request i t')
    with Cons.prems have a: "rl_agree {ip} t' s1 s2" by (auto intro: rl_agree_mono)
    show ?thesis
    proof (cases "i = ip")
      case True
      from rate_limit_agree [OF a, of ip m w] Cons.IH [OF _ _ tr] later Request True
      show ?thesis by (auto split: prod.splits)
    next
      case False
      then have "rl_agree {ip} t' (snd (rate_limit m w t' i s1)) s2"
        using rate_limit_frame [of i "{ip}" t' m w s1] a by (auto intro: rl_agree_trans)
      from Cons.IH [OF this _ tr] later Request False show ?thesis by (auto split: prod.splits)
    qed
  next
    case (Tick t')
    with Cons.prems have "rl_agree {ip} t' s1 s2" by (auto intro: rl_agree_mono)
    then have "rl_agree {ip} t' (rl_cleanup t' s1) s2" using rl_agree_cleanup rl_agree_trans by blast
    from Cons.IH [OF this _ tr] later Tick show ?thesis by simp
  qed
qed simp

section \<open>The bound\<close>

text \<open>While the window of an address is open, what is let through fits in what the count leaves.\<close>

lemma rl_run_open_window:
  assumes "st ip = Some e" "\<forall>x \<in> set evs. is_request_of ip x \<and> ev_time x \<le> rl_reset e"
  shows "length (rl_run m w st evs) \<le> nat (m - rl_count e)"
  using assms
proof (induction evs arbitrary: st e)
  case (Cons x evs)
  from Cons.prems obtain t where x: "x = Request ip t" "t \<le> rl_reset e" by (cases x) auto
  define e' where "e' = e\<lparr>rl_count := rl_count e + 1\<rparr>"
  define st' where "st' = st(ip \<mapsto> e')"
  have step: "rate_limit m w t ip st = (rl_count e + 1 \<le> m, st')"
    using Cons.prems(1) x by (simp add: rate_limit_def e'_def st'_def Let_def not_less)
  have "length (rl_run m w st' evs) \<le> nat (m - rl_count e')"
    using Cons.prems(2) by (intro Cons.IH) (auto simp: st'_def e'_def)
  then show ?case by (auto simp: x step e'_def)
qed simp

lemma rl_run_span:
  assumes "rl_trace evs" "\<forall>x \<in> set evs. is_request_of ip x \<and> a \<le> ev_time x \<and> ev_time x \<le> a + w"
  shows "length (rl_run m w st evs) \<le>
    (case st ip of None \<Rightarrow> 0 | Some e \<Rightarrow> nat (m - rl_count e)) + nat (max 1 m)"
  using assms
proof (induction evs arbitrary: st)
  case (Cons x evs)
  from Cons.prems obtain t where x: "x = Request ip t" "a \<le> t" by (cases x) auto
  have tr: "rl_trace evs" using Cons.prems(1) by (simp add: rl_trace_def)
  have rest: "\<forall>x \<in> set evs. is_request_of ip x \<and> a \<le> ev_time x \<and> ev_time x \<le> a + w"
    using Cons.prems(2) by auto
  show ?case
  proof (cases "rl_live t (st ip)")
    case None
    define e' where "e' = \<lparr>rl_count = 1, rl_reset = t + w\<rparr>"
    have step: "rate_limit m w t ip st = (True, st(ip \<mapsto> e'))"
      using None by (simp add: rate_limit_live e'_def)
    have "length (rl_run m w (st(ip \<mapsto> e')) evs) \<le> nat (m - rl_count e')"
      using rest x(2) by (intro rl_run_open_window [of _ ip]) (force simp: e'_def)+
    then show ?thesis by (auto simp: x step e'_def max_def split: option.splits)
  next
    case (Some e)
    then have e: "st ip = Some e" by (auto simp: rl_live_def split: option.splits if_splits)
    define st' where "st' = st(ip \<mapsto> e\<lparr>rl_count := rl_count e + 1\<rparr>)"
    have step: "rate_limit m w t ip st = (rl_count e + 1 \<le> m, st')"
      using Some by (simp add: rate_limit_live st'_def)
    have st'_ip: "st' ip = Some (e\<lparr>rl_count := rl_count e + 1\<rparr>)" by (simp add: st'_def)
    have "length (rl_run m w st' evs) \<le> nat (m - (rl_count e + 1)) + nat (max 1 m)"
      using Cons.IH [OF tr rest, of st'] st'_ip by simp
    then show ?thesis using e by (auto simp: x step)
  qed
qed simp


text \<open>Counts start at one and grow, so an entry left by the past takes at least one from the limit.\<close>

definition rl_counts :: "rl_state \<Rightarrow> bool" where
  "rl_counts st \<longleftrightarrow> (\<forall>k e. st k = Some e \<longrightarrow> 1 \<le> rl_count e)"

fun rl_exec :: "int \<Rightarrow> duration \<Rightarrow> rl_state \<Rightarrow> rl_event list \<Rightarrow> rl_state" where
  "rl_exec m w st [] = st"
| "rl_exec m w st (Request ip t # evs) = rl_exec m w (snd (rate_limit m w t ip st)) evs"
| "rl_exec m w st (Tick t # evs) = rl_exec m w (rl_cleanup t st) evs"

lemma rl_counts_exec: "rl_counts st \<Longrightarrow> rl_counts (rl_exec m w st evs)"
proof (induction evs arbitrary: st)
  case (Cons x evs)
  show ?case
  proof (cases x)
    case (Request ip t)
    have "rl_counts (snd (rate_limit m w t ip st))"
      using Cons.prems by (fastforce simp: rl_counts_def rate_limit_def Let_def split: option.splits)
    with Cons.IH Request show ?thesis by simp
  next
    case (Tick t)
    have "rl_counts (rl_cleanup t st)"
      using Cons.prems by (auto simp: rl_counts_def rl_cleanup_def split: option.splits if_splits)
    with Cons.IH Tick show ?thesis by simp
  qed
qed simp

lemma rl_run_append: "rl_run m w st (evs @ evs') = rl_run m w st evs @ rl_run m w (rl_exec m w st evs) evs'"
proof (induction evs arbitrary: st)
  case (Cons x evs)
  then show ?case by (cases x) (auto split: prod.splits)
qed simp

lemma rl_run_times: "(i, t) \<in> set (rl_run m w st evs) \<Longrightarrow> t \<in> ev_time ` set evs"
  by (induction m w st evs rule: rl_run.induct) (auto split: prod.splits if_splits)

lemma split_sorted_at:
  fixes f :: "'a \<Rightarrow> 'b :: linorder"
  assumes "sorted (map f xs)" "\<And>x y. f x \<le> f y \<Longrightarrow> P y \<Longrightarrow> P x"
  shows "xs = filter P xs @ filter (\<lambda>x. \<not> P x) xs"
  using assms(1)
proof (induction xs)
  case (Cons x xs)
  show ?case
  proof (cases "P x")
    case True with Cons show ?thesis by simp
  next
    case False
    with Cons.prems assms(2) have "\<forall>y \<in> set xs. \<not> P y" by auto
    then have "filter P xs = []" "filter (\<lambda>x. \<not> P x) xs = xs"
      by (auto simp: filter_empty_conv intro: filter_True)
    with False show ?thesis by simp
  qed
qed simp

definition accepted_between :: "time \<Rightarrow> time \<Rightarrow> string \<Rightarrow> (string \<times> time) list \<Rightarrow> nat" where
  "accepted_between a b ip acc = length (filter (\<lambda>(i, t). i = ip \<and> a \<le> t \<and> t \<le> b) acc)"

lemma rl_run_requests_between:
  assumes "rl_trace evs" "\<forall>x \<in> set evs. is_request_of ip x" "rl_counts st"
  shows "length (filter (\<lambda>(i, t). a \<le> t \<and> t \<le> a + w) (rl_run m w st evs)) \<le> nat (m - 1) + nat (max 1 m)"
proof -
  let ?pre = "filter (\<lambda>x. ev_time x < a) evs" and ?rest = "filter (\<lambda>x. \<not> ev_time x < a) evs"
  let ?mid = "filter (\<lambda>x. ev_time x \<le> a + w) ?rest" and ?post = "filter (\<lambda>x. \<not> ev_time x \<le> a + w) ?rest"
  let ?in = "\<lambda>(i :: string, t). a \<le> t \<and> t \<le> a + w"
  have sr: "rl_trace ?rest" using assms(1) sorted_filter by (auto simp: rl_trace_def)
  have e1: "evs = ?pre @ ?rest" using assms(1) by (intro split_sorted_at [of ev_time]) (auto simp: rl_trace_def)
  have e2: "?rest = ?mid @ ?post"
    using sr by (intro split_sorted_at [of ev_time]) (auto simp only: rl_trace_def)
  have none: "filter ?in (rl_run m w s ?pre) = []" "filter ?in (rl_run m w s ?post) = []" for s
    by (auto simp: filter_empty_conv dest!: rl_run_times)
  have sm: "rl_trace ?mid" using sr unfolding rl_trace_def by (rule sorted_filter)
  define s1 where "s1 = rl_exec m w st ?pre"
  have c: "rl_counts s1" using rl_counts_exec assms(3) by (simp add: s1_def)
  have "filter ?in (rl_run m w st evs) = filter ?in (rl_run m w s1 ?mid)"
    by (subst e1, subst e2) (simp only: rl_run_append filter_append none s1_def append_Nil append_Nil2)
  also have "length \<dots> \<le> length (rl_run m w s1 ?mid)" by simp
  also have "\<dots> \<le> (case s1 ip of None \<Rightarrow> 0 | Some e \<Rightarrow> nat (m - rl_count e)) + nat (max 1 m)"
    using assms(2) sm by (intro rl_run_span [where a = a]) auto
  also have "\<dots> \<le> nat (m - 1) + nat (max 1 m)"
    using c by (fastforce simp: rl_counts_def split: option.splits intro: nat_mono)
  finally show ?thesis .
qed


section \<open>Properties\<close>

text \<open>However requests from all addresses and cleaning ticks interleave, any stretch
  of time as long as the window sees at most \<open>(max - 1) + max\<close> requests of one address let through (\<open>1\<close> when
  \<open>max\<close> is not positive): the fixed window may let a burst through on both sides of its reset, never more.\<close>

theorem rate_limit_bound:
  assumes "rl_trace evs"
  shows "accepted_between a (a + w) ip (rl_run m w Map.empty evs) \<le> nat (m - 1) + nat (max 1 m)"
proof -
  let ?evs = "filter (is_request_of ip) evs"
  have "filter (\<lambda>(i, _). i = ip) (rl_run m w Map.empty evs) = rl_run m w Map.empty ?evs"
  proof (cases evs)
    case (Cons e _)
    then show ?thesis
      using assms by (intro rl_run_of_address [of ip "ev_time e"]) (auto simp: rl_trace_def rl_agree_def)
  qed simp
  from arg_cong [OF this, of "filter (\<lambda>(i, t). a \<le> t \<and> t \<le> a + w)"]
  have "filter (\<lambda>(i, t). i = ip \<and> a \<le> t \<and> t \<le> a + w) (rl_run m w Map.empty evs) =
      filter (\<lambda>(i, t). a \<le> t \<and> t \<le> a + w) (rl_run m w Map.empty ?evs)"
    by (simp add: case_prod_unfold)
  moreover have "rl_trace ?evs" using assms unfolding rl_trace_def by (rule sorted_filter)
  then have "length (filter (\<lambda>(i, t). a \<le> t \<and> t \<le> a + w) (rl_run m w Map.empty ?evs))
      \<le> nat (m - 1) + nat (max 1 m)"
    by (rule rl_run_requests_between [where ip = ip]) (auto simp: rl_counts_def)
  ultimately show ?thesis unfolding accepted_between_def by (simp only:)
qed

lemma rate_limit_bound_witness:
  "accepted_between 10 (10 + 60) ''a'' (rl_run 2 60 Map.empty
     [Request ''a'' 0, Request ''b'' 1, Request ''a'' 60, Request ''a'' 60, Tick 61, Request ''a'' 61,
      Request ''a'' 62, Request ''a'' 63]) = 3 \<and> (3 :: nat) \<le> nat (2 - 1) + nat (max 1 2)"
  using rate_limit_bound [of "[Request ''a'' 0, Request ''b'' 1, Request ''a'' 60, Request ''a'' 60, Tick 61,
      Request ''a'' 61, Request ''a'' 62, Request ''a'' 63]" 10 60 "''a''" 2]
  by (simp add: rl_trace_def rate_limit_def rl_cleanup_def accepted_between_def)

text \<open>The cleaning goroutine only frees memory: dropping every tick from
  a trace changes no decision.\<close>

theorem rate_limit_cleanup_unobservable:
  assumes "rl_trace evs"
  shows "rl_run m w st evs = rl_run m w st (filter is_request evs)"
proof (cases evs)
  case (Cons e _)
  then show ?thesis
    using assms by (intro rl_run_cleanup_agree [of "ev_time e"]) (auto simp: rl_trace_def rl_agree_def)
qed simp

lemma rate_limit_cleanup_unobservable_witness:
  "rl_run 1 60 Map.empty [Request ''a'' 0, Tick 61, Request ''a'' 61] = [(''a'', 0), (''a'', 61)]"
  using rate_limit_cleanup_unobservable [of "[Request ''a'' 0, Tick 61, Request ''a'' 61]" 1 60 Map.empty]
  by (simp add: rl_trace_def rate_limit_def)

end
