(* ===== verification/Model_Pages.thy ===== *)
theory Model_Pages imports Model_Data begin

text \<open>
  The models of static pages and Cloudflare workers (\<open>model/page.go\<close>, \<open>model/worker.go\<close>), the
  deployments of both, the metric alerts (\<open>model/metrics.go\<close>) and the job envelope of the queue
  (\<open>jobs/jobs.go\<close>).
\<close>

section \<open>Pages\<close>

datatype page_status = PageIdle | PageDeploying | PageLive | PageError | PageDraining

datatype page_provider = PageAWSCloudFront | PageCloudflarePages

datatype page_deploy_status =
    PageDeployQueued | PageDeployDeploying | PageDeploySuccess | PageDeployFailed | PageDeployCancelled

record page_validation =
  pv_name :: string
  pv_type :: string
  pv_value :: string

record page_runtime =
  pr_bucket :: string
  pr_distribution :: string
  pr_distribution_arn :: string
  pr_oac :: string
  pr_default_url :: string
  pr_cert_arn :: string
  pr_cert_status :: string
  pr_validation :: "page_validation option"
  pr_alias_target :: string
  pr_cf_name :: string
  pr_cf_id :: string

definition zero_page_runtime :: page_runtime where
  "zero_page_runtime =
     \<lparr>pr_bucket = [], pr_distribution = [], pr_distribution_arn = [], pr_oac = [], pr_default_url = [],
      pr_cert_arn = [], pr_cert_status = [], pr_validation = None, pr_alias_target = [],
      pr_cf_name = [], pr_cf_id = []\<rparr>"

record page = base_model +
  pg_project :: uuid
  pg_name :: string
  pg_description :: string
  pg_git_repo :: string
  pg_git_branch :: string
  pg_git_provider :: "uuid option"
  pg_publish_path :: string
  pg_build_enabled :: bool
  pg_package_manager :: string
  pg_install_command :: string
  pg_build_command :: string
  pg_output_dir :: string
  pg_root_dir :: string
  pg_node_version :: string
  pg_build_env :: str_map
  pg_provider :: page_provider
  pg_cloud_account :: "uuid option"
  pg_region :: string
  pg_custom_domain :: string
  pg_manage_dns :: bool
  pg_dns_account :: "uuid option"
  pg_dns_zone :: string
  pg_runtime :: "page_runtime option"
  pg_status :: page_status
  pg_webhook_secret :: string
  pg_auto_deploy :: bool

record page_deployment = base_model +
  pd_page :: uuid
  pd_status :: page_deploy_status
  pd_publish_path :: string
  pd_commit :: string
  pd_log :: string
  pd_provider_ref :: string
  pd_trigger :: string
  pd_started :: "time option"
  pd_finished :: "time option"

section \<open>Workers\<close>

datatype worker_status = WorkerIdle | WorkerDeploying | WorkerLive | WorkerError | WorkerDraining

datatype worker_deploy_status =
    WorkerDeployQueued | WorkerDeployNeedsConfirmation | WorkerDeployDeploying
  | WorkerDeploySuccess | WorkerDeployFailed | WorkerDeployCancelled

record r2_bucket =
  r2_name :: string
  r2_empty :: bool

record worker_runtime =
  wr_script :: string
  wr_url :: string
  wr_routes :: "string list"
  wr_last_deploy :: string

definition zero_worker_runtime :: worker_runtime where
  "zero_worker_runtime = \<lparr>wr_script = [], wr_url = [], wr_routes = [], wr_last_deploy = []\<rparr>"

record worker = base_model +
  wk_project :: uuid
  wk_name :: string
  wk_description :: string
  wk_git_repo :: string
  wk_git_branch :: string
  wk_git_provider :: "uuid option"
  wk_root_dir :: string
  wk_wrangler_config :: string
  wk_package_manager :: string
  wk_install_command :: string
  wk_build_command :: string
  wk_deploy_command :: string
  wk_build_env :: str_map
  wk_r2_confirmed :: "string list"
  wk_cloud_account :: "uuid option"
  wk_runtime :: "worker_runtime option"
  wk_status :: worker_status
  wk_webhook_secret :: string
  wk_auto_deploy :: bool

record worker_deployment = base_model +
  wd_worker :: uuid
  wd_status :: worker_deploy_status
  wd_commit :: string
  wd_log :: string
  wd_provider_ref :: string
  wd_trigger :: string
  wd_r2_pending :: "r2_bucket list"
  wd_started :: "time option"
  wd_finished :: "time option"

section \<open>Alerts\<close>

record metric_alert =
  ma_id :: uuid
  ma_rule :: string
  ma_severity :: string
  ma_source_type :: string
  ma_source :: string
  ma_message :: string
  ma_fired :: time
  ma_resolved :: "time option"
  ma_notified :: bool

section \<open>Jobs\<close>

datatype job_type = JobDeploy | JobSystemBackup | JobDatabaseBackup | JobPageDeploy | JobWorkerDeploy | JobOther string

record job =
  j_type :: job_type
  j_deploy :: "uuid option"
  j_backup :: "uuid option"
  j_db_backup :: "uuid option"
  j_force :: bool
  j_page :: "uuid option"
  j_worker :: "uuid option"

definition empty_job :: "job_type \<Rightarrow> job" where
  "empty_job t = \<lparr>j_type = t, j_deploy = None, j_backup = None, j_db_backup = None, j_force = False,
     j_page = None, j_worker = None\<rparr>"

definition new_deploy_job :: "uuid \<Rightarrow> bool \<Rightarrow> job" where
  "new_deploy_job d force = (empty_job JobDeploy)\<lparr>j_deploy := Some d, j_force := force\<rparr>"

definition new_system_backup_job :: "uuid \<Rightarrow> job" where
  "new_system_backup_job b = (empty_job JobSystemBackup)\<lparr>j_backup := Some b\<rparr>"

definition new_database_backup_job :: "uuid \<Rightarrow> job" where
  "new_database_backup_job b = (empty_job JobDatabaseBackup)\<lparr>j_db_backup := Some b\<rparr>"

definition new_page_deploy_job :: "uuid \<Rightarrow> job" where
  "new_page_deploy_job d = (empty_job JobPageDeploy)\<lparr>j_page := Some d\<rparr>"

definition new_worker_deploy_job :: "uuid \<Rightarrow> job" where
  "new_worker_deploy_job d = (empty_job JobWorkerDeploy)\<lparr>j_worker := Some d\<rparr>"

end
