(* ===== verification/Model_Ops.thy ===== *)
theory Model_Ops imports Model_Pages begin

text \<open>
  The models of shared resources (\<open>model/shared_resource.go\<close>), cron jobs (\<open>model/cronjob.go\<close>),
  notification channels (\<open>model/notification.go\<close>), managed databases, backups and nodes
  (\<open>model/database.go\<close>, \<open>model/database_backup.go\<close>, \<open>model/system_backup.go\<close>, \<open>model/server_node.go\<close>), templates, deploy
  targets and metrics (\<open>model/template.go\<close>, \<open>model/deploy_target.go\<close>, \<open>model/metrics.go\<close>), and the JSON values their configurations are.  A
  \<open>json.RawMessage\<close> is \<open>json option\<close>, \<open>None\<close> for the empty one: it comes out of a decoded request body or a
  \<open>jsonb\<close> column, so it is well formed whenever it is not empty.
\<close>

section \<open>JSON\<close>

datatype json =
    JNull
  | JBool bool
  | JNumber string
  | JString string
  | JArray "json list"
  | JObject "(string \<times> json) list"

text \<open>\<open>json.Unmarshal\<close> into a \<open>map[string]any\<close>: of a repeated key the last value counts, \<open>null\<close> leaves
  the map nil, and what is not an object is an error.\<close>

fun json_map :: "json \<Rightarrow> (string \<rightharpoonup> json) option" where
  "json_map (JObject kvs) = Some (map_of (rev kvs))"
| "json_map JNull = Some Map.empty"
| "json_map _ = None"

text \<open>\<open>json.Unmarshal\<close> into a struct with one string field of the given tag: a key matches it up to case,
  \<open>null\<close> leaves the field alone, a value of another type is an error (which is reported after the whole
  object was decoded), and so is a value that is not an object.\<close>

fun string_field :: "string \<Rightarrow> (string \<times> json) list \<Rightarrow> string \<times> bool \<Rightarrow> string \<times> bool" where
  "string_field f [] acc = acc"
| "string_field f ((k, v) # kvs) (s, ok) = string_field f kvs
     (if \<not> equal_fold k f then (s, ok)
      else (case v of JString t \<Rightarrow> (t, ok) | JNull \<Rightarrow> (s, ok) | _ \<Rightarrow> (s, False)))"

fun json_field :: "string \<Rightarrow> json \<Rightarrow> string \<times> bool" where
  "json_field f (JObject kvs) = string_field f kvs ([], True)"
| "json_field f JNull = ([], True)"
| "json_field f _ = ([], False)"

section \<open>Shared resources\<close>

text \<open>The type of a resource arrives unchecked in requests: a string with the constants the code compares
  it with.\<close>

type_synonym resource_type = string

definition resource_git_provider :: resource_type where "resource_git_provider = ''git_provider''"
definition resource_registry :: resource_type where "resource_registry = ''registry''"
definition resource_ssh_key :: resource_type where "resource_ssh_key = ''ssh_key''"
definition resource_object_storage :: resource_type where "resource_object_storage = ''object_storage''"
definition resource_cloud_account :: resource_type where "resource_cloud_account = ''cloud_account''"

record shared_resource = base_model +
  sr_org :: uuid
  sr_name :: string
  sr_type :: resource_type
  sr_provider :: string
  sr_config :: "json option"
  sr_status :: string

section \<open>Cron jobs\<close>

datatype cron_status = CronJobIdle | CronJobRunning | CronJobError

record cron_job = base_model +
  cj_project :: uuid
  cj_name :: string
  cj_description :: string
  cj_expression :: string
  cj_timezone :: string
  cj_command :: string
  cj_image :: string
  cj_source :: string
  cj_git_repo :: string
  cj_git_branch :: string
  cj_env :: str_map
  cj_cpu_limit :: string
  cj_mem_limit :: string
  cj_enabled :: bool
  cj_concurrency :: string
  cj_restart :: string
  cj_backoff :: int
  cj_deadline :: int
  cj_namespace :: string
  cj_k8s_name :: string
  cj_last_run :: "time option"
  cj_status :: cron_status

datatype cron_run_status = CronRunRunning | CronRunSucceeded | CronRunFailed

record cron_run = base_model +
  cr_job :: uuid
  cr_status :: cron_run_status
  cr_started :: time
  cr_finished :: "time option"
  cr_exit :: "int option"
  cr_logs :: string
  cr_trigger :: string

section \<open>Notification channels\<close>

record notify_channel = base_model +
  nc_org :: uuid
  nc_type :: string
  nc_enabled :: bool
  nc_config :: "json option"

section \<open>Managed databases and backups\<close>

text \<open>The engine of a database and the status of a backup are strings; the constants the code knows are compared
  by value.  Ports are \<open>int32\<close> values that requests bound.\<close>

record managed_database = base_model +
  mdb_project :: uuid
  mdb_name :: string
  mdb_database :: string
  mdb_engine :: string
  mdb_version :: string
  mdb_storage :: string
  mdb_cpu :: string
  mdb_mem :: string
  mdb_credentials :: string
  mdb_namespace :: string
  mdb_k8s :: string
  mdb_status :: string
  mdb_port :: int
  mdb_external :: bool
  mdb_backup_enabled :: bool
  mdb_backup_schedule :: string
  mdb_backup_s3 :: "uuid option"

record external_port_info =
  ep_database :: uuid
  ep_name :: string
  ep_engine :: string
  ep_port :: int

definition supported_versions :: "string \<Rightarrow> string list" where
  "supported_versions engine =
     (if engine = ''postgres'' then [''18'', ''17'', ''16'', ''15'']
      else if engine = ''mysql'' then [''9.2'', ''9.0'', ''8.4'', ''8.0'']
      else if engine = ''redis'' then [''8.0'', ''7.4'', ''7.2'']
      else if engine = ''valkey'' then [''8.1'', ''8.0'', ''7.2'']
      else if engine = ''mongo'' then [''8.0'', ''7.0'', ''6.0'']
      else if engine = ''mariadb'' then [''11.7'', ''11.4'', ''10.11'']
      else [])"

definition is_valid_version :: "string \<Rightarrow> string \<Rightarrow> bool" where
  "is_valid_version engine tag \<longleftrightarrow> tag \<in> set (supported_versions engine)"

record database_backup = base_model +
  dbb_database :: uuid
  dbb_status :: string
  dbb_restore :: string
  dbb_size :: int
  dbb_path :: string
  dbb_started :: "time option"
  dbb_finished :: "time option"

record system_backup = base_model +
  sb_status :: string
  sb_size :: int
  sb_file :: string
  sb_bucket :: string
  sb_path :: string
  sb_error :: string
  sb_started :: "time option"
  sb_finished :: "time option"

section \<open>Nodes\<close>

datatype node_status = NodePending | NodeInitializing | NodeReady | NodeError | NodeOffline

record server_node = base_model +
  sn_name :: string
  sn_host :: string
  sn_port :: int
  sn_user :: string
  sn_auth :: string
  sn_key :: "uuid option"
  sn_password :: string
  sn_role :: string
  sn_status :: node_status
  sn_message :: string
  sn_k8s :: string
  sn_fingerprint :: string

section \<open>Templates, deploy targets, metrics\<close>

record template_env =
  te_description :: string
  te_default :: string
  te_required :: bool
  te_secret :: bool

record app_template = base_model +
  tpl_name :: string
  tpl_description :: string
  tpl_logo :: string
  tpl_category :: string
  tpl_compose :: string
  tpl_env :: "string \<rightharpoonup> template_env"
  tpl_cpu :: string
  tpl_mem :: string

record deploy_target = base_model +
  dt_org :: "uuid option"
  dt_kind :: string
  dt_region :: string
  dt_capabilities :: "string list"
  dt_storage_class :: string
  dt_allowed_classes :: "string list"
  dt_default :: bool

record metric_snapshot =
  ms_at :: time
  ms_type :: string
  ms_name :: string
  ms_cpu_used :: int
  ms_cpu_total :: int
  ms_mem_used :: int
  ms_mem_total :: int
  ms_pods :: "int option"

record metric_event =
  me_type :: string
  me_reason :: string
  me_message :: string
  me_namespace :: string
  me_object :: string
  me_first :: time
  me_last :: time
  me_count :: int

end
