(* ===== verification/Pg_Store.thy ===== *)
theory Pg_Store imports Model_Ops begin

text \<open>
  The PostgreSQL store (\<open>store/pg\<close>).  A table is the list of its rows in insertion order, soft-deleted
  rows included; the queries of the store are the list operations below.  Bun adds
  \<open>deleted_at IS NULL\<close> to every select, update and delete of a model with a \<open>soft_delete\<close> column
  and turns a delete into setting that column; \<open>WherePK\<close> updates write the whole row and touch
  nothing when no live row has the key.

  The \<open>world\<close> is the database and what the process reads from its surroundings: the schedule of
  failures of statements and that of refused calls to the surroundings (one bit per call, so every theorem about
  all worlds covers every failure pattern), the clock, which stands still within a handler, the identifiers
  \<open>gen_random_uuid()\<close> will give, the bytes of \<open>crypto/rand\<close>, the job queue, the notifications sent and
  the calls made to the cluster.  Encryption at rest of single columns (\<open>secret.Store\<close>) is the
  theory \<open>Secret_Store\<close>: here columns hold their plaintext, and a failure of it is a failure of the statement.
\<close>

section \<open>World\<close>

record database =
  organizations :: "organization list"
  users :: "user list"
  teams :: "team list"
  team_members :: "team_member list"
  projects :: "project list"
  applications :: "application list"
  deployments :: "deployment list"
  domains :: "domain list"
  invitations :: "invitation list"
  api_keys :: "api_key list"
  settings :: "setting list"
  identities :: "user_identity list"
  used_challenges :: "used_challenge list"
  pages :: "page list"
  page_deployments :: "page_deployment list"
  workers :: "worker list"
  worker_deployments :: "worker_deployment list"
  alerts :: "metric_alert list"
  shared_resources :: "shared_resource list"
  cron_jobs :: "cron_job list"
  cron_runs :: "cron_run list"
  channels :: "notify_channel list"
  managed_dbs :: "managed_database list"
  db_backups :: "database_backup list"
  sys_backups :: "system_backup list"
  nodes :: "server_node list"
  templates :: "app_template list"
  deploy_targets :: "deploy_target list"
  snapshots :: "metric_snapshot list"
  events :: "metric_event list"

record notification =
  n_org :: "uuid option"
  n_event :: string
  n_title :: string
  n_detail :: string

datatype cluster_call =
    CreateNamespace string
  | DeleteNamespace string
  | EnsureServiceAccount string string
  | EnsureConfigMap string "(string \<rightharpoonup> string)"
  | EnsureResourceQuota string resource_quota
  | EnsureNetworkPolicy string bool
  | PushEnv uuid "(string \<rightharpoonup> string)"
  | CallDeploy uuid string "(string \<rightharpoonup> string)"
  | CallBuild uuid
  | CallCancelBuild uuid
  | CallConfigureHPA uuid
  | CallRollback uuid
  | CallDeletePod uuid string
  | CreateIngress string uuid
  | UpdateIngress string uuid
  | DeleteIngress string
  | DeleteIngressByName string
  | CallProvider string uuid
  | CallCron string uuid
  | CallDNS string string
  | CallQueue string nat
  | PanelIngress string string
  | DeletePanelIngress
  | CallDatabase string uuid
  | CallStorage string string
  | CallNode string uuid
  | CallApp string uuid

record world =
  db :: database
  faults :: "bool list"
  refusals :: "bool list"
  clock :: time
  id_supply :: "nat \<Rightarrow> uuid"
  id_next :: nat
  entropy :: "nat \<Rightarrow> 8 word"
  entropy_next :: nat
  queue :: "job list"
  outbox :: "notification list"
  calls :: "cluster_call list"

type_synonym 'a io = "(world, 'a) act"

definition fault_now :: "world \<Rightarrow> bool" where
  "fault_now w = (case faults w of [] \<Rightarrow> False | b # _ \<Rightarrow> b)"

definition next_fault :: "world \<Rightarrow> world" where
  "next_fault w = w\<lparr>faults := tl (faults w)\<rparr>"

text \<open>One statement: it fails without effect when the schedule says so.\<close>

definition statement :: "(database \<Rightarrow> (go_error + 'a) \<times> database) \<Rightarrow> 'a io" where
  "statement f = (\<lambda>w. if fault_now w then (Inl ErrIO, next_fault w)
     else (case f (db w) of (r, d) \<Rightarrow> (r, (next_fault w)\<lparr>db := d\<rparr>)))"

definition query :: "(database \<Rightarrow> 'a) \<Rightarrow> 'a io" where
  "query f = statement (\<lambda>d. (Inr (f d), d))"

definition query_row :: "(database \<Rightarrow> 'a option) \<Rightarrow> 'a io" where
  "query_row f = statement (\<lambda>d. (case f d of None \<Rightarrow> Inl ErrNoRows | Some r \<Rightarrow> Inr r, d))"

definition exec :: "(database \<Rightarrow> database) \<Rightarrow> unit io" where
  "exec f = statement (\<lambda>d. (Inr (), f d))"

definition now :: "time io" where
  "now = gets clock"

text \<open>A call to the cluster, a cloud or another service: recorded, and refused when its own schedule says so.  The two schedules are
  independent, so a theorem about worlds in which no statement fails still covers every answer of the surroundings.\<close>

definition refused_now :: "world \<Rightarrow> bool" where
  "refused_now w = (case refusals w of [] \<Rightarrow> False | b # _ \<Rightarrow> b)"

definition next_answer :: "world \<Rightarrow> world" where
  "next_answer w = w\<lparr>refusals := tl (refusals w)\<rparr>"

definition cluster :: "cluster_call \<Rightarrow> unit io" where
  "cluster c = (\<lambda>w. (if refused_now w then Inl ErrIO else Inr (), (next_answer w)\<lparr>calls := calls w @ [c]\<rparr>))"

definition notify :: "uuid option \<Rightarrow> string \<Rightarrow> string \<Rightarrow> string \<Rightarrow> unit io" where
  "notify org event title detail = modify (\<lambda>w. w\<lparr>outbox := outbox w @
     [\<lparr>n_org = org, n_event = event, n_title = title, n_detail = detail\<rparr>]\<rparr>)"

definition fresh_uuid :: "uuid io" where
  "fresh_uuid = (\<lambda>w. (Inr (id_supply w (id_next w)), w\<lparr>id_next := Suc (id_next w)\<rparr>))"

definition rand_bytes :: "nat \<Rightarrow> 8 word list io" where
  "rand_bytes n = (\<lambda>w. (Inr (map (\<lambda>i. entropy w (entropy_next w + i)) [0..<n]),
     w\<lparr>entropy_next := entropy_next w + n\<rparr>))"

text \<open>\<open>Store.Tx\<close>: the statements of the body run against the transaction; an error of the body, or of
  the commit, leaves the database as it was.\<close>

definition tx :: "'a io \<Rightarrow> 'a io" where
  "tx m = (\<lambda>w. case m w of
      (Inl e, w') \<Rightarrow> (Inl e, w'\<lparr>db := db w\<rparr>)
    | (Inr x, w') \<Rightarrow> (if fault_now w' then (Inl ErrIO, (next_fault w')\<lparr>db := db w\<rparr>)
                     else (Inr x, next_fault w')))"

section \<open>Rows\<close>

definition live :: "'a base_model_scheme \<Rightarrow> bool" where
  "live r \<longleftrightarrow> bm_deleted r = None"

definition find_live :: "('a base_model_scheme \<Rightarrow> bool) \<Rightarrow> 'a base_model_scheme list \<Rightarrow> 'a base_model_scheme option" where
  "find_live P t = find (\<lambda>r. live r \<and> P r) t"

definition by_id :: "uuid \<Rightarrow> 'a base_model_scheme list \<Rightarrow> 'a base_model_scheme option" where
  "by_id i t = find_live (\<lambda>r. bm_id r = i) t"

definition select_live :: "('a base_model_scheme \<Rightarrow> bool) \<Rightarrow> 'a base_model_scheme list \<Rightarrow> 'a base_model_scheme list" where
  "select_live P t = filter (\<lambda>r. live r \<and> P r) t"

definition update_live ::
  "('a base_model_scheme \<Rightarrow> bool) \<Rightarrow> ('a base_model_scheme \<Rightarrow> 'a base_model_scheme) \<Rightarrow>
   'a base_model_scheme list \<Rightarrow> 'a base_model_scheme list" where
  "update_live P f t = map (\<lambda>r. if live r \<and> P r then f r else r) t"

definition soft_delete :: "time \<Rightarrow> ('a base_model_scheme \<Rightarrow> bool) \<Rightarrow> 'a base_model_scheme list \<Rightarrow> 'a base_model_scheme list" where
  "soft_delete t0 P t = update_live P (\<lambda>r. r\<lparr>bm_deleted := Some t0\<rparr>) t"

definition replace_pk :: "'a base_model_scheme \<Rightarrow> 'a base_model_scheme list \<Rightarrow> 'a base_model_scheme list" where
  "replace_pk r t = update_live (\<lambda>x. bm_id x = bm_id r) (\<lambda>_. r) t"

definition append_row :: "'a base_model_scheme \<Rightarrow> 'a base_model_scheme list \<Rightarrow> 'a base_model_scheme list" where
  "append_row r t = t @ [r]"

definition delete_pk :: "time \<Rightarrow> uuid \<Rightarrow> 'a base_model_scheme list \<Rightarrow> 'a base_model_scheme list" where
  "delete_pk t0 i t = soft_delete t0 (\<lambda>r. bm_id r = i) t"

text \<open>\<open>ORDER BY created_at DESC\<close> (rows of the same instant: the later insert first) and
  \<open>LIMIT per_page OFFSET (page - 1) * per_page\<close>.\<close>

definition newest_first :: "'a base_model_scheme list \<Rightarrow> 'a base_model_scheme list" where
  "newest_first t = sort_key (\<lambda>r. - bm_created r) (rev t)"

record list_params =
  lp_page :: nat
  lp_per_page :: nat

definition lp_offset :: "list_params \<Rightarrow> nat" where
  "lp_offset p = (lp_page p - 1) * lp_per_page p"

definition lp_limit :: "list_params \<Rightarrow> nat" where
  "lp_limit p = lp_per_page p"

definition page_of :: "list_params \<Rightarrow> 'a list \<Rightarrow> 'a list" where
  "page_of p t = take (lp_limit p) (drop (lp_offset p) t)"

text \<open>\<open>ScanAndCount\<close>: one page of the rows, and how many there are in all.\<close>

definition query_page :: "list_params \<Rightarrow> (database \<Rightarrow> 'a list) \<Rightarrow> ('a list \<times> nat) io" where
  "query_page p f = query (\<lambda>d. (page_of p (f d), length (f d)))"

text \<open>\<open>INSERT ... RETURNING *\<close>: the defaults of \<open>BaseModel\<close> are filled in, the primary key and the
  table's unique index \<open>uniq\<close> are checked, and the stored row comes back.\<close>

definition fill_defaults :: "world \<Rightarrow> 'a base_model_scheme \<Rightarrow> 'a base_model_scheme" where
  "fill_defaults w r = r\<lparr>bm_id := (if bm_id r = uuid_nil then id_supply w (id_next w) else bm_id r),
     bm_created := clock w, bm_updated := clock w, bm_deleted := None\<rparr>"

definition insert_row ::
  "('a base_model_scheme \<Rightarrow> 'a base_model_scheme list \<Rightarrow> bool) \<Rightarrow>
   (database \<Rightarrow> 'a base_model_scheme list) \<Rightarrow>
   (('a base_model_scheme list \<Rightarrow> 'a base_model_scheme list) \<Rightarrow> database \<Rightarrow> database) \<Rightarrow>
   'a base_model_scheme \<Rightarrow> 'a base_model_scheme io" where
  "insert_row uniq tbl upd r = (\<lambda>w.
     let r' = fill_defaults w r; w' = (next_fault w)\<lparr>id_next := Suc (id_next w)\<rparr> in
     if fault_now w then (Inl ErrIO, w')
     else if bm_id r' \<in> set (map bm_id (tbl (db w))) \<or> \<not> uniq r' (tbl (db w)) then (Inl ErrUnique, w')
     else (Inr r', w'\<lparr>db := upd (append_row r') (db w)\<rparr>))"

definition no_index :: "'a base_model_scheme \<Rightarrow> 'a base_model_scheme list \<Rightarrow> bool" where
  "no_index r t = True"

definition unique_live :: "('a base_model_scheme \<Rightarrow> 'k) \<Rightarrow> 'a base_model_scheme \<Rightarrow> 'a base_model_scheme list \<Rightarrow> bool" where
  "unique_live k r t = list_all (\<lambda>x. live x \<longrightarrow> k x \<noteq> k r) t"

definition unique_all :: "('a base_model_scheme \<Rightarrow> 'k) \<Rightarrow> 'a base_model_scheme \<Rightarrow> 'a base_model_scheme list \<Rightarrow> bool" where
  "unique_all k r t = list_all (\<lambda>x. k x \<noteq> k r) t"

text \<open>\<open>UPDATE ... WHERE id = ?\<close> of a whole row, under the table's unique index; and an update by
  condition, which answers how many rows it changed (\<open>RowsAffected\<close>).\<close>

definition update_row ::
  "('a base_model_scheme \<Rightarrow> 'a base_model_scheme list \<Rightarrow> bool) \<Rightarrow>
   (database \<Rightarrow> 'a base_model_scheme list) \<Rightarrow>
   (('a base_model_scheme list \<Rightarrow> 'a base_model_scheme list) \<Rightarrow> database \<Rightarrow> database) \<Rightarrow>
   'a base_model_scheme \<Rightarrow> unit io" where
  "update_row uniq tbl upd r = statement (\<lambda>d.
     if by_id (bm_id r) (tbl d) \<noteq> None \<and> \<not> uniq r (filter (\<lambda>x. bm_id x \<noteq> bm_id r) (tbl d))
     then (Inl ErrUnique, d) else (Inr (), upd (replace_pk r) d))"

definition update_where ::
  "(database \<Rightarrow> 'a base_model_scheme list) \<Rightarrow>
   (('a base_model_scheme list \<Rightarrow> 'a base_model_scheme list) \<Rightarrow> database \<Rightarrow> database) \<Rightarrow>
   ('a base_model_scheme \<Rightarrow> bool) \<Rightarrow> ('a base_model_scheme \<Rightarrow> 'a base_model_scheme) \<Rightarrow> nat io" where
  "update_where tbl upd P f =
     statement (\<lambda>d. (Inr (length (select_live P (tbl d))), upd (update_live P f) d))"

subsection \<open>The contract of a row table\<close>

locale row_store =
  fixes lookup :: "'t \<Rightarrow> uuid \<Rightarrow> 'r option"
    and replace :: "'r \<Rightarrow> 't \<Rightarrow> 't"
    and remove :: "time \<Rightarrow> uuid \<Rightarrow> 't \<Rightarrow> 't"
    and add :: "'r \<Rightarrow> 't \<Rightarrow> 't"
    and key :: "'r \<Rightarrow> uuid"
    and alive :: "'r \<Rightarrow> bool"
    and keys :: "'t \<Rightarrow> uuid set"
    and wf :: "'t \<Rightarrow> bool"
  assumes lookup_key: "lookup t i = Some r \<Longrightarrow> key r = i \<and> alive r"
    and lookup_add: "wf t \<Longrightarrow> key r \<notin> keys t \<Longrightarrow> alive r \<Longrightarrow> lookup (add r t) = (lookup t)(key r \<mapsto> r)"
    and lookup_replace: "wf t \<Longrightarrow> alive r \<Longrightarrow> lookup t (key r) \<noteq> None \<Longrightarrow>
          lookup (replace r t) = (lookup t)(key r \<mapsto> r)"
    and replace_absent: "lookup t (key r) = None \<Longrightarrow> replace r t = t"
    and lookup_remove: "lookup (remove n i t) = (lookup t)(i := None)"
    and wf_add: "wf t \<Longrightarrow> key r \<notin> keys t \<Longrightarrow> wf (add r t)"
    and wf_replace: "wf t \<Longrightarrow> wf (replace r t)"
    and wf_remove: "wf t \<Longrightarrow> wf (remove n i t)"
begin

text \<open>What a handler that reads a row, changes it and writes it back relies on.\<close>

lemma read_modify_write:
  assumes "wf t" "lookup t i = Some r" "key r' = key r" "alive r'"
  shows "lookup (replace r' t) i = Some r'"
    and "j \<noteq> i \<Longrightarrow> lookup (replace r' t) j = lookup t j"
  using assms lookup_key [OF assms(2)] lookup_replace [of t r'] by auto

lemma add_then_remove:
  assumes "wf t" "key r \<notin> keys t" "alive r" "lookup t (key r) = None"
  shows "lookup (remove n (key r) (add r t)) = lookup t"
  using assms by (auto simp: lookup_remove lookup_add fun_eq_iff)

lemma removed_stays_removed:
  assumes "wf t" "key r = i"
  shows "lookup (replace r (remove n i t)) i = None"
  using assms replace_absent [of "remove n i t" r] by (simp add: lookup_remove)

end

definition distinct_ids :: "'a base_model_scheme list \<Rightarrow> bool" where
  "distinct_ids t = distinct (map bm_id t)"

lemma find_live_iff:
  "by_id i t = Some r \<Longrightarrow> bm_id r = i \<and> live r \<and> r \<in> set t"
  by (auto simp: by_id_def find_live_def find_Some_iff)

lemma by_id_key: "by_id i t = Some r \<Longrightarrow> bm_id r = i"
  by (simp add: find_live_iff)

lemma by_id_live: "by_id i t = Some r \<Longrightarrow> bm_deleted r = None"
  using find_live_iff [of i t r] by (simp add: live_def)

lemma by_id_None: "by_id i t = None \<longleftrightarrow> (\<forall>r \<in> set t. live r \<longrightarrow> bm_id r \<noteq> i)"
  by (auto simp: by_id_def find_live_def find_None_iff)

lemma by_id_Nil [simp]: "by_id i [] = None"
  by (simp add: by_id_def find_live_def)

lemma by_id_Cons: "by_id i (x # t) = (if live x \<and> bm_id x = i then Some x else by_id i t)"
  by (simp add: by_id_def find_live_def)

lemma by_id_append: "by_id i (s @ t) = (case by_id i s of None \<Rightarrow> by_id i t | Some r \<Rightarrow> Some r)"
  by (induction s) (auto simp: by_id_Cons)

lemma by_id_eqI: "distinct_ids t \<Longrightarrow> r \<in> set t \<Longrightarrow> live r \<Longrightarrow> by_id (bm_id r) t = Some r"
  by (induction t) (auto simp: by_id_Cons distinct_ids_def)

lemma by_id_Some_iff: "distinct_ids t \<Longrightarrow> by_id i t = Some r \<longleftrightarrow> r \<in> set t \<and> live r \<and> bm_id r = i"
  using by_id_eqI find_live_iff by blast

lemma ids_update_live:
  "(\<And>r. bm_id (f r) = bm_id r) \<Longrightarrow> map bm_id (update_live P f t) = map bm_id t"
  by (induction t) (auto simp: update_live_def)

lemma ids_replace_pk [simp]: "map bm_id (replace_pk r t) = map bm_id t"
  by (induction t) (auto simp: replace_pk_def update_live_def)

lemma ids_soft_delete [simp]: "map bm_id (soft_delete n P t) = map bm_id t"
  by (simp add: soft_delete_def ids_update_live)

lemma distinct_ids_kept [simp]:
  "distinct_ids (replace_pk r t) = distinct_ids t"
  "distinct_ids (soft_delete n P t) = distinct_ids t"
  "distinct_ids (delete_pk n i t) = distinct_ids t"
  by (simp_all add: distinct_ids_def delete_pk_def)

lemma distinct_ids_update_live:
  "(\<And>r. bm_id (f r) = bm_id r) \<Longrightarrow> distinct_ids (update_live P f t) = distinct_ids t"
  by (simp add: distinct_ids_def ids_update_live)

lemma by_id_update_live:
  assumes "\<And>r. bm_id (f r) = bm_id r" "\<And>r. live r \<Longrightarrow> live (f r)" "distinct_ids t"
  shows "by_id i (update_live P f t) =
    (case by_id i t of None \<Rightarrow> None | Some r \<Rightarrow> Some (if P r then f r else r))"
  using assms(3)
proof (induction t)
  case (Cons x t)
  then have t: "distinct_ids t" by (simp add: distinct_ids_def)
  show ?case
    using Cons.IH [OF t] assms(1,2) by (auto simp: update_live_def by_id_Cons)
qed (simp add: update_live_def)

lemma by_id_update_id:
  assumes "\<And>r. bm_id (f r) = bm_id r" "\<And>r. live r \<Longrightarrow> live (f r)" "distinct_ids t"
  shows "by_id j (update_live (\<lambda>r. bm_id r = i) f t) =
    (case by_id j t of None \<Rightarrow> None | Some r \<Rightarrow> Some (if j = i then f r else r))"
  using by_id_update_live [OF assms, where i = j and P = "\<lambda>r. bm_id r = i"]
  by (auto split: option.splits simp: find_live_iff)

lemma by_id_removed:
  "(\<And>r. bm_id (f r) = bm_id r) \<Longrightarrow> (\<And>r. \<not> live (f r)) \<Longrightarrow> by_id i (update_live (\<lambda>r. bm_id r = i) f t) = None"
  by (induction t) (simp_all add: update_live_def by_id_Cons)

lemma set_update_liveE:
  assumes "u \<in> set (update_live P f t)"
  obtains r where "r \<in> set t" "live r" "P r" "u = f r" | "u \<in> set t" "\<not> (live u \<and> P u)"
proof -
  from assms obtain r where r: "u = (if live r \<and> P r then f r else r)" "r \<in> set t"
    unfolding update_live_def set_map by (rule imageE)
  show thesis
  proof (cases "live r \<and> P r")
    case True
    then have "u = f r" using r(1) unfolding if_P [OF True] by simp
    with True r(2) that(1) show thesis by blast
  next
    case False
    have "u = r" using r(1) unfolding if_not_P [OF False] .
    with False r(2) that(2) show thesis by blast
  qed
qed

lemma by_id_replace_pk:
  assumes "distinct_ids t" "live r" "by_id (bm_id r) t \<noteq> None"
  shows "by_id i (replace_pk r t) = (if i = bm_id r then Some r else by_id i t)"
  using assms
proof (induction t)
  case (Cons x t)
  then have d: "distinct_ids t" "bm_id x \<notin> bm_id ` set t" by (auto simp: distinct_ids_def)
  show ?case
  proof (cases "live x \<and> bm_id x = bm_id r")
    case True
    then have "bm_id r \<notin> bm_id ` set t" using d by simp
    then have "replace_pk r t = t"
      unfolding replace_pk_def update_live_def by (intro map_idI) (metis image_eqI)
    with True Cons.prems show ?thesis by (auto simp: replace_pk_def update_live_def by_id_Cons)
  next
    case False
    with Cons.prems have n: "by_id (bm_id r) t \<noteq> None" by (simp add: by_id_Cons)
    show ?thesis
      using Cons.IH [OF d(1) Cons.prems(2) n] False Cons.prems(2)
      by (auto simp: replace_pk_def update_live_def by_id_Cons)
  qed
qed simp

lemma replace_pk_absent: "by_id (bm_id r) t = None \<Longrightarrow> replace_pk r t = t"
  by (auto simp: by_id_None replace_pk_def update_live_def intro!: map_idI)

lemma by_id_delete_pk: "by_id i (delete_pk n j t) = (if i = j then None else by_id i t)"
  by (induction t) (auto simp: delete_pk_def soft_delete_def update_live_def by_id_Cons live_def)

lemma by_id_append_row:
  assumes "bm_id r \<notin> set (map bm_id t)" "live r"
  shows "by_id i (append_row r t) = (if i = bm_id r then Some r else by_id i t)"
proof -
  have "by_id (bm_id r) t = None" using assms by (simp add: by_id_None) (metis image_eqI)
  then show ?thesis using assms by (auto simp: append_row_def by_id_append by_id_Cons split: option.splits)
qed

interpretation rows: row_store "\<lambda>t i. by_id i t" replace_pk delete_pk append_row bm_id live
  "\<lambda>t. set (map bm_id t)" distinct_ids
proof unfold_locales
  show "distinct_ids (append_row r t)" if "distinct_ids t" "bm_id r \<notin> set (map bm_id t)"
    for t and r :: "'a base_model_scheme"
    using that by (auto simp: distinct_ids_def append_row_def)
qed (auto simp: find_live_iff by_id_append_row by_id_replace_pk replace_pk_absent by_id_delete_pk fun_eq_iff dest: find_live_iff)

section \<open>Evaluation of statements\<close>

lemma next_fault_simps [simp]:
  "db (next_fault w) = db w" "clock (next_fault w) = clock w" "queue (next_fault w) = queue w"
  "outbox (next_fault w) = outbox w" "calls (next_fault w) = calls w"
  "id_supply (next_fault w) = id_supply w" "id_next (next_fault w) = id_next w"
  "entropy (next_fault w) = entropy w" "entropy_next (next_fault w) = entropy_next w"
  "refusals (next_fault w) = refusals w" "refused_now (next_fault w) = refused_now w"
  by (simp_all add: next_fault_def refused_now_def)

lemma next_answer_simps [simp]:
  "db (next_answer w) = db w" "clock (next_answer w) = clock w" "queue (next_answer w) = queue w"
  "outbox (next_answer w) = outbox w" "calls (next_answer w) = calls w" "faults (next_answer w) = faults w"
  "id_supply (next_answer w) = id_supply w" "id_next (next_answer w) = id_next w"
  "entropy (next_answer w) = entropy w" "entropy_next (next_answer w) = entropy_next w" "fault_now (next_answer w) = fault_now w"
  by (simp_all add: next_answer_def fault_now_def)

lemma next_fault_nofault: "faults w = [] \<Longrightarrow> faults (next_fault w) = []"
  by (simp add: next_fault_def)

lemma fault_now_Nil [simp]: "faults w = [] \<Longrightarrow> \<not> fault_now w"
  by (simp add: fault_now_def)

lemma query_Inr [go_io]:
  "query f w = (Inr x, w') \<longleftrightarrow> \<not> fault_now w \<and> x = f (db w) \<and> w' = next_fault w"
  by (auto simp: query_def statement_def next_fault_def)

lemma query_Inl: "query f w = (Inl e, w') \<longleftrightarrow> fault_now w \<and> e = ErrIO \<and> w' = next_fault w"
  by (auto simp: query_def statement_def)

lemma query_row_Inr [go_io]:
  "query_row f w = (Inr x, w') \<longleftrightarrow> \<not> fault_now w \<and> f (db w) = Some x \<and> w' = next_fault w"
  by (auto simp: query_row_def statement_def next_fault_def split: option.splits)

lemma query_row_Inl:
  "query_row f w = (Inl e, w') \<longleftrightarrow>
     w' = next_fault w \<and> (fault_now w \<and> e = ErrIO \<or> \<not> fault_now w \<and> f (db w) = None \<and> e = ErrNoRows)"
  by (auto simp: query_row_def statement_def next_fault_def split: option.splits)

lemma exec_Inr [go_io]:
  "exec f w = (Inr x, w') \<longleftrightarrow> \<not> fault_now w \<and> w' = (next_fault w)\<lparr>db := f (db w)\<rparr>"
  by (auto simp: exec_def statement_def)

lemma exec_Inl: "exec f w = (Inl e, w') \<longleftrightarrow> fault_now w \<and> e = ErrIO \<and> w' = next_fault w"
  by (auto simp: exec_def statement_def)

lemma exec_db: "db (snd (exec f w)) = (if fault_now w then db w else f (db w))"
  by (simp add: exec_def statement_def)

lemma update_where_Inr [go_io]:
  "update_where tbl upd P f w = (Inr n, w') \<longleftrightarrow>
     \<not> fault_now w \<and> n = length (select_live P (tbl (db w))) \<and> w' = (next_fault w)\<lparr>db := upd (update_live P f) (db w)\<rparr>"
  by (auto simp: update_where_def statement_def)

lemma update_row_Inr [go_io]:
  "update_row uniq tbl upd r w = (Inr x, w') \<longleftrightarrow>
     \<not> fault_now w \<and> w' = (next_fault w)\<lparr>db := upd (replace_pk r) (db w)\<rparr> \<and>
     (by_id (bm_id r) (tbl (db w)) = None \<or> uniq r (filter (\<lambda>x. bm_id x \<noteq> bm_id r) (tbl (db w))))"
  by (auto simp: update_row_def statement_def)

lemma insert_row_Inr [go_io]:
  "insert_row uniq tbl upd r w = (Inr x, w') \<longleftrightarrow>
     \<not> fault_now w \<and> x = fill_defaults w r \<and> bm_id x \<notin> set (map bm_id (tbl (db w))) \<and> uniq x (tbl (db w)) \<and>
     w' = (next_fault w)\<lparr>id_next := Suc (id_next w), db := upd (append_row x) (db w)\<rparr>"
  by (auto simp: insert_row_def Let_def)

lemma insert_rowD:
  assumes "insert_row uniq tbl upd r w = (Inr x, w')"
  shows "x = fill_defaults w r" "bm_id x \<notin> set (map bm_id (tbl (db w)))" "uniq x (tbl (db w))"
    "db w' = upd (append_row x) (db w)" "live x"
proof -
  from assms [unfolded insert_row_Inr] show x: "x = fill_defaults w r" by blast
  from assms [unfolded insert_row_Inr] show "bm_id x \<notin> set (map bm_id (tbl (db w)))" by blast
  from assms [unfolded insert_row_Inr] show "uniq x (tbl (db w))" by blast
  from assms [unfolded insert_row_Inr] show "db w' = upd (append_row x) (db w)" by auto
  show "live x" unfolding x by (simp add: fill_defaults_def live_def)
qed

lemma cluster_Inr [go_io]:
  "cluster c w = (Inr x, w') \<longleftrightarrow> \<not> refused_now w \<and> w' = (next_answer w)\<lparr>calls := calls w @ [c]\<rparr>"
  by (auto simp: cluster_def)

lemma now_eval [simp, go_io]: "now w = (Inr (clock w), w)"
  by (simp add: now_def)

lemma bind_now: "bind now k w = k (clock w) w"
  by (simp add: bind_def now_def)

lemma fresh_uuid_eval [simp, go_io]:
  "fresh_uuid w = (Inr (id_supply w (id_next w)), w\<lparr>id_next := Suc (id_next w)\<rparr>)"
  by (simp add: fresh_uuid_def)

lemma notify_eval [simp, go_io]:
  "notify og ev ti de w = (Inr (), w\<lparr>outbox := outbox w @
     [\<lparr>n_org = og, n_event = ev, n_title = ti, n_detail = de\<rparr>]\<rparr>)"
  by (simp add: notify_def)

lemma next_fault_db [simp]: "next_fault (w\<lparr>db := d\<rparr>) = (next_fault w)\<lparr>db := d\<rparr>"
  by (simp add: next_fault_def)

lemma refused_now_db [simp]: "refused_now (w\<lparr>db := d\<rparr>) = refused_now w"
  by (simp add: refused_now_def)

lemma fault_now_db [simp]: "fault_now (w\<lparr>db := d\<rparr>) = fault_now w"
  by (simp add: fault_now_def)

lemma tx_Inr [go_io]:
  "tx m w = (Inr x, w') \<longleftrightarrow> (\<exists>w1. m w = (Inr x, w1) \<and> \<not> fault_now w1 \<and> w' = next_fault w1)"
  by (auto simp: tx_def split: prod.splits sum.splits)

lemma tx_Inl_db: "tx m w = (Inl e, w') \<Longrightarrow> db w' = db w"
  by (auto simp: tx_def split: prod.splits sum.splits if_splits)

subsection \<open>Invariants of the database across statements\<close>

definition on_db :: "(database \<Rightarrow> bool) \<Rightarrow> world \<Rightarrow> bool" where
  "on_db I w = I (db w)"

lemma keeps_db_query [keeps_intros]: "keeps (on_db I) (query f)"
  by (simp add: keeps_def query_def statement_def on_db_def)

lemma keeps_db_query_row [keeps_intros]: "keeps (on_db I) (query_row f)"
  by (simp add: keeps_def query_row_def statement_def on_db_def)

lemma keeps_db_query_page [keeps_intros]: "keeps (on_db I) (query_page p f)"
  unfolding query_page_def by (intro keeps_intros)

lemma keeps_db_now [keeps_intros]: "keeps (on_db I) now"
  unfolding now_def by (intro keeps_intros)

lemma keeps_db_cluster [keeps_intros]: "keeps (on_db I) (cluster c)"
  by (simp add: keeps_def cluster_def on_db_def)

lemma keeps_db_notify [keeps_intros]: "keeps (on_db I) (notify og ev ti de)"
  by (simp add: keeps_def notify_def on_db_def)

lemma keeps_db_fresh [keeps_intros]: "keeps (on_db I) fresh_uuid"
  by (simp add: keeps_def fresh_uuid_def on_db_def)

lemma keeps_db_rand [keeps_intros]: "keeps (on_db I) (rand_bytes n)"
  by (simp add: keeps_def rand_bytes_def on_db_def)

lemma keeps_db_exec: "(\<And>d. I d \<Longrightarrow> I (f d)) \<Longrightarrow> keeps (on_db I) (exec f)"
  by (simp add: keeps_def exec_def statement_def on_db_def)

lemma keeps_db_update_where: "(\<And>d. I d \<Longrightarrow> I (upd (update_live P f) d)) \<Longrightarrow> keeps (on_db I) (update_where tbl upd P f)"
  by (simp add: keeps_def update_where_def statement_def on_db_def)

lemma keeps_db_update_row: "(\<And>d. I d \<Longrightarrow> I (upd (replace_pk r) d)) \<Longrightarrow> keeps (on_db I) (update_row uniq tbl upd r)"
  by (auto simp: keeps_def update_row_def statement_def on_db_def)

lemma keeps_db_tx [keeps_intros]: "keeps (on_db I) m \<Longrightarrow> keeps (on_db I) (tx m)"
  by (auto simp: keeps_def tx_def on_db_def split: prod.splits sum.splits)

subsection \<open>Reading and failing without effect\<close>

text \<open>\<open>reads m\<close>: \<open>m\<close> never changes the database; \<open>all_or_nothing m\<close>: it does not when it fails.\<close>

definition reads :: "'a io \<Rightarrow> bool" where
  "reads m \<longleftrightarrow> (\<forall>w. db (snd (m w)) = db w)"

definition all_or_nothing :: "'a io \<Rightarrow> bool" where
  "all_or_nothing m \<longleftrightarrow> (\<forall>w e w'. m w = (Inl e, w') \<longrightarrow> db w' = db w)"

named_theorems reads_intros "actions that only read"

lemma readsD: "reads m \<Longrightarrow> m w = (r, w') \<Longrightarrow> db w' = db w"
  unfolding reads_def by (metis snd_conv)

lemma reads_ret [reads_intros]: "reads (ret x)" by (simp add: reads_def)
lemma reads_err [reads_intros]: "reads (err e)" by (simp add: reads_def)
lemma reads_now [reads_intros]: "reads now" by (simp add: reads_def)
lemma reads_query [reads_intros]: "reads (query f)" by (simp add: reads_def query_def statement_def)
lemma reads_query_row [reads_intros]: "reads (query_row f)" by (simp add: reads_def query_row_def statement_def)
lemma reads_query_page [reads_intros]: "reads (query_page p f)" by (simp add: query_page_def reads_query)
lemma reads_cluster [reads_intros]: "reads (cluster c)" by (simp add: reads_def cluster_def)
lemma reads_notify [reads_intros]: "reads (notify og ev ti de)" by (simp add: reads_def)
lemma reads_fresh [reads_intros]: "reads fresh_uuid" by (simp add: reads_def)
lemma reads_rand [reads_intros]: "reads (rand_bytes n)" by (simp add: reads_def rand_bytes_def)

lemma reads_handle [reads_intros]:
  "reads m \<Longrightarrow> (\<And>e. reads (h e)) \<Longrightarrow> (\<And>x. reads (k x)) \<Longrightarrow> reads (handle m h k)"
  unfolding reads_def handle_def by (auto split: prod.splits sum.splits) (metis snd_conv)+

lemma reads_bind [reads_intros]: "reads m \<Longrightarrow> (\<And>x. reads (k x)) \<Longrightarrow> reads (bind m k)"
  unfolding bind_def by (intro reads_intros)

lemma reads_seq [reads_intros]: "reads m \<Longrightarrow> reads k \<Longrightarrow> reads (seq m k)"
  unfolding seq_def by (intro reads_intros)

lemma reads_attempt [reads_intros]: "reads m \<Longrightarrow> reads (attempt m)"
  unfolding attempt_def by (intro reads_intros)

lemma reads_if [reads_intros]: "reads m \<Longrightarrow> reads n \<Longrightarrow> reads (if b then m else n)"
  by simp

lemma reads_option [reads_intros]: "reads m \<Longrightarrow> (\<And>y. reads (n y)) \<Longrightarrow> reads (case x of None \<Rightarrow> m | Some y \<Rightarrow> n y)"
  by (cases x) auto

lemma reads_for_each [reads_intros]:
  assumes "\<And>x. reads (f x)"
  shows "reads (for_each f xs)"
  by (induction xs; unfold for_each.simps; intro reads_intros assms)

lemma reads_pair [reads_intros]: "(\<And>x y. reads (f x y)) \<Longrightarrow> reads (case z of (x, y) \<Rightarrow> f x y)"
  by (cases z) simp

lemma aon_reads: "reads m \<Longrightarrow> all_or_nothing m"
  by (auto simp: all_or_nothing_def dest: readsD)

lemma aon_tx: "all_or_nothing (tx m)"
  by (auto simp: all_or_nothing_def dest: tx_Inl_db)

lemma aon_exec: "all_or_nothing (exec f)"
  by (auto simp: all_or_nothing_def exec_Inl)

lemma aon_update_row: "all_or_nothing (update_row uniq tbl upd r)"
  by (auto simp: all_or_nothing_def update_row_def statement_def split: if_splits)

lemma aon_insert_row: "all_or_nothing (insert_row uniq tbl upd r)"
  by (auto simp: all_or_nothing_def insert_row_def Let_def split: if_splits)

lemma aon_handle:
  "reads m \<Longrightarrow> (\<And>e. all_or_nothing (h e)) \<Longrightarrow> (\<And>x. all_or_nothing (k x)) \<Longrightarrow> all_or_nothing (handle m h k)"
  unfolding all_or_nothing_def by (auto simp: handle_cases dest: readsD)

lemma aon_bind: "reads m \<Longrightarrow> (\<And>x. all_or_nothing (k x)) \<Longrightarrow> all_or_nothing (bind m k)"
  unfolding bind_def by (auto intro!: aon_handle intro: aon_reads [OF reads_err])

lemma aon_seq: "reads m \<Longrightarrow> all_or_nothing k \<Longrightarrow> all_or_nothing (seq m k)"
  unfolding seq_def by (intro aon_bind)

text \<open>A change followed by steps that cannot fail.\<close>

lemma aon_then_ret: "all_or_nothing m \<Longrightarrow> all_or_nothing (seq m (ret x))"
  by (auto simp: all_or_nothing_def seq_def bind_def handle_cases)

lemma aon_then_notify: "all_or_nothing m \<Longrightarrow> all_or_nothing (seq m (notify og ev ti de))"
  by (auto simp: all_or_nothing_def seq_def bind_def handle_cases)

lemma aon_if: "all_or_nothing m \<Longrightarrow> all_or_nothing n \<Longrightarrow> all_or_nothing (if b then m else n)"
  by simp

section \<open>A world to start from\<close>

text \<open>An empty database in which no call fails; the concrete runs of the development extend it.\<close>

definition empty_database :: database where
  "empty_database = \<lparr>organizations = [], users = [], teams = [], team_members = [], projects = [],
     applications = [], deployments = [], domains = [], invitations = [], api_keys = [], settings = [],
     identities = [], used_challenges = [], pages = [], page_deployments = [], workers = [],
     worker_deployments = [], alerts = [], shared_resources = [], cron_jobs = [], cron_runs = [],
     channels = [], managed_dbs = [], db_backups = [], sys_backups = [], nodes = [], templates = [], deploy_targets = [],
     snapshots = [], events = []\<rparr>"

definition world_of :: "database \<Rightarrow> world" where
  "world_of d = \<lparr>db = d, faults = [], refusals = [], clock = 1000, id_supply = (\<lambda>n. of_nat (n + 100)), id_next = 0,
     entropy = (\<lambda>n. of_nat n), entropy_next = 0, queue = [], outbox = [], calls = []\<rparr>"

lemma world_of_simps [simp]:
  "db (world_of d) = d" "faults (world_of d) = []" "refusals (world_of d) = []" "clock (world_of d) = 1000" "id_next (world_of d) = 0"
  "id_supply (world_of d) n = of_nat (n + 100)" "queue (world_of d) = []" "outbox (world_of d) = []"
  "calls (world_of d) = []" "entropy_next (world_of d) = 0" "fault_now (world_of d) = False" "refused_now (world_of d) = False"
  by (simp_all add: world_of_def fault_now_def refused_now_def)

lemma world_of_db_update [simp]: "(world_of d)\<lparr>db := d'\<rparr> = world_of d'"
  by (simp add: world_of_def)

lemma next_fault_world_of [simp]: "next_fault (world_of d) = world_of d"
  by (simp add: next_fault_def world_of_def)

lemma next_answer_world_of [simp]: "next_answer (world_of d) = world_of d"
  by (simp add: next_answer_def world_of_def)

end
