(* ===== verification/Account_Store.thy ===== *)
theory Account_Store imports Pg_Store "HOL-Library.List_Lexorder" begin

text \<open>
  The account side of \<open>store/pg\<close>: users, teams and their members, organisations, linked identities,
  invitations, spent OAuth challenges, settings and API keys.  One definition per store method, named
  after it; a method whose Go body is one statement is one statement here.  Column defaults are those
  of the model's \<open>default:\<close> tags, which bun writes for a zero value.  Text is ordered byte by byte, as
  in a database with the C collation.
\<close>

definition or_default :: "string \<Rightarrow> string \<Rightarrow> string" where
  "or_default dflt s = (if s = [] then dflt else s)"

section \<open>Users\<close>

definition users_get_by_id :: "uuid \<Rightarrow> user io" where
  "users_get_by_id i = query_row (\<lambda>d. by_id i (users d))"

definition users_get_by_email :: "string \<Rightarrow> user io" where
  "users_get_by_email e = query_row (\<lambda>d. find_live (\<lambda>u. u_email u = e) (users d))"

definition users_create :: "user \<Rightarrow> user io" where
  "users_create u = insert_row (unique_live u_email) users users_update
     (u\<lparr>u_role := or_default role_member (u_role u)\<rparr>)"

definition users_update_row :: "user \<Rightarrow> unit io" where
  "users_update_row u = update_row (unique_live u_email) users users_update u"

definition users_set :: "uuid \<Rightarrow> (user \<Rightarrow> user) \<Rightarrow> unit io" where
  "users_set i f = exec (users_update (update_live (\<lambda>u. bm_id u = i) f))"

definition users_update_password :: "uuid \<Rightarrow> string \<Rightarrow> unit io" where
  "users_update_password i h = users_set i (\<lambda>u. u\<lparr>u_password_hash := h\<rparr>)"

definition users_update_2fa :: "uuid \<Rightarrow> bool \<Rightarrow> string \<Rightarrow> unit io" where
  "users_update_2fa i enabled secretVal =
     users_set i (\<lambda>u. u\<lparr>u_2fa_enabled := enabled, u_2fa_secret := secretVal\<rparr>)"

definition users_list_by_org :: "uuid \<Rightarrow> list_params \<Rightarrow> (user list \<times> nat) io" where
  "users_list_by_org og p = query_page p (\<lambda>d. newest_first (select_live (\<lambda>u. u_org u = og) (users d)))"

definition bump_version :: "user \<Rightarrow> user" where
  "bump_version u = u\<lparr>u_token_version := u_token_version u + 1\<rparr>"

definition users_update_role :: "uuid \<Rightarrow> role \<Rightarrow> unit io" where
  "users_update_role i r = users_set i (\<lambda>u. bump_version (u\<lparr>u_role := r\<rparr>))"

definition users_remove_from_org :: "uuid \<Rightarrow> unit io" where
  "users_remove_from_org i =
     bind now (\<lambda>t. users_set i (\<lambda>u. (bump_version u)\<lparr>bm_deleted := Some t\<rparr>))"

definition users_bump_token_version :: "uuid \<Rightarrow> unit io" where
  "users_bump_token_version i = users_set i bump_version"

definition users_count :: "nat io" where
  "users_count = query (\<lambda>d. length (select_live (\<lambda>_. True) (users d)))"

definition users_count_by_role :: "uuid \<Rightarrow> role \<Rightarrow> nat io" where
  "users_count_by_role og r = query (\<lambda>d. length (select_live (\<lambda>u. u_org u = og \<and> u_role u = r) (users d)))"

section \<open>Teams and their members\<close>

definition team_key :: "team \<Rightarrow> uuid \<times> string" where
  "team_key t = (t_org t, t_name t)"

definition teams_create :: "team \<Rightarrow> team io" where
  "teams_create t = insert_row (unique_all team_key) teams teams_update t"

definition teams_update_row :: "team \<Rightarrow> unit io" where
  "teams_update_row t = update_row (unique_all team_key) teams teams_update t"

definition teams_delete :: "uuid \<Rightarrow> unit io" where
  "teams_delete i = bind now (\<lambda>n. exec (teams_update (delete_pk n i)))"

definition teams_get_by_id :: "uuid \<Rightarrow> team io" where
  "teams_get_by_id i = query_row (\<lambda>d. by_id i (teams d))"

definition teams_list_by_org :: "uuid \<Rightarrow> team list io" where
  "teams_list_by_org og = query (\<lambda>d. sort_key t_name (select_live (\<lambda>t. t_org t = og) (teams d)))"

definition teams_count_projects :: "uuid \<Rightarrow> nat io" where
  "teams_count_projects i = query (\<lambda>d. length (select_live (\<lambda>p. p_team p = i) (projects d)))"

definition team_members_add :: "uuid \<Rightarrow> uuid \<Rightarrow> unit io" where
  "team_members_add t u = (\<lambda>w.
     let row = \<lparr>tm_id = id_supply w (id_next w), tm_team = t, tm_user = u, tm_created = clock w\<rparr> in
     exec (\<lambda>d. if list_ex (\<lambda>m. tm_team m = t \<and> tm_user m = u) (team_members d) then d
               else team_members_update (\<lambda>ms. ms @ [row]) d)
       (w\<lparr>id_next := Suc (id_next w)\<rparr>))"

definition team_members_remove :: "uuid \<Rightarrow> uuid \<Rightarrow> unit io" where
  "team_members_remove t u =
     exec (team_members_update (filter (\<lambda>m. \<not> (tm_team m = t \<and> tm_user m = u))))"

definition team_members_list_by_team :: "uuid \<Rightarrow> team_member list io" where
  "team_members_list_by_team t =
     query (\<lambda>d. sort_key tm_created (filter (\<lambda>m. tm_team m = t) (team_members d)))"

definition team_members_list_by_user :: "uuid \<Rightarrow> team_member list io" where
  "team_members_list_by_user u =
     query (\<lambda>d. sort_key tm_created (filter (\<lambda>m. tm_user m = u) (team_members d)))"

definition team_ids_of :: "uuid \<Rightarrow> database \<Rightarrow> uuid list" where
  "team_ids_of u d = map tm_team (filter (\<lambda>m. tm_user m = u) (team_members d))"

definition team_members_list_team_ids_by_user :: "uuid \<Rightarrow> uuid list io" where
  "team_members_list_team_ids_by_user u = query (team_ids_of u)"

definition org_member_row :: "team_member \<Rightarrow> user \<Rightarrow> org_member" where
  "org_member_row m u = \<lparr>om_id = bm_id u, om_email = u_email u, om_display_name = u_display_name u,
     om_first_name = u_first_name u, om_last_name = u_last_name u, om_avatar = u_avatar u,
     om_role = u_role u, om_created = tm_created m\<rparr>"

definition team_members_list_users_by_team :: "uuid \<Rightarrow> org_member list io" where
  "team_members_list_users_by_team t = query (\<lambda>d.
     concat (map (\<lambda>m. map (org_member_row m) (select_live (\<lambda>u. bm_id u = tm_user m) (users d)))
       (sort_key tm_created (filter (\<lambda>m. tm_team m = t) (team_members d)))))"

section \<open>Organisations, identities, invitations\<close>

definition organizations_get_by_id :: "uuid \<Rightarrow> organization io" where
  "organizations_get_by_id i = query_row (\<lambda>d. by_id i (organizations d))"

definition organizations_create :: "organization \<Rightarrow> organization io" where
  "organizations_create og = insert_row (unique_all org_name) organizations organizations_update og"

definition organizations_update_row :: "organization \<Rightarrow> unit io" where
  "organizations_update_row og = update_row (unique_all org_name) organizations organizations_update og"

definition identities_get_by_provider_subject :: "string \<Rightarrow> string \<Rightarrow> user_identity io" where
  "identities_get_by_provider_subject p s =
     query_row (\<lambda>d. find_live (\<lambda>x. ui_provider x = p \<and> ui_subject x = s) (identities d))"

definition identities_create :: "user_identity \<Rightarrow> user_identity io" where
  "identities_create x = insert_row (unique_live (\<lambda>y. (ui_provider y, ui_subject y))) identities identities_update x"

definition invitations_create :: "invitation \<Rightarrow> invitation io" where
  "invitations_create v = (\<lambda>w.
     let v' = v\<lparr>inv_id := (if inv_id v = uuid_nil then id_supply w (id_next w) else inv_id v),
                inv_role := or_default role_member (inv_role v), inv_created := clock w\<rparr> in
     statement (\<lambda>d. if list_ex (\<lambda>x. inv_token x = inv_token v' \<or> inv_id x = inv_id v') (invitations d)
         then (Inl ErrUnique, d) else (Inr v', invitations_update (\<lambda>t. t @ [v']) d))
       (w\<lparr>id_next := Suc (id_next w)\<rparr>))"

definition invitations_get_by_id :: "uuid \<Rightarrow> invitation io" where
  "invitations_get_by_id i = query_row (\<lambda>d. find (\<lambda>x. inv_id x = i) (invitations d))"

definition invitations_get_by_token :: "string \<Rightarrow> invitation io" where
  "invitations_get_by_token t = query_row (\<lambda>d. find (\<lambda>x. inv_token x = t) (invitations d))"

definition invitations_list_by_org :: "uuid \<Rightarrow> invitation list io" where
  "invitations_list_by_org og =
     query (\<lambda>d. sort_key (\<lambda>x. - inv_created x) (rev (filter (\<lambda>x. inv_org x = og) (invitations d))))"

definition invitations_delete :: "uuid \<Rightarrow> unit io" where
  "invitations_delete i = exec (invitations_update (filter (\<lambda>x. inv_id x \<noteq> i)))"

definition invitations_update_row :: "invitation \<Rightarrow> unit io" where
  "invitations_update_row v = exec (invitations_update (map (\<lambda>x. if inv_id x = inv_id v then v else x)))"

section \<open>OAuth challenges\<close>

text \<open>\<open>Consume\<close>: the insert decides, the pruning of expired rows is a second statement whose
  failure is ignored.\<close>

definition oauth_challenges_consume :: "string \<Rightarrow> time \<Rightarrow> bool io" where
  "oauth_challenges_consume jti expires =
     bind (statement (\<lambda>d. if list_ex (\<lambda>c. uc_jti c = jti) (used_challenges d) then (Inr False, d)
         else (Inr True, used_challenges_update (\<lambda>cs. cs @ [\<lparr>uc_jti = jti, uc_expires = expires\<rparr>]) d)))
       (\<lambda>fresh. bind now (\<lambda>t.
          seq (attempt (exec (used_challenges_update (filter (\<lambda>c. \<not> uc_expires c < t))))) (ret fresh)))"

section \<open>Settings\<close>

definition settings_lookup :: "string \<Rightarrow> setting list \<Rightarrow> string" where
  "settings_lookup k t = (case find (\<lambda>x. st_key x = k) t of None \<Rightarrow> [] | Some x \<Rightarrow> st_value x)"

definition settings_get :: "string \<Rightarrow> string io" where
  "settings_get k = query (\<lambda>d. settings_lookup k (settings d))"

definition settings_put :: "string \<Rightarrow> string \<Rightarrow> setting list \<Rightarrow> setting list" where
  "settings_put k v t =
     (if list_ex (\<lambda>x. st_key x = k) t then map (\<lambda>x. if st_key x = k then x\<lparr>st_value := v\<rparr> else x) t
      else t @ [\<lparr>st_key = k, st_value = v\<rparr>])"

definition settings_set :: "string \<Rightarrow> string \<Rightarrow> unit io" where
  "settings_set k v = exec (settings_update (settings_put k v))"

definition is_sensitive_setting_key :: "string \<Rightarrow> bool" where
  "is_sensitive_setting_key k \<longleftrightarrow>
     has_suffix k ''_secret'' \<or> has_suffix k ''_password'' \<or> has_suffix k ''_pem'' \<or> has_suffix k ''_token'' \<or>
     has_prefix k ''github_setup_state_'' \<or> has_prefix k ''github_oauth_state_''"

section \<open>API keys\<close>

definition api_keys_create :: "api_key \<Rightarrow> api_key io" where
  "api_keys_create k = insert_row (unique_all ak_hash) api_keys api_keys_update k"

definition api_keys_get_by_hash :: "string \<Rightarrow> api_key io" where
  "api_keys_get_by_hash h = query_row (\<lambda>d. find_live (\<lambda>k. ak_hash k = h) (api_keys d))"

definition api_keys_get_by_id_for_user :: "uuid \<Rightarrow> uuid \<Rightarrow> api_key io" where
  "api_keys_get_by_id_for_user i u =
     query_row (\<lambda>d. find_live (\<lambda>k. bm_id k = i \<and> ak_user k = u) (api_keys d))"

definition api_keys_list_by_user :: "uuid \<Rightarrow> api_key list io" where
  "api_keys_list_by_user u = query (\<lambda>d. newest_first (select_live (\<lambda>k. ak_user k = u) (api_keys d)))"

definition api_keys_delete :: "uuid \<Rightarrow> uuid \<Rightarrow> unit io" where
  "api_keys_delete i u = bind now (\<lambda>t.
     bind (update_where api_keys api_keys_update (\<lambda>k. bm_id k = i \<and> ak_user k = u) (\<lambda>k. k\<lparr>bm_deleted := Some t\<rparr>))
       (\<lambda>n. if n = 0 then err ErrNoRows else ret ()))"

definition api_keys_touch_last_used :: "uuid \<Rightarrow> unit io" where
  "api_keys_touch_last_used i = bind now (\<lambda>t.
     exec (api_keys_update (update_live (\<lambda>k. bm_id k = i) (\<lambda>k. k\<lparr>ak_last_used := Some t\<rparr>))))"

definition revoke_keys :: "time \<Rightarrow> uuid \<Rightarrow> api_key list \<Rightarrow> api_key list" where
  "revoke_keys t u = soft_delete t (\<lambda>k. ak_user k = u)"

definition api_keys_revoke_all_for_user :: "uuid \<Rightarrow> unit io" where
  "api_keys_revoke_all_for_user u = bind now (\<lambda>t. exec (api_keys_update (revoke_keys t u)))"

end
