(* ===== verification/Like_Search.thy ===== *)
theory Like_Search imports Prelude_Go begin

text \<open>
  The literal search of the list endpoints (\<open>store/pg/pg.go\<close>): \<open>likeContains\<close> escapes a term and
  wraps it in \<open>%\<close>, and the queries match it with \<open>LOWER(col) LIKE LOWER(?) ESCAPE '\'\<close>.
  \<open>like_match\<close> is PostgreSQL's \<open>LIKE\<close> with that escape character.
\<close>

definition backslash :: char where "backslash = CHR 0x5C"

lemma backslash_neq [simp]:
  "backslash \<noteq> CHR ''%''" "CHR ''%'' \<noteq> backslash" "backslash \<noteq> CHR ''_''" "CHR ''_'' \<noteq> backslash"
  by (simp_all add: backslash_def)

fun like_escape :: "string \<Rightarrow> string" where
  "like_escape [] = []"
| "like_escape (c # s) =
     (if c = backslash \<or> c = CHR ''%'' \<or> c = CHR ''_'' then backslash # c # like_escape s
      else c # like_escape s)"

definition like_contains :: "string \<Rightarrow> string" where
  "like_contains t = ''%'' @ like_escape t @ ''%''"

function like_match :: "string \<Rightarrow> string \<Rightarrow> bool" where
  "like_match [] s = (s = [])"
| "like_match (c # p) s =
     (if c = CHR ''%'' then like_match p s \<or> (case s of [] \<Rightarrow> False | _ # s' \<Rightarrow> like_match (c # p) s')
      else case s of [] \<Rightarrow> False | d # s' \<Rightarrow>
        if c = CHR ''_'' then like_match p s'
        else if c = backslash then (case p of [] \<Rightarrow> False | e # p' \<Rightarrow> d = e \<and> like_match p' s')
        else d = c \<and> like_match p s')"
  by pat_completeness auto
termination
  by (relation "measure (\<lambda>(p, s). length p + length s)") auto

declare like_match.simps [simp del]

definition like_search :: "string \<Rightarrow> string \<Rightarrow> bool" where
  "like_search trm col = like_match (to_lower (like_contains trm)) (to_lower col)"

lemma like_match_Nil [simp]: "like_match [] s \<longleftrightarrow> s = []"
  by (simp add: like_match.simps)

lemma like_match_escape_char: "like_match (backslash # c # p) s \<longleftrightarrow> (\<exists>s'. s = c # s' \<and> like_match p s')"
  by (simp add: like_match.simps(2) split: list.splits)

lemma like_match_plain:
  "c \<noteq> CHR ''%'' \<Longrightarrow> c \<noteq> CHR ''_'' \<Longrightarrow> c \<noteq> backslash \<Longrightarrow>
   like_match (c # p) s \<longleftrightarrow> (\<exists>s'. s = c # s' \<and> like_match p s')"
  by (simp add: like_match.simps(2) split: list.splits)

lemma like_match_percent: "like_match (CHR ''%'' # p) s \<longleftrightarrow> (\<exists>u v. s = u @ v \<and> like_match p v)"
proof (induction s)
  case Nil
  show ?case by (simp add: like_match.simps(2))
next
  case (Cons c s)
  have "like_match (CHR ''%'' # p) (c # s) \<longleftrightarrow> like_match p (c # s) \<or> like_match (CHR ''%'' # p) s"
    by (subst like_match.simps) simp
  then show ?case using Cons.IH by (auto simp: Cons_eq_append_conv)
qed

lemma like_match_escaped:
  "like_match (like_escape t @ p) s \<longleftrightarrow> (\<exists>v. s = t @ v \<and> like_match p v)"
  by (induction t arbitrary: s) (auto simp: like_match_escape_char like_match_plain)

lemma lower_escape_char [simp]:
  "lower_char backslash = backslash" "lower_char CHR ''%'' = CHR ''%''" "lower_char CHR ''_'' = CHR ''_''"
  by (simp_all add: lower_char_def backslash_def is_upper_char_def char_in_def)

lemma lower_char_nonletter:
  assumes "\<not> is_lower_char d"
  shows "lower_char c = d \<longleftrightarrow> c = d \<and> \<not> is_upper_char d"
proof
  assume l: "lower_char c = d"
  have "\<not> is_upper_char c"
  proof
    assume u: "is_upper_char c"
    then have "is_lower_char (lower_char c)"
      unfolding is_lower_char_def char_in_def by (simp add: of_char_lower_char is_upper_char_def char_in_def)
    with l assms show False by simp
  qed
  with l show "c = d \<and> \<not> is_upper_char d" by (auto simp: lower_char_def)
next
  assume "c = d \<and> \<not> is_upper_char d"
  then show "lower_char c = d" by (simp add: lower_char_def)
qed

lemma lower_escape: "to_lower (like_escape t) = like_escape (to_lower t)"
proof (induction t)
  case (Cons c t)
  have "lower_char c = backslash \<longleftrightarrow> c = backslash" "lower_char c = CHR ''%'' \<longleftrightarrow> c = CHR ''%''"
    "lower_char c = CHR ''_'' \<longleftrightarrow> c = CHR ''_''"
    by (subst lower_char_nonletter; simp add: is_lower_char_def is_upper_char_def char_in_def backslash_def)+
  with Cons show ?case by (auto simp: to_lower_def)
qed (simp add: to_lower_def)

lemma like_search_contains: "like_search trm col \<longleftrightarrow> contains (to_lower col) (to_lower trm)"
proof -
  have "to_lower (like_contains trm) = CHR ''%'' # like_escape (to_lower trm) @ ''%''"
    using lower_escape [of trm] by (simp add: like_contains_def to_lower_def)
  then show ?thesis
    by (auto simp: like_search_def like_match_percent like_match_escaped contains_iff)
qed

end
