(* ===== verification/App_Store.thy ===== *)
theory App_Store imports Account_Store Like_Search begin

text \<open>
  The workload side of \<open>store/pg\<close>: projects, applications, deployments, domains, pages, workers and
  the metric alerts, one definition per store method.  Conditional updates answer whether they changed
  a row: they are what serialises concurrent deploys.  A status that a query compares with a string
  from a request goes through the text of the constant.
\<close>

section \<open>Status texts\<close>

primrec app_status_text :: "app_status \<Rightarrow> string" where
  "app_status_text AppIdle = ''idle''"
| "app_status_text AppBuilding = ''building''"
| "app_status_text AppDeploying = ''deploying''"
| "app_status_text AppRestarting = ''restarting''"
| "app_status_text AppRunning = ''running''"
| "app_status_text AppPartial = ''partial''"
| "app_status_text AppStopping = ''stopping''"
| "app_status_text AppStopped = ''stopped''"
| "app_status_text AppError = ''error''"

primrec deploy_status_text :: "deploy_status \<Rightarrow> string" where
  "deploy_status_text DeployQueued = ''queued''"
| "deploy_status_text DeployBuilding = ''building''"
| "deploy_status_text DeployDeploying = ''deploying''"
| "deploy_status_text DeploySuccess = ''success''"
| "deploy_status_text DeployFailed = ''failed''"
| "deploy_status_text DeployCancelled = ''cancelled''"

primrec page_status_text :: "page_status \<Rightarrow> string" where
  "page_status_text PageIdle = ''idle''"
| "page_status_text PageDeploying = ''deploying''"
| "page_status_text PageLive = ''live''"
| "page_status_text PageError = ''error''"
| "page_status_text PageDraining = ''draining''"

primrec page_provider_text :: "page_provider \<Rightarrow> string" where
  "page_provider_text PageAWSCloudFront = ''aws_cloudfront''"
| "page_provider_text PageCloudflarePages = ''cloudflare_pages''"

primrec worker_status_text :: "worker_status \<Rightarrow> string" where
  "worker_status_text WorkerIdle = ''idle''"
| "worker_status_text WorkerDeploying = ''deploying''"
| "worker_status_text WorkerLive = ''live''"
| "worker_status_text WorkerError = ''error''"
| "worker_status_text WorkerDraining = ''draining''"

text \<open>The filters of the global lists: an empty string is no restriction, \<open>ProjectIDs\<close> is
  \<open>None\<close> for all projects (Go's nil slice).\<close>

record list_filter =
  lf_search :: string
  lf_status :: string
  lf_provider :: string
  lf_projects :: "uuid list option"

definition in_scope :: "list_filter \<Rightarrow> uuid \<Rightarrow> bool" where
  "in_scope f p = (case lf_projects f of None \<Rightarrow> True | Some ids \<Rightarrow> list_ex (\<lambda>i. i = p) ids)"

definition empty_scope :: "list_filter \<Rightarrow> bool" where
  "empty_scope f \<longleftrightarrow> lf_projects f = Some []"

section \<open>Projects\<close>

text \<open>\<open>attachTeams\<close> for one project: no query when the project has no team, an error when its
  team is gone.\<close>

definition attach_team :: "project \<Rightarrow> project io" where
  "attach_team p =
     (if p_team p = uuid_nil then ret p
      else bind (query (\<lambda>d. by_id (p_team p) (teams d))) (\<lambda>t. case t of
          None \<Rightarrow> err (ErrMsg ''team not found for project'')
        | Some t \<Rightarrow> ret (p\<lparr>p_team_row := Some t\<rparr>)))"

definition attach_teams :: "project list \<Rightarrow> project list io" where
  "attach_teams ps =
     (if list_all (\<lambda>p. p_team p = uuid_nil) ps then ret ps
      else bind (query (\<lambda>d. map (\<lambda>p. (p, by_id (p_team p) (teams d))) ps)) (\<lambda>pts.
        if list_ex (\<lambda>(p, t). p_team p \<noteq> uuid_nil \<and> t = None) pts
        then err (ErrMsg ''team not found for project'')
        else ret (map (\<lambda>(p, t). if p_team p = uuid_nil then p else p\<lparr>p_team_row := t\<rparr>) pts)))"

definition projects_get_by_id :: "uuid \<Rightarrow> project io" where
  "projects_get_by_id i =
     bind (query_row (\<lambda>d. map_option project_after_scan (by_id i (projects d)))) attach_team"

definition projects_create :: "project \<Rightarrow> project io" where
  "projects_create p = insert_row no_index projects projects_update
     (p\<lparr>p_environment := or_default ''development'' (p_environment p)\<rparr>)"

definition projects_update_row :: "project \<Rightarrow> unit io" where
  "projects_update_row p = update_row no_index projects projects_update p"

definition projects_delete :: "uuid \<Rightarrow> unit io" where
  "projects_delete i = bind now (\<lambda>t. exec (projects_update (delete_pk t i)))"

definition projects_list_by_org :: "uuid \<Rightarrow> list_params \<Rightarrow> (project list \<times> nat) io" where
  "projects_list_by_org og q =
     bind (query_page q (\<lambda>d. map project_after_scan (newest_first (select_live (\<lambda>p. p_org p = og) (projects d)))))
       (\<lambda>(ps, n). bind (attach_teams ps) (\<lambda>ps'. ret (ps', n)))"

definition team_project_rows :: "uuid \<Rightarrow> uuid list \<Rightarrow> database \<Rightarrow> project list" where
  "team_project_rows og ts d = select_live (\<lambda>p. p_org p = og \<and> list_ex (\<lambda>t. t = p_team p) ts) (projects d)"

definition projects_list_ids_by_teams :: "uuid \<Rightarrow> uuid list \<Rightarrow> uuid list io" where
  "projects_list_ids_by_teams og ts =
     (if ts = [] then ret [] else query (\<lambda>d. map bm_id (team_project_rows og ts d)))"

definition projects_list_by_teams :: "uuid \<Rightarrow> uuid list \<Rightarrow> list_params \<Rightarrow> (project list \<times> nat) io" where
  "projects_list_by_teams og ts q =
     (if ts = [] then ret ([], 0)
      else bind (query_page q (\<lambda>d. map project_after_scan (newest_first (team_project_rows og ts d))))
        (\<lambda>(ps, n). bind (attach_teams ps) (\<lambda>ps'. ret (ps', n))))"

section \<open>Applications\<close>

definition applications_get_by_id :: "uuid \<Rightarrow> application io" where
  "applications_get_by_id i = query_row (\<lambda>d. by_id i (applications d))"

definition application_defaults :: "application \<Rightarrow> application" where
  "application_defaults a = a\<lparr>
     a_git_branch := or_default ''main'' (a_git_branch a), a_dockerfile := or_default ''Dockerfile'' (a_dockerfile a),
     a_build_context := or_default ''.'' (a_build_context a),
     a_replicas := (if a_replicas a = 0 then 1 else a_replicas a),
     a_cpu_limit := or_default ''500m'' (a_cpu_limit a), a_mem_limit := or_default ''512Mi'' (a_mem_limit a),
     a_cpu_request := or_default ''50m'' (a_cpu_request a), a_mem_request := or_default ''64Mi'' (a_mem_request a),
     a_strategy := or_default ''rolling'' (a_strategy a), a_grace := (if a_grace a = 0 then 30 else a_grace a),
     a_provider := or_default ''k3s'' (a_provider a)\<rparr>"

definition applications_create :: "application \<Rightarrow> application io" where
  "applications_create a = insert_row no_index applications applications_update (application_defaults a)"

definition applications_update_row :: "application \<Rightarrow> unit io" where
  "applications_update_row a = update_row no_index applications applications_update a"

definition applications_update_status :: "uuid \<Rightarrow> app_status \<Rightarrow> unit io" where
  "applications_update_status i s =
     exec (applications_update (update_live (\<lambda>a. bm_id a = i) (\<lambda>a. a\<lparr>a_status := s\<rparr>)))"

definition applications_delete :: "uuid \<Rightarrow> unit io" where
  "applications_delete i = bind now (\<lambda>t. exec (applications_update (delete_pk t i)))"

definition applications_list_by_project :: "uuid \<Rightarrow> list_params \<Rightarrow> (application list \<times> nat) io" where
  "applications_list_by_project i q =
     query_page q (\<lambda>d. newest_first (select_live (\<lambda>a. a_project a = i) (applications d)))"

definition applications_list_all :: "list_params \<Rightarrow> list_filter \<Rightarrow> (application list \<times> nat) io" where
  "applications_list_all q f =
     (if empty_scope f then ret ([], 0)
      else query_page q (\<lambda>d. newest_first (select_live (\<lambda>a.
        (lf_search f \<noteq> [] \<longrightarrow> like_search (lf_search f) (a_name a)) \<and>
        (lf_status f \<noteq> [] \<longrightarrow> app_status_text (a_status a) = lf_status f) \<and>
        in_scope f (a_project a)) (applications d))))"

definition applications_exists_by_k8s_name :: "uuid \<Rightarrow> string \<Rightarrow> bool io" where
  "applications_exists_by_k8s_name p n =
     query (\<lambda>d. select_live (\<lambda>a. a_project a = p \<and> a_k8s_name a = n) (applications d) \<noteq> [])"

definition applications_find_by_resource :: "uuid \<Rightarrow> application option io" where
  "applications_find_by_resource r =
     query (\<lambda>d. find_live (\<lambda>a. a_git_provider a = Some r \<or> a_registry a = Some r) (applications d))"

definition applications_list_with_registry :: "application list io" where
  "applications_list_with_registry = query (\<lambda>d. select_live (\<lambda>a. a_registry a \<noteq> None) (applications d))"

section \<open>Deployments\<close>

definition deployments_get_by_id :: "uuid \<Rightarrow> deployment io" where
  "deployments_get_by_id i = query_row (\<lambda>d. by_id i (deployments d))"

definition deployments_create :: "deployment \<Rightarrow> deployment io" where
  "deployments_create x = insert_row no_index deployments deployments_update x"

definition deployments_update_row :: "deployment \<Rightarrow> unit io" where
  "deployments_update_row x = update_row no_index deployments deployments_update x"

definition deployments_list_by_app :: "uuid \<Rightarrow> list_params \<Rightarrow> (deployment list \<times> nat) io" where
  "deployments_list_by_app i q =
     query_page q (\<lambda>d. newest_first (select_live (\<lambda>x. d_app x = i) (deployments d)))"

definition deployments_list_all :: "list_params \<Rightarrow> list_filter \<Rightarrow> (deployment list \<times> nat) io" where
  "deployments_list_all q f =
     (if empty_scope f then ret ([], 0)
      else query_page q (\<lambda>d. newest_first (select_live (\<lambda>x.
        (lf_status f \<noteq> [] \<longrightarrow> deploy_status_text (d_status x) = lf_status f) \<and>
        in_scope f (d_project x)) (deployments d))))"

definition first_row :: "'a list \<Rightarrow> 'a option" where
  "first_row t = (case t of [] \<Rightarrow> None | x # _ \<Rightarrow> Some x)"

definition deployments_get_latest_by_app :: "uuid \<Rightarrow> deployment io" where
  "deployments_get_latest_by_app i =
     query_row (\<lambda>d. first_row (newest_first (select_live (\<lambda>x. d_app x = i) (deployments d))))"

section \<open>Domains\<close>

definition domains_get_by_id :: "uuid \<Rightarrow> domain io" where
  "domains_get_by_id i = query_row (\<lambda>d. by_id i (domains d))"

definition domains_create :: "domain \<Rightarrow> domain io" where
  "domains_create x = insert_row (unique_live dom_host) domains domains_update x"

definition domains_update_row :: "domain \<Rightarrow> unit io" where
  "domains_update_row x = update_row (unique_live dom_host) domains domains_update x"

definition domains_delete :: "uuid \<Rightarrow> unit io" where
  "domains_delete i = bind now (\<lambda>t. exec (domains_update (delete_pk t i)))"

definition domains_list_by_app :: "uuid \<Rightarrow> domain list io" where
  "domains_list_by_app i = query (\<lambda>d. select_live (\<lambda>x. dom_app x = i) (domains d))"

definition domains_get_by_host :: "string \<Rightarrow> domain io" where
  "domains_get_by_host h = query_row (\<lambda>d. find_live (\<lambda>x. dom_host x = h) (domains d))"

definition domains_list_all_hosts :: "string list io" where
  "domains_list_all_hosts = query (\<lambda>d. map dom_host (select_live (\<lambda>_. True) (domains d)))"

section \<open>Pages\<close>

definition page_after_scan :: "page \<Rightarrow> page" where
  "page_after_scan p = (if pg_runtime p = None then p\<lparr>pg_runtime := Some zero_page_runtime\<rparr> else p)"

definition page_key :: "page \<Rightarrow> uuid \<times> string" where
  "page_key p = (pg_project p, pg_name p)"

definition pages_get_by_id :: "uuid \<Rightarrow> page io" where
  "pages_get_by_id i = query_row (\<lambda>d. map_option page_after_scan (by_id i (pages d)))"

definition page_defaults :: "page \<Rightarrow> page" where
  "page_defaults p = p\<lparr>
     pg_git_branch := or_default ''main'' (pg_git_branch p), pg_publish_path := or_default ''.'' (pg_publish_path p),
     pg_package_manager := or_default ''auto'' (pg_package_manager p),
     pg_root_dir := or_default ''.'' (pg_root_dir p), pg_region := or_default ''us-east-1'' (pg_region p)\<rparr>"

definition pages_create :: "page \<Rightarrow> page io" where
  "pages_create p = insert_row (unique_live page_key) pages pages_update (page_defaults p)"

definition pages_update_row :: "page \<Rightarrow> unit io" where
  "pages_update_row p = update_row (unique_live page_key) pages pages_update p"

definition copy_page_settings :: "time \<Rightarrow> page \<Rightarrow> page \<Rightarrow> page" where
  "copy_page_settings t p x = x\<lparr>
     pg_description := pg_description p, pg_git_repo := pg_git_repo p, pg_git_branch := pg_git_branch p,
     pg_git_provider := pg_git_provider p, pg_publish_path := pg_publish_path p,
     pg_cloud_account := pg_cloud_account p, pg_region := pg_region p, pg_custom_domain := pg_custom_domain p,
     pg_manage_dns := pg_manage_dns p, pg_dns_account := pg_dns_account p, pg_dns_zone := pg_dns_zone p,
     pg_build_enabled := pg_build_enabled p, pg_package_manager := pg_package_manager p,
     pg_install_command := pg_install_command p, pg_build_command := pg_build_command p,
     pg_output_dir := pg_output_dir p, pg_root_dir := pg_root_dir p, pg_node_version := pg_node_version p,
     pg_build_env := pg_build_env p, bm_updated := t\<rparr>"

definition pages_update_settings :: "page \<Rightarrow> unit io" where
  "pages_update_settings p = bind now (\<lambda>t.
     exec (pages_update (update_live (\<lambda>x. bm_id x = bm_id p) (copy_page_settings t p))))"

definition pages_update_settings_if_not_deploying :: "page \<Rightarrow> bool io" where
  "pages_update_settings_if_not_deploying p = bind now (\<lambda>t.
     bind (update_where pages pages_update (\<lambda>x. bm_id x = bm_id p \<and> pg_status x \<noteq> PageDeploying)
       (copy_page_settings t p)) (\<lambda>n. ret (n > 0)))"

definition pages_delete :: "uuid \<Rightarrow> unit io" where
  "pages_delete i = bind now (\<lambda>t. exec (pages_update (delete_pk t i)))"

definition pages_delete_if_not_deploying :: "uuid \<Rightarrow> page option io" where
  "pages_delete_if_not_deploying i = bind now (\<lambda>t.
     statement (\<lambda>d. case find_live (\<lambda>x. bm_id x = i \<and> pg_status x \<noteq> PageDeploying) (pages d) of
         None \<Rightarrow> (Inr None, d)
       | Some x \<Rightarrow> (Inr (Some (page_after_scan (x\<lparr>bm_deleted := Some t\<rparr>))),
           pages_update (soft_delete t (\<lambda>x. bm_id x = i \<and> pg_status x \<noteq> PageDeploying)) d)))"

definition pages_list_by_project :: "uuid \<Rightarrow> list_params \<Rightarrow> (page list \<times> nat) io" where
  "pages_list_by_project i q =
     query_page q (\<lambda>d. map page_after_scan (newest_first (select_live (\<lambda>p. pg_project p = i) (pages d))))"

definition pages_list_all :: "list_params \<Rightarrow> list_filter \<Rightarrow> (page list \<times> nat) io" where
  "pages_list_all q f =
     (if empty_scope f then ret ([], 0)
      else query_page q (\<lambda>d. map page_after_scan (newest_first (select_live (\<lambda>p.
        (lf_search f \<noteq> [] \<longrightarrow> like_search (lf_search f) (pg_name p)) \<and>
        (lf_status f \<noteq> [] \<longrightarrow> page_status_text (pg_status p) = lf_status f) \<and>
        (lf_provider f \<noteq> [] \<longrightarrow> page_provider_text (pg_provider p) = lf_provider f) \<and>
        in_scope f (pg_project p)) (pages d)))))"

definition pages_exists_by_name :: "uuid \<Rightarrow> string \<Rightarrow> bool io" where
  "pages_exists_by_name p n = query (\<lambda>d. select_live (\<lambda>x. pg_project x = p \<and> pg_name x = n) (pages d) \<noteq> [])"

definition pages_find_by_resource :: "uuid \<Rightarrow> page option io" where
  "pages_find_by_resource r = query (\<lambda>d. find_live (\<lambda>p. pg_cloud_account p = Some r \<or>
     pg_git_provider p = Some r \<or> pg_dns_account p = Some r) (pages d))"

definition pages_update_status :: "uuid \<Rightarrow> page_status \<Rightarrow> unit io" where
  "pages_update_status i s = bind now (\<lambda>t.
     exec (pages_update (update_live (\<lambda>p. bm_id p = i) (\<lambda>p. p\<lparr>pg_status := s, bm_updated := t\<rparr>))))"

definition pages_update_runtime :: "uuid \<Rightarrow> page_runtime option \<Rightarrow> unit io" where
  "pages_update_runtime i rt = bind now (\<lambda>t.
     exec (pages_update (update_live (\<lambda>p. bm_id p = i) (\<lambda>p. p\<lparr>pg_runtime := rt, bm_updated := t\<rparr>))))"

definition pages_try_mark_deploying :: "uuid \<Rightarrow> bool io" where
  "pages_try_mark_deploying i = bind now (\<lambda>t.
     bind (update_where pages pages_update (\<lambda>p. bm_id p = i \<and> pg_status p \<noteq> PageDeploying)
       (\<lambda>p. p\<lparr>pg_status := PageDeploying, bm_updated := t\<rparr>)) (\<lambda>n. ret (n > 0)))"

subsection \<open>Page deployments\<close>

definition page_deployments_get_by_id :: "uuid \<Rightarrow> page_deployment io" where
  "page_deployments_get_by_id i = query_row (\<lambda>d. by_id i (page_deployments d))"

definition page_deployment_defaults :: "page_deployment \<Rightarrow> page_deployment" where
  "page_deployment_defaults x = x\<lparr>pd_publish_path := or_default ''.'' (pd_publish_path x),
     pd_trigger := or_default ''manual'' (pd_trigger x)\<rparr>"

definition page_deployments_create :: "page_deployment \<Rightarrow> page_deployment io" where
  "page_deployments_create x =
     insert_row no_index page_deployments page_deployments_update (page_deployment_defaults x)"

definition page_deployments_update_row :: "page_deployment \<Rightarrow> unit io" where
  "page_deployments_update_row x = update_row no_index page_deployments page_deployments_update x"

definition page_deployments_list_by_page :: "uuid \<Rightarrow> list_params \<Rightarrow> (page_deployment list \<times> nat) io" where
  "page_deployments_list_by_page i q =
     query_page q (\<lambda>d. newest_first (select_live (\<lambda>x. pd_page x = i) (page_deployments d)))"

definition page_deployments_get_latest_by_page :: "uuid \<Rightarrow> page_deployment io" where
  "page_deployments_get_latest_by_page i =
     query_row (\<lambda>d. first_row (newest_first (select_live (\<lambda>x. pd_page x = i) (page_deployments d))))"

definition page_deployments_get_latest_success :: "uuid \<Rightarrow> page_deployment io" where
  "page_deployments_get_latest_success i = query_row (\<lambda>d. first_row (newest_first
     (select_live (\<lambda>x. pd_page x = i \<and> pd_status x = PageDeploySuccess) (page_deployments d))))"

definition page_deployments_mark_timed_out :: "uuid \<Rightarrow> time \<Rightarrow> string \<Rightarrow> bool io" where
  "page_deployments_mark_timed_out i finished sfx = bind now (\<lambda>t.
     bind (update_where page_deployments page_deployments_update
         (\<lambda>x. bm_id x = i \<and> pd_status x = PageDeployDeploying)
         (\<lambda>x. x\<lparr>pd_status := PageDeployFailed, pd_finished := Some finished, pd_log := pd_log x @ sfx,
                bm_updated := t\<rparr>)) (\<lambda>n. ret (n > 0)))"

definition page_deployments_list_by_status :: "page_deploy_status \<Rightarrow> list_params \<Rightarrow> (page_deployment list \<times> nat) io" where
  "page_deployments_list_by_status s q =
     query_page q (\<lambda>d. newest_first (select_live (\<lambda>x. pd_status x = s) (page_deployments d)))"

section \<open>Workers\<close>

definition worker_after_scan :: "worker \<Rightarrow> worker" where
  "worker_after_scan w = (if wk_runtime w = None then w\<lparr>wk_runtime := Some zero_worker_runtime\<rparr> else w)"

definition worker_key :: "worker \<Rightarrow> uuid \<times> string" where
  "worker_key w = (wk_project w, wk_name w)"

definition workers_get_by_id :: "uuid \<Rightarrow> worker io" where
  "workers_get_by_id i = query_row (\<lambda>d. map_option worker_after_scan (by_id i (workers d)))"

definition worker_defaults :: "worker \<Rightarrow> worker" where
  "worker_defaults w = w\<lparr>
     wk_git_branch := or_default ''main'' (wk_git_branch w), wk_root_dir := or_default ''.'' (wk_root_dir w),
     wk_wrangler_config := or_default ''wrangler.toml'' (wk_wrangler_config w),
     wk_package_manager := or_default ''auto'' (wk_package_manager w)\<rparr>"

definition workers_create :: "worker \<Rightarrow> worker io" where
  "workers_create w = insert_row (unique_live worker_key) workers workers_update (worker_defaults w)"

definition workers_update_row :: "worker \<Rightarrow> unit io" where
  "workers_update_row w = update_row (unique_live worker_key) workers workers_update w"

definition copy_worker_settings :: "time \<Rightarrow> worker \<Rightarrow> worker \<Rightarrow> worker" where
  "copy_worker_settings t w x = x\<lparr>
     wk_description := wk_description w, wk_git_repo := wk_git_repo w, wk_git_branch := wk_git_branch w,
     wk_git_provider := wk_git_provider w, wk_root_dir := wk_root_dir w,
     wk_wrangler_config := wk_wrangler_config w, wk_package_manager := wk_package_manager w,
     wk_install_command := wk_install_command w, wk_build_command := wk_build_command w,
     wk_deploy_command := wk_deploy_command w, wk_build_env := wk_build_env w,
     wk_cloud_account := wk_cloud_account w, bm_updated := t\<rparr>"

definition workers_update_settings :: "worker \<Rightarrow> unit io" where
  "workers_update_settings w = bind now (\<lambda>t.
     exec (workers_update (update_live (\<lambda>x. bm_id x = bm_id w) (copy_worker_settings t w))))"

definition workers_update_settings_if_not_deploying :: "worker \<Rightarrow> bool io" where
  "workers_update_settings_if_not_deploying w = bind now (\<lambda>t.
     bind (update_where workers workers_update (\<lambda>x. bm_id x = bm_id w \<and> wk_status x \<noteq> WorkerDeploying)
       (copy_worker_settings t w)) (\<lambda>n. ret (n > 0)))"

definition workers_delete :: "uuid \<Rightarrow> unit io" where
  "workers_delete i = bind now (\<lambda>t. exec (workers_update (delete_pk t i)))"

definition workers_delete_if_not_deploying :: "uuid \<Rightarrow> worker option io" where
  "workers_delete_if_not_deploying i = bind now (\<lambda>t.
     statement (\<lambda>d. case find_live (\<lambda>x. bm_id x = i \<and> wk_status x \<noteq> WorkerDeploying) (workers d) of
         None \<Rightarrow> (Inr None, d)
       | Some x \<Rightarrow> (Inr (Some (worker_after_scan (x\<lparr>bm_deleted := Some t\<rparr>))),
           workers_update (soft_delete t (\<lambda>x. bm_id x = i \<and> wk_status x \<noteq> WorkerDeploying)) d)))"

definition workers_list_by_project :: "uuid \<Rightarrow> list_params \<Rightarrow> (worker list \<times> nat) io" where
  "workers_list_by_project i q =
     query_page q (\<lambda>d. map worker_after_scan (newest_first (select_live (\<lambda>w. wk_project w = i) (workers d))))"

definition workers_list_all :: "list_params \<Rightarrow> list_filter \<Rightarrow> (worker list \<times> nat) io" where
  "workers_list_all q f =
     (if empty_scope f then ret ([], 0)
      else query_page q (\<lambda>d. map worker_after_scan (newest_first (select_live (\<lambda>w.
        (lf_search f \<noteq> [] \<longrightarrow> like_search (lf_search f) (wk_name w)) \<and>
        (lf_status f \<noteq> [] \<longrightarrow> worker_status_text (wk_status w) = lf_status f) \<and>
        in_scope f (wk_project w)) (workers d)))))"

definition workers_exists_by_name :: "uuid \<Rightarrow> string \<Rightarrow> bool io" where
  "workers_exists_by_name p n = query (\<lambda>d. select_live (\<lambda>x. wk_project x = p \<and> wk_name x = n) (workers d) \<noteq> [])"

definition workers_find_by_resource :: "uuid \<Rightarrow> worker option io" where
  "workers_find_by_resource r =
     query (\<lambda>d. find_live (\<lambda>w. wk_cloud_account w = Some r \<or> wk_git_provider w = Some r) (workers d))"

definition workers_update_status :: "uuid \<Rightarrow> worker_status \<Rightarrow> unit io" where
  "workers_update_status i s = bind now (\<lambda>t.
     exec (workers_update (update_live (\<lambda>w. bm_id w = i) (\<lambda>w. w\<lparr>wk_status := s, bm_updated := t\<rparr>))))"

definition workers_update_runtime :: "uuid \<Rightarrow> worker_runtime option \<Rightarrow> unit io" where
  "workers_update_runtime i rt = bind now (\<lambda>t.
     exec (workers_update (update_live (\<lambda>w. bm_id w = i) (\<lambda>w. w\<lparr>wk_runtime := rt, bm_updated := t\<rparr>))))"

definition workers_try_mark_deploying :: "uuid \<Rightarrow> bool io" where
  "workers_try_mark_deploying i = bind now (\<lambda>t.
     bind (update_where workers workers_update (\<lambda>w. bm_id w = i \<and> wk_status w \<noteq> WorkerDeploying)
       (\<lambda>w. w\<lparr>wk_status := WorkerDeploying, bm_updated := t\<rparr>)) (\<lambda>n. ret (n > 0)))"

subsection \<open>Worker deployments\<close>

definition worker_deployments_get_by_id :: "uuid \<Rightarrow> worker_deployment io" where
  "worker_deployments_get_by_id i = query_row (\<lambda>d. by_id i (worker_deployments d))"

definition worker_deployments_create :: "worker_deployment \<Rightarrow> worker_deployment io" where
  "worker_deployments_create x = insert_row no_index worker_deployments worker_deployments_update
     (x\<lparr>wd_trigger := or_default ''manual'' (wd_trigger x)\<rparr>)"

definition worker_deployments_update_row :: "worker_deployment \<Rightarrow> unit io" where
  "worker_deployments_update_row x = update_row no_index worker_deployments worker_deployments_update x"

definition worker_deployments_list_by_worker :: "uuid \<Rightarrow> list_params \<Rightarrow> (worker_deployment list \<times> nat) io" where
  "worker_deployments_list_by_worker i q =
     query_page q (\<lambda>d. newest_first (select_live (\<lambda>x. wd_worker x = i) (worker_deployments d)))"

definition worker_deployments_get_latest_by_worker :: "uuid \<Rightarrow> worker_deployment io" where
  "worker_deployments_get_latest_by_worker i =
     query_row (\<lambda>d. first_row (newest_first (select_live (\<lambda>x. wd_worker x = i) (worker_deployments d))))"

definition worker_deployments_get_latest_success :: "uuid \<Rightarrow> worker_deployment io" where
  "worker_deployments_get_latest_success i = query_row (\<lambda>d. first_row (newest_first
     (select_live (\<lambda>x. wd_worker x = i \<and> wd_status x = WorkerDeploySuccess) (worker_deployments d))))"

definition worker_deployments_mark_timed_out :: "uuid \<Rightarrow> time \<Rightarrow> string \<Rightarrow> bool io" where
  "worker_deployments_mark_timed_out i finished sfx = bind now (\<lambda>t.
     bind (update_where worker_deployments worker_deployments_update
         (\<lambda>x. bm_id x = i \<and> wd_status x = WorkerDeployDeploying)
         (\<lambda>x. x\<lparr>wd_status := WorkerDeployFailed, wd_finished := Some finished, wd_log := wd_log x @ sfx,
                bm_updated := t\<rparr>)) (\<lambda>n. ret (n > 0)))"

definition worker_deployments_try_claim_needs_confirmation :: "uuid \<Rightarrow> bool io" where
  "worker_deployments_try_claim_needs_confirmation i = bind now (\<lambda>t.
     bind (update_where worker_deployments worker_deployments_update
         (\<lambda>x. bm_id x = i \<and> wd_status x = WorkerDeployNeedsConfirmation)
         (\<lambda>x. x\<lparr>wd_status := WorkerDeployCancelled,
                wd_log := wd_log x @ CHR 0x0A # ''[orkai] R2 confirmation in progress'' @ [CHR 0xE2, CHR 0x80, CHR 0xA6], bm_updated := t\<rparr>))
       (\<lambda>n. ret (n > 0)))"

definition worker_deployments_list_by_status :: "worker_deploy_status \<Rightarrow> list_params \<Rightarrow> (worker_deployment list \<times> nat) io" where
  "worker_deployments_list_by_status s q =
     query_page q (\<lambda>d. newest_first (select_live (\<lambda>x. wd_status x = s) (worker_deployments d)))"

section \<open>Metric alerts\<close>

definition alerts_insert :: "metric_alert \<Rightarrow> metric_alert io" where
  "alerts_insert a = (\<lambda>w.
     let a' = a\<lparr>ma_id := (if ma_id a = uuid_nil then id_supply w (id_next w) else ma_id a),
         ma_fired := (if ma_fired a = 0 then clock w else ma_fired a)\<rparr> in
     bind (exec (alerts_update (\<lambda>t. t @ [a']))) (\<lambda>_. ret a') (w\<lparr>id_next := Suc (id_next w)\<rparr>))"

definition alerts_get_active_by_rule_and_source :: "string \<Rightarrow> string \<Rightarrow> metric_alert io" where
  "alerts_get_active_by_rule_and_source r s =
     query_row (\<lambda>d. find (\<lambda>a. ma_rule a = r \<and> ma_source a = s \<and> ma_resolved a = None) (alerts d))"

definition alerts_resolve :: "uuid \<Rightarrow> unit io" where
  "alerts_resolve i = bind now (\<lambda>t. exec (alerts_update (map (\<lambda>a.
     if ma_id a = i \<and> ma_resolved a = None then a\<lparr>ma_resolved := Some t\<rparr> else a))))"

definition alerts_mark_notified :: "uuid \<Rightarrow> unit io" where
  "alerts_mark_notified i = exec (alerts_update (map (\<lambda>a. if ma_id a = i then a\<lparr>ma_notified := True\<rparr> else a)))"

definition alerts_list_active :: "metric_alert list io" where
  "alerts_list_active = query (\<lambda>d. sort_key (\<lambda>a. - ma_fired a) (rev (filter (\<lambda>a. ma_resolved a = None) (alerts d))))"

record alert_query =
  aq_active :: bool
  aq_severity :: string
  aq_from :: "time option"
  aq_to :: "time option"
  aq_page :: nat
  aq_per_page :: nat

definition alert_matches :: "alert_query \<Rightarrow> metric_alert \<Rightarrow> bool" where
  "alert_matches q a \<longleftrightarrow>
     (aq_active q \<longrightarrow> ma_resolved a = None) \<and> (aq_severity q \<noteq> [] \<longrightarrow> ma_severity a = aq_severity q) \<and>
     (case aq_from q of None \<Rightarrow> True | Some t \<Rightarrow> ma_fired a \<ge> t) \<and>
     (case aq_to q of None \<Rightarrow> True | Some t \<Rightarrow> ma_fired a \<le> t)"

definition alerts_list :: "alert_query \<Rightarrow> (metric_alert list \<times> nat) io" where
  "alerts_list q =
     (let pg = (if aq_page q < 1 then 1 else aq_page q);
          per = (if aq_per_page q < 1 then 50 else aq_per_page q) in
      bind (query (\<lambda>d. length (filter (alert_matches q) (alerts d)))) (\<lambda>n.
      bind (query (\<lambda>d. page_of \<lparr>lp_page = pg, lp_per_page = per\<rparr>
          (sort_key (\<lambda>a. - ma_fired a) (rev (filter (alert_matches q) (alerts d)))))) (\<lambda>rows.
      ret (rows, n))))"

definition alerts_delete_older_than :: "time \<Rightarrow> nat io" where
  "alerts_delete_older_than before = statement (\<lambda>d.
     let gone = (\<lambda>a. ma_fired a < before \<and> ma_resolved a \<noteq> None) in
     (Inr (length (filter gone (alerts d))), alerts_update (filter (\<lambda>a. \<not> gone a)) d))"

end
