(* ===== verification/Libs.thy ===== *)
theory Libs imports Pg_Store begin

text \<open>
  The third-party packages the code relies on, as one record of functions the definitions take as an
  argument: \<open>golang-jwt\<close>, \<open>google/uuid\<close>, \<open>bcrypt\<close> and the digests.  What the code relies on is stated
  as predicates over the record: a token signed with a key parses back under that key until it expires
  and under no other key, and starts with the base64 of its header, never with an API key's \<open>ork_\<close>; printing a UUID parses back; a password matches the hash made from it and
  no other of at most 72 bytes does (bcrypt reads no further), and none matches an empty hash.  \<open>demo_libs\<close> is one concrete set of functions that meets them; the witnesses use it.
\<close>

section \<open>Interfaces\<close>

text \<open>A claims object is JSON: strings and integers by field name.\<close>

datatype jval = JStr string | JNum int

type_synonym jobject = "(string \<times> jval) list"

datatype jwt_error = JwtExpired | JwtInvalid

record libs =
  jwt_sign :: "string \<Rightarrow> jobject \<Rightarrow> string"
  jwt_parse :: "(string \<Rightarrow> go_error + string) \<Rightarrow> time \<Rightarrow> string \<Rightarrow> jwt_error + jobject"
  uuid_str :: "uuid \<Rightarrow> string"
  uuid_parse :: "string \<Rightarrow> uuid option"
  bcrypt_hash :: "string \<Rightarrow> go_error + string"
  bcrypt_check :: "string \<Rightarrow> string \<Rightarrow> bool"
  sha256_hex :: "string \<Rightarrow> string"
  hmac_sha1 :: "string \<Rightarrow> 8 word list \<Rightarrow> 8 word list"
  base32_encode :: "8 word list \<Rightarrow> string"
  base32_decode :: "string \<Rightarrow> string option"

definition claim_exp :: "jobject \<Rightarrow> int option" where
  "claim_exp c = (case map_of c ''exp'' of Some (JNum n) \<Rightarrow> Some n | _ \<Rightarrow> None)"

text \<open>\<open>exp\<close> is in whole seconds; the parser accepts a token while now is before it.\<close>

definition jwt_outcome :: "(string \<Rightarrow> go_error + string) \<Rightarrow> time \<Rightarrow> string \<Rightarrow> jobject \<Rightarrow> jwt_error + jobject" where
  "jwt_outcome kf t key c =
     (case kf ''HS256'' of
        Inl _ \<Rightarrow> Inl JwtInvalid
      | Inr k \<Rightarrow> if k \<noteq> key then Inl JwtInvalid
          else (case claim_exp c of
              None \<Rightarrow> Inr c
            | Some n \<Rightarrow> if t < n * second then Inr c else Inl JwtExpired))"

definition jwt_ok :: "libs \<Rightarrow> bool" where
  "jwt_ok L \<longleftrightarrow> (\<forall>kf t key c. jwt_parse L kf t (jwt_sign L key c) = jwt_outcome kf t key c \<and>
     \<not> has_prefix (jwt_sign L key c) ''ork_'')"

definition uuid_ok :: "libs \<Rightarrow> bool" where
  "uuid_ok L \<longleftrightarrow> (\<forall>u. uuid_parse L (uuid_str L u) = Some u)"

definition bcrypt_ok :: "libs \<Rightarrow> bool" where
  "bcrypt_ok L \<longleftrightarrow> (\<forall>q. \<not> bcrypt_check L [] q) \<and> (\<forall>p q h. bcrypt_hash L p = Inr h \<longrightarrow>
     bcrypt_check L h p \<and> (length q \<le> 72 \<longrightarrow> bcrypt_check L h q = (p = q)))"

definition hmac_sha1_ok :: "libs \<Rightarrow> bool" where
  "hmac_sha1_ok L \<longleftrightarrow> (\<forall>k m. length (hmac_sha1 L k m) = 20)"

section \<open>A concrete instance\<close>

fun enc_str :: "string \<Rightarrow> string" where
  "enc_str [] = ''.''"
| "enc_str (c # s) = CHR '':'' # c # enc_str s"

fun dec_str :: "string \<Rightarrow> (string \<times> string) option" where
  "dec_str (m # r) =
     (if m = CHR ''.'' then Some ([], r)
      else (case r of [] \<Rightarrow> None | c # r' \<Rightarrow> map_option (\<lambda>(s, rest). (c # s, rest)) (dec_str r')))"
| "dec_str [] = None"

lemma dec_enc_str [simp]: "dec_str (enc_str s @ r) = Some (s, r)"
  by (induction s) auto

fun enc_nat :: "nat \<Rightarrow> string" where
  "enc_nat n = (if n = 0 then ''.'' else (if odd n then CHR ''1'' else CHR ''0'') # enc_nat (n div 2))"

declare enc_nat.simps [simp del]

fun dec_nat :: "string \<Rightarrow> (nat \<times> string) option" where
  "dec_nat [] = None"
| "dec_nat (c # r) =
     (if c = CHR ''.'' then Some (0, r)
      else map_option (\<lambda>(n, rest). (2 * n + (if c = CHR ''1'' then 1 else 0), rest)) (dec_nat r))"

lemma dec_enc_nat [simp]: "dec_nat (enc_nat n @ r) = Some (n, r)"
proof (induction n rule: enc_nat.induct)
  case (1 n)
  show ?case
  proof (cases "n = 0")
    case False
    with 1 show ?thesis by (subst enc_nat.simps) (auto elim: oddE)
  qed (simp add: enc_nat.simps)
qed

definition enc_jval :: "jval \<Rightarrow> string" where
  "enc_jval v = (case v of JStr s \<Rightarrow> CHR ''s'' # enc_str s
     | JNum i \<Rightarrow> (if i < 0 then CHR ''-'' else CHR ''+'') # enc_nat (nat (abs i)))"

definition dec_jval :: "string \<Rightarrow> (jval \<times> string) option" where
  "dec_jval t = (case t of [] \<Rightarrow> None
     | c # r \<Rightarrow> if c = CHR ''s'' then map_option (\<lambda>(s, rest). (JStr s, rest)) (dec_str r)
         else map_option (\<lambda>(n, rest). (JNum (if c = CHR ''-'' then - int n else int n), rest)) (dec_nat r))"

lemma dec_enc_jval [simp]: "dec_jval (enc_jval v @ r) = Some (v, r)"
  by (cases v) (auto simp: dec_jval_def enc_jval_def)

fun enc_obj :: "jobject \<Rightarrow> string" where
  "enc_obj [] = ''.''"
| "enc_obj ((k, v) # o') = CHR '','' # enc_str k @ enc_jval v @ enc_obj o'"

fun dec_obj :: "nat \<Rightarrow> string \<Rightarrow> jobject option" where
  "dec_obj 0 t = None"
| "dec_obj (Suc n) t =
     (if t = ''.'' then Some []
      else if t = [] then None
      else case dec_str (tl t) of None \<Rightarrow> None
        | Some (k, r) \<Rightarrow> (case dec_jval r of None \<Rightarrow> None
            | Some (v, r') \<Rightarrow> map_option (\<lambda>o'. (k, v) # o') (dec_obj n r')))"

lemma dec_enc_obj: "length c < n \<Longrightarrow> dec_obj n (enc_obj c) = Some c"
proof (induction c arbitrary: n)
  case Nil then show ?case by (cases n) auto
next
  case (Cons kv c)
  obtain k v where kv: "kv = (k, v)" by (cases kv)
  from Cons.prems obtain m where n: "n = Suc m" by (cases n) auto
  with Cons show ?case by (simp add: kv)
qed

lemma length_enc_obj: "length c < length (enc_obj c)"
  by (induction c rule: enc_obj.induct) auto

definition demo_libs :: libs where
  "demo_libs = \<lparr>
     jwt_sign = (\<lambda>key c. enc_str key @ enc_obj c),
     jwt_parse = (\<lambda>kf t tok. case dec_str tok of None \<Rightarrow> Inl JwtInvalid
       | Some (key, r) \<Rightarrow> (case dec_obj (length r) r of None \<Rightarrow> Inl JwtInvalid
           | Some c \<Rightarrow> jwt_outcome kf t key c)),
     uuid_str = (\<lambda>u. enc_nat (unat u)),
     uuid_parse = (\<lambda>s. case dec_nat s of Some (n, []) \<Rightarrow> Some (of_nat n) | _ \<Rightarrow> None),
     bcrypt_hash = (\<lambda>p. if length p > 72 then Inl (ErrMsg ''bcrypt: password length exceeds 72 bytes'')
                        else Inr (CHR ''$'' # p)),
     bcrypt_check = (\<lambda>h p. h = CHR ''$'' # p),
     sha256_hex = (\<lambda>s. CHR ''#'' # s),
     hmac_sha1 = (\<lambda>k m. map (\<lambda>i. of_nat (length k + i) + sum_list m) [0..<20]),
     base32_encode = (\<lambda>bs. map (\<lambda>b. char_of (unat b)) bs),
     base32_decode = (\<lambda>s. Some s)\<rparr>"

lemma demo_jwt_ok: "jwt_ok demo_libs"
proof -
  have "\<not> has_prefix (enc_str key @ r) ''ork_''" for key r by (cases key) (simp_all add: has_prefix_def)
  then show ?thesis by (simp add: jwt_ok_def demo_libs_def dec_enc_obj length_enc_obj)
qed

lemma demo_uuid_ok: "uuid_ok demo_libs"
  using dec_enc_nat [of _ "[]"] by (simp add: uuid_ok_def demo_libs_def)

lemma demo_bcrypt_ok: "bcrypt_ok demo_libs"
  by (auto simp: bcrypt_ok_def demo_libs_def split: if_splits)

lemma demo_hmac_sha1_ok: "hmac_sha1_ok demo_libs"
  by (simp add: hmac_sha1_ok_def demo_libs_def)

end
