(* ===== verification/Api_Keys.thy ===== *)
theory Api_Keys imports App_Store Libs begin

text \<open>
  API keys: \<open>auth/apikey.go\<close> and \<open>service/api_key_service.go\<close>.  A key is shown once; the table keeps its
  SHA-256 and a display prefix.  The service is also what the authentication middleware asks
  (\<open>APIKeyAuthenticator\<close>).  \<open>quoted\<close> is \<open>%q\<close> for names without characters to escape; it only appears in
  the texts of notifications.
\<close>

definition problem :: "nat \<Rightarrow> string \<Rightarrow> go_error" where
  "problem status detail = ErrProblem status detail"

definition err_bad_request :: "string \<Rightarrow> go_error" where "err_bad_request d = problem 400 d"
definition err_validation :: "string \<Rightarrow> go_error" where "err_validation d = problem 400 d"
definition err_unauthorized :: "string \<Rightarrow> go_error" where "err_unauthorized d = problem 401 d"
definition err_forbidden :: "string \<Rightarrow> go_error" where "err_forbidden d = problem 403 d"
definition err_not_found :: "string \<Rightarrow> go_error" where "err_not_found d = problem 404 d"
definition err_conflict :: "string \<Rightarrow> go_error" where "err_conflict d = problem 409 d"
definition err_internal :: "string \<Rightarrow> go_error" where "err_internal d = problem 500 d"

lemmas problem_defs = problem_def err_bad_request_def err_validation_def err_unauthorized_def
  err_forbidden_def err_not_found_def err_conflict_def err_internal_def

definition quoted :: "string \<Rightarrow> string" where
  "quoted s = CHR 0x22 # s @ [CHR 0x22]"

definition notify_resource_deleted :: "uuid \<Rightarrow> string \<Rightarrow> string \<Rightarrow> string \<Rightarrow> unit io" where
  "notify_resource_deleted orgID event name detail = notify (Some orgID) event (name @ '' deleted'') detail"

text \<open>The UTF-8 bytes of the dash that some messages hold.\<close>

definition em_dash :: string where
  "em_dash = [CHR 0xE2, CHR 0x80, CHR 0x94]"

definition single_quoted :: "string \<Rightarrow> string" where
  "single_quoted s = CHR 0x27 # s @ [CHR 0x27]"

definition role_error_text :: string where
  "role_error_text = ''role must be '' @ single_quoted role_admin @ '' or '' @ single_quoted role_member"

section \<open>Keys\<close>

definition hex_digit :: "nat \<Rightarrow> char" where
  "hex_digit n = (if n < 10 then char_of (48 + n) else char_of (87 + n))"

definition hex_encode :: "8 word list \<Rightarrow> string" where
  "hex_encode bs = concat (map (\<lambda>b. [hex_digit (unat b div 16), hex_digit (unat b mod 16)]) bs)"

definition api_key_prefix :: string where "api_key_prefix = ''ork_''"
definition api_key_random_bytes :: nat where "api_key_random_bytes = 32"
definition api_key_display_len :: nat where "api_key_display_len = 12"

definition hash_api_key :: "libs \<Rightarrow> string \<Rightarrow> string" where
  "hash_api_key L raw = sha256_hex L raw"

definition generate_api_key :: "libs \<Rightarrow> (string \<times> string \<times> string) io" where
  "generate_api_key L = bind (rand_bytes api_key_random_bytes) (\<lambda>b.
     let raw = api_key_prefix @ hex_encode b;
         pre = (if length raw > api_key_display_len then take api_key_display_len raw else raw) in
     ret (raw, pre, hash_api_key L raw))"

section \<open>The service\<close>

definition validate_api_key_role :: "role \<Rightarrow> role \<Rightarrow> unit io" where
  "validate_api_key_role callerRole requested =
     (if callerRole = role_admin then ret ()
      else if requested = role_member then ret ()
      else err (err_forbidden ''members may only create member-scoped keys''))"

definition api_key_service_create ::
  "libs \<Rightarrow> uuid \<Rightarrow> uuid \<Rightarrow> role \<Rightarrow> string \<Rightarrow> role \<Rightarrow> time option \<Rightarrow> (string \<times> api_key) io" where
  "api_key_service_create L userID orgID callerRole name requested expiresAt =
     (let name = trim_space name in
      if name = [] then err (err_validation ''name is required'')
      else if requested \<noteq> role_admin \<and> requested \<noteq> role_member
      then err (err_validation role_error_text)
      else seq (validate_api_key_role callerRole requested) (bind now (\<lambda>t.
        if (case expiresAt of None \<Rightarrow> False | Some e \<Rightarrow> \<not> e > t)
        then err (err_validation ''expires_at must be in the future'')
        else bind (generate_api_key L) (\<lambda>(raw, pre, hash).
          bind (api_keys_create
            \<lparr>bm_id = uuid_nil, bm_created = 0, bm_updated = 0, bm_deleted = None,
             ak_org = orgID, ak_user = userID, ak_name = name, ak_prefix = pre, ak_hash = hash,
             ak_role = requested, ak_last_used = None, ak_expires = expiresAt\<rparr>) (\<lambda>key.
          ret (raw, key))))))"

definition api_key_service_list :: "uuid \<Rightarrow> api_key list io" where
  "api_key_service_list u = api_keys_list_by_user u"

definition not_found_as :: "string \<Rightarrow> go_error \<Rightarrow> go_error" where
  "not_found_as d e = (if e = ErrNoRows then err_not_found d else e)"

definition api_key_service_revoke :: "uuid \<Rightarrow> uuid \<Rightarrow> unit io" where
  "api_key_service_revoke userID keyID =
     handle (api_keys_get_by_id_for_user keyID userID) (\<lambda>e. err (not_found_as ''api key not found'' e)) (\<lambda>key.
     handle (api_keys_delete keyID userID) (\<lambda>e. err (not_found_as ''api key not found'' e)) (\<lambda>_.
     notify_resource_deleted (ak_org key) ''api_key_revoked'' (ak_name key)
       (''API key '' @ quoted (ak_name key) @ '' was revoked'')))"

definition api_key_service_get_by_hash :: "string \<Rightarrow> api_key io" where
  "api_key_service_get_by_hash h =
     handle (api_keys_get_by_hash h)
       (\<lambda>e. err (if e = ErrNoRows then err_unauthorized ''invalid api key'' else e)) (\<lambda>key.
     bind now (\<lambda>t.
       if (case ak_expires key of None \<Rightarrow> False | Some e \<Rightarrow> e < t)
       then err (err_unauthorized ''api key expired'') else ret key))"

section \<open>Properties\<close>

lemma length_hex_encode [simp]: "length (hex_encode b) = 2 * length b"
  by (induction b) (auto simp: hex_encode_def)

lemma generate_api_key_Inr [go_io]:
  "generate_api_key L w = (Inr (raw, pre, h), w') \<longleftrightarrow>
     (\<exists>b. length b = 32 \<and> b = map (\<lambda>i. entropy w (entropy_next w + i)) [0..<32] \<and>
        raw = api_key_prefix @ hex_encode b \<and> pre = take 12 raw \<and> h = hash_api_key L raw \<and>
        w' = w\<lparr>entropy_next := entropy_next w + 32\<rparr>)"
  by (auto simp: generate_api_key_def rand_bytes_def bind_def handle_def Let_def api_key_random_bytes_def
      api_key_display_len_def api_key_prefix_def)

text \<open>C38 (api_key_no_escalation): whatever fails on the way, a key that is created never gives its holder more
  than the caller had: an admin key only comes from an admin, the key belongs to the caller, only its hash
  and the first twelve characters are stored, and an expiry lies in the future.\<close>

theorem api_key_no_escalation:
  assumes "api_key_service_create L u og caller name req ex w = (Inr (raw, k), w')"
  shows "ak_role k \<in> {role_admin, role_member} \<and> (ak_role k = role_admin \<longrightarrow> caller = role_admin) \<and>
    ak_user k = u \<and> ak_org k = og \<and> ak_hash k = sha256_hex L raw \<and> ak_prefix k = take 12 raw \<and>
    has_prefix raw ''ork_'' \<and> length raw = 68 \<and> ak_name k \<noteq> [] \<and>
    (case ak_expires k of None \<Rightarrow> True | Some e \<Rightarrow> e > clock w) \<and>
    api_keys (db w') = api_keys (db w) @ [k] \<and> by_id (bm_id k) (api_keys (db w')) = Some k"
proof -
  obtain w1 pre h where
    g: "generate_api_key L w = (Inr (raw, pre, h), w1)" and
    c: "api_keys_create \<lparr>bm_id = uuid_nil, bm_created = 0, bm_updated = 0, bm_deleted = None,
          ak_org = og, ak_user = u, ak_name = trim_space name, ak_prefix = pre, ak_hash = h,
          ak_role = req, ak_last_used = None, ak_expires = ex\<rparr> w1 = (Inr k, w')" and
    n: "trim_space name \<noteq> []" "req = role_admin \<or> req = role_member" and
    r: "req = role_admin \<longrightarrow> caller = role_admin" and
    e: "case ex of None \<Rightarrow> True | Some e \<Rightarrow> e > clock w"
    using assms
    by (auto simp: api_key_service_create_def Let_def bind_Inr seq_Inr validate_api_key_role_def
        split: if_splits option.splits)
  from g have w1: "db w1 = db w" and raw: "has_prefix raw ''ork_''" "length raw = 68" "pre = take 12 raw"
      "h = sha256_hex L raw"
    by (auto simp: generate_api_key_Inr api_key_prefix_def hash_api_key_def has_prefix_def length_hex_encode)
  from c w1 have k: "k = fill_defaults w1 \<lparr>bm_id = uuid_nil, bm_created = 0, bm_updated = 0, bm_deleted = None,
          ak_org = og, ak_user = u, ak_name = trim_space name, ak_prefix = pre, ak_hash = h,
          ak_role = req, ak_last_used = None, ak_expires = ex\<rparr>"
    and fresh: "bm_id k \<notin> set (map bm_id (api_keys (db w)))"
    and t: "api_keys (db w') = append_row k (api_keys (db w))"
    unfolding api_keys_create_def insert_row_Inr by (blast, metis, auto)
  have "live k" by (simp add: k fill_defaults_def live_def)
  with fresh have "by_id (bm_id k) (append_row k (api_keys (db w))) = Some k"
    by (simp add: by_id_append_row del: set_map)
  with t k n r e raw show ?thesis by (simp add: fill_defaults_def append_row_def)
qed

lemma api_key_no_escalation_witness:
  "\<exists>raw k w'. api_key_service_create demo_libs 1 2 role_member '' ci '' role_member (Some 2000) (world_of empty_database)
      = (Inr (raw, k), w') \<and> ak_role k = role_member \<and> length raw = 68 \<and> has_prefix raw ''ork_''"
proof -
  have "\<exists>raw k w'. api_key_service_create demo_libs 1 2 role_member '' ci '' role_member (Some 2000)
      (world_of empty_database) = (Inr (raw, k), w')"
    by (simp add: api_key_service_create_def Let_def bind_Inr seq_Inr validate_api_key_role_def generate_api_key_Inr
        api_keys_create_def insert_row_Inr trim_space_def trim_by_def trim_left_by_def trim_right_by_def
        is_space_char_def char_in_def fault_now_def world_of_def empty_database_def unique_all_def)
  then obtain raw k w' where c: "api_key_service_create demo_libs 1 2 role_member '' ci '' role_member (Some 2000)
      (world_of empty_database) = (Inr (raw, k), w')" by blast
  from api_key_no_escalation [OF c] have "ak_role k = role_member" "length raw = 68" "has_prefix raw ''ork_''"
    by auto
  with c show ?thesis by blast
qed

text \<open>Authentication by key accepts exactly the live key with that hash whose expiry has
  not passed; an unknown, revoked or expired key is a 401, and only a failure of the query is anything else.\<close>

theorem api_key_expiry:
  "fst (api_key_service_get_by_hash h w) =
     (if fault_now w then Inl ErrIO
      else case find_live (\<lambda>k. ak_hash k = h) (api_keys (db w)) of
          None \<Rightarrow> Inl (ErrProblem 401 ''invalid api key'')
        | Some k \<Rightarrow> (if \<exists>e. ak_expires k = Some e \<and> e < clock w then Inl (ErrProblem 401 ''api key expired'') else Inr k))"
  by (auto simp: api_key_service_get_by_hash_def api_keys_get_by_hash_def query_row_def statement_def handle_def
      bind_def problem_defs split: option.splits)

end
