(* ===== verification/Jwt_Tokens.thy ===== *)
theory Jwt_Tokens imports Libs begin

text \<open>
  \<open>auth/jwt.go\<close>: the four kinds of token the API signs with one secret (access, refresh, OAuth state,
  OAuth 2FA challenge) and the four validators.  A token is the JSON object of its claims struct, signed;
  a validator decodes the object into the struct it expects, where a missing field is the zero value and a
  field of another type is an error, as \<open>encoding/json\<close> does.  \<open>NumericDate\<close> keeps whole seconds.
\<close>

section \<open>Claims\<close>

definition json_string :: "jobject \<Rightarrow> string \<Rightarrow> string option" where
  "json_string c k = (case map_of c k of None \<Rightarrow> Some [] | Some (JStr s) \<Rightarrow> Some s | Some (JNum _) \<Rightarrow> None)"

definition json_int :: "jobject \<Rightarrow> string \<Rightarrow> int option" where
  "json_int c k = (case map_of c k of None \<Rightarrow> Some 0 | Some (JNum n) \<Rightarrow> Some n | Some (JStr _) \<Rightarrow> None)"

definition json_uuid :: "libs \<Rightarrow> jobject \<Rightarrow> string \<Rightarrow> uuid option" where
  "json_uuid L c k = (case map_of c k of None \<Rightarrow> Some uuid_nil | Some (JStr s) \<Rightarrow> uuid_parse L s | Some (JNum _) \<Rightarrow> None)"

definition json_date :: "jobject \<Rightarrow> string \<Rightarrow> time option option" where
  "json_date c k = (case map_of c k of None \<Rightarrow> Some None | Some (JNum n) \<Rightarrow> Some (Some (n * second)) | Some (JStr _) \<Rightarrow> None)"

record registered_claims =
  rc_issuer :: string
  rc_subject :: string
  rc_expires :: "time option"
  rc_issued :: "time option"
  rc_id :: string

record claims = registered_claims +
  c_user :: uuid
  c_org :: uuid
  c_role :: string
  c_version :: int

definition decode_registered :: "jobject \<Rightarrow> registered_claims option" where
  "decode_registered c =
     (case (json_string c ''iss'', json_string c ''sub'', json_date c ''exp'', json_date c ''iat'', json_string c ''jti'') of
        (Some iss, Some sub, Some ex, Some iat, Some jti) \<Rightarrow>
          Some \<lparr>rc_issuer = iss, rc_subject = sub, rc_expires = ex, rc_issued = iat, rc_id = jti\<rparr>
      | _ \<Rightarrow> None)"

definition decode_claims :: "libs \<Rightarrow> jobject \<Rightarrow> claims option" where
  "decode_claims L c =
     (case (decode_registered c, json_uuid L c ''uid'', json_uuid L c ''oid'', json_string c ''role'', json_int c ''tv'') of
        (Some r, Some u, Some og, Some ro, Some tv) \<Rightarrow>
          Some (registered_claims.extend r \<lparr>c_user = u, c_org = og, c_role = ro, c_version = tv\<rparr>)
      | _ \<Rightarrow> None)"

definition numeric_date :: "time \<Rightarrow> jval" where
  "numeric_date t = JNum (t div second)"

section \<open>The manager\<close>

record jwt_manager =
  jm_secret :: string
  jm_expiry :: duration
  jm_refresh :: duration

record token_pair =
  tp_access :: string
  tp_refresh :: string
  tp_expires :: time

definition oauth_state_issuer :: string where "oauth_state_issuer = ''orkai-oauth-state''"
definition oauth_2fa_issuer :: string where "oauth_2fa_issuer = ''orkai-oauth-2fa''"
definition oauth_state_expiry :: duration where "oauth_state_expiry = 10 * minute"
definition oauth_2fa_expiry :: duration where "oauth_2fa_expiry = 5 * minute"

definition access_claims :: "libs \<Rightarrow> jwt_manager \<Rightarrow> time \<Rightarrow> uuid \<Rightarrow> uuid \<Rightarrow> string \<Rightarrow> int \<Rightarrow> jobject" where
  "access_claims L m t u og r tv =
     [(''iss'', JStr ''orkai''), (''sub'', JStr (uuid_str L u)), (''exp'', numeric_date (t + jm_expiry m)),
      (''iat'', numeric_date t), (''uid'', JStr (uuid_str L u)), (''oid'', JStr (uuid_str L og)),
      (''role'', JStr r), (''tv'', JNum tv)]"

definition refresh_claims :: "libs \<Rightarrow> jwt_manager \<Rightarrow> time \<Rightarrow> uuid \<Rightarrow> int \<Rightarrow> jobject" where
  "refresh_claims L m t u tv =
     [(''iss'', JStr ''orkai-refresh''), (''sub'', JStr (uuid_str L u)),
      (''exp'', numeric_date (t + jm_refresh m)), (''iat'', numeric_date t), (''tv'', JNum tv)]"

definition generate_token_pair ::
  "libs \<Rightarrow> jwt_manager \<Rightarrow> time \<Rightarrow> uuid \<Rightarrow> uuid \<Rightarrow> string \<Rightarrow> int \<Rightarrow> token_pair" where
  "generate_token_pair L m t u og r tv =
     \<lparr>tp_access = jwt_sign L (jm_secret m) (access_claims L m t u og r tv),
      tp_refresh = jwt_sign L (jm_secret m) (refresh_claims L m t u tv),
      tp_expires = t + jm_expiry m\<rparr>"

definition state_claims :: "time \<Rightarrow> string \<Rightarrow> string \<Rightarrow> jobject" where
  "state_claims t jti provider =
     [(''iss'', JStr oauth_state_issuer), (''exp'', numeric_date (t + oauth_state_expiry)),
      (''iat'', numeric_date t), (''jti'', JStr jti), (''provider'', JStr provider)]"

definition generate_oauth_state :: "libs \<Rightarrow> jwt_manager \<Rightarrow> string \<Rightarrow> string io" where
  "generate_oauth_state L m provider = bind now (\<lambda>t. bind fresh_uuid (\<lambda>i.
     ret (jwt_sign L (jm_secret m) (state_claims t (uuid_str L i) provider))))"

definition challenge_claims :: "libs \<Rightarrow> time \<Rightarrow> string \<Rightarrow> uuid \<Rightarrow> jobject" where
  "challenge_claims L t jti u =
     [(''iss'', JStr oauth_2fa_issuer), (''sub'', JStr (uuid_str L u)),
      (''exp'', numeric_date (t + oauth_2fa_expiry)), (''iat'', numeric_date t), (''jti'', JStr jti),
      (''uid'', JStr (uuid_str L u))]"

definition generate_oauth_2fa_challenge :: "libs \<Rightarrow> jwt_manager \<Rightarrow> uuid \<Rightarrow> string io" where
  "generate_oauth_2fa_challenge L m u = bind now (\<lambda>t. bind fresh_uuid (\<lambda>i.
     ret (jwt_sign L (jm_secret m) (challenge_claims L t (uuid_str L i) u))))"

text \<open>The key function of every validator: only the HMAC family is given the secret.\<close>

definition hmac_key :: "jwt_manager \<Rightarrow> string \<Rightarrow> go_error + string" where
  "hmac_key m alg = (if has_prefix alg ''HS'' then Inr (jm_secret m) else Inl ErrInvalidToken)"

text \<open>\<open>jwt.ParseWithClaims\<close> into a given struct: verification, then decoding of the claims.\<close>

definition parse_into :: "(jobject \<Rightarrow> 'c option) \<Rightarrow> libs \<Rightarrow> jwt_manager \<Rightarrow> time \<Rightarrow> string \<Rightarrow> jwt_error + 'c" where
  "parse_into dec L m t tok =
     (case jwt_parse L (hmac_key m) t tok of
        Inl e \<Rightarrow> Inl e
      | Inr c \<Rightarrow> (case dec c of None \<Rightarrow> Inl JwtInvalid | Some x \<Rightarrow> Inr x))"

definition validate_access_token :: "libs \<Rightarrow> jwt_manager \<Rightarrow> time \<Rightarrow> string \<Rightarrow> go_error + claims" where
  "validate_access_token L m t tok =
     (case parse_into (decode_claims L) L m t tok of
        Inl JwtExpired \<Rightarrow> Inl ErrTokenExpired
      | Inl JwtInvalid \<Rightarrow> Inl ErrInvalidToken
      | Inr c \<Rightarrow> Inr c)"

definition decode_refresh :: "jobject \<Rightarrow> (registered_claims \<times> int) option" where
  "decode_refresh c = (case (decode_registered c, json_int c ''tv'') of (Some r, Some tv) \<Rightarrow> Some (r, tv) | _ \<Rightarrow> None)"

definition validate_refresh_token :: "libs \<Rightarrow> jwt_manager \<Rightarrow> time \<Rightarrow> string \<Rightarrow> go_error + (uuid \<times> int)" where
  "validate_refresh_token L m t tok =
     (case parse_into decode_refresh L m t tok of
        Inl _ \<Rightarrow> Inl ErrInvalidToken
      | Inr (r, tv) \<Rightarrow>
          if rc_issuer r \<noteq> ''orkai-refresh'' then Inl ErrInvalidToken
          else (case uuid_parse L (rc_subject r) of None \<Rightarrow> Inl ErrInvalidToken | Some u \<Rightarrow> Inr (u, tv)))"

definition decode_state :: "jobject \<Rightarrow> (registered_claims \<times> string) option" where
  "decode_state c = (case (decode_registered c, json_string c ''provider'') of (Some r, Some p) \<Rightarrow> Some (r, p) | _ \<Rightarrow> None)"

definition parse_oauth_state :: "libs \<Rightarrow> jwt_manager \<Rightarrow> time \<Rightarrow> string \<Rightarrow> string \<Rightarrow> go_error + unit" where
  "parse_oauth_state L m t tok expectedProvider =
     (case parse_into decode_state L m t tok of
        Inl JwtExpired \<Rightarrow> Inl ErrTokenExpired
      | Inl JwtInvalid \<Rightarrow> Inl ErrInvalidToken
      | Inr (r, p) \<Rightarrow>
          if rc_issuer r \<noteq> oauth_state_issuer then Inl ErrInvalidToken
          else if p \<noteq> expectedProvider then Inl ErrInvalidToken else Inr ())"

definition decode_challenge :: "libs \<Rightarrow> jobject \<Rightarrow> (registered_claims \<times> uuid) option" where
  "decode_challenge L c = (case (decode_registered c, json_uuid L c ''uid'') of (Some r, Some u) \<Rightarrow> Some (r, u) | _ \<Rightarrow> None)"

definition validate_oauth_2fa_challenge ::
  "libs \<Rightarrow> jwt_manager \<Rightarrow> time \<Rightarrow> string \<Rightarrow> go_error + (uuid \<times> string \<times> time option)" where
  "validate_oauth_2fa_challenge L m t tok =
     (case parse_into (decode_challenge L) L m t tok of
        Inl JwtExpired \<Rightarrow> Inl ErrTokenExpired
      | Inl JwtInvalid \<Rightarrow> Inl ErrInvalidToken
      | Inr (r, u) \<Rightarrow>
          if rc_issuer r \<noteq> oauth_2fa_issuer then Inl ErrInvalidToken
          else if u = uuid_nil
          then (case uuid_parse L (rc_subject r) of None \<Rightarrow> Inl ErrInvalidToken
                | Some u' \<Rightarrow> Inr (u', rc_id r, rc_expires r))
          else Inr (u, rc_id r, rc_expires r))"

section \<open>What a validator makes of each kind of token\<close>

lemma hmac_key_HS256 [simp]: "hmac_key m ''HS256'' = Inr (jm_secret m)"
  by (simp add: hmac_key_def has_prefix_def)

lemma parse_into_sign:
  assumes "jwt_ok L"
  shows "parse_into dec L m t (jwt_sign L key c) =
    (if jm_secret m \<noteq> key then Inl JwtInvalid
     else case claim_exp c of
        None \<Rightarrow> (case dec c of None \<Rightarrow> Inl JwtInvalid | Some x \<Rightarrow> Inr x)
      | Some n \<Rightarrow> if t < n * second then (case dec c of None \<Rightarrow> Inl JwtInvalid | Some x \<Rightarrow> Inr x)
          else Inl JwtExpired)"
  using assms by (simp add: parse_into_def jwt_ok_def jwt_outcome_def split: option.splits)

lemmas json_defs = json_string_def json_int_def json_uuid_def json_date_def decode_registered_def
  decode_claims_def decode_refresh_def decode_state_def decode_challenge_def numeric_date_def
  registered_claims.extend_def claim_exp_def

lemmas kind_defs = access_claims_def refresh_claims_def state_claims_def challenge_claims_def

lemma issuers_distinct [simp]:
  "oauth_state_issuer \<noteq> ''orkai''" "oauth_2fa_issuer \<noteq> ''orkai''" "oauth_state_issuer \<noteq> ''orkai-refresh''"
  "oauth_2fa_issuer \<noteq> ''orkai-refresh''" "oauth_2fa_issuer \<noteq> oauth_state_issuer" "oauth_state_issuer \<noteq> oauth_2fa_issuer"
  "''orkai-refresh'' \<noteq> oauth_state_issuer" "''orkai-refresh'' \<noteq> oauth_2fa_issuer"
  "''orkai'' \<noteq> oauth_state_issuer" "''orkai'' \<noteq> oauth_2fa_issuer"
  by (simp_all add: oauth_state_issuer_def oauth_2fa_issuer_def)

text \<open>The access validator does not look at the issuer: a 2FA challenge decodes as access claims with version 0
  and no organisation or role.\<close>

lemma challenge_is_access_token:
  assumes "jwt_ok L" "uuid_ok L" "t' < ((t + oauth_2fa_expiry) div second) * second"
  shows "\<exists>c. validate_access_token L m t' (jwt_sign L (jm_secret m) (challenge_claims L t jti u)) = Inr c \<and>
    c_user c = u \<and> c_version c = 0 \<and> c_org c = uuid_nil \<and> c_role c = []"
  using assms
  by (simp add: validate_access_token_def parse_into_sign challenge_claims_def json_defs uuid_ok_def)

section \<open>Properties\<close>

text \<open>An access token validates to exactly the identity it was issued for, role
  and token version included, until its expiry rounded down to the second, is reported expired from then
  on, and is rejected under any other secret.\<close>

theorem access_token_roundtrip:
  assumes "jwt_ok L" "uuid_ok L"
  shows "map_sum id (\<lambda>c. (c_user c, c_org c, c_role c, c_version c))
      (validate_access_token L m' t' (tp_access (generate_token_pair L m t u og r tv))) =
    (if jm_secret m' \<noteq> jm_secret m then Inl ErrInvalidToken
     else if t' < ((t + jm_expiry m) div second) * second then Inr (u, og, r, tv) else Inl ErrTokenExpired)"
  using assms
  by (simp add: validate_access_token_def generate_token_pair_def parse_into_sign access_claims_def json_defs
      uuid_ok_def)

lemma access_token_roundtrip_witness:
  "map_sum id (\<lambda>c. (c_user c, c_org c, c_role c, c_version c))
     (validate_access_token demo_libs \<lparr>jm_secret = ''k'', jm_expiry = minute, jm_refresh = hour\<rparr> 0
       (tp_access (generate_token_pair demo_libs \<lparr>jm_secret = ''k'', jm_expiry = minute, jm_refresh = hour\<rparr> 0
          7 8 role_admin 3))) = Inr (7, 8, role_admin, 3)"
  using access_token_roundtrip [OF demo_jwt_ok demo_uuid_ok,
      of "\<lparr>jm_secret = ''k'', jm_expiry = minute, jm_refresh = hour\<rparr>" 0
         "\<lparr>jm_secret = ''k'', jm_expiry = minute, jm_refresh = hour\<rparr>" 0 7 8 role_admin 3]
  by (simp add: minute_def second_def)

text \<open>The refresh validator takes refresh tokens alone: of the four kinds of
  token signed with its own secret it accepts the refresh token, with the user and version it was issued
  for, and no access, state or challenge token, at any time.\<close>

theorem refresh_validator_kinds:
  assumes "jwt_ok L" "uuid_ok L"
  shows "validate_refresh_token L m t' (tp_refresh (generate_token_pair L m t u og r tv)) =
      (if t' < ((t + jm_refresh m) div second) * second then Inr (u, tv) else Inl ErrInvalidToken) \<and>
    validate_refresh_token L m t' (tp_access (generate_token_pair L m t u og r tv)) = Inl ErrInvalidToken \<and>
    validate_refresh_token L m t' (jwt_sign L (jm_secret m) (state_claims t jti p)) = Inl ErrInvalidToken \<and>
    validate_refresh_token L m t' (jwt_sign L (jm_secret m) (challenge_claims L t jti u)) = Inl ErrInvalidToken"
  using assms
  by (simp add: validate_refresh_token_def generate_token_pair_def parse_into_sign kind_defs json_defs uuid_ok_def)

lemma refresh_validator_kinds_witness:
  "validate_refresh_token demo_libs \<lparr>jm_secret = ''k'', jm_expiry = minute, jm_refresh = hour\<rparr> minute
     (tp_refresh (generate_token_pair demo_libs \<lparr>jm_secret = ''k'', jm_expiry = minute, jm_refresh = hour\<rparr> 0
        7 8 role_admin 3)) = Inr (7, 3)"
  using refresh_validator_kinds [OF demo_jwt_ok demo_uuid_ok,
      of "\<lparr>jm_secret = ''k'', jm_expiry = minute, jm_refresh = hour\<rparr>" minute 0 7 8 role_admin 3 "''j''" "''google''"]
  by (simp add: hour_def minute_def second_def)

text \<open>The 2FA challenge and the state validator likewise take their own kind
  alone; a challenge comes back with its user, its identifier and its expiry, and a state only for the
  provider it was issued for.\<close>

theorem challenge_validator_kinds:
  assumes "jwt_ok L" "uuid_ok L" "t' < ((t + oauth_2fa_expiry) div second) * second"
  shows "validate_oauth_2fa_challenge L m t' (jwt_sign L (jm_secret m) (challenge_claims L t jti u)) =
      Inr (u, jti, Some (((t + oauth_2fa_expiry) div second) * second)) \<and>
    (\<forall>tp. tp = generate_token_pair L m t u og r tv \<longrightarrow>
       (\<exists>e. validate_oauth_2fa_challenge L m t' (tp_access tp) = Inl e) \<and>
       (\<exists>e. validate_oauth_2fa_challenge L m t' (tp_refresh tp) = Inl e) \<and>
       (\<exists>e. parse_oauth_state L m t' (tp_access tp) p = Inl e) \<and>
       (\<exists>e. parse_oauth_state L m t' (tp_refresh tp) p = Inl e)) \<and>
    validate_oauth_2fa_challenge L m t' (jwt_sign L (jm_secret m) (state_claims t jti p)) = Inl ErrInvalidToken \<and>
    parse_oauth_state L m t' (jwt_sign L (jm_secret m) (challenge_claims L t jti u)) p = Inl ErrInvalidToken \<and>
    parse_oauth_state L m t' (jwt_sign L (jm_secret m) (state_claims t jti p)) p' =
      (if p = p' then Inr () else Inl ErrInvalidToken)"
proof -
  have "(t + oauth_2fa_expiry) div second \<le> (t + oauth_state_expiry) div second"
    by (intro zdiv_mono1) (simp_all add: oauth_2fa_expiry_def oauth_state_expiry_def)
  then have s: "t' < ((t + oauth_state_expiry) div second) * second"
    using assms(3) by (meson duration_pos(1) less_le_trans mult_right_mono order_less_imp_le)
  show ?thesis
    using assms s
    by (auto simp: validate_oauth_2fa_challenge_def parse_oauth_state_def generate_token_pair_def parse_into_sign
        kind_defs json_defs uuid_ok_def)
qed

lemma challenge_validator_kinds_witness:
  "validate_oauth_2fa_challenge demo_libs \<lparr>jm_secret = ''k'', jm_expiry = minute, jm_refresh = hour\<rparr> minute
     (jwt_sign demo_libs ''k'' (challenge_claims demo_libs 0 ''j'' 7)) = Inr (7, ''j'', Some (5 * minute))"
  using challenge_validator_kinds [OF demo_jwt_ok demo_uuid_ok, of minute 0
      "\<lparr>jm_secret = ''k'', jm_expiry = minute, jm_refresh = hour\<rparr>" "''j''" 7]
  by (simp add: oauth_2fa_expiry_def minute_def second_def)

end
