(* ===== verification/Session_Validator.thy ===== *)
theory Session_Validator imports Api_Keys Jwt_Tokens begin

text \<open>
  The authentication middleware (\<open>api/middleware/auth.go\<close>): the \<open>SessionValidator\<close> with its cache of token
  versions and its generation counters, bearer and API key authentication, the WebSocket variant and the
  role and setup-secret guards.  A handler works on the pair of the validator and the world.

  The last section lets the two critical sections of \<open>currentVersion\<close>, the fetch between them, commits
  that change a token version and \<open>Invalidate\<close> interleave freely, one step each.
\<close>

record version_entry =
  ve_version :: int
  ve_expires :: time

record session_validator =
  sv_cache :: "uuid \<rightharpoonup> version_entry"
  sv_inval :: "uuid \<Rightarrow> nat"
  sv_last_used :: "uuid \<rightharpoonup> time"
  sv_has_keys :: bool

type_synonym 'a sio = "(session_validator \<times> world, 'a) act"

definition on_world :: "'a io \<Rightarrow> 'a sio" where
  "on_world m = (\<lambda>(v, w). case m w of (r, w') \<Rightarrow> (r, (v, w')))"

definition new_session_validator :: session_validator where
  "new_session_validator = \<lparr>sv_cache = Map.empty, sv_inval = (\<lambda>_. 0), sv_last_used = Map.empty, sv_has_keys = True\<rparr>"

definition session_version_cache_ttl :: duration where
  "session_version_cache_ttl = 30 * second"

section \<open>Token versions\<close>

text \<open>The two critical sections of \<open>currentVersion\<close>, and \<open>Invalidate\<close>.\<close>

definition cv_lookup :: "time \<Rightarrow> uuid \<Rightarrow> session_validator \<Rightarrow> int option" where
  "cv_lookup t u v = (case sv_cache v u of None \<Rightarrow> None
     | Some e \<Rightarrow> if t < ve_expires e then Some (ve_version e) else None)"

definition cv_store :: "nat \<Rightarrow> time \<Rightarrow> uuid \<Rightarrow> int \<Rightarrow> session_validator \<Rightarrow> session_validator option" where
  "cv_store gen t u ver v =
     (if sv_inval v u \<noteq> gen then None
      else Some (v\<lparr>sv_cache := (sv_cache v)(u \<mapsto> \<lparr>ve_version = ver, ve_expires = t + session_version_cache_ttl\<rparr>)\<rparr>))"

definition sv_invalidate :: "uuid \<Rightarrow> session_validator \<Rightarrow> session_validator" where
  "sv_invalidate u v = v\<lparr>sv_cache := (sv_cache v)(u := None), sv_inval := (sv_inval v)(u := sv_inval v u + 1)\<rparr>"

text \<open>\<open>currentVersion\<close>.  The list is what other goroutines do to the validator while the handler fetches,
  once per turn of the loop; from its end on nobody interferes.\<close>

fun current_version :: "(session_validator \<Rightarrow> session_validator) list \<Rightarrow> uuid \<Rightarrow> int sio" where
  "current_version es u (v, w) =
     (case cv_lookup (clock w) u v of
        Some n \<Rightarrow> (Inr n, (v, w))
      | None \<Rightarrow>
          (case users_get_by_id u w of
             (Inl e, w') \<Rightarrow> (Inl e, (v, w'))
           | (Inr usr, w') \<Rightarrow>
               (case es of
                  [] \<Rightarrow> (case cv_store (sv_inval v u) (clock w) u (u_token_version usr) v of
                      None \<Rightarrow> (Inl ErrIO, (v, w'))
                    | Some v' \<Rightarrow> (Inr (u_token_version usr), (v', w')))
                | e # es' \<Rightarrow> (case cv_store (sv_inval v u) (clock w) u (u_token_version usr) (e v) of
                      None \<Rightarrow> current_version es' u (e v, w')
                    | Some v' \<Rightarrow> (Inr (u_token_version usr), (v', w'))))))"

section \<open>Authentication\<close>

record principal =
  pr_user :: uuid
  pr_org :: uuid
  pr_role :: role

definition validate_claims :: "claims \<Rightarrow> unit sio" where
  "validate_claims c =
     handle (current_version [] (c_user c))
       (\<lambda>e. if e = ErrNoRows then err (err_unauthorized ''session invalidated'')
            else err (err_internal ''authentication check failed''))
       (\<lambda>current. if c_version c \<noteq> current then err (err_unauthorized ''session invalidated'') else ret ())"

definition api_key_last_used_interval :: duration where
  "api_key_last_used_interval = 5 * minute"

definition touch_last_used_async :: "uuid \<Rightarrow> unit sio" where
  "touch_last_used_async keyID = bind (on_world now) (\<lambda>t. bind (gets (\<lambda>(v, w). sv_last_used v)) (\<lambda>m.
     if (case m keyID of None \<Rightarrow> False | Some l \<Rightarrow> t - l < api_key_last_used_interval) then ret ()
     else seq (modify (\<lambda>(v, w). (v\<lparr>sv_last_used := (\<lambda>i. if i = keyID then Some t
            else case m i of None \<Rightarrow> None | Some l \<Rightarrow> if t - l \<ge> api_key_last_used_interval then None else Some l)\<rparr>, w)))
       (attempt (on_world (api_keys_touch_last_used keyID)))))"

definition authenticate_api_key :: "libs \<Rightarrow> string \<Rightarrow> principal sio" where
  "authenticate_api_key L token = bind (gets (\<lambda>(v, w). sv_has_keys v)) (\<lambda>has.
     if \<not> has then err (err_unauthorized ''invalid api key'')
     else handle (on_world (api_key_service_get_by_hash (hash_api_key L token)))
       (\<lambda>e. case e of ErrProblem s d \<Rightarrow> err e | _ \<Rightarrow> err (err_internal ''authentication check failed''))
       (\<lambda>key. seq (touch_last_used_async (bm_id key))
          (ret \<lparr>pr_user = ak_user key, pr_org = ak_org key, pr_role = ak_role key\<rparr>)))"

definition token_error_text :: "go_error \<Rightarrow> string" where
  "token_error_text e = (if e = ErrTokenExpired then ''token has expired'' else ''invalid or expired token'')"

definition claims_principal :: "claims \<Rightarrow> principal" where
  "claims_principal c = \<lparr>pr_user = c_user c, pr_org = c_org c, pr_role = c_role c\<rparr>"

definition auth_middleware :: "libs \<Rightarrow> jwt_manager \<Rightarrow> string \<Rightarrow> principal sio" where
  "auth_middleware L m header =
     (if header = [] then err (err_unauthorized ''missing authorization header'')
      else case split_n CHR '' '' 2 header of
         [scheme, token] \<Rightarrow>
           if \<not> equal_fold scheme ''bearer'' then err (err_unauthorized ''invalid authorization format'')
           else if has_prefix token api_key_prefix then authenticate_api_key L token
           else bind (on_world now) (\<lambda>t. case validate_access_token L m t token of
               Inl e \<Rightarrow> err (err_unauthorized (token_error_text e))
             | Inr c \<Rightarrow> seq (validate_claims c) (ret (claims_principal c)))
       | _ \<Rightarrow> err (err_unauthorized ''invalid authorization format''))"

definition ws_auth :: "libs \<Rightarrow> jwt_manager \<Rightarrow> string \<Rightarrow> string \<Rightarrow> principal sio" where
  "ws_auth L m queryToken header =
     (let token = (if queryToken \<noteq> [] then queryToken
                   else if header \<noteq> [] then (case split_n CHR '' '' 2 header of [_, tok] \<Rightarrow> tok | _ \<Rightarrow> []) else []) in
      if token = [] then err (problem 401 ''authentication required'')
      else bind (on_world now) (\<lambda>t. case validate_access_token L m t token of
          Inl e \<Rightarrow> err (problem 401 ''invalid token'')
        | Inr c \<Rightarrow> seq (validate_claims c) (ret (claims_principal c))))"

definition require_role :: "role list \<Rightarrow> principal \<Rightarrow> unit sio" where
  "require_role roles p =
     (if list_ex (\<lambda>r. pr_role p = r) roles then ret () else err (err_forbidden ''insufficient permissions''))"

definition require_setup_secret :: "string \<Rightarrow> string \<Rightarrow> unit sio" where
  "require_setup_secret secret provided =
     (if provided = [] then err (err_unauthorized ''setup secret required'')
      else if provided \<noteq> secret then err (err_forbidden ''invalid setup secret'') else ret ())"

subsection \<open>Sequential facts\<close>

lemma on_world_Inr: "on_world m (v, w) = (Inr x, s) \<longleftrightarrow> (\<exists>w'. m w = (Inr x, w') \<and> s = (v, w'))"
  by (auto simp: on_world_def split: prod.splits)

lemma on_world_now [simp]: "on_world now (v, w) = (Inr (clock w), (v, w))"
  by (simp add: on_world_def)

definition db_version :: "uuid \<Rightarrow> database \<Rightarrow> int option" where
  "db_version u d = map_option u_token_version (by_id u (users d))"

lemma users_get_eval:
  "users_get_by_id u w = (if fault_now w then Inl ErrIO else case by_id u (users (db w)) of
     None \<Rightarrow> Inl ErrNoRows | Some r \<Rightarrow> Inr r, next_fault w)"
  by (auto simp: users_get_by_id_def query_row_def statement_def next_fault_def split: option.splits)

text \<open>With nothing cached, \<open>currentVersion\<close> answers what the database holds, or its error.\<close>

lemma current_version_miss:
  assumes "cv_lookup (clock w) u v = None"
  shows "fst (current_version [] u (v, w)) =
    (if fault_now w then Inl ErrIO else case db_version u (db w) of None \<Rightarrow> Inl ErrNoRows | Some n \<Rightarrow> Inr n)"
  using assms by (auto simp: users_get_eval db_version_def cv_store_def split: option.splits)

lemma validate_claims_miss:
  assumes "cv_lookup (clock w) (c_user c) v = None" "\<not> fault_now w"
  shows "fst (validate_claims c (v, w)) =
    (if db_version (c_user c) (db w) = Some (c_version c) then Inr ()
     else Inl (ErrProblem 401 ''session invalidated''))"
proof -
  obtain r s where c: "current_version [] (c_user c) (v, w) = (r, s)" by (cases "current_version [] (c_user c) (v, w)")
  with current_version_miss [OF assms(1)] assms(2)
  have "r = (case db_version (c_user c) (db w) of None \<Rightarrow> Inl ErrNoRows | Some n \<Rightarrow> Inr n)" by simp
  then show ?thesis
    by (auto simp: validate_claims_def handle_def c problem_defs split: option.splits simp del: current_version.simps)
qed

section \<open>Interleaving\<close>

text \<open>A goroutine in \<open>currentVersion\<close>: outside, after its first critical section (a miss, with the generation
  and the time it read), or after its fetch.  \<open>vm_due\<close> tells, per user, that a commit
  changed the token version since the last \<open>Invalidate\<close> of that user.\<close>

datatype cv_state = CvIdle | CvMiss uuid nat time | CvFetched uuid nat time int

record version_machine =
  vm_db :: database
  vm_val :: session_validator
  vm_threads :: "nat \<Rightarrow> cv_state"
  vm_due :: "uuid \<Rightarrow> bool"

definition commit_due :: "database \<Rightarrow> database \<Rightarrow> (uuid \<Rightarrow> bool) \<Rightarrow> uuid \<Rightarrow> bool" where
  "commit_due d d' p u \<longleftrightarrow> db_version u d' \<noteq> db_version u d \<or> p u"

datatype vm_label = Silent | Answer uuid int | NoUser uuid

inductive vm_step :: "version_machine \<Rightarrow> vm_label \<Rightarrow> version_machine \<Rightarrow> bool" where
  hit: "vm_threads s i = CvIdle \<Longrightarrow> cv_lookup t u (vm_val s) = Some n \<Longrightarrow> vm_step s (Answer u n) s"
| miss: "vm_threads s i = CvIdle \<Longrightarrow> cv_lookup t u (vm_val s) = None \<Longrightarrow>
    vm_step s Silent (s\<lparr>vm_threads := (vm_threads s)(i := CvMiss u (sv_inval (vm_val s) u) t)\<rparr>)"
| fetch: "vm_threads s i = CvMiss u g t \<Longrightarrow> db_version u (vm_db s) = Some n \<Longrightarrow>
    vm_step s Silent (s\<lparr>vm_threads := (vm_threads s)(i := CvFetched u g t n)\<rparr>)"
| gone: "vm_threads s i = CvMiss u g t \<Longrightarrow> db_version u (vm_db s) = None \<Longrightarrow>
    vm_step s (NoUser u) (s\<lparr>vm_threads := (vm_threads s)(i := CvIdle)\<rparr>)"
| fail: "vm_threads s i = CvMiss u g t \<Longrightarrow> vm_step s Silent (s\<lparr>vm_threads := (vm_threads s)(i := CvIdle)\<rparr>)"
| store: "vm_threads s i = CvFetched u g t n \<Longrightarrow> cv_store g t u n (vm_val s) = Some v' \<Longrightarrow>
    vm_step s (Answer u n) (s\<lparr>vm_val := v', vm_threads := (vm_threads s)(i := CvIdle)\<rparr>)"
| retry: "vm_threads s i = CvFetched u g t n \<Longrightarrow> cv_store g t u n (vm_val s) = None \<Longrightarrow>
    vm_step s Silent (s\<lparr>vm_threads := (vm_threads s)(i := CvIdle)\<rparr>)"
| commit: "vm_step s Silent (s\<lparr>vm_db := d', vm_due := commit_due (vm_db s) d' (vm_due s)\<rparr>)"
| invalidate: "vm_step s Silent (s\<lparr>vm_val := sv_invalidate u (vm_val s),
    vm_due := (vm_due s)(u := False)\<rparr>)"

inductive_cases vm_stepE: "vm_step s l s'"
inductive_cases vm_answerE: "vm_step s (Answer u n) s'"

inductive vm_reach :: "database \<Rightarrow> version_machine \<Rightarrow> bool" for d0 where
  start: "vm_reach d0 \<lparr>vm_db = d0, vm_val = new_session_validator, vm_threads = (\<lambda>_. CvIdle), vm_due = (\<lambda>_. False)\<rparr>"
| step: "vm_reach d0 s \<Longrightarrow> vm_step s l s' \<Longrightarrow> vm_reach d0 s'"

text \<open>Once no invalidation is due, what is cached, and what a fetch of the current generation holds, is the
  version in the database.\<close>

definition vm_fetched_gen :: "version_machine \<Rightarrow> bool" where
  "vm_fetched_gen s \<longleftrightarrow> (\<forall>i u g t. (vm_threads s i = CvMiss u g t \<longrightarrow> g \<le> sv_inval (vm_val s) u) \<and>
     (\<forall>n. vm_threads s i = CvFetched u g t n \<longrightarrow> g \<le> sv_inval (vm_val s) u))"

definition vm_fresh :: "version_machine \<Rightarrow> bool" where
  "vm_fresh s \<longleftrightarrow> (\<forall>u. \<not> vm_due s u \<longrightarrow>
     (\<forall>e. sv_cache (vm_val s) u = Some e \<longrightarrow> db_version u (vm_db s) = Some (ve_version e)) \<and>
     (\<forall>i t n. vm_threads s i = CvFetched u (sv_inval (vm_val s) u) t n \<longrightarrow> db_version u (vm_db s) = Some n))"

lemma vm_inv_step:
  assumes "vm_step s l s'" "vm_fetched_gen s" "vm_fresh s"
  shows "vm_fetched_gen s' \<and> vm_fresh s'"
  using assms
proof (induction rule: vm_step.induct)
  case (store s i u g t n v')
  then have v': "g = sv_inval (vm_val s) u" "sv_inval v' = sv_inval (vm_val s)"
    "sv_cache v' = (sv_cache (vm_val s))(u \<mapsto> \<lparr>ve_version = n, ve_expires = t + session_version_cache_ttl\<rparr>)"
    by (auto simp: cv_store_def split: if_splits)
  have n: "\<not> vm_due s u \<Longrightarrow> db_version u (vm_db s) = Some n"
    using store(1,4) v'(1) unfolding vm_fresh_def by blast
  have "vm_fetched_gen (s\<lparr>vm_val := v', vm_threads := (vm_threads s)(i := CvIdle)\<rparr>)"
    using store(3) unfolding vm_fetched_gen_def by (simp add: v')
  moreover have "vm_fresh (s\<lparr>vm_val := v', vm_threads := (vm_threads s)(i := CvIdle)\<rparr>)"
    using store(4) n unfolding vm_fresh_def by (simp add: v') (metis option.inject)
  ultimately show ?case ..
next
  case (commit s d')
  then show ?case
    by (auto simp: vm_fetched_gen_def vm_fresh_def commit_due_def split: if_splits)
next
  case (invalidate s u)
  have "vm_fetched_gen (s\<lparr>vm_val := sv_invalidate u (vm_val s), vm_due := (vm_due s)(u := False)\<rparr>)"
    using invalidate(1) unfolding vm_fetched_gen_def by (auto simp: sv_invalidate_def le_SucI)
  moreover have "vm_fresh (s\<lparr>vm_val := sv_invalidate u (vm_val s), vm_due := (vm_due s)(u := False)\<rparr>)"
    using invalidate unfolding vm_fetched_gen_def vm_fresh_def
    by (auto simp: sv_invalidate_def) (metis Suc_n_not_le_n)
  ultimately show ?case ..
qed (auto simp: vm_fetched_gen_def vm_fresh_def)

lemma vm_reach_inv: "vm_reach d0 s \<Longrightarrow> vm_fetched_gen s \<and> vm_fresh s"
proof (induction rule: vm_reach.induct)
  case start
  show ?case by (simp add: vm_fetched_gen_def vm_fresh_def new_session_validator_def)
next
  case (step s l s')
  then show ?case using vm_inv_step by blast
qed


lemma bearer_miss:
  assumes "validate_access_token L m (clock w) tok = Inr c" "\<not> has_prefix tok api_key_prefix" "\<not> fault_now w"
  shows "fst (auth_middleware L m (''Bearer '' @ tok) (sv_invalidate (c_user c) v, w)) =
    (if db_version (c_user c) (db w) = Some (c_version c) then Inr (claims_principal c)
     else Inl (ErrProblem 401 ''session invalidated''))"
proof -
  let ?s = "(sv_invalidate (c_user c) v, w)"
  have split: "split_n CHR '' '' 2 (''Bearer '' @ tok) = [''Bearer'', tok]" by (simp add: numeral_2_eq_2)
  have fold: "equal_fold ''Bearer'' ''bearer''"
    by code_simp
  have "cv_lookup (clock w) (c_user c) (sv_invalidate (c_user c) v) = None"
    by (simp add: cv_lookup_def sv_invalidate_def)
  from validate_claims_miss [OF this assms(3)]
  have v: "fst (validate_claims c ?s) = (if db_version (c_user c) (db w) = Some (c_version c) then Inr ()
     else Inl (ErrProblem 401 ''session invalidated''))" .
  have "auth_middleware L m (''Bearer '' @ tok) ?s = seq (validate_claims c) (ret (claims_principal c)) ?s"
    unfolding auth_middleware_def split using assms(1,2) fold by (simp add: bind_def handle_def)
  with v show ?thesis
    by (cases "validate_claims c ?s") (auto simp: seq_def bind_def handle_def split: if_splits sum.splits)
qed

section \<open>Properties\<close>

text \<open>C3 (session_cache_fresh): however lookups, fetches, commits and invalidations interleave, an answer of
  \<open>currentVersion\<close> for a user whose last version change has been followed by \<open>Invalidate\<close> is the version
  now in the database: a fetch that was under way during the change can neither answer nor fill the cache.\<close>

theorem session_cache_fresh:
  assumes "vm_reach d0 s" "vm_step s (Answer u n) s'" "\<not> vm_due s u"
  shows "db_version u (vm_db s) = Some n"
  using vm_reach_inv [OF assms(1)] assms(2,3)
  by (auto elim!: vm_answerE simp: vm_fresh_def cv_lookup_def cv_store_def split: option.splits if_splits)

definition demo_user :: "uuid \<Rightarrow> uuid \<Rightarrow> role \<Rightarrow> int \<Rightarrow> user" where
  "demo_user i og r tv = \<lparr>bm_id = i, bm_created = 0, bm_updated = 0, bm_deleted = None, u_org = og,
     u_email = ''a@b'', u_password_hash = [], u_display_name = [], u_first_name = [], u_last_name = [],
     u_role = r, u_avatar = [], u_2fa_secret = [], u_2fa_enabled = False, u_token_version = tv, u_super_admin = False\<rparr>"

definition one_user_db :: "int \<Rightarrow> database" where
  "one_user_db tv = empty_database\<lparr>users := [demo_user 7 1 role_admin tv]\<rparr>"

lemma one_user_version [simp]: "db_version 7 (one_user_db tv) = Some tv"
  by (simp add: db_version_def one_user_db_def by_id_Cons live_def demo_user_def)

lemma session_cache_fresh_witness:
  "\<exists>s s'. vm_reach (one_user_db 3) s \<and> vm_step s (Answer 7 4) s' \<and> \<not> vm_due s 7 \<and> db_version 7 (vm_db s) = Some 4"
proof -
  let ?s0 = "\<lparr>vm_db = one_user_db 3, vm_val = new_session_validator, vm_threads = (\<lambda>_. CvIdle), vm_due = (\<lambda>_. False)\<rparr>"
  let ?s1 = "?s0\<lparr>vm_db := one_user_db 4, vm_due := commit_due (one_user_db 3) (one_user_db 4) (\<lambda>_. False)\<rparr>"
  let ?s2 = "?s1\<lparr>vm_val := sv_invalidate 7 (vm_val ?s1), vm_due := (vm_due ?s1)(7 := False)\<rparr>"
  let ?s3 = "?s2\<lparr>vm_threads := (vm_threads ?s2)(0 := CvMiss 7 (sv_inval (vm_val ?s2) 7) 5)\<rparr>"
  let ?s4 = "?s3\<lparr>vm_threads := (vm_threads ?s3)(0 := CvFetched 7 1 5 4)\<rparr>"
  have "vm_reach (one_user_db 3) ?s0" by (rule vm_reach.start)
  moreover have "vm_step ?s0 Silent ?s1" using vm_step.commit [of ?s0 "one_user_db 4"] by simp
  ultimately have "vm_reach (one_user_db 3) ?s1" by (rule vm_reach.step)
  then have "vm_reach (one_user_db 3) ?s2" by (rule vm_reach.step) (rule vm_step.invalidate)
  moreover have "vm_step ?s2 Silent ?s3"
    by (rule vm_step.miss) (simp_all add: cv_lookup_def sv_invalidate_def new_session_validator_def)
  ultimately have "vm_reach (one_user_db 3) ?s3" by (rule vm_reach.step)
  moreover have "vm_step ?s3 Silent ?s4"
    by (rule vm_step.fetch) (simp_all add: sv_invalidate_def new_session_validator_def)
  ultimately have r: "vm_reach (one_user_db 3) ?s4" by (rule vm_reach.step)
  obtain v' where "cv_store 1 5 7 4 (vm_val ?s4) = Some v'"
    by (simp add: cv_store_def sv_invalidate_def new_session_validator_def)
  then obtain s' where a: "vm_step ?s4 (Answer 7 4) s'" using vm_step.store [of ?s4 0 7 1 5 4 v'] by auto
  have d: "\<not> vm_due ?s4 7" by simp
  from r a d session_cache_fresh [OF r a d] show ?thesis by blast
qed

text \<open>Once a user's cache entry has been dropped, a valid access token is let
  through if and only if its version is the one in the database; otherwise the answer is 401, session
  invalidated.\<close>

theorem bearer_after_invalidate:
  assumes "validate_access_token L m (clock w) tok = Inr c" "\<not> has_prefix tok api_key_prefix" "\<not> fault_now w"
  shows "fst (auth_middleware L m (''Bearer '' @ tok) (sv_invalidate (c_user c) v, w)) =
    (if db_version (c_user c) (db w) = Some (c_version c) then Inr (claims_principal c)
     else Inl (ErrProblem 401 ''session invalidated''))"
  using assms by (rule bearer_miss)

lemma bearer_after_invalidate_witness:
  "fst (auth_middleware demo_libs \<lparr>jm_secret = ''k'', jm_expiry = hour, jm_refresh = hour\<rparr>
     (''Bearer '' @ tp_access (generate_token_pair demo_libs \<lparr>jm_secret = ''k'', jm_expiry = hour, jm_refresh = hour\<rparr>
        0 7 1 role_admin 3)) (sv_invalidate 7 new_session_validator, world_of (one_user_db 4)))
   = Inl (ErrProblem 401 ''session invalidated'')"
proof -
  let ?m = "\<lparr>jm_secret = ''k'', jm_expiry = hour, jm_refresh = hour\<rparr>"
  let ?tok = "tp_access (generate_token_pair demo_libs ?m 0 7 1 role_admin 3)"
  let ?w = "world_of (one_user_db 4)"
  have "map_sum id (\<lambda>c. (c_user c, c_org c, c_role c, c_version c))
      (validate_access_token demo_libs ?m (clock ?w) ?tok) = Inr (7, 1, role_admin, 3)"
    using demo_jwt_ok demo_uuid_ok
    by (simp add: validate_access_token_def generate_token_pair_def parse_into_sign access_claims_def json_defs
        uuid_ok_def hour_def minute_def second_def)
  then obtain c where c: "validate_access_token demo_libs ?m (clock ?w) ?tok = Inr c"
    and f: "c_user c = 7" "c_version c = 3"
    by (cases "validate_access_token demo_libs ?m (clock ?w) ?tok") auto
  have p: "\<not> has_prefix ?tok api_key_prefix"
    using demo_jwt_ok by (simp add: generate_token_pair_def jwt_ok_def api_key_prefix_def)
  show ?thesis
    using bearer_after_invalidate [OF c p, of new_session_validator] f by simp
qed


text \<open>C40 (auth_takes_challenge): the middleware lets a 2FA challenge, which a user holds before giving the second
  factor, through as a session of that user while the user's token version is 0, with no organisation and no
  role; with any other version it refuses it.\<close>

theorem auth_takes_challenge:
  assumes "jwt_ok L" "uuid_ok L" "clock w < ((t + oauth_2fa_expiry) div second) * second" "\<not> fault_now w"
  shows "fst (auth_middleware L m (''Bearer '' @ jwt_sign L (jm_secret m) (challenge_claims L t jti u))
      (sv_invalidate u v, w)) =
    (if db_version u (db w) = Some 0 then Inr \<lparr>pr_user = u, pr_org = uuid_nil, pr_role = []\<rparr>
     else Inl (ErrProblem 401 ''session invalidated''))"
proof -
  let ?tok = "jwt_sign L (jm_secret m) (challenge_claims L t jti u)"
  obtain c where c: "validate_access_token L m (clock w) ?tok = Inr c"
    "c_user c = u" "c_version c = 0" "c_org c = uuid_nil" "c_role c = []"
    using challenge_is_access_token [OF assms(1-3)] by blast
  have "\<not> has_prefix ?tok api_key_prefix" using assms(1) by (simp add: jwt_ok_def api_key_prefix_def)
  from bearer_miss [OF c(1) this assms(4), of v] c(2-5) show ?thesis by (simp add: claims_principal_def)
qed

lemma auth_takes_challenge_witness:
  "fst (auth_middleware demo_libs \<lparr>jm_secret = ''k'', jm_expiry = hour, jm_refresh = hour\<rparr>
     (''Bearer '' @ jwt_sign demo_libs ''k'' (challenge_claims demo_libs 0 ''j'' 7))
     (sv_invalidate 7 new_session_validator, world_of (one_user_db 0)))
   = Inr \<lparr>pr_user = 7, pr_org = uuid_nil, pr_role = []\<rparr>"
  using auth_takes_challenge [OF demo_jwt_ok demo_uuid_ok, of "world_of (one_user_db 0)" 0
      "\<lparr>jm_secret = ''k'', jm_expiry = hour, jm_refresh = hour\<rparr>" "''j''" 7 new_session_validator]
  by (simp add: oauth_2fa_expiry_def minute_def second_def)

end
