(* ===== verification/Ops_Store.thy ===== *)
theory Ops_Store imports App_Store "HOL-Library.List_Lexorder" begin

text \<open>
  The stores of managed databases and their backups, system backups, nodes, cron jobs, notification channels, templates,
  deploy targets and metrics (\<open>store/pg/managed_database_store.go\<close>, \<open>database_backup_store.go\<close>, \<open>system_backup_store.go\<close>, \<open>server_node_store.go\<close>,
  \<open>cronjob_store.go\<close>, \<open>notification_channel_store.go\<close>).  Bun inserts the default of a column in place of a zero
  value, whatever the zero value means; the \<open>defaults\<close> functions say what that gives.
\<close>

section \<open>Managed databases\<close>

definition managed_db_defaults :: "managed_database \<Rightarrow> managed_database" where
  "managed_db_defaults m = m\<lparr>mdb_storage := or_default ''1Gi'' (mdb_storage m), mdb_cpu := or_default ''500m'' (mdb_cpu m),
     mdb_mem := or_default ''512Mi'' (mdb_mem m), mdb_status := or_default ''idle'' (mdb_status m)\<rparr>"

definition managed_dbs_get_by_id :: "uuid \<Rightarrow> managed_database io" where
  "managed_dbs_get_by_id i = query_row (\<lambda>d. by_id i (managed_dbs d))"

definition managed_dbs_create :: "managed_database \<Rightarrow> managed_database io" where
  "managed_dbs_create m = insert_row no_index managed_dbs managed_dbs_update (managed_db_defaults m)"

definition managed_dbs_update_row :: "managed_database \<Rightarrow> unit io" where
  "managed_dbs_update_row m = update_row no_index managed_dbs managed_dbs_update m"

definition managed_dbs_delete :: "uuid \<Rightarrow> unit io" where
  "managed_dbs_delete i = bind now (\<lambda>t. exec (managed_dbs_update (delete_pk t i)))"

definition managed_dbs_list_by_project :: "uuid \<Rightarrow> list_params \<Rightarrow> (managed_database list \<times> nat) io" where
  "managed_dbs_list_by_project p q =
     query_page q (\<lambda>d. newest_first (select_live (\<lambda>m. mdb_project m = p) (managed_dbs d)))"

definition managed_dbs_list_all :: "list_params \<Rightarrow> list_filter \<Rightarrow> (managed_database list \<times> nat) io" where
  "managed_dbs_list_all q f =
     (if empty_scope f then ret ([], 0)
      else query_page q (\<lambda>d. newest_first (select_live (\<lambda>m.
        (lf_search f \<noteq> [] \<longrightarrow> like_search (lf_search f) (mdb_name m)) \<and>
        (lf_status f \<noteq> [] \<longrightarrow> mdb_status m = lf_status f) \<and>
        in_scope f (mdb_project m)) (managed_dbs d))))"

definition managed_dbs_exists_by_k8s_name :: "uuid \<Rightarrow> string \<Rightarrow> bool io" where
  "managed_dbs_exists_by_k8s_name p n =
     query (\<lambda>d. select_live (\<lambda>m. mdb_project m = p \<and> mdb_k8s m = n) (managed_dbs d) \<noteq> [])"

definition managed_dbs_find_by_backup_s3 :: "uuid \<Rightarrow> managed_database option io" where
  "managed_dbs_find_by_backup_s3 r = query (\<lambda>d. find_live (\<lambda>m. mdb_backup_s3 m = Some r) (managed_dbs d))"

definition managed_dbs_find_by_external_port :: "int \<Rightarrow> managed_database io" where
  "managed_dbs_find_by_external_port p =
     query_row (\<lambda>d. find_live (\<lambda>m. mdb_external m \<and> mdb_port m = p) (managed_dbs d))"

definition managed_dbs_list_backup_enabled :: "managed_database list io" where
  "managed_dbs_list_backup_enabled =
     query (\<lambda>d. select_live (\<lambda>m. mdb_backup_enabled m \<and> mdb_backup_schedule m \<noteq> []) (managed_dbs d))"

text \<open>A table expression instead of a model: bun does not leave out the deleted rows.\<close>

definition port_info :: "managed_database \<Rightarrow> external_port_info" where
  "port_info m = \<lparr>ep_database = bm_id m, ep_name = mdb_name m, ep_engine = mdb_engine m, ep_port = mdb_port m\<rparr>"

definition managed_dbs_list_external_ports :: "external_port_info list io" where
  "managed_dbs_list_external_ports =
     query (\<lambda>d. sort_key ep_port (map port_info (filter (\<lambda>m. mdb_external m \<and> mdb_port m > 0) (managed_dbs d))))"

section \<open>Backups\<close>

definition db_backup_defaults :: "database_backup \<Rightarrow> database_backup" where
  "db_backup_defaults b = b\<lparr>dbb_status := or_default ''pending'' (dbb_status b)\<rparr>"

definition db_backups_create :: "database_backup \<Rightarrow> database_backup io" where
  "db_backups_create b = insert_row no_index db_backups db_backups_update (db_backup_defaults b)"

definition db_backups_update_row :: "database_backup \<Rightarrow> unit io" where
  "db_backups_update_row b = update_row no_index db_backups db_backups_update b"

definition db_backups_get_by_id :: "uuid \<Rightarrow> database_backup io" where
  "db_backups_get_by_id i = query_row (\<lambda>d. by_id i (db_backups d))"

definition db_backups_list_by_database :: "uuid \<Rightarrow> list_params \<Rightarrow> (database_backup list \<times> nat) io" where
  "db_backups_list_by_database m q =
     query_page q (\<lambda>d. newest_first (select_live (\<lambda>b. dbb_database b = m) (db_backups d)))"

definition sys_backup_defaults :: "system_backup \<Rightarrow> system_backup" where
  "sys_backup_defaults b = b\<lparr>sb_status := or_default ''pending'' (sb_status b)\<rparr>"

definition sys_backups_create :: "system_backup \<Rightarrow> system_backup io" where
  "sys_backups_create b = insert_row no_index sys_backups sys_backups_update (sys_backup_defaults b)"

definition sys_backups_update_row :: "system_backup \<Rightarrow> unit io" where
  "sys_backups_update_row b = update_row no_index sys_backups sys_backups_update b"

definition sys_backups_get_by_id :: "uuid \<Rightarrow> system_backup io" where
  "sys_backups_get_by_id i = query_row (\<lambda>d. by_id i (sys_backups d))"

definition sys_backups_list :: "list_params \<Rightarrow> (system_backup list \<times> nat) io" where
  "sys_backups_list q = query_page q (\<lambda>d. newest_first (select_live (\<lambda>_. True) (sys_backups d)))"

section \<open>Nodes\<close>

definition node_defaults :: "server_node \<Rightarrow> server_node" where
  "node_defaults n = n\<lparr>sn_port := (if sn_port n = 0 then 22 else sn_port n), sn_user := or_default ''root'' (sn_user n),
     sn_auth := or_default ''password'' (sn_auth n), sn_role := or_default ''worker'' (sn_role n)\<rparr>"

definition nodes_get_by_id :: "uuid \<Rightarrow> server_node io" where
  "nodes_get_by_id i = query_row (\<lambda>d. by_id i (nodes d))"

definition nodes_create :: "server_node \<Rightarrow> server_node io" where
  "nodes_create n = insert_row no_index nodes nodes_update (node_defaults n)"

definition nodes_update_row :: "server_node \<Rightarrow> unit io" where
  "nodes_update_row n = update_row no_index nodes nodes_update n"

definition nodes_delete :: "uuid \<Rightarrow> unit io" where
  "nodes_delete i = bind now (\<lambda>t. exec (nodes_update (delete_pk t i)))"

definition nodes_list :: "server_node list io" where
  "nodes_list = query (\<lambda>d. newest_first (select_live (\<lambda>_. True) (nodes d)))"

definition nodes_find_by_ssh_key :: "uuid \<Rightarrow> server_node option io" where
  "nodes_find_by_ssh_key r = query (\<lambda>d. find_live (\<lambda>n. sn_key n = Some r) (nodes d))"

definition nodes_update_status :: "uuid \<Rightarrow> node_status \<Rightarrow> string \<Rightarrow> unit io" where
  "nodes_update_status i s msg =
     exec (nodes_update (update_live (\<lambda>n. bm_id n = i) (\<lambda>n. n\<lparr>sn_status := s, sn_message := msg\<rparr>)))"

section \<open>Cron jobs\<close>

text \<open>A job created disabled is stored enabled, and one without retries with three: \<open>False\<close> and 0 are the zero
  values that the defaults replace.\<close>

definition cron_job_defaults :: "cron_job \<Rightarrow> cron_job" where
  "cron_job_defaults c = c\<lparr>cj_timezone := or_default ''UTC'' (cj_timezone c), cj_source := or_default ''image'' (cj_source c),
     cj_git_branch := or_default ''main'' (cj_git_branch c), cj_cpu_limit := or_default ''500m'' (cj_cpu_limit c),
     cj_mem_limit := or_default ''512Mi'' (cj_mem_limit c), cj_enabled := (if cj_enabled c then cj_enabled c else True),
     cj_concurrency := or_default ''Forbid'' (cj_concurrency c), cj_restart := or_default ''OnFailure'' (cj_restart c),
     cj_backoff := (if cj_backoff c = 0 then 3 else cj_backoff c)\<rparr>"

definition cron_jobs_get_by_id :: "uuid \<Rightarrow> cron_job io" where
  "cron_jobs_get_by_id i = query_row (\<lambda>d. by_id i (cron_jobs d))"

definition cron_jobs_create :: "cron_job \<Rightarrow> cron_job io" where
  "cron_jobs_create c = insert_row no_index cron_jobs cron_jobs_update (cron_job_defaults c)"

definition cron_jobs_update_row :: "cron_job \<Rightarrow> unit io" where
  "cron_jobs_update_row c = update_row no_index cron_jobs cron_jobs_update c"

definition cron_jobs_delete :: "uuid \<Rightarrow> unit io" where
  "cron_jobs_delete i = bind now (\<lambda>t. exec (cron_jobs_update (delete_pk t i)))"

definition cron_jobs_list_by_project :: "uuid \<Rightarrow> list_params \<Rightarrow> (cron_job list \<times> nat) io" where
  "cron_jobs_list_by_project p q =
     query_page q (\<lambda>d. newest_first (select_live (\<lambda>c. cj_project c = p) (cron_jobs d)))"

definition cron_runs_get_by_id :: "uuid \<Rightarrow> cron_run io" where
  "cron_runs_get_by_id i = query_row (\<lambda>d. by_id i (cron_runs d))"

definition cron_runs_create :: "cron_run \<Rightarrow> cron_run io" where
  "cron_runs_create r = insert_row no_index cron_runs cron_runs_update
     (r\<lparr>cr_trigger := or_default ''scheduled'' (cr_trigger r)\<rparr>)"

definition cron_runs_update_row :: "cron_run \<Rightarrow> unit io" where
  "cron_runs_update_row r = update_row no_index cron_runs cron_runs_update r"

definition cron_runs_list_by_job :: "uuid \<Rightarrow> list_params \<Rightarrow> (cron_run list \<times> nat) io" where
  "cron_runs_list_by_job j q =
     query_page q (\<lambda>d. sort_key (\<lambda>r. - cr_started r) (rev (select_live (\<lambda>r. cr_job r = j) (cron_runs d))))"

section \<open>Notification channels\<close>

definition channels_get :: "uuid \<Rightarrow> string \<Rightarrow> notify_channel io" where
  "channels_get og ty = query_row (\<lambda>d. find_live (\<lambda>c. nc_org c = og \<and> nc_type c = ty) (channels d))"

definition channels_list_all_enabled :: "notify_channel list io" where
  "channels_list_all_enabled = query (\<lambda>d. select_live nc_enabled (channels d))"

definition channel_key :: "notify_channel \<Rightarrow> uuid \<times> string" where
  "channel_key c = (nc_org c, nc_type c)"

definition unique_channel :: "notify_channel \<Rightarrow> notify_channel list \<Rightarrow> bool" where
  "unique_channel c t = list_all (\<lambda>x. channel_key x \<noteq> channel_key c) t"

definition channels_upsert :: "notify_channel \<Rightarrow> notify_channel io" where
  "channels_upsert c = handle (channels_get (nc_org c) (nc_type c))
     (\<lambda>e. if e \<noteq> ErrNoRows then err e else insert_row unique_channel channels channels_update c)
     (\<lambda>x. bind now (\<lambda>t. bind (exec (channels_update (update_live (\<lambda>y. bm_id y = bm_id x)
        (\<lambda>y. y\<lparr>nc_enabled := nc_enabled c, nc_config := nc_config c, bm_updated := t\<rparr>))))
          (\<lambda>_. ret (x\<lparr>nc_enabled := nc_enabled c, nc_config := nc_config c, bm_updated := t\<rparr>))))"

definition channels_list_by_org :: "uuid \<Rightarrow> notify_channel list io" where
  "channels_list_by_org og = query (\<lambda>d. sort_key (\<lambda>c. map (of_char :: char \<Rightarrow> nat) (nc_type c)) (select_live (\<lambda>c. nc_org c = og) (channels d)))"

section \<open>Templates and deploy targets\<close>

definition templates_get_by_id :: "uuid \<Rightarrow> app_template io" where
  "templates_get_by_id i = query_row (\<lambda>d. by_id i (templates d))"

definition templates_get_by_name :: "string \<Rightarrow> app_template io" where
  "templates_get_by_name n = query_row (\<lambda>d. find_live (\<lambda>x. tpl_name x = n) (templates d))"

definition templates_list :: "list_params \<Rightarrow> (app_template list \<times> nat) io" where
  "templates_list q = query_page q (\<lambda>d. sort_key (\<lambda>x. map (of_char :: char \<Rightarrow> nat) (tpl_name x)) (select_live (\<lambda>_. True) (templates d)))"

definition templates_create :: "app_template \<Rightarrow> app_template io" where
  "templates_create x = insert_row (unique_all tpl_name) templates templates_update x"

definition deploy_targets_get_by_id :: "uuid \<Rightarrow> deploy_target io" where
  "deploy_targets_get_by_id i = query_row (\<lambda>d. by_id i (deploy_targets d))"

definition deploy_targets_get_default :: "deploy_target io" where
  "deploy_targets_get_default = query_row (\<lambda>d. find_live dt_default (deploy_targets d))"

definition deploy_targets_list :: "deploy_target list io" where
  "deploy_targets_list = query (\<lambda>d. sort_key bm_created (select_live (\<lambda>_. True) (deploy_targets d)))"

section \<open>Metrics\<close>

definition snapshots_insert_batch :: "metric_snapshot list \<Rightarrow> unit io" where
  "snapshots_insert_batch xs = (if xs = [] then ret () else exec (snapshots_update (\<lambda>t. t @ xs)))"

record snapshot_query =
  sq_type :: string
  sq_name :: string
  sq_from :: "time option"
  sq_to :: "time option"
  sq_limit :: int

definition snapshot_matches :: "snapshot_query \<Rightarrow> metric_snapshot \<Rightarrow> bool" where
  "snapshot_matches q x \<longleftrightarrow> (sq_type q \<noteq> [] \<longrightarrow> ms_type x = sq_type q) \<and> (sq_name q \<noteq> [] \<longrightarrow> ms_name x = sq_name q) \<and>
     (case sq_from q of None \<Rightarrow> True | Some t \<Rightarrow> ms_at x \<ge> t) \<and> (case sq_to q of None \<Rightarrow> True | Some t \<Rightarrow> ms_at x \<le> t)"

definition snapshots_query :: "snapshot_query \<Rightarrow> metric_snapshot list io" where
  "snapshots_query q = query (\<lambda>d. take (nat (if sq_limit q \<le> 0 then 500 else sq_limit q))
     (sort_key ms_at (filter (snapshot_matches q) (snapshots d))))"

definition snapshots_delete_older_than :: "time \<Rightarrow> nat io" where
  "snapshots_delete_older_than before = statement (\<lambda>d.
     (Inr (length (filter (\<lambda>x. ms_at x < before) (snapshots d))), snapshots_update (filter (\<lambda>x. \<not> ms_at x < before)) d))"

definition event_key :: "metric_event \<Rightarrow> string \<times> string \<times> string" where
  "event_key e = (me_namespace e, me_object e, me_reason e)"

definition event_text :: "metric_event \<Rightarrow> string" where
  "event_text e = me_namespace e @ CHR ''/'' # me_object e @ CHR ''/'' # me_reason e"

fun dedup_events :: "string set \<Rightarrow> metric_event list \<Rightarrow> metric_event list" where
  "dedup_events seen [] = []"
| "dedup_events seen (e # es) =
     (if event_text e \<in> seen then dedup_events seen es else e # dedup_events (insert (event_text e) seen) es)"

definition upsert_event :: "metric_event \<Rightarrow> metric_event list \<Rightarrow> metric_event list" where
  "upsert_event e t =
     (if list_ex (\<lambda>x. event_key x = event_key e) t
      then map (\<lambda>x. if event_key x = event_key e then x\<lparr>me_last := me_last e, me_count := me_count e, me_message := me_message e\<rparr> else x) t
      else t @ [e])"

definition events_upsert_batch :: "metric_event list \<Rightarrow> unit io" where
  "events_upsert_batch es = (if es = [] then ret () else exec (events_update (fold upsert_event (dedup_events {} es))))"

record event_query =
  eq_type :: string
  eq_namespace :: string
  eq_from :: "time option"
  eq_to :: "time option"
  eq_page :: nat
  eq_per_page :: nat

definition event_matches :: "event_query \<Rightarrow> metric_event \<Rightarrow> bool" where
  "event_matches q e \<longleftrightarrow> (eq_type q \<noteq> [] \<longrightarrow> me_type e = eq_type q) \<and> (eq_namespace q \<noteq> [] \<longrightarrow> me_namespace e = eq_namespace q) \<and>
     (case eq_from q of None \<Rightarrow> True | Some t \<Rightarrow> me_last e \<ge> t) \<and> (case eq_to q of None \<Rightarrow> True | Some t \<Rightarrow> me_last e \<le> t)"

definition events_list :: "event_query \<Rightarrow> (metric_event list \<times> nat) io" where
  "events_list q =
     (let pg = (if eq_page q < 1 then 1 else eq_page q); per = (if eq_per_page q < 1 then 50 else eq_per_page q) in
      bind (query (\<lambda>d. length (filter (event_matches q) (events d)))) (\<lambda>n.
      bind (query (\<lambda>d. page_of \<lparr>lp_page = pg, lp_per_page = per\<rparr>
          (sort_key (\<lambda>e. - me_last e) (rev (filter (event_matches q) (events d)))))) (\<lambda>rows.
      ret (rows, n))))"

definition events_delete_older_than :: "time \<Rightarrow> nat io" where
  "events_delete_older_than before = statement (\<lambda>d.
     (Inr (length (filter (\<lambda>x. me_last x < before) (events d))), events_update (filter (\<lambda>x. \<not> me_last x < before)) d))"

section \<open>What the operations change\<close>

lemma ops_reads [reads_intros]:
  "reads (managed_dbs_get_by_id i)" "reads (managed_dbs_list_by_project p q)" "reads (managed_dbs_list_all q f)"
  "reads (managed_dbs_exists_by_k8s_name p n)" "reads (managed_dbs_find_by_backup_s3 r)"
  "reads (managed_dbs_find_by_external_port po)" "reads managed_dbs_list_backup_enabled"
  "reads managed_dbs_list_external_ports" "reads (db_backups_get_by_id i)" "reads (db_backups_list_by_database m q)"
  "reads (sys_backups_get_by_id i)" "reads (sys_backups_list q)" "reads (nodes_get_by_id i)" "reads nodes_list"
  "reads (nodes_find_by_ssh_key r)" "reads (cron_jobs_get_by_id i)" "reads (cron_jobs_list_by_project p q)"
  "reads (cron_runs_get_by_id i)" "reads (cron_runs_list_by_job j q)" "reads (channels_get og ty)" "reads channels_list_all_enabled"
  "reads (channels_list_by_org og)" "reads (templates_get_by_id i)" "reads (templates_list q)" "reads (deploy_targets_get_by_id i)"
  "reads deploy_targets_get_default" "reads deploy_targets_list" "reads (snapshots_query sq)"
  by (simp_all add: managed_dbs_get_by_id_def managed_dbs_list_by_project_def managed_dbs_list_all_def
      managed_dbs_exists_by_k8s_name_def managed_dbs_find_by_backup_s3_def managed_dbs_find_by_external_port_def
      managed_dbs_list_backup_enabled_def managed_dbs_list_external_ports_def db_backups_get_by_id_def
      db_backups_list_by_database_def sys_backups_get_by_id_def sys_backups_list_def nodes_get_by_id_def nodes_list_def
      nodes_find_by_ssh_key_def cron_jobs_get_by_id_def cron_jobs_list_by_project_def cron_runs_get_by_id_def
      cron_runs_list_by_job_def channels_get_def channels_list_all_enabled_def channels_list_by_org_def templates_get_by_id_def
      templates_list_def deploy_targets_get_by_id_def deploy_targets_get_default_def deploy_targets_list_def snapshots_query_def
      reads_intros)

lemma events_list_reads [reads_intros]: "reads (events_list q)"
  unfolding events_list_def Let_def by (intro reads_intros)

end
