(* ===== verification/Authz_Guards.thy ===== *)
theory Authz_Guards imports Session_Validator Ops_Store begin

text \<open>
  Project-scoped access: \<open>service/authz_service.go\<close> decides, \<open>api/v1/guards.go\<close> resolves the resource of a
  route to its project and asks.  A guard that passes is \<open>Inr ()\<close>; one that aborts is the problem it writes.
\<close>

section \<open>Decisions\<close>

definition is_privileged :: "role \<Rightarrow> bool" where
  "is_privileged r \<longleftrightarrow> r = role_admin"

text \<open>The answer of \<open>AccessibleProjectIDs\<close>: the list and whether it is to be ignored.\<close>

definition accessible_project_ids :: "uuid \<Rightarrow> role \<Rightarrow> uuid \<Rightarrow> (uuid list option \<times> bool) io" where
  "accessible_project_ids userID role orgID =
     (if is_privileged role then ret (None, True)
      else bind (team_members_list_team_ids_by_user userID) (\<lambda>teamIDs.
        if teamIDs = [] then ret (Some [], False)
        else bind (projects_list_ids_by_teams orgID teamIDs) (\<lambda>ids. ret (Some ids, False))))"

definition can_access_project :: "uuid \<Rightarrow> role \<Rightarrow> uuid \<Rightarrow> uuid \<Rightarrow> bool io" where
  "can_access_project userID role orgID projectID =
     bind (projects_get_by_id projectID) (\<lambda>project.
       if p_org project \<noteq> orgID then ret False
       else if is_privileged role then ret True
       else bind (team_members_list_team_ids_by_user userID) (\<lambda>teamIDs.
         ret (list_ex (\<lambda>tid. tid = p_team project) teamIDs)))"

section \<open>Guards\<close>

definition access_denied :: go_error where
  "access_denied = err_forbidden ''access denied''"

definition check_project :: "principal \<Rightarrow> uuid \<Rightarrow> unit io" where
  "check_project p projectID =
     handle (can_access_project (pr_user p) (pr_role p) (pr_org p) projectID)
       (\<lambda>_. err access_denied) (\<lambda>ok. if \<not> ok then err access_denied else ret ())"

definition ensure_project_access :: "principal \<Rightarrow> uuid \<Rightarrow> bool io" where
  "ensure_project_access p projectID =
     handle (can_access_project (pr_user p) (pr_role p) (pr_org p) projectID)
       (\<lambda>_. ret False) (\<lambda>ok. ret ok)"

definition guard_id :: "libs \<Rightarrow> string \<Rightarrow> string \<Rightarrow> (uuid \<Rightarrow> unit io) \<Rightarrow> unit io" where
  "guard_id L param bad k = (case uuid_parse L param of None \<Rightarrow> err (err_bad_request bad) | Some i \<Rightarrow> k i)"

definition guard_project :: "libs \<Rightarrow> principal \<Rightarrow> string \<Rightarrow> unit io" where
  "guard_project L p param = guard_id L param ''invalid project ID'' (check_project p)"

definition guard_app :: "libs \<Rightarrow> principal \<Rightarrow> string \<Rightarrow> unit io" where
  "guard_app L p param = guard_id L param ''invalid app ID'' (\<lambda>i.
     handle (applications_get_by_id i) (\<lambda>_. err (err_not_found ''application not found''))
       (\<lambda>app. check_project p (a_project app)))"

definition guard_page :: "libs \<Rightarrow> principal \<Rightarrow> string \<Rightarrow> unit io" where
  "guard_page L p param = guard_id L param ''invalid page ID'' (\<lambda>i.
     handle (pages_get_by_id i) (\<lambda>_. err (err_not_found ''page not found''))
       (\<lambda>page. check_project p (pg_project page)))"

definition guard_worker :: "libs \<Rightarrow> principal \<Rightarrow> string \<Rightarrow> unit io" where
  "guard_worker L p param = guard_id L param ''invalid worker ID'' (\<lambda>i.
     handle (workers_get_by_id i) (\<lambda>_. err (err_not_found ''worker not found''))
       (\<lambda>wk. check_project p (wk_project wk)))"

definition guard_database :: "libs \<Rightarrow> principal \<Rightarrow> string \<Rightarrow> unit io" where
  "guard_database L p param = guard_id L param ''invalid database ID'' (\<lambda>i.
     handle (managed_dbs_get_by_id i) (\<lambda>_. err (err_not_found ''database not found''))
       (\<lambda>d. check_project p (mdb_project d)))"

definition guard_cron_job :: "libs \<Rightarrow> principal \<Rightarrow> string \<Rightarrow> unit io" where
  "guard_cron_job L p param = guard_id L param ''invalid cronjob ID'' (\<lambda>i.
     handle (cron_jobs_get_by_id i) (\<lambda>_. err (err_not_found ''cronjob not found''))
       (\<lambda>c. check_project p (cj_project c)))"

definition guard_deployment :: "libs \<Rightarrow> principal \<Rightarrow> string \<Rightarrow> unit io" where
  "guard_deployment L p param = guard_id L param ''invalid deployment ID'' (\<lambda>i.
     handle (deployments_get_by_id i) (\<lambda>_. err (err_not_found ''deployment not found'')) (\<lambda>dep.
     handle (applications_get_by_id (d_app dep)) (\<lambda>_. err (err_not_found ''application not found''))
       (\<lambda>app. check_project p (a_project app))))"

definition guard_domain :: "libs \<Rightarrow> principal \<Rightarrow> string \<Rightarrow> unit io" where
  "guard_domain L p param = guard_id L param ''invalid domain ID'' (\<lambda>i.
     handle (domains_get_by_id i) (\<lambda>_. err (err_not_found ''domain not found'')) (\<lambda>dom.
     handle (applications_get_by_id (dom_app dom)) (\<lambda>_. err (err_not_found ''application not found''))
       (\<lambda>app. check_project p (a_project app))))"

section \<open>The access rule\<close>

text \<open>The rule in the words of the source: an admin may access any project of their organisation, a member
  the projects of their teams in it.\<close>

definition may_access :: "database \<Rightarrow> principal \<Rightarrow> project \<Rightarrow> bool" where
  "may_access d p pr \<longleftrightarrow> p_org pr = pr_org p \<and> (pr_role p = role_admin \<or> p_team pr \<in> set (team_ids_of (pr_user p) d))"

definition accessible :: "database \<Rightarrow> principal \<Rightarrow> uuid \<Rightarrow> bool" where
  "accessible d p i \<longleftrightarrow> (\<exists>pr. by_id i (projects d) = Some pr \<and> may_access d p pr)"

lemma after_scan_simps [simp]:
  "p_org (project_after_scan p) = p_org p" "p_team (project_after_scan p) = p_team p"
  "bm_id (project_after_scan p) = bm_id p" "p_namespace (project_after_scan p) = p_namespace p"
  "pg_project (page_after_scan x) = pg_project x" "wk_project (worker_after_scan y) = wk_project y"
  "pg_status (page_after_scan x) = pg_status x" "wk_status (worker_after_scan y) = wk_status y"
  by (simp_all add: project_after_scan_def page_after_scan_def worker_after_scan_def Let_def)

lemma projects_get_Inr:
  assumes "projects_get_by_id i w = (Inr p, w')"
  shows "db w' = db w \<and> (\<exists>q. by_id i (projects (db w)) = Some q \<and> p_org p = p_org q \<and> p_team p = p_team q \<and>
    bm_id p = i)"
proof -
  from assms obtain q w1 where q: "by_id i (projects (db w)) = Some q" "w1 = next_fault w"
    "attach_team (project_after_scan q) w1 = (Inr p, w')"
    by (auto simp: projects_get_by_id_def bind_Inr query_row_Inr)
  then have "db w' = db w \<and> p_org p = p_org q \<and> p_team p = p_team q \<and> bm_id p = bm_id q"
    by (auto simp: attach_team_def bind_Inr query_Inr split: if_splits option.splits)
  with q(1) show ?thesis by (auto dest: by_id_key)
qed

lemma can_access_Inr:
  assumes "can_access_project (pr_user p) (pr_role p) (pr_org p) i w = (Inr ok, w')"
  shows "db w' = db w \<and> (ok \<longleftrightarrow> accessible (db w) p i)"
proof -
  obtain pj w1 where pj: "projects_get_by_id i w = (Inr pj, w1)"
    using assms by (auto simp: can_access_project_def bind_Inr)
  from projects_get_Inr [OF pj] obtain q where q: "db w1 = db w" "by_id i (projects (db w)) = Some q"
    "p_org pj = p_org q" "p_team pj = p_team q" by blast
  show ?thesis
    using assms pj q
    by (auto simp: can_access_project_def bind_Inr accessible_def may_access_def is_privileged_def query_Inr
        team_members_list_team_ids_by_user_def list_ex_iff split: if_splits)
qed

lemma check_project_Inr:
  assumes "check_project p i w = (Inr x, w')"
  shows "accessible (db w) p i \<and> db w' = db w"
proof -
  obtain w1 where "can_access_project (pr_user p) (pr_role p) (pr_org p) i w = (Inr True, w1)" "w' = w1"
    using assms by (auto simp: check_project_def handle_cases split: if_splits)
  with can_access_Inr [of p i w True w1] show ?thesis by simp
qed

subsection \<open>One lemma for all guards\<close>

text \<open>A guard fetches a resource without changing the database, then checks the project it names.\<close>

locale guarded_resource =
  fixes fetch :: "uuid \<Rightarrow> 'r io"
    and project_of :: "'r \<Rightarrow> uuid"
    and rows :: "database \<Rightarrow> uuid \<Rightarrow> uuid option"
  assumes fetch_reads: "fetch i w = (Inr r, w') \<Longrightarrow> db w' = db w \<and> rows (db w) i = Some (project_of r)"
begin

lemma guard_passes:
  assumes "guard_id L param bad (\<lambda>i. handle (fetch i) (\<lambda>_. err e) (\<lambda>r. check_project p (project_of r))) w = (Inr x, w')"
  shows "\<exists>i pj. uuid_parse L param = Some i \<and> rows (db w) i = Some pj \<and> accessible (db w) p pj \<and> db w' = db w"
proof -
  from assms obtain i r w1 where i: "uuid_parse L param = Some i" "fetch i w = (Inr r, w1)"
    "check_project p (project_of r) w1 = (Inr x, w')"
    by (auto simp: guard_id_def handle_cases split: option.splits)
  from fetch_reads [OF i(2)] check_project_Inr [OF i(3)] i(1) show ?thesis by auto
qed

end

definition app_project :: "database \<Rightarrow> uuid \<Rightarrow> uuid option" where
  "app_project d i = map_option a_project (by_id i (applications d))"

definition page_project :: "database \<Rightarrow> uuid \<Rightarrow> uuid option" where
  "page_project d i = map_option pg_project (by_id i (pages d))"

definition worker_project :: "database \<Rightarrow> uuid \<Rightarrow> uuid option" where
  "worker_project d i = map_option wk_project (by_id i (workers d))"

definition database_project :: "database \<Rightarrow> uuid \<Rightarrow> uuid option" where
  "database_project d i = map_option mdb_project (by_id i (managed_dbs d))"

definition cron_job_project :: "database \<Rightarrow> uuid \<Rightarrow> uuid option" where
  "cron_job_project d i = map_option cj_project (by_id i (cron_jobs d))"

definition deployment_project :: "database \<Rightarrow> uuid \<Rightarrow> uuid option" where
  "deployment_project d i = (case by_id i (deployments d) of None \<Rightarrow> None | Some x \<Rightarrow> app_project d (d_app x))"

definition domain_project :: "database \<Rightarrow> uuid \<Rightarrow> uuid option" where
  "domain_project d i = (case by_id i (domains d) of None \<Rightarrow> None | Some x \<Rightarrow> app_project d (dom_app x))"

interpretation app_guard: guarded_resource applications_get_by_id a_project app_project
  by unfold_locales (auto simp: applications_get_by_id_def query_row_Inr app_project_def)

interpretation page_guard: guarded_resource pages_get_by_id pg_project page_project
  by unfold_locales (auto simp: pages_get_by_id_def query_row_Inr page_project_def)

interpretation worker_guard: guarded_resource workers_get_by_id wk_project worker_project
  by unfold_locales (auto simp: workers_get_by_id_def query_row_Inr worker_project_def)

interpretation database_guard: guarded_resource managed_dbs_get_by_id mdb_project database_project
  by unfold_locales (auto simp: managed_dbs_get_by_id_def query_row_Inr database_project_def)

interpretation cron_guard: guarded_resource cron_jobs_get_by_id cj_project cron_job_project
  by unfold_locales (auto simp: cron_jobs_get_by_id_def query_row_Inr cron_job_project_def)

interpretation deployment_guard: guarded_resource
  "\<lambda>i. bind (deployments_get_by_id i) (\<lambda>x. applications_get_by_id (d_app x))" a_project deployment_project
  by unfold_locales
     (auto simp: deployments_get_by_id_def applications_get_by_id_def bind_Inr query_row_Inr deployment_project_def app_project_def)

interpretation domain_guard: guarded_resource
  "\<lambda>i. bind (domains_get_by_id i) (\<lambda>x. applications_get_by_id (dom_app x))" a_project domain_project
  by unfold_locales
     (auto simp: domains_get_by_id_def applications_get_by_id_def bind_Inr query_row_Inr domain_project_def app_project_def)

lemma guard_two_steps:
  assumes "guard_id L param bad (\<lambda>i. handle (f i) (\<lambda>_. err e1) (\<lambda>x. handle (g x) (\<lambda>_. err e2) k)) w = (Inr y, w')"
  shows "guard_id L param bad (\<lambda>i. handle (bind (f i) g) (\<lambda>_. err e2) k) w = (Inr y, w')"
  using assms by (auto simp: guard_id_def handle_cases bind_def split: option.splits)

section \<open>Properties\<close>

text \<open>The access decision, when it is reached, is the documented rule, and asking for it
  changes nothing: a user is given a project exactly when it is a live project of their own organisation
  and they are an admin or in its team.\<close>

theorem can_access_rule:
  assumes "can_access_project u r og i w = (Inr ok, w')"
  shows "db w' = db w \<and> (ok \<longleftrightarrow> (\<exists>pr. by_id i (projects (db w)) = Some pr \<and> p_org pr = og \<and>
    (r = role_admin \<or> p_team pr \<in> set (team_ids_of u (db w)))))"
  using can_access_Inr [of "\<lparr>pr_user = u, pr_org = og, pr_role = r\<rparr>"] assms
  by (simp add: accessible_def may_access_def)

definition demo_project :: "uuid \<Rightarrow> uuid \<Rightarrow> uuid \<Rightarrow> project" where
  "demo_project i og t = \<lparr>bm_id = i, bm_created = 0, bm_updated = 0, bm_deleted = None, p_org = og, p_team = t,
     p_team_row = None, p_name = [], p_namespace = [], p_description = [], p_environment = [], p_env = None,
     p_service_account = [], p_quota = None, p_netpol = False\<rparr>"

definition guard_db :: database where
  "guard_db = empty_database\<lparr>projects := [demo_project 5 1 0, demo_project 6 2 0]\<rparr>"

lemma can_access_rule_witness:
  "fst (can_access_project 7 role_admin 1 5 (world_of guard_db)) = Inr True \<and>
   fst (can_access_project 7 role_admin 1 6 (world_of guard_db)) = Inr False"
proof -
  have a: "can_access_project 7 role_admin 1 5 (world_of guard_db) = (Inr True, world_of guard_db)"
    and b: "can_access_project 7 role_admin 1 6 (world_of guard_db) = (Inr False, world_of guard_db)"
    by (simp_all add: can_access_project_def projects_get_by_id_def bind_def handle_def query_row_def statement_def
        guard_db_def by_id_Cons live_def demo_project_def attach_team_def uuid_nil_def project_after_scan_def
        is_privileged_def zero_quota_def)
  from can_access_rule [OF a] can_access_rule [OF b] a b show ?thesis by simp
qed

text \<open>C1 (guards_isolate): a request that any of the eight route guards lets through is for a resource that
  resolves, through its application where it has one, to a project its principal may access: no other
  organisation's resource and, for a member, no other team's.\<close>

theorem guards_isolate:
  assumes "(g, proj) \<in> {(guard_app, app_project), (guard_database, database_project), (guard_page, page_project),
      (guard_worker, worker_project), (guard_cron_job, cron_job_project), (guard_deployment, deployment_project),
      (guard_domain, domain_project), (guard_project, \<lambda>d i. Some i)}"
    and "g L p param w = (Inr (), w')"
  shows "\<exists>i pj pr. uuid_parse L param = Some i \<and> proj (db w) i = Some pj \<and> by_id pj (projects (db w)) = Some pr \<and>
    p_org pr = pr_org p \<and> (pr_role p = role_admin \<or> p_team pr \<in> set (team_ids_of (pr_user p) (db w))) \<and> db w' = db w"
proof -
  have "\<exists>i pj. uuid_parse L param = Some i \<and> proj (db w) i = Some pj \<and> accessible (db w) p pj \<and> db w' = db w"
    using assms
  proof (elim insertE)
    assume "(g, proj) = (guard_deployment, deployment_project)"
    with assms(2) show ?thesis
      by (auto simp: guard_deployment_def dest!: guard_two_steps deployment_guard.guard_passes)
  next
    assume "(g, proj) = (guard_domain, domain_project)"
    with assms(2) show ?thesis
      by (auto simp: guard_domain_def dest!: guard_two_steps domain_guard.guard_passes)
  next
    assume "(g, proj) = (guard_project, \<lambda>d i. Some i)"
    with assms(2) show ?thesis
      by (auto simp: guard_project_def guard_id_def split: option.splits dest!: check_project_Inr)
  qed (auto simp: guard_app_def guard_database_def guard_page_def guard_worker_def guard_cron_job_def dest!: app_guard.guard_passes
      database_guard.guard_passes page_guard.guard_passes worker_guard.guard_passes cron_guard.guard_passes)
  then show ?thesis by (auto simp: accessible_def may_access_def)
qed

lemma guards_isolate_witness:
  "\<exists>w'. guard_project demo_libs \<lparr>pr_user = 7, pr_org = 1, pr_role = role_admin\<rparr> (uuid_str demo_libs 5) (world_of guard_db)
      = (Inr (), w') \<and> db w' = guard_db"
proof -
  let ?p = "\<lparr>pr_user = 7, pr_org = 1, pr_role = role_admin\<rparr>"
  have "guard_project demo_libs ?p (uuid_str demo_libs 5) (world_of guard_db) = (Inr (), world_of guard_db)"
    using demo_uuid_ok
    by (simp add: guard_project_def guard_id_def uuid_ok_def check_project_def can_access_project_def projects_get_by_id_def
        bind_def handle_def query_row_def statement_def guard_db_def by_id_Cons live_def demo_project_def attach_team_def
        uuid_nil_def project_after_scan_def is_privileged_def zero_quota_def)
  with guards_isolate [of guard_project "\<lambda>d i. Some i", OF _ this] show ?thesis by auto
qed

text \<open>The list a member's overview pages are filtered by and the per-project decision
  agree: a live project is in the list exactly when it may be accessed.\<close>

theorem accessible_ids_agree:
  assumes "accessible_project_ids u r og w = (Inr (ids, isAll), w')" "can_access_project u r og i w1 = (Inr ok, w2)"
    and "db w1 = db w" "distinct_ids (projects (db w))"
  shows "if isAll then r = role_admin \<and> ids = None else (\<exists>l. ids = Some l \<and> (i \<in> set l \<longleftrightarrow> ok))"
proof -
  let ?p = "\<lparr>pr_user = u, pr_org = og, pr_role = r\<rparr>"
  have ok: "ok \<longleftrightarrow> accessible (db w) ?p i" using can_access_Inr [of ?p i w1 ok w2] assms(2,3) by simp
  show ?thesis
  proof (cases "r = role_admin")
    case True then show ?thesis using assms(1) by (auto simp: accessible_project_ids_def is_privileged_def)
  next
    case False
    have "i \<in> bm_id ` set (team_project_rows og (team_ids_of u (db w)) (db w)) \<longleftrightarrow> accessible (db w) ?p i"
      using False assms(4)
      by (auto simp: team_project_rows_def select_live_def accessible_def may_access_def by_id_Some_iff list_ex_iff)
    moreover have "team_ids_of u (db w) = [] \<Longrightarrow> \<not> accessible (db w) ?p i"
      using False by (auto simp: accessible_def may_access_def)
    ultimately show ?thesis using assms(1) False ok
      by (auto simp: accessible_project_ids_def is_privileged_def bind_Inr query_Inr
          team_members_list_team_ids_by_user_def projects_list_ids_by_teams_def split: if_splits)
  qed
qed

definition member_db :: database where
  "member_db = empty_database\<lparr>projects := [demo_project 5 1 3, demo_project 6 1 4],
     teams := [\<lparr>bm_id = 3, bm_created = 0, bm_updated = 0, bm_deleted = None, t_org = 1, t_name = [], t_description = []\<rparr>],
     team_members := [\<lparr>tm_id = 1, tm_team = 3, tm_user = 7, tm_created = 0\<rparr>]\<rparr>"

lemma accessible_ids_agree_witness:
  "\<exists>w' w2. accessible_project_ids 7 role_member 1 (world_of member_db) = (Inr (Some [5], False), w') \<and>
     can_access_project 7 role_member 1 5 (world_of member_db) = (Inr True, w2)"
proof -
  have a: "accessible_project_ids 7 role_member 1 (world_of member_db) = (Inr (Some [5], False), world_of member_db)"
    by (simp add: accessible_project_ids_def is_privileged_def bind_def handle_def query_def statement_def member_db_def
        team_members_list_team_ids_by_user_def projects_list_ids_by_teams_def team_ids_of_def team_project_rows_def
        select_live_def live_def demo_project_def)
  obtain ok w2 where c: "can_access_project 7 role_member 1 5 (world_of member_db) = (Inr ok, w2)"
    by (simp add: can_access_project_def projects_get_by_id_def bind_def handle_def query_row_def query_def statement_def
        member_db_def by_id_Cons live_def demo_project_def attach_team_def uuid_nil_def project_after_scan_def
        is_privileged_def zero_quota_def team_members_list_team_ids_by_user_def)
  have d: "distinct_ids (projects (db (world_of member_db)))"
    by (simp add: distinct_ids_def member_db_def demo_project_def)
  from accessible_ids_agree [OF a c refl d] have ok by simp
  then have "ok = True" by simp
  from c [unfolded this] a show ?thesis by blast
qed

end
