(* ===== verification/Auth_Service.thy ===== *)
theory Auth_Service imports Session_Validator begin

unbundle bit_operations_syntax

text \<open>
  \<open>service/auth_service.go\<close>: registration of the first user, password and OAuth login, the second factor,
  refresh, the profile and the operations that end every session of a user by raising the token version.
  The TOTP code is RFC 6238 over 8-byte counters, at the width of the source.
\<close>

section \<open>TOTP\<close>

definition be_bytes64 :: "64 word \<Rightarrow> 8 word list" where
  "be_bytes64 x = map (\<lambda>i. ucast (drop_bit (56 - 8 * i) x)) [0..<8]"

definition be_uint32 :: "8 word list \<Rightarrow> 32 word" where
  "be_uint32 bs = fold (\<lambda>b acc. push_bit 8 acc OR ucast b) (take 4 bs) 0"

definition totp_offset :: "8 word list \<Rightarrow> nat" where
  "totp_offset hash = unat (last hash AND 0x0f)"

definition generate_totp_code :: "libs \<Rightarrow> string \<Rightarrow> int \<Rightarrow> string" where
  "generate_totp_code L key counter =
     (let hash = hmac_sha1 L key (be_bytes64 (word_of_int counter));
          offset = totp_offset hash;
          truncated = be_uint32 (take 4 (drop offset hash)) AND 0x7fffffff in
      pad_left 6 CHR ''0'' (digits_of (unat (truncated mod 1000000))))"

definition verify_totp :: "libs \<Rightarrow> time \<Rightarrow> string \<Rightarrow> string \<Rightarrow> bool" where
  "verify_totp L t secret code =
     (case base32_decode L secret of
        None \<Rightarrow> False
      | Some key \<Rightarrow> let n = (t div second) div 30 in
          list_ex (\<lambda>offset. generate_totp_code L key (n + offset) = code) [-1, 0, 1])"

definition generate_totp_secret :: "libs \<Rightarrow> string io" where
  "generate_totp_secret L = bind (rand_bytes 20) (\<lambda>b. ret (base32_encode L b))"

section \<open>Sessions\<close>

record auth_result =
  ar_user :: "user option"
  ar_tokens :: "token_pair option"
  ar_requires_2fa :: bool
  ar_challenge :: string

definition issue_tokens :: "libs \<Rightarrow> jwt_manager \<Rightarrow> user \<Rightarrow> auth_result io" where
  "issue_tokens L m u = bind now (\<lambda>t.
     ret \<lparr>ar_user = Some u, ar_tokens = Some (generate_token_pair L m t (bm_id u) (u_org u) (u_role u) (u_token_version u)),
          ar_requires_2fa = False, ar_challenge = []\<rparr>)"

definition get_setup_status :: "bool io" where
  "get_setup_status = bind users_count (\<lambda>n. ret (n > 0))"

definition blank_user :: user where
  "blank_user = \<lparr>bm_id = uuid_nil, bm_created = 0, bm_updated = 0, bm_deleted = None, u_org = uuid_nil,
     u_email = [], u_password_hash = [], u_display_name = [], u_first_name = [], u_last_name = [], u_role = [],
     u_avatar = [], u_2fa_secret = [], u_2fa_enabled = False, u_token_version = 0, u_super_admin = False\<rparr>"

definition blank_organization :: organization where
  "blank_organization = \<lparr>bm_id = uuid_nil, bm_created = 0, bm_updated = 0, bm_deleted = None,
     org_name = [], org_description = []\<rparr>"

definition from_result :: "go_error + 'a \<Rightarrow> 'a io" where
  "from_result r = (case r of Inl e \<Rightarrow> err e | Inr x \<Rightarrow> ret x)"

text \<open>\<open>count, _ := Users().Count\<close>: a count that fails counts zero.\<close>

definition auth_register :: "libs \<Rightarrow> jwt_manager \<Rightarrow> string \<Rightarrow> string \<Rightarrow> string \<Rightarrow> string \<Rightarrow> auth_result io" where
  "auth_register L m email password displayName orgName =
     bind (handle users_count (\<lambda>_. ret 0) ret) (\<lambda>count.
       if count > 0 then err (ErrMsg (''registration is disabled '' @ em_dash @ '' use team invitation to join''))
       else handle (users_get_by_email email)
         (\<lambda>_. bind (from_result (bcrypt_hash L password)) (\<lambda>hash.
            bind (tx (bind (organizations_create (blank_organization\<lparr>org_name := orgName\<rparr>)) (\<lambda>og.
                users_create (blank_user\<lparr>u_email := email, u_password_hash := hash, u_display_name := displayName,
                   u_role := role_admin, u_super_admin := True, u_org := bm_id og\<rparr>))))
              (\<lambda>u. issue_tokens L m u)))
         (\<lambda>_. err (ErrMsg ''email already registered'')))"

definition setting_auth_google_only :: string where "setting_auth_google_only = ''auth_google_only''"
definition setting_oauth_allowed_domains :: string where "setting_oauth_allowed_domains = ''oauth_allowed_domains''"

definition check_password_login_allowed :: "user \<Rightarrow> unit io" where
  "check_password_login_allowed u =
     (if u_super_admin u then ret ()
      else bind (settings_get setting_auth_google_only) (\<lambda>g.
        if g = ''true'' then err (ErrMsg ''password sign-in is disabled; use Google'') else ret ()))"

definition auth_login :: "libs \<Rightarrow> jwt_manager \<Rightarrow> string \<Rightarrow> string \<Rightarrow> string \<Rightarrow> auth_result io" where
  "auth_login L m email password code =
     handle (users_get_by_email email) (\<lambda>_. err (ErrMsg ''invalid credentials'')) (\<lambda>u.
     seq (check_password_login_allowed u)
       (if \<not> bcrypt_check L (u_password_hash u) password then err (ErrMsg ''invalid credentials'')
        else if u_2fa_enabled u \<and> code = []
        then ret \<lparr>ar_user = None, ar_tokens = None, ar_requires_2fa = True, ar_challenge = []\<rparr>
        else bind now (\<lambda>t.
          if u_2fa_enabled u \<and> \<not> verify_totp L t (u_2fa_secret u) code
          then err (ErrMsg ''invalid two-factor authentication code'')
          else issue_tokens L m u)))"

text \<open>\<open>emailDomainAllowed\<close>: a comma-separated list, empty for no restriction.\<close>

definition email_domain_allowed :: "string \<Rightarrow> string \<Rightarrow> bool" where
  "email_domain_allowed email csv =
     (let csv = trim_space csv in
      if csv = [] then True
      else case split_on CHR ''@'' email of
         [_, d] \<Rightarrow> (let domain = to_lower (trim_space d) in
            list_ex (\<lambda>a. let a = to_lower (trim_space a) in a \<noteq> [] \<and> domain = a) (split_on CHR '','' csv))
       | _ \<Rightarrow> False)"

record oauth_identity =
  oi_subject :: string
  oi_email :: string
  oi_verified :: bool

definition login_with_oauth :: "libs \<Rightarrow> jwt_manager \<Rightarrow> string \<Rightarrow> oauth_identity \<Rightarrow> auth_result io" where
  "login_with_oauth L m provider identity =
     (if \<not> oi_verified identity then err (ErrMsg ''email_not_verified'')
      else bind (settings_get setting_oauth_allowed_domains) (\<lambda>allowed.
        if \<not> email_domain_allowed (oi_email identity) allowed then err (ErrMsg ''domain_not_allowed'')
        else bind
          (handle (identities_get_by_provider_subject provider (oi_subject identity))
            (\<lambda>_. handle (users_get_by_email (oi_email identity)) (\<lambda>_. err (ErrMsg ''no_account'')) (\<lambda>u.
               seq (identities_create \<lparr>bm_id = uuid_nil, bm_created = 0, bm_updated = 0, bm_deleted = None,
                      ui_user = bm_id u, ui_provider = provider, ui_subject = oi_subject identity,
                      ui_email = oi_email identity\<rparr>) (ret u)))
            (\<lambda>linked. handle (users_get_by_id (ui_user linked)) (\<lambda>_. err (ErrMsg ''no_account'')) ret))
          (\<lambda>u. if u_2fa_enabled u
               then bind (generate_oauth_2fa_challenge L m (bm_id u)) (\<lambda>c.
                 ret \<lparr>ar_user = None, ar_tokens = None, ar_requires_2fa = True, ar_challenge = c\<rparr>)
               else issue_tokens L m u)))"

definition invalid_code :: go_error where
  "invalid_code = ErrMsg ''invalid two-factor authentication code''"

definition invalid_challenge :: go_error where
  "invalid_challenge = ErrMsg ''invalid or expired OAuth challenge''"

definition complete_oauth_2fa :: "libs \<Rightarrow> jwt_manager \<Rightarrow> string \<Rightarrow> string \<Rightarrow> auth_result io" where
  "complete_oauth_2fa L m challenge code = bind now (\<lambda>t.
     case validate_oauth_2fa_challenge L m t challenge of
       Inl _ \<Rightarrow> err invalid_challenge
     | Inr (userID, jti, expiry) \<Rightarrow>
         handle (users_get_by_id userID) (\<lambda>_. err (ErrMsg ''user not found'')) (\<lambda>u.
           if \<not> u_2fa_enabled u then err (ErrMsg ''two-factor authentication is not enabled for this account'')
           else bind (oauth_challenges_consume jti (case expiry of None \<Rightarrow> 0 | Some e \<Rightarrow> e)) (\<lambda>fresh.
             if \<not> fresh then err invalid_challenge
             else if \<not> verify_totp L t (u_2fa_secret u) code then err invalid_code
             else issue_tokens L m u)))"

definition auth_refresh :: "libs \<Rightarrow> jwt_manager \<Rightarrow> string \<Rightarrow> auth_result io" where
  "auth_refresh L m tok = bind now (\<lambda>t.
     case validate_refresh_token L m t tok of
       Inl _ \<Rightarrow> err (ErrMsg ''invalid refresh token'')
     | Inr (userID, tokenVersion) \<Rightarrow>
         handle (users_get_by_id userID) (\<lambda>_. err (ErrMsg ''user not found'')) (\<lambda>u.
           if tokenVersion \<noteq> u_token_version u then err (ErrMsg (''session invalidated '' @ em_dash @ '' please log in again''))
           else issue_tokens L m u))"

section \<open>Profile and second factor\<close>

record profile_input =
  pi_first :: "string option"
  pi_last :: "string option"
  pi_display :: "string option"
  pi_avatar :: "string option"

definition opt_set :: "'a option \<Rightarrow> ('a \<Rightarrow> 'b \<Rightarrow> 'b) \<Rightarrow> 'b \<Rightarrow> 'b" where
  "opt_set x f b = (case x of None \<Rightarrow> b | Some a \<Rightarrow> f a b)"

definition apply_profile :: "profile_input \<Rightarrow> user \<Rightarrow> go_error + user" where
  "apply_profile i u =
     (let u = opt_set (pi_first i) (\<lambda>s u. u\<lparr>u_first_name := s\<rparr>) u;
          u = opt_set (pi_last i) (\<lambda>s u. u\<lparr>u_last_name := s\<rparr>) u in
      if (case pi_display i of None \<Rightarrow> False | Some s \<Rightarrow> trim_space s = [])
      then Inl (ErrMsg ''display name cannot be empty'')
      else (let u = opt_set (pi_display i) (\<lambda>s u. u\<lparr>u_display_name := s\<rparr>) u in
        if (case pi_avatar i of None \<Rightarrow> False | Some s \<Rightarrow> s \<noteq> [] \<and> \<not> is_valid_avatar s)
        then Inl (ErrMsg ''invalid avatar selection'')
        else Inr (opt_set (pi_avatar i) (\<lambda>s u. u\<lparr>u_avatar := s\<rparr>) u)))"

definition update_profile :: "uuid \<Rightarrow> profile_input \<Rightarrow> user io" where
  "update_profile userID i =
     handle (users_get_by_id userID) (\<lambda>_. err (ErrMsg ''user not found'')) (\<lambda>u.
       case apply_profile i u of
         Inl e \<Rightarrow> err e
       | Inr u' \<Rightarrow> seq (users_update_row u') (ret u'))"

definition change_password :: "libs \<Rightarrow> uuid \<Rightarrow> string \<Rightarrow> string \<Rightarrow> unit io" where
  "change_password L userID current new =
     handle (users_get_by_id userID) (\<lambda>_. err (ErrMsg ''user not found'')) (\<lambda>u.
       if \<not> bcrypt_check L (u_password_hash u) current then err (ErrMsg ''current password is incorrect'')
       else bind (from_result (bcrypt_hash L new)) (\<lambda>hash.
         tx (seq (users_update_password userID hash) (users_bump_token_version userID))))"

definition setup_2fa :: "libs \<Rightarrow> uuid \<Rightarrow> string io" where
  "setup_2fa L userID =
     handle (users_get_by_id userID) (\<lambda>_. err (ErrMsg ''user not found'')) (\<lambda>u.
       if u_2fa_enabled u then err (ErrMsg ''2FA is already enabled'')
       else bind (generate_totp_secret L) (\<lambda>secret.
         seq (users_update_row (u\<lparr>u_2fa_secret := secret\<rparr>)) (ret secret)))"

definition verify_2fa :: "libs \<Rightarrow> uuid \<Rightarrow> string \<Rightarrow> unit io" where
  "verify_2fa L userID code =
     handle (users_get_by_id userID) (\<lambda>_. err (ErrMsg ''user not found'')) (\<lambda>u.
       if u_2fa_secret u = [] then err (ErrMsg ''2FA has not been set up; call setup first'')
       else bind now (\<lambda>t.
         if \<not> verify_totp L t (u_2fa_secret u) code then err (ErrMsg ''invalid 2FA code'')
         else tx (seq (users_update_2fa userID True (u_2fa_secret u)) (users_bump_token_version userID))))"

definition disable_2fa :: "libs \<Rightarrow> uuid \<Rightarrow> string \<Rightarrow> unit io" where
  "disable_2fa L userID code =
     handle (users_get_by_id userID) (\<lambda>_. err (ErrMsg ''user not found'')) (\<lambda>u.
       if \<not> u_2fa_enabled u then err (ErrMsg ''2FA is not enabled'')
       else bind now (\<lambda>t.
         if \<not> verify_totp L t (u_2fa_secret u) code then err (ErrMsg ''invalid 2FA code'')
         else tx (seq (users_update_2fa userID False []) (users_bump_token_version userID))))"

definition auth_logout :: "uuid \<Rightarrow> unit io" where
  "auth_logout userID = users_bump_token_version userID"


section \<open>Lemmas\<close>

lemma users_get_Inr [go_io]:
  "users_get_by_id i w = (Inr u, w') \<longleftrightarrow> \<not> fault_now w \<and> by_id i (users (db w)) = Some u \<and> w' = next_fault w"
  by (simp add: users_get_by_id_def query_row_Inr)

lemma users_get_by_email_Inr [go_io]:
  "users_get_by_email e w = (Inr u, w') \<longleftrightarrow>
     \<not> fault_now w \<and> find_live (\<lambda>u. u_email u = e) (users (db w)) = Some u \<and> w' = next_fault w"
  by (simp add: users_get_by_email_def query_row_Inr)

lemma issue_tokens_Inr [go_io]:
  "issue_tokens L m u w = (Inr r, w') \<longleftrightarrow> w' = w \<and>
     r = \<lparr>ar_user = Some u, ar_tokens = Some (generate_token_pair L m (clock w) (bm_id u) (u_org u) (u_role u) (u_token_version u)),
          ar_requires_2fa = False, ar_challenge = []\<rparr>"
  by (auto simp: issue_tokens_def bind_def handle_def)

lemma from_result_Inr [go_io]: "from_result r w = (Inr x, w') \<longleftrightarrow> r = Inr x \<and> w' = w"
  by (auto simp: from_result_def split: sum.splits)

lemma users_set_Inr [go_io]:
  "users_set i f w = (Inr x, w') \<longleftrightarrow>
     \<not> fault_now w \<and> w' = (next_fault w)\<lparr>db := users_update (update_live (\<lambda>u. bm_id u = i) f) (db w)\<rparr>"
  by (simp add: users_set_def exec_Inr)

lemma bump_version_simps [simp]:
  "bm_id (bump_version u) = bm_id u" "live (bump_version u) = live u"
  "u_token_version (bump_version u) = u_token_version u + 1" "u_role (bump_version u) = u_role u"
  "u_org (bump_version u) = u_org u" "bm_deleted (bump_version u) = bm_deleted u"
  by (simp_all add: bump_version_def live_def)

text \<open>Session-ending actions: on success the version of the user is one higher, on failure nothing changed.\<close>

definition ends_sessions :: "uuid \<Rightarrow> unit io \<Rightarrow> bool" where
  "ends_sessions u m \<longleftrightarrow> all_or_nothing m \<and> (\<forall>w x w' n. m w = (Inr x, w') \<longrightarrow> distinct_ids (users (db w)) \<longrightarrow>
     db_version u (db w) = Some n \<longrightarrow> db_version u (db w') = Some (n + 1))"

lemma ends_err: "ends_sessions u (err e)"
  by (simp add: ends_sessions_def aon_reads reads_err)

lemma ends_if: "ends_sessions u m \<Longrightarrow> ends_sessions u n \<Longrightarrow> ends_sessions u (if b then m else n)"
  by simp

lemma ends_handle:
  "reads m \<Longrightarrow> (\<And>e. ends_sessions u (h e)) \<Longrightarrow> (\<And>x. ends_sessions u (k x)) \<Longrightarrow> ends_sessions u (handle m h k)"
  unfolding ends_sessions_def by (auto simp: handle_cases intro!: aon_handle dest: readsD)

lemma ends_bind: "reads m \<Longrightarrow> (\<And>x. ends_sessions u (k x)) \<Longrightarrow> ends_sessions u (bind m k)"
  unfolding bind_def by (intro ends_handle ends_err)

lemma ends_bump: "ends_sessions u (users_bump_token_version u)"
  by (auto simp: ends_sessions_def users_bump_token_version_def users_set_def aon_exec exec_Inr db_version_def by_id_update_id)

lemma ends_tx_bump:
  assumes "\<And>x. bm_id (f x) = bm_id x" "\<And>x. live x \<Longrightarrow> live (f x)" "\<And>x. u_token_version (f x) = u_token_version x"
  shows "ends_sessions u (tx (seq (users_set u f) (users_bump_token_version u)))"
proof -
  have "db_version u (db w') = Some (n + 1)"
    if h: "tx (seq (users_set u f) (users_bump_token_version u)) w = (Inr x, w')" "distinct_ids (users (db w))"
      "db_version u (db w) = Some n" for w x w' n
  proof -
    obtain w1 w2 where w: "users_set u f w = (Inr (), w1)" "users_bump_token_version u w1 = (Inr x, w2)" "w' = next_fault w2"
      using h(1) by (auto simp: tx_Inr seq_Inr)
    then have d: "users (db w1) = update_live (\<lambda>x. bm_id x = u) f (users (db w))" by (auto simp: users_set_Inr)
    have "distinct_ids (users (db w1))" using assms(1) h(2) by (simp add: d distinct_ids_update_live)
    moreover have "db_version u (db w1) = Some n"
      using assms h(2,3) by (auto simp: d db_version_def by_id_update_id)
    ultimately show ?thesis using ends_bump [of u] w by (auto simp: ends_sessions_def)
  qed
  then show ?thesis by (simp add: ends_sessions_def aon_tx)
qed

lemma reads_user [reads_intros]: "reads (users_get_by_id i)" "reads (users_get_by_email e)" "reads users_count"
  "reads (settings_get k)"
  unfolding users_get_by_id_def users_get_by_email_def users_count_def settings_get_def by (intro reads_intros)+

lemma reads_from_result [reads_intros]: "reads (from_result r)"
  by (cases r) (simp_all add: from_result_def reads_intros)

lemma session_enders:
  "ends_sessions u (change_password L u pw new)" "ends_sessions u (verify_2fa L u code)"
  "ends_sessions u (disable_2fa L u code)" "ends_sessions u (auth_logout u)"
  unfolding change_password_def verify_2fa_def disable_2fa_def auth_logout_def users_update_password_def users_update_2fa_def
  by (intro ends_handle ends_bind ends_if ends_err ends_tx_bump ends_bump reads_intros; simp add: live_def)+

section \<open>Properties\<close>

text \<open>The dynamic truncation never slices past the 20 bytes of the HMAC, and every code is
  exactly six decimal digits, at any counter.\<close>

theorem totp_code_format:
  assumes "hmac_sha1_ok L"
  shows "totp_offset (hmac_sha1 L key (be_bytes64 (word_of_int c))) + 4 \<le> length (hmac_sha1 L key (be_bytes64 (word_of_int c))) \<and>
    length (generate_totp_code L key c) = 6 \<and> list_all is_digit_char (generate_totp_code L key c)"
proof -
  have o: "totp_offset h \<le> 15" for h
  proof -
    have "last h AND 0x0f \<le> (0x0f :: 8 word)" by (rule word_and_le1)
    then have "unat (last h AND 0x0f) \<le> unat (0x0f :: 8 word)" by (simp only: word_le_nat_alt)
    then show ?thesis by (simp add: totp_offset_def)
  qed
  have "unat (x mod 1000000 :: 32 word) < 10 ^ Suc 5" for x
    by (simp add: unat_mod)
  then have l: "length (digits_of (unat (x mod 1000000 :: 32 word))) \<le> 6" for x
    using length_digits_of [of "unat (x mod 1000000 :: 32 word)" 5] by simp
  show ?thesis
    using assms o [of "hmac_sha1 L key (be_bytes64 (word_of_int c))"] l digits_of_digits
    by (auto simp: hmac_sha1_ok_def generate_totp_code_def Let_def pad_left_def list_all_iff is_digit_char_def char_in_def)
qed

lemma totp_code_format_witness: "length (generate_totp_code demo_libs ''k'' 5) = 6"
  using totp_code_format [OF demo_hmac_sha1_ok, of "''k''" 5] by simp

text \<open>C37 (login_sound): a password login that is not refused is for the live account with that address and a matching password,
  a super admin's where only Google may sign in.  It carries tokens only when the second factor is off or its code was right:
  tokens for that account at its current version, with the account's row and no challenge.  Otherwise the answer is nothing but the
  request for a code: no tokens, no row of the account and no challenge.\<close>

theorem login_sound:
  assumes "auth_login L m email password code w = (Inr r, w')"
  shows "\<exists>u. find_live (\<lambda>u. u_email u = email) (users (db w)) = Some u \<and> bcrypt_check L (u_password_hash u) password \<and>
    db w' = db w \<and> (u_super_admin u \<or> settings_lookup ''auth_google_only'' (settings (db w)) \<noteq> ''true'') \<and>
    (case ar_tokens r of
       None \<Rightarrow> u_2fa_enabled u \<and> code = [] \<and>
         r = \<lparr>ar_user = None, ar_tokens = None, ar_requires_2fa = True, ar_challenge = []\<rparr>
     | Some tp \<Rightarrow> tp = generate_token_pair L m (clock w) (bm_id u) (u_org u) (u_role u) (u_token_version u) \<and>
         (u_2fa_enabled u \<longrightarrow> verify_totp L (clock w) (u_2fa_secret u) code) \<and>
         r = \<lparr>ar_user = Some u, ar_tokens = Some tp, ar_requires_2fa = False, ar_challenge = []\<rparr>)"
  using assms
  by (auto simp: auth_login_def handle_cases seq_Inr users_get_by_email_Inr check_password_login_allowed_def bind_Inr
      settings_get_def query_Inr issue_tokens_Inr setting_auth_google_only_def split: if_splits)

definition login_db :: database where
  "login_db = empty_database\<lparr>users := [(demo_user 7 1 role_admin 3)\<lparr>u_password_hash := ''$pw''\<rparr>],
     settings := []\<rparr>"

lemma login_sound_witness:
  "\<exists>r w'. auth_login demo_libs \<lparr>jm_secret = ''k'', jm_expiry = hour, jm_refresh = hour\<rparr> ''a@b'' ''pw'' [] (world_of login_db)
      = (Inr r, w') \<and> bcrypt_check demo_libs ''$pw'' ''pw'' \<and> db w' = login_db"
proof -
  obtain r w' where l: "auth_login demo_libs \<lparr>jm_secret = ''k'', jm_expiry = hour, jm_refresh = hour\<rparr> ''a@b'' ''pw'' []
      (world_of login_db) = (Inr r, w')"
    by (simp add: auth_login_def handle_def users_get_by_email_def query_row_def statement_def login_db_def find_live_def
        live_def demo_user_def seq_def bind_def check_password_login_allowed_def settings_get_def query_def
        settings_lookup_def demo_libs_def issue_tokens_def)
  from login_sound [OF l] have "bcrypt_check demo_libs ''$pw'' ''pw''" "db w' = login_db"
    by (auto simp: login_db_def find_live_def live_def demo_user_def)
  with l show ?thesis by blast
qed

text \<open>C7 (session_end_atomic): changing the password, switching the second factor on or off and logging out end
  every session: on success the version is one higher, so no token issued before matches, and on any
  error, a failed commit included, the database is as it was.\<close>

theorem session_end_atomic:
  assumes "op \<in> {change_password L u pw new, verify_2fa L u code, disable_2fa L u code, auth_logout u}"
    and "op w = (r, w')" "distinct_ids (users (db w))" "db_version u (db w) = Some n"
  shows "case r of Inl e \<Rightarrow> db w' = db w | Inr _ \<Rightarrow> db_version u (db w') = Some (n + 1)"
proof -
  have "ends_sessions u op" using assms(1) session_enders by auto
  then show ?thesis
    using assms(2-4) by (cases r) (auto simp: ends_sessions_def all_or_nothing_def)
qed

lemma session_end_atomic_witness:
  "\<exists>w'. auth_logout 7 (world_of (one_user_db 3)) = (Inr (), w') \<and> db_version 7 (db w') = Some 4"
proof -
  obtain w' where l: "auth_logout 7 (world_of (one_user_db 3)) = (Inr (), w')"
    by (simp add: auth_logout_def users_bump_token_version_def users_set_def exec_def statement_def)
  have "distinct_ids (users (db (world_of (one_user_db 3))))" by (simp add: one_user_db_def distinct_ids_def)
  from session_end_atomic [of "auth_logout 7" demo_libs 7 "[]" "[]" "[]", OF _ l this, of 3] l show ?thesis by auto
qed

text \<open>A refresh token is honoured only while its version is the one in the database:
  after any operation that raised the version it buys nothing, whatever the clock says.\<close>

theorem refresh_current_only:
  assumes "jwt_ok L" "uuid_ok L"
    and "auth_refresh L m (tp_refresh (generate_token_pair L m t u og r tv)) w = (Inr res, w')"
  shows "db_version u (db w) = Some tv \<and> clock w < ((t + jm_refresh m) div second) * second \<and> db w' = db w \<and>
    (\<exists>usr. ar_user res = Some usr \<and> bm_id usr = u \<and>
       ar_tokens res = Some (generate_token_pair L m (clock w) u (u_org usr) (u_role usr) tv))"
proof -
  have v: "validate_refresh_token L m (clock w) (tp_refresh (generate_token_pair L m t u og r tv)) =
      (if clock w < ((t + jm_refresh m) div second) * second then Inr (u, tv) else Inl ErrInvalidToken)"
    using assms(1,2)
    by (simp add: validate_refresh_token_def generate_token_pair_def parse_into_sign refresh_claims_def json_defs uuid_ok_def)
  show ?thesis
    using assms(3)
    by (auto simp: auth_refresh_def bind_Inr v handle_cases users_get_Inr issue_tokens_Inr db_version_def
        split: if_splits dest: by_id_key)
qed

lemma refresh_current_only_witness:
  "\<exists>res w'. auth_refresh demo_libs \<lparr>jm_secret = ''k'', jm_expiry = hour, jm_refresh = hour\<rparr>
     (tp_refresh (generate_token_pair demo_libs \<lparr>jm_secret = ''k'', jm_expiry = hour, jm_refresh = hour\<rparr> 0 7 1 role_admin 3))
     (world_of (one_user_db 3)) = (Inr res, w') \<and> db w' = one_user_db 3"
proof -
  let ?m = "\<lparr>jm_secret = ''k'', jm_expiry = hour, jm_refresh = hour\<rparr>"
  have v: "validate_refresh_token demo_libs ?m 1000 (tp_refresh (generate_token_pair demo_libs ?m 0 7 1 role_admin 3)) = Inr (7, 3)"
    using demo_jwt_ok demo_uuid_ok
    by (simp add: validate_refresh_token_def generate_token_pair_def parse_into_sign refresh_claims_def json_defs
        uuid_ok_def hour_def minute_def second_def)
  have u: "by_id 7 (users (one_user_db 3)) = Some (demo_user 7 1 role_admin 3)"
    by (simp add: one_user_db_def by_id_Cons live_def demo_user_def)
  have "u_token_version (demo_user 7 1 role_admin 3) = 3" by (simp add: demo_user_def)
  then obtain res w' where r: "auth_refresh demo_libs ?m (tp_refresh (generate_token_pair demo_libs ?m 0 7 1 role_admin 3))
      (world_of (one_user_db 3)) = (Inr res, w')"
    using u by (simp add: auth_refresh_def bind_def handle_def v users_get_eval issue_tokens_def)
  from refresh_current_only [OF demo_jwt_ok demo_uuid_ok r] r show ?thesis by auto
qed

text \<open>Spending a challenge: the identifier is on record, and pruning only forgets identifiers whose time is past.\<close>

definition spent :: "string \<Rightarrow> time \<Rightarrow> database \<Rightarrow> bool" where
  "spent jti ex d \<longleftrightarrow> \<lparr>uc_jti = jti, uc_expires = ex\<rparr> \<in> set (used_challenges d)"

lemma consume_not_fresh:
  assumes "oauth_challenges_consume jti ex w = (Inr fresh, w')" "spent jti ex' (db w)"
  shows "\<not> fresh"
proof -
  have "list_ex (\<lambda>c. uc_jti c = jti) (used_challenges (db w))"
    using assms(2) by (force simp: spent_def list_ex_iff)
  with assms(1) show ?thesis
    by (auto simp: oauth_challenges_consume_def bind_Inr seq_Inr statement_def split: if_splits)
qed

lemma consume_spends:
  assumes "oauth_challenges_consume jti ex w = (Inr True, w')" "clock w \<le> ex"
  shows "spent jti ex (db w')"
proof -
  let ?row = "\<lparr>uc_jti = jti, uc_expires = ex\<rparr>"
  let ?prune = "exec (used_challenges_update (filter (\<lambda>c. \<not> uc_expires c < clock w)))"
  let ?w1 = "(next_fault w)\<lparr>db := used_challenges_update (\<lambda>cs. cs @ [?row]) (db w)\<rparr>"
  have w': "w' = snd (attempt ?prune ?w1)"
    using assms(1)
    by (auto simp: oauth_challenges_consume_def bind_Inr seq_Inr statement_def attempt_eval split: if_splits)
  have "spent jti ex (db ?w1)" by (simp add: spent_def)
  moreover have "db (snd (attempt ?prune ?w1)) = db (snd (?prune ?w1))"
    by (auto simp: attempt_def handle_def split: prod.splits sum.splits)
  ultimately show ?thesis using assms(2) by (simp add: w' exec_db spent_def)
qed

lemma challenge_validates:
  assumes "jwt_ok L" "uuid_ok L" "u \<noteq> uuid_nil"
  shows "validate_oauth_2fa_challenge L m t' (jwt_sign L (jm_secret m) (challenge_claims L t jti u)) =
    (if t' < ((t + oauth_2fa_expiry) div second) * second
     then Inr (u, jti, Some (((t + oauth_2fa_expiry) div second) * second)) else Inl ErrTokenExpired)"
  using assms
  by (simp add: validate_oauth_2fa_challenge_def parse_into_sign challenge_claims_def json_defs uuid_ok_def)

text \<open>C6 (challenge_single_guess): a 2FA challenge allows one guess.  Once an attempt got as far as the code,
  right or wrong, no later attempt with that challenge succeeds, at any later time, as long as other
  requests only ever drop rows from the table of spent challenges that have expired.\<close>

theorem challenge_single_guess:
  assumes "jwt_ok L" "uuid_ok L" "u \<noteq> uuid_nil"
    and "ch = jwt_sign L (jm_secret m) (challenge_claims L t jti u)"
    and "complete_oauth_2fa L m ch code w = (res, w1)" "res = Inl invalid_code \<or> (\<exists>r. res = Inr r)"
    and "\<forall>c \<in> set (used_challenges (db w1)). clock w2 \<le> uc_expires c \<longrightarrow> c \<in> set (used_challenges (db w2))"
  shows "\<nexists>r w3. complete_oauth_2fa L m ch code' w2 = (Inr r, w3)"
proof
  let ?ex = "((t + oauth_2fa_expiry) div second) * second"
  note val = challenge_validates [OF assms(1-3), of m _ t jti, folded assms(4)]
  have ic: "invalid_code \<noteq> invalid_challenge" "invalid_code \<noteq> ErrIO"
    "invalid_code \<noteq> ErrMsg ''user not found''"
    "invalid_code \<noteq> ErrMsg ''two-factor authentication is not enabled for this account''"
    by (simp_all add: invalid_code_def invalid_challenge_def)
  have fails: "oauth_challenges_consume jti ?ex w0 = (Inl e, w') \<Longrightarrow> e = ErrIO" for w0 e w'
    by (auto simp: oauth_challenges_consume_def bind_Inl seq_def statement_def now_def attempt_def handle_def bind_def
        split: if_splits prod.splits sum.splits)
  from assms(5,6) obtain wc wd where early: "clock w < ?ex"
    and c: "oauth_challenges_consume jti ?ex wc = (Inr True, wd)" "clock wc = clock w" "db w1 = db wd"
    using ic
    by (auto simp: complete_oauth_2fa_def bind_def handle_def val now_def users_get_eval issue_tokens_def gets_def
        split: if_splits prod.splits sum.splits option.splits dest!: fails)
  have "spent jti ?ex (db wd)" using consume_spends [OF c(1)] early c(2) by simp
  then have s: "clock w2 \<le> ?ex \<Longrightarrow> spent jti ?ex (db w2)" using assms(7) c(3) by (auto simp: spent_def)
  assume "\<exists>r w3. complete_oauth_2fa L m ch code' w2 = (Inr r, w3)"
  then obtain wa wb where "clock w2 < ?ex" "oauth_challenges_consume jti ?ex wa = (Inr True, wb)" "db wa = db w2"
    by (auto simp: complete_oauth_2fa_def bind_Inr val handle_cases users_get_Inr split: if_splits)
  with s consume_not_fresh [of jti ?ex wa True wb ?ex] show False by simp
qed

definition twofa_db :: database where
  "twofa_db = empty_database\<lparr>users := [(demo_user 7 1 role_admin 3)\<lparr>u_2fa_secret := ''s'', u_2fa_enabled := True\<rparr>]\<rparr>"

lemma challenge_single_guess_witness:
  "\<exists>w1. complete_oauth_2fa demo_libs \<lparr>jm_secret = ''k'', jm_expiry = hour, jm_refresh = hour\<rparr>
       (jwt_sign demo_libs ''k'' (challenge_claims demo_libs 0 ''j'' 7)) [] (world_of twofa_db) = (Inl invalid_code, w1) \<and>
     (\<nexists>r w3. complete_oauth_2fa demo_libs \<lparr>jm_secret = ''k'', jm_expiry = hour, jm_refresh = hour\<rparr>
       (jwt_sign demo_libs ''k'' (challenge_claims demo_libs 0 ''j'' 7)) ''123456'' w1 = (Inr r, w3))"
proof -
  let ?m = "\<lparr>jm_secret = ''k'', jm_expiry = hour, jm_refresh = hour\<rparr>"
  let ?ch = "jwt_sign demo_libs ''k'' (challenge_claims demo_libs 0 ''j'' 7)"
  have n: "(7 :: uuid) \<noteq> uuid_nil" by (simp add: uuid_nil_def)
  have v: "validate_oauth_2fa_challenge demo_libs ?m 1000 ?ch = Inr (7, ''j'', Some (5 * minute))"
    using challenge_validates [OF demo_jwt_ok demo_uuid_ok n, of ?m 1000 0 "''j''"]
    by (simp add: oauth_2fa_expiry_def minute_def second_def)
  have nv: "\<not> verify_totp demo_libs t s []" for t s
    by (auto simp: verify_totp_def generate_totp_code_def Let_def pad_left_def split: option.splits)
  obtain w1 where c: "complete_oauth_2fa demo_libs ?m ?ch [] (world_of twofa_db) = (Inl invalid_code, w1)"
    using nv by (simp add: complete_oauth_2fa_def bind_def handle_def v users_get_eval twofa_db_def by_id_Cons live_def
        demo_user_def oauth_challenges_consume_def statement_def empty_database_def seq_def attempt_def exec_def now_def)
  have ch: "?ch = jwt_sign demo_libs (jm_secret ?m) (challenge_claims demo_libs 0 ''j'' 7)" by simp
  from challenge_single_guess [OF demo_jwt_ok demo_uuid_ok n ch c, of w1 "''123456''"] c show ?thesis by auto
qed

text \<open>Registration goes through only while no account exists, or when counting the
  accounts failed: the error of that query is dropped, and the new account is a super admin of a new
  organisation either way.\<close>

theorem register_needs_empty:
  assumes "auth_register L m email pw name og w = (Inr r, w')"
  shows "(fault_now w \<or> select_live (\<lambda>_. True) (users (db w)) = []) \<and>
    (\<exists>u. ar_user r = Some u \<and> u_super_admin u \<and> u_role u = role_admin \<and> u_email u = email \<and>
       by_id (bm_id u) (users (db w')) = Some u)"
proof -
  have count: "users_count w = (if fault_now w then Inl ErrIO else Inr (length (select_live (\<lambda>_. True) (users (db w)))), next_fault w)"
    by (auto simp: users_count_def query_def statement_def next_fault_def)
  from assms obtain h w1 o' w2 u w3 where
    c: "fault_now w \<or> select_live (\<lambda>_. True) (users (db w)) = []" and
    u: "users_create (blank_user\<lparr>u_email := email, u_password_hash := h, u_display_name := name,
        u_role := role_admin, u_super_admin := True, u_org := o'\<rparr>) w2 = (Inr u, w3)" and
    r: "ar_user r = Some u" "w' = next_fault w3"
    by (auto simp: auth_register_def bind_Inr handle_cases count tx_Inr issue_tokens_Inr split: if_splits)
  from u have i: "insert_row (unique_live u_email) users users_update (blank_user\<lparr>u_email := email,
      u_password_hash := h, u_display_name := name, u_role := role_admin, u_super_admin := True, u_org := o'\<rparr>) w2 = (Inr u, w3)"
    by (simp add: users_create_def or_default_def blank_user_def)
  then have f: "u = fill_defaults w2 (blank_user\<lparr>u_email := email, u_password_hash := h, u_display_name := name,
        u_role := role_admin, u_super_admin := True, u_org := o'\<rparr>)"
    and n: "bm_id u \<notin> set (map bm_id (users (db w2)))" and d: "users (db w3) = append_row u (users (db w2))"
    unfolding insert_row_Inr by (blast, metis, auto)
  have "live u" by (simp add: f fill_defaults_def live_def)
  with n d r(2) have "by_id (bm_id u) (users (db w')) = Some u" by (simp add: by_id_append_row del: set_map)
  moreover have "u_super_admin u \<and> u_role u = role_admin \<and> u_email u = email" by (simp add: f fill_defaults_def)
  ultimately show ?thesis using c r(1) by blast
qed

lemma register_needs_empty_witness:
  "\<exists>r w'. auth_register demo_libs \<lparr>jm_secret = ''k'', jm_expiry = hour, jm_refresh = hour\<rparr> ''x@y'' ''pw'' ''n'' ''org''
      ((world_of (one_user_db 3))\<lparr>faults := [True]\<rparr>) = (Inr r, w') \<and> (\<exists>u. ar_user r = Some u \<and> u_super_admin u)"
proof -
  obtain r w' where c: "auth_register demo_libs \<lparr>jm_secret = ''k'', jm_expiry = hour, jm_refresh = hour\<rparr> ''x@y'' ''pw'' ''n'' ''org''
      ((world_of (one_user_db 3))\<lparr>faults := [True]\<rparr>) = (Inr r, w')"
    by (simp add: auth_register_def bind_def handle_def users_count_def query_def statement_def fault_now_def next_fault_def
        world_of_def users_get_by_email_def query_row_def one_user_db_def find_live_def live_def demo_user_def from_result_def
        demo_libs_def tx_def organizations_create_def users_create_def insert_row_def Let_def fill_defaults_def empty_database_def
        unique_all_def unique_live_def blank_user_def blank_organization_def uuid_nil_def issue_tokens_def)
  from register_needs_empty [OF c] c show ?thesis by blast
qed

text \<open>The profile update writes back the whole row it read.  If a demotion
  of that user commits between its read and its write, the write restores the old role and the old token
  version: the demoted user is an admin again and the revoked sessions are valid again.\<close>

theorem profile_write_undoes_revocation:
  assumes "by_id i (users (db w)) = Some u" "distinct_ids (users (db w))"
    and "apply_profile inp u = Inr u'" "users_update_role i role_member w = (Inr (), w1)"
    and "users_update_row u' w1 = (Inr (), w2)"
  shows "db_version i (db w1) = Some (u_token_version u + 1) \<and>
    map_option u_role (by_id i (users (db w1))) = Some role_member \<and>
    db_version i (db w2) = Some (u_token_version u) \<and>
    map_option u_role (by_id i (users (db w2))) = Some (u_role u)"
proof -
  have k: "bm_id u' = bm_id u" "bm_deleted u' = bm_deleted u" "u_token_version u' = u_token_version u" "u_role u' = u_role u"
    using assms(3) by (auto simp: apply_profile_def Let_def opt_set_def split: option.splits if_splits)
  have u: "bm_id u = i" "bm_deleted u = None" using assms(1) by (auto dest: by_id_key by_id_live)
  have d1: "users (db w1) = update_live (\<lambda>x. bm_id x = i) (\<lambda>x. bump_version (x\<lparr>u_role := role_member\<rparr>)) (users (db w))"
    using assms(4) by (simp add: users_update_role_def users_set_Inr)
  have b1: "by_id i (users (db w1)) = Some (bump_version (u\<lparr>u_role := role_member\<rparr>))"
    unfolding d1 using assms(1,2)
    by (subst by_id_update_id [where f = "\<lambda>x. bump_version (x\<lparr>u_role := role_member\<rparr>)"]) (simp_all add: live_def)
  have dist: "distinct_ids (users (db w1))" using assms(2) by (simp add: d1 distinct_ids_update_live)
  have d2: "users (db w2) = replace_pk u' (users (db w1))"
    using assms(5) by (simp add: users_update_row_def update_row_Inr)
  have b2: "by_id i (users (db w2)) = Some u'"
    unfolding d2 using rows.read_modify_write(1) [OF dist b1, of u'] k u by (simp add: live_def)
  show ?thesis using b1 b2 k by (simp add: db_version_def)
qed

lemma profile_write_undoes_revocation_witness:
  "\<exists>u' w1 w2. apply_profile \<lparr>pi_first = Some ''x'', pi_last = None, pi_display = None, pi_avatar = None\<rparr>
      (demo_user 7 1 role_admin 3) = Inr u' \<and> users_update_role 7 role_member (world_of (one_user_db 3)) = (Inr (), w1) \<and>
    users_update_row u' w1 = (Inr (), w2) \<and> db_version 7 (db w2) = Some 3"
proof -
  let ?w = "world_of (one_user_db 3)"
  have u: "by_id 7 (users (db ?w)) = Some (demo_user 7 1 role_admin 3)"
    by (simp add: one_user_db_def by_id_Cons live_def demo_user_def)
  have d: "distinct_ids (users (db ?w))" by (simp add: one_user_db_def distinct_ids_def)
  obtain u' where a: "apply_profile \<lparr>pi_first = Some ''x'', pi_last = None, pi_display = None, pi_avatar = None\<rparr>
      (demo_user 7 1 role_admin 3) = Inr u'" by (simp add: apply_profile_def opt_set_def Let_def)
  obtain w1 where b: "users_update_role 7 role_member ?w = (Inr (), w1)" and f: "faults w1 = []"
    by (simp add: users_update_role_def users_set_def exec_def statement_def)
  have o: "users (db w1) = [bump_version (demo_user 7 1 role_member 3)]"
    using b by (auto simp: users_update_role_def users_set_Inr one_user_db_def update_live_def live_def demo_user_def)
  have i: "bm_id u' = 7" using a by (auto simp: apply_profile_def opt_set_def Let_def demo_user_def)
  obtain w2 where c: "users_update_row u' w1 = (Inr (), w2)"
    using f o i by (simp add: users_update_row_def update_row_def statement_def unique_live_def demo_user_def bump_version_def)
  from profile_write_undoes_revocation [OF u d a b c] a b c show ?thesis by (auto simp: demo_user_def)
qed

end
