(* ===== verification/Team_Service.thy ===== *)
theory Team_Service imports Auth_Service begin

text \<open>
  \<open>service/team_service.go\<close>: members of an organisation and their role, invitations, teams and their
  members.  The rule the service keeps is that an organisation with an admin never loses its last one by
  a role change or a removal.
\<close>

section \<open>Members\<close>

definition list_members :: "uuid \<Rightarrow> org_member list io" where
  "list_members orgID = bind (users_list_by_org orgID \<lparr>lp_page = 1, lp_per_page = 1000\<rparr>) (\<lambda>(us, n).
     ret (map (\<lambda>u. \<lparr>om_id = bm_id u, om_email = u_email u, om_display_name = u_display_name u,
       om_first_name = u_first_name u, om_last_name = u_last_name u, om_avatar = u_avatar u,
       om_role = u_role u, om_created = bm_created u\<rparr>) us))"

definition user_not_found :: go_error where "user_not_found = ErrMsg ''user not found''"
definition not_a_member :: go_error where "not_a_member = ErrMsg ''user is not a member of this organization''"

text \<open>\<open>UpdateMemberRole\<close> checks, then commits: the checks run outside the transaction.  The transaction
  changes the row, which raises the token version, and revokes the user's API keys.\<close>

definition member_role_check :: "uuid \<Rightarrow> uuid \<Rightarrow> role \<Rightarrow> unit io" where
  "member_role_check orgID userID r =
     (if r \<noteq> role_admin \<and> r \<noteq> role_member then err (ErrMsg role_error_text)
      else handle (users_get_by_id userID) (\<lambda>_. err user_not_found) (\<lambda>u.
        if u_org u \<noteq> orgID then err not_a_member
        else if u_role u = role_admin \<and> r = role_member
        then bind (users_count_by_role orgID role_admin) (\<lambda>admins.
          if admins \<le> 1 then err (ErrMsg ''organization must have at least one admin'') else ret ())
        else ret ()))"

definition member_role_commit :: "uuid \<Rightarrow> role \<Rightarrow> unit io" where
  "member_role_commit userID r = tx (seq (users_update_role userID r) (api_keys_revoke_all_for_user userID))"

definition update_member_role :: "uuid \<Rightarrow> uuid \<Rightarrow> role \<Rightarrow> unit io" where
  "update_member_role orgID userID r = seq (member_role_check orgID userID r) (member_role_commit userID r)"

definition remove_member_check :: "uuid \<Rightarrow> uuid \<Rightarrow> user io" where
  "remove_member_check orgID userID =
     handle (users_get_by_id userID) (\<lambda>_. err user_not_found) (\<lambda>u.
       if u_org u \<noteq> orgID then err not_a_member
       else if u_role u = role_admin
       then bind (users_count_by_role orgID role_admin) (\<lambda>admins.
         if admins \<le> 1 then err (ErrMsg ''cannot remove the last admin'') else ret u)
       else ret u)"

definition remove_member_tx :: "uuid \<Rightarrow> unit io" where
  "remove_member_tx userID = tx (seq (users_remove_from_org userID) (api_keys_revoke_all_for_user userID))"

definition remove_member :: "uuid \<Rightarrow> uuid \<Rightarrow> unit io" where
  "remove_member orgID userID =
     bind (remove_member_check orgID userID) (\<lambda>u.
     bind (team_members_list_by_user userID) (\<lambda>ms.
     seq (for_each (\<lambda>m. attempt (team_members_remove (tm_team m) userID)) ms)
    (seq (remove_member_tx userID)
       (notify_resource_deleted orgID ''member_removed'' (u_email u)
          (''Member '' @ quoted (u_email u) @ '' was removed from the organization'')))))"

section \<open>Invitations\<close>

definition setting_google_oauth_enabled :: string where "setting_google_oauth_enabled = ''google_oauth_enabled''"
definition setting_google_oauth_client_id :: string where "setting_google_oauth_client_id = ''google_oauth_client_id''"
definition setting_google_oauth_client_secret :: string where
  "setting_google_oauth_client_secret = ''google_oauth_client_secret''"

datatype invite_result = InviteCreated user | InvitePending invitation

definition invite_member_google_only :: "uuid \<Rightarrow> string \<Rightarrow> role \<Rightarrow> invite_result io" where
  "invite_member_google_only orgID email r =
     bind (settings_get setting_google_oauth_enabled) (\<lambda>enabled.
       if enabled \<noteq> ''true'' then err (ErrMsg ''Google OAuth must be enabled to invite users in Google-only mode'')
       else bind (settings_get setting_google_oauth_client_id) (\<lambda>cid.
       bind (settings_get setting_google_oauth_client_secret) (\<lambda>secret.
         if cid = [] \<or> secret = []
         then err (ErrMsg ''Google OAuth must be configured to invite users in Google-only mode'')
         else bind (settings_get setting_oauth_allowed_domains) (\<lambda>allowed.
           if \<not> email_domain_allowed email allowed then err (ErrMsg ''email domain is not allowed'')
           else (let p0 = hd (split_on CHR ''@'' email); display = (if p0 \<noteq> [] then p0 else email) in
             bind (users_create (blank_user\<lparr>u_org := orgID, u_email := email, u_display_name := display, u_role := r\<rparr>))
               (\<lambda>u. ret (InviteCreated u)))))))"

definition invitation_ttl :: duration where "invitation_ttl = 7 * 24 * hour"

definition invite_member :: "uuid \<Rightarrow> uuid \<Rightarrow> string \<Rightarrow> role \<Rightarrow> invite_result io" where
  "invite_member orgID invitedBy email0 r =
     (if r \<noteq> role_admin \<and> r \<noteq> role_member then err (ErrMsg role_error_text)
      else (let email = to_lower (trim_space email0) in
        handle (users_get_by_email email)
          (\<lambda>_. bind (settings_get setting_auth_google_only) (\<lambda>googleOnly.
            if googleOnly = ''true'' then invite_member_google_only orgID email r
            else bind (handle (invitations_list_by_org orgID) (\<lambda>_. ret []) ret) (\<lambda>invs.
              bind now (\<lambda>t.
                if list_ex (\<lambda>v. inv_email v = email \<and> inv_accepted v = None \<and> t < inv_expires v) invs
                then err (ErrMsg ''an invitation is already pending for this email'')
                else bind (rand_bytes 32) (\<lambda>b.
                  bind (invitations_create \<lparr>inv_id = uuid_nil, inv_org = orgID, inv_email = email, inv_role = r,
                      inv_token = hex_encode b, inv_invited_by = Some invitedBy, inv_expires = t + invitation_ttl,
                      inv_accepted = None, inv_created = 0\<rparr>) (\<lambda>v. ret (InvitePending v)))))))
          (\<lambda>existing. if u_org existing = orgID
             then err (ErrMsg ''user is already a member of this organization'')
             else err (ErrMsg ''a user with this email already exists''))))"

definition accept_invitation :: "string \<Rightarrow> uuid \<Rightarrow> unit io" where
  "accept_invitation token userID =
     handle (invitations_get_by_token token) (\<lambda>_. err (ErrMsg ''invitation not found'')) (\<lambda>v. bind now (\<lambda>t.
       if t > inv_expires v then err (ErrMsg ''invitation has expired'')
       else if inv_accepted v \<noteq> None then err (ErrMsg ''invitation has already been accepted'')
       else handle (users_get_by_id userID) (\<lambda>_. err user_not_found) (\<lambda>u.
         if u_email u \<noteq> inv_email v then err (ErrMsg ''invitation was sent to a different email address'')
         else seq (users_update_row (u\<lparr>u_org := inv_org v, u_role := inv_role v\<rparr>))
           (invitations_update_row (v\<lparr>inv_accepted := Some t\<rparr>)))))"

definition list_invitations :: "uuid \<Rightarrow> invitation list io" where
  "list_invitations orgID = invitations_list_by_org orgID"

definition cancel_invitation :: "uuid \<Rightarrow> uuid \<Rightarrow> unit io" where
  "cancel_invitation orgID invID =
     handle (invitations_get_by_id invID)
       (\<lambda>e. if e = ErrNoRows then err (ErrMsg ''invitation not found'') else err e) (\<lambda>v.
       if inv_org v \<noteq> orgID then err (ErrMsg ''invitation not found'')
       else seq (invitations_delete invID)
         (notify_resource_deleted orgID ''invitation_cancelled'' (inv_email v)
            (''Invitation for '' @ quoted (inv_email v) @ '' was cancelled'')))"

definition get_invitation_by_token :: "string \<Rightarrow> invitation io" where
  "get_invitation_by_token token =
     bind (invitations_get_by_token token) (\<lambda>v. bind now (\<lambda>t.
       if t > inv_expires v then err (ErrMsg ''invitation has expired'')
       else if inv_accepted v \<noteq> None then err (ErrMsg ''invitation already accepted'')
       else ret v))"

definition accept_invitation_with_register ::
  "libs \<Rightarrow> jwt_manager \<Rightarrow> string \<Rightarrow> string \<Rightarrow> string \<Rightarrow> auth_result io" where
  "accept_invitation_with_register L m token password displayName =
     bind (get_invitation_by_token token) (\<lambda>v.
       handle (users_get_by_email (inv_email v))
         (\<lambda>_. bind (from_result (bcrypt_hash L password)) (\<lambda>hash.
            bind (users_create (blank_user\<lparr>u_org := inv_org v, u_email := inv_email v, u_password_hash := hash,
                u_display_name := displayName, u_role := inv_role v\<rparr>)) (\<lambda>u.
            bind now (\<lambda>t.
            seq (attempt (invitations_update_row (v\<lparr>inv_accepted := Some t\<rparr>)))
              (issue_tokens L m u)))))
         (\<lambda>_. err (ErrMsg (''account already exists '' @ em_dash @
            '' log in first, then accept the invitation from your dashboard''))))"

section \<open>Teams\<close>

definition blank_team :: team where
  "blank_team = \<lparr>bm_id = uuid_nil, bm_created = 0, bm_updated = 0, bm_deleted = None, t_org = uuid_nil,
     t_name = [], t_description = []\<rparr>"

definition create_team :: "uuid \<Rightarrow> string \<Rightarrow> string \<Rightarrow> team io" where
  "create_team orgID name description =
     (let name = trim_space name in
      if name = [] then err (ErrMsg ''team name is required'')
      else teams_create (blank_team\<lparr>t_org := orgID, t_name := name, t_description := trim_space description\<rparr>))"

definition list_teams :: "uuid \<Rightarrow> team list io" where
  "list_teams orgID = teams_list_by_org orgID"

definition get_team :: "uuid \<Rightarrow> uuid \<Rightarrow> team io" where
  "get_team orgID teamID =
     handle (teams_get_by_id teamID) (\<lambda>_. err (ErrMsg ''team not found'')) (\<lambda>t.
       if t_org t \<noteq> orgID then err (ErrMsg ''team not found'') else ret t)"

definition delete_team :: "uuid \<Rightarrow> uuid \<Rightarrow> unit io" where
  "delete_team orgID teamID =
     bind (get_team orgID teamID) (\<lambda>t.
     bind (teams_count_projects (bm_id t)) (\<lambda>n.
       if n > 0 then err (ErrMsg ''cannot delete a team that still has projects; reassign or delete them first'')
       else seq (teams_delete (bm_id t))
         (notify_resource_deleted orgID ''team_deleted'' (t_name t) (''Team '' @ quoted (t_name t) @ '' was deleted''))))"

definition add_team_member :: "uuid \<Rightarrow> uuid \<Rightarrow> uuid \<Rightarrow> unit io" where
  "add_team_member orgID teamID userID =
     seq (get_team orgID teamID)
       (handle (users_get_by_id userID) (\<lambda>_. err user_not_found) (\<lambda>u.
         if u_org u \<noteq> orgID then err not_a_member else team_members_add teamID userID))"

definition remove_team_member :: "libs \<Rightarrow> uuid \<Rightarrow> uuid \<Rightarrow> uuid \<Rightarrow> unit io" where
  "remove_team_member L orgID teamID userID =
     bind (get_team orgID teamID) (\<lambda>t.
     seq (team_members_remove teamID userID)
       (bind (handle (users_get_by_id userID) (\<lambda>_. ret (uuid_str L userID)) (\<lambda>u. ret (u_email u))) (\<lambda>label.
         notify_resource_deleted orgID ''team_member_removed'' label
           (''Member '' @ quoted label @ '' was removed from team '' @ quoted (t_name t)))))"

definition list_team_members :: "uuid \<Rightarrow> uuid \<Rightarrow> org_member list io" where
  "list_team_members orgID teamID = seq (get_team orgID teamID) (team_members_list_users_by_team teamID)"

definition list_teams_for_user :: "uuid \<Rightarrow> uuid list io" where
  "list_teams_for_user userID = team_members_list_team_ids_by_user userID"

section \<open>The last admin\<close>

definition org_admins :: "uuid \<Rightarrow> database \<Rightarrow> user list" where
  "org_admins og d = select_live (\<lambda>u. u_org u = og \<and> u_role u = role_admin) (users d)"

definition has_admin :: "uuid \<Rightarrow> database \<Rightarrow> bool" where
  "has_admin og d \<longleftrightarrow> org_admins og d \<noteq> []"

definition admins_safe :: "uuid \<Rightarrow> database \<Rightarrow> bool" where
  "admins_safe og d \<longleftrightarrow> distinct_ids (users d) \<and> has_admin og d"

lemma has_admin_iff: "has_admin og d \<longleftrightarrow> (\<exists>u \<in> set (users d). live u \<and> u_org u = og \<and> u_role u = role_admin)"
  by (auto simp: has_admin_def org_admins_def select_live_def filter_empty_conv)

lemma two_elements: "length xs > 1 \<Longrightarrow> \<exists>a b r. xs = a # b # r"
  by (cases xs; cases "tl xs") auto

text \<open>Two admins of distinct keys: one is left when a row with another key changes.\<close>

lemma another_admin:
  assumes "distinct_ids t" "length (select_live P t) > 1"
  shows "\<exists>u \<in> set t. live u \<and> P u \<and> bm_id u \<noteq> i"
proof (rule ccontr)
  assume "\<not> ?thesis"
  then have one: "\<And>u. u \<in> set (select_live P t) \<Longrightarrow> bm_id u = i" by (auto simp: select_live_def)
  have d: "distinct (map bm_id (select_live P t))"
    using assms(1) unfolding distinct_ids_def select_live_def by (rule distinct_map_filter)
  obtain a b r where s: "select_live P t = a # b # r"
    using two_elements [OF assms(2)] by blast
  have "bm_id a = i" "bm_id b = i" using one [of a] one [of b] by (simp_all add: s)
  then show False using d by (simp add: s)
qed

lemma update_other_keeps:
  assumes "u \<in> set t" "bm_id u \<noteq> i"
  shows "u \<in> set (update_live (\<lambda>x. bm_id x = i) f t)"
  unfolding update_live_def set_map by (rule image_eqI [of _ _ u]) (use assms in simp_all)

lemma update_hits:
  assumes "u \<in> set t" "live u" "P u"
  shows "f u \<in> set (update_live P f t)"
  unfolding update_live_def set_map by (rule image_eqI [of _ _ u]) (use assms in simp_all)

text \<open>What the transaction does to the users, and that it keeps an admin under the guards of the callers.\<close>

definition demotes :: "(user \<Rightarrow> user) \<Rightarrow> uuid \<Rightarrow> user \<Rightarrow> bool" where
  "demotes f og u \<longleftrightarrow> \<not> (live (f u) \<and> u_org (f u) = og \<and> u_role (f u) = role_admin)"

lemma guarded_update_safe:
  assumes "admins_safe og d" "by_id i (users d) = Some u" "\<And>x. bm_id (f x) = bm_id x"
    and "u_org u = og \<Longrightarrow> u_role u = role_admin \<Longrightarrow> demotes f og u \<Longrightarrow> length (org_admins og d) > 1"
    and "users d' = update_live (\<lambda>x. bm_id x = i) f (users d)"
  shows "admins_safe og d'"
proof -
  have dist: "distinct_ids (users d)" using assms(1) by (simp add: admins_safe_def)
  then have dist': "distinct_ids (users d')" using assms(3,5) by (simp add: distinct_ids_update_live)
  from assms(1) obtain a where a: "a \<in> set (users d)" "live a" "u_org a = og" "u_role a = role_admin"
    by (auto simp: admins_safe_def has_admin_iff)
  have "has_admin og d'"
  proof (cases "bm_id a = i")
    case False
    with a have "a \<in> set (users d')" by (simp add: assms(5) update_other_keeps)
    with a show ?thesis by (auto simp: has_admin_iff)
  next
    case True
    then have au: "a = u" using assms(2) a(1,2) dist by (metis by_id_Some_iff option.inject)
    show ?thesis
    proof (cases "demotes f og u")
      case True
      with assms(4) a au have "length (select_live (\<lambda>u. u_org u = og \<and> u_role u = role_admin) (users d)) > 1"
        by (simp add: org_admins_def)
      from another_admin [OF dist this, of i] obtain b where
        "b \<in> set (users d)" "live b" "u_org b = og" "u_role b = role_admin" "bm_id b \<noteq> i" by blast
      then show ?thesis using update_other_keeps [of b "users d" i f] unfolding has_admin_iff assms(5) by blast
    next
      case False
      have "f u \<in> set (users d')" using a au True unfolding assms(5) by (intro update_hits) auto
      with False show ?thesis by (auto simp: has_admin_iff demotes_def)
    qed
  qed
  with dist' show ?thesis by (simp add: admins_safe_def)
qed


subsection \<open>What the two operations do\<close>

definition keys_revoked :: "uuid \<Rightarrow> database \<Rightarrow> bool" where
  "keys_revoked i d \<longleftrightarrow> (\<forall>k \<in> set (api_keys d). ak_user k = i \<longrightarrow> \<not> live k)"

lemma revoke_keys_all: "api_keys d' = revoke_keys t i ks \<Longrightarrow> keys_revoked i d'"
proof -
  assume d: "api_keys d' = revoke_keys t i ks"
  show ?thesis
    unfolding keys_revoked_def d revoke_keys_def soft_delete_def update_live_def set_map
  proof (intro ballI impI, elim imageE)
    fix k r :: api_key
    assume k: "k = (if live r \<and> ak_user r = i then r\<lparr>bm_deleted := Some t\<rparr> else r)" "ak_user k = i"
    show "\<not> live k"
    proof (cases "live r \<and> ak_user r = i")
      case True
      then have "k = r\<lparr>bm_deleted := Some t\<rparr>" using k(1) by simp
      then show ?thesis by (simp add: live_def)
    next
      case False
      have "k = r" using k(1) unfolding if_not_P [OF False] .
      with False k(2) show ?thesis by simp
    qed
  qed
qed

lemma api_keys_revoke_Inr [go_io]:
  "api_keys_revoke_all_for_user i w = (Inr x, w') \<longleftrightarrow>
     \<not> fault_now w \<and> w' = (next_fault w)\<lparr>db := api_keys_update (revoke_keys (clock w) i) (db w)\<rparr>"
  by (simp add: api_keys_revoke_all_for_user_def bind_Inr exec_Inr)

lemma reads_count_by_role [reads_intros]: "reads (users_count_by_role og r)"
  unfolding users_count_by_role_def by (intro reads_intros)

lemma reads_member_role_check [reads_intros]: "reads (member_role_check og i r)"
  unfolding member_role_check_def by (intro reads_intros)

lemma count_by_role_Inr [go_io]:
  "users_count_by_role og r w = (Inr n, w') \<longleftrightarrow>
     \<not> fault_now w \<and> n = length (select_live (\<lambda>u. u_org u = og \<and> u_role u = r) (users (db w))) \<and> w' = next_fault w"
  by (simp add: users_count_by_role_def query_Inr)

lemma member_role_check_Inr:
  assumes "member_role_check og i r w = (Inr x, w')"
  shows "db w' = db w \<and> (r = role_admin \<or> r = role_member) \<and> (\<exists>u. by_id i (users (db w)) = Some u \<and> u_org u = og \<and>
    (u_role u = role_admin \<and> r = role_member \<longrightarrow> length (org_admins og (db w)) > 1))"
proof -
  have r: "r = role_admin \<or> r = role_member" using assms by (simp add: member_role_check_def split: if_splits)
  obtain u where u: "by_id i (users (db w)) = Some u" "\<not> fault_now w" "u_org u = og"
    and c: "(if u_role u = role_admin \<and> r = role_member
        then bind (users_count_by_role og role_admin) (\<lambda>admins.
          if admins \<le> 1 then err (ErrMsg ''organization must have at least one admin'') else ret ())
        else ret ()) (next_fault w) = (Inr x, w')"
    using assms r by (simp add: member_role_check_def handle_def users_get_eval split: if_splits option.splits)
  show ?thesis
    using u r c by (auto simp: bind_Inr count_by_role_Inr org_admins_def split: if_splits)
qed

lemma member_role_commit_Inr:
  assumes "member_role_commit i r w = (Inr x, w')"
  shows "users (db w') = update_live (\<lambda>u. bm_id u = i) (\<lambda>u. bump_version (u\<lparr>u_role := r\<rparr>)) (users (db w)) \<and>
    keys_revoked i (db w')"
  using assms
  by (auto simp: member_role_commit_def tx_Inr seq_Inr users_update_role_def users_set_Inr api_keys_revoke_Inr
      intro!: revoke_keys_all)

lemma update_member_role_aon: "all_or_nothing (update_member_role og i r)"
  unfolding update_member_role_def member_role_commit_def by (intro aon_seq reads_intros aon_tx)

text \<open>Removing the memberships touches neither users nor keys.\<close>

lemma memberships_frame:
  "keeps (on_db (\<lambda>d. users d = us \<and> api_keys d = ks)) (for_each (\<lambda>m. attempt (team_members_remove (tm_team m) i)) ms)"
  unfolding team_members_remove_def by (intro keeps_intros keeps_db_exec) simp

lemma remove_member_tx_Inr:
  assumes "remove_member_tx i w = (Inr x, w')"
  shows "users (db w') = update_live (\<lambda>u. bm_id u = i) (\<lambda>u. (bump_version u)\<lparr>bm_deleted := Some (clock w)\<rparr>) (users (db w)) \<and>
    keys_revoked i (db w')"
  using assms
  by (auto simp: remove_member_tx_def tx_Inr seq_Inr users_remove_from_org_def bind_Inr users_set_Inr api_keys_revoke_Inr
      intro!: revoke_keys_all)

lemma remove_member_check_Inr:
  assumes "remove_member_check og i w = (Inr u, w')"
  shows "db w' = db w \<and> by_id i (users (db w)) = Some u \<and> u_org u = og \<and>
    (u_role u = role_admin \<longrightarrow> length (org_admins og (db w)) > 1)"
proof -
  obtain v where v: "by_id i (users (db w)) = Some v" "\<not> fault_now w" "u_org v = og"
    and c: "(if u_role v = role_admin
        then bind (users_count_by_role og role_admin) (\<lambda>admins.
          if admins \<le> 1 then err (ErrMsg ''cannot remove the last admin'') else ret v)
        else ret v) (next_fault w) = (Inr u, w')"
    using assms by (simp add: remove_member_check_def handle_def users_get_eval split: if_splits option.splits)
  show ?thesis
    using v c by (simp add: bind_Inr count_by_role_Inr org_admins_def split: if_splits) auto
qed

lemma reads_remove_member_check [reads_intros]: "reads (remove_member_check og i)"
  unfolding remove_member_check_def by (intro reads_intros)

lemma reads_memberships [reads_intros]: "reads (team_members_list_by_user i)"
  unfolding team_members_list_by_user_def by (intro reads_intros)

lemma remove_member_cases:
  assumes "remove_member og i w = (r, w')"
  shows "(users (db w') = users (db w) \<and> api_keys (db w') = api_keys (db w) \<and> (\<exists>e. r = Inl e)) \<or>
    (r = Inr () \<and> keys_revoked i (db w') \<and> (\<exists>u t. by_id i (users (db w)) = Some u \<and> u_org u = og \<and>
       (u_role u = role_admin \<longrightarrow> length (org_admins og (db w)) > 1) \<and>
       users (db w') = update_live (\<lambda>u. bm_id u = i) (\<lambda>u. (bump_version u)\<lparr>bm_deleted := Some t\<rparr>) (users (db w))))"
proof (cases "remove_member_check og i w")
  case (Pair rc w1)
  note d1 = readsD [OF reads_remove_member_check Pair]
  show ?thesis
  proof (cases rc)
    case (Inl e)
    with assms Pair d1 show ?thesis by (auto simp: remove_member_def bind_def handle_def)
  next
    case (Inr u)
    obtain rm w2 where m: "team_members_list_by_user i w1 = (rm, w2)" by (cases "team_members_list_by_user i w1")
    note d2 = readsD [OF reads_memberships m]
    show ?thesis
    proof (cases rm)
      case (Inl e)
      with assms Pair Inr m d1 d2 show ?thesis by (auto simp: remove_member_def bind_def handle_def)
    next
      case ms: (Inr ms)
      obtain rl w3 where l: "for_each (\<lambda>m. attempt (team_members_remove (tm_team m) i)) ms w2 = (rl, w3)"
        by (cases "for_each (\<lambda>m. attempt (team_members_remove (tm_team m) i)) ms w2")
      have d3: "users (db w3) = users (db w2)" "api_keys (db w3) = api_keys (db w2)"
        using keepsD [OF memberships_frame [of "users (db w2)" "api_keys (db w2)" i ms] _ l] by (simp_all add: on_db_def)
      obtain rt w4 where t: "remove_member_tx i w3 = (rt, w4)" by (cases "remove_member_tx i w3")
      have step: "remove_member og i w = (case rl of Inl e \<Rightarrow> (Inl e, w3) | Inr _ \<Rightarrow> (case rt of Inl e \<Rightarrow> (Inl e, w4)
          | Inr _ \<Rightarrow> notify_resource_deleted og ''member_removed'' (u_email u)
              (''Member '' @ quoted (u_email u) @ '' was removed from the organization'') w4))"
        by (cases rl; cases rt) (simp_all add: remove_member_def bind_def seq_def handle_def Pair Inr m ms l t)
      show ?thesis
      proof (cases "\<exists>y z. rl = Inr y \<and> rt = Inr z")
        case False
        then have "(r = Inl (projl rl) \<and> w' = w3) \<or> (r = Inl (projl rt) \<and> w' = w4 \<and> (\<exists>e. rt = Inl e))"
          using assms step by (cases rl; cases rt) auto
        moreover have "rt = Inl e \<Longrightarrow> db w4 = db w3" for e
          using t unfolding remove_member_tx_def by (auto dest: tx_Inl_db)
        ultimately show ?thesis using d1 d2 d3 by auto
      next
        case True
        with assms step have r: "r = Inr ()" "db w' = db w4" by (auto simp: notify_resource_deleted_def)
        from True t remove_member_tx_Inr [of i w3 _ w4] have
          "users (db w4) = update_live (\<lambda>u. bm_id u = i) (\<lambda>u. (bump_version u)\<lparr>bm_deleted := Some (clock w3)\<rparr>) (users (db w3))"
          "keys_revoked i (db w4)" by auto
        with r d1 d2 d3 remove_member_check_Inr [of og i w u w1] Pair Inr show ?thesis by auto
      qed
    qed
  qed
qed

section \<open>Properties\<close>

text \<open>C4 (last_admin_kept): an organisation that has an admin still has one after any role change or removal, of
  its own or of another organisation's members, whatever statements fail in between, as long as the two
  operations do not overlap.\<close>

theorem last_admin_kept:
  assumes "admins_safe og (db w)" "op = update_member_role og' i r \<or> op = remove_member og' i" "op w = (res, w')"
  shows "admins_safe og (db w')"
  using assms(2)
proof
  assume o: "op = update_member_role og' i r"
  show ?thesis
  proof (cases res)
    case (Inl e)
    with o assms(3) update_member_role_aon have "db w' = db w" by (auto simp: all_or_nothing_def)
    with assms(1) show ?thesis by simp
  next
    case (Inr x)
    then obtain w1 where c: "member_role_check og' i r w = (Inr (), w1)" "member_role_commit i r w1 = (Inr x, w')"
      using o assms(3) by (auto simp: update_member_role_def seq_Inr)
    from member_role_check_Inr [OF c(1)] obtain u where d: "db w1 = db w" and u: "by_id i (users (db w)) = Some u" "u_org u = og'"
      "u_role u = role_admin \<and> r = role_member \<longrightarrow> length (org_admins og' (db w)) > 1" "r = role_admin \<or> r = role_member"
      by auto
    let ?f = "\<lambda>u. bump_version (u\<lparr>u_role := r\<rparr>)"
    from member_role_commit_Inr [OF c(2)] d have "users (db w') = update_live (\<lambda>u. bm_id u = i) ?f (users (db w))" by simp
    moreover have "demotes ?f og u \<Longrightarrow> u_org u = og \<Longrightarrow> u_role u = role_admin \<Longrightarrow> length (org_admins og (db w)) > 1"
      using u by_id_live [OF u(1)] by (auto simp: demotes_def live_def)
    ultimately show ?thesis using guarded_update_safe [OF assms(1) u(1), of ?f] by simp
  qed
next
  assume "op = remove_member og' i"
  with assms(3) have o: "remove_member og' i w = (res, w')" by simp
  from remove_member_cases [OF this] show ?thesis
  proof (elim disjE conjE exE)
    assume "users (db w') = users (db w)"
    with assms(1) show ?thesis by (simp add: admins_safe_def has_admin_def org_admins_def)
  next
    fix u t
    assume u: "by_id i (users (db w)) = Some u" "u_org u = og'"
      "u_role u = role_admin \<longrightarrow> length (org_admins og' (db w)) > 1"
      "users (db w') = update_live (\<lambda>u. bm_id u = i) (\<lambda>u. (bump_version u)\<lparr>bm_deleted := Some t\<rparr>) (users (db w))"
    have g: "u_org u = og \<Longrightarrow> u_role u = role_admin \<Longrightarrow> length (org_admins og (db w)) > 1" using u(2,3) by simp
    show ?thesis
      using g by (intro guarded_update_safe [OF assms(1) u(1) _ _ u(4)]) auto
  qed
qed

definition two_admins_db :: database where
  "two_admins_db = empty_database\<lparr>users := [demo_user 7 1 role_admin 3, (demo_user 8 1 role_admin 0)\<lparr>u_email := ''c@d''\<rparr>]\<rparr>"

lemma two_admins_safe: "admins_safe 1 two_admins_db"
  by (simp add: admins_safe_def has_admin_iff two_admins_db_def distinct_ids_def demo_user_def live_def)

lemma last_admin_kept_witness:
  "\<exists>res w'. update_member_role 1 7 role_member (world_of two_admins_db) = (res, w') \<and> admins_safe 1 (db w')"
proof -
  obtain res w' where u: "update_member_role 1 7 role_member (world_of two_admins_db) = (res, w')"
    by (cases "update_member_role 1 7 role_member (world_of two_admins_db)")
  from last_admin_kept [of 1 "world_of two_admins_db", OF _ disjI1 [OF refl] u] two_admins_safe u show ?thesis by auto
qed

text \<open>A role change or a removal that succeeds raises the member's token version, or
  removes the account, and leaves the member no usable API key; one that fails leaves accounts and keys as
  they were.\<close>

theorem member_change_revokes:
  assumes "op = update_member_role og i r \<or> op = remove_member og i" "op w = (res, w')"
    and "distinct_ids (users (db w))" "db_version i (db w) = Some n"
  shows "case res of
      Inl e \<Rightarrow> users (db w') = users (db w) \<and> api_keys (db w') = api_keys (db w)
    | Inr _ \<Rightarrow> keys_revoked i (db w') \<and> db_version i (db w') \<in> {Some (n + 1), None}"
  using assms(1)
proof
  assume o: "op = update_member_role og i r"
  show ?thesis
  proof (cases res)
    case (Inl e)
    with o assms(2) update_member_role_aon have "db w' = db w" by (auto simp: all_or_nothing_def)
    with Inl show ?thesis by simp
  next
    case (Inr x)
    then obtain w1 where c: "member_role_check og i r w = (Inr (), w1)" "member_role_commit i r w1 = (Inr x, w')"
      using o assms(2) by (auto simp: update_member_role_def seq_Inr)
    from member_role_check_Inr [OF c(1)] have "db w1 = db w" by simp
    with member_role_commit_Inr [OF c(2)] have
      u: "users (db w') = update_live (\<lambda>u. bm_id u = i) (\<lambda>u. bump_version (u\<lparr>u_role := r\<rparr>)) (users (db w))"
      and k: "keys_revoked i (db w')" by auto
    have "db_version i (db w') = Some (n + 1)"
      using assms(3,4) unfolding db_version_def u
      by (subst by_id_update_id [where f = "\<lambda>u. bump_version (u\<lparr>u_role := r\<rparr>)"]) (auto simp: live_def)
    with Inr k show ?thesis by simp
  qed
next
  assume "op = remove_member og i"
  with assms(2) have o: "remove_member og i w = (res, w')" by simp
  from remove_member_cases [OF this] show ?thesis
  proof (elim disjE conjE exE)
    fix u t
    assume r: "res = Inr ()" "keys_revoked i (db w')"
      "users (db w') = update_live (\<lambda>u. bm_id u = i) (\<lambda>u. (bump_version u)\<lparr>bm_deleted := Some t\<rparr>) (users (db w))"
    have "by_id i (users (db w')) = None"
      unfolding r(3) by (rule by_id_removed) (simp_all add: live_def)
    with r show ?thesis by (simp add: db_version_def)
  qed auto
qed

lemma member_change_revokes_witness:
  "\<exists>w'. update_member_role 1 7 role_member (world_of two_admins_db) = (Inr (), w') \<and> db_version 7 (db w') \<in> {Some 4, None}"
proof -
  obtain w' where u: "update_member_role 1 7 role_member (world_of two_admins_db) = (Inr (), w')"
    by (simp add: update_member_role_def seq_def bind_def member_role_check_def handle_def users_get_eval two_admins_db_def
        by_id_Cons live_def demo_user_def users_count_by_role_def query_def statement_def select_live_def
        member_role_commit_def tx_def users_update_role_def users_set_def exec_def api_keys_revoke_all_for_user_def)
  have d: "distinct_ids (users (db (world_of two_admins_db)))"
    by (simp add: two_admins_db_def distinct_ids_def demo_user_def)
  have v: "db_version 7 (db (world_of two_admins_db)) = Some 3"
    by (simp add: two_admins_db_def db_version_def by_id_Cons live_def demo_user_def)
  from member_change_revokes [OF disjI1 [OF refl] u d v] u show ?thesis by auto
qed

text \<open>The check that an admin remains is not part of the transaction.  When two admins
  are the only ones and both demotions check before either commits, both pass and both commit, and the
  organisation has no admin left.\<close>

theorem concurrent_demotion:
  assumes "org_admins og (db w) = [a, b]" "distinct_ids (users (db w))" "faults w = []"
  shows "fst (member_role_check og (bm_id a) role_member w) = Inr () \<and>
    fst (member_role_check og (bm_id b) role_member w) = Inr () \<and>
    \<not> has_admin og (db (snd (member_role_commit (bm_id b) role_member (snd (member_role_commit (bm_id a) role_member w)))))"
proof -
  have mem: "x \<in> set (org_admins og (db w)) \<longleftrightarrow> x \<in> set (users (db w)) \<and> live x \<and> u_org x = og \<and> u_role x = role_admin" for x
    by (auto simp: org_admins_def select_live_def)
  have check: "fst (member_role_check og (bm_id x) role_member w) = Inr ()" if "x \<in> {a, b}" for x
  proof -
    have x: "by_id (bm_id x) (users (db w)) = Some x" "u_org x = og" "u_role x = role_admin"
      using that mem [of x] assms(1,2) by (auto simp: by_id_eqI)
    have n: "length (select_live (\<lambda>u. u_org u = og \<and> u_role u = role_admin) (users (db w))) = 2"
      using assms(1) by (simp add: org_admins_def)
    show ?thesis
      using assms(3) x n by (simp add: member_role_check_def handle_def users_get_eval bind_def users_count_by_role_def
          query_def statement_def next_fault_nofault)
  qed
  have commit: "\<exists>v'. member_role_commit i role_member v = (Inr (), v') \<and> faults v' = []" if "faults v = []" for i v
    using that by (simp add: member_role_commit_def tx_def seq_def bind_def handle_def users_update_role_def users_set_def
        exec_def statement_def api_keys_revoke_all_for_user_def now_def next_fault_nofault next_fault_def fault_now_def)
  from commit [OF assms(3), of "bm_id a"] obtain w1 where w1: "member_role_commit (bm_id a) role_member w = (Inr (), w1)" "faults w1 = []"
    by blast
  from commit [OF w1(2), of "bm_id b"] obtain w2 where w2: "member_role_commit (bm_id b) role_member w1 = (Inr (), w2)" by blast
  let ?f = "\<lambda>u. bump_version (u\<lparr>u_role := role_member\<rparr>)"
  have u: "users (db w2) = update_live (\<lambda>u. bm_id u = bm_id b) ?f (update_live (\<lambda>u. bm_id u = bm_id a) ?f (users (db w)))"
    using member_role_commit_Inr [OF w1(1)] member_role_commit_Inr [OF w2] by simp
  have "\<not> has_admin og (db w2)"
  proof
    assume "has_admin og (db w2)"
    then obtain x where x: "x \<in> set (users (db w2))" "live x" "u_org x = og" "u_role x = role_admin"
      by (auto simp: has_admin_iff)
    from x(1) [unfolded u] show False
    proof (cases rule: set_update_liveE)
      case (1 r)
      with x(4) show False by simp
    next
      case 2
      from 2(1) show False
      proof (cases rule: set_update_liveE)
        case (1 r)
        with x(4) show False by simp
      next
        case 3: 2
        with x mem [of x] assms(1) have "x = a \<or> x = b" by simp
        with 2(2) 3(2) x(2) show False by blast
      qed
    qed
  qed
  with check w1(1) w2 show ?thesis by simp
qed

lemma concurrent_demotion_witness:
  "\<not> has_admin 1 (db (snd (member_role_commit 8 role_member (snd (member_role_commit 7 role_member (world_of two_admins_db))))))"
proof -
  have a: "org_admins 1 (db (world_of two_admins_db)) =
      [demo_user 7 1 role_admin 3, (demo_user 8 1 role_admin 0)\<lparr>u_email := ''c@d''\<rparr>]"
    by (simp add: org_admins_def two_admins_db_def select_live_def live_def demo_user_def)
  have d: "distinct_ids (users (db (world_of two_admins_db)))" using two_admins_safe by (simp add: admins_safe_def)
  have f: "faults (world_of two_admins_db) = []" by simp
  from concurrent_demotion [OF a d f] show ?thesis by (simp add: demo_user_def)
qed

text \<open>An invitation is accepted only by the account with its address, before its
  expiry, and only once: after an accepted invitation no call with its token succeeds, whoever makes it.\<close>

theorem invitation_single_use:
  assumes "accept_invitation tok u w = (Inr (), w1)"
  shows "(\<exists>v usr. find (\<lambda>x. inv_token x = tok) (invitations (db w)) = Some v \<and> clock w \<le> inv_expires v \<and>
      inv_accepted v = None \<and> by_id u (users (db w)) = Some usr \<and> u_email usr = inv_email v) \<and>
    (\<forall>u' w2 w3. invitations (db w2) = invitations (db w1) \<longrightarrow> accept_invitation tok u' w2 \<noteq> (Inr (), w3))"
proof -
  obtain v usr wa wb where v: "find (\<lambda>x. inv_token x = tok) (invitations (db w)) = Some v" "clock w \<le> inv_expires v"
      "inv_accepted v = None"
    and usr: "by_id u (users (db w)) = Some usr" "u_email usr = inv_email v"
    and r: "users_update_row (usr\<lparr>u_org := inv_org v, u_role := inv_role v\<rparr>) wa = (Inr (), wb)" "db wa = db w"
      "invitations_update_row (v\<lparr>inv_accepted := Some (clock w)\<rparr>) wb = (Inr (), w1)"
    using assms
    by (auto simp: accept_invitation_def handle_cases invitations_get_by_token_def query_row_Inr bind_Inr users_get_Inr
        seq_Inr not_less split: if_splits)
  have d: "invitations (db w1) = map (\<lambda>x. if inv_id x = inv_id v then v\<lparr>inv_accepted := Some (clock w)\<rparr> else x) (invitations (db w))"
    using r by (simp add: invitations_update_row_def exec_Inr users_update_row_def update_row_Inr)
  have acc: "\<exists>y. find (\<lambda>x. inv_token x = tok) (map (\<lambda>x. if inv_id x = inv_id v then v\<lparr>inv_accepted := Some t\<rparr> else x) l) = Some y \<and>
      inv_accepted y \<noteq> None" if "find (\<lambda>x. inv_token x = tok) l = Some v" for l t
    using that by (induction l) (auto split: if_splits)
  from acc [OF v(1), of "clock w"] obtain y where y: "find (\<lambda>x. inv_token x = tok) (invitations (db w1)) = Some y" "inv_accepted y \<noteq> None"
    unfolding d by blast
  have "accept_invitation tok u' w2 \<noteq> (Inr (), w3)" if "invitations (db w2) = invitations (db w1)" for u' w2 w3
    using that y by (auto simp: accept_invitation_def handle_cases invitations_get_by_token_def query_row_Inr bind_Inr split: if_splits)
  with v usr show ?thesis by blast
qed

definition invited_db :: database where
  "invited_db = (one_user_db 3)\<lparr>invitations := [\<lparr>inv_id = 9, inv_org = 2, inv_email = ''a@b'', inv_role = role_member,
     inv_token = ''tok'', inv_invited_by = None, inv_expires = 5000, inv_accepted = None, inv_created = 0\<rparr>]\<rparr>"

lemma invitation_single_use_witness:
  "\<exists>w1. accept_invitation ''tok'' 7 (world_of invited_db) = (Inr (), w1) \<and>
     (\<forall>u' w3. accept_invitation ''tok'' u' w1 \<noteq> (Inr (), w3))"
proof -
  obtain w1 where a: "accept_invitation ''tok'' 7 (world_of invited_db) = (Inr (), w1)"
    by (simp add: accept_invitation_def handle_def bind_def seq_def invitations_get_by_token_def query_row_def statement_def
        invited_db_def one_user_db_def users_get_eval by_id_Cons live_def demo_user_def users_update_row_def update_row_def
        unique_live_def invitations_update_row_def exec_def)
  from invitation_single_use [OF a] a show ?thesis by blast
qed

text \<open>The unique index on team names covers deleted rows, so once a team has been
  deleted its organisation can never have a team of that name again.\<close>

theorem deleted_team_name_blocked:
  assumes "t \<in> set (teams (db w))" "t_org t = og" "t_name t = trim_space n"
  shows "\<forall>x w'. create_team og n d w \<noteq> (Inr x, w')"
proof (intro allI notI)
  fix x w'
  assume "create_team og n d w = (Inr x, w')"
  then have "teams_create (blank_team\<lparr>t_org := og, t_name := trim_space n, t_description := trim_space d\<rparr>) w = (Inr x, w')"
    by (simp add: create_team_def Let_def split: if_splits)
  note i = this [unfolded teams_create_def]
  have "team_key x = (og, trim_space n)" unfolding insert_rowD(1) [OF i] by (simp add: fill_defaults_def team_key_def)
  with insert_rowD(3) [OF i] assms show False by (auto simp: unique_all_def list_all_iff team_key_def)
qed

lemma deleted_team_name_blocked_witness:
  "\<forall>x w'. create_team 1 '' core '' [] (world_of (empty_database\<lparr>teams := [blank_team\<lparr>bm_id := 3, bm_deleted := Some 5,
     t_org := 1, t_name := ''core''\<rparr>]\<rparr>)) \<noteq> (Inr x, w')"
proof -
  let ?t = "blank_team\<lparr>bm_id := 3, bm_deleted := Some 5, t_org := 1, t_name := ''core''\<rparr>"
  have "trim_space '' core '' = ''core''" by code_simp
  then show ?thesis
    using deleted_team_name_blocked [of ?t "world_of (empty_database\<lparr>teams := [?t]\<rparr>)" 1 "'' core ''" "[]"] by simp
qed

end
