(* ===== verification/Deploy_Service.thy ===== *)
theory Deploy_Service imports Api_Keys begin

text \<open>
  \<open>service/deploy_service.go\<close>: triggering, cancelling and rolling back a deployment of an application, the
  recovery of stale ones, and the parts of a deploy job that come before and after the build itself (in
  \<open>Deploy_Job\<close>).  What the service asks of the deploy target is the record \<open>platform\<close>: functions
  of the application which the properties leave arbitrary.
\<close>

section \<open>The platform\<close>

text \<open>
  \<open>pf_target\<close> and \<open>pf_builder\<close>: the error of resolving the application's target or its builder;
  \<open>pf_git_token\<close>: the clone token of \<open>resolveGitToken\<close>, empty when there is none;
  \<open>pf_build\<close>: the snapshots a build of a commit logs and its outcome, an error text with the logs of a partial
  result, or the logs and the image; \<open>pf_deploy\<close>: the error of \<open>target.Deploy\<close> with an image;
  \<open>pf_hpa\<close>: of \<open>ConfigureHPA\<close>; \<open>pf_phase\<close>: \<open>GetStatus\<close>; \<open>pf_pods\<close>: name and phase of the pods;
  \<open>pf_rollback\<close>, \<open>pf_docker_config\<close>: the error of a rollback, the pull secret of a registry;
  \<open>pf_text\<close>: \<open>err.Error()\<close>.
\<close>

record platform =
  pf_target :: "application \<Rightarrow> go_error option"
  pf_builder :: "application \<Rightarrow> go_error option"
  pf_git_token :: "application \<Rightarrow> string"
  pf_build :: "application \<Rightarrow> string \<Rightarrow> string list \<times> ((string \<times> string) + (string \<times> string))"
  pf_deploy :: "application \<Rightarrow> string \<Rightarrow> go_error option"
  pf_hpa :: "application \<Rightarrow> go_error option"
  pf_phase :: "application \<Rightarrow> string option"
  pf_pods :: "application \<Rightarrow> (string \<times> string) list"
  pf_rollback :: "application \<Rightarrow> go_error option"
  pf_docker_config :: "uuid \<Rightarrow> go_error + string"
  pf_text :: "go_error \<Rightarrow> string"

definition fails_with :: "go_error option \<Rightarrow> ('s, unit) act" where
  "fails_with e = (case e of None \<Rightarrow> ret () | Some x \<Rightarrow> err x)"

definition log_note :: "string \<Rightarrow> string" where
  "log_note t = [CHR 0x0A, CHR 0x0A] @ ''--- '' @ t @ '' ---''"

section \<open>Helpers\<close>

definition enqueue :: "job \<Rightarrow> unit io" where
  "enqueue j = (\<lambda>w. if fault_now w then (Inl ErrIO, next_fault w)
     else (Inr (), (next_fault w)\<lparr>queue := queue w @ [j]\<rparr>))"

definition update_deploy :: "deployment \<Rightarrow> unit io" where
  "update_deploy d = attempt (deployments_update_row d)"

definition set_app_status :: "uuid \<Rightarrow> app_status \<Rightarrow> unit io" where
  "set_app_status i s = attempt (applications_update_status i s)"

definition notify_deploy :: "application \<Rightarrow> string \<Rightarrow> string \<Rightarrow> unit io" where
  "notify_deploy a ev detail =
     handle (projects_get_by_id (a_project a)) (\<lambda>_. ret ()) (\<lambda>p. notify (Some (p_org p)) ev (a_name a @ '': '' @ ev) detail)"

primrec is_terminal_deploy_status :: "deploy_status \<Rightarrow> bool" where
  "is_terminal_deploy_status DeployQueued = False"
| "is_terminal_deploy_status DeployBuilding = False"
| "is_terminal_deploy_status DeployDeploying = False"
| "is_terminal_deploy_status DeploySuccess = True"
| "is_terminal_deploy_status DeployFailed = True"
| "is_terminal_deploy_status DeployCancelled = True"

definition cancel_requested :: "uuid \<Rightarrow> bool io" where
  "cancel_requested i = handle (deployments_get_by_id i) (\<lambda>_. ret False) (\<lambda>d. ret (d_cancel d))"

section \<open>Triggering\<close>

record trigger_input =
  ti_app :: uuid
  ti_force :: bool
  ti_by :: "uuid option"
  ti_type :: string

definition app_busy :: "app_status \<Rightarrow> bool" where
  "app_busy s \<longleftrightarrow> s \<in> {AppBuilding, AppDeploying, AppRestarting, AppStopping}"

definition blank_deployment :: deployment where
  "blank_deployment = \<lparr>bm_id = uuid_nil, bm_created = 0, bm_updated = 0, bm_deleted = None, d_app = uuid_nil,
     d_status = DeployQueued, d_cancel = False, d_commit = [], d_image = [], d_log = [], d_started = None,
     d_finished = None, d_trigger = [], d_triggered_by = None, d_app_name = [], d_project = uuid_nil\<rparr>"

definition deploy_trigger :: "platform \<Rightarrow> trigger_input \<Rightarrow> deployment io" where
  "deploy_trigger P inp = bind (applications_get_by_id (ti_app inp)) (\<lambda>app.
     if app_busy (a_status app) then
       err (ErrMsg (''app is currently '' @ app_status_text (a_status app) @ '', wait for it to finish first''))
     else bind (deployments_create (blank_deployment\<lparr>d_app := bm_id app, d_status := DeployQueued,
         d_trigger := ti_type inp, d_triggered_by := ti_by inp, d_app_name := a_name app,
         d_project := a_project app\<rparr>)) (\<lambda>d.
       handle (enqueue (new_deploy_job (bm_id d) (ti_force inp)))
         (\<lambda>e. bind now (\<lambda>t.
            seq (update_deploy (d\<lparr>d_status := DeployFailed, d_finished := Some t,
                d_log := ''Failed to enqueue deploy job: '' @ pf_text P e\<rparr>))
              (err (ErrWrap ''enqueue deploy job'' e))))
         (\<lambda>_. seq (set_app_status (bm_id app) AppBuilding) (ret d))))"

section \<open>Cancellation\<close>

text \<open>\<open>finalizeCancelled\<close>: the deployment is cancelled, the application goes back to running when the
  target says it runs, and to idle otherwise.\<close>

definition cancelled_row :: "time \<Rightarrow> deployment \<Rightarrow> deployment" where
  "cancelled_row t d = d\<lparr>d_status := DeployCancelled, d_finished := Some t,
     d_log := (if d_log d \<noteq> [] then d_log d @ log_note ''Cancelled by user'' else ''Cancelled by user'')\<rparr>"

definition finalize_cancelled :: "platform \<Rightarrow> deployment \<Rightarrow> application option \<Rightarrow> unit io" where
  "finalize_cancelled P d app = bind now (\<lambda>t. seq (update_deploy (cancelled_row t d))
     (case app of
        None \<Rightarrow> set_app_status (d_app d) AppIdle
      | Some a \<Rightarrow> seq (notify_deploy a ''deploy_cancelled'' (a_name a @ '' deploy cancelled by user''))
          (if pf_target P a = None \<and> pf_phase P a = Some ''running'' then set_app_status (d_app d) AppRunning
           else set_app_status (d_app d) AppIdle)))"

definition cleanup_build_jobs :: "platform \<Rightarrow> application \<Rightarrow> unit io" where
  "cleanup_build_jobs P a = (case pf_builder P a of Some _ \<Rightarrow> ret () | None \<Rightarrow> attempt (cluster (CallCancelBuild (bm_id a))))"

definition in_progress :: "deploy_status \<Rightarrow> bool" where
  "in_progress s \<longleftrightarrow> s \<in> {DeployQueued, DeployBuilding, DeployDeploying}"

definition try_app :: "uuid \<Rightarrow> application option io" where
  "try_app i = handle (applications_get_by_id i) (\<lambda>_. ret None) (\<lambda>a. ret (Some a))"

definition wrapping :: "string \<Rightarrow> 'a io \<Rightarrow> 'a io" where
  "wrapping s m = handle m (\<lambda>e. err (ErrWrap s e)) ret"

definition deploy_cancel :: "platform \<Rightarrow> uuid \<Rightarrow> unit io" where
  "deploy_cancel P i = bind (deployments_get_by_id i) (\<lambda>d.
     if \<not> in_progress (d_status d) then
       err (ErrMsg (''deployment is not in progress (status: '' @ deploy_status_text (d_status d) @ '')''))
     else seq (wrapping ''set cancel_requested'' (deployments_update_row (d\<lparr>d_cancel := True\<rparr>)))
       (bind (try_app (d_app d)) (\<lambda>app.
         seq (case app of None \<Rightarrow> ret () | Some a \<Rightarrow> cleanup_build_jobs P a)
           (if d_status d = DeployQueued then finalize_cancelled P (d\<lparr>d_cancel := True\<rparr>) app else ret ()))))"

section \<open>Rollback\<close>

definition deploy_rollback :: "platform \<Rightarrow> uuid \<Rightarrow> uuid option \<Rightarrow> deployment io" where
  "deploy_rollback P i by = bind (deployments_get_by_id i) (\<lambda>prev.
     bind (applications_get_by_id (d_app prev)) (\<lambda>app.
       seq (fails_with (pf_target P app)) (seq (cluster (CallRollback (bm_id app))) (seq (fails_with (pf_rollback P app))
         (bind now (\<lambda>t.
            bind (deployments_create (blank_deployment\<lparr>d_app := bm_id app, d_status := DeploySuccess,
                d_image := d_image prev, d_commit := d_commit prev, d_trigger := ''rollback'',
                d_triggered_by := by, d_started := Some t, d_finished := Some t\<rparr>))
              (\<lambda>d. seq (set_app_status (bm_id app) AppRunning) (ret d))))))))"

section \<open>Recovery of stale deployments\<close>

definition stale_threshold :: duration where "stale_threshold = 30 * minute"
definition stale_per_page :: nat where "stale_per_page = 1000"

definition deploy_ref :: "deployment \<Rightarrow> time" where
  "deploy_ref d = (case d_started d of None \<Rightarrow> bm_created d | Some t \<Rightarrow> t)"

definition recover_one :: "deployment \<Rightarrow> unit io" where
  "recover_one d = bind now (\<lambda>t.
     if t - deploy_ref d < stale_threshold then ret ()
     else seq (update_deploy (d\<lparr>d_status := DeployFailed, d_finished := Some t,
            d_log := d_log d @ log_note ''Deployment timed out (stale for >30min)''\<rparr>))
       (set_app_status (d_app d) AppError))"

text \<open>The loop over the pages of one status.  The value is whether the loop came to its end within the fuel.\<close>

fun recover_pages :: "nat \<Rightarrow> nat \<Rightarrow> deploy_status \<Rightarrow> bool io" where
  "recover_pages 0 pg s = ret False"
| "recover_pages (Suc n) pg s =
     handle (deployments_list_all \<lparr>lp_page = pg, lp_per_page = stale_per_page\<rparr>
         \<lparr>lf_search = [], lf_status = deploy_status_text s, lf_provider = [], lf_projects = None\<rparr>)
       (\<lambda>_. ret True)
       (\<lambda>(ds, _). if ds = [] then ret True
          else seq (for_each recover_one ds)
            (if length ds < stale_per_page then ret True else recover_pages n (Suc pg) s))"

definition recover_stale_deployments :: "nat \<Rightarrow> bool io" where
  "recover_stale_deployments n = bind (recover_pages n 1 DeployBuilding) (\<lambda>a.
     bind (recover_pages n 1 DeployDeploying) (\<lambda>b. ret (a \<and> b)))"

end
