(* ===== verification/Deploy_Job.thy ===== *)
theory Deploy_Job imports Deploy_Service begin

text \<open>
  The deploy job of \<open>service/deploy_service.go\<close> (\<open>RunDeployJob\<close>, \<open>executeDeploy\<close>) and the build of
  \<open>service/build_service.go\<close>.  The job works on copies of the deployment and the application and on a
  context that a poll or the 30 minute limit may cancel while it runs; meanwhile other requests use the database.
  What happens around the job is the list \<open>dj_events\<close>: one entry is taken before each statement and each
  call that takes time, and says how the database changed and whether the context ended.
\<close>

section \<open>The job and its surroundings\<close>

datatype ctx_err = CtxCanceled | CtxDeadline

type_synonym job_event = "(database \<Rightarrow> database) \<times> ctx_err option"

record deploy_job =
  dj_deploy :: deployment
  dj_app :: application
  dj_ctx :: "ctx_err option"
  dj_events :: "job_event list"
  dj_world :: world

type_synonym 'a dj = "(deploy_job, 'a) act"

definition meanwhile :: "deploy_job \<Rightarrow> deploy_job" where
  "meanwhile j = (case dj_events j of [] \<Rightarrow> j
     | (f, c) # es \<Rightarrow> j\<lparr>dj_world := (dj_world j)\<lparr>db := f (db (dj_world j))\<rparr>,
         dj_ctx := (case dj_ctx j of None \<Rightarrow> c | Some e \<Rightarrow> Some e), dj_events := es\<rparr>)"

definition run_io :: "'a io \<Rightarrow> 'a dj" where
  "run_io m = (\<lambda>j. case m (dj_world j) of (r, w') \<Rightarrow> (r, j\<lparr>dj_world := w'\<rparr>))"

definition ctx_text :: "ctx_err \<Rightarrow> string" where
  "ctx_text c = (case c of CtxCanceled \<Rightarrow> ''context canceled'' | CtxDeadline \<Rightarrow> ''context deadline exceeded'')"

text \<open>A statement under \<open>context.Background()\<close>, and one under the job's context, which fails once the
  context has ended.\<close>

definition on_background :: "'a io \<Rightarrow> 'a dj" where
  "on_background m = (\<lambda>j. run_io m (meanwhile j))"

definition on_ctx :: "'a io \<Rightarrow> 'a dj" where
  "on_ctx m = (\<lambda>j. let j' = meanwhile j in
     case dj_ctx j' of Some c \<Rightarrow> (Inl (ErrMsg (ctx_text c)), j') | None \<Rightarrow> run_io m j')"

definition elapse :: "unit dj" where
  "elapse = modify meanwhile"

definition set_deploy :: "(time \<Rightarrow> deployment \<Rightarrow> deployment) \<Rightarrow> unit dj" where
  "set_deploy f = modify (\<lambda>j. j\<lparr>dj_deploy := f (clock (dj_world j)) (dj_deploy j)\<rparr>)"

definition save :: "unit dj" where
  "save = bind (gets dj_deploy) (\<lambda>d. attempt (on_ctx (deployments_update_row d)))"

definition save_anyway :: "unit dj" where
  "save_anyway = bind (gets dj_deploy) (\<lambda>d. attempt (on_background (deployments_update_row d)))"

definition app_status_now :: "app_status \<Rightarrow> unit dj" where
  "app_status_now s = bind (gets dj_app) (\<lambda>a. attempt (on_ctx (applications_update_status (bm_id a) s)))"

definition app_status_anyway :: "app_status \<Rightarrow> unit dj" where
  "app_status_anyway s = bind (gets dj_app) (\<lambda>a. attempt (on_background (applications_update_status (bm_id a) s)))"

definition tell :: "string \<Rightarrow> string \<Rightarrow> unit dj" where
  "tell ev detail = bind (gets dj_app) (\<lambda>a. on_background (notify_deploy a ev detail))"

definition finalize_job :: "platform \<Rightarrow> unit dj" where
  "finalize_job P = bind (gets dj_deploy) (\<lambda>d. bind (gets dj_app) (\<lambda>a. on_background (finalize_cancelled P d (Some a))))"

section \<open>The build\<close>

definition redact :: "string \<Rightarrow> string \<Rightarrow> string" where
  "redact tok s = (if tok = [] then s else replace_all tok ''[REDACTED]'' s)"

definition on_log :: "string \<Rightarrow> string \<Rightarrow> unit dj" where
  "on_log tok logs = seq (set_deploy (\<lambda>_ d. d\<lparr>d_log := redact tok logs\<rparr>)) save"

definition build :: "platform \<Rightarrow> unit dj" where
  "build P = bind (gets dj_app) (\<lambda>app. bind (gets dj_deploy) (\<lambda>d.
     seq (fails_with (pf_builder P app))
     (seq (attempt (on_background (cluster (CallBuild (bm_id app)))))
       (case pf_build P app (d_commit d) of (logs, outcome) \<Rightarrow>
         seq (for_each (on_log (pf_git_token P app)) logs)
           (seq elapse (case outcome of
              Inl (e, out) \<Rightarrow>
                seq (set_deploy (\<lambda>_ d. d\<lparr>d_log := (if out \<noteq> [] then out @ [CHR 0x0A, CHR 0x0A] @ ''--- Error ---'' @ [CHR 0x0A] @ e else e)\<rparr>))
                  (seq save (err (ErrMsg e)))
            | Inr (out, img) \<Rightarrow>
                seq (modify (\<lambda>j. j\<lparr>dj_app := (dj_app j)\<lparr>a_image := img\<rparr>\<rparr>))
                (bind (gets dj_app) (\<lambda>a.
                  seq (handle (on_ctx (applications_update_row a)) (\<lambda>e. err (ErrWrap ''update app image'' e)) ret)
                  (seq (set_deploy (\<lambda>_ d. d\<lparr>d_log := out, d_image := img\<rparr>)) save)))))))))"

section \<open>The job\<close>

definition sha_prefix :: "string \<Rightarrow> string" where
  "sha_prefix s = take 7 s"

text \<open>Whether the build is skipped: the latest deployment of the application succeeded with the same commit.\<close>

definition maybe_skip_build :: "bool \<Rightarrow> bool dj" where
  "maybe_skip_build force = bind (gets dj_app) (\<lambda>app. bind (gets dj_deploy) (\<lambda>d.
     if \<not> force \<and> \<not> a_no_cache app \<and> d_commit d \<noteq> [] then
       handle (on_ctx (deployments_get_latest_by_app (bm_id app)))
         (\<lambda>_. ret False)
         (\<lambda>l. if d_status l = DeploySuccess \<and> d_image l \<noteq> [] \<and> d_commit l \<noteq> [] \<and> d_commit l = d_commit d then
            seq (set_deploy (\<lambda>_ x. x\<lparr>d_log := ''Build skipped '' @ em_dash @ '' commit '' @ sha_prefix (d_commit d) @
                '' unchanged, reusing image.'' @ [CHR 0x0A] @ ''Use '' @ single_quoted ''Force Build'' @ '' to rebuild from scratch.'',
                d_image := d_image l\<rparr>))
            (seq (modify (\<lambda>j. j\<lparr>dj_app := (dj_app j)\<lparr>a_image := d_image l\<rparr>\<rparr>)) (seq save (ret True)))
          else ret False)
     else ret False))"

text \<open>What follows a failed build; the value of a phase is whether the job goes on.\<close>

definition build_failed :: "platform \<Rightarrow> go_error \<Rightarrow> bool dj" where
  "build_failed P e = bind (gets dj_ctx) (\<lambda>c.
     if c = Some CtxCanceled then seq (finalize_job P) (ret False)
     else bind (gets dj_deploy) (\<lambda>d.
       bind (if c = None then on_background (cancel_requested (bm_id d)) else ret False) (\<lambda>asked.
         if asked then seq (finalize_job P) (ret False)
         else seq (set_deploy (\<lambda>t x. x\<lparr>d_finished := Some t, d_status := DeployFailed\<rparr>))
           (seq (if c = Some CtxDeadline then
                   seq (set_deploy (\<lambda>_ x. x\<lparr>d_log := d_log x @ log_note ''Build timed out (30 min limit)''\<rparr>))
                     (tell ''build_timeout'' ''build timed out (30 min limit)'')
                 else tell ''deploy_failed'' (''build failed: '' @ pf_text P e))
           (seq save_anyway (seq (app_status_anyway AppError) (ret False)))))))"

definition reload_app :: "bool dj" where
  "reload_app = bind (gets dj_app) (\<lambda>app.
     handle (on_ctx (applications_get_by_id (bm_id app)))
       (\<lambda>_. seq (set_deploy (\<lambda>t x. x\<lparr>d_status := DeployFailed, d_finished := Some t,
              d_log := d_log x @ log_note ''Failed to reload app after build''\<rparr>))
          (seq save_anyway (seq (app_status_anyway AppError)
            (seq (tell ''deploy_failed'' ''failed to reload app after build'') (ret False)))))
       (\<lambda>a. seq (modify (\<lambda>j. j\<lparr>dj_app := a\<rparr>)) (ret True)))"

definition after_build :: "platform \<Rightarrow> bool dj" where
  "after_build P = bind (gets dj_ctx) (\<lambda>c. if c \<noteq> None then seq (finalize_job P) (ret False) else reload_app)"

definition build_phase :: "platform \<Rightarrow> bool dj" where
  "build_phase P = seq (set_deploy (\<lambda>_ x. x\<lparr>d_status := DeployBuilding\<rparr>)) (seq save
     (handle (build P) (build_failed P) (\<lambda>_. after_build P)))"

definition source_phase :: "platform \<Rightarrow> bool \<Rightarrow> bool dj" where
  "source_phase P force = bind (gets dj_app) (\<lambda>app.
     if a_source app = SourceGit then bind (maybe_skip_build force) (\<lambda>skip. if skip then ret True else build_phase P)
     else ret True)"

definition fail_early :: "string \<Rightarrow> unit dj" where
  "fail_early detail = seq (set_deploy (\<lambda>t x. x\<lparr>d_status := DeployFailed, d_finished := Some t\<rparr>))
     (seq save (seq (app_status_now AppError) (tell ''deploy_failed'' detail)))"

definition deploy_failed :: "platform \<Rightarrow> go_error \<Rightarrow> unit dj" where
  "deploy_failed P e = bind (gets dj_ctx) (\<lambda>c.
     if c \<noteq> None then finalize_job P
     else bind (gets dj_deploy) (\<lambda>d. bind (on_background (cancel_requested (bm_id d))) (\<lambda>asked.
       if asked then finalize_job P
       else seq (set_deploy (\<lambda>_ x. x\<lparr>d_status := DeployFailed\<rparr>))
         (seq save (seq (app_status_now AppError) (tell ''deploy_failed'' (''deploy failed: '' @ pf_text P e)))))))"

definition cleanup_completed_pods :: "platform \<Rightarrow> application \<Rightarrow> unit io" where
  "cleanup_completed_pods P a = (if pf_target P a \<noteq> None then ret ()
     else for_each (\<lambda>(n, ph). if ph = ''Succeeded'' \<or> ph = ''Failed'' then attempt (cluster (CallDeletePod (bm_id a) n)) else ret ())
       (pf_pods P a))"

definition deploy_succeeded :: "platform \<Rightarrow> unit dj" where
  "deploy_succeeded P = bind (gets dj_app) (\<lambda>app.
     seq (set_deploy (\<lambda>_ x. x\<lparr>d_status := DeploySuccess, d_image := a_image app\<rparr>))
     (seq save (seq (app_status_now AppRunning) (seq (attempt (on_ctx (applications_update_row app)))
       (if as_enabled (a_autoscaling app) \<and> pf_hpa P app \<noteq> None then
          seq (attempt (on_background (cluster (CallConfigureHPA (bm_id app)))))
            (tell ''deploy_success'' (a_name app @ '' deployed successfully, but autoscaling (HPA) failed to restore '' @ em_dash @
               '' re-save autoscaling settings to fix''))
        else seq (if as_enabled (a_autoscaling app) then attempt (on_background (cluster (CallConfigureHPA (bm_id app)))) else ret ())
          (seq (tell ''deploy_success'' (a_name app @ '' deployed successfully''))
            (on_background (cleanup_completed_pods P app))))))))"

definition merged_env :: "project option \<Rightarrow> application \<Rightarrow> str_map" where
  "merged_env p a = (case p of None \<Rightarrow> a_env a | Some x \<Rightarrow> (case p_env x of None \<Rightarrow> a_env a | Some e \<Rightarrow> e ++ a_env a))"

definition pull_secret :: "platform \<Rightarrow> application \<Rightarrow> string option dj" where
  "pull_secret P a = (case a_registry a of None \<Rightarrow> ret None
     | Some r \<Rightarrow> on_ctx (case pf_docker_config P r of Inl e \<Rightarrow> err e | Inr x \<Rightarrow> ret (Some x)))"

definition target_deploy :: "platform \<Rightarrow> application \<Rightarrow> str_map \<Rightarrow> unit dj" where
  "target_deploy P a env = seq (attempt (on_background (cluster (CallDeploy (bm_id a) (a_image a) env))))
     (fails_with (pf_deploy P a (a_image a)))"

definition deploy_phase :: "platform \<Rightarrow> unit dj" where
  "deploy_phase P = seq (set_deploy (\<lambda>_ x. x\<lparr>d_status := DeployDeploying\<rparr>)) (seq save
     (bind (gets dj_app) (\<lambda>app.
       bind (handle (on_ctx (projects_get_by_id (a_project app))) (\<lambda>_. ret None) (\<lambda>p. ret (Some p))) (\<lambda>p.
       handle (pull_secret P app)
         (\<lambda>e. fail_early (''registry auth failed: '' @ pf_text P e))
         (\<lambda>_. case pf_target P app of
             Some e \<Rightarrow> fail_early (''deploy target error: '' @ pf_text P e)
           | None \<Rightarrow> handle (target_deploy P app (merged_env p app))
               (\<lambda>e. seq (set_deploy (\<lambda>t x. x\<lparr>d_finished := Some t\<rparr>)) (deploy_failed P e))
               (\<lambda>_. seq (set_deploy (\<lambda>t x. x\<lparr>d_finished := Some t\<rparr>)) (deploy_succeeded P)))))))"

definition execute_deploy :: "platform \<Rightarrow> bool \<Rightarrow> unit dj" where
  "execute_deploy P force = seq (set_deploy (\<lambda>t x. x\<lparr>d_started := Some t\<rparr>))
     (bind (source_phase P force) (\<lambda>go. if go then deploy_phase P else ret ()))"

text \<open>\<open>RunDeployJob\<close>, with what happens around the execution.\<close>

definition run_deploy_job :: "platform \<Rightarrow> job_event list \<Rightarrow> uuid \<Rightarrow> bool \<Rightarrow> unit io" where
  "run_deploy_job P evs i force =
     handle (deployments_get_by_id i) (\<lambda>e. err (ErrWrap ''load deployment'' e)) (\<lambda>d.
       if is_terminal_deploy_status (d_status d) then ret ()
       else if d_cancel d then bind (try_app (d_app d)) (\<lambda>app. finalize_cancelled P d app)
       else handle (applications_get_by_id (d_app d)) (\<lambda>e. err (ErrWrap ''load application'' e)) (\<lambda>app.
         (\<lambda>w. (Inr (), dj_world (snd (execute_deploy P force
            \<lparr>dj_deploy = d, dj_app = app, dj_ctx = None, dj_events = evs, dj_world = w\<rparr>))))))"

end
