(* ===== verification/Calm_World.thy ===== *)
theory Calm_World imports Deploy_Service begin

text \<open>
  What the proofs about jobs share: worlds in which every statement succeeds, and rules for triples whose
  steps read a value or may fail without consequence.
\<close>

section \<open>Worlds in which every statement succeeds\<close>

definition calm :: "world \<Rightarrow> bool" where
  "calm w \<longleftrightarrow> faults w = []"

lemma calm_fault [simp]: "calm w \<Longrightarrow> \<not> fault_now w"
  by (simp add: calm_def)

lemma calm_next [simp]: "calm w \<Longrightarrow> calm (next_fault w)"
  by (simp add: calm_def next_fault_def)

lemma calm_updates [simp]: "calm (w\<lparr>db := d\<rparr>) = calm w" "calm (w\<lparr>outbox := o'\<rparr>) = calm w" "calm (w\<lparr>calls := c\<rparr>) = calm w"
  "calm (w\<lparr>queue := q\<rparr>) = calm w" "calm (w\<lparr>id_next := n\<rparr>) = calm w" "calm (next_answer w) = calm w"
  by (simp_all add: calm_def)

lemma calm_statement: "keeps calm (statement f)"
  by (auto simp: keeps_def statement_def split: prod.splits)

lemma calm_steps [keeps_intros]:
  "keeps calm (query f)" "keeps calm (query_row g)" "keeps calm (exec h)" "keeps calm now"
  "keeps calm (cluster c)" "keeps calm (notify og ev ti de)" "keeps calm (update_row uq tbl upd r)"
  by (simp_all add: query_def query_row_def exec_def update_row_def calm_statement now_def keeps_intros)
     (simp_all add: keeps_def cluster_def)

lemma calm_more [keeps_intros]:
  "keeps calm (insert_row uq tbl upd r)" "keeps calm (update_where tbl upd P f)" "keeps calm (enqueue j)"
  by (simp_all add: update_where_def calm_statement) (auto simp: keeps_def insert_row_def enqueue_def Let_def)

section \<open>Rules for triples\<close>

lemma ens_attempt:
  "ensures A m (\<lambda>r s. B s) \<Longrightarrow> ensures A (attempt m) (succeeds (\<lambda>_. B))"
  by (auto simp: ensures_def attempt_eval)

text \<open>A step on a value the job holds: the value is fixed before the step is looked at.\<close>

lemma ens_gets_fixed:
  assumes "\<And>j. A j \<Longrightarrow> V (f j)" "\<And>x. V x \<Longrightarrow> ensures A (k x) Q"
  shows "ensures A (bind (gets f) k) Q"
  using assms by (auto simp: ensures_def bind_def)

lemma ens_succeedsD: "ensures A m (succeeds B) \<Longrightarrow> A s \<Longrightarrow> \<exists>x s'. m s = (Inr x, s') \<and> B x s'"
  unfolding ensures_def by (metis prod.collapse succeeds_simps(2) succeeds_simps(1) sum.exhaust)

lemma ens_succeedsI: "ensures A m (\<lambda>r. B) \<Longrightarrow> (\<And>s. \<exists>x. fst (m s) = Inr x) \<Longrightarrow> ensures A m (succeeds (\<lambda>_. B))"
  unfolding ensures_def by (metis succeeds_simps(1))

lemma ens_fails_with: "ensures A (fails_with e) (\<lambda>_. A)"
  by (auto simp: fails_with_def ensures_def split: option.splits)

lemma ens_seq_any: "ensures A m (\<lambda>_. A) \<Longrightarrow> ensures A k (\<lambda>_. A) \<Longrightarrow> ensures A (seq m k) (\<lambda>_. A)"
  unfolding seq_def bind_def by (rule ens_handle) (auto intro: ens_err)

lemma ens_any: "ensures A m (succeeds (\<lambda>_. A)) \<Longrightarrow> ensures A m (\<lambda>_. A)"
  by (erule ens_post) (auto simp: succeeds_def split: sum.splits)

lemma ens_reads_calm:
  assumes "reads m" "keeps calm m" "\<And>w w'. A w \<Longrightarrow> calm w' \<Longrightarrow> db w' = db w \<Longrightarrow> A w'" "\<And>w. A w \<Longrightarrow> calm w"
  shows "ensures A m (\<lambda>r. A)"
  using assms unfolding ensures_def keeps_def reads_def by blast

end
