(* ===== verification/Deploy_Finish.thy ===== *)
theory Deploy_Finish imports Deploy_Job Calm_World begin

text \<open>
  How a deploy job ends.  The rules for each phase of \<open>Deploy_Job\<close> are triples over the predicate \<open>job_at\<close>:
  what is known of the rows of the deployment and of the application, and of the copies the job works on,
  while other requests may do anything to other rows.
\<close>

section \<open>The rows a job is about\<close>

definition bystander :: "uuid \<Rightarrow> uuid \<Rightarrow> job_event \<Rightarrow> bool" where
  "bystander i ai ev \<longleftrightarrow> snd ev = None \<and> (\<forall>d.
     by_id i (deployments (fst ev d)) = by_id i (deployments d) \<and>
     by_id ai (applications (fst ev d)) = by_id ai (applications d) \<and>
     (distinct_ids (deployments d) \<longrightarrow> distinct_ids (deployments (fst ev d))) \<and>
     (distinct_ids (applications d) \<longrightarrow> distinct_ids (applications (fst ev d))))"

definition rows_at :: "uuid \<Rightarrow> uuid \<Rightarrow> app_status \<Rightarrow> (deployment \<Rightarrow> bool) \<Rightarrow> database \<Rightarrow> bool" where
  "rows_at i ai s Q d \<longleftrightarrow> distinct_ids (deployments d) \<and> distinct_ids (applications d) \<and>
     (\<exists>x. by_id i (deployments d) = Some x \<and> Q x) \<and> (\<exists>a. by_id ai (applications d) = Some a \<and> a_status a = s)"

definition job_at :: "uuid \<Rightarrow> uuid \<Rightarrow> app_status \<Rightarrow> app_status \<Rightarrow> (deployment \<Rightarrow> bool) \<Rightarrow> (deployment \<Rightarrow> bool) \<Rightarrow> deploy_job \<Rightarrow> bool" where
  "job_at i ai s s' Q R j \<longleftrightarrow> dj_ctx j = None \<and> list_all (bystander i ai) (dj_events j) \<and> calm (dj_world j) \<and>
     rows_at i ai s' Q (db (dj_world j)) \<and> bm_id (dj_deploy j) = i \<and> live (dj_deploy j) \<and> R (dj_deploy j) \<and>
     bm_id (dj_app j) = ai \<and> live (dj_app j) \<and> a_status (dj_app j) = s"

lemma bystander_rows: "bystander i ai (f, c) \<Longrightarrow> rows_at i ai s Q d \<Longrightarrow> rows_at i ai s Q (f d)"
  unfolding bystander_def rows_at_def by simp

lemma meanwhile_at: "job_at i ai s s' Q R j \<Longrightarrow> job_at i ai s s' Q R (meanwhile j)"
  unfolding job_at_def meanwhile_def
  by (auto split: list.splits simp: bystander_rows) (auto simp: bystander_def)

lemma at_ctx: "job_at i ai s s' Q R j \<Longrightarrow> dj_ctx j = None"
  by (simp add: job_at_def)

lemma at_weaken: "job_at i ai s s' Q R j \<Longrightarrow> (\<And>d. Q d \<Longrightarrow> Q' d) \<Longrightarrow> (\<And>d. R d \<Longrightarrow> R' d) \<Longrightarrow> job_at i ai s s' Q' R' j"
  by (auto simp: job_at_def rows_at_def)

definition world_at :: "uuid \<Rightarrow> uuid \<Rightarrow> app_status \<Rightarrow> (deployment \<Rightarrow> bool) \<Rightarrow> world \<Rightarrow> bool" where
  "world_at i ai s Q w \<longleftrightarrow> calm w \<and> rows_at i ai s Q (db w)"

text \<open>A step of the job is a step of the world: the same under either context while the job's has not ended.\<close>

lemma ens_io:
  assumes "ensures (world_at i ai s' Q) m (\<lambda>r w. world_at i ai s'' Q' w \<and> V r)"
  shows "ensures (job_at i ai s s' Q R) (on_background m) (\<lambda>r j. job_at i ai s s'' Q' R j \<and> V r)"
    and "ensures (job_at i ai s s' Q R) (on_ctx m) (\<lambda>r j. job_at i ai s s'' Q' R j \<and> V r)"
proof -
  have run: "job_at i ai s s'' Q' R (snd (run_io m j)) \<and> V (fst (run_io m j))" if "job_at i ai s s' Q R j" for j
    using that assms unfolding ensures_def run_io_def job_at_def world_at_def by (auto split: prod.splits)
  then show "ensures (job_at i ai s s' Q R) (on_background m) (\<lambda>r j. job_at i ai s s'' Q' R j \<and> V r)"
    by (simp add: ensures_def on_background_def meanwhile_at)
  show "ensures (job_at i ai s s' Q R) (on_ctx m) (\<lambda>r j. job_at i ai s s'' Q' R j \<and> V r)"
    using run by (simp add: ensures_def on_ctx_def Let_def meanwhile_at at_ctx [OF meanwhile_at])
qed

lemma ens_reads:
  "reads m \<Longrightarrow> keeps calm m \<Longrightarrow> ensures (world_at i ai s Q) m (\<lambda>r w. world_at i ai s Q w)"
  by (simp add: ensures_def keeps_def reads_def world_at_def)

text \<open>Both contexts at once, for steps whose result does not matter.\<close>

lemma ens_io_any:
  assumes "ensures (world_at i ai s' Q) k (\<lambda>r w. world_at i ai s'' Q' w)" "m = on_ctx \<or> m = on_background"
  shows "ensures (job_at i ai s s' Q R) (m k) (\<lambda>r j. job_at i ai s s'' Q' R j)"
proof -
  have k: "ensures (world_at i ai s' Q) k (\<lambda>r w. world_at i ai s'' Q' w \<and> True)" using assms(1) by simp
  from ens_io [OF k] assms(2) show ?thesis by auto
qed

section \<open>Steps\<close>

lemma ens_set_deploy:
  assumes "\<And>t d. bm_id (f t d) = bm_id d \<and> bm_deleted (f t d) = bm_deleted d" "\<And>t d. R d \<Longrightarrow> R' (f t d)"
  shows "ensures (job_at i ai s s' Q R) (set_deploy f) (succeeds (\<lambda>_. job_at i ai s s' Q R'))"
  using assms by (simp add: ensures_def set_deploy_def job_at_def live_def)

lemma update_deployment_at:
  assumes "bm_id d = i" "live d" "R d"
  shows "ensures (world_at i ai s Q) (deployments_update_row d) (\<lambda>r w. world_at i ai s R w)"
  using assms
  by (auto simp: ensures_def world_at_def deployments_update_row_def update_row_def statement_def no_index_def rows_at_def
      by_id_replace_pk)

lemma update_application_at:
  assumes "bm_id a = ai" "live a" "a_status a = s'"
  shows "ensures (world_at i ai s Q) (applications_update_row a) (\<lambda>r w. world_at i ai s' Q w \<and> r = Inr ())"
  using assms
  by (auto simp: ensures_def world_at_def applications_update_row_def update_row_def statement_def no_index_def rows_at_def
      by_id_replace_pk)

lemma update_status_at:
  "ensures (world_at i ai s Q) (applications_update_status ai s') (\<lambda>r w. world_at i ai s' Q w)"
proof -
  have "by_id ai (update_live (\<lambda>a. bm_id a = ai) (\<lambda>a. a\<lparr>a_status := s'\<rparr>) t) = map_option (\<lambda>a. a\<lparr>a_status := s'\<rparr>) (by_id ai t)"
    if "distinct_ids t" for t :: "application list"
    using by_id_update_id [OF _ _ that, where f = "\<lambda>a. a\<lparr>a_status := s'\<rparr>" and i = ai and j = ai]
    by (simp add: live_def split: option.splits)
  then show ?thesis
    by (auto simp: ensures_def world_at_def applications_update_status_def exec_def statement_def rows_at_def
        distinct_ids_update_live)
qed

lemma ens_save_gen:
  assumes "m = on_ctx \<or> m = on_background"
  shows "ensures (job_at i ai s s' Q R) (bind (gets dj_deploy) (\<lambda>d. attempt (m (deployments_update_row d))))
    (succeeds (\<lambda>_. job_at i ai s s' R R))"
  using assms
  by (intro ens_gets_fixed [where V = "\<lambda>d. bm_id d = i \<and> live d \<and> R d"] ens_attempt ens_io_any update_deployment_at)
     (auto simp: job_at_def)

lemmas ens_save = ens_save_gen [of on_ctx, folded save_def, simplified]
lemmas ens_save_anyway = ens_save_gen [of on_background, folded save_anyway_def, simplified]

lemma ens_status_gen:
  assumes "m = on_ctx \<or> m = on_background"
  shows "ensures (job_at i ai s s' Q R) (bind (gets dj_app) (\<lambda>a. attempt (m (applications_update_status (bm_id a) s''))))
    (succeeds (\<lambda>_. job_at i ai s s'' Q R))"
proof (rule ens_gets_fixed [where V = "\<lambda>a. bm_id a = ai"])
  show "ensures (job_at i ai s s' Q R) (attempt (m (applications_update_status (bm_id a) s''))) (succeeds (\<lambda>_. job_at i ai s s'' Q R))"
    if "bm_id a = ai" for a :: application
    unfolding that using assms by (intro ens_attempt ens_io_any update_status_at)
qed (simp add: job_at_def)

lemmas ens_app_status = ens_status_gen [of on_ctx, folded app_status_now_def, simplified]
lemmas ens_app_status_anyway = ens_status_gen [of on_background, folded app_status_anyway_def, simplified]

lemma notify_deploy_reads: "reads (notify_deploy a ev de)" "keeps calm (notify_deploy a ev de)"
  unfolding notify_deploy_def projects_get_by_id_def attach_team_def
  by (intro reads_intros keeps_intros)+

lemma ens_background_end:
  "ensures (world_at i ai s' Q) m (succeeds (\<lambda>_ w. B (db w))) \<Longrightarrow>
   ensures (job_at i ai s s' Q R) (on_background m) (succeeds (\<lambda>_ j. B (db (dj_world j))))"
  unfolding ensures_def on_background_def run_io_def using meanwhile_at [of i ai s s' Q R]
  by (fastforce simp: succeeds_def world_at_def job_at_def split: prod.splits sum.splits)

lemma notify_deploy_at: "ensures (world_at i ai s Q) (notify_deploy a ev de) (succeeds (\<lambda>_. world_at i ai s Q))"
  by (intro ens_succeedsI ens_reads notify_deploy_reads)
     (simp add: notify_deploy_def handle_def split: prod.splits sum.splits)

lemma ens_tell: "ensures (job_at i ai s s' Q R) (tell ev de) (succeeds (\<lambda>_. job_at i ai s s' Q R))"
  unfolding tell_def
proof (rule ens_gets_fixed [where V = "\<lambda>_. True"])
  have "ensures (world_at i ai s' Q) (notify_deploy a ev de) (\<lambda>r w. world_at i ai s' Q w \<and> (\<exists>x. r = Inr x))" for a
    by (rule ens_post [OF notify_deploy_at]) (auto simp: succeeds_def split: sum.splits)
  from ens_io(1) [OF this]
  show "ensures (job_at i ai s s' Q R) (on_background (notify_deploy a ev de)) (succeeds (\<lambda>_. job_at i ai s s' Q R))" for a
    by (rule ens_post) auto
qed simp

lemmas ens_steps = ens_save ens_save_anyway ens_app_status ens_app_status_anyway ens_tell

section \<open>Phases\<close>

definition of_app :: "uuid \<Rightarrow> deployment \<Rightarrow> bool" where
  "of_app ai d \<longleftrightarrow> d_app d = ai"

abbreviation job_on :: "uuid \<Rightarrow> uuid \<Rightarrow> app_status \<Rightarrow> deploy_job \<Rightarrow> bool" where
  "job_on i ai s \<equiv> job_at i ai s s (of_app ai) (of_app ai)"

definition ended_with :: "deploy_status \<Rightarrow> deployment \<Rightarrow> bool" where
  "ended_with ds d \<longleftrightarrow> d_status d = ds \<and> d_finished d \<noteq> None"

definition rows_ended :: "uuid \<Rightarrow> uuid \<Rightarrow> app_status \<Rightarrow> database \<Rightarrow> bool" where
  "rows_ended i ai s d \<longleftrightarrow> rows_at i ai s (ended_with DeploySuccess) d \<or> rows_at i ai AppError (ended_with DeployFailed) d \<or>
     rows_at i ai AppRunning (ended_with DeployCancelled) d \<or> rows_at i ai AppIdle (ended_with DeployCancelled) d"

definition job_ended :: "uuid \<Rightarrow> uuid \<Rightarrow> app_status \<Rightarrow> deploy_job \<Rightarrow> bool" where
  "job_ended i ai s j \<longleftrightarrow> rows_ended i ai s (db (dj_world j))"

lemma job_endedI:
  "job_at i ai s0 s (ended_with DeploySuccess) R j \<Longrightarrow> job_ended i ai s j"
  "job_at i ai s0 AppError (ended_with DeployFailed) R j \<Longrightarrow> job_ended i ai s j"
  by (auto simp: job_at_def job_ended_def rows_ended_def)

lemma set_app_status_at: "ensures (world_at i ai s Q) (set_app_status ai s') (succeeds (\<lambda>_. world_at i ai s' Q))"
  unfolding set_app_status_def by (intro ens_attempt update_status_at)

lemma finalize_cancelled_at:
  assumes "bm_id d = i" "live d" "d_app d = ai"
  shows "ensures (world_at i ai s Q) (finalize_cancelled P d app) (succeeds (\<lambda>_ w. rows_ended i ai s0 (db w)))"
proof -
  have u: "ensures (world_at i ai s Q) (update_deploy (cancelled_row t d)) (succeeds (\<lambda>_. world_at i ai s (ended_with DeployCancelled)))" for t
    unfolding update_deploy_def using assms
    by (intro ens_attempt update_deployment_at) (simp_all add: cancelled_row_def ended_with_def live_def)
  have st: "ensures (world_at i ai s (ended_with DeployCancelled)) (set_app_status (d_app d) st) (succeeds (\<lambda>_ w. rows_ended i ai s0 (db w)))"
    if "st \<in> {AppRunning, AppIdle}" for st
    using that unfolding assms(3)
    by (intro ens_post [OF set_app_status_at]) (auto simp: succeeds_def world_at_def rows_ended_def split: sum.splits)
  have t: "ensures (world_at i ai s Q) now (succeeds (\<lambda>_. world_at i ai s Q))" by (simp add: ensures_def)
  show ?thesis
    unfolding finalize_cancelled_def
    by (intro ens_bind [OF t] ens_seq [OF u]) (auto split: option.splits intro!: ens_seq [OF notify_deploy_at] st)
qed

lemma ens_finalize:
  "ensures (job_at i ai s s' Q (of_app ai)) (finalize_job P) (succeeds (\<lambda>_. job_ended i ai s0))"
  unfolding finalize_job_def
proof (rule ens_gets_fixed [where V = "\<lambda>d. bm_id d = i \<and> live d \<and> d_app d = ai"])
  show "ensures (job_at i ai s s' Q (of_app ai)) (bind (gets dj_app) (\<lambda>a. on_background (finalize_cancelled P d (Some a))))
      (succeeds (\<lambda>_. job_ended i ai s0))" if "bm_id d = i \<and> live d \<and> d_app d = ai" for d
    unfolding job_ended_def using that
    by (intro ens_gets_fixed [where V = "\<lambda>_. True"] ens_background_end finalize_cancelled_at) auto
qed (simp add: job_at_def of_app_def)

text \<open>While the job goes on, a step keeps the copies it works on: \<open>of_app\<close> is all the rules ask of the deployment.\<close>

lemma ens_set:
  assumes "\<And>t d. bm_id (f t d) = bm_id d \<and> bm_deleted (f t d) = bm_deleted d \<and> d_app (f t d) = d_app d"
  shows "ensures (job_at i ai s s' Q (of_app ai)) (set_deploy f) (succeeds (\<lambda>_. job_at i ai s s' Q (of_app ai)))"
  using assms by (intro ens_set_deploy) (auto simp: of_app_def)

lemma ens_on_log: "ensures (job_on i ai s) (on_log tok x) (succeeds (\<lambda>_. job_on i ai s))"
  unfolding on_log_def by (intro ens_seq [OF ens_set] ens_save) simp

lemma ens_call: "ensures (job_at i ai s s' Q R) (attempt (on_background (cluster c))) (succeeds (\<lambda>_. job_at i ai s s' Q R))"
  by (intro ens_attempt ens_io_any [where m = on_background] ens_reads reads_intros keeps_intros) simp

lemma ens_elapse: "ensures (job_at i ai s s' Q R) elapse (succeeds (\<lambda>_. job_at i ai s s' Q R))"
  by (simp add: ensures_def elapse_def meanwhile_at)

lemma ens_build: "ensures (job_on i ai s) (build P) (\<lambda>_. job_on i ai s)"
proof -
  have img: "ensures (job_on i ai s) (modify (\<lambda>j. j\<lparr>dj_app := (dj_app j)\<lparr>a_image := img\<rparr>\<rparr>)) (\<lambda>_. job_on i ai s)" for img
    by (simp add: ensures_def job_at_def live_def)
  have set: "ensures (job_on i ai s) (seq (set_deploy (\<lambda>_ d. f d)) save) (succeeds (\<lambda>_. job_on i ai s))"
    if "\<And>d. bm_id (f d) = bm_id d \<and> bm_deleted (f d) = bm_deleted d \<and> d_app (f d) = d_app d" for f
    using that by (intro ens_seq [OF ens_set] ens_save) simp
  have upd: "ensures (job_on i ai s) (bind (gets dj_app) (\<lambda>a.
      seq (handle (on_ctx (applications_update_row a)) (\<lambda>e. err (ErrWrap t e)) ret) k)) (\<lambda>_. job_on i ai s)"
    if "ensures (job_on i ai s) k (\<lambda>_. job_on i ai s)" for t k
  proof (rule ens_gets_fixed [where V = "\<lambda>a. bm_id a = ai \<and> live a \<and> a_status a = s"])
    fix a :: application
    assume a: "bm_id a = ai \<and> live a \<and> a_status a = s"
    have "ensures (job_on i ai s) (on_ctx (applications_update_row a)) (\<lambda>_. job_on i ai s)"
      using a by (intro ens_post [OF ens_io(2) [OF update_application_at]]) auto
    then show "ensures (job_on i ai s) (seq (handle (on_ctx (applications_update_row a)) (\<lambda>e. err (ErrWrap t e)) ret) k) (\<lambda>_. job_on i ai s)"
      by (intro ens_seq_any that ens_handle [where R = "\<lambda>_. job_on i ai s"] ens_err ens_ret)
  qed (simp add: job_at_def)
  show ?thesis
    unfolding build_def
    by (intro ens_gets_fixed [where V = "\<lambda>_. True"] ens_seq_any ens_fails_with ens_any [OF ens_call])
       (auto split: prod.splits sum.splits intro!: ens_seq_any ens_any [OF ens_for_each] ens_on_log ens_any [OF ens_elapse]
          ens_any [OF set] img upd ens_err ens_any [OF ens_set] ens_any [OF ens_save])
qed

lemma ens_ctx: "(\<And>j. A j \<Longrightarrow> dj_ctx j = None) \<Longrightarrow> ensures A (k None) Q \<Longrightarrow> ensures A (bind (gets dj_ctx) k) Q"
  by (rule ens_gets_fixed [where V = "\<lambda>c. c = None"]) auto

lemma ens_cancel_requested:
  "ensures (job_at i ai s s' Q R) (on_background (cancel_requested x)) (succeeds (\<lambda>_. job_at i ai s s' Q R))"
proof -
  have "reads (cancel_requested x)" "keeps calm (cancel_requested x)"
    unfolding cancel_requested_def deployments_get_by_id_def by (intro reads_intros keeps_intros)+
  moreover have "\<exists>y. fst (cancel_requested x w) = Inr y" for w
    by (auto simp: cancel_requested_def handle_def split: prod.splits sum.splits intro: exI [of _ False])
  ultimately have "ensures (world_at i ai s' Q) (cancel_requested x) (\<lambda>r w. world_at i ai s' Q w \<and> (\<exists>y. r = Inr y))"
    using ens_reads by (simp add: ensures_def)
  from ens_io(1) [OF this] show ?thesis by (rule ens_post) auto
qed

definition stopped :: "uuid \<Rightarrow> uuid \<Rightarrow> app_status \<Rightarrow> go_error + bool \<Rightarrow> deploy_job \<Rightarrow> bool" where
  "stopped i ai s r j \<longleftrightarrow> r = Inr False \<and> job_ended i ai s j"

lemma ens_stop:
  "ensures A m (succeeds (\<lambda>_. job_ended i ai s)) \<Longrightarrow> ensures A (seq m (ret False)) (stopped i ai s)"
  by (erule ens_seq) (auto simp: stopped_def intro: ens_ret)

lemma ens_seq_stop:
  "ensures A m (succeeds (\<lambda>_. B)) \<Longrightarrow> ensures B (seq k (ret False)) Q \<Longrightarrow> ensures A (seq m (seq k (ret False))) Q"
  by (rule ens_seq)

text \<open>The four steps that end a job as failed.\<close>

lemma ens_failed_row:
  assumes "\<And>t d. bm_id (f t d) = bm_id d \<and> bm_deleted (f t d) = bm_deleted d"
    "\<And>t d. R d \<Longrightarrow> ended_with DeployFailed (f t d)"
  shows "ensures (job_at i ai s s' Q R) (set_deploy f) (succeeds (\<lambda>_. job_at i ai s s' Q (ended_with DeployFailed)))"
  using assms by (rule ens_set_deploy)

lemma ens_ended: "ensures A m (succeeds (\<lambda>_. job_at i ai s0 AppError (ended_with DeployFailed) R)) \<Longrightarrow>
    ensures A m (succeeds (\<lambda>_. job_ended i ai s))"
  by (erule ens_post) (auto simp: succeeds_def job_endedI split: sum.splits)

lemma ens_ret_stop: "ensures (job_at i ai s0 AppError (ended_with DeployFailed) R) (ret False) (stopped i ai s)"
  by (rule ens_ret) (simp add: stopped_def job_endedI)

lemma ens_build_failed: "ensures (job_on i ai s) (build_failed P e) (stopped i ai s)"
proof -
  have fail: "ensures (job_on i ai s)
     (seq (set_deploy (\<lambda>t x. x\<lparr>d_finished := Some t, d_status := DeployFailed\<rparr>))
       (seq (tell ev de) (seq save_anyway (seq (app_status_anyway AppError) (ret False))))) (stopped i ai s)" for ev de
    by (rule ens_seq [OF ens_failed_row] ens_seq [OF ens_tell] ens_seq [OF ens_save_anyway]
        ens_seq [OF ens_app_status_anyway] ens_ret_stop | simp add: ended_with_def)+
  show ?thesis
    unfolding build_failed_def
    by (rule ens_ctx, erule at_ctx, simp)
       (intro ens_gets_fixed [where V = "\<lambda>_. True"] ens_bind [OF ens_cancel_requested] ens_if ens_stop ens_finalize fail TrueI)
qed

lemma ens_app_get:
  "ensures (job_on i ai s) (on_ctx (applications_get_by_id ai))
     (\<lambda>r j. job_on i ai s j \<and> (\<forall>a. r = Inr a \<longrightarrow> bm_id a = ai \<and> live a \<and> a_status a = s))"
proof (rule ens_io(2))
  show "ensures (world_at i ai s (of_app ai)) (applications_get_by_id ai)
     (\<lambda>r w. world_at i ai s (of_app ai) w \<and> (\<forall>a. r = Inr a \<longrightarrow> bm_id a = ai \<and> live a \<and> a_status a = s))"
    by (auto simp: ensures_def world_at_def rows_at_def applications_get_by_id_def query_row_def statement_def dest: find_live_iff)
qed

lemma ens_reload_app:
  "ensures (job_on i ai s) reload_app (\<lambda>r j. (r = Inr True \<and> job_on i ai s j) \<or> stopped i ai s r j)"
  unfolding reload_app_def
proof (rule ens_gets_fixed [where V = "\<lambda>a. bm_id a = ai"])
  fix app :: application
  assume a: "bm_id app = ai"
  have reload: "ensures (\<lambda>j. job_on i ai s j \<and> bm_id a = ai \<and> live a \<and> a_status a = s)
      (seq (modify (\<lambda>j. j\<lparr>dj_app := a\<rparr>)) (ret True)) (\<lambda>r j. (r = Inr True \<and> job_on i ai s j) \<or> stopped i ai s r j)" for a :: application
    by (auto simp: ensures_def seq_def bind_def handle_def job_at_def)
  have lost: "ensures (job_on i ai s) (seq (set_deploy (\<lambda>t x. x\<lparr>d_status := DeployFailed, d_finished := Some t,
        d_log := d_log x @ n\<rparr>)) (seq save_anyway (seq (app_status_anyway AppError) (seq (tell ev de) (ret False))))) (stopped i ai s)" for n ev de
    by (rule ens_seq [OF ens_failed_row] ens_seq [OF ens_tell] ens_seq [OF ens_save_anyway]
        ens_seq [OF ens_app_status_anyway] ens_ret_stop | simp add: ended_with_def)+
  show "ensures (job_on i ai s) (handle (on_ctx (applications_get_by_id (bm_id app)))
       (\<lambda>_. seq (set_deploy (\<lambda>t x. x\<lparr>d_status := DeployFailed, d_finished := Some t,
              d_log := d_log x @ log_note ''Failed to reload app after build''\<rparr>))
          (seq save_anyway (seq (app_status_anyway AppError)
            (seq (tell ''deploy_failed'' ''failed to reload app after build'') (ret False)))))
       (\<lambda>a. seq (modify (\<lambda>j. j\<lparr>dj_app := a\<rparr>)) (ret True)))
     (\<lambda>r j. (r = Inr True \<and> job_on i ai s j) \<or> stopped i ai s r j)"
    unfolding a by (rule ens_handle [OF ens_app_get]) (auto intro: ens_pre [OF ens_post [OF lost]] ens_pre [OF reload])
qed (simp add: job_at_def)

lemma ens_build_phase:
  "ensures (job_on i ai s) (build_phase P) (\<lambda>r j. (r = Inr True \<and> job_on i ai s j) \<or> stopped i ai s r j)"
  unfolding build_phase_def after_build_def
proof (intro ens_seq [OF ens_set] ens_seq [OF ens_save] ens_handle [OF ens_build])
  show "ensures (job_on i ai s) (bind (gets dj_ctx) (\<lambda>c. if c \<noteq> None then seq (finalize_job P) (ret False) else reload_app))
      (\<lambda>r j. (r = Inr True \<and> job_on i ai s j) \<or> stopped i ai s r j)"
    by (rule ens_ctx, erule at_ctx) (simp add: ens_reload_app)
qed (auto intro: ens_post [OF ens_build_failed])

lemma ens_skip: "ensures (job_on i ai s) (maybe_skip_build force) (succeeds (\<lambda>_. job_on i ai s))"
proof -
  have app: "ensures (job_on i ai s) (modify (\<lambda>j. j\<lparr>dj_app := (dj_app j)\<lparr>a_image := img\<rparr>\<rparr>)) (succeeds (\<lambda>_. job_on i ai s))" for img
    by (simp add: ensures_def job_at_def live_def)
  have get: "ensures (job_on i ai s) (on_ctx (deployments_get_latest_by_app x)) (\<lambda>_. job_on i ai s)" for x
    unfolding deployments_get_latest_by_app_def by (intro ens_io_any [where m = on_ctx] ens_reads reads_intros keeps_intros) simp
  show ?thesis
    unfolding maybe_skip_build_def
    by (intro ens_gets_fixed [where V = "\<lambda>_. True"] TrueI ens_if ens_handle [OF get] ens_ret
        ens_seq [OF ens_set] ens_seq [OF app] ens_seq [OF ens_save]) simp_all
qed

lemma ens_source_phase:
  "ensures (job_on i ai s) (source_phase P force) (\<lambda>r j. (r = Inr True \<and> job_on i ai s j) \<or> stopped i ai s r j)"
  unfolding source_phase_def
  by (intro ens_gets_fixed [where V = "\<lambda>_. True"] TrueI ens_if ens_bind [OF ens_skip] ens_build_phase ens_ret) simp_all

lemma ens_fail_early: "ensures (job_at i ai s s' Q R) (fail_early de) (succeeds (\<lambda>_. job_ended i ai s0))"
  unfolding fail_early_def
  by (intro ens_ended) (rule ens_seq [OF ens_failed_row] ens_seq [OF ens_save] ens_seq [OF ens_app_status] ens_tell
      | simp add: ended_with_def)+

definition stamped :: "uuid \<Rightarrow> deployment \<Rightarrow> bool" where
  "stamped ai d \<longleftrightarrow> d_app d = ai \<and> d_finished d \<noteq> None"

lemma ens_deploy_failed: "ensures (job_at i ai s s' Q (stamped ai)) (deploy_failed P e) (succeeds (\<lambda>_. job_ended i ai s0))"
proof -
  have fin: "ensures (job_at i ai s s' Q (stamped ai)) (finalize_job P) (succeeds (\<lambda>_. job_ended i ai s0))"
    by (rule ens_pre [OF ens_finalize]) (auto elim!: at_weaken simp: stamped_def of_app_def)
  show ?thesis
    unfolding deploy_failed_def
    by (rule ens_ctx, erule at_ctx, simp)
       (intro ens_gets_fixed [where V = "\<lambda>_. True"] TrueI ens_bind [OF ens_cancel_requested] ens_if fin ens_ended,
        (rule ens_seq [OF ens_failed_row] ens_seq [OF ens_save] ens_seq [OF ens_app_status] ens_tell
          | simp add: ended_with_def stamped_def)+)
qed

lemma cleanup_pods_at: "ensures (world_at i ai s Q) (cleanup_completed_pods P a) (succeeds (\<lambda>_. world_at i ai s Q))"
proof -
  have d: "ensures (world_at i ai s Q) (attempt (cluster c)) (succeeds (\<lambda>_. world_at i ai s Q))" for c
    by (intro ens_attempt ens_reads reads_intros keeps_intros)
  show ?thesis
    unfolding cleanup_completed_pods_def
    by (intro ens_if ens_ret ens_for_each) (auto split: prod.splits intro!: d ens_ret)
qed

lemma ens_deploy_succeeded:
  "ensures (job_at i ai s s' Q (stamped ai)) (deploy_succeeded P) (succeeds (\<lambda>_. job_ended i ai s))"
  unfolding deploy_succeeded_def
proof (rule ens_gets_fixed [where V = "\<lambda>a. bm_id a = ai \<and> live a \<and> a_status a = s"])
  fix app :: application
  assume a: "bm_id app = ai \<and> live app \<and> a_status app = s"
  let ?E = "ended_with DeploySuccess"
  have upd: "ensures (job_at i ai s st ?E ?E) (attempt (on_ctx (applications_update_row app))) (succeeds (\<lambda>_. job_at i ai s s ?E ?E))" for st
    using a by (intro ens_attempt ens_post [OF ens_io(2) [OF update_application_at]]) auto
  have tell: "ensures (job_at i ai s s ?E ?E) (tell ev de) (succeeds (\<lambda>_. job_ended i ai s))" for ev de
    by (rule ens_post [OF ens_tell]) (auto simp: succeeds_def job_endedI split: sum.splits)
  have pods: "ensures (job_at i ai s s ?E ?E) (on_background (cleanup_completed_pods P app)) (succeeds (\<lambda>_. job_ended i ai s))"
    unfolding job_ended_def
    by (intro ens_background_end ens_post [OF cleanup_pods_at]) (auto simp: succeeds_def world_at_def rows_ended_def split: sum.splits)
  have hpa: "ensures (job_at i ai s s ?E ?E) (if b then attempt (on_background (cluster c)) else ret ()) (succeeds (\<lambda>_. job_at i ai s s ?E ?E))" for b c
    by (intro ens_if ens_call ens_ret) simp
  have f: "ensures (job_at i ai s s' Q (stamped ai)) (set_deploy (\<lambda>_ x. x\<lparr>d_status := DeploySuccess, d_image := a_image app\<rparr>))
      (succeeds (\<lambda>_. job_at i ai s s' Q ?E))"
    by (rule ens_set_deploy) (auto simp: ended_with_def stamped_def)
  show "ensures (job_at i ai s s' Q (stamped ai))
     (seq (set_deploy (\<lambda>_ x. x\<lparr>d_status := DeploySuccess, d_image := a_image app\<rparr>))
     (seq save (seq (app_status_now AppRunning) (seq (attempt (on_ctx (applications_update_row app)))
       (if as_enabled (a_autoscaling app) \<and> pf_hpa P app \<noteq> None then
          seq (attempt (on_background (cluster (CallConfigureHPA (bm_id app)))))
            (tell ''deploy_success'' (a_name app @ '' deployed successfully, but autoscaling (HPA) failed to restore '' @ em_dash @
               '' re-save autoscaling settings to fix''))
        else seq (if as_enabled (a_autoscaling app) then attempt (on_background (cluster (CallConfigureHPA (bm_id app)))) else ret ())
          (seq (tell ''deploy_success'' (a_name app @ '' deployed successfully''))
            (on_background (cleanup_completed_pods P app)))))))) (succeeds (\<lambda>_. job_ended i ai s))"
    by (intro ens_seq [OF f] ens_seq [OF ens_save] ens_seq [OF ens_app_status] ens_seq [OF upd]
        ens_if [where b = "as_enabled (a_autoscaling app) \<and> pf_hpa P app \<noteq> None"]
        ens_seq [OF ens_call] ens_seq [OF hpa] ens_seq [OF ens_tell] tell pods)
qed (simp add: job_at_def)

lemma ens_deploy_phase: "ensures (job_on i ai s) (deploy_phase P) (succeeds (\<lambda>_. job_ended i ai s))"
proof -
  have proj: "ensures (job_on i ai s) (handle (on_ctx (projects_get_by_id x)) (\<lambda>_. ret None) (\<lambda>p. ret (Some p))) (succeeds (\<lambda>_. job_on i ai s))" for x
  proof (rule ens_handle)
    show "ensures (job_on i ai s) (on_ctx (projects_get_by_id x)) (\<lambda>_. job_on i ai s)"
      unfolding projects_get_by_id_def attach_team_def
      by (intro ens_io_any [where m = on_ctx] ens_reads reads_intros keeps_intros) simp
  qed (auto intro: ens_ret)
  have pull: "ensures (job_on i ai s) (pull_secret P app) (\<lambda>_. job_on i ai s)" for app
    unfolding pull_secret_def
    by (auto split: option.splits sum.splits intro!: ens_ret ens_io_any [where m = on_ctx] ens_reads reads_intros keeps_intros)
  have dep: "ensures (job_on i ai s) (target_deploy P app env) (\<lambda>_. job_on i ai s)" for app env
    unfolding target_deploy_def by (intro ens_seq_any ens_any [OF ens_call] ens_fails_with)
  have stamp: "ensures (job_on i ai s) (set_deploy (\<lambda>t x. x\<lparr>d_finished := Some t\<rparr>)) (succeeds (\<lambda>_. job_at i ai s s (of_app ai) (stamped ai)))"
    by (rule ens_set_deploy) (auto simp: of_app_def stamped_def)
  have go: "ensures (job_on i ai s) (case pf_target P app of
             Some e \<Rightarrow> fail_early (''deploy target error: '' @ pf_text P e)
           | None \<Rightarrow> handle (target_deploy P app env)
               (\<lambda>e. seq (set_deploy (\<lambda>t x. x\<lparr>d_finished := Some t\<rparr>)) (deploy_failed P e))
               (\<lambda>_. seq (set_deploy (\<lambda>t x. x\<lparr>d_finished := Some t\<rparr>)) (deploy_succeeded P))) (succeeds (\<lambda>_. job_ended i ai s))" for app env
    by (cases "pf_target P app")
       (auto intro!: ens_fail_early ens_handle [OF dep] ens_seq [OF stamp] ens_deploy_failed ens_deploy_succeeded)
  show ?thesis
    unfolding deploy_phase_def
    by (intro ens_seq [OF ens_set] ens_seq [OF ens_save] ens_gets_fixed [where V = "\<lambda>_. True"] TrueI ens_bind [OF proj]
        ens_handle [OF pull] ens_fail_early go) simp
qed

lemma ens_execute_deploy: "ensures (job_on i ai s) (execute_deploy P force) (\<lambda>_. job_ended i ai s)"
proof -
  have go: "ensures (\<lambda>j. (Inr g = Inr True \<and> job_on i ai s j) \<or> stopped i ai s (Inr g) j)
      (if g then deploy_phase P else ret ()) (\<lambda>_. job_ended i ai s)" for g
    by (cases g) (auto simp: stopped_def intro: ens_ret ens_post [OF ens_deploy_phase] simp: succeeds_def split: sum.splits)
  show ?thesis
    unfolding execute_deploy_def bind_def
    by (intro ens_seq [OF ens_set] ens_handle [OF ens_source_phase] go) (auto simp: ensures_def stopped_def)
qed

section \<open>How a job ends\<close>

lemma run_deploy_job_ends:
  assumes "by_id i (deployments (db w)) = Some d" "\<not> is_terminal_deploy_status (d_status d)"
    and "by_id (d_app d) (applications (db w)) = Some a"
    and "distinct_ids (deployments (db w))" "distinct_ids (applications (db w))"
    and "faults w = []" "list_all (bystander i (d_app d)) evs"
    and "run_deploy_job P evs i force w = (r, w')"
  shows "r = Inr () \<and> rows_ended i (d_app d) (a_status a) (db w')"
proof -
  have c: "calm w" using assms(6) by (simp add: calm_def)
  have nf: "next_fault w = w" using assms(6) by (simp add: next_fault_def)
  have d: "bm_id d = i" "live d" "bm_id a = d_app d" "live a" using assms(1,3) by (auto dest: find_live_iff)
  have gd: "deployments_get_by_id i w = (Inr d, w)" and ga: "applications_get_by_id (d_app d) w = (Inr a, w)"
    using assms(1,3) c nf by (simp_all add: deployments_get_by_id_def applications_get_by_id_def query_row_def statement_def)
  have at: "world_at i (d_app d) (a_status a) (of_app (d_app d)) w"
    using assms c by (simp add: world_at_def rows_at_def of_app_def)
  show ?thesis
  proof (cases "d_cancel d")
    case True
    have "fst (finalize_cancelled P d (Some a) w) = Inr () \<and> rows_ended i (d_app d) (a_status a) (db (snd (finalize_cancelled P d (Some a) w)))"
      using finalize_cancelled_at [OF d(1,2) refl, of "a_status a" "of_app (d_app d)" P "Some a" "a_status a"] at
      by (auto dest: ens_succeedsD)
    then show ?thesis
      using assms(2,8) True gd ga by (simp add: run_deploy_job_def try_app_def bind_def split: prod.splits)
  next
    case False
    let ?j = "\<lparr>dj_deploy = d, dj_app = a, dj_ctx = None, dj_events = evs, dj_world = w\<rparr>"
    have "job_on i (d_app d) (a_status a) ?j"
      using assms(7) at d by (simp add: job_at_def world_at_def of_app_def)
    then have "job_ended i (d_app d) (a_status a) (snd (execute_deploy P force ?j))"
      using ens_execute_deploy [of i "d_app d" "a_status a" P force] by (simp add: ensures_def)
    then show ?thesis
      using assms(2,8) False gd ga by (auto simp: run_deploy_job_def job_ended_def)
  qed
qed

text \<open>C35 (deploy_job_ends): a job that is run to its end, with nothing failing but the build, the target or the
  registry, and other requests busy with other rows, always ends its deployment: it succeeds, and the application
  has the status it had when the job started; or it fails, and the application is in error; or it is cancelled, and
  the application is running or idle.\<close>

theorem deploy_job_ends:
  assumes "by_id i (deployments (db w)) = Some d" "\<not> is_terminal_deploy_status (d_status d)"
    and "by_id (d_app d) (applications (db w)) = Some a"
    and "distinct_ids (deployments (db w))" "distinct_ids (applications (db w))"
    and "faults w = []" "list_all (bystander i (d_app d)) evs"
    and "run_deploy_job P evs i force w = (r, w')"
  shows "r = Inr () \<and> rows_ended i (d_app d) (a_status a) (db w')"
  using assms by (rule run_deploy_job_ends)

definition demo_platform :: platform where
  "demo_platform = \<lparr>pf_target = (\<lambda>_. None), pf_builder = (\<lambda>_. None), pf_git_token = (\<lambda>_. ''tok''),
     pf_build = (\<lambda>_ _. ([''cloning tok'', ''done''], Inr (''done'', ''img''))), pf_deploy = (\<lambda>_ _. None), pf_hpa = (\<lambda>_. None),
     pf_phase = (\<lambda>_. Some ''running''), pf_pods = (\<lambda>_. [(''p'', ''Succeeded'')]), pf_rollback = (\<lambda>_. None),
     pf_docker_config = (\<lambda>_. Inr ''{}''), pf_text = (\<lambda>_. ''error'')\<rparr>"

definition demo_app :: "uuid \<Rightarrow> app_status \<Rightarrow> application" where
  "demo_app i s = \<lparr>bm_id = i, bm_created = 0, bm_updated = 0, bm_deleted = None, a_project = 9, a_name = ''web'',
     a_description = [], a_critical = False, a_source = SourceGit, a_git_repo = ''r'', a_git_branch = ''main'',
     a_git_provider = None, a_registry = None, a_image = [], a_compose = [], a_build_type = ''dockerfile'',
     a_dockerfile = ''Dockerfile'', a_build_context = ''.'', a_watch_paths = [], a_build_args = Map.empty, a_no_cache = False,
     a_replicas = 1, a_cpu_limit = [], a_mem_limit = [], a_env = Map.empty, a_secrets = Map.empty, a_ports = [],
     a_health = \<lparr>hc_path = [], hc_port = 0, hc_initial_delay = 0, hc_period = 0, hc_timeout = 0,
       hc_failures = 0, hc_type = [], hc_command = []\<rparr>,
     a_autoscaling = \<lparr>as_enabled = False, as_min = 0, as_max = 0, as_cpu = 0, as_mem = 0\<rparr>, a_cpu_request = [],
     a_mem_request = [], a_volumes = [], a_strategy = ''rolling'', a_strategy_config = \<lparr>sc_max_surge = [], sc_max_unavailable = []\<rparr>,
     a_grace = 30, a_node_pool = [], a_build_env = Map.empty, a_target = None, a_provider = ''k3s'', a_region = [],
     a_namespace = [], a_k8s_name = ''web'', a_status = s, a_webhook_secret = [], a_auto_deploy = False\<rparr>"

definition demo_deploy_db :: database where
  "demo_deploy_db = empty_database\<lparr>applications := [demo_app 5 AppBuilding],
     deployments := [blank_deployment\<lparr>bm_id := 6, d_app := 5\<rparr>]\<rparr>"

lemma deploy_job_ends_witness:
  "case run_deploy_job demo_platform [(\<lambda>d. d\<lparr>users := []\<rparr>, None)] 6 False (world_of demo_deploy_db) of
     (r, w') \<Rightarrow> r = Inr () \<and> rows_ended 6 5 AppBuilding (db w')"
proof -
  obtain r w' where r: "run_deploy_job demo_platform [(\<lambda>d. d\<lparr>users := []\<rparr>, None)] 6 False (world_of demo_deploy_db) = (r, w')"
    by (cases "run_deploy_job demo_platform [(\<lambda>d. d\<lparr>users := []\<rparr>, None)] 6 False (world_of demo_deploy_db)")
  have "r = Inr () \<and> rows_ended 6 (d_app (blank_deployment\<lparr>bm_id := 6, d_app := 5\<rparr>)) (a_status (demo_app 5 AppBuilding)) (db w')"
    by (rule deploy_job_ends [OF _ _ _ _ _ _ _ r])
       (simp_all add: demo_deploy_db_def demo_app_def blank_deployment_def by_id_Cons live_def distinct_ids_def bystander_def empty_database_def)
  then show ?thesis by (simp add: r demo_app_def)
qed

end
