(* ===== verification/Deploy_Races.thy ===== *)
theory Deploy_Races imports Deploy_Finish begin

text \<open>
  Properties of the deployment service across its operations: triggering and the queue, delivery of a job
  more than once, the recovery of stale deployments, and what a cancellation meets when it overlaps a job.
\<close>

section \<open>Triggering\<close>

text \<open>A trigger that succeeds has stored one queued deployment of an application that was
  not busy and has put exactly its job on the queue; one that fails, at whichever statement, has put nothing on the
  queue and has not touched the application.\<close>

theorem trigger_outcome:
  "case deploy_trigger P inp w of
     (Inr d, w') \<Rightarrow> queue w' = queue w @ [new_deploy_job (bm_id d) (ti_force inp)] \<and>
       d_status d = DeployQueued \<and> d_app d = ti_app inp \<and> deployments (db w') = deployments (db w) @ [d] \<and>
       (\<exists>a. by_id (ti_app inp) (applications (db w)) = Some a \<and> \<not> app_busy (a_status a))
   | (Inl e, w') \<Rightarrow> queue w' = queue w \<and> applications (db w') = applications (db w)"
proof -
  obtain r w' where r: "deploy_trigger P inp w = (r, w')" by (cases "deploy_trigger P inp w")
  have up: "queue (snd (update_deploy d v)) = queue v" "applications (db (snd (update_deploy d v))) = applications (db v)" for d v
    by (simp_all add: update_deploy_def attempt_eval deployments_update_row_def update_row_def statement_def)
  have st: "queue (snd (set_app_status i s v)) = queue v" "deployments (db (snd (set_app_status i s v))) = deployments (db v)" for i s v
    by (simp_all add: set_app_status_def attempt_eval applications_update_status_def exec_def statement_def)
  have res: "fst (set_app_status i s v) = Inr ()" "fst (update_deploy d v) = Inr ()" for i s d v
    by (simp_all add: set_app_status_def update_deploy_def attempt_eval)
  show ?thesis
  proof (cases r)
    case (Inr d)
    from r [unfolded Inr] obtain a w1 w2 w3 where
      a: "by_id (ti_app inp) (applications (db w)) = Some a" "w1 = next_fault w" "\<not> app_busy (a_status a)"
      and c: "deployments_create (blank_deployment\<lparr>d_app := bm_id a, d_status := DeployQueued,
         d_trigger := ti_type inp, d_triggered_by := ti_by inp, d_app_name := a_name a, d_project := a_project a\<rparr>) w1 = (Inr d, w2)"
      and q: "enqueue (new_deploy_job (bm_id d) (ti_force inp)) w2 = (Inr (), w3)" "w' = snd (set_app_status (bm_id a) AppBuilding w3)"
      using res by (auto simp: deploy_trigger_def bind_Inr handle_cases seq_Inr applications_get_by_id_def query_row_Inr now_eval
          split: if_splits)
    note i = insert_rowD [OF c [unfolded deployments_create_def]]
    from c have "queue w2 = queue w1" by (auto simp: deployments_create_def insert_row_Inr)
    then show ?thesis
      using a q i(1,4) st by_id_key [OF a(1)]
      by (auto simp: r Inr enqueue_def append_row_def fill_defaults_def blank_deployment_def split: if_splits)
  next
    case (Inl e)
    have up2: "update_deploy d v = (x, v') \<Longrightarrow> queue v' = queue v \<and> applications (db v') = applications (db v)" for d v x v'
      using up [of d v] by simp
    have no_err: "set_app_status i s v = (Inl e, v') \<longleftrightarrow> False" for i s v v' e
      by (simp add: set_app_status_def attempt_eval)
    have get: "queue (snd (applications_get_by_id i v)) = queue v" "applications (db (snd (applications_get_by_id i v))) = applications (db v)" for i v
      by (simp_all add: applications_get_by_id_def query_row_def statement_def)
    have new: "queue (snd (deployments_create d v)) = queue v" "applications (db (snd (deployments_create d v))) = applications (db v)" for d v
      by (simp_all add: deployments_create_def insert_row_def Let_def)
    obtain rg w1 where g: "applications_get_by_id (ti_app inp) w = (rg, w1)" by (cases "applications_get_by_id (ti_app inp) w")
    have w1: "queue w1 = queue w" "applications (db w1) = applications (db w)" using get [of "ti_app inp" w] g by simp_all
    show ?thesis
    proof (cases rg)
      case (Inl e') with r g w1 \<open>r = Inl e\<close> show ?thesis by (simp add: deploy_trigger_def bind_def)
    next
      case (Inr a)
      let ?n = "blank_deployment\<lparr>d_app := bm_id a, d_status := DeployQueued, d_trigger := ti_type inp,
        d_triggered_by := ti_by inp, d_app_name := a_name a, d_project := a_project a\<rparr>"
      obtain rc w2 where c: "deployments_create ?n w1 = (rc, w2)" by (cases "deployments_create ?n w1")
      have w2: "queue w2 = queue w" "applications (db w2) = applications (db w)" using new [of ?n w1] c w1 by simp_all
      show ?thesis
      proof (cases "app_busy (a_status a)")
        case True with r g w1 Inr \<open>r = Inl e\<close> show ?thesis by (simp add: deploy_trigger_def bind_def)
      next
        case False
        note t = g Inr False c
        show ?thesis
        proof (cases rc)
          case (Inl e') with r t w2 \<open>r = Inl e\<close> show ?thesis by (simp add: deploy_trigger_def bind_def)
        next
          case (Inr d)
          have "fault_now w2"
            using r t Inr no_err \<open>r = Inl e\<close>
            by (rule_tac ccontr) (simp add: deploy_trigger_def enqueue_def handle_def seq_def bind_def split: prod.splits sum.splits)
          with r t Inr w2 \<open>r = Inl e\<close> show ?thesis
            by (auto dest!: up2 simp: deploy_trigger_def enqueue_def handle_def seq_def bind_def split: prod.splits sum.splits)
        qed
      qed
    qed
  qed
qed

section \<open>Delivery more than once\<close>

text \<open>The queue may deliver a job again, and a user may cancel late: once the deployment has
  ended, neither changes the database or calls the cluster.\<close>

theorem terminal_job_noop:
  assumes "by_id i (deployments (db w)) = Some d" "is_terminal_deploy_status (d_status d)"
    and "op = run_deploy_job P evs i force \<or> op = deploy_cancel P i"
  shows "db (snd (op w)) = db w \<and> calls (snd (op w)) = calls w \<and> outbox (snd (op w)) = outbox w"
proof -
  have "\<not> in_progress (d_status d)" using assms(2) by (cases "d_status d") (simp_all add: in_progress_def)
  with assms show ?thesis
    by (auto simp: run_deploy_job_def deploy_cancel_def bind_def handle_def deployments_get_by_id_def query_row_def statement_def
        split: prod.splits sum.splits)
qed

lemma terminal_job_noop_witness:
  "db (snd (deploy_cancel demo_platform 6 (world_of (empty_database\<lparr>deployments := [blank_deployment\<lparr>bm_id := 6, d_status := DeployFailed\<rparr>]\<rparr>)))) =
     empty_database\<lparr>deployments := [blank_deployment\<lparr>bm_id := 6, d_status := DeployFailed\<rparr>]\<rparr>"
  using terminal_job_noop [of 6 "world_of (empty_database\<lparr>deployments := [blank_deployment\<lparr>bm_id := 6, d_status := DeployFailed\<rparr>]\<rparr>)"
      "blank_deployment\<lparr>bm_id := 6, d_status := DeployFailed\<rparr>" "deploy_cancel demo_platform 6" demo_platform "[]" False]
  by (simp add: by_id_Cons live_def blank_deployment_def)

section \<open>A cancellation beside a running job\<close>

text \<open>A cancellation that succeeds while a job builds sets the flag in the row, and the next log line
  of the job, which writes its whole copy of the row, clears it again: unless the poll has read the row in between,
  the request is lost.\<close>

theorem cancel_lost:
  assumes "by_id i (deployments (db w)) = Some d" "d_status d = DeployBuilding" "\<not> d_cancel d"
    and "distinct_ids (deployments (db w))" "deploy_cancel P i w = (Inr (), w1)"
    and "update_deploy (d\<lparr>d_log := redact tok line\<rparr>) w1 = (Inr (), w2)" "\<not> fault_now w1"
  shows "map_option d_cancel (by_id i (deployments (db w1))) = Some True \<and>
    map_option d_cancel (by_id i (deployments (db w2))) = Some False"
proof -
  have d: "bm_id d = i" "live d" using assms(1) by (auto dest: find_live_iff)
  obtain wa where u: "deployments_update_row (d\<lparr>d_cancel := True\<rparr>) wa = (Inr (), w1) \<or>
      (\<exists>wb. deployments_update_row (d\<lparr>d_cancel := True\<rparr>) wa = (Inr (), wb) \<and> db w1 = db wb)" "db wa = db w"
  proof -
    from assms(1-3,5) obtain wb app wc where
      "deployments_update_row (d\<lparr>d_cancel := True\<rparr>) (next_fault w) = (Inr (), wb)"
      "try_app (d_app d) wb = (Inr app, wc)"
      "(case app of None \<Rightarrow> ret () | Some a \<Rightarrow> cleanup_build_jobs P a) wc = (Inr (), w1)"
      by (auto simp: deploy_cancel_def bind_Inr seq_Inr deployments_get_by_id_def query_row_Inr wrapping_def handle_cases in_progress_def
          split: if_splits)
    moreover have rt: "reads (try_app x)" and rc: "reads (cleanup_build_jobs P a)" for x a
      by (auto simp: try_app_def cleanup_build_jobs_def applications_get_by_id_def intro!: reads_intros split: option.splits)
    ultimately have "db w1 = db wc" "db wc = db wb" by (auto dest: readsD [OF rt] readsD [OF rc] split: option.splits)
    then have "db w1 = db wb" by simp
    with that [of "next_fault w"] \<open>deployments_update_row (d\<lparr>d_cancel := True\<rparr>) (next_fault w) = (Inr (), wb)\<close> show ?thesis by auto
  qed
  then have w1: "deployments (db w1) = replace_pk (d\<lparr>d_cancel := True\<rparr>) (deployments (db w))"
    by (auto simp: deployments_update_row_def update_row_Inr)
  have 1: "by_id i (deployments (db w1)) = Some (d\<lparr>d_cancel := True\<rparr>)" "distinct_ids (deployments (db w1))"
    unfolding w1 using assms(1,4) d by (simp_all add: by_id_replace_pk live_def)
  have "db w2 = deployments_update (replace_pk (d\<lparr>d_log := redact tok line\<rparr>)) (db w1)"
    using assms(6,7) by (auto simp: update_deploy_def attempt_eval deployments_update_row_def update_row_def statement_def no_index_def)
  then have "by_id i (deployments (db w2)) = Some (d\<lparr>d_log := redact tok line\<rparr>)"
    using 1 d by (simp add: by_id_replace_pk live_def)
  with 1 assms(3) show ?thesis by simp
qed

lemma cancel_lost_witness:
  "\<exists>w1 w2. deploy_cancel demo_platform 6 (world_of (empty_database\<lparr>applications := [demo_app 5 AppBuilding],
       deployments := [blank_deployment\<lparr>bm_id := 6, d_app := 5, d_status := DeployBuilding\<rparr>]\<rparr>)) = (Inr (), w1) \<and>
     update_deploy ((blank_deployment\<lparr>bm_id := 6, d_app := 5, d_status := DeployBuilding\<rparr>)\<lparr>d_log := redact ''tok'' ''line''\<rparr>) w1 = (Inr (), w2) \<and>
     map_option d_cancel (by_id 6 (deployments (db w2))) = Some False"
proof -
  let ?d = "blank_deployment\<lparr>bm_id := 6, d_app := 5, d_status := DeployBuilding\<rparr>"
  let ?w = "world_of (empty_database\<lparr>applications := [demo_app 5 AppBuilding], deployments := [?d]\<rparr>)"
  have d: "by_id 6 (deployments (db ?w)) = Some ?d" "d_status ?d = DeployBuilding" "\<not> d_cancel ?d" "distinct_ids (deployments (db ?w))"
    by (simp_all add: by_id_Cons live_def blank_deployment_def distinct_ids_def)
  obtain w1 where c: "deploy_cancel demo_platform 6 ?w = (Inr (), w1)" "\<not> fault_now w1"
    by (simp add: deploy_cancel_def bind_def seq_def handle_def deployments_get_by_id_def query_row_def statement_def by_id_Cons
        live_def blank_deployment_def in_progress_def wrapping_def deployments_update_row_def update_row_def no_index_def try_app_def
        applications_get_by_id_def demo_app_def cleanup_build_jobs_def demo_platform_def attempt_def cluster_def refused_now_def next_answer_def fault_now_def world_of_def next_fault_def)
  obtain w2 where u: "update_deploy (?d\<lparr>d_log := redact ''tok'' ''line''\<rparr>) w1 = (Inr (), w2)"
    by (simp add: update_deploy_def attempt_eval)
  from cancel_lost [OF d c(1) u c(2)] c(1) u show ?thesis by blast
qed

text \<open>A job whose context has ended, beside requests that leave the database alone: nothing it does reaches the
  deployments or the applications.\<close>

definition silenced :: "deployment list \<Rightarrow> application list \<Rightarrow> deploy_job \<Rightarrow> bool" where
  "silenced D A j \<longleftrightarrow> dj_ctx j \<noteq> None \<and> list_all (\<lambda>e. fst e = id) (dj_events j) \<and>
     deployments (db (dj_world j)) = D \<and> applications (db (dj_world j)) = A"

lemma silenced_meanwhile: "silenced D A j \<Longrightarrow> silenced D A (meanwhile j)"
  by (auto simp: silenced_def meanwhile_def split: list.splits option.splits)

lemma silenced_steps [keeps_intros]:
  "keeps (silenced D A) (on_ctx m)" "reads m \<Longrightarrow> keeps (silenced D A) (on_background m)" "keeps (silenced D A) (set_deploy f)"
proof -
  show "keeps (silenced D A) (on_ctx m)"
    using silenced_meanwhile by (fastforce simp: keeps_def on_ctx_def Let_def silenced_def split: option.splits)
  show "keeps (silenced D A) (on_background m)" if "reads m"
    using silenced_meanwhile readsD [OF that]
    by (auto simp: keeps_def on_background_def run_io_def silenced_def split: prod.splits)
  show "keeps (silenced D A) (set_deploy f)" by (simp add: keeps_def set_deploy_def silenced_def)
qed

lemma cleanup_pods_reads: "reads (cleanup_completed_pods P a)"
  unfolding cleanup_completed_pods_def by (intro reads_intros)

lemma silenced_success: "keeps (silenced D A) (deploy_succeeded P)"
  unfolding deploy_succeeded_def save_def app_status_now_def tell_def
  by (intro keeps_intros reads_intros notify_deploy_reads cleanup_pods_reads)

text \<open>The last writes of a job use the job's own context. If it ends after the deploy phase
  has begun, by a cancellation or by the time limit, no write of the outcome happens although the job returns without
  an error, so the job is not run again: the deployment stays deploying, here of an image that was deployed.\<close>

theorem ended_context_orphans:
  assumes "by_id i (deployments (db w)) = Some d" "d_status d = DeployQueued" "\<not> d_cancel d"
    and "by_id (d_app d) (applications (db w)) = Some a" "a_source a = SourceImage" "a_registry a = None"
    and "pf_target P a = None" "pf_deploy P a (a_image a) = None"
    and "distinct_ids (deployments (db w))" "faults w = []"
    and "run_deploy_job P ([(id, None), (id, None), (id, Some c)] @ replicate n (id, None)) i force w = (r, w')"
  shows "r = Inr () \<and> applications (db w') = applications (db w) \<and>
    (\<exists>d'. by_id i (deployments (db w')) = Some d' \<and> d_status d' = DeployDeploying \<and> d_finished d' = d_finished d)"
proof -
  let ?evs = "[(id, None), (id, None), (id, Some c)] @ replicate n (id, None) :: job_event list"
  let ?j = "\<lparr>dj_deploy = d, dj_app = a, dj_ctx = None, dj_events = ?evs, dj_world = w\<rparr>"
  let ?d = "d\<lparr>d_started := Some (clock w), d_status := DeployDeploying\<rparr>"
  let ?D = "replace_pk ?d (deployments (db w))"
  have c: "calm w" and nf: "next_fault w = w" using assms(10) by (simp_all add: calm_def next_fault_def)
  have d: "bm_id d = i" "live d" using assms(1) by (auto dest: find_live_iff)
  have gd: "deployments_get_by_id i w = (Inr d, w)" and ga: "applications_get_by_id (d_app d) w = (Inr a, w)"
    using assms(1,4) c nf by (simp_all add: deployments_get_by_id_def applications_get_by_id_def query_row_def statement_def)
  let ?w1 = "w\<lparr>db := deployments_update (replace_pk ?d) (db w)\<rparr>"
  obtain rp w2 where p: "projects_get_by_id (a_project a) ?w1 = (rp, w2)" by (cases "projects_get_by_id (a_project a) ?w1")
  have "reads (projects_get_by_id (a_project a))" unfolding projects_get_by_id_def attach_team_def by (intro reads_intros)
  from readsD [OF this p] have w2: "db w2 = deployments_update (replace_pk ?d) (db w)" by simp
  let ?j2 = "\<lparr>dj_deploy = ?d, dj_app = a, dj_ctx = None, dj_events = (id, Some c) # replicate n (id, None), dj_world = w2\<rparr>"
  let ?env = "merged_env (case rp of Inl _ \<Rightarrow> None | Inr x \<Rightarrow> Some x) a"
  have m: "meanwhile ?j2 = ?j2\<lparr>dj_ctx := Some c, dj_events := replicate n (id, None)\<rparr>" using w2 by (simp add: meanwhile_def)
  obtain rc w3 where k: "cluster (CallDeploy (bm_id a) (a_image a) ?env) w2 = (rc, w3)" by (cases "cluster (CallDeploy (bm_id a) (a_image a) ?env) w2")
  have w3: "db w3 = db w2" by (rule readsD [OF reads_cluster k])
  obtain j3 where j3: "target_deploy P a ?env ?j2 = (Inr (), j3)" "silenced ?D (applications (db w)) j3"
  proof
    show "target_deploy P a ?env ?j2 = (Inr (), (meanwhile ?j2)\<lparr>dj_world := w3\<rparr>)"
      unfolding target_deploy_def on_background_def run_io_def
      using assms(8) k m by (cases rc) (simp_all add: seq_def bind_def attempt_def handle_def fails_with_def)
    show "silenced ?D (applications (db w)) ((meanwhile ?j2)\<lparr>dj_world := w3\<rparr>)"
      unfolding m using w2 w3 by (simp add: silenced_def list_all_iff)
  qed
  have "execute_deploy P force ?j = seq (set_deploy (\<lambda>t x. x\<lparr>d_finished := Some t\<rparr>)) (deploy_succeeded P) j3"
    using assms(5-7) c nf j3(1) p
    by (cases rp) (simp_all add: execute_deploy_def source_phase_def deploy_phase_def seq_def bind_def handle_def set_deploy_def save_def attempt_def
        on_ctx_def run_io_def meanwhile_def Let_def deployments_update_row_def update_row_def statement_def no_index_def pull_secret_def)
  moreover have "keeps (silenced ?D (applications (db w))) (seq (set_deploy (\<lambda>t x. x\<lparr>d_finished := Some t\<rparr>)) (deploy_succeeded P))"
    by (intro keeps_intros silenced_success)
  ultimately have "silenced ?D (applications (db w)) (snd (execute_deploy P force ?j))" using j3(2) by (simp add: keeps_def)
  moreover have "by_id i ?D = Some ?d" using assms(1,9) d by (simp add: by_id_replace_pk live_def)
  ultimately show ?thesis
    using assms(2,3,11) gd ga by (auto simp: run_deploy_job_def silenced_def)
qed

lemma ended_context_orphans_witness:
  "\<exists>w' d'. run_deploy_job demo_platform [(id, None), (id, None), (id, Some CtxCanceled), (id, None), (id, None)] 6 False
      (world_of (demo_deploy_db\<lparr>applications := [(demo_app 5 AppBuilding)\<lparr>a_source := SourceImage\<rparr>]\<rparr>)) = (Inr (), w') \<and>
     by_id 6 (deployments (db w')) = Some d' \<and> d_status d' = DeployDeploying"
proof -
  let ?d = "blank_deployment\<lparr>bm_id := 6, d_app := 5\<rparr>" and ?a = "(demo_app 5 AppBuilding)\<lparr>a_source := SourceImage\<rparr>"
  let ?w = "world_of (demo_deploy_db\<lparr>applications := [?a]\<rparr>)"
  obtain r w' where r: "run_deploy_job demo_platform ([(id, None), (id, None), (id, Some CtxCanceled)] @ replicate 2 (id, None)) 6 False ?w = (r, w')"
    by (cases "run_deploy_job demo_platform ([(id, None), (id, None), (id, Some CtxCanceled)] @ replicate 2 (id, None)) 6 False ?w")
  have "r = Inr () \<and> applications (db w') = applications (db ?w) \<and>
    (\<exists>d'. by_id 6 (deployments (db w')) = Some d' \<and> d_status d' = DeployDeploying \<and> d_finished d' = d_finished ?d)"
    by (rule ended_context_orphans [OF _ _ _ _ _ _ _ _ _ _ r, where a = ?a])
       (simp_all add: demo_deploy_db_def demo_app_def blank_deployment_def by_id_Cons live_def distinct_ids_def demo_platform_def)
  with r show ?thesis by (auto simp: numeral_2_eq_2)
qed

end
