(* ===== verification/Deploy_Recovery.thy ===== *)
theory Deploy_Recovery imports Deploy_Races begin

text \<open>
  \<open>recoverStaleDeployments\<close>: the paging loop ends within a fuel that the number of rows bounds, and, when no
  statement fails and a status has fewer rows than a page, leaves no deployment that has been building or
  deploying for 30 minutes.
\<close>

section \<open>Termination\<close>

text \<open>The rows of two databases: those of deployments and applications are the same and as alive as before, in order, and the other
  tables are equal.\<close>

definition row_keys :: "'a base_model_scheme list \<Rightarrow> (uuid \<times> bool) list" where
  "row_keys t = map (\<lambda>x. (bm_id x, live x)) t"

definition same_rows :: "database \<Rightarrow> database \<Rightarrow> bool" where
  "same_rows d d' \<longleftrightarrow> (\<exists>a b. d' = d\<lparr>deployments := a, applications := b\<rparr> \<and>
     row_keys a = row_keys (deployments d) \<and> row_keys b = row_keys (applications d))"

lemma same_rowsI: "d' = d\<lparr>deployments := a, applications := b\<rparr> \<Longrightarrow> row_keys a = row_keys (deployments d) \<Longrightarrow>
   row_keys b = row_keys (applications d) \<Longrightarrow> same_rows d d'"
  unfolding same_rows_def by blast

lemma same_rows_refl [simp]: "same_rows d d"
  by (rule same_rowsI [where a = "deployments d" and b = "applications d"]) simp_all

lemma same_rows_trans:
  assumes "same_rows a b" "same_rows b c"
  shows "same_rows a c"
proof -
  obtain x y where b: "b = a\<lparr>deployments := x, applications := y\<rparr>" "row_keys x = row_keys (deployments a)" "row_keys y = row_keys (applications a)"
    using assms(1) unfolding same_rows_def by blast
  obtain x' y' where c: "c = b\<lparr>deployments := x', applications := y'\<rparr>" "row_keys x' = row_keys (deployments b)" "row_keys y' = row_keys (applications b)"
    using assms(2) unfolding same_rows_def by blast
  show ?thesis by (rule same_rowsI [where a = x' and b = y']) (simp_all add: b c)
qed

lemma same_rows_length: "same_rows d d' \<Longrightarrow> length (deployments d') = length (deployments d)"
  unfolding same_rows_def row_keys_def by (auto dest: arg_cong [where f = length])

lemma row_keys_update: "(\<And>x. live x \<Longrightarrow> P x \<Longrightarrow> bm_id (f x) = bm_id x \<and> live (f x)) \<Longrightarrow> row_keys (update_live P f t) = row_keys t"
  by (auto simp: row_keys_def update_live_def)

lemma same_rows_deployments: "row_keys (f (deployments d)) = row_keys (deployments d) \<Longrightarrow> same_rows d (deployments_update f d)"
  by (rule same_rowsI [where a = "f (deployments d)" and b = "applications d"]) simp_all

lemma same_rows_applications: "row_keys (f (applications d)) = row_keys (applications d) \<Longrightarrow> same_rows d (applications_update f d)"
  by (rule same_rowsI [where a = "deployments d" and b = "f (applications d)"]) simp_all

lemma update_deploy_rows: "live d \<Longrightarrow> same_rows (db w) (db (snd (update_deploy d w)))"
  by (simp add: update_deploy_def attempt_eval deployments_update_row_def update_row_def statement_def no_index_def replace_pk_def
      same_rows_deployments row_keys_update)

lemma set_app_status_rows: "same_rows (db w) (db (snd (set_app_status i s w)))"
proof -
  have "row_keys (update_live (\<lambda>a. bm_id a = i) (a_status_update (\<lambda>_. s)) t) = row_keys t" for t :: "application list"
    by (rule row_keys_update) (simp add: live_def)
  then show ?thesis
    by (simp add: set_app_status_def attempt_eval applications_update_status_def exec_def statement_def same_rows_applications)
qed

lemma recover_one_total: "fst (recover_one d w) = Inr ()"
  by (simp add: recover_one_def bind_def seq_def handle_def update_deploy_def set_app_status_def attempt_eval split: prod.splits)

lemma recover_one_rows: "live d \<Longrightarrow> same_rows (db w) (db (snd (recover_one d w)))"
proof -
  assume d: "live d"
  have u: "keeps (\<lambda>v. same_rows (db w) (db v)) (update_deploy (d\<lparr>d_status := s, d_finished := t, d_log := l\<rparr>))" for s t l
    unfolding keeps_def using d by (auto intro!: same_rows_trans [OF _ update_deploy_rows] simp: live_def)
  have a: "keeps (\<lambda>v. same_rows (db w) (db v)) (set_app_status i s)" for i s
    unfolding keeps_def by (auto intro: same_rows_trans [OF _ set_app_status_rows])
  have "keeps (\<lambda>v. same_rows (db w) (db v)) now" by (simp add: keeps_def)
  then have "keeps (\<lambda>v. same_rows (db w) (db v)) (recover_one d)"
    unfolding recover_one_def by (intro keeps_intros u a)
  then show ?thesis by (simp add: keeps_def)
qed

lemma for_each_recover:
  "\<forall>d \<in> set ds. live d \<Longrightarrow> fst (for_each recover_one ds w) = Inr () \<and> same_rows (db w) (db (snd (for_each recover_one ds w)))"
proof (induction ds arbitrary: w)
  case (Cons d ds)
  obtain w1 where e: "recover_one d w = (Inr (), w1)" using recover_one_total [of d w] by (metis prod.collapse)
  then have "same_rows (db w) (db w1)" using recover_one_rows [of d w] Cons.prems by simp
  then show ?case using e Cons.IH [of w1] Cons.prems by (auto simp: seq_def bind_def handle_def intro: same_rows_trans)
qed simp

definition with_status :: "deploy_status \<Rightarrow> database \<Rightarrow> deployment list" where
  "with_status s d = newest_first (select_live (\<lambda>x. d_status x = s) (deployments d))"

lemma status_text_inj: "deploy_status_text a = deploy_status_text b \<longleftrightarrow> a = b"
  by (cases a; cases b) simp_all

lemma list_with_status:
  "deployments_list_all q \<lparr>lf_search = [], lf_status = deploy_status_text s, lf_provider = [], lf_projects = None\<rparr> =
     query_page q (with_status s)"
proof -
  have "deploy_status_text s \<noteq> []" by (cases s) simp_all
  then show ?thesis
    by (simp add: deployments_list_all_def empty_scope_def in_scope_def with_status_def [abs_def] status_text_inj)
qed

lemma length_with_status: "length (with_status s d) \<le> length (deployments d)"
  by (simp add: with_status_def newest_first_def select_live_def)

lemma recover_pages_ends:
  assumes "length (deployments (db w)) < stale_per_page * (pg - 1 + n)" "1 \<le> pg" "0 < n"
  shows "fst (recover_pages n pg s w) = Inr True \<and> same_rows (db w) (db (snd (recover_pages n pg s w)))"
  using assms
proof (induction n arbitrary: pg w)
  case (Suc n)
  let ?ds = "page_of \<lparr>lp_page = pg, lp_per_page = stale_per_page\<rparr> (with_status s (db w))"
  let ?w1 = "next_fault w"
  have "\<forall>d \<in> set ?ds. live d"
    by (auto simp: page_of_def with_status_def newest_first_def select_live_def dest!: in_set_takeD in_set_dropD)
  then obtain w2 where f: "for_each recover_one ?ds ?w1 = (Inr (), w2)" "same_rows (db w) (db w2)"
    using for_each_recover [of ?ds ?w1] by (metis next_fault_simps(1) prod.collapse)
  note len = same_rows_length [OF f(2)]
  have full: "stale_per_page * pg \<le> length (deployments (db w))" if "\<not> length ?ds < stale_per_page"
  proof -
    have "(pg - 1) * stale_per_page + stale_per_page \<le> length (with_status s (db w))"
      using that by (simp add: page_of_def lp_limit_def lp_offset_def stale_per_page_def)
    moreover have "(pg - 1) * stale_per_page + stale_per_page = stale_per_page * pg" using Suc.prems(2) by (cases pg) simp_all
    ultimately show ?thesis using length_with_status [of s "db w"] by linarith
  qed
  have same: "(next_fault w)\<lparr>db := db w\<rparr> = next_fault w" by (simp add: next_fault_def)
  have step: "recover_pages (Suc n) pg s w = (if fault_now w then (Inr True, ?w1) else if ?ds = [] then (Inr True, ?w1)
      else if length ?ds < stale_per_page then (Inr True, w2) else recover_pages n (Suc pg) s w2)"
    using f(1) by (simp add: same list_with_status query_page_def query_def statement_def handle_def seq_def bind_def)
  show ?case
  proof (cases "\<not> fault_now w \<and> ?ds \<noteq> [] \<and> \<not> length ?ds < stale_per_page")
    case True
    have "0 < n"
    proof (rule ccontr)
      assume "\<not> 0 < n"
      then have "length (deployments (db w)) < stale_per_page * pg" using Suc.prems(1,2) by simp
      with full True show False by simp
    qed
    then show ?thesis using Suc.IH [of w2 "Suc pg"] True Suc.prems len same_rows_trans [OF f(2)] unfolding step by simp
  next
    case False
    then show ?thesis using f(2) unfolding step by auto
  qed
qed simp

text \<open>C36 (stale_recovery_terminates): whatever fails, both paging loops end, after at most one page more than the table has full pages.
  No row is added, removed or deleted: the deployments and the applications are the same ones in the same order, as alive as before,
  and no other table changes.\<close>

theorem stale_recovery_terminates:
  assumes "length (deployments (db w)) < 1000 * n"
  shows "\<exists>w' ds as. recover_stale_deployments n w = (Inr True, w') \<and> db w' = (db w)\<lparr>deployments := ds, applications := as\<rparr> \<and>
    map (\<lambda>x. (bm_id x, live x)) ds = map (\<lambda>x. (bm_id x, live x)) (deployments (db w)) \<and>
    map (\<lambda>x. (bm_id x, live x)) as = map (\<lambda>x. (bm_id x, live x)) (applications (db w))"
proof -
  have n: "0 < n" using assms by (cases n) simp_all
  have l: "length (deployments (db w)) < stale_per_page * (1 - 1 + n)" using assms by (simp add: stale_per_page_def)
  obtain w1 where a: "recover_pages n 1 DeployBuilding w = (Inr True, w1)" "same_rows (db w) (db w1)"
    using recover_pages_ends [OF l _ n, of DeployBuilding] by (metis le_refl prod.collapse)
  obtain w2 where b: "recover_pages n 1 DeployDeploying w1 = (Inr True, w2)" "same_rows (db w1) (db w2)"
    using recover_pages_ends [of w1 1 n DeployDeploying] l n same_rows_length [OF a(2)] by (metis le_refl prod.collapse)
  have "recover_stale_deployments n w = (Inr True, w2)" using a(1) b(1) by (simp add: recover_stale_deployments_def bind_def handle_def)
  then show ?thesis using same_rows_trans [OF a(2) b(2)] unfolding same_rows_def row_keys_def by blast
qed

lemma stale_recovery_terminates_witness:
  "\<exists>w'. recover_stale_deployments 1 (world_of demo_deploy_db) = (Inr True, w') \<and> map bm_id (deployments (db w')) = [6]"
proof -
  have d: "deployments demo_deploy_db = [blank_deployment\<lparr>bm_id := 6, d_app := 5\<rparr>]" by (simp add: demo_deploy_db_def)
  then have "length (deployments (db (world_of demo_deploy_db))) < 1000 * 1" by simp
  from stale_recovery_terminates [OF this] obtain w' ds as where w: "recover_stale_deployments 1 (world_of demo_deploy_db) = (Inr True, w')"
    "db w' = (db (world_of demo_deploy_db))\<lparr>deployments := ds, applications := as\<rparr>"
    "map (\<lambda>x. (bm_id x, live x)) ds = map (\<lambda>x. (bm_id x, live x)) (deployments (db (world_of demo_deploy_db)))"
    by (elim exE conjE) (rule that)
  have "map fst (map (\<lambda>x. (bm_id x, live x)) ds) = [6]" unfolding w(3) using d by simp
  then have "map bm_id ds = [6]" by (simp add: comp_def)
  then have "map bm_id (deployments (db w')) = [6]" by (simp add: w(2))
  then show ?thesis by (intro exI [of _ w'] conjI w(1))
qed

section \<open>What is recovered\<close>

definition stale_at :: "time \<Rightarrow> deployment \<Rightarrow> bool" where
  "stale_at t d \<longleftrightarrow> t - deploy_ref d \<ge> stale_threshold"

definition timed_out :: "time \<Rightarrow> deployment \<Rightarrow> deployment" where
  "timed_out t d = d\<lparr>d_status := DeployFailed, d_finished := Some t,
     d_log := d_log d @ log_note ''Deployment timed out (stale for >30min)''\<rparr>"

lemma timed_out_simps [simp]: "bm_id (timed_out t d) = bm_id d" "bm_deleted (timed_out t d) = bm_deleted d"
    "d_status (timed_out t d) = DeployFailed"
  by (simp_all add: timed_out_def)

definition recovered :: "(deployment \<Rightarrow> bool) \<Rightarrow> time \<Rightarrow> world \<Rightarrow> world \<Rightarrow> bool" where
  "recovered P t w w' \<longleftrightarrow> calm w' \<and> clock w' = clock w \<and> distinct_ids (deployments (db w')) \<and>
     (\<forall>j. by_id j (deployments (db w')) =
        map_option (\<lambda>d. if P d \<and> stale_at t d then timed_out t d else d) (by_id j (deployments (db w))))"

lemma recover_one_at:
  assumes "calm w" "distinct_ids (deployments (db w))" "by_id (bm_id d) (deployments (db w)) = Some d"
  obtains w' where "recover_one d w = (Inr (), w')" "recovered (\<lambda>x. x = d) (clock w) w w'"
proof (cases "stale_at (clock w) d")
  case False
  have "recovered (\<lambda>x. x = d) (clock w) w w"
    using assms False by (auto simp: recovered_def fun_eq_iff split: option.splits intro!: option.map_ident_strong [symmetric])
  moreover have "recover_one d w = (Inr (), w)" using False by (simp add: recover_one_def stale_at_def bind_def)
  ultimately show thesis using that by blast
next
  case True
  have nf: "next_fault w = w" using assms(1) by (simp add: calm_def next_fault_def)
  have d: "live d" using assms(3) by (auto dest: find_live_iff)
  let ?d = "timed_out (clock w) d"
  obtain w' where r: "recover_one d w = (Inr (), w')" "calm w'" "clock w' = clock w"
    "deployments (db w') = replace_pk ?d (deployments (db w))"
    using True assms(1) nf
    by (simp add: recover_one_def stale_at_def bind_def seq_def handle_def update_deploy_def set_app_status_def attempt_def timed_out_def
        deployments_update_row_def update_row_def statement_def no_index_def applications_update_status_def exec_def)
  have "by_id j (replace_pk ?d (deployments (db w))) = (if j = bm_id d then Some ?d else by_id j (deployments (db w)))" for j
    using assms d by (subst by_id_replace_pk) (auto simp: live_def)
  then have eq: "by_id j (deployments (db w')) = (if j = bm_id d then Some ?d else by_id j (deployments (db w)))" for j
    by (simp add: r(4))
  have "by_id j (deployments (db w')) =
      map_option (\<lambda>x. if x = d \<and> stale_at (clock w) x then timed_out (clock w) x else x) (by_id j (deployments (db w)))" for j
  proof (cases "by_id j (deployments (db w))")
    case None with eq [of j] assms(3) show ?thesis by auto
  next
    case (Some x)
    from by_id_key [OF Some] have x: "bm_id x = j" .
    show ?thesis
    proof (cases "x = d")
      case True with eq [of j] Some x \<open>stale_at (clock w) d\<close> show ?thesis by simp
    next
      case False
      have "j \<noteq> bm_id d" using False Some assms(3) by auto
      with eq [of j] Some False show ?thesis by simp
    qed
  qed
  then have "recovered (\<lambda>x. x = d) (clock w) w w'"
    using r assms(2) by (simp add: recovered_def)
  with r(1) that show thesis by blast
qed

lemma recovered_trans:
  assumes "recovered P t w w1" "recovered Q t w1 w2" "\<And>d. Q (timed_out t d) \<longleftrightarrow> False"
  shows "recovered (\<lambda>d. P d \<or> Q d) t w w2"
  using assms by (auto simp: recovered_def option.map_comp comp_def intro!: option.map_cong)

lemma recover_list:
  assumes "calm w" "distinct_ids (deployments (db w))" "distinct (map bm_id ds)"
    and "\<And>d. d \<in> set ds \<Longrightarrow> by_id (bm_id d) (deployments (db w)) = Some d \<and> d_status d \<noteq> DeployFailed"
  shows "\<exists>w'. for_each recover_one ds w = (Inr (), w') \<and> recovered (\<lambda>d. d \<in> set ds) (clock w) w w'"
  using assms
proof (induction ds arbitrary: w)
  case Nil
  then show ?case by (auto simp: recovered_def option.map_ident)
next
  case (Cons d ds)
  from Cons.prems(4) have d: "by_id (bm_id d) (deployments (db w)) = Some d" by simp
  obtain w1 where r: "recover_one d w = (Inr (), w1)" "recovered (\<lambda>x. x = d) (clock w) w w1"
    by (rule recover_one_at [OF Cons.prems(1,2) d])
  have "by_id (bm_id x) (deployments (db w1)) = Some x \<and> d_status x \<noteq> DeployFailed" if "x \<in> set ds" for x
    using r(2) Cons.prems(3,4) that by (force simp: recovered_def)
  then obtain w2 where w2: "for_each recover_one ds w1 = (Inr (), w2)" "recovered (\<lambda>d. d \<in> set ds) (clock w1) w1 w2"
    using Cons.IH [of w1] Cons.prems(3) r(2) by (auto simp: recovered_def)
  have t: "clock w1 = clock w" using r(2) by (simp add: recovered_def)
  have "timed_out (clock w) x \<in> set ds \<longleftrightarrow> False" for x using Cons.prems(4) [of "timed_out (clock w) x"] by auto
  from recovered_trans [OF r(2) w2(2) [unfolded t] this] r(1) w2(1)
  show ?case by (auto simp: seq_def bind_def handle_def)
qed

lemma set_with_status:
  "distinct_ids (deployments d) \<Longrightarrow> x \<in> set (with_status s d) \<longleftrightarrow> by_id (bm_id x) (deployments d) = Some x \<and> d_status x = s"
  by (auto simp: with_status_def newest_first_def select_live_def by_id_Some_iff)

lemma distinct_with_status: "distinct_ids (deployments d) \<Longrightarrow> distinct (map bm_id (with_status s d))"
proof -
  assume "distinct_ids (deployments d)"
  then have "distinct (map bm_id (rev (select_live (\<lambda>x. d_status x = s) (deployments d))))"
    by (simp add: distinct_ids_def select_live_def rev_map [symmetric] distinct_map_filter)
  then show ?thesis
    unfolding with_status_def newest_first_def distinct_map by (simp add: inj_on_def)
qed

lemma recover_pages_at:
  assumes "calm w" "distinct_ids (deployments (db w))" "length (with_status s (db w)) < stale_per_page" "0 < n" "s \<noteq> DeployFailed"
  shows "\<exists>w'. recover_pages n 1 s w = (Inr True, w') \<and> recovered (\<lambda>d. d_status d = s) (clock w) w w'"
proof -
  obtain k where n: "n = Suc k" using assms(4) by (cases n) simp_all
  let ?ds = "with_status s (db w)"
  have nf: "next_fault w = w" using assms(1) by (simp add: calm_def next_fault_def)
  have pg: "page_of \<lparr>lp_page = 1, lp_per_page = stale_per_page\<rparr> ?ds = ?ds"
    using assms(3) by (simp add: page_of_def lp_limit_def lp_offset_def)
  have "\<exists>w'. for_each recover_one ?ds w = (Inr (), w') \<and> recovered (\<lambda>d. d \<in> set ?ds) (clock w) w w'"
    using assms(1,2,5) by (intro recover_list distinct_with_status) (auto simp: set_with_status)
  then obtain w' where w': "for_each recover_one ?ds w = (Inr (), w')" "recovered (\<lambda>d. d \<in> set ?ds) (clock w) w w'" by blast
  have "x \<in> set ?ds \<longleftrightarrow> d_status x = s" if "by_id j (deployments (db w)) = Some x" for j x
    using that by_id_key [OF that] assms(2) by (auto simp: set_with_status)
  then have "recovered (\<lambda>d. d_status d = s) (clock w) w w'"
    using w'(2) unfolding recovered_def by (auto intro!: option.map_cong0)
  moreover have "recover_pages n 1 s w = (Inr True, w')"
  proof (cases "?ds = []")
    case True
    then show ?thesis using w'(1) assms(1) nf pg
      unfolding n by (simp add: list_with_status query_page_def query_def statement_def handle_def page_of_def)
  next
    case False
    then show ?thesis using w'(1) assms(1,3) nf pg
      unfolding n by (simp add: list_with_status query_page_def query_def statement_def handle_def seq_def bind_def)
  qed
  ultimately show ?thesis by blast
qed

text \<open>When no statement fails and neither status fills a page, the recovery marks exactly the
  live deployments that have been building or deploying for at least 30 minutes as failed, with a finish time and a note
  in the log, and leaves every other deployment, queued ones included, as it was.\<close>

theorem stale_recovered:
  assumes "faults w = []" "distinct_ids (deployments (db w))" "0 < n"
    and "length (with_status DeployBuilding (db w)) < stale_per_page" "length (with_status DeployDeploying (db w)) < stale_per_page"
  shows "case recover_stale_deployments n w of (r, w') \<Rightarrow> r = Inr True \<and>
    (\<forall>j. by_id j (deployments (db w')) =
       map_option (\<lambda>d. if d_status d \<in> {DeployBuilding, DeployDeploying} \<and> stale_at (clock w) d then timed_out (clock w) d else d)
         (by_id j (deployments (db w))))"
proof -
  have c: "calm w" using assms(1) by (simp add: calm_def)
  obtain w1 where w1: "recover_pages n 1 DeployBuilding w = (Inr True, w1)" "recovered (\<lambda>d. d_status d = DeployBuilding) (clock w) w w1"
    using recover_pages_at [OF c assms(2,4,3)] by auto
  have d1: "distinct_ids (deployments (db w1))" "clock w1 = clock w" "calm w1" using w1(2) by (simp_all add: recovered_def)
  have "set (with_status DeployDeploying (db w1)) \<subseteq> set (with_status DeployDeploying (db w))"
  proof
    fix x assume "x \<in> set (with_status DeployDeploying (db w1))"
    then have "by_id (bm_id x) (deployments (db w1)) = Some x" "d_status x = DeployDeploying" using d1(1) by (simp_all add: set_with_status)
    then have "by_id (bm_id x) (deployments (db w)) = Some x" using w1(2) by (auto simp: recovered_def split: if_splits)
    with \<open>d_status x = DeployDeploying\<close> show "x \<in> set (with_status DeployDeploying (db w))" using assms(2) by (simp add: set_with_status)
  qed
  note sub = card_mono [OF finite_set this]
  have "distinct (with_status DeployDeploying d)" if "distinct_ids (deployments d)" for d
    using distinct_with_status [OF that] by (simp add: distinct_map)
  then have "length (with_status DeployDeploying (db w1)) < stale_per_page"
    using sub assms(2,5) d1(1) by (simp add: distinct_card)
  then obtain w2 where w2: "recover_pages n 1 DeployDeploying w1 = (Inr True, w2)" "recovered (\<lambda>d. d_status d = DeployDeploying) (clock w) w1 w2"
    using recover_pages_at [OF d1(3,1) _ assms(3), of DeployDeploying] d1(2) by auto
  have "recovered (\<lambda>d. d_status d = DeployBuilding \<or> d_status d = DeployDeploying) (clock w) w w2"
    by (rule recovered_trans [OF w1(2) w2(2)]) simp
  with w1(1) w2(1) show ?thesis by (simp add: recover_stale_deployments_def bind_def handle_def recovered_def)
qed

definition stale_db :: database where
  "stale_db = empty_database\<lparr>deployments := [blank_deployment\<lparr>bm_id := 6, d_status := DeployBuilding, d_started := Some (- hour)\<rparr>]\<rparr>"

lemma stale_recovered_witness:
  "\<exists>w' d. recover_stale_deployments 1 (world_of stale_db) = (Inr True, w') \<and>
     by_id 6 (deployments (db w')) = Some d \<and> d_status d = DeployFailed"
proof -
  obtain r w' where r: "recover_stale_deployments 1 (world_of stale_db) = (r, w')" by (cases "recover_stale_deployments 1 (world_of stale_db)")
  have e: "by_id 6 (deployments (db (world_of stale_db))) =
      Some (blank_deployment\<lparr>bm_id := 6, d_status := DeployBuilding, d_started := Some (- hour)\<rparr>)"
    by (simp add: stale_db_def by_id_Cons live_def blank_deployment_def)
  have "distinct_ids (deployments (db (world_of stale_db)))" "(0::nat) < 1"
    "length (with_status DeployBuilding (db (world_of stale_db))) < stale_per_page"
    "length (with_status DeployDeploying (db (world_of stale_db))) < stale_per_page"
    by (simp_all add: stale_db_def distinct_ids_def with_status_def newest_first_def select_live_def stale_per_page_def)
  from stale_recovered [OF _ this] have "r = Inr True \<and> by_id 6 (deployments (db w')) =
     map_option (\<lambda>d. if d_status d \<in> {DeployBuilding, DeployDeploying} \<and> stale_at (clock (world_of stale_db)) d then timed_out (clock (world_of stale_db)) d else d)
       (by_id 6 (deployments (db (world_of stale_db))))" unfolding r prod.case by simp
  with r show ?thesis
    unfolding e by (auto simp: stale_at_def deploy_ref_def stale_threshold_def hour_def minute_def second_def)
qed

end
