(* ===== verification/Deploy_Status.thy ===== *)
theory Deploy_Status imports Deploy_Recovery begin

text \<open>
  Two facts of the deploy pipeline seen by its users: what the status of an application says after a
  deployment that succeeded, and that a build log does not hold the clone token.
\<close>

section \<open>The status after a success\<close>

text \<open>The last write of a successful job is the application's row as it was read while
  the application was building, so the status goes back from running to building, and the next trigger is
  refused although nothing is under way.\<close>

theorem deployed_app_stays_building:
  assumes "by_id i (deployments (db w)) = Some d" "\<not> is_terminal_deploy_status (d_status d)"
    and "by_id (d_app d) (applications (db w)) = Some a" "a_status a = AppBuilding"
    and "distinct_ids (deployments (db w))" "distinct_ids (applications (db w))"
    and "faults w = []" "list_all (bystander i (d_app d)) evs"
    and "run_deploy_job P evs i force w = (r, w')"
    and "by_id i (deployments (db w')) = Some d'" "d_status d' = DeploySuccess"
    and "db v = db w'" "\<not> fault_now v" "ti_app inp = d_app d"
  shows "fst (deploy_trigger P inp v) = Inl (ErrMsg ''app is currently building, wait for it to finish first'')"
proof -
  have "rows_ended i (d_app d) AppBuilding (db w')"
    using run_deploy_job_ends [OF assms(1-3,5-9)] assms(4) by simp
  then obtain a' where "by_id (d_app d) (applications (db w')) = Some a'" "a_status a' = AppBuilding"
    using assms(10,11) by (auto simp: rows_ended_def rows_at_def ended_with_def)
  then show ?thesis
    using assms(12-14)
    by (simp add: deploy_trigger_def bind_def handle_def applications_get_by_id_def query_row_def statement_def app_busy_def)
qed

lemma demo_job_succeeds:
  "\<exists>w' d'. run_deploy_job demo_platform [] 6 False (world_of (demo_deploy_db\<lparr>applications := [(demo_app 5 AppBuilding)\<lparr>a_source := SourceImage\<rparr>]\<rparr>)) = (Inr (), w') \<and>
     by_id 6 (deployments (db w')) = Some d' \<and> d_status d' = DeploySuccess \<and> faults w' = []"
  by (simp add: run_deploy_job_def handle_def deployments_get_by_id_def applications_get_by_id_def query_row_def statement_def
        demo_deploy_db_def demo_app_def blank_deployment_def by_id_Cons live_def empty_database_def
        execute_deploy_def source_phase_def deploy_phase_def seq_def bind_def set_deploy_def save_def attempt_def
        on_ctx_def on_background_def run_io_def meanwhile_def Let_def deployments_update_row_def update_row_def no_index_def pull_secret_def
        demo_platform_def target_deploy_def cluster_def fails_with_def projects_get_by_id_def deploy_succeeded_def app_status_now_def
        applications_update_status_def exec_def applications_update_row_def tell_def notify_deploy_def cleanup_completed_pods_def
        replace_pk_def update_live_def fault_now_def next_fault_def world_of_def split: prod.splits)

lemma deployed_app_stays_building_witness:
  "\<exists>w'. run_deploy_job demo_platform [] 6 False (world_of (demo_deploy_db\<lparr>applications := [(demo_app 5 AppBuilding)\<lparr>a_source := SourceImage\<rparr>]\<rparr>)) = (Inr (), w') \<and>
     fst (deploy_trigger demo_platform \<lparr>ti_app = 5, ti_force = False, ti_by = None, ti_type = ''manual''\<rparr> w') =
       Inl (ErrMsg ''app is currently building, wait for it to finish first'')"
proof -
  let ?d = "blank_deployment\<lparr>bm_id := 6, d_app := 5\<rparr>" and ?a = "(demo_app 5 AppBuilding)\<lparr>a_source := SourceImage\<rparr>"
  obtain w' d' where j: "run_deploy_job demo_platform [] 6 False (world_of (demo_deploy_db\<lparr>applications := [?a]\<rparr>)) = (Inr (), w')"
    "by_id 6 (deployments (db w')) = Some d'" "d_status d' = DeploySuccess" "faults w' = []"
    using demo_job_succeeds by blast
  have "fst (deploy_trigger demo_platform \<lparr>ti_app = 5, ti_force = False, ti_by = None, ti_type = ''manual''\<rparr> w') =
       Inl (ErrMsg ''app is currently building, wait for it to finish first'')"
    by (rule deployed_app_stays_building [OF _ _ _ _ _ _ _ _ j(1-3) refl, where d = ?d and a = ?a])
       (simp_all add: demo_deploy_db_def demo_app_def blank_deployment_def by_id_Cons live_def distinct_ids_def j(4))
  with j(1) show ?thesis by blast
qed

section \<open>The build log\<close>

lemma has_prefix_replace_all:
  assumes "CHR ''['' \<notin> set t"
  shows "has_prefix (replace_all old (CHR ''['' # r) s) t \<Longrightarrow> has_prefix s t"
  using assms
proof (induction old "CHR ''['' # r" s arbitrary: t rule: replace_all.induct)
  case (2 old c s)
  show ?case
  proof (cases t)
    case (Cons x t')
    have "\<not> (old \<noteq> [] \<and> has_prefix (c # s) old)" using 2(3,4) Cons by (auto simp: has_prefix_def)
    with 2(2) [OF this] 2(3,4) Cons show ?thesis by (auto simp: has_prefix_def)
  qed (simp add: has_prefix_def)
qed simp

lemma contains_append:
  assumes "contains (u @ [CHR '']''] @ v) t" "CHR '']'' \<notin> set t" "t \<noteq> []"
  shows "contains u t \<or> contains v t"
proof -
  from assms(1) obtain a b where "u @ CHR '']'' # v = a @ t @ b" by (auto simp: contains_iff)
  then consider us where "u = a @ us" "us @ CHR '']'' # v = t @ b" | us where "u @ us = a" "CHR '']'' # v = us @ t @ b"
    by (auto simp: append_eq_append_conv2 [of u])
  then show ?thesis
  proof cases
    case 1
    then consider us' where "us = t @ us'" | us' where "us @ us' = t" "CHR '']'' # v = us' @ b"
      by (auto simp: append_eq_append_conv2 [of us])
    then show ?thesis
    proof cases
      case 1 with \<open>u = a @ us\<close> show ?thesis by (auto simp: contains_iff)
    next
      case 2
      then have "us' = []" using assms(2) by (cases us') auto
      with 2 \<open>u = a @ us\<close> have "u = a @ t @ []" by simp
      then show ?thesis unfolding contains_iff by blast
    qed
  next
    case 2
    then obtain us' where "us = CHR '']'' # us'" using assms(2,3) by (cases us; cases t) auto
    with 2 have "v = us' @ t @ b" by simp
    then show ?thesis unfolding contains_iff by blast
  qed
qed

text \<open>What a build logs never holds the clone token, for any token without brackets that is no
  part of the text put in its place.\<close>

theorem build_log_redacted:
  assumes "tok \<noteq> []" "CHR ''['' \<notin> set tok" "CHR '']'' \<notin> set tok" "\<not> contains ''[REDACTED'' tok"
  shows "\<not> contains (redact tok s) tok"
proof -
  have "\<not> contains (replace_all old (''[REDACTED'' @ '']'') s) old" if "old = tok" for old s
    using that
  proof (induction old "''[REDACTED'' @ '']''" s rule: replace_all.induct)
    case (1 old)
    then show ?case using assms(1) by simp
  next
    case (2 old c s)
    show ?case
    proof (cases "has_prefix (c # s) old")
      case True
      have "contains (replace_all old (''[REDACTED'' @ '']'') (c # s)) old \<longleftrightarrow>
          contains (''[REDACTED'' @ [CHR '']''] @ replace_all old (''[REDACTED'' @ '']'') (drop (length old) (c # s))) old"
        using True 2(3) assms(1) by simp
      with 2(1) 2(3) True assms show ?thesis using contains_append [of "''[REDACTED''" _ old] by blast
    next
      case False
      then have "\<not> has_prefix (c # replace_all old (''[REDACTED'' @ '']'') s) old"
        using has_prefix_replace_all [of old old "''REDACTED]''" "c # s"] 2(3) assms(2) by auto
      with 2 False show ?thesis by simp
    qed
  qed
  then show ?thesis using assms(1) by (simp add: redact_def)
qed

lemma build_log_redacted_witness: "\<not> contains (redact ''ghs_1'' ''clone https://ghs_1@x'') ''ghs_1''"
  by (rule build_log_redacted) (simp_all add: has_prefix_def)

end
