(* ===== verification/Resource_Store.thy ===== *)
theory Resource_Store imports Deploy_Service begin

text \<open>
  The table of shared resources (\<open>store/pg/shared_resource_store.go\<close>) and what services read out of it: the
  configuration of a cloud account, git tokens, and the checks that a resource exists, is of the right kind and
  belongs to the organisation.
\<close>

section \<open>The table\<close>

definition resources_get_by_id :: "uuid \<Rightarrow> shared_resource io" where
  "resources_get_by_id i = query_row (\<lambda>d. by_id i (shared_resources d))"

definition resources_create :: "shared_resource \<Rightarrow> shared_resource io" where
  "resources_create r = insert_row no_index shared_resources shared_resources_update r"

definition resources_update_row :: "shared_resource \<Rightarrow> unit io" where
  "resources_update_row r = update_row no_index shared_resources shared_resources_update r"

definition resources_delete :: "uuid \<Rightarrow> unit io" where
  "resources_delete i = bind now (\<lambda>t. exec (shared_resources_update (delete_pk t i)))"

text \<open>\<open>config->>'cloud_account_id' = ?\<close>: a \<open>jsonb\<close> column has one value for each key, the last one written.\<close>

definition config_text :: "string \<Rightarrow> json option \<Rightarrow> string option" where
  "config_text k c = (case c of Some (JObject kvs) \<Rightarrow>
     (case map_of (rev kvs) k of Some (JString s) \<Rightarrow> Some s | Some (JNumber s) \<Rightarrow> Some s
      | Some (JBool b) \<Rightarrow> Some (if b then ''true'' else ''false'') | _ \<Rightarrow> None) | _ \<Rightarrow> None)"

definition resources_find_by_cloud_account :: "resource_type \<Rightarrow> string \<Rightarrow> shared_resource option io" where
  "resources_find_by_cloud_account ty acc = query (\<lambda>d. find_live (\<lambda>r. sr_type r = ty \<and>
     config_text ''cloud_account_id'' (sr_config r) = Some acc) (shared_resources d))"

definition resources_list_by_org :: "uuid \<Rightarrow> resource_type \<Rightarrow> shared_resource list io" where
  "resources_list_by_org og ty = query (\<lambda>d. newest_first (select_live (\<lambda>r. sr_org r = og \<and> (ty \<noteq> [] \<longrightarrow> sr_type r = ty)) (shared_resources d)))"

section \<open>Checks\<close>

definition validate_resource :: "uuid \<Rightarrow> uuid \<Rightarrow> resource_type \<Rightarrow> unit io" where
  "validate_resource og i want =
     handle (resources_get_by_id i) (\<lambda>e. err (ErrWrap (want @ '' resource not found'') e)) (\<lambda>r.
       if sr_type r \<noteq> want then err (ErrMsg (''resource '' @ sr_name r @ '' is not a '' @ want))
       else if sr_org r \<noteq> og then err (ErrMsg (''resource '' @ sr_name r @ '' does not belong to this organization''))
       else ret ())"

definition validate_worker_cloud_account :: "uuid \<Rightarrow> unit io" where
  "validate_worker_cloud_account i =
     handle (resources_get_by_id i) (\<lambda>e. err (ErrWrap ''cloud account not found'' e)) (\<lambda>r.
       if sr_provider r \<noteq> ''cloudflare'' then
         err (ErrMsg (''workers require a Cloudflare cloud account, but '' @ quoted (sr_provider r) @ '' was selected''))
       else ret ())"

definition validate_page_cloud_account :: "string \<Rightarrow> uuid \<Rightarrow> unit io" where
  "validate_page_cloud_account pp0 i = (let pp = or_default ''aws_cloudfront'' pp0 in
     handle (resources_get_by_id i) (\<lambda>e. err (ErrWrap ''cloud account not found'' e)) (\<lambda>r.
       if pp \<noteq> ''cloudflare_pages'' \<and> pp \<noteq> ''aws_cloudfront'' then err (ErrMsg (''unsupported page provider '' @ quoted pp))
       else let want = (if pp = ''cloudflare_pages'' then ''cloudflare'' else ''aws''); prov = or_default ''aws'' (sr_provider r) in
         if prov \<noteq> want then err (ErrMsg (''page provider '' @ quoted pp @ '' requires a '' @ want @
            '' cloud account, but '' @ quoted prov @ '' was selected''))
         else ret ()))"

definition validate_pages_dns_account :: "page_provider \<Rightarrow> uuid \<Rightarrow> unit io" where
  "validate_pages_dns_account pp i =
     handle (resources_get_by_id i) (\<lambda>e. err (ErrWrap ''dns account not found'' e)) (\<lambda>r.
       case pp of
         PageCloudflarePages \<Rightarrow>
           if sr_provider r = ''cloudflare'' then ret ()
           else err (ErrMsg (''managed DNS for Cloudflare Pages requires a Cloudflare cloud account; the '' @
              quoted (sr_provider r) @ '' provider is not supported''))
       | PageAWSCloudFront \<Rightarrow>
           if sr_provider r \<in> {[], ''aws'', ''route53''} then ret ()
           else err (ErrMsg (''managed DNS for pages requires an AWS (Route53) cloud account; the '' @ quoted (sr_provider r) @
              '' provider is not supported because CloudFront-hosted pages use Route53 alias records'')))"

definition resolve_cloud_config :: "uuid option \<Rightarrow> json option io" where
  "resolve_cloud_config acc = (case acc of
     None \<Rightarrow> err (ErrMsg ''no cloud account configured for this page'')
   | Some i \<Rightarrow> handle (resources_get_by_id i) (\<lambda>e. err (ErrWrap ''cloud account not found'' e)) (\<lambda>r.
       if sr_type r \<noteq> resource_cloud_account then err (ErrMsg (''resource '' @ sr_name r @ '' is not a cloud account''))
       else ret (sr_config r)))"

definition validate_package_manager :: "string \<Rightarrow> go_error option" where
  "validate_package_manager pm =
     (if trim_space pm \<in> {[], ''auto'', ''npm'', ''pnpm''} then None
      else Some (ErrMsg ''package_manager must be one of: auto, npm, pnpm''))"

text \<open>What a page or worker is bound to has passed the checks at some moment: in the same statement-free reading of
  the table, the resource is of the wanted type and of the organisation.\<close>

lemma validate_resource_Inr:
  "validate_resource og i want w = (Inr x, w') \<Longrightarrow>
     \<exists>r. by_id i (shared_resources (db w)) = Some r \<and> sr_type r = want \<and> sr_org r = og \<and> w' = next_fault w"
  by (auto simp: validate_resource_def handle_cases resources_get_by_id_def query_row_Inr split: if_splits)

lemma resource_checks_read [reads_intros]:
  "reads (resources_get_by_id i)" "reads (validate_resource og i want)" "reads (validate_worker_cloud_account i)"
  "reads (validate_page_cloud_account pn i)" "reads (validate_pages_dns_account pp i)" "reads (resolve_cloud_config acc)"
  unfolding validate_resource_def validate_worker_cloud_account_def validate_page_cloud_account_def Let_def
    validate_pages_dns_account_def resolve_cloud_config_def resources_get_by_id_def
  by (auto intro!: reads_intros split: option.splits page_provider.splits)

section \<open>Cloudflare credentials\<close>

record cf_credentials =
  cf_mode :: string
  cf_token :: string
  cf_key :: string
  cf_email :: string
  cf_account :: string

definition cf_use_token :: "cf_credentials \<Rightarrow> bool" where
  "cf_use_token c \<longleftrightarrow> cf_mode c = [] \<or> cf_mode c = ''api_token''"

definition cf_use_key :: "cf_credentials \<Rightarrow> bool" where
  "cf_use_key c \<longleftrightarrow> cf_mode c = ''api_key''"

definition cf_validate :: "cf_credentials \<Rightarrow> go_error option" where
  "cf_validate c =
     (if cf_use_token c then (if cf_token c = [] then Some (ErrMsg ''API token is required for api-token mode'') else None)
      else if cf_use_key c then
        (if cf_key c = [] \<or> cf_email c = [] then Some (ErrMsg ''API key and email are required for api-key mode'') else None)
      else Some (ErrMsg (''unsupported auth_mode '' @ quoted (cf_mode c) @ '' (use api_token or api_key)'')))"

definition cf_fields :: "string list" where
  "cf_fields = [''auth_mode'', ''api_token'', ''api_key'', ''email'', ''account_id'']"

definition cf_parse_credentials :: "json option \<Rightarrow> go_error + cf_credentials" where
  "cf_parse_credentials cfg = (case cfg of
     None \<Rightarrow> Inl (ErrMsg ''cloud account has no credentials configured'')
   | Some j \<Rightarrow>
       if \<not> list_all (\<lambda>f. snd (json_field f j)) cf_fields then Inl (ErrWrap ''invalid cloudflare credentials'' (ErrMsg ''json''))
       else let c = \<lparr>cf_mode = fst (json_field ''auth_mode'' j), cf_token = fst (json_field ''api_token'' j),
                 cf_key = fst (json_field ''api_key'' j), cf_email = fst (json_field ''email'' j),
                 cf_account = fst (json_field ''account_id'' j)\<rparr>
            in (case cf_validate c of Some e \<Rightarrow> Inl e | None \<Rightarrow> Inr c))"

definition deploy_credentials :: "json option \<Rightarrow> go_error + (string \<times> string)" where
  "deploy_credentials cfg = (case cf_parse_credentials cfg of
     Inl e \<Rightarrow> Inl e
   | Inr c \<Rightarrow> if \<not> cf_use_token c \<or> cf_token c = [] then
         Inl (ErrMsg ''worker deploys require a Cloudflare API token (Workers Scripts:Edit); the global API key auth mode is not supported'')
       else Inr (cf_token c, cf_account c))"

lemma deploy_credentials_token: "deploy_credentials cfg = Inr (tok, acc) \<Longrightarrow> tok \<noteq> []"
  by (auto simp: deploy_credentials_def split: sum.splits if_splits)

section \<open>Git tokens\<close>

text \<open>\<open>gh\<close> is the GitHub App: why it gives no token for a repository, or the token, empty when it is not
  installed there; \<open>txt\<close> is \<open>err.Error()\<close>.\<close>

definition config_token :: "json option \<Rightarrow> string \<times> bool" where
  "config_token cfg = (case cfg of None \<Rightarrow> ([], False) | Some j \<Rightarrow> json_field ''token'' j)"

definition provider_token :: "(go_error \<Rightarrow> string) \<Rightarrow> uuid option \<Rightarrow> string \<Rightarrow> (string + string) io" where
  "provider_token txt prov what = (case prov of
     None \<Rightarrow> ret (Inl (''no git provider linked to the '' @ what))
   | Some i \<Rightarrow> handle (resources_get_by_id i) (\<lambda>e. ret (Inl (''git provider resource: '' @ txt e))) (\<lambda>r.
       case config_token (sr_config r) of (tok, ok) \<Rightarrow>
         if \<not> ok then ret (Inl ''git provider config parse: json'')
         else if tok = [] then ret (Inl ''git provider resource has no token configured'')
         else ret (Inr tok)))"

definition resolve_git_token ::
  "(string \<Rightarrow> string + string) \<Rightarrow> (go_error \<Rightarrow> string) \<Rightarrow> string \<Rightarrow> string \<Rightarrow> uuid option \<Rightarrow> string \<Rightarrow> string io" where
  "resolve_git_token gh txt what repo prov name =
     (let fallback = (\<lambda>why. bind (provider_token txt prov what) (\<lambda>r. case r of
            Inr tok \<Rightarrow> ret tok
          | Inl why2 \<Rightarrow> err (ErrMsg (''no git token available for '' @ what @ '' '' @ name @ '': '' @ join_with ''; '' [why, why2])))) in
      case gh repo of
        Inl why \<Rightarrow> fallback why
      | Inr tok \<Rightarrow> if tok \<noteq> [] then ret tok else fallback ''github app: no installation token for this repository'')"

definition resolve_worker_git_token :: "(string \<Rightarrow> string + string) \<Rightarrow> (go_error \<Rightarrow> string) \<Rightarrow> worker \<Rightarrow> string io" where
  "resolve_worker_git_token gh txt w = resolve_git_token gh txt ''worker'' (wk_git_repo w) (wk_git_provider w) (wk_name w)"

definition resolve_page_git_token :: "(string \<Rightarrow> string + string) \<Rightarrow> (go_error \<Rightarrow> string) \<Rightarrow> page \<Rightarrow> string io" where
  "resolve_page_git_token gh txt p = resolve_git_token gh txt ''page'' (pg_git_repo p) (pg_git_provider p) (pg_name p)"

lemma git_token_reads [reads_intros]:
  "reads (provider_token txt prov what)" "reads (resolve_git_token gh txt what repo prov name)"
  "reads (resolve_worker_git_token gh txt wk)" "reads (resolve_page_git_token gh txt p)"
proof -
  show p: "reads (provider_token txt prov what)" for prov what
    by (auto simp: provider_token_def intro!: reads_intros split: option.splits)
  show r: "reads (resolve_git_token gh txt what repo prov name)" for what repo prov name
    by (auto simp: resolve_git_token_def intro!: reads_intros p split: sum.splits)
  show "reads (resolve_worker_git_token gh txt wk)" "reads (resolve_page_git_token gh txt p)"
    by (simp_all add: resolve_worker_git_token_def resolve_page_git_token_def r)
qed

end
