(* ===== verification/Claim_Slot.thy ===== *)
theory Claim_Slot imports App_Store begin

text \<open>
  The contract of the conditional updates of the store (\<open>TryMarkDeploying\<close>, \<open>MarkTimedOut\<close>,
  \<open>TryClaimNeedsConfirmation\<close>): one statement that moves a row out of a set of statuses and answers whether it
  did.  Services rely on it instead of on the rows they read before: of several requests that race for the same row
  only one is told that it won.
\<close>

section \<open>The contract\<close>

datatype 'k race_step = Claim 'k | Other "database \<Rightarrow> database"

fun race_wins :: "('k \<Rightarrow> bool io) \<Rightarrow> 'k \<Rightarrow> 'k race_step list \<Rightarrow> world \<Rightarrow> nat" where
  "race_wins cas k [] w = 0"
| "race_wins cas k (Other f # es) w = race_wins cas k es (w\<lparr>db := f (db w)\<rparr>)"
| "race_wins cas k (Claim j # es) w =
     (case cas j w of (r, w') \<Rightarrow> (if j = k \<and> r = Inr True then 1 else 0) + race_wins cas k es w')"

definition frees_none :: "('k \<Rightarrow> database \<Rightarrow> bool) \<Rightarrow> 'k race_step list \<Rightarrow> bool" where
  "frees_none ready es \<longleftrightarrow> (\<forall>f k d. Other f \<in> set es \<longrightarrow> ready k (f d) \<longrightarrow> ready k d)"

locale claim_slot =
  fixes cas :: "'k \<Rightarrow> bool io" and ready :: "'k \<Rightarrow> database \<Rightarrow> bool"
  assumes won: "cas k w = (Inr True, w') \<Longrightarrow> ready k (db w) \<and> \<not> ready k (db w')"
    and lost: "cas k w = (Inr False, w') \<Longrightarrow> \<not> ready k (db w) \<and> db w' = db w"
    and failed: "cas k w = (Inl e, w') \<Longrightarrow> db w' = db w"
    and others: "cas k w = (r, w') \<Longrightarrow> j \<noteq> k \<Longrightarrow> ready j (db w') = ready j (db w)"
begin

lemma no_win:
  assumes "\<not> ready k (db w)" "cas k w = (r, w')"
  shows "r \<noteq> Inr True \<and> db w' = db w"
proof (cases r)
  case (Inl e) with assms failed show ?thesis by auto
next
  case (Inr b) with assms won lost show ?thesis by (cases b) auto
qed

lemma never_frees:
  assumes "cas k w = (r, w')" "ready j (db w')"
  shows "ready j (db w)"
proof (rule ccontr)
  assume n: "\<not> ready j (db w)"
  with others [OF assms(1)] assms(2) have "j = k" by blast
  with n no_win [OF _ assms(1)] assms(2) show False by auto
qed

lemma one_winner: "frees_none ready es \<Longrightarrow> race_wins cas k es w \<le> (if ready k (db w) then 1 else 0)"
proof (induction es arbitrary: w)
  case (Cons e es)
  then have es: "frees_none ready es" by (auto simp: frees_none_def)
  show ?case
  proof (cases e)
    case (Other f)
    with Cons.prems have "ready k (f (db w)) \<Longrightarrow> ready k (db w)" by (auto simp: frees_none_def)
    with Other Cons.IH [OF es, of "w\<lparr>db := f (db w)\<rparr>"] show ?thesis by (auto split: if_splits)
  next
    case (Claim j)
    obtain r w' where c: "cas j w = (r, w')" by (cases "cas j w")
    have ih: "race_wins cas k es w' \<le> (if ready k (db w') then 1 else 0)" using Cons.IH [OF es] .
    show ?thesis
    proof (cases "j = k \<and> r = Inr True")
      case True
      with won c have "ready k (db w)" "\<not> ready k (db w')" by auto
      with ih True c Claim show ?thesis by simp
    next
      case False
      with ih never_frees [OF c] c Claim show ?thesis by (auto split: if_splits)
    qed
  qed
qed simp

end

section \<open>A conditional update keeps it\<close>

definition claimable :: "(database \<Rightarrow> 'a base_model_scheme list) \<Rightarrow> ('a base_model_scheme \<Rightarrow> bool) \<Rightarrow> uuid \<Rightarrow> database \<Rightarrow> bool" where
  "claimable tbl P i d \<longleftrightarrow> select_live (\<lambda>x. bm_id x = i \<and> P x) (tbl d) \<noteq> []"

definition cond_update ::
  "(database \<Rightarrow> 'a base_model_scheme list) \<Rightarrow> (('a base_model_scheme list \<Rightarrow> 'a base_model_scheme list) \<Rightarrow> database \<Rightarrow> database) \<Rightarrow>
   ('a base_model_scheme \<Rightarrow> bool) \<Rightarrow> (time \<Rightarrow> 'a base_model_scheme \<Rightarrow> 'a base_model_scheme) \<Rightarrow> uuid \<Rightarrow> bool io" where
  "cond_update tbl upd P f i = bind now (\<lambda>t.
     bind (update_where tbl upd (\<lambda>x. bm_id x = i \<and> P x) (f t)) (\<lambda>n. ret (n > 0)))"

lemma cond_update_eval:
  "cond_update tbl upd P f i w =
     (if fault_now w then (Inl ErrIO, next_fault w)
      else (Inr (claimable tbl P i (db w)),
            (next_fault w)\<lparr>db := upd (update_live (\<lambda>x. bm_id x = i \<and> P x) (f (clock w))) (db w)\<rparr>))"
  by (simp add: cond_update_def bind_def handle_def update_where_def statement_def claimable_def)

lemma claimableI: "x \<in> set (tbl d) \<Longrightarrow> live x \<Longrightarrow> bm_id x = i \<Longrightarrow> P x \<Longrightarrow> claimable tbl P i d"
  by (auto simp: claimable_def select_live_def filter_empty_conv)

lemma update_live_none: "select_live P t = [] \<Longrightarrow> update_live P f t = t"
  by (auto simp: select_live_def update_live_def filter_empty_conv intro!: map_idI)

lemma claimable_update:
  assumes "\<And>g d. tbl (upd g d) = g (tbl d)" "\<And>x. bm_id (f x) = bm_id x" "\<And>x. \<not> P (f x)" "\<And>x. live (f x) = live x"
  shows "claimable tbl P j (upd (update_live (\<lambda>x. bm_id x = i \<and> P x) f) d) = (j \<noteq> i \<and> claimable tbl P j d)"
  using assms by (auto simp: claimable_def select_live_def update_live_def filter_map filter_empty_conv)

lemma claim_slot_cond_update:
  assumes "\<And>g d. tbl (upd g d) = g (tbl d)" "\<And>d. upd id d = d"
    and "\<And>g h d. g (tbl d) = h (tbl d) \<Longrightarrow> upd g d = upd h d"
    and "\<And>t x. bm_id (f t x) = bm_id x" "\<And>t x. \<not> P (f t x)" "\<And>t x. live (f t x) = live x"
  shows "claim_slot (cond_update tbl upd P f) (claimable tbl P)"
proof unfold_locales
  fix k w w' e r j
  show "claimable tbl P k (db w) \<and> \<not> claimable tbl P k (db w')" if "cond_update tbl upd P f k w = (Inr True, w')"
    using that claimable_update [of tbl upd "f (clock w)" P k k "db w", OF assms(1,4-6)]
    by (auto simp: cond_update_eval split: if_splits)
  show "\<not> claimable tbl P k (db w) \<and> db w' = db w" if "cond_update tbl upd P f k w = (Inr False, w')"
  proof -
    from that have n: "\<not> claimable tbl P k (db w)"
      and w': "db w' = upd (update_live (\<lambda>x. bm_id x = k \<and> P x) (f (clock w))) (db w)"
      by (auto simp: cond_update_eval split: if_splits)
    from n have "update_live (\<lambda>x. bm_id x = k \<and> P x) (f (clock w)) (tbl (db w)) = tbl (db w)"
      by (simp add: claimable_def update_live_none)
    then have "db w' = upd id (db w)" unfolding w' by (intro assms(3)) simp
    with n assms(2) show ?thesis by simp
  qed
  show "db w' = db w" if "cond_update tbl upd P f k w = (Inl e, w')"
    using that by (auto simp: cond_update_eval split: if_splits)
  show "claimable tbl P j (db w') = claimable tbl P j (db w)" if "cond_update tbl upd P f k w = (r, w')" "j \<noteq> k"
    using that claimable_update [of tbl upd "f (clock w)" P j k "db w", OF assms(1,4-6)]
    by (auto simp: cond_update_eval split: if_splits)
qed

subsection \<open>The updates of the store\<close>

lemma workers_try_mark_deploying_cond:
  "workers_try_mark_deploying = cond_update workers workers_update (\<lambda>w. wk_status w \<noteq> WorkerDeploying)
     (\<lambda>t w. w\<lparr>wk_status := WorkerDeploying, bm_updated := t\<rparr>)"
  by (simp add: fun_eq_iff workers_try_mark_deploying_def cond_update_def)

lemma pages_try_mark_deploying_cond:
  "pages_try_mark_deploying = cond_update pages pages_update (\<lambda>p. pg_status p \<noteq> PageDeploying)
     (\<lambda>t p. p\<lparr>pg_status := PageDeploying, bm_updated := t\<rparr>)"
  by (simp add: fun_eq_iff pages_try_mark_deploying_def cond_update_def)

lemma worker_deployments_mark_timed_out_cond:
  "(\<lambda>i. worker_deployments_mark_timed_out i fin sfx) = cond_update worker_deployments worker_deployments_update
     (\<lambda>x. wd_status x = WorkerDeployDeploying)
     (\<lambda>t x. x\<lparr>wd_status := WorkerDeployFailed, wd_finished := Some fin, wd_log := wd_log x @ sfx, bm_updated := t\<rparr>)"
  by (simp add: fun_eq_iff worker_deployments_mark_timed_out_def cond_update_def)

lemma page_deployments_mark_timed_out_cond:
  "(\<lambda>i. page_deployments_mark_timed_out i fin sfx) = cond_update page_deployments page_deployments_update
     (\<lambda>x. pd_status x = PageDeployDeploying)
     (\<lambda>t x. x\<lparr>pd_status := PageDeployFailed, pd_finished := Some fin, pd_log := pd_log x @ sfx, bm_updated := t\<rparr>)"
  by (simp add: fun_eq_iff page_deployments_mark_timed_out_def cond_update_def)

definition confirmation_note :: string where
  "confirmation_note = CHR 0x0A # ''[orkai] R2 confirmation in progress'' @ [CHR 0xE2, CHR 0x80, CHR 0xA6]"

lemma worker_deployments_try_claim_cond:
  "worker_deployments_try_claim_needs_confirmation = cond_update worker_deployments worker_deployments_update
     (\<lambda>x. wd_status x = WorkerDeployNeedsConfirmation)
     (\<lambda>t x. x\<lparr>wd_status := WorkerDeployCancelled, wd_log := wd_log x @ confirmation_note, bm_updated := t\<rparr>)"
  by (simp add: fun_eq_iff worker_deployments_try_claim_needs_confirmation_def cond_update_def confirmation_note_def)

lemma worker_claim: "claim_slot workers_try_mark_deploying (claimable workers (\<lambda>w. wk_status w \<noteq> WorkerDeploying))"
  unfolding workers_try_mark_deploying_cond by (rule claim_slot_cond_update) (simp_all add: live_def)

lemma page_claim: "claim_slot pages_try_mark_deploying (claimable pages (\<lambda>p. pg_status p \<noteq> PageDeploying))"
  unfolding pages_try_mark_deploying_cond by (rule claim_slot_cond_update) (simp_all add: live_def)

lemma worker_timeout_claim:
  "claim_slot (\<lambda>i. worker_deployments_mark_timed_out i fin sfx) (claimable worker_deployments (\<lambda>x. wd_status x = WorkerDeployDeploying))"
  unfolding worker_deployments_mark_timed_out_cond by (rule claim_slot_cond_update) (simp_all add: live_def)

lemma page_timeout_claim:
  "claim_slot (\<lambda>i. page_deployments_mark_timed_out i fin sfx) (claimable page_deployments (\<lambda>x. pd_status x = PageDeployDeploying))"
  unfolding page_deployments_mark_timed_out_cond by (rule claim_slot_cond_update) (simp_all add: live_def)

lemma confirmation_claim:
  "claim_slot worker_deployments_try_claim_needs_confirmation (claimable worker_deployments (\<lambda>x. wd_status x = WorkerDeployNeedsConfirmation))"
  unfolding worker_deployments_try_claim_cond by (rule claim_slot_cond_update) (simp_all add: live_def)

interpretation worker_slot: claim_slot workers_try_mark_deploying "claimable workers (\<lambda>w. wk_status w \<noteq> WorkerDeploying)"
  by (rule worker_claim)

interpretation page_slot: claim_slot pages_try_mark_deploying "claimable pages (\<lambda>p. pg_status p \<noteq> PageDeploying)"
  by (rule page_claim)

interpretation worker_timeout: claim_slot "\<lambda>i. worker_deployments_mark_timed_out i fin sfx"
  "claimable worker_deployments (\<lambda>x. wd_status x = WorkerDeployDeploying)" for fin sfx
  by (rule worker_timeout_claim)

interpretation page_timeout: claim_slot "\<lambda>i. page_deployments_mark_timed_out i fin sfx"
  "claimable page_deployments (\<lambda>x. pd_status x = PageDeployDeploying)" for fin sfx
  by (rule page_timeout_claim)

interpretation confirmation: claim_slot worker_deployments_try_claim_needs_confirmation
  "claimable worker_deployments (\<lambda>x. wd_status x = WorkerDeployNeedsConfirmation)"
  by (rule confirmation_claim)

end
