(* ===== verification/Worker_Deploy.thy ===== *)
theory Worker_Deploy imports Resource_Store Claim_Slot Calm_World begin

text \<open>
  \<open>service/worker_deploy_service.go\<close>: deployments of Cloudflare workers.  What the build pod does is the record
  \<open>worker_cloud\<close>.  A trigger and a confirmation are split where they stop reading: what they commit is a
  function of the rows they read, so the statements about races hold for every row read earlier.
  The job takes a function \<open>env\<close> that says what other requests do to the database while the pod runs; the end of the
  job's context is a schedule in which every later statement fails.
\<close>

section \<open>The cloud\<close>

record worker_opts =
  wo_repo :: string
  wo_branch :: string
  wo_token :: string
  wo_worker :: uuid
  wo_root :: string
  wo_wrangler :: string
  wo_package_manager :: string
  wo_install :: string
  wo_build :: string
  wo_deploy :: string
  wo_env :: str_map
  wo_confirmed :: "string list"
  wo_api_token :: string
  wo_account :: string

record worker_result =
  wres_commit :: string
  wres_script :: string
  wres_url :: string
  wres_deploy_id :: string
  wres_needs_r2 :: bool
  wres_pending :: "r2_bucket list"

text \<open>\<open>wc_github\<close>: the GitHub App's token for a repository; \<open>wc_builder\<close>: the error of asking the target for a
  worker builder; \<open>wc_build\<close>: the lines a build logs, and its error text or its result; \<open>wc_text\<close>: \<open>err.Error()\<close>.\<close>

record worker_cloud =
  wc_github :: "string \<Rightarrow> string + string"
  wc_builder :: "string option"
  wc_build :: "worker_opts \<Rightarrow> string list \<times> (string + worker_result)"
  wc_text :: "go_error \<Rightarrow> string"

section \<open>Log lines\<close>

definition two_digits :: "nat \<Rightarrow> string" where
  "two_digits n = pad_left 2 CHR ''0'' (digits_of n)"

definition clock_stamp :: "time \<Rightarrow> string" where
  "clock_stamp t = (let s = nat ((t div second) mod 86400) in
     two_digits (s div 3600) @ '':'' @ two_digits (s div 60 mod 60) @ '':'' @ two_digits (s mod 60))"

definition append_log :: "time \<Rightarrow> string \<Rightarrow> string \<Rightarrow> string" where
  "append_log t existing line = (let entry = ''['' @ clock_stamp t @ ''] '' @ line in
     if existing = [] then entry else join_with [CHR 0x0A] [existing, entry])"

section \<open>Helpers\<close>

primrec is_terminal_worker_status :: "worker_deploy_status \<Rightarrow> bool" where
  "is_terminal_worker_status WorkerDeployQueued = False"
| "is_terminal_worker_status WorkerDeployNeedsConfirmation = True"
| "is_terminal_worker_status WorkerDeployDeploying = False"
| "is_terminal_worker_status WorkerDeploySuccess = True"
| "is_terminal_worker_status WorkerDeployFailed = True"
| "is_terminal_worker_status WorkerDeployCancelled = True"

definition set_worker_status :: "worker \<Rightarrow> worker_status \<Rightarrow> unit io" where
  "set_worker_status k s = (if wk_status k = s then ret () else attempt (workers_update_status (bm_id k) s))"

definition update_worker_deploy :: "worker_deployment \<Rightarrow> unit io" where
  "update_worker_deploy d = attempt (worker_deployments_update_row d)"

definition notify_worker :: "worker \<Rightarrow> string \<Rightarrow> string \<Rightarrow> unit io" where
  "notify_worker k ev detail = handle (projects_get_by_id (wk_project k)) (\<lambda>_. ret ())
     (\<lambda>p. notify (Some (p_org p)) ev (wk_name k @ '': '' @ ev) detail)"

section \<open>Trigger\<close>

definition blank_worker_deployment :: worker_deployment where
  "blank_worker_deployment = \<lparr>bm_id = uuid_nil, bm_created = 0, bm_updated = 0, bm_deleted = None, wd_worker = uuid_nil,
     wd_status = WorkerDeployQueued, wd_commit = [], wd_log = [], wd_provider_ref = [], wd_trigger = [], wd_r2_pending = [],
     wd_started = None, wd_finished = None\<rparr>"

definition conflict :: "string \<Rightarrow> go_error" where
  "conflict detail = ErrProblem 409 detail"

definition worker_trigger_commit :: "worker_cloud \<Rightarrow> worker \<Rightarrow> uuid \<Rightarrow> string \<Rightarrow> worker_deployment io" where
  "worker_trigger_commit C k i ty =
     (if wk_status k = WorkerDeploying then err (conflict ''worker is already deploying, wait for it to finish'')
      else if wk_cloud_account k = None then err (ErrMsg ''configure a Cloudflare cloud account on this worker before deploying'')
      else bind (workers_try_mark_deploying i) (\<lambda>won.
        if \<not> won then err (conflict ''worker is already deploying, wait for it to finish'')
        else let prev = wk_status k; k' = k\<lparr>wk_status := WorkerDeploying\<rparr> in
          handle (worker_deployments_create (blank_worker_deployment\<lparr>wd_worker := i, wd_status := WorkerDeployQueued,
              wd_trigger := or_default ''manual'' ty\<rparr>))
            (\<lambda>e. seq (set_worker_status k' prev) (err e))
            (\<lambda>d. handle (enqueue (new_worker_deploy_job (bm_id d)))
               (\<lambda>e. bind now (\<lambda>t. seq (attempt (worker_deployments_update_row (d\<lparr>wd_status := WorkerDeployFailed,
                    wd_finished := Some t, wd_log := ''Failed to enqueue deploy job: '' @ wc_text C e\<rparr>)))
                  (seq (set_worker_status k' prev) (err (ErrWrap ''enqueue worker deploy job'' e)))))
               (\<lambda>_. ret d))))"

definition worker_trigger :: "worker_cloud \<Rightarrow> uuid \<Rightarrow> string \<Rightarrow> worker_deployment io" where
  "worker_trigger C i ty = bind (workers_get_by_id i) (\<lambda>k. worker_trigger_commit C k i ty)"

section \<open>The job\<close>

definition worker_log :: "string \<Rightarrow> worker_deployment \<Rightarrow> worker_deployment io" where
  "worker_log line d = bind now (\<lambda>t. let d' = d\<lparr>wd_log := append_log t (wd_log d) line\<rparr> in
     seq (update_worker_deploy d') (ret d'))"

fun worker_logs :: "string list \<Rightarrow> worker_deployment \<Rightarrow> worker_deployment io" where
  "worker_logs [] d = ret d"
| "worker_logs (l # ls) d = bind (worker_log l d) (worker_logs ls)"

definition worker_fail :: "worker \<Rightarrow> worker_deployment \<Rightarrow> string \<Rightarrow> unit io" where
  "worker_fail k d msg = bind now (\<lambda>t.
     seq (update_worker_deploy (d\<lparr>wd_status := WorkerDeployFailed, wd_finished := Some t,
        wd_log := append_log t (wd_log d) (''ERROR: '' @ msg)\<rparr>))
     (seq (set_worker_status k WorkerError)
       (notify_worker k ''deploy_failed'' (''Worker '' @ wk_name k @ '' deploy failed: '' @ msg))))"

definition worker_succeed :: "worker \<Rightarrow> worker_deployment \<Rightarrow> string \<Rightarrow> unit io" where
  "worker_succeed k d ref = bind now (\<lambda>t.
     seq (update_worker_deploy (d\<lparr>wd_status := WorkerDeploySuccess, wd_provider_ref := ref, wd_finished := Some t\<rparr>))
     (seq (set_worker_status k WorkerLive)
       (notify_worker k ''deploy_success'' (''Worker '' @ wk_name k @ '' deployed''))))"

definition worker_needs_confirmation :: "worker \<Rightarrow> worker_deployment \<Rightarrow> r2_bucket list \<Rightarrow> unit io" where
  "worker_needs_confirmation k d pending = bind now (\<lambda>t.
     seq (update_worker_deploy (d\<lparr>wd_status := WorkerDeployNeedsConfirmation, wd_r2_pending := pending, wd_finished := Some t,
        wd_log := append_log t (wd_log d) (''Paused: R2 bucket(s) already exist and need confirmation: '' @
          join_with '', '' (map r2_name pending))\<rparr>))
     (set_worker_status k WorkerIdle))"

definition worker_opts_of :: "worker \<Rightarrow> string \<Rightarrow> string \<Rightarrow> string \<Rightarrow> worker_opts" where
  "worker_opts_of k tok api acc = \<lparr>wo_repo = wk_git_repo k, wo_branch = wk_git_branch k, wo_token = tok, wo_worker = bm_id k,
     wo_root = wk_root_dir k, wo_wrangler = wk_wrangler_config k, wo_package_manager = wk_package_manager k,
     wo_install = wk_install_command k, wo_build = wk_build_command k, wo_deploy = wk_deploy_command k,
     wo_env = wk_build_env k, wo_confirmed = wk_r2_confirmed k, wo_api_token = api, wo_account = acc\<rparr>"

definition keep_or :: "string \<Rightarrow> string \<Rightarrow> string" where
  "keep_or old new = (if new \<noteq> [] then new else old)"

definition worker_finish :: "worker \<Rightarrow> worker_deployment \<Rightarrow> worker_result \<Rightarrow> unit io" where
  "worker_finish k d r =
     (if wres_needs_r2 r then
        worker_needs_confirmation k (d\<lparr>wd_commit := keep_or (wd_commit d) (wres_commit r)\<rparr>) (wres_pending r)
      else let rt0 = (case wk_runtime k of None \<Rightarrow> zero_worker_runtime | Some x \<Rightarrow> x);
               rt = rt0\<lparr>wr_script := keep_or (wr_script rt0) (wres_script r), wr_url := keep_or (wr_url rt0) (wres_url r),
                 wr_last_deploy := keep_or (wr_last_deploy rt0) (wres_deploy_id r)\<rparr>;
               d1 = d\<lparr>wd_commit := keep_or (wd_commit d) (wres_commit r)\<rparr> in
        seq (attempt (workers_update_runtime (bm_id k) (Some rt)))
          (bind (if wr_url rt \<noteq> [] then worker_log (''Live at '' @ wr_url rt) d1 else ret d1) (\<lambda>d2.
             worker_succeed (k\<lparr>wk_runtime := Some rt\<rparr>) d2 (wr_script rt))))"

definition deploying_line :: string where
  "deploying_line = ''Deploying worker in an in-cluster build pod'' @ [CHR 0xE2, CHR 0x80, CHR 0xA6]"

definition worker_build :: "worker_cloud \<Rightarrow> (database \<Rightarrow> database) \<Rightarrow> worker \<Rightarrow> worker_deployment \<Rightarrow> string \<Rightarrow> string \<Rightarrow> string \<Rightarrow> unit io" where
  "worker_build C env k d tok api acc =
     bind (worker_log deploying_line d) (\<lambda>d1.
       case wc_build C (worker_opts_of k tok api acc) of (lines, outcome) \<Rightarrow>
         bind (worker_logs lines d1) (\<lambda>d2.
         seq (modify (\<lambda>w. w\<lparr>db := env (db w)\<rparr>))
         (case outcome of Inl e \<Rightarrow> worker_fail k d2 (''deploy failed: '' @ e) | Inr r \<Rightarrow> worker_finish k d2 r)))"

definition worker_execute :: "worker_cloud \<Rightarrow> (database \<Rightarrow> database) \<Rightarrow> worker \<Rightarrow> worker_deployment \<Rightarrow> unit io" where
  "worker_execute C env k d =
     handle (resolve_cloud_config (wk_cloud_account k)) (\<lambda>e. worker_fail k d (wc_text C e)) (\<lambda>cfg.
       case deploy_credentials cfg of
         Inl e \<Rightarrow> worker_fail k d (wc_text C e)
       | Inr (api, acc) \<Rightarrow>
           bind (handle (resolve_worker_git_token (wc_github C) (wc_text C) k) (\<lambda>e. ret (Inl e)) (\<lambda>t. ret (Inr t))) (\<lambda>tk.
             case tk of
               Inl e \<Rightarrow> if wk_git_provider k \<noteq> None then worker_fail k d (''resolve git token: '' @ wc_text C e)
                 else (case wc_builder C of
                     Some m \<Rightarrow> worker_fail k d (''worker deploys are not supported by the deploy target: '' @ m)
                   | None \<Rightarrow> worker_build C env k d [] api acc)
             | Inr tok \<Rightarrow> (case wc_builder C of
                     Some m \<Rightarrow> worker_fail k d (''worker deploys are not supported by the deploy target: '' @ m)
                   | None \<Rightarrow> worker_build C env k d tok api acc)))"

definition run_worker_job :: "worker_cloud \<Rightarrow> (database \<Rightarrow> database) \<Rightarrow> uuid \<Rightarrow> unit io" where
  "run_worker_job C env i =
     handle (worker_deployments_get_by_id i) (\<lambda>e. err (ErrWrap ''load worker deployment'' e)) (\<lambda>d.
       if is_terminal_worker_status (wd_status d) then ret ()
       else handle (workers_get_by_id (wd_worker d)) (\<lambda>e. err (ErrWrap ''load worker'' e)) (\<lambda>k.
         bind now (\<lambda>t. let d1 = d\<lparr>wd_started := Some t, wd_status := WorkerDeployDeploying\<rparr> in
           seq (update_worker_deploy d1) (seq (set_worker_status k WorkerDeploying)
             (worker_execute C env (k\<lparr>wk_status := WorkerDeploying\<rparr>) d1)))))"

section \<open>Confirmation of existing buckets\<close>

fun add_unseen :: "string list \<Rightarrow> string list \<Rightarrow> string list" where
  "add_unseen acc [] = acc"
| "add_unseen acc (n # ns) = add_unseen (if n \<in> set acc then acc else acc @ [n]) ns"

definition revert_r2_claim :: "worker_deployment \<Rightarrow> time option \<Rightarrow> string \<Rightarrow> unit io" where
  "revert_r2_claim d fin msg = bind now (\<lambda>t. update_worker_deploy (d\<lparr>wd_status := WorkerDeployNeedsConfirmation,
     wd_finished := fin, wd_log := append_log t (wd_log d) msg\<rparr>))"

definition confirm_r2_commit :: "worker_cloud \<Rightarrow> worker \<Rightarrow> worker_deployment \<Rightarrow> uuid \<Rightarrow> worker_deployment io" where
  "confirm_r2_commit C k d i =
     (if wd_status d \<noteq> WorkerDeployNeedsConfirmation then err (conflict ''no deployment is awaiting R2 confirmation'')
      else handle (worker_deployments_try_claim_needs_confirmation (bm_id d))
        (\<lambda>e. err (ErrWrap ''claim R2 confirmation deployment'' e)) (\<lambda>claimed.
        if \<not> claimed then err (conflict ''no deployment is awaiting R2 confirmation'')
        else let d1 = d\<lparr>wd_status := WorkerDeployCancelled\<rparr> in
          handle (workers_update_row (k\<lparr>wk_r2_confirmed := add_unseen (wk_r2_confirmed k) (map r2_name (wd_r2_pending d))\<rparr>))
            (\<lambda>e. seq (revert_r2_claim d1 (wd_finished d) ''Failed to persist confirmed R2 buckets.'')
               (err (ErrWrap ''persist confirmed R2 buckets'' e)))
            (\<lambda>_. handle (worker_trigger C i ''manual'')
               (\<lambda>e. seq (revert_r2_claim d1 (wd_finished d) ''R2 confirmation failed; please try again.'') (err e))
               (\<lambda>nd. bind now (\<lambda>t. seq (update_worker_deploy (d1\<lparr>wd_finished := Some t,
                    wd_log := append_log t (wd_log d) ''R2 bucket(s) confirmed; re-deploying.''\<rparr>)) (ret nd))))))"

definition confirm_r2 :: "worker_cloud \<Rightarrow> uuid \<Rightarrow> worker_deployment io" where
  "confirm_r2 C i = bind (workers_get_by_id i) (\<lambda>k.
     handle (worker_deployments_get_latest_by_worker i)
       (\<lambda>e. if e = ErrNoRows then err (ErrProblem 404 ''no deployment awaiting confirmation'')
            else err (ErrWrap ''get latest worker deployment'' e))
       (\<lambda>d. confirm_r2_commit C k d i))"

section \<open>Recovery of stale deployments\<close>

definition cloud_stale_threshold :: duration where
  "cloud_stale_threshold = 40 * minute"

definition recover_stale_worker :: "worker_deployment \<Rightarrow> unit io" where
  "recover_stale_worker d = bind now (\<lambda>t.
     if t - (case wd_started d of None \<Rightarrow> bm_created d | Some s \<Rightarrow> s) < cloud_stale_threshold then ret ()
     else handle (worker_deployments_mark_timed_out (bm_id d) t (log_note ''Deploy timed out (stale for >40min)'')) (\<lambda>_. ret ())
       (\<lambda>marked. if marked then attempt (workers_update_status (wd_worker d) WorkerError) else ret ()))"

definition recover_stale_workers :: "unit io" where
  "recover_stale_workers =
     handle (worker_deployments_list_by_status WorkerDeployDeploying \<lparr>lp_page = 1, lp_per_page = 1000\<rparr>)
       (\<lambda>_. ret ()) (\<lambda>(ds, _). for_each recover_stale_worker ds)"

end
