(* ===== verification/Worker_Races.thy ===== *)
theory Worker_Races imports Worker_Deploy begin

text \<open>
  Properties of the worker deployments across requests: who wins a race of triggers, what a confirmation does to a
  worker that is deploying, how a job ends, and what the recovery of stale deployments may touch.
\<close>

section \<open>Steps\<close>

abbreviation worker_free :: "uuid \<Rightarrow> database \<Rightarrow> bool" where
  "worker_free \<equiv> claimable workers (\<lambda>w. wk_status w \<noteq> WorkerDeploying)"

lemma set_worker_status_eval:
  "set_worker_status k s w = (Inr (), snd (set_worker_status k s w))"
  "queue (snd (set_worker_status k s w)) = queue w"
  "worker_deployments (db (snd (set_worker_status k s w))) = worker_deployments (db w)"
  by (simp_all add: set_worker_status_def attempt_eval workers_update_status_def exec_def statement_def bind_now)

lemma worker_update_eval:
  "queue (snd (attempt (worker_deployments_update_row d) w)) = queue w"
  "workers (db (snd (attempt (worker_deployments_update_row d) w))) = workers (db w)"
  by (simp_all add: attempt_eval worker_deployments_update_row_def update_row_def statement_def)

lemma worker_create_eval:
  assumes "worker_deployments_create d w = (r, w')"
  shows "queue w' = queue w" "workers (db w') = workers (db w)"
    "r = Inr x \<Longrightarrow> worker_deployments (db w') = worker_deployments (db w) @ [x] \<and>
       wd_status x = wd_status d \<and> wd_worker x = wd_worker d"
  using assms by (auto simp: worker_deployments_create_def insert_row_def Let_def append_row_def fill_defaults_def split: if_splits)

lemma mark_eval:
  assumes "workers_try_mark_deploying i w = (r, w')"
  shows "queue w' = queue w" "worker_deployments (db w') = worker_deployments (db w)"
  using assms by (auto simp: workers_try_mark_deploying_cond cond_update_eval split: if_splits)

lemma worker_trigger_wins:
  assumes "worker_trigger_commit C k i ty w = (Inr d, w')"
  shows "worker_free i (db w) \<and> \<not> worker_free i (db w') \<and> queue w' = queue w @ [new_worker_deploy_job (bm_id d)] \<and>
    worker_deployments (db w') = worker_deployments (db w) @ [d] \<and> wd_status d = WorkerDeployQueued \<and> wd_worker d = i"
proof -
  from assms obtain w1 w2 where
    m: "workers_try_mark_deploying i w = (Inr True, w1)"
    and c: "worker_deployments_create (blank_worker_deployment\<lparr>wd_worker := i, wd_status := WorkerDeployQueued,
              wd_trigger := or_default ''manual'' ty\<rparr>) w1 = (Inr d, w2)"
    and q: "enqueue (new_worker_deploy_job (bm_id d)) w2 = (Inr (), w')"
    by (auto simp: worker_trigger_commit_def bind_Inr seq_Inr handle_cases Let_def split: if_splits)
  from worker_slot.won [OF m] have f: "worker_free i (db w)" "\<not> worker_free i (db w1)" by simp_all
  from q have w': "db w' = db w2" "queue w' = queue w2 @ [new_worker_deploy_job (bm_id d)]"
    by (auto simp: enqueue_def split: if_splits)
  have "worker_free i (db w2) = worker_free i (db w1)" using worker_create_eval(2) [OF c] by (simp add: claimable_def)
  with f w' worker_create_eval [OF c] mark_eval [OF m] show ?thesis by simp
qed

lemma worker_trigger_loses:
  assumes "worker_trigger_commit C k i ty w = (Inl e, w')"
  shows "queue w' = queue w \<and> (\<not> worker_free i (db w) \<longrightarrow> db w' = db w)"
proof (cases "wk_status k = WorkerDeploying \<or> wk_cloud_account k = None")
  case True
  with assms show ?thesis by (auto simp: worker_trigger_commit_def split: if_splits)
next
  case False
  obtain r1 w1 where m: "workers_try_mark_deploying i w = (r1, w1)" by (cases "workers_try_mark_deploying i w")
  note q1 = mark_eval(1) [OF m]
  show ?thesis
  proof (cases "r1 = Inr True")
    case lost: False
    then have "db w1 = db w" by (cases r1) (use m worker_slot.failed worker_slot.lost in auto)
    moreover have "w' = w1"
      using assms False m lost by (cases r1) (auto simp: worker_trigger_commit_def bind_def)
    ultimately show ?thesis using q1 by simp
  next
    case True
    with m worker_slot.won have f: "worker_free i (db w)" by blast
    let ?d = "blank_worker_deployment\<lparr>wd_worker := i, wd_status := WorkerDeployQueued, wd_trigger := or_default ''manual'' ty\<rparr>"
    obtain r2 w2 where c: "worker_deployments_create ?d w1 = (r2, w2)" by (cases "worker_deployments_create ?d w1")
    note q2 = worker_create_eval(1) [OF c]
    have s: "set_worker_status k' s v = (x, v') \<Longrightarrow> queue v' = queue v" for k' s v x v'
      using set_worker_status_eval(2) [of k' s v] by simp
    have u: "attempt (worker_deployments_update_row x) v = (y, v') \<Longrightarrow> queue v' = queue v" for x v y v'
      using worker_update_eval(1) [of x v] by simp
    have "queue w' = queue w2"
    proof (cases r2)
      case (Inl e2)
      with assms False m True c show ?thesis
        by (auto simp: worker_trigger_commit_def bind_def seq_def handle_def Let_def dest: s split: prod.splits sum.splits)
    next
      case (Inr d)
      with assms False m True c show ?thesis
        by (auto simp: worker_trigger_commit_def bind_def seq_def handle_def Let_def enqueue_def dest!: s u
            split: prod.splits sum.splits if_splits)
    qed
    with f q1 q2 show ?thesis by simp
  qed
qed

section \<open>Races of triggers\<close>

text \<open>C18 (worker_trigger_race): whatever row of the worker a request read before, at the moment it commits it either wins
  the slot of a worker that is not deploying, and then has stored its queued deployment, put exactly its job on
  the queue and closed the slot, or it puts nothing on the queue; and if the worker was already deploying it leaves
  the database untouched.\<close>

theorem worker_trigger_race:
  assumes "worker_trigger_commit C k i ty w = (r, w')"
  shows "case r of
      Inr d \<Rightarrow> worker_free i (db w) \<and> \<not> worker_free i (db w') \<and> queue w' = queue w @ [new_worker_deploy_job (bm_id d)] \<and>
        worker_deployments (db w') = worker_deployments (db w) @ [d] \<and> wd_status d = WorkerDeployQueued \<and> wd_worker d = i
    | Inl e \<Rightarrow> queue w' = queue w \<and> (worker_free i (db w) \<or> db w' = db w)"
proof (cases r)
  case (Inl e)
  with worker_trigger_loses [of C k i ty w e w'] assms show ?thesis by (simp add: disj_commute) blast
next
  case (Inr d)
  with worker_trigger_wins [of C k i ty w d w'] assms show ?thesis by simp
qed

definition demo_worker :: worker where
  "demo_worker = \<lparr>bm_id = 5, bm_created = 0, bm_updated = 0, bm_deleted = None, wk_project = 3, wk_name = ''w'',
     wk_description = [], wk_git_repo = ''r'', wk_git_branch = ''main'', wk_git_provider = None, wk_root_dir = ''.'',
     wk_wrangler_config = ''wrangler.toml'', wk_package_manager = ''auto'', wk_install_command = [], wk_build_command = [],
     wk_deploy_command = [], wk_build_env = Map.empty, wk_r2_confirmed = [], wk_cloud_account = Some 9,
     wk_runtime = None, wk_status = WorkerIdle, wk_webhook_secret = [], wk_auto_deploy = False\<rparr>"

definition demo_worker_cloud :: worker_cloud where
  "demo_worker_cloud = \<lparr>wc_github = (\<lambda>_. Inl ''none''), wc_builder = None,
     wc_build = (\<lambda>_. ([''ok''], Inr \<lparr>wres_commit = ''c'', wres_script = ''s'', wres_url = ''u'', wres_deploy_id = ''d'',
        wres_needs_r2 = False, wres_pending = []\<rparr>)), wc_text = (\<lambda>_. [])\<rparr>"

definition busy_worker_db :: database where
  "busy_worker_db = empty_database\<lparr>workers := [demo_worker\<lparr>wk_status := WorkerDeploying\<rparr>]\<rparr>"

lemma worker_trigger_race_witness:
  "queue (snd (worker_trigger_commit demo_worker_cloud demo_worker 5 [] (world_of busy_worker_db))) = [] \<and>
   (\<exists>e. fst (worker_trigger_commit demo_worker_cloud demo_worker 5 [] (world_of busy_worker_db)) = Inl e)"
proof -
  let ?w = "world_of busy_worker_db"
  obtain r w' where t: "worker_trigger_commit demo_worker_cloud demo_worker 5 [] ?w = (r, w')"
    by (cases "worker_trigger_commit demo_worker_cloud demo_worker 5 [] ?w")
  have "\<not> worker_free 5 (db ?w)"
    by (simp add: claimable_def busy_worker_db_def demo_worker_def select_live_def live_def)
  then have "(\<exists>e. r = Inl e) \<and> queue w' = queue ?w"
    using worker_trigger_race [OF t] by (cases r) simp_all
  with t show ?thesis by simp
qed

text \<open>C34 (one_deploy_at_a_time): among any number of conditional claims of the same worker or page, interleaved with
  changes of the database that do not take a row out of deploying, at most one is told that it won, and none if the
  row was deploying at the start.\<close>

theorem one_deploy_at_a_time:
  assumes "frees_none worker_free es" "frees_none (claimable pages (\<lambda>p. pg_status p \<noteq> PageDeploying)) es'"
  shows "race_wins workers_try_mark_deploying i es w \<le> (if worker_free i (db w) then 1 else 0) \<and>
    race_wins pages_try_mark_deploying j es' w \<le> (if claimable pages (\<lambda>p. pg_status p \<noteq> PageDeploying) j (db w) then 1 else 0)"
  using worker_slot.one_winner [OF assms(1)] page_slot.one_winner [OF assms(2)] by simp

lemma one_deploy_at_a_time_witness:
  "race_wins workers_try_mark_deploying 5 [Claim 5, Claim 5, Claim 5] (world_of (empty_database\<lparr>workers := [demo_worker]\<rparr>)) \<le> 1 \<and>
   race_wins pages_try_mark_deploying 5 [Claim 5, Claim 5] (world_of (empty_database\<lparr>workers := [demo_worker]\<rparr>)) = 0"
  using one_deploy_at_a_time [of "[Claim 5, Claim 5, Claim 5]" "[Claim 5, Claim 5]" 5 "world_of (empty_database\<lparr>workers := [demo_worker]\<rparr>)" 5]
  by (simp add: frees_none_def claimable_def select_live_def empty_database_def split: if_splits)

section \<open>A confirmation beside a deploy\<close>

text \<open>A confirmation that read the worker while it was idle writes the whole row back, its status
  included.  If another deploy of the worker started in between, the slot that deploy holds is free again, the
  confirmation's own trigger wins it, and two jobs of the same worker are on their way.\<close>

theorem confirmation_frees_worker:
  assumes "faults w = []" "distinct_ids (workers (db w))" "distinct_ids (worker_deployments (db w))"
    and "by_id i (workers (db w)) = Some k0" "wk_status k0 = WorkerDeploying"
    and "k = k0\<lparr>wk_status := WorkerIdle\<rparr>" "wk_cloud_account k \<noteq> None"
    and "by_id (bm_id d) (worker_deployments (db w)) = Some d" "wd_status d = WorkerDeployNeedsConfirmation"
    and "unique_live worker_key k (filter (\<lambda>x. bm_id x \<noteq> i) (workers (db w)))"
    and "id_supply w (id_next w) \<notin> set (map bm_id (worker_deployments (db w)))"
  shows "\<exists>nd w'. confirm_r2_commit C k d i w = (Inr nd, w') \<and> queue w' = queue w @ [new_worker_deploy_job (bm_id nd)]"
proof -
  let ?k = "k\<lparr>wk_r2_confirmed := add_unseen (wk_r2_confirmed k) (map r2_name (wd_r2_pending d))\<rparr>"
  have k: "bm_id k0 = i" "live k0" using assms(4) by (auto dest: find_live_iff)
  have kk: "bm_id ?k = i" "live ?k" "wk_status ?k = WorkerIdle" "worker_key ?k = worker_key k"
    using k assms(6) by (simp_all add: live_def worker_key_def)
  have d: "live d" using assms(8) by (auto dest: find_live_iff)
  obtain w1 where c1: "worker_deployments_try_claim_needs_confirmation (bm_id d) w = (Inr True, w1)"
    and w1: "faults w1 = []" "workers (db w1) = workers (db w)" "queue w1 = queue w" "id_next w1 = id_next w" "id_supply w1 = id_supply w"
      "map bm_id (worker_deployments (db w1)) = map bm_id (worker_deployments (db w))"
  proof -
    have "d \<in> set (worker_deployments (db w))" using assms(8) by (auto dest: find_live_iff)
    then have "claimable worker_deployments (\<lambda>x. wd_status x = WorkerDeployNeedsConfirmation) (bm_id d) (db w)"
      using d assms(9) by (intro claimableI) simp_all
    then show thesis
      using that assms(1) by (auto simp: worker_deployments_try_claim_cond cond_update_eval next_fault_nofault ids_update_live)
  qed
  obtain w2 where c2: "workers_update_row ?k w1 = (Inr (), w2)"
    and w2: "faults w2 = []" "workers (db w2) = replace_pk ?k (workers (db w))" "queue w2 = queue w" "id_next w2 = id_next w"
      "id_supply w2 = id_supply w" "worker_deployments (db w2) = worker_deployments (db w1)"
    using w1 assms(10) kk
    by (auto simp: workers_update_row_def update_row_def statement_def unique_live_def next_fault_nofault)
  have b: "by_id i (workers (db w2)) = Some ?k"
    using by_id_replace_pk [OF assms(2) kk(2)] assms(4) kk(1) w2(2) by simp
  let ?s = "worker_after_scan ?k"
  have g: "workers_get_by_id i w2 = (Inr ?s, next_fault w2)"
    using b w2(1) by (simp add: workers_get_by_id_def query_row_def statement_def)
  have s: "wk_status ?s = WorkerIdle" "wk_cloud_account ?s \<noteq> None" using kk(3) assms(7) by (simp_all add: worker_after_scan_def)
  have "?k \<in> set (workers (db w2))" using b by (auto dest: find_live_iff)
  then have free: "worker_free i (db w2)" by (rule claimableI [where x = ?k]) (use kk in simp_all)
  obtain w3 where c3: "workers_try_mark_deploying i (next_fault w2) = (Inr True, w3)"
    and w3: "faults w3 = []" "queue w3 = queue w" "id_next w3 = id_next w" "id_supply w3 = id_supply w"
      "worker_deployments (db w3) = worker_deployments (db w1)"
    using free w2 by (auto simp: workers_try_mark_deploying_cond cond_update_eval next_fault_nofault)
  let ?n = "blank_worker_deployment\<lparr>wd_worker := i, wd_status := WorkerDeployQueued, wd_trigger := or_default ''manual'' ''manual''\<rparr>"
  obtain nd w4 where c4: "worker_deployments_create ?n w3 = (Inr nd, w4)" and w4: "faults w4 = []" "queue w4 = queue w"
  proof -
    have "set (map bm_id (worker_deployments (db w3))) = set (map bm_id (worker_deployments (db w)))"
      using w3(5) w1(6) by simp
    then show thesis
      using that assms(11) w3 by (auto simp: worker_deployments_create_def insert_row_def Let_def fill_defaults_def no_index_def
          blank_worker_deployment_def next_fault_nofault uuid_nil_def)
  qed
  let ?w5 = "(next_fault w4)\<lparr>queue := queue w4 @ [new_worker_deploy_job (bm_id nd)]\<rparr>"
  have c5: "enqueue (new_worker_deploy_job (bm_id nd)) w4 = (Inr (), ?w5)" using w4 by (simp add: enqueue_def)
  have t: "worker_trigger C i ''manual'' w2 = (Inr nd, ?w5)"
    using g s c3 c4 c5 by (simp add: worker_trigger_def worker_trigger_commit_def bind_def Let_def)
  have u: "update_worker_deploy x v = (Inr (), snd (update_worker_deploy x v))" "queue (snd (update_worker_deploy x v)) = queue v" for x v
    using worker_update_eval(1) [of x v] by (simp_all add: update_worker_deploy_def attempt_eval)
  from c1 c2 t assms(9) w4(2) show ?thesis
    by (simp add: confirm_r2_commit_def Let_def bind_now seq_def bind_def u(2) handle_eval(2) [OF u(1)])
qed

definition parked_deployment :: worker_deployment where
  "parked_deployment = blank_worker_deployment\<lparr>bm_id := 7, wd_worker := 5, wd_status := WorkerDeployNeedsConfirmation\<rparr>"

definition confirming_db :: database where
  "confirming_db = busy_worker_db\<lparr>worker_deployments := [parked_deployment]\<rparr>"

lemma confirmation_frees_worker_witness:
  "\<exists>nd w'. confirm_r2_commit demo_worker_cloud demo_worker parked_deployment 5 (world_of confirming_db) = (Inr nd, w') \<and>
     queue w' = [new_worker_deploy_job (bm_id nd)]"
proof -
  have w: "workers confirming_db = [demo_worker\<lparr>wk_status := WorkerDeploying\<rparr>]"
    "worker_deployments confirming_db = [parked_deployment]"
    by (simp_all add: confirming_db_def busy_worker_db_def)
  have r: "bm_id demo_worker = 5" "live demo_worker" "wk_status demo_worker = WorkerIdle" "wk_cloud_account demo_worker \<noteq> None"
    "demo_worker = demo_worker\<lparr>wk_status := WorkerDeploying\<rparr>\<lparr>wk_status := WorkerIdle\<rparr>"
    "bm_id parked_deployment = 7" "live parked_deployment" "wd_status parked_deployment = WorkerDeployNeedsConfirmation"
    by (simp_all add: demo_worker_def parked_deployment_def blank_worker_deployment_def live_def)
  have "\<exists>nd w'. confirm_r2_commit demo_worker_cloud demo_worker parked_deployment 5 (world_of confirming_db) = (Inr nd, w') \<and>
     queue w' = queue (world_of confirming_db) @ [new_worker_deploy_job (bm_id nd)]"
    by (rule confirmation_frees_worker [where ?k0.0 = "demo_worker\<lparr>wk_status := WorkerDeploying\<rparr>"])
       (use r in \<open>simp_all add: w distinct_ids_def by_id_Cons live_def unique_live_def\<close>)
  then show ?thesis by simp
qed

section \<open>Recovery\<close>

text \<open>What the recovery may touch: a deployment that is still deploying when its statement runs.\<close>

lemma recover_stale_worker_noop:
  assumes "\<not> claimable worker_deployments (\<lambda>x. wd_status x = WorkerDeployDeploying) (bm_id d) (db w)"
  shows "db (snd (recover_stale_worker d w)) = db w"
proof -
  obtain r w' where m: "worker_deployments_mark_timed_out (bm_id d) (clock w) (log_note ''Deploy timed out (stale for >40min)'') w = (r, w')"
    by (cases "worker_deployments_mark_timed_out (bm_id d) (clock w) (log_note ''Deploy timed out (stale for >40min)'') w")
  with worker_timeout.no_win [OF assms m] show ?thesis
    by (cases r) (auto simp: recover_stale_worker_def bind_now)
qed

end
