(* ===== verification/Worker_Finish.thy ===== *)
theory Worker_Finish imports Worker_Races begin

text \<open>
  How a worker deploy job ends: triples over the invariant that the two rows of the job are there, which every
  step of the job and every change that happens beside it keeps.
\<close>

section \<open>The invariant\<close>

definition worker_rows :: "uuid \<Rightarrow> uuid \<Rightarrow> database \<Rightarrow> bool" where
  "worker_rows i ki d \<longleftrightarrow> distinct_ids (worker_deployments d) \<and> distinct_ids (workers d) \<and>
     by_id i (worker_deployments d) \<noteq> None \<and> by_id ki (workers d) \<noteq> None"

definition worker_env :: "uuid \<Rightarrow> uuid \<Rightarrow> (database \<Rightarrow> database) \<Rightarrow> bool" where
  "worker_env i ki env \<longleftrightarrow> (\<forall>d. worker_rows i ki d \<longrightarrow> worker_rows i ki (env d))"

definition worker_at :: "uuid \<Rightarrow> uuid \<Rightarrow> world \<Rightarrow> bool" where
  "worker_at i ki w \<longleftrightarrow> calm w \<and> worker_rows i ki (db w)"

definition deploy_is :: "uuid \<Rightarrow> worker_deployment \<Rightarrow> world \<Rightarrow> bool" where
  "deploy_is i d w \<longleftrightarrow> by_id i (worker_deployments (db w)) = Some d"

definition worker_is :: "uuid \<Rightarrow> worker_status \<Rightarrow> world \<Rightarrow> bool" where
  "worker_is ki s w \<longleftrightarrow> map_option wk_status (by_id ki (workers (db w))) = Some s"

definition worker_outcome :: "worker_deploy_status \<Rightarrow> worker_status option" where
  "worker_outcome s = (case s of WorkerDeploySuccess \<Rightarrow> Some WorkerLive | WorkerDeployFailed \<Rightarrow> Some WorkerError
     | WorkerDeployNeedsConfirmation \<Rightarrow> Some WorkerIdle | _ \<Rightarrow> None)"

definition worker_done :: "uuid \<Rightarrow> uuid \<Rightarrow> world \<Rightarrow> bool" where
  "worker_done i ki w \<longleftrightarrow> (\<exists>d s. deploy_is i d w \<and> wd_finished d \<noteq> None \<and> worker_outcome (wd_status d) = Some s \<and> worker_is ki s w)"

lemma worker_at_db: "worker_at i ki w \<Longrightarrow> calm w' \<Longrightarrow> db w' = db w \<Longrightarrow> worker_at i ki w'"
  by (simp add: worker_at_def)

lemma ens_worker_reads:
  assumes "reads m" "keeps calm m"
  shows "ensures (worker_at i ki) m (\<lambda>_. worker_at i ki)"
  by (rule ens_reads_calm [OF assms]) (auto intro: worker_at_db simp: worker_at_def)

lemma resource_checks_calm [keeps_intros]:
  "keeps calm (resources_get_by_id x)" "keeps calm (resolve_cloud_config acc)" "keeps calm (provider_token txt prov what)"
  "keeps calm (resolve_git_token gh txt what repo prov name)"
proof -
  show g: "keeps calm (resources_get_by_id x)" for x
    unfolding resources_get_by_id_def by (intro keeps_intros)
  show "keeps calm (resolve_cloud_config acc)"
    unfolding resolve_cloud_config_def by (intro keeps_intros g)
  show p: "keeps calm (provider_token txt prov what)"
    by (auto simp: provider_token_def intro!: keeps_intros g split: option.splits)
  show "keeps calm (resolve_git_token gh txt what repo prov name)"
    by (auto simp: resolve_git_token_def Let_def intro!: keeps_intros p split: sum.splits)
qed

section \<open>Steps\<close>

lemma ens_now: "(\<And>t. ensures A (k t) Q) \<Longrightarrow> ensures A (bind now k) Q"
  by (simp add: ensures_def bind_now)

lemma ens_update_deploy:
  assumes "bm_id d = i" "live d"
  shows "ensures (worker_at i ki) (update_worker_deploy d) (succeeds (\<lambda>_ w. worker_at i ki w \<and> deploy_is i d w))"
  using assms
  by (auto simp: ensures_def update_worker_deploy_def attempt_eval worker_deployments_update_row_def update_row_def
      statement_def no_index_def worker_at_def worker_rows_def deploy_is_def by_id_replace_pk)

lemma ens_set_status:
  assumes "bm_id k = ki" "wk_status k \<noteq> s"
  shows "ensures (\<lambda>w. worker_at i ki w \<and> deploy_is i d w) (set_worker_status k s)
    (succeeds (\<lambda>_ w. worker_at i ki w \<and> deploy_is i d w \<and> worker_is ki s w))"
proof -
  have u: "by_id ki (update_live (\<lambda>x. bm_id x = ki) (\<lambda>x. x\<lparr>wk_status := s, bm_updated := t\<rparr>) ws) =
      map_option (\<lambda>x. x\<lparr>wk_status := s, bm_updated := t\<rparr>) (by_id ki ws)"
    if "distinct_ids ws" for ws :: "worker list" and t
    using by_id_update_id [OF _ _ that, where f = "\<lambda>x. x\<lparr>wk_status := s, bm_updated := t\<rparr>" and i = ki and j = ki]
    by (simp add: live_def split: option.splits)
  show ?thesis
    using assms
    by (auto simp: ensures_def set_worker_status_def attempt_eval workers_update_status_def bind_now exec_def statement_def
        worker_at_def worker_rows_def deploy_is_def worker_is_def u distinct_ids_update_live)
qed

lemma ens_set_deploying:
  assumes "bm_id k = ki"
  shows "ensures (worker_at i ki) (set_worker_status k s) (succeeds (\<lambda>_. worker_at i ki))"
proof -
  have u: "by_id ki (update_live (\<lambda>x. bm_id x = ki) (\<lambda>x. x\<lparr>wk_status := s, bm_updated := t\<rparr>) ws) \<noteq> None"
    if "distinct_ids ws" "by_id ki ws \<noteq> None" for ws :: "worker list" and t
    using by_id_update_id [OF _ _ that(1), where f = "\<lambda>x. x\<lparr>wk_status := s, bm_updated := t\<rparr>" and i = ki and j = ki] that(2)
    by (auto simp: live_def)
  show ?thesis
    using assms u
    by (auto simp: ensures_def set_worker_status_def attempt_eval workers_update_status_def bind_now exec_def statement_def
        worker_at_def worker_rows_def distinct_ids_update_live)
qed

lemma notify_worker_reads: "reads (notify_worker k ev de)" "keeps calm (notify_worker k ev de)"
  unfolding notify_worker_def projects_get_by_id_def attach_team_def
  by (intro reads_intros keeps_intros)+

lemma ens_notify_done:
  "ensures (\<lambda>w. worker_at i ki w \<and> deploy_is i d w \<and> worker_is ki s w) (notify_worker k ev de)
    (succeeds (\<lambda>_ w. deploy_is i d w \<and> worker_is ki s w))"
proof -
  have "ensures (\<lambda>w. deploy_is i d w \<and> worker_is ki s w) (notify_worker k ev de) (\<lambda>_ w. deploy_is i d w \<and> worker_is ki s w)"
    using notify_worker_reads(1) [of k ev de] by (simp add: ensures_def reads_def deploy_is_def worker_is_def)
  moreover have "\<exists>x. fst (notify_worker k ev de w) = Inr x" for w
    by (simp add: notify_worker_def handle_def split: prod.splits sum.splits)
  ultimately show ?thesis by (intro ens_succeedsI) (auto elim: ens_pre)
qed

section \<open>The three ends\<close>

abbreviation job_copies :: "uuid \<Rightarrow> uuid \<Rightarrow> worker \<Rightarrow> worker_deployment \<Rightarrow> bool" where
  "job_copies i ki k d \<equiv> bm_id d = i \<and> live d \<and> bm_id k = ki \<and> wk_status k = WorkerDeploying"

lemma worker_doneI:
  "deploy_is i d w \<and> worker_is ki s w \<Longrightarrow> wd_finished d \<noteq> None \<Longrightarrow> worker_outcome (wd_status d) = Some s \<Longrightarrow> worker_done i ki w"
  by (auto simp: worker_done_def)

lemma ens_end:
  assumes "job_copies i ki k d" "wd_finished d \<noteq> None" "worker_outcome (wd_status d) = Some s" "s \<noteq> WorkerDeploying"
  shows "ensures (worker_at i ki) (seq (update_worker_deploy d) (seq (set_worker_status k s) (notify_worker k ev de)))
      (succeeds (\<lambda>_. worker_done i ki))"
    and "ensures (worker_at i ki) (seq (update_worker_deploy d) (set_worker_status k s)) (succeeds (\<lambda>_. worker_done i ki))"
proof -
  have u: "ensures (worker_at i ki) (update_worker_deploy d) (succeeds (\<lambda>_ w. worker_at i ki w \<and> deploy_is i d w))"
    using assms(1) by (intro ens_update_deploy) simp_all
  have s: "ensures (\<lambda>w. worker_at i ki w \<and> deploy_is i d w) (set_worker_status k s)
      (succeeds (\<lambda>_ w. worker_at i ki w \<and> deploy_is i d w \<and> worker_is ki s w))"
    using assms(1,4) by (intro ens_set_status) auto
  show "ensures (worker_at i ki) (seq (update_worker_deploy d) (seq (set_worker_status k s) (notify_worker k ev de)))
      (succeeds (\<lambda>_. worker_done i ki))"
    by (intro ens_seq [OF u] ens_seq [OF s] ens_post [OF ens_notify_done])
       (auto simp: succeeds_def split: sum.splits intro: worker_doneI [OF _ assms(2,3)])
  show "ensures (worker_at i ki) (seq (update_worker_deploy d) (set_worker_status k s)) (succeeds (\<lambda>_. worker_done i ki))"
    by (intro ens_seq [OF u] ens_post [OF s])
       (auto simp: succeeds_def split: sum.splits intro: worker_doneI [OF _ assms(2,3)])
qed

lemma ens_worker_fail:
  "job_copies i ki k d \<Longrightarrow> ensures (worker_at i ki) (worker_fail k d msg) (succeeds (\<lambda>_. worker_done i ki))"
  unfolding worker_fail_def by (intro ens_now ens_end) (simp_all add: live_def worker_outcome_def)

lemma ens_worker_succeed:
  "job_copies i ki k d \<Longrightarrow> ensures (worker_at i ki) (worker_succeed k d ref) (succeeds (\<lambda>_. worker_done i ki))"
  unfolding worker_succeed_def by (intro ens_now ens_end) (simp_all add: live_def worker_outcome_def)

lemma ens_worker_needs_confirmation:
  "job_copies i ki k d \<Longrightarrow> ensures (worker_at i ki) (worker_needs_confirmation k d p) (succeeds (\<lambda>_. worker_done i ki))"
  unfolding worker_needs_confirmation_def by (intro ens_now ens_end) (simp_all add: live_def worker_outcome_def)

section \<open>The way there\<close>

lemma db_same: "db v = x \<Longrightarrow> v\<lparr>db := x\<rparr> = v"
  by auto

text \<open>A step that gives the deployment back with more log in it.\<close>

definition same_deploy :: "uuid \<Rightarrow> uuid \<Rightarrow> worker_deployment \<Rightarrow> world \<Rightarrow> bool" where
  "same_deploy i ki d w \<longleftrightarrow> worker_at i ki w \<and> bm_id d = i \<and> live d"

lemma ens_worker_log:
  assumes "bm_id d = i" "live d"
  shows "ensures (worker_at i ki) (worker_log l d) (succeeds (same_deploy i ki))"
proof -
  have "ensures (worker_at i ki) (update_worker_deploy (d\<lparr>wd_log := x\<rparr>)) (succeeds (\<lambda>_. worker_at i ki))" for x
    using assms by (intro ens_post [OF ens_update_deploy]) (auto simp: live_def succeeds_def split: sum.splits)
  then show ?thesis
    unfolding worker_log_def Let_def using assms
    by (intro ens_now) (auto intro!: ens_seq ens_ret simp: same_deploy_def live_def)
qed

lemma ens_same_deploy:
  "(bm_id d = i \<Longrightarrow> live d \<Longrightarrow> ensures (worker_at i ki) m Q) \<Longrightarrow> ensures (same_deploy i ki d) m Q"
  by (auto simp: ensures_def same_deploy_def)

lemma ens_worker_logs:
  "bm_id d = i \<Longrightarrow> live d \<Longrightarrow> ensures (worker_at i ki) (worker_logs ls d) (succeeds (same_deploy i ki))"
proof (induction ls arbitrary: d)
  case (Cons l ls)
  have "ensures (same_deploy i ki x) (worker_logs ls x) (succeeds (same_deploy i ki))" for x
    by (intro ens_same_deploy Cons.IH)
  then show ?case by (auto intro!: ens_bind ens_worker_log Cons.prems)
qed (auto intro: ens_ret simp: same_deploy_def)

lemma ens_runtime: "ensures (worker_at i ki) (attempt (workers_update_runtime x rt)) (succeeds (\<lambda>_. worker_at i ki))"
proof -
  have u: "by_id ki (update_live (\<lambda>k. bm_id k = x) (\<lambda>k. k\<lparr>wk_runtime := rt, bm_updated := t\<rparr>) ws) \<noteq> None"
    if "distinct_ids ws" "by_id ki ws \<noteq> None" for ws :: "worker list" and t
    using by_id_update_id [OF _ _ that(1), where f = "\<lambda>k. k\<lparr>wk_runtime := rt, bm_updated := t\<rparr>" and i = x and j = ki] that(2)
    by (auto simp: live_def)
  show ?thesis
    using u by (auto simp: ensures_def attempt_eval workers_update_runtime_def bind_now exec_def statement_def
        worker_at_def worker_rows_def distinct_ids_update_live)
qed

lemma ens_worker_finish:
  assumes "job_copies i ki k d"
  shows "ensures (worker_at i ki) (worker_finish k d r) (succeeds (\<lambda>_. worker_done i ki))"
proof -
  let ?d = "d\<lparr>wd_commit := keep_or (wd_commit d) (wres_commit r)\<rparr>"
  have d: "job_copies i ki (k\<lparr>wk_runtime := rt\<rparr>) ?d" "job_copies i ki k ?d" for rt using assms by (simp_all add: live_def)
  have l: "ensures (worker_at i ki) (if b then worker_log l ?d else ret ?d) (succeeds (same_deploy i ki))" for b l
    using d by (intro ens_if ens_worker_log ens_ret) (simp_all add: same_deploy_def)
  have s: "ensures (same_deploy i ki x) (worker_succeed (k\<lparr>wk_runtime := rt\<rparr>) x ref) (succeeds (\<lambda>_. worker_done i ki))" for x rt ref
    using d(1) by (intro ens_same_deploy ens_worker_succeed) simp
  show ?thesis
    unfolding worker_finish_def Let_def
    by (intro ens_if ens_worker_needs_confirmation d(2) ens_seq [OF ens_runtime] ens_bind [OF l] s)
qed

lemma ens_worker_build:
  assumes "job_copies i ki k d" "worker_env i ki env"
  shows "ensures (worker_at i ki) (worker_build C env k d tok api acc) (succeeds (\<lambda>_. worker_done i ki))"
proof -
  obtain ls o' where b: "wc_build C (worker_opts_of k tok api acc) = (ls, o')" by (cases "wc_build C (worker_opts_of k tok api acc)")
  have e: "ensures (worker_at i ki) (modify (\<lambda>w. w\<lparr>db := env (db w)\<rparr>)) (succeeds (\<lambda>_. worker_at i ki))"
    using assms(2) by (intro ens_modify) (simp add: worker_at_def worker_env_def)
  have t: "ensures (same_deploy i ki x) (seq (modify (\<lambda>w. w\<lparr>db := env (db w)\<rparr>))
      (case o' of Inl e \<Rightarrow> worker_fail k x (''deploy failed: '' @ e) | Inr r \<Rightarrow> worker_finish k x r)) (succeeds (\<lambda>_. worker_done i ki))" for x
    using assms(1)
    by (intro ens_same_deploy ens_seq [OF e]) (cases o'; simp add: ens_worker_fail ens_worker_finish)
  have l: "ensures (same_deploy i ki x) (bind (worker_logs ls x) (\<lambda>d2. seq (modify (\<lambda>w. w\<lparr>db := env (db w)\<rparr>))
      (case o' of Inl e \<Rightarrow> worker_fail k d2 (''deploy failed: '' @ e) | Inr r \<Rightarrow> worker_finish k d2 r))) (succeeds (\<lambda>_. worker_done i ki))" for x
    by (intro ens_same_deploy ens_bind [OF ens_worker_logs] t)
  show ?thesis
    unfolding worker_build_def b prod.case using assms(1) by (intro ens_bind [OF ens_worker_log] l) simp_all
qed

lemma ens_worker_execute:
  assumes "job_copies i ki k d" "worker_env i ki env"
  shows "ensures (worker_at i ki) (worker_execute C env k d) (succeeds (\<lambda>_. worker_done i ki))"
proof -
  have f: "ensures (worker_at i ki) (worker_fail k d m) (succeeds (\<lambda>_. worker_done i ki))" for m
    using assms(1) by (rule ens_worker_fail)
  have cfg: "ensures (worker_at i ki) (resolve_cloud_config acc) (\<lambda>_. worker_at i ki)" for acc
    by (intro ens_worker_reads reads_intros keeps_intros)
  have tk: "ensures (worker_at i ki) (resolve_worker_git_token gh et k) (\<lambda>_. worker_at i ki)" for gh et
    unfolding resolve_worker_git_token_def by (intro ens_worker_reads reads_intros keeps_intros)
  have tk2: "ensures (worker_at i ki) (handle (resolve_worker_git_token gh et k) (\<lambda>e. ret (Inl e)) (\<lambda>t. ret (Inr t)))
      (succeeds (\<lambda>_. worker_at i ki))" for gh et
    by (rule ens_handle [OF tk]) (auto intro: ens_ret)
  show ?thesis
    unfolding worker_execute_def
    by (rule ens_handle [OF cfg])
       (auto simp: f split: sum.splits option.splits intro!: ens_bind [OF tk2] ens_if ens_worker_build assms)
qed

section \<open>The job\<close>

text \<open>C31 (worker_job_ends): once a job that has not ended finds its worker, and no statement fails, it ends whatever the build
  pod, the credentials and the git provider answer and whatever other requests do to other rows meanwhile: the
  deployment is finished, as a success, a failure or awaiting a confirmation, and the worker is live, in error or
  idle accordingly, so that its slot is free.\<close>

theorem worker_job_ends:
  assumes "calm w" "distinct_ids (worker_deployments (db w))" "distinct_ids (workers (db w))"
    and "by_id i (worker_deployments (db w)) = Some d" "\<not> is_terminal_worker_status (wd_status d)"
    and "by_id (wd_worker d) (workers (db w)) = Some k" "worker_env i (wd_worker d) env"
  shows "\<exists>w'. run_worker_job C env i w = (Inr (), w') \<and> worker_done i (wd_worker d) w'"
proof -
  let ?ki = "wd_worker d" and ?k = "worker_after_scan k" and ?w = "next_fault (next_fault w)"
  let ?d = "d\<lparr>wd_started := Some (clock w), wd_status := WorkerDeployDeploying\<rparr>"
  have k: "bm_id ?k = ?ki" using by_id_key [OF assms(6)] by (simp add: worker_after_scan_def)
  have d: "bm_id d = i" "live d" using assms(4) by (auto dest: find_live_iff)
  have w: "worker_at i ?ki ?w" using assms(1-4,6) by (simp add: worker_at_def worker_rows_def)
  have c: "job_copies i ?ki (?k\<lparr>wk_status := WorkerDeploying\<rparr>) ?d" using k d by (simp add: live_def)
  have u: "ensures (worker_at i ?ki) (update_worker_deploy ?d) (succeeds (\<lambda>_. worker_at i ?ki))"
    using c by (intro ens_post [OF ens_update_deploy]) (auto simp: succeeds_def split: sum.splits)
  have "ensures (worker_at i ?ki) (seq (update_worker_deploy ?d) (seq (set_worker_status ?k WorkerDeploying)
      (worker_execute C env (?k\<lparr>wk_status := WorkerDeploying\<rparr>) ?d))) (succeeds (\<lambda>_. worker_done i ?ki))"
    by (intro ens_seq [OF u] ens_seq [OF ens_set_deploying [OF k]] ens_worker_execute c assms(7))
  from ens_succeedsD [OF this w] obtain w' where
    r: "seq (update_worker_deploy ?d) (seq (set_worker_status ?k WorkerDeploying)
      (worker_execute C env (?k\<lparr>wk_status := WorkerDeploying\<rparr>) ?d)) ?w = (Inr (), w')" "worker_done i ?ki w'"
    by auto
  have "run_worker_job C env i w = (Inr (), w')"
    using assms(1,4-6) r(1)
    by (simp add: run_worker_job_def handle_def worker_deployments_get_by_id_def workers_get_by_id_def query_row_def
        statement_def bind_now Let_def db_same)
  with r(2) show ?thesis by blast
qed

definition queued_worker_db :: database where
  "queued_worker_db = empty_database\<lparr>workers := [demo_worker\<lparr>wk_status := WorkerDeploying\<rparr>],
     worker_deployments := [blank_worker_deployment\<lparr>bm_id := 7, wd_worker := 5\<rparr>]\<rparr>"

lemma worker_job_ends_witness:
  "\<exists>w'. run_worker_job demo_worker_cloud (\<lambda>d. d\<lparr>pages := []\<rparr>) 7 (world_of queued_worker_db) = (Inr (), w') \<and> worker_done 7 5 w'"
proof -
  have e: "worker_env 7 5 (\<lambda>d. d\<lparr>pages := []\<rparr>)" by (simp add: worker_env_def worker_rows_def)
  show ?thesis
    using worker_job_ends [of "world_of queued_worker_db" 7 "blank_worker_deployment\<lparr>bm_id := 7, wd_worker := 5\<rparr>"
        "demo_worker\<lparr>wk_status := WorkerDeploying\<rparr>" "\<lambda>d. d\<lparr>pages := []\<rparr>" demo_worker_cloud] e
    by (simp add: calm_def queued_worker_db_def distinct_ids_def by_id_Cons live_def blank_worker_deployment_def demo_worker_def)
qed

end
