(* ===== verification/Page_Paths.thy ===== *)
theory Page_Paths imports Resource_Store begin

text \<open>
  The publish folder of a page (\<open>service/page_publish_service.go\<close>): the path check that keeps it below the clone,
  \<open>filepath.Clean\<close> of Go's standard library, which it relies on, and the quoting of a path for the shell, with the
  part of the shell's word rules the quoting is for.
\<close>

section \<open>Cleaning a path\<close>

text \<open>\<open>filepath.Clean\<close> on Unix, component by component: the components kept so far, and the next one.\<close>

definition clean_step :: "bool \<Rightarrow> string list \<Rightarrow> string \<Rightarrow> string list" where
  "clean_step rooted acc c =
     (if c = [] \<or> c = ''.'' then acc
      else if c = ''..'' then
        (if acc \<noteq> [] \<and> last acc \<noteq> ''..'' then butlast acc else if rooted then acc else acc @ [''..''])
      else acc @ [c])"

definition is_abs :: "string \<Rightarrow> bool" where
  "is_abs p \<longleftrightarrow> has_prefix p ''/''"

definition clean_parts :: "string \<Rightarrow> string list" where
  "clean_parts p = foldl (clean_step (is_abs p)) [] (split_on CHR ''/'' p)"

definition path_clean :: "string \<Rightarrow> string" where
  "path_clean p = (let body = join_with ''/'' (clean_parts p) in
     if is_abs p then CHR ''/'' # body else if body = [] then ''.'' else body)"

text \<open>The check of \<open>Prepare\<close>, and the folder it gives below the clone.\<close>

definition publish_path_of :: "string \<Rightarrow> string" where
  "publish_path_of raw = path_clean (let p = trim_space raw in if p = [] then ''.'' else p)"

definition publish_path_ok :: "string \<Rightarrow> bool" where
  "publish_path_ok c \<longleftrightarrow> \<not> (c = ''..'' \<or> has_prefix c ''../'' \<or> is_abs c)"

section \<open>Walking a path\<close>

text \<open>The reference: follow the components from a directory, given by the names below the clone; leaving the clone,
  even for a moment, is \<open>None\<close>.\<close>

fun walk :: "string list \<Rightarrow> string list \<Rightarrow> string list option" where
  "walk at [] = Some at"
| "walk at (c # cs) =
     (if c = [] \<or> c = ''.'' then walk at cs
      else if c = ''..'' then (if at = [] then None else walk (butlast at) cs)
      else walk (at @ [c]) cs)"

lemma clean_step_simps [simp]:
  "clean_step r acc [] = acc" "clean_step r acc ''.'' = acc" "clean_step False [] ''..'' = [''..'']"
  by (simp_all add: clean_step_def)

lemma first_component:
  assumes "ps \<noteq> []" "CHR ''/'' \<notin> set (hd ps)"
  shows "takeWhile (\<lambda>c. c \<noteq> CHR ''/'') (join_with ''/'' ps) = hd ps"
proof -
  obtain x xs where ps: "ps = x # xs" using assms(1) by (cases ps) auto
  have x: "takeWhile (\<lambda>c. c \<noteq> CHR ''/'') (x @ t) = x @ takeWhile (\<lambda>c. c \<noteq> CHR ''/'') t" for t
    using assms(2) ps by (intro takeWhile_append2) auto
  show ?thesis using x [of "[]"] by (cases xs) (simp_all add: ps x)
qed

text \<open>While the walk stays inside, the components kept are where it is; once it has left, a climb stays in front.\<close>

lemma clean_walk_Some:
  "''..'' \<notin> set at \<Longrightarrow> walk at cs = Some q \<Longrightarrow> foldl (clean_step False) at cs = q \<and> ''..'' \<notin> set q"
proof (induction at cs rule: walk.induct)
  case (2 at c cs)
  show ?case
  proof (cases "c = [] \<or> c = ''.''")
    case True with 2 show ?thesis by (auto simp: clean_step_def)
  next
    case F: False
    show ?thesis
    proof (cases "c = ''..''")
      case True
      with 2(5) F have at: "at \<noteq> []" "walk (butlast at) cs = Some q" by (auto split: if_splits)
      have "''..'' \<notin> set (butlast at)" using 2(4) in_set_butlastD by fastforce
      moreover have "last at \<noteq> ''..''" using at(1) 2(4) last_in_set by metis
      ultimately show ?thesis using 2(2) [OF F True] at True by (simp add: clean_step_def)
    next
      case False
      with 2(5) F have "walk (at @ [c]) cs = Some q" by simp
      with 2(3) [OF F False] 2(4) F False show ?thesis by (simp add: clean_step_def)
    qed
  qed
qed simp

lemma clean_stays_out:
  "acc \<noteq> [] \<Longrightarrow> hd acc = ''..'' \<Longrightarrow> foldl (clean_step False) acc cs \<noteq> [] \<and> hd (foldl (clean_step False) acc cs) = ''..''"
proof (induction cs arbitrary: acc)
  case (Cons c cs)
  have "clean_step False acc c \<noteq> [] \<and> hd (clean_step False acc c) = ''..''"
  proof (cases "c = ''..'' \<and> last acc \<noteq> ''..''")
    case True
    with Cons.prems obtain x y xs where "acc = x # y # xs" by (cases acc rule: remdups_adj.cases) auto
    with True Cons.prems show ?thesis by (auto simp: clean_step_def)
  next
    case False with Cons.prems show ?thesis by (auto simp: clean_step_def)
  qed
  with Cons.IH show ?case by simp
qed simp

lemma clean_walk_None:
  "''..'' \<notin> set at \<Longrightarrow> walk at cs = None \<Longrightarrow>
     foldl (clean_step False) at cs \<noteq> [] \<and> hd (foldl (clean_step False) at cs) = ''..''"
proof (induction at cs rule: walk.induct)
  case (2 at c cs)
  show ?case
  proof (cases "c = [] \<or> c = ''.''")
    case True with 2 show ?thesis by (auto simp: clean_step_def)
  next
    case F: False
    show ?thesis
    proof (cases "c = ''..''")
      case c: True
      show ?thesis
      proof (cases "at = []")
        case True
        then show ?thesis using clean_stays_out [of "[''..'']" cs] c by simp
      next
        case False
        with 2(5) F c have w: "walk (butlast at) cs = None" by simp
        have "''..'' \<notin> set (butlast at)" using 2(4) in_set_butlastD by fastforce
        moreover have "last at \<noteq> ''..''" using False 2(4) last_in_set by metis
        ultimately show ?thesis using 2(2) [OF F c False] w c False by (simp add: clean_step_def)
      qed
    next
      case False
      with 2(5) F have "walk (at @ [c]) cs = None" by simp
      with 2(3) [OF F False] 2(4) F False show ?thesis by (simp add: clean_step_def)
    qed
  qed
qed simp

section \<open>The check\<close>

lemma walk_names:
  "walk at cs = Some q \<Longrightarrow> \<forall>c \<in> set at \<union> set cs. CHR ''/'' \<notin> set c \<Longrightarrow> [] \<notin> set at \<Longrightarrow> ''..'' \<notin> set at \<Longrightarrow> ''.'' \<notin> set at \<Longrightarrow>
     list_all (\<lambda>c. c \<noteq> [] \<and> c \<noteq> ''.'' \<and> c \<noteq> ''..'' \<and> CHR ''/'' \<notin> set c) q"
proof (induction at cs rule: walk.induct)
  case (1 at) then show ?case by (auto simp: list_all_iff)
next
  case (2 at c cs)
  show ?case
  proof (cases "c = [] \<or> c = ''.''")
    case True with 2 show ?thesis by auto
  next
    case F: False
    show ?thesis
    proof (cases "c = ''..''")
      case True
      have "set (butlast at) \<subseteq> set at" by (auto dest: in_set_butlastD)
      with 2(2) [OF F True] 2(4-) F True show ?thesis by (auto split: if_splits)
    next
      case False
      with 2(3) [OF F False] 2(4-) F show ?thesis by auto
    qed
  qed
qed

lemma split_no_slash: "\<forall>c \<in> set [] \<union> set (split_on CHR ''/'' p). CHR ''/'' \<notin> set c"
  by (auto dest!: split_on_parts)

lemma publish_path_ok_first:
  "publish_path_ok c \<longleftrightarrow> takeWhile (\<lambda>x. x \<noteq> CHR ''/'') c \<noteq> ''..'' \<and> \<not> is_abs c"
proof -
  have "takeWhile (\<lambda>x. x \<noteq> CHR ''/'') c = ''..'' \<longleftrightarrow> c = ''..'' \<or> has_prefix c ''../''"
  proof
    assume t: "takeWhile (\<lambda>x. x \<noteq> CHR ''/'') c = ''..''"
    then have c: "c = ''..'' @ dropWhile (\<lambda>x. x \<noteq> CHR ''/'') c" by (metis takeWhile_dropWhile_id)
    show "c = ''..'' \<or> has_prefix c ''../''"
    proof (cases "dropWhile (\<lambda>x. x \<noteq> CHR ''/'') c")
      case Nil with c show ?thesis by simp
    next
      case (Cons y ys)
      then have "y = CHR ''/''" using hd_dropWhile [of "\<lambda>x. x \<noteq> CHR ''/''" c] by auto
      with c Cons have "c = ''../'' @ ys" by simp
      then show ?thesis by (auto simp: has_prefix_iff)
    qed
  qed (auto simp: has_prefix_iff)
  then show ?thesis by (auto simp: publish_path_ok_def)
qed

lemma clean_relative: "\<not> is_abs p \<Longrightarrow> clean_parts p = foldl (clean_step False) [] (split_on CHR ''/'' p)"
  by (simp add: clean_parts_def)

lemma path_clean_walk:
  assumes "\<not> is_abs p" "walk [] (split_on CHR ''/'' p) = Some q"
  shows "path_clean p = (if q = [] then ''.'' else join_with ''/'' q)"
    and "list_all (\<lambda>c. c \<noteq> [] \<and> c \<noteq> ''.'' \<and> c \<noteq> ''..'' \<and> CHR ''/'' \<notin> set c) q" "publish_path_ok (path_clean p)"
proof -
  from clean_walk_Some [OF _ assms(2)] have q: "clean_parts p = q" using assms(1) by (simp add: clean_relative)
  show l: "list_all (\<lambda>c. c \<noteq> [] \<and> c \<noteq> ''.'' \<and> c \<noteq> ''..'' \<and> CHR ''/'' \<notin> set c) q"
    by (rule walk_names [OF assms(2) split_no_slash]) simp_all
  have ne: "join_with ''/'' q \<noteq> []" if "q \<noteq> []"
    using that l by (cases q; cases "tl q") auto
  show c: "path_clean p = (if q = [] then ''.'' else join_with ''/'' q)"
    using ne assms(1) q by (auto simp: path_clean_def)
  show "publish_path_ok (path_clean p)"
  proof (cases "q = []")
    case True then show ?thesis by (simp add: c publish_path_ok_def is_abs_def has_prefix_def)
  next
    case False
    then have h: "takeWhile (\<lambda>x. x \<noteq> CHR ''/'') (join_with ''/'' q) = hd q" "hd q \<noteq> ''..''" "hd q \<noteq> []"
      using l first_component [of q] by (auto simp: list_all_iff)
    then have "\<not> is_abs (join_with ''/'' q)" by (auto simp: is_abs_def has_prefix_iff)
    with h c False show ?thesis by (simp add: publish_path_ok_first)
  qed
qed

lemma path_clean_out:
  assumes "is_abs p \<or> walk [] (split_on CHR ''/'' p) = None"
  shows "\<not> publish_path_ok (path_clean p)"
proof (cases "is_abs p")
  case True then show ?thesis by (simp add: path_clean_def Let_def publish_path_ok_def is_abs_def has_prefix_def)
next
  case False
  let ?ps = "clean_parts p"
  have ps: "?ps \<noteq> []" "hd ?ps = ''..''"
    using clean_walk_None [of "[]"] assms False by (simp_all add: clean_relative)
  then have t: "takeWhile (\<lambda>x. x \<noteq> CHR ''/'') (join_with ''/'' ?ps) = ''..''" using first_component [of ?ps] by simp
  then have "join_with ''/'' ?ps \<noteq> []" by auto
  with t False show ?thesis by (simp add: path_clean_def Let_def publish_path_ok_first)
qed

text \<open>The check on the cleaned publish folder accepts a path exactly when it is relative and
  following it component by component never leaves the clone, not even for a moment; and the cleaned path of an
  accepted one names, without dots or empty parts, the folder that walk reaches.\<close>

theorem publish_path_inside:
  "publish_path_ok (path_clean p) = (\<not> is_abs p \<and> walk [] (split_on CHR ''/'' p) \<noteq> None) \<and>
   (case walk [] (split_on CHR ''/'' p) of
      None \<Rightarrow> True
    | Some q \<Rightarrow> is_abs p \<or> (path_clean p = (if q = [] then ''.'' else join_with ''/'' q) \<and>
        list_all (\<lambda>c. c \<noteq> [] \<and> c \<noteq> ''.'' \<and> c \<noteq> ''..'' \<and> CHR ''/'' \<notin> set c) q))"
proof (cases "walk [] (split_on CHR ''/'' p)")
  case None with path_clean_out [of p] show ?thesis by simp
next
  case (Some q)
  show ?thesis
  proof (cases "is_abs p")
    case True with path_clean_out [of p] Some show ?thesis by simp
  next
    case False with path_clean_walk [OF False Some] Some show ?thesis by simp
  qed
qed

section \<open>Quoting for the shell\<close>

definition shell_quote :: "string \<Rightarrow> string" where
  "shell_quote s = CHR 0x27 # replace_all [CHR 0x27] [CHR 0x27, CHR 0x5C, CHR 0x27, CHR 0x27] s @ [CHR 0x27]"

definition sanitize :: "string \<Rightarrow> string \<Rightarrow> string" where
  "sanitize s tok = (if tok = [] then s else replace_all tok ''[REDACTED]'' s)"

text \<open>How \<open>/bin/sh\<close> reads a word: everything between single quotes is literal, a backslash outside them makes
  the next character literal, and a blank or an operator ends the word.  \<open>None\<close> is an unfinished quote.  Characters that
  start an expansion outside quotes end the word too, so that a word this function reads is a literal one.\<close>

definition sh_special :: "char \<Rightarrow> bool" where
  "sh_special c \<longleftrightarrow> is_space_char c \<or> c \<in> set ''|&;<>()$`*?[#~=%'' \<or> c = CHR 0x22"

fun sh_word :: "bool \<Rightarrow> string \<Rightarrow> string \<Rightarrow> (string \<times> string) option" where
  "sh_word True acc [] = None"
| "sh_word True acc (c # s) = (if c = CHR 0x27 then sh_word False acc s else sh_word True (acc @ [c]) s)"
| "sh_word False acc [] = Some (acc, [])"
| "sh_word False acc (c # s) =
     (if c = CHR 0x27 then sh_word True acc s
      else if c = CHR 0x5C then (case s of [] \<Rightarrow> None | d # s' \<Rightarrow> sh_word False (acc @ [d]) s')
      else if sh_special c then Some (acc, c # s)
      else sh_word False (acc @ [c]) s)"

lemma sh_word_quoted:
  "sh_word True acc (concat (map (\<lambda>c. if c = CHR 0x27 then [CHR 0x27, CHR 0x5C, CHR 0x27, CHR 0x27] else [c]) s) @ CHR 0x27 # t) =
   sh_word False (acc @ s) t"
  by (induction s arbitrary: acc) (simp_all add: sh_special_def)

text \<open>A quoted text is one word of the shell whose value is the text itself, whatever bytes
  it has and whatever ends the word after it: nothing in it is expanded, split or run.\<close>

theorem shell_quote_roundtrip:
  "sh_word False [] (shell_quote s @ t) = (case t of
     [] \<Rightarrow> Some (s, [])
   | c # t' \<Rightarrow> if sh_special c then Some (s, t) else sh_word False s t)"
proof -
  have "sh_word False [] (shell_quote s @ t) = sh_word False s t"
    using sh_word_quoted [of "[]" s t] by (simp add: shell_quote_def replace_all_char sh_special_def)
  then show ?thesis by (auto split: list.splits simp: sh_special_def is_space_char_def char_in_def)
qed

end
