(* ===== verification/Page_Tags.thy ===== *)
theory Page_Tags imports Resource_Store begin

text \<open>
  The tags a page's cloud resources carry (\<open>pages/tags.go\<close>) and the AWS credentials of a cloud account
  (\<open>pages/pages.go\<close>): both are read out of the account's JSON configuration.
\<close>

section \<open>Tags\<close>

record tag_context =
  tc_env :: string
  tc_team :: string
  tc_project :: string
  tc_page :: string

definition is_word_char :: "char \<Rightarrow> bool" where
  "is_word_char c \<longleftrightarrow> is_lower_char c \<or> is_upper_char c \<or> is_digit_char c \<or> c = CHR ''_''"

text \<open>A match of the pattern for \<open>{{name}}\<close> at the start of a text: the name and what follows it.\<close>

definition placeholder_at :: "string \<Rightarrow> (string \<times> string) option" where
  "placeholder_at s =
     (if \<not> has_prefix s ''{{'' then None
      else let r = drop 2 s; name = takeWhile is_word_char r; r' = dropWhile is_word_char r in
        if name \<noteq> [] \<and> has_prefix r' ''}}'' then Some (name, drop 2 r') else None)"

lemma placeholder_shorter: "placeholder_at (c # s) = Some (n, r) \<Longrightarrow> length r \<le> length s"
  by (auto simp: placeholder_at_def Let_def split: if_splits)
     (metis diff_diff_left diff_le_self le_trans length_dropWhile_le length_drop)

definition tag_value :: "tag_context \<Rightarrow> string \<Rightarrow> string option" where
  "tag_value tc n =
     (if n = ''env'' then Some (tc_env tc) else if n = ''team'' then Some (tc_team tc)
      else if n = ''project'' then Some (tc_project tc) else if n = ''page'' then Some (tc_page tc) else None)"

text \<open>\<open>ReplaceAllStringFunc\<close> with the flag \<open>unresolved\<close>: the leftmost matches, one after the other.\<close>

function expand_tags :: "tag_context \<Rightarrow> string \<Rightarrow> string \<times> bool" where
  "expand_tags tc [] = ([], False)"
| "expand_tags tc (c # s) = (case placeholder_at (c # s) of
     Some (n, r) \<Rightarrow> (case expand_tags tc r of (out, bad) \<Rightarrow>
        (case tag_value tc n of None \<Rightarrow> (''{{'' @ n @ ''}}'' @ out, True) | Some v \<Rightarrow> (v @ out, bad \<or> v = [])))
   | None \<Rightarrow> (case expand_tags tc s of (out, bad) \<Rightarrow> (c # out, bad)))"
  by pat_completeness auto
termination
  by (relation "measure (\<lambda>(tc, s). length s)") (auto dest!: placeholder_shorter)

definition resolve_tag_value :: "string \<Rightarrow> tag_context \<Rightarrow> string option" where
  "resolve_tag_value raw tc = (case expand_tags tc raw of (out, bad) \<Rightarrow> if bad then None else Some out)"

fun resolve_tags :: "(string \<times> string) list \<Rightarrow> tag_context \<Rightarrow> str_map \<Rightarrow> str_map" where
  "resolve_tags [] tc out = out"
| "resolve_tags ((k, v) # ts) tc out =
     (let key = trim_space k in
      if key = [] then resolve_tags ts tc out
      else (case resolve_tag_value v tc of
          None \<Rightarrow> resolve_tags ts tc out
        | Some x \<Rightarrow> resolve_tags ts tc (out(key \<mapsto> x))))"

text \<open>\<open>ParseAccountTags\<close>: the array under \<open>tags\<close>, of objects with a key and a value; anything that does not
  decode gives no tags.\<close>

fun tag_of_json :: "json \<Rightarrow> (string \<times> string) option" where
  "tag_of_json JNull = Some ([], [])"
| "tag_of_json j = (if snd (json_field ''key'' j) \<and> snd (json_field ''value'' j)
     then Some (fst (json_field ''key'' j), fst (json_field ''value'' j)) else None)"

fun all_some :: "'a option list \<Rightarrow> 'a list option" where
  "all_some [] = Some []"
| "all_some (None # xs) = None"
| "all_some (Some x # xs) = map_option (Cons x) (all_some xs)"

fun tags_in :: "(string \<times> json) list \<Rightarrow> (string \<times> string) list option \<Rightarrow> (string \<times> string) list option" where
  "tags_in [] acc = acc"
| "tags_in ((k, v) # kvs) acc =
     (if \<not> equal_fold k ''tags'' then tags_in kvs acc
      else (case v of
          JArray js \<Rightarrow> (case (acc, all_some (map tag_of_json js)) of (Some _, Some ts) \<Rightarrow> tags_in kvs (Some ts) | _ \<Rightarrow> None)
        | JNull \<Rightarrow> tags_in kvs (map_option (\<lambda>_. []) acc)
        | _ \<Rightarrow> None))"

definition parse_account_tags :: "json option \<Rightarrow> (string \<times> string) list" where
  "parse_account_tags cfg = (case cfg of
     Some (JObject kvs) \<Rightarrow> (case tags_in kvs (Some []) of Some ts \<Rightarrow> ts | None \<Rightarrow> [])
   | _ \<Rightarrow> [])"

definition resolve_cloud_account_tags :: "uuid option \<Rightarrow> (string \<times> string) list io" where
  "resolve_cloud_account_tags acc = bind (resolve_cloud_config acc) (\<lambda>cfg. ret (parse_account_tags cfg))"

text \<open>What is resolved is complete: a value that comes out contains no placeholder the pattern still matches, if the
  values put in contain no braces.\<close>

lemma expand_tags_plain: "CHR ''{'' \<notin> set s \<Longrightarrow> expand_tags tc s = (s, False)"
  by (induction s) (auto simp: placeholder_at_def has_prefix_def)

section \<open>AWS credentials\<close>

record aws_credentials =
  aws_mode :: string
  aws_key_id :: string
  aws_secret :: string
  aws_role :: string
  aws_external :: string
  aws_region :: string

definition aws_static_keys :: "aws_credentials \<Rightarrow> bool" where
  "aws_static_keys c \<longleftrightarrow> aws_mode c = [] \<or> aws_mode c = ''access_key''"

definition aws_assume_role :: "aws_credentials \<Rightarrow> bool" where
  "aws_assume_role c \<longleftrightarrow> aws_mode c = ''assume_role''"

definition aws_has_base_keys :: "aws_credentials \<Rightarrow> bool" where
  "aws_has_base_keys c \<longleftrightarrow> aws_key_id c \<noteq> [] \<and> aws_secret c \<noteq> []"

definition aws_validate :: "aws_credentials \<Rightarrow> go_error option" where
  "aws_validate c =
     (if aws_static_keys c \<and> (aws_key_id c = [] \<or> aws_secret c = []) then
        Some (ErrMsg ''access key ID and secret access key are required for access-key mode'')
      else if aws_assume_role c \<and> aws_role c = [] then Some (ErrMsg ''role ARN is required for assume-role mode'')
      else None)"

definition aws_fields :: "string list" where
  "aws_fields = [''auth_mode'', ''access_key_id'', ''secret_access_key'', ''role_arn'', ''external_id'', ''default_region'']"

definition aws_parse_credentials :: "json option \<Rightarrow> go_error + aws_credentials" where
  "aws_parse_credentials cfg = (case cfg of
     None \<Rightarrow> Inl (ErrMsg ''empty cloud account config'')
   | Some j \<Rightarrow>
       if \<not> list_all (\<lambda>f. snd (json_field f j)) aws_fields then Inl (ErrWrap ''parse cloud account config'' (ErrMsg ''json''))
       else let c = \<lparr>aws_mode = fst (json_field ''auth_mode'' j), aws_key_id = fst (json_field ''access_key_id'' j),
                 aws_secret = fst (json_field ''secret_access_key'' j), aws_role = fst (json_field ''role_arn'' j),
                 aws_external = fst (json_field ''external_id'' j), aws_region = fst (json_field ''default_region'' j)\<rparr>
            in (case aws_validate c of Some e \<Rightarrow> Inl e | None \<Rightarrow> Inr c))"

end
