(* ===== verification/Page_Deploy.thy ===== *)
theory Page_Deploy imports Page_Paths Page_Tags Worker_Deploy begin

text \<open>
  \<open>service/page_deploy_service.go\<close>, the clone of \<open>service/page_publish_service.go\<close> and the DNS helpers of
  \<open>service/page_domain.go\<close>.  The job works on copies of the page and the deployment, which the record \<open>page_job\<close>
  holds with the world and with what other requests do to the database before each of its statements.  What the
  clouds, git and the build pod answer is the record \<open>page_cloud\<close>; calls that only succeed or fail go through the
  schedule of failures and are recorded.
\<close>

section \<open>The clouds\<close>

record static_opts =
  so_repo :: string
  so_branch :: string
  so_token :: string
  so_page :: uuid
  so_root :: string
  so_package_manager :: string
  so_install :: string
  so_build :: string
  so_output :: string
  so_env :: str_map
  so_node_image :: string

text \<open>\<open>pc_clone\<close>: the output of a failed \<open>git clone\<close> of a URL and branch; \<open>pc_is_dir\<close>: whether a cleaned path is a
  folder of the clone; \<open>pc_head\<close>: the trimmed \<open>git rev-parse HEAD\<close>; \<open>pc_builder\<close>, \<open>pc_build\<close>: the build pod's
  log lines with its error, or with the folder and commit; \<open>pc_registered\<close>: whether a provider is in the registry;
  \<open>pc_test\<close>: \<open>TestConnection\<close>; \<open>pc_provision\<close>: the runtimes it saves on its way, stopping at the first save that fails, and
  its result; \<open>pc_sync\<close>: the log lines, and the error or the provider reference and URL of a sync;
  \<open>pc_acm_request\<close>, \<open>pc_acm_record\<close>, \<open>pc_acm_issued\<close>: the certificate manager; \<open>pc_dns_provider\<close>: the error of
  \<open>dns.For\<close>; \<open>pc_attaches\<close>: whether the provider attaches custom domains.\<close>

record page_cloud =
  pc_text :: "go_error \<Rightarrow> string"
  pc_github :: "string \<Rightarrow> string + string"
  pc_clone :: "string \<Rightarrow> string \<Rightarrow> string option"
  pc_is_dir :: "page \<Rightarrow> string \<Rightarrow> bool"
  pc_head :: "page \<Rightarrow> string"
  pc_builder :: "string option"
  pc_build :: "static_opts \<Rightarrow> string list \<times> (string + string \<times> string)"
  pc_registered :: "page_provider \<Rightarrow> bool"
  pc_test :: "json option \<Rightarrow> bool \<times> string"
  pc_provision :: "page \<Rightarrow> json option \<Rightarrow> str_map \<Rightarrow> page_runtime list \<times> (go_error + page_runtime)"
  pc_sync :: "page \<Rightarrow> json option \<Rightarrow> string \<Rightarrow> string list \<times> (go_error + string \<times> string)"
  pc_acm_request :: "string \<Rightarrow> uuid \<Rightarrow> str_map \<Rightarrow> go_error + string"
  pc_acm_record :: "string \<Rightarrow> go_error + page_validation"
  pc_acm_issued :: "string \<Rightarrow> go_error + bool"
  pc_dns_provider :: "string \<Rightarrow> go_error option"
  pc_attaches :: "page_provider \<Rightarrow> bool"

section \<open>The job's state\<close>

record page_job =
  pj_page :: page
  pj_deploy :: page_deployment
  pj_events :: "(database \<Rightarrow> database) list"
  pj_world :: world

type_synonym 'a pj = "(page_job, 'a) act"

definition pj_elapse :: "page_job \<Rightarrow> page_job" where
  "pj_elapse j = (case pj_events j of [] \<Rightarrow> j
     | f # es \<Rightarrow> j\<lparr>pj_world := (pj_world j)\<lparr>db := f (db (pj_world j))\<rparr>, pj_events := es\<rparr>)"

definition pj_io :: "'a io \<Rightarrow> 'a pj" where
  "pj_io m = (\<lambda>j0. let j = pj_elapse j0 in case m (pj_world j) of (r, w') \<Rightarrow> (r, j\<lparr>pj_world := w'\<rparr>))"

definition of_sum :: "go_error + 'a \<Rightarrow> ('s, 'a) act" where
  "of_sum r = (case r of Inl e \<Rightarrow> err e | Inr x \<Rightarrow> ret x)"

definition set_page_deploy :: "(time \<Rightarrow> page_deployment \<Rightarrow> page_deployment) \<Rightarrow> unit pj" where
  "set_page_deploy f = modify (\<lambda>j. j\<lparr>pj_deploy := f (clock (pj_world j)) (pj_deploy j)\<rparr>)"

definition set_runtime :: "(page_runtime option \<Rightarrow> page_runtime option) \<Rightarrow> unit pj" where
  "set_runtime f = modify (\<lambda>j. j\<lparr>pj_page := (pj_page j)\<lparr>pg_runtime := f (pg_runtime (pj_page j))\<rparr>\<rparr>)"

definition update_page_deploy :: "unit pj" where
  "update_page_deploy = bind (gets pj_deploy) (\<lambda>d. attempt (pj_io (page_deployments_update_row d)))"

definition set_page_status :: "page_status \<Rightarrow> unit pj" where
  "set_page_status s = bind (gets pj_page) (\<lambda>p. if pg_status p = s then ret ()
     else seq (modify (\<lambda>j. j\<lparr>pj_page := (pj_page j)\<lparr>pg_status := s\<rparr>\<rparr>)) (attempt (pj_io (pages_update_status (bm_id p) s))))"

definition page_log :: "string \<Rightarrow> unit pj" where
  "page_log line = seq (set_page_deploy (\<lambda>t d. d\<lparr>pd_log := append_log t (pd_log d) line\<rparr>)) update_page_deploy"

definition notify_page :: "string \<Rightarrow> string \<Rightarrow> unit pj" where
  "notify_page ev detail = bind (gets pj_page) (\<lambda>p. pj_io (handle (projects_get_by_id (pg_project p)) (\<lambda>_. ret ())
     (\<lambda>x. notify (Some (p_org x)) ev (pg_name p @ '': '' @ ev) detail)))"

text \<open>\<open>save\<close>, which the providers call, and the direct \<open>UpdateRuntime\<close> of the domain steps.\<close>

definition store_runtime :: "unit pj" where
  "store_runtime = bind (gets pj_page) (\<lambda>p. pj_io (pages_update_runtime (bm_id p) (pg_runtime p)))"

definition save_runtime :: "page_runtime \<Rightarrow> unit pj" where
  "save_runtime rt = seq (set_runtime (\<lambda>_. Some rt)) store_runtime"

definition runtime_now :: "page \<Rightarrow> page_runtime" where
  "runtime_now p = (case pg_runtime p of None \<Rightarrow> zero_page_runtime | Some rt \<Rightarrow> rt)"

section \<open>How a job ends\<close>

primrec is_terminal_page_status :: "page_deploy_status \<Rightarrow> bool" where
  "is_terminal_page_status PageDeployQueued = False"
| "is_terminal_page_status PageDeployDeploying = False"
| "is_terminal_page_status PageDeploySuccess = True"
| "is_terminal_page_status PageDeployFailed = True"
| "is_terminal_page_status PageDeployCancelled = True"

definition page_succeed :: "string \<Rightarrow> unit pj" where
  "page_succeed ref = seq (set_page_deploy (\<lambda>t d. d\<lparr>pd_status := PageDeploySuccess, pd_provider_ref := ref, pd_finished := Some t\<rparr>))
     (seq update_page_deploy (seq (set_page_status PageLive) (bind (gets pj_page) (\<lambda>p.
        notify_page ''deploy_success'' (''Page '' @ pg_name p @ '' deployed'')))))"

definition page_fail :: "string \<Rightarrow> unit pj" where
  "page_fail msg = seq (set_page_deploy (\<lambda>t d. d\<lparr>pd_status := PageDeployFailed, pd_finished := Some t,
       pd_log := append_log t (pd_log d) (''ERROR: '' @ msg)\<rparr>))
     (seq update_page_deploy (seq (set_page_status PageError) (bind (gets pj_page) (\<lambda>p.
        notify_page ''deploy_failed'' (''Page '' @ pg_name p @ '' deploy failed: '' @ msg)))))"

section \<open>The files\<close>

definition short_sha :: "string \<Rightarrow> string" where
  "short_sha s = (if length s > 7 then take 7 s else if s = [] then ''unknown'' else s)"

definition node_image_for_version :: "string \<Rightarrow> string" where
  "node_image_for_version v0 = (let v = trim_space v0 in if v = [] then [] else ''node:'' @ v @ ''-bookworm-slim'')"

definition build_synced_path :: "page \<Rightarrow> string" where
  "build_synced_path p = (let root = or_default ''.'' (trim_space (pg_root_dir p)); out = trim_space (pg_output_dir p) in
     if out = [] then root else if root = ''.'' then out else root @ ''/'' @ out)"

definition ellipsis :: string where
  "ellipsis = [CHR 0xE2, CHR 0x80, CHR 0xA6]"

text \<open>The URL of the clone: with a token, the user name and never the token itself.\<close>

definition clone_url :: "string \<Rightarrow> string \<Rightarrow> string" where
  "clone_url repo tok = (if tok = [] \<or> \<not> has_prefix repo ''https://'' then repo
     else ''https://x-access-token@'' @ drop 8 repo)"

text \<open>Files of the working directory: a call that may fail and leaves the database alone.  \<open>gitAuth\<close> writes two, the
  token and the script that prints it, when the clone needs them.\<close>

definition local_file :: "string \<Rightarrow> unit pj" where
  "local_file what = handle (pj_io (exec (\<lambda>d. d))) (\<lambda>e. err (ErrWrap what e)) ret"

definition git_auth :: "string \<Rightarrow> string \<Rightarrow> string pj" where
  "git_auth repo tok = (if tok = [] \<or> \<not> has_prefix repo ''https://'' then ret repo
     else seq (local_file ''write git token'') (seq (local_file ''write git askpass helper'') (ret (clone_url repo tok))))"

text \<open>\<open>Prepare\<close>: the folder, the commit and the publish path.\<close>

definition publish_prepare :: "page_cloud \<Rightarrow> (string \<times> string \<times> string) pj" where
  "publish_prepare C = bind (gets pj_page) (\<lambda>p.
     if pg_git_repo p = [] then err (ErrMsg ''page has no git repository configured'')
     else seq (local_file ''create work dir'')
      (bind (handle (pj_io (resolve_page_git_token (pc_github C) (pc_text C) p))
        (\<lambda>e. if pg_git_provider p \<noteq> None then err (ErrWrap ''resolve git token'' e) else ret []) ret) (\<lambda>tok.
       bind (git_auth (pg_git_repo p) tok) (\<lambda>url.
       seq (page_log (''Cloning '' @ pg_git_repo p @ '' (branch '' @ pg_git_branch p @ '')'' @ ellipsis))
       (let branch = or_default ''main'' (pg_git_branch p) in
        case pc_clone C url branch of
          Some out \<Rightarrow> err (ErrMsg (''git clone failed: '' @ sanitize out tok))
        | None \<Rightarrow>
            let c = publish_path_of (pg_publish_path p) in
            if \<not> publish_path_ok c then err (ErrMsg (''invalid publish folder '' @ quoted (pg_publish_path p)))
            else if \<not> pc_is_dir C p c then err (ErrMsg (''publish folder '' @ quoted (pg_publish_path p) @
              '' not found in repo at branch '' @ branch @ '' '' @ em_dash @ '' fix the folder before deploying''))
            else seq (page_log (''Resolved publish folder '' @ quoted c @ '' at commit '' @ short_sha (pc_head C p)))
              (ret (c, pc_head C p, c)))))))"

definition build_files :: "page_cloud \<Rightarrow> (string \<times> string \<times> string) pj" where
  "build_files C = (case pc_builder C of
     Some m \<Rightarrow> err (ErrMsg (''static-site builds are not supported by the deploy target: '' @ m))
   | None \<Rightarrow> bind (gets pj_page) (\<lambda>p.
      bind (handle (pj_io (resolve_page_git_token (pc_github C) (pc_text C) p))
        (\<lambda>e. if pg_git_provider p \<noteq> None then err (ErrWrap ''resolve git token'' e) else ret []) ret) (\<lambda>tok.
      seq (page_log (''Building site in an in-cluster build pod'' @ ellipsis))
      (case pc_build C \<lparr>so_repo = pg_git_repo p, so_branch = pg_git_branch p, so_token = tok, so_page = bm_id p,
          so_root = pg_root_dir p, so_package_manager = pg_package_manager p, so_install = pg_install_command p,
          so_build = pg_build_command p, so_output = pg_output_dir p, so_env = pg_build_env p,
          so_node_image = node_image_for_version (pg_node_version p)\<rparr> of
        (lines, outcome) \<Rightarrow> seq (for_each page_log lines)
          (case outcome of
             Inl e \<Rightarrow> err (ErrMsg (''build failed: '' @ e))
           | Inr (dir, sha) \<Rightarrow> ret (dir, sha, build_synced_path p))))))"

definition prepare_files :: "page_cloud \<Rightarrow> (string \<times> string \<times> string) pj" where
  "prepare_files C = bind (gets pj_page) (\<lambda>p.
     if pg_build_enabled p then build_files C
     else handle (publish_prepare C) (\<lambda>e. err (ErrWrap ''clone failed'' e)) ret)"

section \<open>Custom domains\<close>

definition normalize_domain :: "string \<Rightarrow> string" where
  "normalize_domain d = trim_suffix (to_lower (trim_space d)) ''.''"

definition pages_dev_host :: "string \<Rightarrow> string" where
  "pages_dev_host u = trim_suffix (trim_prefix (trim_prefix (trim_space u) ''https://'') ''http://'') ''/''"

definition resolve_dns_provider :: "page_cloud \<Rightarrow> uuid \<Rightarrow> json option io" where
  "resolve_dns_provider C i = handle (resources_get_by_id i) (\<lambda>e. err (ErrWrap ''dns account not found'' e)) (\<lambda>r.
     if sr_type r \<noteq> resource_cloud_account then err (ErrMsg (''resource '' @ sr_name r @ '' is not a cloud account''))
     else (case pc_dns_provider C (sr_provider r) of Some e \<Rightarrow> err e | None \<Rightarrow> ret (sr_config r)))"

text \<open>\<open>UpsertRecord\<close> of a record, given by its zone and by its type and name.\<close>

definition upsert_record :: "string \<Rightarrow> string \<Rightarrow> string \<Rightarrow> unit pj" where
  "upsert_record zone typ name = pj_io (cluster (CallDNS zone (typ @ '' '' @ name)))"

definition dns_account_checked :: "page_cloud \<Rightarrow> page \<Rightarrow> unit pj" where
  "dns_account_checked C p = (case pg_dns_account p of
     Some acc \<Rightarrow> if trim_space (pg_dns_zone p) = [] then
         err (ErrMsg ''dns_account_id and dns_zone_id are required when manage_dns is enabled'')
       else seq (pj_io (validate_pages_dns_account (pg_provider p) acc))
         (bind (pj_io (resolve_dns_provider C acc)) (\<lambda>_. ret ()))
   | None \<Rightarrow> err (ErrMsg ''dns_account_id and dns_zone_id are required when manage_dns is enabled''))"

definition ensure_certificate :: "page_cloud \<Rightarrow> json option \<Rightarrow> str_map \<Rightarrow> unit pj" where
  "ensure_certificate C cfg tags =
     bind (of_sum (aws_parse_credentials cfg)) (\<lambda>_.
     seq (set_runtime (\<lambda>r. Some (case r of None \<Rightarrow> zero_page_runtime | Some x \<Rightarrow> x)))
     (bind (gets pj_page) (\<lambda>p. let rt = runtime_now p; domain = normalize_domain (pg_custom_domain p) in
      if pr_cert_arn rt \<noteq> [] \<and> pr_cert_status rt = ''ISSUED'' then ret ()
      else bind (if pr_cert_arn rt = [] then
             seq (page_log (''Requesting ACM certificate for '' @ domain @ '' (us-east-1)'' @ ellipsis))
             (bind (of_sum (pc_acm_request C domain (bm_id p) tags)) (\<lambda>arn.
               let rt' = rt\<lparr>pr_cert_arn := arn, pr_cert_status := ''PENDING_VALIDATION''\<rparr> in
               handle (save_runtime rt') (\<lambda>e. err (ErrWrap ''persist certificate ARN'' e)) (\<lambda>_. ret rt')))
           else ret rt) (\<lambda>rt1.
        bind (of_sum (pc_acm_record C (pr_cert_arn rt1))) (\<lambda>v.
        let rt2 = rt1\<lparr>pr_validation := Some v\<rparr> in
        handle (save_runtime rt2) (\<lambda>e. err (ErrWrap ''persist validation record'' e)) (\<lambda>_.
        seq (page_log (''ACM validation record: '' @ pv_name v @ '' '' @ pv_type v @ [CHR 0x20, CHR 0xE2, CHR 0x86, CHR 0x92, CHR 0x20] @ pv_value v))
        (if pg_manage_dns p then
           seq (dns_account_checked C p)
           (seq (page_log (''Creating ACM validation record in Route53'' @ ellipsis))
           (handle (upsert_record (pg_dns_zone p) (pv_type v) (pv_name v)) (\<lambda>e. err (ErrWrap ''create validation DNS record'' e)) (\<lambda>_.
             seq (page_log (''Waiting for ACM certificate to become ISSUED (up to 10 min)'' @ ellipsis))
             (seq (pj_io (cluster (CallProvider ''acm.WaitIssued'' (bm_id p))))
               (save_runtime (rt2\<lparr>pr_cert_status := ''ISSUED''\<rparr>))))))
         else bind (of_sum (pc_acm_issued C (pr_cert_arn rt2))) (\<lambda>issued.
           if issued then save_runtime (rt2\<lparr>pr_cert_status := ''ISSUED''\<rparr>)
           else seq (page_log ''ACTION REQUIRED: Add the ACM validation CNAME record shown above to your DNS provider, then re-deploy.'')
             (err (ErrMsg (''ACM certificate is not issued yet '' @ em_dash @ '' add the validation DNS record and re-deploy'')))))))))))"

definition alias_steps :: "page_cloud \<Rightarrow> page \<Rightarrow> string \<Rightarrow> unit pj" where
  "alias_steps C p target =
     (if \<not> pg_manage_dns p then
        page_log (''Create a Route53 ALIAS (or CNAME) record: '' @ pg_custom_domain p @ [CHR 0x20, CHR 0xE2, CHR 0x86, CHR 0x92, CHR 0x20] @ target @
          '' (zone Z2FDTNDATAQYW2)'')
      else seq (dns_account_checked C p)
        (seq (for_each (\<lambda>typ. handle (upsert_record (pg_dns_zone p) typ (pg_custom_domain p))
            (\<lambda>e. err (ErrWrap (''create '' @ typ @ '' alias'') e)) ret) [''A'', ''AAAA''])
          (page_log (''Route53 ALIAS records created for '' @ pg_custom_domain p))))"

definition set_alias :: "string \<Rightarrow> unit pj" where
  "set_alias target = seq (set_runtime (map_option (\<lambda>r. r\<lparr>pr_alias_target := target\<rparr>))) store_runtime"

definition ensure_alias_record :: "page_cloud \<Rightarrow> unit pj" where
  "ensure_alias_record C = bind (gets pj_page) (\<lambda>p.
     let target = pages_dev_host (pr_default_url (runtime_now p)) in
     if pg_manage_dns p \<and> pr_alias_target (runtime_now p) = target then ret ()
     else seq (set_alias target) (alias_steps C p target))"

definition ensure_pages_domain :: "page_cloud \<Rightarrow> unit pj" where
  "ensure_pages_domain C = bind (gets pj_page) (\<lambda>p. let rt = runtime_now p in
     if pr_cf_name rt = [] then err (ErrMsg ''Cloudflare Pages project is not provisioned'')
     else let target = pages_dev_host (pr_default_url rt) in
       if target = [] then err (ErrMsg ''missing default Pages URL'')
       else if pr_alias_target rt = target then ret ()
       else if \<not> pc_registered C (pg_provider p) then err (ErrMsg (''unsupported pages provider: '' @ page_provider_text (pg_provider p)))
       else if \<not> pc_attaches C (pg_provider p) then
         err (ErrMsg (''pages provider '' @ quoted (page_provider_text (pg_provider p)) @ '' does not support custom domain attachment''))
       else seq (page_log (''Attaching custom domain '' @ pg_custom_domain p @ '' to Cloudflare Pages'' @ ellipsis))
         (handle (pj_io (cluster (CallProvider ''AttachCustomDomain'' (bm_id p)))) (\<lambda>e. err (ErrWrap ''attach Pages custom domain'' e)) (\<lambda>_.
         seq (set_alias target)
         (if \<not> pg_manage_dns p then
            page_log (''Create a CNAME record: '' @ pg_custom_domain p @ [CHR 0x20, CHR 0xE2, CHR 0x86, CHR 0x92, CHR 0x20] @ target)
          else seq (dns_account_checked C p)
            (seq (page_log (''Creating CNAME record in Cloudflare DNS'' @ ellipsis))
            (handle (upsert_record (pg_dns_zone p) ''CNAME'' (pg_custom_domain p)) (\<lambda>e. err (ErrWrap ''create CNAME record'' e)) (\<lambda>_.
              page_log (''Cloudflare DNS CNAME created for '' @ pg_custom_domain p))))))))"

section \<open>The deploy\<close>

definition tag_context_of :: "project \<Rightarrow> page \<Rightarrow> tag_context" where
  "tag_context_of x p = \<lparr>tc_env = p_environment x, tc_team = (case p_team_row x of None \<Rightarrow> [] | Some t \<Rightarrow> t_name t),
     tc_project = p_name x, tc_page = pg_name p\<rparr>"

text \<open>A step whose error ends the job as failed, with a text before the error's.\<close>

definition or_fail :: "page_cloud \<Rightarrow> string \<Rightarrow> 'a pj \<Rightarrow> ('a \<Rightarrow> unit pj) \<Rightarrow> unit pj" where
  "or_fail C what m k = handle m (\<lambda>e. page_fail (what @ pc_text C e)) k"

definition domain_set :: "page \<Rightarrow> bool" where
  "domain_set p \<longleftrightarrow> trim_space (pg_custom_domain p) \<noteq> []"

definition certificate_step :: "page_cloud \<Rightarrow> json option \<Rightarrow> str_map \<Rightarrow> unit pj \<Rightarrow> unit pj" where
  "certificate_step C cfg tags k = bind (gets pj_page) (\<lambda>p.
     if domain_set p \<and> pg_provider p = PageAWSCloudFront then
       (if pg_runtime p \<noteq> None \<and> pr_distribution (runtime_now p) \<noteq> [] \<and> pr_cert_arn (runtime_now p) = [] then
          page_fail (''this page was first deployed without a custom domain; the existing CloudFront distribution cannot have a domain attached '' @
            em_dash @ '' recreate the page to use a custom domain'')
        else or_fail C [] (ensure_certificate C cfg tags) (\<lambda>_. k))
     else k)"

definition provision :: "page_cloud \<Rightarrow> json option \<Rightarrow> str_map \<Rightarrow> unit pj" where
  "provision C cfg tags = bind (gets pj_page) (\<lambda>p.
     seq (if pg_provider p = PageAWSCloudFront \<and> pr_distribution (runtime_now p) = [] then
            page_log (''Provisioning S3 + CloudFront and waiting for the distribution to deploy (first deploy can take ~10'' @
              [CHR 0xE2, CHR 0x80, CHR 0x93] @ ''15 min)'' @ ellipsis)
          else if pg_provider p = PageCloudflarePages \<and> pr_cf_id (runtime_now p) = [] then
            page_log (''Provisioning Cloudflare Pages project'' @ ellipsis)
          else ret ())
     (case pc_provision C p cfg tags of (saves, res) \<Rightarrow>
        seq (for_each save_runtime saves) (bind (of_sum res) (\<lambda>rt. set_runtime (\<lambda>_. Some rt)))))"

definition domain_step :: "page_cloud \<Rightarrow> unit pj \<Rightarrow> unit pj" where
  "domain_step C k = bind (gets pj_page) (\<lambda>p.
     if domain_set p \<and> pr_default_url (runtime_now p) \<noteq> [] then
       (case pg_provider p of
          PageAWSCloudFront \<Rightarrow> or_fail C ''alias DNS record failed: '' (ensure_alias_record C) (\<lambda>_. k)
        | PageCloudflarePages \<Rightarrow> or_fail C ''custom domain setup failed: '' (ensure_pages_domain C) (\<lambda>_. k))
     else k)"

definition sync_step :: "page_cloud \<Rightarrow> json option \<Rightarrow> string \<Rightarrow> unit pj" where
  "sync_step C cfg dir = bind (gets pj_page) (\<lambda>p.
     case pc_sync C p cfg dir of (lines, res) \<Rightarrow>
       or_fail C ''deploy failed: '' (seq (for_each page_log lines) (of_sum res)) (\<lambda>(ref, url).
         seq (if url = [] then ret ()
              else page_log (if pg_custom_domain p \<noteq> [] then ''Live at https://'' @ pg_custom_domain p else ''Live at '' @ url))
           (page_succeed ref)))"

definition cloud_phase :: "page_cloud \<Rightarrow> string \<Rightarrow> unit pj" where
  "cloud_phase C dir = bind (gets pj_page) (\<lambda>p.
     if \<not> pc_registered C (pg_provider p) then page_fail (''unsupported pages provider: '' @ page_provider_text (pg_provider p))
     else or_fail C [] (pj_io (resolve_cloud_config (pg_cloud_account p))) (\<lambda>cfg.
       or_fail C ''load project: '' (pj_io (projects_get_by_id (pg_project p))) (\<lambda>x.
       or_fail C [] (pj_io (resolve_cloud_account_tags (pg_cloud_account p))) (\<lambda>ts.
         let tags = resolve_tags ts (tag_context_of x p) Map.empty in
         case pc_test C cfg of (ok, msg) \<Rightarrow>
           if \<not> ok then page_fail (''cloud credentials invalid: '' @ msg)
           else certificate_step C cfg tags
             (or_fail C ''provisioning failed: '' (provision C cfg tags) (\<lambda>_.
               domain_step C (sync_step C cfg dir)))))))"

definition latest_success :: "uuid \<Rightarrow> page_deployment option pj" where
  "latest_success i = handle (pj_io (page_deployments_get_latest_success i)) (\<lambda>_. ret None) (\<lambda>d. ret (Some d))"

definition unchanged_since :: "string \<Rightarrow> string \<Rightarrow> page_deployment option \<Rightarrow> bool" where
  "unchanged_since sha path prev = (case prev of None \<Rightarrow> False | Some l \<Rightarrow> pd_commit l = sha \<and> pd_publish_path l = path)"

definition page_execute :: "page_cloud \<Rightarrow> unit pj" where
  "page_execute C = or_fail C [] (prepare_files C) (\<lambda>(dir, sha, path).
     seq (set_page_deploy (\<lambda>_ d. d\<lparr>pd_commit := sha, pd_publish_path := path\<rparr>))
     (seq update_page_deploy
     (bind (gets pj_page) (\<lambda>p.
        bind (if \<not> pg_build_enabled p \<and> sha \<noteq> [] then latest_success (bm_id p) else ret None) (\<lambda>prev.
          if \<not> pg_build_enabled p \<and> sha \<noteq> [] \<and> unchanged_since sha path prev then
            seq (page_log (''Commit '' @ short_sha sha @ '' and publish folder '' @ quoted path @
                '' unchanged since last successful deploy '' @ em_dash @ '' skipping sync.''))
              (page_succeed (pd_provider_ref (the prev)))
          else cloud_phase C dir)))))"

definition run_page_job :: "page_cloud \<Rightarrow> (database \<Rightarrow> database) list \<Rightarrow> uuid \<Rightarrow> unit io" where
  "run_page_job C evs i =
     handle (page_deployments_get_by_id i) (\<lambda>e. err (ErrWrap ''load page deployment'' e)) (\<lambda>d.
       if is_terminal_page_status (pd_status d) then ret ()
       else handle (pages_get_by_id (pd_page d)) (\<lambda>e. err (ErrWrap ''load page'' e)) (\<lambda>p.
         (\<lambda>w. case seq (set_page_deploy (\<lambda>t d. d\<lparr>pd_started := Some t, pd_status := PageDeployDeploying\<rparr>))
             (seq update_page_deploy (seq (set_page_status PageDeploying) (page_execute C)))
             \<lparr>pj_page = p, pj_deploy = d, pj_events = evs, pj_world = w\<rparr> of (r, j) \<Rightarrow> (r, pj_world j))))"

section \<open>Trigger and recovery\<close>

definition blank_page_deployment :: page_deployment where
  "blank_page_deployment = \<lparr>bm_id = uuid_nil, bm_created = 0, bm_updated = 0, bm_deleted = None, pd_page = uuid_nil,
     pd_status = PageDeployQueued, pd_publish_path = [], pd_commit = [], pd_log = [], pd_provider_ref = [], pd_trigger = [],
     pd_started = None, pd_finished = None\<rparr>"

definition restore_page_status :: "page \<Rightarrow> page_status \<Rightarrow> unit io" where
  "restore_page_status p prev = (if prev = PageDeploying then ret () else attempt (pages_update_status (bm_id p) prev))"

definition page_trigger_commit :: "page_cloud \<Rightarrow> page \<Rightarrow> uuid \<Rightarrow> string \<Rightarrow> page_deployment io" where
  "page_trigger_commit C p i ty =
     (if pg_status p = PageDeploying then err (ErrMsg ''page is already deploying, wait for it to finish'')
      else if pg_cloud_account p = None then err (ErrMsg ''configure a cloud account on this page before deploying'')
      else bind (pages_try_mark_deploying i) (\<lambda>won.
        if \<not> won then err (ErrMsg ''page is already deploying, wait for it to finish'')
        else handle (page_deployments_create (blank_page_deployment\<lparr>pd_page := i, pd_status := PageDeployQueued,
              pd_trigger := or_default ''manual'' ty\<rparr>))
            (\<lambda>e. seq (restore_page_status p (pg_status p)) (err e))
            (\<lambda>d. handle (enqueue (new_page_deploy_job (bm_id d)))
               (\<lambda>e. bind now (\<lambda>t. seq (attempt (page_deployments_update_row (d\<lparr>pd_status := PageDeployFailed,
                    pd_finished := Some t, pd_log := ''Failed to enqueue deploy job: '' @ pc_text C e\<rparr>)))
                  (seq (restore_page_status p (pg_status p)) (err (ErrWrap ''enqueue page deploy job'' e)))))
               (\<lambda>_. ret d))))"

definition page_trigger :: "page_cloud \<Rightarrow> uuid \<Rightarrow> string \<Rightarrow> page_deployment io" where
  "page_trigger C i ty = bind (pages_get_by_id i) (\<lambda>p. page_trigger_commit C p i ty)"

definition recover_stale_page :: "page_deployment \<Rightarrow> unit io" where
  "recover_stale_page d = bind now (\<lambda>t.
     if t - (case pd_started d of None \<Rightarrow> bm_created d | Some s \<Rightarrow> s) < cloud_stale_threshold then ret ()
     else handle (page_deployments_mark_timed_out (bm_id d) t (log_note ''Deploy timed out (stale for >40min)'')) (\<lambda>_. ret ())
       (\<lambda>marked. if marked then attempt (pages_update_status (pd_page d) PageError) else ret ()))"

definition recover_stale_pages :: "unit io" where
  "recover_stale_pages =
     handle (page_deployments_list_by_status PageDeployDeploying \<lparr>lp_page = 1, lp_per_page = 1000\<rparr>)
       (\<lambda>_. ret ()) (\<lambda>(ds, _). for_each recover_stale_page ds)"

end
