(* ===== verification/Job_Worker.thy ===== *)
theory Job_Worker imports Page_Deploy Deploy_Finish begin

text \<open>
  The consumer of the job queue (\<open>cmd/worker/main.go\<close>): what it does with one message, from dispatch to the
  removal of the message.  The queue is PGMQ, an extension of the database that is not part of the sources: a call of
  it is recorded and may fail, and its rule that a message which is neither deleted nor archived is read again with a
  higher count is the sequence of read counts in \<open>redeliver\<close>.
\<close>

definition visibility_timeout :: duration where "visibility_timeout = 2400 * second"
definition max_read_attempts :: nat where "max_read_attempts = 5"
definition page_build_phase_timeout :: duration where "page_build_phase_timeout = 40 * minute"
definition page_deploy_phase_timeout :: duration where "page_deploy_phase_timeout = 30 * minute"
definition worker_deploy_phase_timeout :: duration where "worker_deploy_phase_timeout = 30 * minute"

record message =
  ms_id :: nat
  ms_reads :: nat
  ms_job :: job

record job_services =
  js_deploy :: "uuid \<Rightarrow> bool \<Rightarrow> unit io"
  js_system_backup :: "uuid \<Rightarrow> unit io"
  js_database_backup :: "uuid \<Rightarrow> unit io"
  js_page :: "uuid \<Rightarrow> unit io"
  js_worker :: "uuid \<Rightarrow> unit io"

definition with_id :: "string \<Rightarrow> uuid option \<Rightarrow> (uuid \<Rightarrow> unit io) \<Rightarrow> unit io" where
  "with_id missing i k = (case i of None \<Rightarrow> err (ErrMsg missing) | Some x \<Rightarrow> k x)"

definition dispatch_job :: "job_services \<Rightarrow> job \<Rightarrow> unit io" where
  "dispatch_job S j = (case j_type j of
     JobDeploy \<Rightarrow> with_id ''deploy job missing deploy_id'' (j_deploy j) (\<lambda>i. js_deploy S i (j_force j))
   | JobSystemBackup \<Rightarrow> with_id ''backup job missing backup_id'' (j_backup j) (js_system_backup S)
   | JobDatabaseBackup \<Rightarrow> with_id ''database backup job missing database_backup_id'' (j_db_backup j) (js_database_backup S)
   | JobPageDeploy \<Rightarrow> with_id ''page deploy job missing page_deployment_id'' (j_page j) (js_page S)
   | JobWorkerDeploy \<Rightarrow> with_id ''worker deploy job missing worker_deployment_id'' (j_worker j) (js_worker S)
   | JobOther s \<Rightarrow> err (ErrMsg (''unknown job type: '' @ quoted s)))"

text \<open>A call of a \<open>pgmq\<close> function is a statement; it is recorded to tell what became of a message.\<close>

definition pgmq :: "cluster_call \<Rightarrow> unit io" where
  "pgmq c = seq (modify (\<lambda>w. w\<lparr>calls := calls w @ [c]\<rparr>)) (exec id)"

definition queue_delete :: "nat \<Rightarrow> unit io" where
  "queue_delete m = handle (pgmq (CallQueue ''delete'' m)) (\<lambda>e. err (ErrWrap ''pgmq.delete'' e)) ret"

definition queue_archive :: "nat \<Rightarrow> unit io" where
  "queue_archive m = handle (pgmq (CallQueue ''archive'' m)) (\<lambda>e. err (ErrWrap ''pgmq.archive'' e)) ret"

lemma pgmq_eval: "pgmq c w = (if fault_now w then Inl ErrIO else Inr (), (next_fault w)\<lparr>calls := calls w @ [c]\<rparr>)"
  by (simp add: pgmq_def seq_def bind_def handle_def exec_def statement_def fault_now_def next_fault_def)

definition process_message :: "job_services \<Rightarrow> message \<Rightarrow> unit io" where
  "process_message S m = handle (dispatch_job S (ms_job m))
     (\<lambda>_. if ms_reads m \<ge> max_read_attempts then attempt (queue_archive (ms_id m)) else ret ())
     (\<lambda>_. attempt (queue_delete (ms_id m)))"

text \<open>What becomes of a message after one delivery: gone when a delete or an archive of it succeeded.\<close>

definition settled :: "job_services \<Rightarrow> message \<Rightarrow> world \<Rightarrow> bool" where
  "settled S m w = (case dispatch_job S (ms_job m) w of
     (Inl _, w') \<Rightarrow> ms_reads m \<ge> max_read_attempts \<and> \<not> fault_now w'
   | (Inr _, w') \<Rightarrow> \<not> fault_now w')"

fun redeliver :: "nat \<Rightarrow> job_services \<Rightarrow> message \<Rightarrow> world \<Rightarrow> nat \<times> world" where
  "redeliver 0 S m w = (0, w)"
| "redeliver (Suc n) S m w =
     (let w' = snd (process_message S m w) in
      if settled S m w then (1, w')
      else (case redeliver n S (m\<lparr>ms_reads := Suc (ms_reads m)\<rparr>) w' of (k, v) \<Rightarrow> (Suc k, v)))"

section \<open>One delivery\<close>

text \<open>A message is deleted exactly when its job returned no error; when it returned one, the message is
  archived from the fifth read on and otherwise left for redelivery without a call of the queue.  Whatever the job
  did to the database stays.\<close>

theorem message_fate:
  "case dispatch_job S (ms_job m) w of
     (Inr _, w1) \<Rightarrow> calls (snd (process_message S m w)) = calls w1 @ [CallQueue ''delete'' (ms_id m)] \<and>
       db (snd (process_message S m w)) = db w1
   | (Inl _, w1) \<Rightarrow> calls (snd (process_message S m w)) =
         calls w1 @ (if ms_reads m < 5 then [] else [CallQueue ''archive'' (ms_id m)]) \<and>
       db (snd (process_message S m w)) = db w1"
  by (auto simp: process_message_def handle_def max_read_attempts_def attempt_eval queue_delete_def queue_archive_def pgmq_eval
      split: prod.splits sum.splits)

text \<open>When no call fails, a job that always returns an error is delivered until its message has been read five times
  and no more: enough fuel gives the number of deliveries, and the last one archives the message.\<close>

theorem poison_bounded:
  assumes "\<And>v. calm v \<Longrightarrow> \<exists>e v'. dispatch_job S (ms_job m) v = (Inl e, v') \<and> calm v'"
    and "calm w" "1 \<le> ms_reads m" "ms_reads m \<le> 5" "6 - ms_reads m \<le> n"
  shows "fst (redeliver n S m w) = 6 - ms_reads m"
  using assms
proof (induction n arbitrary: m w)
  case (Suc n)
  obtain e v where d: "dispatch_job S (ms_job m) w = (Inl e, v)" "calm v" using Suc.prems(1,2) by blast
  have c: "calm (snd (process_message S m w))"
    using d by (auto simp: process_message_def attempt_eval queue_archive_def pgmq_eval handle_def)
  show ?case
  proof (cases "ms_reads m = 5")
    case True with d show ?thesis by (simp add: settled_def max_read_attempts_def)
  next
    case False
    let ?m = "m\<lparr>ms_reads := Suc (ms_reads m)\<rparr>"
    have "fst (redeliver n S ?m (snd (process_message S m w))) = 6 - ms_reads ?m"
      using Suc.prems False by (intro Suc.IH c) auto
    moreover have "\<not> settled S m w" using d False Suc.prems(4) by (simp add: settled_def max_read_attempts_def)
    ultimately show ?thesis using Suc.prems(4) False by (auto simp: Let_def split: prod.splits)
  qed
qed simp

definition demo_services :: job_services where
  "demo_services = \<lparr>js_deploy = (\<lambda>_ _. err ErrNoRows), js_system_backup = (\<lambda>_. ret ()), js_database_backup = (\<lambda>_. ret ()),
     js_page = (\<lambda>_. ret ()), js_worker = (\<lambda>_. ret ())\<rparr>"

lemma poison_bounded_witness:
  "fst (redeliver 10 demo_services \<lparr>ms_id = 1, ms_reads = 1, ms_job = new_deploy_job 4 False\<rparr> (world_of empty_database)) = 5"
  using poison_bounded [of demo_services "\<lparr>ms_id = 1, ms_reads = 1, ms_job = new_deploy_job 4 False\<rparr>" "world_of empty_database" 10]
  by (simp add: demo_services_def dispatch_job_def new_deploy_job_def empty_job_def with_id_def calm_def)

section \<open>A shutdown\<close>

lemma run_deploy_job_returns:
  assumes "by_id i (deployments (db w)) = Some d" "\<not> fault_now w" "\<not> is_terminal_deploy_status (d_status d)" "\<not> d_cancel d"
    and "by_id (d_app d) (applications (db w)) = Some a" "\<not> fault_now (next_fault w)"
  shows "fst (run_deploy_job P evs i force w) = Inr ()"
  using assms
  by (simp add: run_deploy_job_def handle_def deployments_get_by_id_def applications_get_by_id_def query_row_def statement_def)

text \<open>A deploy job that has loaded its rows returns no error even when its context is cancelled under
  it, as the drain timeout of a shutdown does: its message is deleted, so the queue does not deliver it to another
  worker.\<close>

theorem drained_job_is_deleted:
  assumes "by_id i (deployments (db w)) = Some d" "\<not> fault_now w" "\<not> is_terminal_deploy_status (d_status d)" "\<not> d_cancel d"
    and "by_id (d_app d) (applications (db w)) = Some a" "\<not> fault_now (next_fault w)"
    and "ms_job m = new_deploy_job i force" "js_deploy S = run_deploy_job P ((id, Some CtxCanceled) # evs)"
  shows "\<exists>cs. calls (snd (process_message S m w)) = cs @ [CallQueue ''delete'' (ms_id m)]"
proof -
  obtain w1 where "run_deploy_job P ((id, Some CtxCanceled) # evs) i force w = (Inr (), w1)"
    using run_deploy_job_returns [OF assms(1-6), of P "(id, Some CtxCanceled) # evs" force]
    by (cases "run_deploy_job P ((id, Some CtxCanceled) # evs) i force w") auto
  then have "dispatch_job S (ms_job m) w = (Inr (), w1)"
    using assms(7,8) by (simp add: dispatch_job_def new_deploy_job_def empty_job_def with_id_def)
  then show ?thesis
    by (auto simp: process_message_def attempt_eval queue_delete_def pgmq_eval handle_def)
qed

definition drained_services :: job_services where
  "drained_services = demo_services\<lparr>js_deploy := run_deploy_job demo_platform [(id, Some CtxCanceled)]\<rparr>"

lemma drained_job_is_deleted_witness:
  "\<exists>cs. calls (snd (process_message drained_services \<lparr>ms_id = 1, ms_reads = 1, ms_job = new_deploy_job 6 False\<rparr> (world_of demo_deploy_db))) =
     cs @ [CallQueue ''delete'' 1]"
proof -
  have w: "deployments demo_deploy_db = [blank_deployment\<lparr>bm_id := 6, d_app := 5\<rparr>]" "applications demo_deploy_db = [demo_app 5 AppBuilding]"
    by (simp_all add: demo_deploy_db_def empty_database_def)
  have "\<exists>cs. calls (snd (process_message drained_services \<lparr>ms_id = 1, ms_reads = 1, ms_job = new_deploy_job 6 False\<rparr> (world_of demo_deploy_db))) =
     cs @ [CallQueue ''delete'' (ms_id \<lparr>ms_id = 1, ms_reads = 1, ms_job = new_deploy_job 6 False\<rparr>)]"
    by (rule drained_job_is_deleted [where d = "blank_deployment\<lparr>bm_id := 6, d_app := 5\<rparr>" and a = "demo_app 5 AppBuilding"
          and P = demo_platform and evs = "[]"])
       (simp_all add: w drained_services_def demo_app_def blank_deployment_def by_id_Cons live_def)
  then show ?thesis by simp
qed

end
