(* ===== verification/Hosting_Service.thy ===== *)
theory Hosting_Service imports Page_Deploy begin

text \<open>
  \<open>service/page_service.go\<close> and \<open>service/worker_service.go\<close>: creating, changing and deleting pages and workers.
  Inputs of a change are options, \<open>None\<close> for a field the request leaves out.  The DNS provider is asked through
  \<open>page_dns\<close>; the teardown of cloud resources after a delete is a recorded call whose failure is only logged.
\<close>

section \<open>Names\<close>

definition is_name_char :: "char \<Rightarrow> bool" where
  "is_name_char c \<longleftrightarrow> is_lower_char c \<or> is_upper_char c \<or> is_digit_char c"

definition safe_name :: "string \<Rightarrow> bool" where
  "safe_name s \<longleftrightarrow> s \<noteq> [] \<and> is_name_char (hd s) \<and>
     list_all (\<lambda>c. is_name_char c \<or> c = CHR ''_'' \<or> c = CHR ''-'') (tl s)"

definition name_error :: "string \<Rightarrow> go_error" where
  "name_error what = ErrMsg (what @ '' name must start with alphanumeric and contain only letters, numbers, hyphens, and underscores'')"

definition notify_project_resource_deleted :: "uuid \<Rightarrow> string \<Rightarrow> string \<Rightarrow> string \<Rightarrow> unit io" where
  "notify_project_resource_deleted pr ev name detail =
     handle (projects_get_by_id pr) (\<lambda>_. ret ()) (\<lambda>p. notify_resource_deleted (p_org p) ev name detail)"

definition project_found :: "uuid \<Rightarrow> project io" where
  "project_found i = handle (projects_get_by_id i) (\<lambda>e. err (ErrWrap ''project not found'' e)) ret"

definition when_some :: "'a option \<Rightarrow> ('a \<Rightarrow> unit io) \<Rightarrow> unit io" where
  "when_some x f = (case x of None \<Rightarrow> ret () | Some y \<Rightarrow> f y)"

definition of_option :: "go_error option \<Rightarrow> unit io" where
  "of_option e = (case e of None \<Rightarrow> ret () | Some x \<Rightarrow> err x)"

definition patched :: "'a option \<Rightarrow> ('a \<Rightarrow> 'r \<Rightarrow> 'r) \<Rightarrow> 'r \<Rightarrow> 'r" where
  "patched x f r = (case x of None \<Rightarrow> r | Some y \<Rightarrow> f y r)"

section \<open>Workers\<close>

record create_worker_input =
  cw_project :: uuid
  cw_name :: string
  cw_description :: string
  cw_repo :: string
  cw_branch :: string
  cw_git_provider :: "uuid option"
  cw_root :: string
  cw_wrangler :: string
  cw_pm :: string
  cw_install :: string
  cw_build :: string
  cw_deploy :: string
  cw_env :: "str_map option"
  cw_account :: "uuid option"

definition new_worker :: "create_worker_input \<Rightarrow> worker" where
  "new_worker inp = \<lparr>bm_id = uuid_nil, bm_created = 0, bm_updated = 0, bm_deleted = None,
     wk_project = cw_project inp, wk_name = cw_name inp, wk_description = cw_description inp, wk_git_repo = cw_repo inp,
     wk_git_branch = or_default ''main'' (cw_branch inp), wk_git_provider = cw_git_provider inp,
     wk_root_dir = or_default ''.'' (cw_root inp),
     wk_wrangler_config = or_default ''wrangler.toml'' (trim_space (cw_wrangler inp)),
     wk_package_manager = or_default ''auto'' (cw_pm inp), wk_install_command = cw_install inp,
     wk_build_command = cw_build inp, wk_deploy_command = cw_deploy inp,
     wk_build_env = (case cw_env inp of None \<Rightarrow> Map.empty | Some m \<Rightarrow> m), wk_r2_confirmed = [],
     wk_cloud_account = cw_account inp, wk_runtime = Some zero_worker_runtime, wk_status = WorkerIdle,
     wk_webhook_secret = [], wk_auto_deploy = False\<rparr>"

definition name_taken :: "string \<Rightarrow> string \<Rightarrow> go_error" where
  "name_taken what n = ErrMsg (''a '' @ what @ '' named '' @ quoted n @ '' already exists in this project'')"

definition worker_create :: "create_worker_input \<Rightarrow> worker io" where
  "worker_create inp =
     (if \<not> safe_name (cw_name inp) then err (name_error ''worker'')
      else bind (project_found (cw_project inp)) (\<lambda>pr.
        seq (when_some (cw_account inp) (\<lambda>a. seq (validate_resource (p_org pr) a resource_cloud_account) (validate_worker_cloud_account a)))
        (seq (when_some (cw_git_provider inp) (\<lambda>g. validate_resource (p_org pr) g resource_git_provider))
        (seq (of_option (validate_package_manager (cw_pm inp)))
        (bind (handle (workers_exists_by_name (cw_project inp) (cw_name inp))
            (\<lambda>e. err (ErrWrap ''cannot verify name uniqueness'' e)) ret) (\<lambda>dup.
          if dup then err (name_taken ''worker'' (cw_name inp))
          else handle (workers_create (new_worker inp))
            (\<lambda>e. err (if e = ErrUnique then name_taken ''worker'' (cw_name inp) else e)) ret))))))"

record update_worker_input =
  uw_description :: "string option"
  uw_repo :: "string option"
  uw_branch :: "string option"
  uw_git_provider :: "uuid option"
  uw_root :: "string option"
  uw_wrangler :: "string option"
  uw_pm :: "string option"
  uw_install :: "string option"
  uw_build :: "string option"
  uw_deploy :: "string option"
  uw_env :: "str_map option"
  uw_account :: "uuid option"

text \<open>The organisation of the project is looked up once, when the first field needs it.\<close>

definition resolve_org :: "uuid \<Rightarrow> uuid option \<Rightarrow> uuid io" where
  "resolve_org pr known = (case known of Some og \<Rightarrow> ret og | None \<Rightarrow> bind (project_found pr) (\<lambda>p. ret (p_org p)))"

definition worker_patch_git :: "update_worker_input \<Rightarrow> worker \<Rightarrow> (worker \<times> uuid option) io" where
  "worker_patch_git inp k0 =
     (let k = patched (uw_branch inp) (\<lambda>b k. k\<lparr>wk_git_branch := or_default ''main'' (trim_space b)\<rparr>)
        (patched (uw_repo inp) (\<lambda>r k. k\<lparr>wk_git_repo := r\<rparr>)
        (patched (uw_description inp) (\<lambda>d k. k\<lparr>wk_description := d\<rparr>) k0)) in
      case uw_git_provider inp of
        None \<Rightarrow> ret (k, None)
      | Some g \<Rightarrow> bind (resolve_org (wk_project k) None) (\<lambda>og.
          seq (validate_resource og g resource_git_provider) (ret (k\<lparr>wk_git_provider := Some g\<rparr>, Some og))))"

definition worker_patch_build :: "update_worker_input \<Rightarrow> worker \<Rightarrow> worker io" where
  "worker_patch_build inp k0 =
     (let k = patched (uw_wrangler inp) (\<lambda>c k. k\<lparr>wk_wrangler_config := or_default ''wrangler.toml'' (trim_space c)\<rparr>)
        (patched (uw_root inp) (\<lambda>r k. k\<lparr>wk_root_dir := or_default ''.'' (trim_space r)\<rparr>) k0) in
      seq (when_some (uw_pm inp) (\<lambda>m. of_option (validate_package_manager m)))
        (ret (patched (uw_env inp) (\<lambda>e k. k\<lparr>wk_build_env := e\<rparr>)
          (patched (uw_deploy inp) (\<lambda>c k. k\<lparr>wk_deploy_command := c\<rparr>)
          (patched (uw_build inp) (\<lambda>c k. k\<lparr>wk_build_command := c\<rparr>)
          (patched (uw_install inp) (\<lambda>c k. k\<lparr>wk_install_command := c\<rparr>)
          (patched (uw_pm inp) (\<lambda>m k. k\<lparr>wk_package_manager := or_default ''auto'' (trim_space m)\<rparr>) k)))))))"

definition worker_patch_account :: "update_worker_input \<Rightarrow> worker \<Rightarrow> uuid option \<Rightarrow> (worker \<times> bool) io" where
  "worker_patch_account inp k og0 = (case uw_account inp of
     None \<Rightarrow> ret (k, False)
   | Some a \<Rightarrow> bind (resolve_org (wk_project k) og0) (\<lambda>og.
       seq (validate_resource og a resource_cloud_account) (seq (validate_worker_cloud_account a)
         (ret (k\<lparr>wk_cloud_account := Some a\<rparr>, wk_cloud_account k \<noteq> Some a)))))"

definition worker_save :: "worker \<Rightarrow> bool \<Rightarrow> worker io" where
  "worker_save k changing =
     (if changing then bind (workers_update_settings_if_not_deploying k) (\<lambda>applied.
        if applied then ret k else err (ErrMsg ''cannot change cloud account while a deploy is in progress''))
      else seq (workers_update_settings k) (ret k))"

definition worker_update :: "uuid \<Rightarrow> update_worker_input \<Rightarrow> worker io" where
  "worker_update i inp = bind (workers_get_by_id i) (\<lambda>k0.
     bind (worker_patch_git inp k0) (\<lambda>(k1, og).
     bind (worker_patch_build inp k1) (\<lambda>k2.
     bind (worker_patch_account inp k2 og) (\<lambda>(k3, changing). worker_save k3 changing))))"

text \<open>A delete reads the row for a friendly answer; its own statement decides.  The teardown runs detached from the request: it resolves the credentials and calls the build pod.\<close>

definition worker_teardown :: "worker_cloud \<Rightarrow> worker \<Rightarrow> unit io" where
  "worker_teardown C k = (if wc_builder C \<noteq> None then ret ()
     else handle (resolve_cloud_config (wk_cloud_account k)) (\<lambda>_. ret ()) (\<lambda>cfg.
       case deploy_credentials cfg of
         Inl _ \<Rightarrow> ret ()
       | Inr _ \<Rightarrow> seq (attempt (resolve_worker_git_token (wc_github C) (wc_text C) k))
           (attempt (cluster (CallProvider ''DeleteWorker'' (bm_id k))))))"

definition worker_delete_commit :: "worker_cloud \<Rightarrow> uuid \<Rightarrow> unit io" where
  "worker_delete_commit C i =
     bind (workers_delete_if_not_deploying i) (\<lambda>gone. case gone of
         None \<Rightarrow> err (ErrMsg ''worker is currently deploying, wait for it to finish before deleting'')
       | Some d \<Rightarrow> seq (case wk_runtime d of
             Some rt \<Rightarrow> if wr_script rt \<noteq> [] \<and> wk_cloud_account d \<noteq> None then worker_teardown C d else ret ()
           | None \<Rightarrow> ret ())
           (notify_project_resource_deleted (wk_project d) ''worker_deleted'' (wk_name d)
              (''Worker '' @ quoted (wk_name d) @ '' was deleted'')))"

definition worker_delete :: "worker_cloud \<Rightarrow> uuid \<Rightarrow> unit io" where
  "worker_delete C i = bind (workers_get_by_id i) (\<lambda>k.
     if wk_status k = WorkerDeploying then err (ErrMsg ''worker is currently deploying, wait for it to finish before deleting'')
     else worker_delete_commit C i)"

section \<open>Pages\<close>

text \<open>\<open>pdn_for\<close>: the error of \<open>dns.For\<close> a provider; \<open>pdn_records\<close>: the names of the records of a zone.\<close>

record page_dns =
  pdn_for :: "string \<Rightarrow> go_error option"
  pdn_records :: "json option \<Rightarrow> string \<Rightarrow> go_error + string list"

definition record_exists_for_domain :: "string list \<Rightarrow> string \<Rightarrow> bool" where
  "record_exists_for_domain names dm = list_ex (\<lambda>n. normalize_domain n = normalize_domain dm) names"

definition dns_config :: "page_dns \<Rightarrow> uuid \<Rightarrow> json option io" where
  "dns_config D i = handle (resources_get_by_id i) (\<lambda>e. err (ErrWrap ''dns account not found'' e)) (\<lambda>r.
     if sr_type r \<noteq> resource_cloud_account then err (ErrMsg (''resource '' @ sr_name r @ '' is not a cloud account''))
     else (case pdn_for D (sr_provider r) of Some e \<Rightarrow> err e | None \<Rightarrow> ret (sr_config r)))"

definition validate_custom_domain ::
  "page_dns \<Rightarrow> uuid \<Rightarrow> page_provider \<Rightarrow> string \<Rightarrow> bool \<Rightarrow> uuid option \<Rightarrow> string \<Rightarrow> unit io" where
  "validate_custom_domain D og pp raw manage acc zone = (let dm = normalize_domain raw in
     if dm = [] \<or> \<not> manage then ret ()
     else case acc of
       None \<Rightarrow> err (ErrMsg ''dns_account_id and dns_zone_id are required when manage_dns is enabled'')
     | Some a \<Rightarrow>
         if trim_space zone = [] then err (ErrMsg ''dns_account_id and dns_zone_id are required when manage_dns is enabled'')
         else seq (validate_resource og a resource_cloud_account) (seq (validate_pages_dns_account pp a)
           (bind (dns_config D a) (\<lambda>cfg. case pdn_records D cfg zone of
              Inl e \<Rightarrow> err (ErrWrap ''list DNS records'' e)
            | Inr names \<Rightarrow> if record_exists_for_domain names dm then
                  err (ErrMsg (''domain '' @ quoted dm @ '' is not available '' @ em_dash @ '' a DNS record already exists in the selected zone''))
                else ret ()))))"

definition parse_page_provider :: "string \<Rightarrow> page_provider option" where
  "parse_page_provider s = (if s = [] \<or> s = ''aws_cloudfront'' then Some PageAWSCloudFront
     else if s = ''cloudflare_pages'' then Some PageCloudflarePages else None)"

record create_page_input =
  cp_project :: uuid
  cp_name :: string
  cp_description :: string
  cp_repo :: string
  cp_branch :: string
  cp_git_provider :: "uuid option"
  cp_publish_path :: string
  cp_provider :: string
  cp_account :: "uuid option"
  cp_region :: string
  cp_domain :: string
  cp_manage_dns :: bool
  cp_dns_account :: "uuid option"
  cp_dns_zone :: string
  cp_build_enabled :: bool
  cp_pm :: string
  cp_install :: string
  cp_build :: string
  cp_output :: string
  cp_root :: string
  cp_node :: string
  cp_env :: "str_map option"

definition new_page :: "create_page_input \<Rightarrow> page_provider \<Rightarrow> page" where
  "new_page inp pp = \<lparr>bm_id = uuid_nil, bm_created = 0, bm_updated = 0, bm_deleted = None,
     pg_project = cp_project inp, pg_name = cp_name inp, pg_description = cp_description inp, pg_git_repo = cp_repo inp,
     pg_git_branch = or_default ''main'' (cp_branch inp), pg_git_provider = cp_git_provider inp,
     pg_publish_path = or_default ''.'' (cp_publish_path inp), pg_build_enabled = cp_build_enabled inp,
     pg_package_manager = or_default ''auto'' (cp_pm inp), pg_install_command = cp_install inp, pg_build_command = cp_build inp,
     pg_output_dir = (let out = trim_space (cp_output inp) in if cp_build_enabled inp \<and> out = [] then ''dist'' else out),
     pg_root_dir = or_default ''.'' (cp_root inp), pg_node_version = trim_space (cp_node inp),
     pg_build_env = (case cp_env inp of None \<Rightarrow> Map.empty | Some m \<Rightarrow> m), pg_provider = pp,
     pg_cloud_account = cp_account inp,
     pg_region = (if cp_region inp = [] \<and> pp = PageAWSCloudFront then ''us-east-1'' else cp_region inp),
     pg_custom_domain = normalize_domain (cp_domain inp), pg_manage_dns = cp_manage_dns inp,
     pg_dns_account = cp_dns_account inp, pg_dns_zone = trim_space (cp_dns_zone inp),
     pg_runtime = Some zero_page_runtime, pg_status = PageIdle, pg_webhook_secret = [], pg_auto_deploy = False\<rparr>"

definition page_create :: "page_dns \<Rightarrow> create_page_input \<Rightarrow> page io" where
  "page_create D inp =
     (if \<not> safe_name (cp_name inp) then err (name_error ''page'')
      else bind (project_found (cp_project inp)) (\<lambda>pr.
        seq (when_some (cp_account inp) (\<lambda>a. seq (validate_resource (p_org pr) a resource_cloud_account)
              (validate_page_cloud_account (cp_provider inp) a)))
        (seq (when_some (cp_git_provider inp) (\<lambda>g. validate_resource (p_org pr) g resource_git_provider))
        (case parse_page_provider (cp_provider inp) of
           None \<Rightarrow> err (ErrMsg ''provider must be aws_cloudfront or cloudflare_pages'')
         | Some pp \<Rightarrow> let dm = normalize_domain (cp_domain inp) in
            seq (if dm \<noteq> [] then validate_custom_domain D (p_org pr) pp dm (cp_manage_dns inp) (cp_dns_account inp) (cp_dns_zone inp)
                 else if cp_manage_dns inp then err (ErrMsg ''custom_domain is required when manage_dns is enabled'') else ret ())
            (seq (of_option (validate_package_manager (cp_pm inp)))
            (bind (handle (pages_exists_by_name (cp_project inp) (cp_name inp))
                (\<lambda>e. err (ErrWrap ''cannot verify name uniqueness'' e)) ret) (\<lambda>dup.
              if dup then err (name_taken ''page'' (cp_name inp))
              else handle (pages_create (new_page inp pp))
                (\<lambda>e. err (if e = ErrUnique then name_taken ''page'' (cp_name inp) else e)) ret)))))))"

text \<open>A page's account, region and domain may change only before the cloud holds what depends on them.\<close>

definition page_cloud_provisioned :: "page \<Rightarrow> bool" where
  "page_cloud_provisioned p = (case pg_runtime p of
     None \<Rightarrow> False
   | Some rt \<Rightarrow> (case pg_provider p of
        PageCloudflarePages \<Rightarrow> pr_cf_id rt \<noteq> []
      | PageAWSCloudFront \<Rightarrow> pr_bucket rt \<noteq> [] \<or> pr_distribution rt \<noteq> []))"

definition page_domain_locked :: "page \<Rightarrow> bool" where
  "page_domain_locked p = (case pg_runtime p of
     None \<Rightarrow> False
   | Some rt \<Rightarrow> (case pg_provider p of
        PageCloudflarePages \<Rightarrow> pr_cf_id rt \<noteq> []
      | PageAWSCloudFront \<Rightarrow> pr_cert_arn rt \<noteq> [] \<or> pr_distribution rt \<noteq> []))"

record update_page_input =
  up_description :: "string option"
  up_repo :: "string option"
  up_branch :: "string option"
  up_git_provider :: "uuid option"
  up_publish_path :: "string option"
  up_account :: "uuid option"
  up_region :: "string option"
  up_domain :: "string option"
  up_manage_dns :: "bool option"
  up_dns_account :: "uuid option"
  up_dns_zone :: "string option"
  up_build_enabled :: "bool option"
  up_pm :: "string option"
  up_install :: "string option"
  up_build :: "string option"
  up_output :: "string option"
  up_root :: "string option"
  up_node :: "string option"
  up_env :: "str_map option"

definition page_patch_build :: "update_page_input \<Rightarrow> page \<Rightarrow> page io" where
  "page_patch_build inp p0 =
     (let p = patched (up_build_enabled inp) (\<lambda>b p. p\<lparr>pg_build_enabled := b\<rparr>)
        (patched (up_branch inp) (\<lambda>b p. p\<lparr>pg_git_branch := b\<rparr>)
        (patched (up_repo inp) (\<lambda>r p. p\<lparr>pg_git_repo := r\<rparr>)
        (patched (up_description inp) (\<lambda>d p. p\<lparr>pg_description := d\<rparr>) p0))) in
      seq (when_some (up_pm inp) (\<lambda>m. of_option (validate_package_manager m)))
        (let q = patched (up_env inp) (\<lambda>e p. p\<lparr>pg_build_env := e\<rparr>)
          (patched (up_node inp) (\<lambda>n p. p\<lparr>pg_node_version := trim_space n\<rparr>)
          (patched (up_root inp) (\<lambda>r p. p\<lparr>pg_root_dir := or_default ''.'' (trim_space r)\<rparr>)
          (patched (up_output inp) (\<lambda>x p. p\<lparr>pg_output_dir := trim_space x\<rparr>)
          (patched (up_build inp) (\<lambda>c p. p\<lparr>pg_build_command := c\<rparr>)
          (patched (up_install inp) (\<lambda>c p. p\<lparr>pg_install_command := c\<rparr>)
          (patched (up_pm inp) (\<lambda>m p. p\<lparr>pg_package_manager := or_default ''auto'' (trim_space m)\<rparr>) p)))))) in
         ret (if pg_build_enabled q \<and> trim_space (pg_output_dir q) = [] then q\<lparr>pg_output_dir := ''dist''\<rparr> else q)))"

definition page_patch_git :: "update_page_input \<Rightarrow> page \<Rightarrow> (page \<times> uuid option) io" where
  "page_patch_git inp p =
     bind (case up_git_provider inp of
         None \<Rightarrow> ret (p, None)
       | Some g \<Rightarrow> bind (resolve_org (pg_project p) None) (\<lambda>og.
           seq (validate_resource og g resource_git_provider) (ret (p\<lparr>pg_git_provider := Some g\<rparr>, Some og))))
       (\<lambda>(q, og). ret (patched (up_publish_path inp) (\<lambda>x q. q\<lparr>pg_publish_path := x\<rparr>) q, og))"

definition touches_domain :: "update_page_input \<Rightarrow> bool" where
  "touches_domain inp \<longleftrightarrow> up_domain inp \<noteq> None \<or> up_manage_dns inp \<noteq> None \<or> up_dns_account inp \<noteq> None \<or> up_dns_zone inp \<noteq> None"

definition page_patch_domain :: "page_dns \<Rightarrow> update_page_input \<Rightarrow> page \<Rightarrow> uuid option \<Rightarrow> (page \<times> uuid option) io" where
  "page_patch_domain D inp p og0 =
     (if page_domain_locked p then
        (if touches_domain inp then err (ErrMsg ''cannot change custom domain settings after the page has been provisioned'')
         else ret (p, og0))
      else
        let q = patched (up_dns_zone inp) (\<lambda>z p. p\<lparr>pg_dns_zone := trim_space z\<rparr>)
          (patched (up_dns_account inp) (\<lambda>a p. p\<lparr>pg_dns_account := Some a\<rparr>)
          (patched (up_manage_dns inp) (\<lambda>b p. p\<lparr>pg_manage_dns := b\<rparr>)
          (patched (up_domain inp) (\<lambda>x p. p\<lparr>pg_custom_domain := normalize_domain x\<rparr>) p))) in
        bind (resolve_org (pg_project p) og0) (\<lambda>og.
          seq (if touches_domain inp \<and> pg_custom_domain q \<noteq> [] then
                 validate_custom_domain D og (pg_provider q) (pg_custom_domain q) (pg_manage_dns q) (pg_dns_account q) (pg_dns_zone q)
               else if pg_manage_dns q \<and> pg_custom_domain q = [] then
                 err (ErrMsg ''custom_domain is required when manage_dns is enabled'')
               else ret ())
            (ret (q, Some og))))"

definition page_patch_account :: "update_page_input \<Rightarrow> page \<Rightarrow> uuid option \<Rightarrow> (page \<times> bool) io" where
  "page_patch_account inp p og0 = (case up_account inp of
     None \<Rightarrow> ret (p, False)
   | Some a \<Rightarrow> let changing = (pg_cloud_account p \<noteq> Some a) in
       if changing \<and> (pg_status p = PageDeploying \<or> page_cloud_provisioned p) then
         err (ErrMsg ''cannot change cloud account while a deploy is in progress or after the first deploy'')
       else bind (resolve_org (pg_project p) og0) (\<lambda>og.
         seq (validate_resource og a resource_cloud_account)
           (seq (validate_page_cloud_account (page_provider_text (pg_provider p)) a)
             (ret (p\<lparr>pg_cloud_account := Some a\<rparr>, changing)))))"

definition page_patch_region :: "update_page_input \<Rightarrow> page \<Rightarrow> (page \<times> bool) io" where
  "page_patch_region inp p = (case up_region inp of
     None \<Rightarrow> ret (p, False)
   | Some r \<Rightarrow>
       if pg_provider p \<noteq> PageAWSCloudFront then err (ErrMsg ''region can only be set for AWS CloudFront pages'')
       else if r \<noteq> pg_region p \<and> (pg_status p = PageDeploying \<or>
           (case pg_runtime p of None \<Rightarrow> False | Some rt \<Rightarrow> pr_bucket rt \<noteq> [])) then
         err (ErrMsg ''cannot change region while a deploy is in progress or after the first deploy'')
       else ret (p\<lparr>pg_region := r\<rparr>, r \<noteq> pg_region p))"

definition page_save :: "page \<Rightarrow> bool \<Rightarrow> page io" where
  "page_save p changing =
     (if changing then bind (pages_update_settings_if_not_deploying p) (\<lambda>applied.
        if applied then ret p else err (ErrMsg ''cannot change cloud account or region while a deploy is in progress''))
      else seq (pages_update_settings p) (ret p))"

definition page_update_settings :: "page_dns \<Rightarrow> uuid \<Rightarrow> update_page_input \<Rightarrow> page io" where
  "page_update_settings D i inp = bind (pages_get_by_id i) (\<lambda>p0.
     bind (page_patch_build inp p0) (\<lambda>p1.
     bind (page_patch_git inp p1) (\<lambda>(p2, og2).
     bind (page_patch_domain D inp p2 og2) (\<lambda>(p3, og3).
     bind (page_patch_account inp p3 og3) (\<lambda>(p4, changed).
     bind (page_patch_region inp p4) (\<lambda>(p5, moved). page_save p5 (changed \<or> moved)))))))"

definition page_teardown :: "page_cloud \<Rightarrow> page \<Rightarrow> unit io" where
  "page_teardown C p = (if \<not> pc_registered C (pg_provider p) then ret ()
     else handle (resolve_cloud_config (pg_cloud_account p)) (\<lambda>_. ret ())
       (\<lambda>_. attempt (cluster (CallProvider ''DeletePage'' (bm_id p)))))"

definition page_delete_commit :: "page_cloud \<Rightarrow> uuid \<Rightarrow> unit io" where
  "page_delete_commit C i =
     bind (pages_delete_if_not_deploying i) (\<lambda>gone. case gone of
         None \<Rightarrow> err (ErrMsg ''page is currently deploying, wait for it to finish before deleting'')
       | Some d \<Rightarrow> seq (if pg_runtime d \<noteq> None \<and> page_cloud_provisioned d then page_teardown C d else ret ())
           (notify_project_resource_deleted (pg_project d) ''page_deleted'' (pg_name d)
              (''Page '' @ quoted (pg_name d) @ '' was deleted'')))"

definition page_delete :: "page_cloud \<Rightarrow> uuid \<Rightarrow> unit io" where
  "page_delete C i = bind (pages_get_by_id i) (\<lambda>p.
     if pg_status p = PageDeploying then err (ErrMsg ''page is currently deploying, wait for it to finish before deleting'')
     else page_delete_commit C i)"

end
