(* ===== verification/Page_Finish.thy ===== *)
theory Page_Finish imports Page_Deploy Worker_Finish begin

text \<open>
  How a page deploy job ends.  Every step of the job keeps an invariant, whatever the step returns: the two rows are
  there and the copies the job works on are theirs; a job leaves only through \<open>page_succeed\<close> and \<open>page_fail\<close>.
\<close>

section \<open>The invariant\<close>

definition page_rows :: "uuid \<Rightarrow> uuid \<Rightarrow> database \<Rightarrow> bool" where
  "page_rows i pi d \<longleftrightarrow> distinct_ids (page_deployments d) \<and> distinct_ids (pages d) \<and>
     by_id i (page_deployments d) \<noteq> None \<and> by_id pi (pages d) \<noteq> None"

definition page_env :: "uuid \<Rightarrow> uuid \<Rightarrow> (database \<Rightarrow> database) \<Rightarrow> bool" where
  "page_env i pi f \<longleftrightarrow> (\<forall>d. page_rows i pi d \<longrightarrow> page_rows i pi (f d))"

text \<open>Beside the last two statements of a job nothing else writes its rows.\<close>

definition page_quiet :: "uuid \<Rightarrow> uuid \<Rightarrow> (database \<Rightarrow> database) \<Rightarrow> bool" where
  "page_quiet i pi f \<longleftrightarrow> page_env i pi f \<and>
     (\<forall>d. by_id i (page_deployments (f d)) = by_id i (page_deployments d) \<and> by_id pi (pages (f d)) = by_id pi (pages d))"

definition page_at :: "uuid \<Rightarrow> uuid \<Rightarrow> page_job \<Rightarrow> bool" where
  "page_at i pi j \<longleftrightarrow> calm (pj_world j) \<and> page_rows i pi (db (pj_world j)) \<and> list_all (page_quiet i pi) (pj_events j) \<and>
     bm_id (pj_deploy j) = i \<and> live (pj_deploy j) \<and> bm_id (pj_page j) = pi \<and> pg_status (pj_page j) = PageDeploying"

definition page_outcome :: "page_deploy_status \<Rightarrow> page_status option" where
  "page_outcome s = (case s of PageDeploySuccess \<Rightarrow> Some PageLive | PageDeployFailed \<Rightarrow> Some PageError | _ \<Rightarrow> None)"

definition page_done :: "uuid \<Rightarrow> uuid \<Rightarrow> database \<Rightarrow> bool" where
  "page_done i pi d \<longleftrightarrow> (\<exists>x y s. by_id i (page_deployments d) = Some x \<and> pd_finished x \<noteq> None \<and>
     page_outcome (pd_status x) = Some s \<and> by_id pi (pages d) = Some y \<and> pg_status y = s)"

lemma elapse_at: "page_at i pi j \<Longrightarrow> page_at i pi (pj_elapse j)"
  by (auto simp: page_at_def pj_elapse_def page_quiet_def page_env_def split: list.splits)

section \<open>Steps that keep it\<close>

lemma keeps_pj_io:
  assumes "keeps calm m" "\<And>d w. page_rows i pi (db w) \<Longrightarrow> page_rows i pi (db (snd (m w)))"
  shows "keeps (page_at i pi) (pj_io m)"
  unfolding keeps_def
proof (intro allI impI)
  fix j0 assume "page_at i pi j0"
  then have j: "page_at i pi (pj_elapse j0)" by (rule elapse_at)
  obtain r w' where m: "m (pj_world (pj_elapse j0)) = (r, w')" by (cases "m (pj_world (pj_elapse j0))")
  have "calm w'" using keepsD [OF assms(1) _ m] j by (simp add: page_at_def)
  moreover have "page_rows i pi (db w')" using assms(2) [of "pj_world (pj_elapse j0)"] j m by (simp add: page_at_def)
  ultimately show "page_at i pi (snd (pj_io m j0))" using j m by (simp add: pj_io_def page_at_def)
qed

lemma keeps_pj_reads: "reads m \<Longrightarrow> keeps calm m \<Longrightarrow> keeps (page_at i pi) (pj_io m)"
  by (rule keeps_pj_io) (simp_all add: reads_def)

lemma page_rows_update_deploys:
  assumes "\<And>r. bm_id (f r) = bm_id r" "\<And>r. live r \<Longrightarrow> live (f r)" "page_rows i pi d"
  shows "page_rows i pi (page_deployments_update (update_live P f) d)"
  using assms by_id_update_live [of f "page_deployments d" i P]
  by (auto simp: page_rows_def distinct_ids_update_live split: option.splits)

lemma page_rows_update_pages:
  assumes "\<And>r. bm_id (f r) = bm_id r" "\<And>r. live r \<Longrightarrow> live (f r)" "page_rows i pi d"
  shows "page_rows i pi (pages_update (update_live P f) d)"
  using assms by_id_update_live [of f "pages d" pi P]
  by (auto simp: page_rows_def distinct_ids_update_live split: option.splits)

lemma page_rows_replace:
  "live x \<Longrightarrow> page_rows i pi d \<Longrightarrow> page_rows i pi (page_deployments_update (replace_pk x) d)"
  using by_id_replace_pk [of "page_deployments d" x i] replace_pk_absent [of x "page_deployments d"]
  by (cases "by_id (bm_id x) (page_deployments d)") (auto simp: page_rows_def)

lemma keeps_gets_at:
  assumes "\<And>j. page_at i pi j \<Longrightarrow> V (f j)" "\<And>x. V x \<Longrightarrow> keeps (page_at i pi) (k x)"
  shows "keeps (page_at i pi) (bind (gets f) k)"
  using assms by (auto simp: keeps_def bind_def)

lemma keeps_at_basic [keeps_intros]:
  "keeps (page_at i pi) (of_sum r)"
  "keeps (page_at i pi) (set_runtime f)"
  by (auto simp: of_sum_def set_runtime_def page_at_def intro!: keeps_modify split: sum.splits)

lemma keeps_at_set_deploy:
  "(\<And>t d. bm_id (f t d) = bm_id d \<and> bm_deleted (f t d) = bm_deleted d) \<Longrightarrow> keeps (page_at i pi) (set_page_deploy f)"
  unfolding set_page_deploy_def by (rule keeps_modify) (simp add: page_at_def live_def)

lemma keeps_at_update_deploy [keeps_intros]: "keeps (page_at i pi) update_page_deploy"
  unfolding update_page_deploy_def
proof (rule keeps_gets_at [where V = live])
  fix x :: page_deployment assume x: "live x"
  have c: "keeps calm (page_deployments_update_row x)"
    unfolding page_deployments_update_row_def by (intro keeps_intros)
  show "keeps (page_at i pi) (attempt (pj_io (page_deployments_update_row x)))"
    by (intro keeps_attempt keeps_pj_io [OF c])
       (auto simp: page_deployments_update_row_def update_row_def statement_def no_index_def page_rows_replace x)
qed (simp add: page_at_def)

lemma keeps_at_page_log [keeps_intros]: "keeps (page_at i pi) (page_log l)"
  unfolding page_log_def by (intro keeps_intros keeps_at_set_deploy) simp

lemma calm_runtime: "keeps calm (pages_update_runtime x rt)"
  unfolding pages_update_runtime_def by (intro keeps_intros)

lemma keeps_at_store_runtime [keeps_intros]: "keeps (page_at i pi) store_runtime"
  unfolding store_runtime_def
  by (intro keeps_intros keeps_pj_io calm_runtime)
     (auto simp: pages_update_runtime_def bind_now exec_def statement_def intro!: page_rows_update_pages simp: live_def)

lemma keeps_at_save_runtime [keeps_intros]: "keeps (page_at i pi) (save_runtime rt)"
  unfolding save_runtime_def by (intro keeps_intros)

lemma keeps_at_local_file [keeps_intros]: "keeps (page_at i pi) (local_file what)"
  unfolding local_file_def by (intro keeps_intros keeps_pj_io) (auto simp: exec_def statement_def)

lemma keeps_at_upsert [keeps_intros]: "keeps (page_at i pi) (upsert_record z t n)"
  unfolding upsert_record_def by (intro keeps_pj_reads reads_intros keeps_intros)

lemma calm_checks [keeps_intros]:
  "keeps calm (validate_pages_dns_account pp x)" "keeps calm (resolve_dns_provider C x)" "keeps calm (resolve_cloud_account_tags acc)"
  "keeps calm (resolve_page_git_token gh et p)" "keeps calm (projects_get_by_id x)" "keeps calm (page_deployments_get_latest_success x)"
  unfolding validate_pages_dns_account_def resolve_dns_provider_def resolve_cloud_account_tags_def resolve_page_git_token_def
    projects_get_by_id_def attach_team_def page_deployments_get_latest_success_def
  by (auto intro!: keeps_intros split: page_provider.splits option.splits)

lemma page_checks_read [reads_intros]:
  "reads (resolve_dns_provider C x)" "reads (resolve_cloud_account_tags acc)" "reads (projects_get_by_id x)"
  "reads (page_deployments_get_latest_success x)"
  unfolding resolve_dns_provider_def resolve_cloud_account_tags_def projects_get_by_id_def attach_team_def
    page_deployments_get_latest_success_def
  by (auto intro!: reads_intros split: option.splits)

lemma keeps_at_checks [keeps_intros]:
  "keeps (page_at i pi) (pj_io (validate_pages_dns_account pp x))" "keeps (page_at i pi) (pj_io (resolve_dns_provider C x))"
  "keeps (page_at i pi) (pj_io (resolve_cloud_account_tags acc))" "keeps (page_at i pi) (pj_io (resolve_cloud_config acc))"
  "keeps (page_at i pi) (pj_io (resolve_page_git_token gh et p))" "keeps (page_at i pi) (pj_io (projects_get_by_id x))"
  "keeps (page_at i pi) (pj_io (page_deployments_get_latest_success x))" "keeps (page_at i pi) (pj_io (cluster c))"
  by (intro keeps_pj_reads reads_intros keeps_intros)+

section \<open>The phases keep it\<close>

lemma keeps_sum [keeps_intros]:
  "(\<And>e. keeps P (f e)) \<Longrightarrow> (\<And>x. keeps P (g x)) \<Longrightarrow> keeps P (case r of Inl e \<Rightarrow> f e | Inr x \<Rightarrow> g x)"
  by (cases r) auto

lemma keeps_at_files [keeps_intros]: "keeps (page_at i pi) (prepare_files C)"
  unfolding prepare_files_def build_files_def publish_prepare_def git_auth_def Let_def
  by (intro keeps_intros)

lemma keeps_at_certificate [keeps_intros]: "keeps (page_at i pi) (ensure_certificate C cfg tags)"
  unfolding ensure_certificate_def dns_account_checked_def Let_def
  by (intro keeps_intros)

lemma keeps_at_alias [keeps_intros]:
  "keeps (page_at i pi) (ensure_alias_record C)" "keeps (page_at i pi) (ensure_pages_domain C)"
  unfolding ensure_alias_record_def ensure_pages_domain_def alias_steps_def set_alias_def dns_account_checked_def Let_def
  by (intro keeps_intros)+

lemma keeps_at_provision [keeps_intros]: "keeps (page_at i pi) (provision C cfg tags)"
  unfolding provision_def by (intro keeps_intros)

section \<open>The two ends\<close>

lemma pj_io_eval: "pj_io m j = (case m (pj_world (pj_elapse j)) of (r, w') \<Rightarrow> (r, (pj_elapse j)\<lparr>pj_world := w'\<rparr>))"
  by (simp add: pj_io_def Let_def)

definition page_written :: "uuid \<Rightarrow> uuid \<Rightarrow> page_deployment \<Rightarrow> page_job \<Rightarrow> bool" where
  "page_written i pi x j \<longleftrightarrow> page_at i pi j \<and> pj_deploy j = x \<and> by_id i (page_deployments (db (pj_world j))) = Some x"

lemma ens_update_page_deploy:
  "ensures (\<lambda>j. page_at i pi j \<and> pj_deploy j = x) update_page_deploy (succeeds (\<lambda>_. page_written i pi x))"
proof -
  have "page_written i pi x (snd (update_page_deploy j))" if j: "page_at i pi j" "pj_deploy j = x" for j
  proof -
    have k: "page_at i pi (snd (update_page_deploy j))"
      using keeps_at_update_deploy [of i pi] j(1) unfolding keeps_def by blast
    let ?e = "pj_elapse j"
    have e: "page_at i pi ?e" "pj_deploy ?e = x" using elapse_at [OF j(1)] j(2) by (auto simp: pj_elapse_def split: list.splits)
    have "by_id i (page_deployments (db (pj_world (snd (update_page_deploy j))))) = Some x"
      using e j(2) by_id_replace_pk [of "page_deployments (db (pj_world ?e))" x i]
      by (auto simp: update_page_deploy_def bind_def attempt_eval pj_io_eval page_deployments_update_row_def update_row_def
          statement_def no_index_def page_at_def page_rows_def)
    moreover have "pj_deploy (snd (update_page_deploy j)) = x"
      using e(2) j(2) by (simp add: update_page_deploy_def bind_def attempt_eval pj_io_eval split: prod.splits)
    ultimately show ?thesis using k by (simp add: page_written_def)
  qed
  then show ?thesis by (simp add: ensures_def update_page_deploy_def bind_def attempt_eval)
qed

definition pj_done :: "uuid \<Rightarrow> uuid \<Rightarrow> page_job \<Rightarrow> bool" where
  "pj_done i pi j \<longleftrightarrow> list_all (page_quiet i pi) (pj_events j) \<and> page_done i pi (db (pj_world j))"

lemma ens_set_page_status:
  assumes "pd_finished x \<noteq> None" "page_outcome (pd_status x) = Some s"
  shows "ensures (page_written i pi x) (set_page_status s) (succeeds (\<lambda>_. pj_done i pi))"
proof -
  have s: "s \<noteq> PageDeploying" using assms(2) by (auto simp: page_outcome_def split: page_deploy_status.splits)
  have u: "by_id pi (update_live (\<lambda>p. bm_id p = pi) (\<lambda>p. p\<lparr>pg_status := s, bm_updated := t\<rparr>) ps) =
      map_option (\<lambda>p. p\<lparr>pg_status := s, bm_updated := t\<rparr>) (by_id pi ps)"
    if "distinct_ids ps" for ps :: "page list" and t
    using by_id_update_id [OF _ _ that, where f = "\<lambda>p. p\<lparr>pg_status := s, bm_updated := t\<rparr>" and i = pi and j = pi]
    by (simp add: live_def split: option.splits)
  have "pj_done i pi (snd (set_page_status s j))" if j: "page_written i pi x j" for j
  proof -
    let ?j = "j\<lparr>pj_page := (pj_page j)\<lparr>pg_status := s\<rparr>\<rparr>"
    let ?e = "pj_elapse ?j"
    have e: "page_rows i pi (db (pj_world ?e))" "calm (pj_world ?e)" "list_all (page_quiet i pi) (pj_events ?e)"
        "by_id i (page_deployments (db (pj_world ?e))) = Some x"
      using j by (auto simp: page_written_def page_at_def pj_elapse_def page_quiet_def page_env_def split: list.splits)
    then obtain y where y: "by_id pi (pages (db (pj_world ?e))) = Some y" by (auto simp: page_rows_def)
    have p: "bm_id (pj_page j) = pi" "pg_status (pj_page j) \<noteq> s" using j s by (auto simp: page_written_def page_at_def)
    have "distinct_ids (pages (db (pj_world ?e)))" using e(1) by (simp add: page_rows_def)
    from u [OF this] e y p assms show ?thesis
      by (auto simp: set_page_status_def bind_def seq_def attempt_eval pj_io_eval pages_update_status_def bind_now
          bind_now [unfolded bind_def] exec_def statement_def pj_done_def page_done_def)
  qed
  then have "ensures (page_written i pi x) (set_page_status s) (\<lambda>_. pj_done i pi)" by (simp add: ensures_def)
  then show ?thesis
    by (rule ens_succeedsI) (simp add: set_page_status_def bind_def seq_def attempt_eval)
qed

lemma pj_done_io:
  assumes "pj_done i pi j" "reads m"
  shows "pj_done i pi (snd (pj_io m j))"
proof -
  obtain r w' where m: "m (pj_world (pj_elapse j)) = (r, w')" by (cases "m (pj_world (pj_elapse j))")
  have "pj_done i pi (pj_elapse j)"
    using assms(1) by (auto simp: pj_done_def pj_elapse_def page_done_def page_quiet_def split: list.splits)
  with readsD [OF assms(2) m] m show ?thesis by (simp add: pj_io_eval pj_done_def)
qed

lemma ens_notify_page: "ensures (pj_done i pi) (notify_page ev de) (succeeds (\<lambda>_. pj_done i pi))"
proof (rule ens_succeedsI)
  have r: "reads (handle (projects_get_by_id x) (\<lambda>_. ret ()) (\<lambda>y. notify (Some (p_org y)) ev nm de))" for x nm
    by (intro reads_intros)
  show "ensures (pj_done i pi) (notify_page ev de) (\<lambda>_. pj_done i pi)"
    using pj_done_io [OF _ r] by (simp add: ensures_def notify_page_def bind_def)
  show "\<exists>x. fst (notify_page ev de j) = Inr x" for j
    by (simp add: notify_page_def bind_def pj_io_eval handle_def split: prod.splits sum.splits)
qed

lemma ens_page_end:
  assumes "\<And>t d. bm_id (f t d) = bm_id d \<and> bm_deleted (f t d) = bm_deleted d"
    and "\<And>t d. pd_finished (f t d) \<noteq> None \<and> page_outcome (pd_status (f t d)) = Some s"
  shows "ensures (page_at i pi) (seq (set_page_deploy f) (seq update_page_deploy (seq (set_page_status s)
     (bind (gets pj_page) (\<lambda>p. notify_page ev (de p)))))) (succeeds (\<lambda>_. pj_done i pi))"
proof -
  have n: "ensures (pj_done i pi) (bind (gets pj_page) (\<lambda>p. notify_page ev (de p))) (succeeds (\<lambda>_. pj_done i pi))"
    by (rule ens_gets_fixed [where V = "\<lambda>_. True"]) (simp_all add: ens_notify_page)
  have t: "ensures (\<lambda>j. page_at i pi j \<and> pj_deploy j = x) (seq update_page_deploy (seq (set_page_status s)
     (bind (gets pj_page) (\<lambda>p. notify_page ev (de p))))) (succeeds (\<lambda>_. pj_done i pi))"
    if "pd_finished x \<noteq> None" "page_outcome (pd_status x) = Some s" for x
    by (intro ens_seq [OF ens_update_page_deploy] ens_seq [OF ens_set_page_status] n that)
  show ?thesis
    unfolding ensures_def
  proof (intro allI impI)
    fix j assume j: "page_at i pi j"
    let ?x = "f (clock (pj_world j)) (pj_deploy j)"
    let ?j = "j\<lparr>pj_deploy := ?x\<rparr>"
    have "page_at i pi ?j" using j assms(1) by (simp add: page_at_def live_def)
    then have "succeeds (\<lambda>_. pj_done i pi) (fst (seq update_page_deploy (seq (set_page_status s) (bind (gets pj_page) (\<lambda>p. notify_page ev (de p)))) ?j))
        (snd (seq update_page_deploy (seq (set_page_status s) (bind (gets pj_page) (\<lambda>p. notify_page ev (de p)))) ?j))"
      using t [of ?x] assms(2) by (auto simp: ensures_def)
    then show "succeeds (\<lambda>_. pj_done i pi) (fst (seq (set_page_deploy f) (seq update_page_deploy (seq (set_page_status s)
        (bind (gets pj_page) (\<lambda>p. notify_page ev (de p))))) j))
      (snd (seq (set_page_deploy f) (seq update_page_deploy (seq (set_page_status s) (bind (gets pj_page) (\<lambda>p. notify_page ev (de p))))) j))"
      by (simp add: set_page_deploy_def seq_def [of "modify _"] bind_def [of "modify _"])
  qed
qed

lemma ens_page_fail: "ensures (page_at i pi) (page_fail msg) (succeeds (\<lambda>_. pj_done i pi))"
  unfolding page_fail_def by (rule ens_page_end) (simp_all add: page_outcome_def)

lemma ens_page_succeed: "ensures (page_at i pi) (page_succeed ref) (succeeds (\<lambda>_. pj_done i pi))"
  unfolding page_succeed_def by (rule ens_page_end) (simp_all add: page_outcome_def)

section \<open>The way there\<close>

lemma keeps_ensures: "keeps A m \<Longrightarrow> ensures A m (\<lambda>_. A)"
  by (simp add: ensures_def keeps_def)

lemma ens_or_fail:
  "keeps (page_at i pi) m \<Longrightarrow> (\<And>x. ensures (page_at i pi) (k x) (succeeds (\<lambda>_. pj_done i pi))) \<Longrightarrow>
   ensures (page_at i pi) (or_fail C what m k) (succeeds (\<lambda>_. pj_done i pi))"
  unfolding or_fail_def
  by (rule ens_handle [OF keeps_ensures]) (auto intro: ens_page_fail)

lemma ens_gets_any: "(\<And>x. ensures A (k x) Q) \<Longrightarrow> ensures A (bind (gets f) k) Q"
  by (rule ens_gets_fixed [where V = "\<lambda>_. True"]) simp_all

lemma ens_keeps_seq: "keeps A m \<Longrightarrow> (\<And>s. \<exists>x. fst (m s) = Inr x) \<Longrightarrow> ensures A k Q \<Longrightarrow> ensures A (seq m k) Q"
  by (rule ens_seq [OF ens_succeedsI [OF keeps_ensures]])

lemma page_log_total: "\<exists>x. fst (page_log l j) = Inr x"
  by (simp add: page_log_def update_page_deploy_def set_page_deploy_def seq_def bind_def attempt_eval)

lemma ens_sync_step: "ensures (page_at i pi) (sync_step C cfg dir) (succeeds (\<lambda>_. pj_done i pi))"
proof -
  have l: "ensures (page_at i pi) (seq (if b then ret () else page_log x) (page_succeed ref)) (succeeds (\<lambda>_. pj_done i pi))" for b x ref
    by (intro ens_keeps_seq ens_page_succeed keeps_intros) (use page_log_total in auto)
  show ?thesis
    unfolding sync_step_def
    by (intro ens_gets_any) (auto split: prod.splits intro!: ens_or_fail keeps_intros l)
qed

lemma ens_domain_step:
  "ensures (page_at i pi) k (succeeds (\<lambda>_. pj_done i pi)) \<Longrightarrow> ensures (page_at i pi) (domain_step C k) (succeeds (\<lambda>_. pj_done i pi))"
  unfolding domain_step_def by (intro ens_gets_any) (auto split: page_provider.splits intro!: ens_if ens_or_fail keeps_intros)

lemma ens_certificate_step:
  "ensures (page_at i pi) k (succeeds (\<lambda>_. pj_done i pi)) \<Longrightarrow>
   ensures (page_at i pi) (certificate_step C cfg tags k) (succeeds (\<lambda>_. pj_done i pi))"
  unfolding certificate_step_def by (intro ens_gets_any ens_if ens_page_fail ens_or_fail keeps_intros)

lemma ens_cloud_phase: "ensures (page_at i pi) (cloud_phase C dir) (succeeds (\<lambda>_. pj_done i pi))"
  unfolding cloud_phase_def Let_def
  by (intro ens_gets_any ens_if ens_page_fail ens_or_fail keeps_intros)
     (auto split: prod.splits intro!: ens_page_fail ens_certificate_step ens_or_fail ens_domain_step ens_sync_step keeps_intros)

lemma ens_page_execute: "ensures (page_at i pi) (page_execute C) (succeeds (\<lambda>_. pj_done i pi))"
proof -
  have ls: "ensures (page_at i pi) (if b then latest_success x else ret None) (succeeds (\<lambda>_. page_at i pi))" for b x
  proof (rule ens_succeedsI)
    have "keeps (page_at i pi) (if b then latest_success x else ret None)"
      unfolding latest_success_def by (intro keeps_intros)
    then show "ensures (page_at i pi) (if b then latest_success x else ret None) (\<lambda>_. page_at i pi)"
      by (simp add: ensures_def keeps_def)
    show "\<exists>y. fst ((if b then latest_success x else ret None) j) = Inr y" for j
      by (auto simp: latest_success_def handle_def split: prod.splits sum.splits)
  qed
  have u: "\<exists>x. fst (set_page_deploy f j) = Inr x" "\<exists>x. fst (update_page_deploy j) = Inr x" for f j
    by (simp_all add: set_page_deploy_def update_page_deploy_def bind_def attempt_eval)
  show ?thesis
    unfolding page_execute_def
    by (intro ens_or_fail keeps_at_files)
       (auto split: prod.splits intro!: ens_keeps_seq [OF keeps_at_set_deploy u(1)] ens_keeps_seq [OF keeps_at_update_deploy u(2)]
          ens_gets_any ens_bind [OF ls] ens_keeps_seq [OF keeps_at_page_log page_log_total] ens_page_succeed ens_cloud_phase)
qed

end
