(* ===== verification/Page_Races.thy ===== *)
theory Page_Races imports Page_Finish begin

text \<open>
  Properties of the page deployments: how a job ends, what a failed DNS step leaves behind, what the recovery may
  touch and what it never reaches.
\<close>

section \<open>A world to run in\<close>

definition demo_page :: page where
  "demo_page = \<lparr>bm_id = 5, bm_created = 0, bm_updated = 0, bm_deleted = None, pg_project = 3, pg_name = ''p'',
     pg_description = [], pg_git_repo = ''r'', pg_git_branch = ''main'', pg_git_provider = None, pg_publish_path = ''.'',
     pg_build_enabled = False, pg_package_manager = ''auto'', pg_install_command = [], pg_build_command = [],
     pg_output_dir = [], pg_root_dir = ''.'', pg_node_version = [], pg_build_env = Map.empty, pg_provider = PageAWSCloudFront,
     pg_cloud_account = Some 9, pg_region = ''us-east-1'', pg_custom_domain = ''a.example'', pg_manage_dns = True,
     pg_dns_account = Some 8, pg_dns_zone = ''Z'', pg_runtime = Some (zero_page_runtime\<lparr>pr_default_url := ''https://d''\<rparr>),
     pg_status = PageDeploying, pg_webhook_secret = [], pg_auto_deploy = False\<rparr>"

definition demo_page_cloud :: page_cloud where
  "demo_page_cloud = \<lparr>pc_text = (\<lambda>_. []), pc_github = (\<lambda>_. Inl ''none''), pc_clone = (\<lambda>_ _. Some ''gone''), pc_is_dir = (\<lambda>_ _. True),
     pc_head = (\<lambda>_. ''c''), pc_builder = None, pc_build = (\<lambda>_. ([], Inl ''e'')), pc_registered = (\<lambda>_. True),
     pc_test = (\<lambda>_. (True, [])), pc_provision = (\<lambda>_ _ _. ([], Inl ErrIO)), pc_sync = (\<lambda>_ _ _. ([], Inl ErrIO)),
     pc_acm_request = (\<lambda>_ _ _. Inl ErrIO), pc_acm_record = (\<lambda>_. Inl ErrIO), pc_acm_issued = (\<lambda>_. Inl ErrIO),
     pc_dns_provider = (\<lambda>_. None), pc_attaches = (\<lambda>_. False)\<rparr>"

definition queued_page_db :: database where
  "queued_page_db = empty_database\<lparr>pages := [demo_page], page_deployments := [blank_page_deployment\<lparr>bm_id := 7, pd_page := 5\<rparr>]\<rparr>"

section \<open>How a job ends\<close>

text \<open>C30 (page_job_ends): once a job that has not ended finds its page, and no statement fails, it ends whatever git, the build
  pod, the certificate manager, the hosting provider and the DNS answer, while other requests write other rows: the
  deployment is finished, as a success with the page live or as a failure with the page in error, so that the page can
  be deployed again.\<close>

theorem page_job_ends:
  assumes "calm w" "distinct_ids (page_deployments (db w))" "distinct_ids (pages (db w))"
    and "by_id i (page_deployments (db w)) = Some d" "\<not> is_terminal_page_status (pd_status d)"
    and "by_id (pd_page d) (pages (db w)) = Some p" "list_all (page_quiet i (pd_page d)) evs"
  shows "\<exists>w'. run_page_job C evs i w = (Inr (), w') \<and> page_done i (pd_page d) (db w')"
proof -
  let ?pi = "pd_page d" and ?p = "page_after_scan p" and ?w = "next_fault (next_fault w)"
  let ?f = "\<lambda>t d. d\<lparr>pd_started := Some t, pd_status := PageDeployDeploying\<rparr>"
  let ?j = "\<lparr>pj_page = ?p, pj_deploy = d, pj_events = evs, pj_world = ?w\<rparr>"
  let ?j1 = "?j\<lparr>pj_deploy := ?f (clock w) d\<rparr>"
  have p: "bm_id ?p = ?pi" using by_id_key [OF assms(6)] by (simp add: page_after_scan_def)
  have d: "bm_id d = i" "live d" using assms(4) by (auto dest: find_live_iff)
  have rows: "page_rows i ?pi (db ?w)" using assms(2-4,6) by (simp add: page_rows_def)
  \<comment> \<open>The status of the copy becomes deploying only after the first write of the row: until then the invariant is
     the one for a copy that already is.\<close>
  define q where "q = ?p\<lparr>pg_status := PageDeploying\<rparr>"
  have at: "page_at i ?pi (?j1\<lparr>pj_page := q\<rparr>)"
    using assms(1,7) rows p d by (simp add: page_at_def q_def live_def)
  have up: "update_page_deploy (j\<lparr>pj_page := x\<rparr>) = (Inr (), (snd (update_page_deploy j))\<lparr>pj_page := x\<rparr>)" for j x
    by (cases j) (auto simp: update_page_deploy_def bind_def attempt_eval pj_io_eval pj_elapse_def split: prod.splits list.splits)
  define j2 where "j2 = snd (update_page_deploy (?j1\<lparr>pj_page := q\<rparr>))"
  have j2: "page_at i ?pi j2" "pj_page j2 = q"
    using at keeps_at_update_deploy [of i ?pi] up [of q ?j1] by (auto simp: keeps_def j2_def)
  have u: "update_page_deploy ?j1 = (Inr (), j2\<lparr>pj_page := ?p\<rparr>)"
    using up [of ?p ?j1] up [of q ?j1] by (simp add: j2_def)
  have st: "\<exists>j3. set_page_status PageDeploying (j2\<lparr>pj_page := ?p\<rparr>) = (Inr (), j3) \<and> page_at i ?pi j3"
  proof (cases "pg_status ?p = PageDeploying")
    case True
    then have "?p = q" by (simp add: q_def)
    then have e: "j2\<lparr>pj_page := ?p\<rparr> = j2" using j2(2) by (cases j2) simp
    have "pg_status (pj_page j2) = PageDeploying" unfolding j2(2) by (simp add: q_def)
    then have "set_page_status PageDeploying j2 = (Inr (), j2)" by (simp add: set_page_status_def bind_def)
    with j2(1) show ?thesis unfolding e by blast
  next
    case False
    have c: "keeps calm (pages_update_status ?pi PageDeploying)" unfolding pages_update_status_def by (intro keeps_intros)
    have k: "keeps (page_at i ?pi) (attempt (pj_io (pages_update_status ?pi PageDeploying)))"
      by (intro keeps_attempt keeps_pj_io c)
         (auto simp: pages_update_status_def bind_now exec_def statement_def live_def intro!: page_rows_update_pages)
    have "(j2\<lparr>pj_page := ?p\<rparr>)\<lparr>pj_page := ?p\<lparr>pg_status := PageDeploying\<rparr>\<rparr> = j2" using j2(2) by (cases j2) (simp add: q_def)
    then have "set_page_status PageDeploying (j2\<lparr>pj_page := ?p\<rparr>) = attempt (pj_io (pages_update_status ?pi PageDeploying)) j2"
      using False p by (simp add: set_page_status_def bind_def seq_def)
    with k j2(1) show ?thesis by (auto simp: keeps_def attempt_eval)
  qed
  then obtain j3 where j3: "set_page_status PageDeploying (j2\<lparr>pj_page := ?p\<rparr>) = (Inr (), j3)" "page_at i ?pi j3" by blast
  obtain j4 where j4: "page_execute C j3 = (Inr (), j4)" "pj_done i ?pi j4"
    using ens_succeedsD [OF ens_page_execute j3(2)] by auto
  have run: "seq (set_page_deploy ?f) (seq update_page_deploy (seq (set_page_status PageDeploying) (page_execute C))) ?j = (Inr (), j4)"
    using u j3(1) j4(1) by (simp add: seq_def bind_def set_page_deploy_def)
  have "run_page_job C evs i w = (Inr (), pj_world j4)"
    using assms(1,4-6) run
    by (simp add: run_page_job_def handle_def page_deployments_get_by_id_def pages_get_by_id_def query_row_def
        statement_def bind_now Let_def db_same)
  with j4(2) show ?thesis by (auto simp: pj_done_def)
qed

lemma page_job_ends_witness:
  "\<exists>w'. run_page_job demo_page_cloud [\<lambda>d. d\<lparr>workers := []\<rparr>] 7 (world_of queued_page_db) = (Inr (), w') \<and> page_done 7 5 (db w')"
proof -
  have e: "list_all (page_quiet 7 5) [\<lambda>d. d\<lparr>workers := []\<rparr>]" by (simp add: page_quiet_def page_env_def page_rows_def)
  show ?thesis
    using page_job_ends [of "world_of queued_page_db" 7 "blank_page_deployment\<lparr>bm_id := 7, pd_page := 5\<rparr>" demo_page
        "[\<lambda>d. d\<lparr>workers := []\<rparr>]" demo_page_cloud] e
    by (simp add: calm_def queued_page_db_def distinct_ids_def by_id_Cons live_def blank_page_deployment_def demo_page_def)
qed

section \<open>A domain that is never attached\<close>

definition same_pages :: "page list \<Rightarrow> page_job \<Rightarrow> bool" where
  "same_pages ps j \<longleftrightarrow> pages (db (pj_world j)) = ps \<and> pj_events j = []"

lemma keeps_same_pages_io: "(\<And>w. pages (db (snd (m w))) = pages (db w)) \<Longrightarrow> keeps (same_pages ps) (pj_io m)"
  by (auto simp: keeps_def same_pages_def pj_io_eval pj_elapse_def split: prod.splits) (metis snd_conv)

lemma keeps_same_pages_reads: "reads m \<Longrightarrow> keeps (same_pages ps) (pj_io m)"
  by (rule keeps_same_pages_io) (simp add: reads_def)

lemma keeps_same_pages_log: "keeps (same_pages ps) (page_log l)"
  unfolding page_log_def set_page_deploy_def update_page_deploy_def
  by (intro keeps_intros keeps_same_pages_io)
     (auto simp: same_pages_def page_deployments_update_row_def update_row_def statement_def)

lemma keeps_same_pages_alias: "keeps (same_pages ps) (alias_steps C p target)"
  unfolding alias_steps_def dns_account_checked_def upsert_record_def
  by (intro keeps_intros keeps_same_pages_log keeps_same_pages_reads reads_intros)

text \<open>For a page whose DNS is managed, the step records the alias target on the page before it
  creates the DNS records.  However the step ends, with a missing DNS account or with any of its DNS calls failing,
  the stored page says that the records exist, and every later deploy skips them and makes no DNS call.\<close>

theorem alias_never_retried:
  assumes "pg_manage_dns p" "pj_page j = p" "pg_runtime p = Some rt" "pj_events j = []" "\<not> fault_now (pj_world j)"
    and "distinct_ids (pages (db (pj_world j)))" "by_id (bm_id p) (pages (db (pj_world j))) = Some p"
    and "pr_alias_target rt \<noteq> pages_dev_host (pr_default_url rt)"
    and "ensure_alias_record C j = (r, j')"
  shows "\<exists>p'. by_id (bm_id p) (pages (db (pj_world j'))) = Some p' \<and>
    ensure_alias_record C (k\<lparr>pj_page := p'\<rparr>) = (Inr (), k\<lparr>pj_page := p'\<rparr>)"
proof -
  let ?t = "pages_dev_host (pr_default_url rt)"
  let ?p = "p\<lparr>pg_runtime := Some (rt\<lparr>pr_alias_target := ?t\<rparr>)\<rparr>"
  let ?w = "(next_fault (pj_world j))\<lparr>db := pages_update (update_live (\<lambda>x. bm_id x = bm_id p)
      (\<lambda>x. x\<lparr>pg_runtime := Some (rt\<lparr>pr_alias_target := ?t\<rparr>), bm_updated := clock (pj_world j)\<rparr>)) (db (pj_world j))\<rparr>"
  let ?j1 = "j\<lparr>pj_page := ?p, pj_world := ?w\<rparr>"
  have s: "set_alias ?t j = (Inr (), ?j1)"
    using assms(2-5) by (simp add: set_alias_def set_runtime_def store_runtime_def seq_def bind_def pj_io_eval pj_elapse_def
        pages_update_runtime_def bind_now [unfolded bind_def] exec_def statement_def)
  have "ensure_alias_record C j = alias_steps C p ?t ?j1"
    using assms(1-3,8) s by (simp add: ensure_alias_record_def bind_def seq_def Let_def runtime_now_def)
  with assms(9) have a: "alias_steps C p ?t ?j1 = (r, j')" by simp
  have "same_pages (pages (db ?w)) ?j1" using assms(4) by (simp add: same_pages_def)
  then have "same_pages (pages (db ?w)) j'" using a by (rule keepsD [OF keeps_same_pages_alias])
  then have pages: "pages (db (pj_world j')) = pages (db ?w)" unfolding same_pages_def by (rule conjunct1)
  have "by_id (bm_id p) (pages (db ?w)) = Some (?p\<lparr>bm_updated := clock (pj_world j)\<rparr>)"
    using by_id_update_id [OF _ _ assms(6), where i = "bm_id p" and j = "bm_id p" and
        f = "\<lambda>x. x\<lparr>pg_runtime := Some (rt\<lparr>pr_alias_target := ?t\<rparr>), bm_updated := clock (pj_world j)\<rparr>"] assms(7)
    by (simp add: live_def)
  with pages assms(1) show ?thesis by (simp add: ensure_alias_record_def bind_def Let_def runtime_now_def)
qed

definition alias_job :: page_job where
  "alias_job = \<lparr>pj_page = demo_page, pj_deploy = blank_page_deployment, pj_events = [], pj_world = world_of queued_page_db\<rparr>"

lemma alias_never_retried_witness:
  "\<exists>p'. by_id 5 (pages (db (pj_world (snd (ensure_alias_record demo_page_cloud alias_job))))) = Some p' \<and>
      ensure_alias_record demo_page_cloud (alias_job\<lparr>pj_page := p'\<rparr>) = (Inr (), alias_job\<lparr>pj_page := p'\<rparr>)"
proof -
  obtain r j' where e: "ensure_alias_record demo_page_cloud alias_job = (r, j')" by (cases "ensure_alias_record demo_page_cloud alias_job")
  have q: "pages queued_page_db = [demo_page]" by (simp add: queued_page_db_def)
  have "\<exists>p'. by_id (bm_id demo_page) (pages (db (pj_world j'))) = Some p' \<and>
      ensure_alias_record demo_page_cloud (alias_job\<lparr>pj_page := p'\<rparr>) = (Inr (), alias_job\<lparr>pj_page := p'\<rparr>)"
    by (rule alias_never_retried [where p = demo_page and j = alias_job and r = r and
          rt = "zero_page_runtime\<lparr>pr_default_url := ''https://d''\<rparr>"])
       (use e in \<open>simp_all add: alias_job_def demo_page_def q distinct_ids_def by_id_Cons live_def zero_page_runtime_def
          pages_dev_host_def trim_prefix_def trim_suffix_def has_prefix_def has_suffix_def trim_space_def trim_by_def
          trim_left_by_def trim_right_by_def is_space_char_def char_in_def\<close>)
  with e show ?thesis by (simp add: demo_page_def)
qed

text \<open>The step of this run fails: the organisation has no such DNS account.\<close>

lemma alias_job_fails: "\<exists>e. fst (alias_steps demo_page_cloud demo_page t (alias_job\<lparr>pj_world := w\<rparr>)) = Inl e"
  if "shared_resources (db w) = []"
proof -
  have "\<exists>e. fst (pj_io (validate_pages_dns_account PageAWSCloudFront 8) (alias_job\<lparr>pj_world := w\<rparr>)) = Inl e"
    using that by (simp add: pj_io_eval pj_elapse_def alias_job_def validate_pages_dns_account_def handle_def
        resources_get_by_id_def query_row_def statement_def split: prod.splits)
  then show ?thesis
    by (auto simp: alias_steps_def dns_account_checked_def seq_def bind_def handle_def demo_page_def trim_space_def trim_by_def
        trim_left_by_def trim_right_by_def is_space_char_def char_in_def split: prod.splits sum.splits)
qed

section \<open>Recovery\<close>

lemma recover_stale_page_noop:
  assumes "\<not> claimable page_deployments (\<lambda>x. pd_status x = PageDeployDeploying) (bm_id d) (db w)"
  shows "db (snd (recover_stale_page d w)) = db w"
proof -
  obtain r w' where m: "page_deployments_mark_timed_out (bm_id d) (clock w) (log_note ''Deploy timed out (stale for >40min)'') w = (r, w')"
    by (cases "page_deployments_mark_timed_out (bm_id d) (clock w) (log_note ''Deploy timed out (stale for >40min)'') w")
  with page_timeout.no_win [OF assms m] show ?thesis
    by (cases r) (auto simp: recover_stale_page_def bind_now)
qed

text \<open>The recovery acts on rows it read earlier.  When a deployment has ended between that reading
  and the recovery's own statement, the recovery leaves the database as it is, the result and the status of the
  page or worker included, however old the row it holds says the deployment is.\<close>

theorem recovery_spares_ended:
  assumes "\<forall>x \<in> set (page_deployments (db w)). bm_id x = bm_id d \<longrightarrow> is_terminal_page_status (pd_status x)"
    and "\<forall>x \<in> set (worker_deployments (db w)). bm_id x = bm_id e \<longrightarrow> is_terminal_worker_status (wd_status x)"
  shows "db (snd (recover_stale_page d w)) = db w \<and> db (snd (recover_stale_worker e w)) = db w"
  using assms
  by (intro conjI recover_stale_page_noop recover_stale_worker_noop)
     (auto simp: claimable_def select_live_def filter_empty_conv)

lemma recovery_spares_ended_witness:
  "db (snd (recover_stale_page (blank_page_deployment\<lparr>bm_id := 7, pd_status := PageDeployDeploying\<rparr>)
      (world_of (empty_database\<lparr>page_deployments := [blank_page_deployment\<lparr>bm_id := 7, pd_status := PageDeploySuccess\<rparr>]\<rparr>)))) =
   empty_database\<lparr>page_deployments := [blank_page_deployment\<lparr>bm_id := 7, pd_status := PageDeploySuccess\<rparr>]\<rparr>"
  using recovery_spares_ended [of "world_of (empty_database\<lparr>page_deployments := [blank_page_deployment\<lparr>bm_id := 7, pd_status := PageDeploySuccess\<rparr>]\<rparr>)"
      "blank_page_deployment\<lparr>bm_id := 7, pd_status := PageDeployDeploying\<rparr>" blank_worker_deployment]
  by (simp add: empty_database_def)

section \<open>What the recovery never reaches\<close>

lemma newest_first_empty: "select_live P t = [] \<Longrightarrow> newest_first (select_live P t) = []"
  by (simp add: newest_first_def)

text \<open>The slot of a page or worker is taken before its job is on the queue.  If the process stops in
  between, or the queue gives the job up, no deployment is deploying, so the recovery finds nothing and changes
  nothing, at any time; and every later trigger of the page or worker is refused.\<close>

theorem lost_trigger_blocks:
  assumes "by_id i (pages (db w)) = Some p" "pg_status p = PageDeploying"
    and "\<forall>x \<in> set (page_deployments (db w)). pd_status x \<noteq> PageDeployDeploying"
    and "by_id j (workers (db w)) = Some k" "wk_status k = WorkerDeploying"
    and "\<forall>x \<in> set (worker_deployments (db w)). wd_status x \<noteq> WorkerDeployDeploying"
  shows "db (snd (recover_stale_pages w)) = db w \<and> db (snd (recover_stale_workers w)) = db w \<and>
    (\<exists>e w'. page_trigger C i ty w = (Inl e, w') \<and> db w' = db w \<and> queue w' = queue w) \<and>
    (\<exists>e w'. worker_trigger D j ty w = (Inl e, w') \<and> db w' = db w \<and> queue w' = queue w)"
proof (intro conjI)
  have "select_live (\<lambda>x. pd_status x = PageDeployDeploying) (page_deployments (db w)) = []"
    using assms(3) by (simp add: select_live_def filter_empty_conv)
  then show "db (snd (recover_stale_pages w)) = db w"
    by (simp add: recover_stale_pages_def page_deployments_list_by_status_def query_page_def query_def statement_def handle_def
        newest_first_def page_of_def split: prod.splits)
  have "select_live (\<lambda>x. wd_status x = WorkerDeployDeploying) (worker_deployments (db w)) = []"
    using assms(6) by (simp add: select_live_def filter_empty_conv)
  then show "db (snd (recover_stale_workers w)) = db w"
    by (simp add: recover_stale_workers_def worker_deployments_list_by_status_def query_page_def query_def statement_def handle_def
        newest_first_def page_of_def split: prod.splits)
  show "\<exists>e w'. page_trigger C i ty w = (Inl e, w') \<and> db w' = db w \<and> queue w' = queue w"
    using assms(1,2) by (simp add: page_trigger_def bind_def handle_def pages_get_by_id_def query_row_def statement_def
        page_trigger_commit_def page_after_scan_def)
  show "\<exists>e w'. worker_trigger D j ty w = (Inl e, w') \<and> db w' = db w \<and> queue w' = queue w"
    using assms(4,5) by (simp add: worker_trigger_def bind_def handle_def workers_get_by_id_def query_row_def statement_def
        worker_trigger_commit_def worker_after_scan_def)
qed

definition lost_db :: database where
  "lost_db = queued_page_db\<lparr>workers := [demo_worker\<lparr>wk_status := WorkerDeploying\<rparr>]\<rparr>"

lemma lost_trigger_blocks_witness:
  "\<exists>e w'. page_trigger demo_page_cloud 5 [] (world_of lost_db) = (Inl e, w') \<and> db w' = lost_db \<and> queue w' = []"
proof -
  have w: "pages lost_db = [demo_page]" "workers lost_db = [demo_worker\<lparr>wk_status := WorkerDeploying\<rparr>]"
    "page_deployments lost_db = [blank_page_deployment\<lparr>bm_id := 7, pd_page := 5\<rparr>]" "worker_deployments lost_db = []"
    by (simp_all add: lost_db_def queued_page_db_def empty_database_def)
  have r: "bm_id demo_page = 5" "live demo_page" "pg_status demo_page = PageDeploying" "bm_id demo_worker = 5" "live demo_worker"
    "pd_status blank_page_deployment = PageDeployQueued"
    by (simp_all add: demo_page_def demo_worker_def blank_page_deployment_def live_def)
  have "db (snd (recover_stale_pages (world_of lost_db))) = db (world_of lost_db) \<and>
      db (snd (recover_stale_workers (world_of lost_db))) = db (world_of lost_db) \<and>
      (\<exists>e w'. page_trigger demo_page_cloud 5 [] (world_of lost_db) = (Inl e, w') \<and> db w' = db (world_of lost_db) \<and> queue w' = queue (world_of lost_db)) \<and>
      (\<exists>e w'. worker_trigger demo_worker_cloud 5 [] (world_of lost_db) = (Inl e, w') \<and> db w' = db (world_of lost_db) \<and> queue w' = queue (world_of lost_db))"
    by (rule lost_trigger_blocks [where p = demo_page and k = "demo_worker\<lparr>wk_status := WorkerDeploying\<rparr>"])
       (use r in \<open>simp_all add: w by_id_Cons live_def\<close>)
  then show ?thesis by simp
qed

end
