(* ===== verification/Hosting_Races.thy ===== *)
theory Hosting_Races imports Hosting_Service Page_Races Worker_Races begin

text \<open>
  Properties of the settings of pages and workers and of their deletion: what a page row always satisfies, what a
  settings save can and cannot change, and how a delete excludes a deploy.
\<close>

section \<open>What an action yields\<close>

definition yields :: "('a \<Rightarrow> bool) \<Rightarrow> ('s, 'a) act \<Rightarrow> bool" where
  "yields P m \<longleftrightarrow> (\<forall>s x s'. m s = (Inr x, s') \<longrightarrow> P x)"

named_theorems yields_intros "what actions return"

lemma yieldsD: "yields P m \<Longrightarrow> m s = (Inr x, s') \<Longrightarrow> P x"
  by (auto simp: yields_def)

lemma yields_ret [yields_intros]: "P x \<Longrightarrow> yields P (ret x)"
  by (simp add: yields_def)

lemma yields_err [yields_intros]: "yields P (err e)"
  by (simp add: yields_def)

lemma yields_bind: "yields Q m \<Longrightarrow> (\<And>x. Q x \<Longrightarrow> yields P (k x)) \<Longrightarrow> yields P (bind m k)"
  unfolding yields_def bind_Inr by blast

lemma yields_seq: "yields (\<lambda>_. A) m \<Longrightarrow> (A \<Longrightarrow> yields P k) \<Longrightarrow> yields P (seq m k)"
  unfolding yields_def seq_Inr by blast

lemma yields_any [yields_intros]: "yields (\<lambda>_. True) m"
  by (simp add: yields_def)

lemma yields_any_seq [yields_intros]: "yields P k \<Longrightarrow> yields P (seq m k)"
  by (rule yields_seq [where A = True]) (auto intro: yields_intros)

lemma yields_any_bind [yields_intros]: "(\<And>x. yields P (k x)) \<Longrightarrow> yields P (bind m k)"
  by (rule yields_bind [where Q = "\<lambda>_. True"]) (auto intro: yields_intros)

lemma yields_of_option: "yields (\<lambda>_. e = None) (of_option e)"
  by (cases e) (auto simp: yields_def of_option_def)

lemma yields_when: "(\<And>y. x = Some y \<Longrightarrow> yields (\<lambda>_. Q y) (f y)) \<Longrightarrow> yields (\<lambda>_. \<forall>y. x = Some y \<longrightarrow> Q y) (when_some x f)"
  by (cases x) (auto simp: when_some_def yields_def)

lemma keeps_bind_yields: "keeps I m \<Longrightarrow> yields P m \<Longrightarrow> (\<And>x. P x \<Longrightarrow> keeps I (k x)) \<Longrightarrow> keeps I (bind m k)"
  unfolding keeps_def yields_def bind_def handle_def by (force split: prod.splits sum.splits)

lemma keeps_seq_yields: "keeps I m \<Longrightarrow> yields (\<lambda>_. A) m \<Longrightarrow> (A \<Longrightarrow> keeps I k) \<Longrightarrow> keeps I (seq m k)"
  unfolding seq_def by (erule keeps_bind_yields [where P = "\<lambda>_. A"])

lemma keeps_reads: "reads m \<Longrightarrow> keeps (\<lambda>w. P (db w)) m"
  by (simp add: keeps_def reads_def)

section \<open>The rows of pages\<close>

definition page_ok :: "page \<Rightarrow> bool" where
  "page_ok p \<longleftrightarrow> pg_root_dir p \<noteq> [] \<and> validate_package_manager (pg_package_manager p) = None \<and>
     (pg_build_enabled p \<longrightarrow> trim_space (pg_output_dir p) \<noteq> []) \<and>
     (pg_manage_dns p \<longrightarrow> pg_custom_domain p \<noteq> [] \<and>
       (normalize_domain (pg_custom_domain p) \<noteq> [] \<longrightarrow> pg_dns_account p \<noteq> None \<and> trim_space (pg_dns_zone p) \<noteq> []))"

lemma page_ok_scan [simp]: "page_ok (page_after_scan p) = page_ok p"
  by (simp add: page_after_scan_def page_ok_def)

lemma page_ok_copy [simp]: "page_ok (copy_page_settings t p x) = page_ok p"
  by (simp add: copy_page_settings_def page_ok_def)

lemma trim_words: "trim_space ''auto'' = ''auto''" "trim_space ''dist'' = ''dist''"
  by code_simp+

lemma pm_trim: "validate_package_manager m = None \<Longrightarrow> validate_package_manager (or_default ''auto'' (trim_space m)) = None"
  using trim_words(1) by (auto simp: validate_package_manager_def or_default_def trim_space_def split: if_splits)

lemma pm_auto:
  "validate_package_manager ''auto'' = None"
  "validate_package_manager m = None \<Longrightarrow> trim_space m \<noteq> [] \<Longrightarrow> validate_package_manager (trim_space m) = None"
  using pm_trim [of m] by (simp_all add: validate_package_manager_def trim_words or_default_def split: if_splits)

lemma yields_custom_domain:
  "yields (\<lambda>_. normalize_domain d \<noteq> [] \<and> m \<longrightarrow> acc \<noteq> None \<and> trim_space z \<noteq> []) (validate_custom_domain D og pp d m acc z)"
  by (auto simp: validate_custom_domain_def Let_def yields_def split: option.splits if_splits)

lemma patched_simps [simp]: "patched None f r = r" "patched (Some y) f r = f y r"
  by (simp_all add: patched_def)

lemma patched_ok: "Q r \<Longrightarrow> (\<And>y r. x = Some y \<Longrightarrow> Q r \<Longrightarrow> Q (f y r)) \<Longrightarrow> Q (patched x f r)"
  by (cases x) simp_all

lemma yields_pm: "yields (\<lambda>_. \<forall>m. x = Some m \<longrightarrow> validate_package_manager m = None)
    (when_some x (\<lambda>m. of_option (validate_package_manager m)))"
  by (intro yields_when yields_of_option)

definition base_ok :: "page \<Rightarrow> bool" where
  "base_ok p \<longleftrightarrow> pg_root_dir p \<noteq> [] \<and> validate_package_manager (pg_package_manager p) = None \<and>
     (pg_manage_dns p \<longrightarrow> pg_custom_domain p \<noteq> [] \<and>
       (normalize_domain (pg_custom_domain p) \<noteq> [] \<longrightarrow> pg_dns_account p \<noteq> None \<and> trim_space (pg_dns_zone p) \<noteq> []))"

lemma page_ok_base: "page_ok p \<longleftrightarrow> base_ok p \<and> (pg_build_enabled p \<longrightarrow> trim_space (pg_output_dir p) \<noteq> [])"
  by (auto simp: page_ok_def base_ok_def)

lemma page_patch_build_ok: "base_ok p \<Longrightarrow> yields page_ok (page_patch_build inp p)"
  unfolding page_patch_build_def Let_def
proof (rule yields_seq [OF yields_pm], rule yields_ret)
  assume p: "base_ok p" and m: "\<forall>m. up_pm inp = Some m \<longrightarrow> validate_package_manager m = None"
  let ?q = "patched (up_env inp) (\<lambda>e p. p\<lparr>pg_build_env := e\<rparr>)
          (patched (up_node inp) (\<lambda>n p. p\<lparr>pg_node_version := trim_space n\<rparr>)
          (patched (up_root inp) (\<lambda>r p. p\<lparr>pg_root_dir := or_default ''.'' (trim_space r)\<rparr>)
          (patched (up_output inp) (\<lambda>x p. p\<lparr>pg_output_dir := trim_space x\<rparr>)
          (patched (up_build inp) (\<lambda>c p. p\<lparr>pg_build_command := c\<rparr>)
          (patched (up_install inp) (\<lambda>c p. p\<lparr>pg_install_command := c\<rparr>)
          (patched (up_pm inp) (\<lambda>m p. p\<lparr>pg_package_manager := or_default ''auto'' (trim_space m)\<rparr>)
          (patched (up_build_enabled inp) (\<lambda>b p. p\<lparr>pg_build_enabled := b\<rparr>)
          (patched (up_branch inp) (\<lambda>b p. p\<lparr>pg_git_branch := b\<rparr>)
          (patched (up_repo inp) (\<lambda>r p. p\<lparr>pg_git_repo := r\<rparr>)
          (patched (up_description inp) (\<lambda>d p. p\<lparr>pg_description := d\<rparr>) p))))))))))"
  have "base_ok ?q"
    using p m by (intro patched_ok [where Q = base_ok]) (simp_all add: base_ok_def or_default_def pm_auto)
  then show "page_ok (if pg_build_enabled ?q \<and> trim_space (pg_output_dir ?q) = [] then ?q\<lparr>pg_output_dir := ''dist''\<rparr> else ?q)"
    by (simp add: page_ok_base trim_words) (simp add: base_ok_def)
qed

lemma page_patch_git_ok: "page_ok p \<Longrightarrow> yields (\<lambda>(q, og). page_ok q) (page_patch_git inp p)"
  unfolding page_patch_git_def
  by (rule yields_bind [where Q = "\<lambda>(q, og). page_ok q"])
     (auto intro!: yields_intros simp: patched_def page_ok_def split: option.splits)

lemma page_patch_account_ok: "page_ok p \<Longrightarrow> yields (\<lambda>(q, b). page_ok q) (page_patch_account inp p og)"
  unfolding page_patch_account_def Let_def by (auto intro!: yields_intros simp: page_ok_def split: option.splits)

lemma page_patch_region_ok: "page_ok p \<Longrightarrow> yields (\<lambda>(q, b). page_ok q) (page_patch_region inp p)"
  unfolding page_patch_region_def by (auto intro!: yields_intros simp: page_ok_def split: option.splits)

lemma trim_fixed [simp]: "trim_space (trim_space s) = trim_space s"
  by (simp add: trim_space_def)

definition dns_fields :: "page \<Rightarrow> bool" where
  "dns_fields p \<longleftrightarrow> (pg_manage_dns p \<longrightarrow> pg_custom_domain p \<noteq> [] \<and>
     (normalize_domain (pg_custom_domain p) \<noteq> [] \<longrightarrow> pg_dns_account p \<noteq> None \<and> trim_space (pg_dns_zone p) \<noteq> []))"

lemma page_ok_dns: "page_ok p \<longleftrightarrow> dns_fields p \<and> pg_root_dir p \<noteq> [] \<and> validate_package_manager (pg_package_manager p) = None \<and>
     (pg_build_enabled p \<longrightarrow> trim_space (pg_output_dir p) \<noteq> [])"
  by (auto simp: page_ok_def dns_fields_def)

lemma yields_domain_check:
  "yields (\<lambda>_. pg_custom_domain q \<noteq> [] \<longrightarrow> dns_fields q)
    (validate_custom_domain D og (pg_provider q) (pg_custom_domain q) (pg_manage_dns q) (pg_dns_account q) (pg_dns_zone q))"
  using yields_custom_domain [of "pg_custom_domain q" "pg_manage_dns q" "pg_dns_account q" "pg_dns_zone q" D og "pg_provider q"]
  by (auto simp: yields_def dns_fields_def)

lemma page_patch_domain_ok:
  assumes "page_ok p"
  shows "yields (\<lambda>(q, og). page_ok q) (page_patch_domain D inp p og)"
proof -
  let ?q = "patched (up_dns_zone inp) (\<lambda>z p. p\<lparr>pg_dns_zone := trim_space z\<rparr>)
          (patched (up_dns_account inp) (\<lambda>a p. p\<lparr>pg_dns_account := Some a\<rparr>)
          (patched (up_manage_dns inp) (\<lambda>b p. p\<lparr>pg_manage_dns := b\<rparr>)
          (patched (up_domain inp) (\<lambda>x p. p\<lparr>pg_custom_domain := normalize_domain x\<rparr>) p)))"
  define q where "q = ?q"
  have tools: "pg_root_dir q = pg_root_dir p" "pg_package_manager q = pg_package_manager p"
    "pg_build_enabled q = pg_build_enabled p" "pg_output_dir q = pg_output_dir p"
    by (simp_all add: q_def patched_def split: option.splits)
  have same: "q = p" if "\<not> touches_domain inp" using that by (auto simp: q_def touches_domain_def)
  have "yields (\<lambda>_. dns_fields q) (if touches_domain inp \<and> pg_custom_domain q \<noteq> [] then
        validate_custom_domain D og' (pg_provider q) (pg_custom_domain q) (pg_manage_dns q) (pg_dns_account q) (pg_dns_zone q)
      else if pg_manage_dns q \<and> pg_custom_domain q = [] then err (ErrMsg ''custom_domain is required when manage_dns is enabled'')
      else ret ())" for og'
    using assms same yields_domain_check [of q D og'] by (auto simp: yields_def page_ok_dns dns_fields_def)
  note check = this
  show ?thesis
  proof (cases "page_domain_locked p")
    case True
    then show ?thesis using assms by (auto simp: page_patch_domain_def intro!: yields_intros)
  next
    case False
    have ok: "page_ok q" if "dns_fields q" using that assms tools by (simp add: page_ok_dns)
    show ?thesis
      unfolding page_patch_domain_def Let_def q_def [symmetric] if_not_P [OF False]
      by (intro yields_any_bind yields_seq [OF check] yields_ret) (simp add: ok)
  qed
qed

section \<open>Steps of the store\<close>

lemma list_all_update_live: "list_all P t \<Longrightarrow> (\<And>x. P x \<Longrightarrow> P (f x)) \<Longrightarrow> list_all P (update_live Q f t)"
  by (auto simp: update_live_def list_all_iff)

lemma map_update_live: "(\<And>x. g (f x) = g x) \<Longrightarrow> map g (update_live Q f t) = map g t"
  by (simp add: update_live_def)

lemma list_all_find_live: "find_live P t = Some x \<Longrightarrow> list_all Q t \<Longrightarrow> Q x"
  by (auto simp: find_live_def list_all_iff find_Some_iff)

abbreviation rows_ok :: "world \<Rightarrow> bool" where
  "rows_ok w \<equiv> list_all page_ok (pages (db w))"

lemma keeps_reads_rows: "reads m \<Longrightarrow> keeps rows_ok m"
  by (rule keeps_reads [where P = "\<lambda>d. list_all page_ok (pages d)"])

lemma page_save_ok: "page_ok p \<Longrightarrow> keeps rows_ok (page_save p b)"
  by (auto simp: page_save_def pages_update_settings_def pages_update_settings_if_not_deploying_def keeps_def exec_def
      update_where_def statement_def bind_def handle_def seq_def now_def Let_def intro!: list_all_update_live)

lemma reads_checks [reads_intros]:
  "reads (resolve_org pr og)" "reads (project_found pr)" "reads (of_option e)"
  "(\<And>y. reads (f y)) \<Longrightarrow> reads (when_some x f)"
  unfolding resolve_org_def project_found_def of_option_def when_some_def projects_get_by_id_def attach_team_def
  by (auto intro!: reads_intros split: option.splits)

lemma reads_custom_domain [reads_intros]: "reads (validate_custom_domain D og pp d m acc z)"
  unfolding validate_custom_domain_def dns_config_def Let_def resources_get_by_id_def
  by (auto intro!: reads_intros split: option.splits sum.splits)

lemma reads_page_patches [reads_intros]:
  "reads (page_patch_build inp p)" "reads (page_patch_git inp p)" "reads (page_patch_domain D inp p og)"
  "reads (page_patch_account inp p og)" "reads (page_patch_region inp p)"
  unfolding page_patch_build_def page_patch_git_def page_patch_domain_def page_patch_account_def page_patch_region_def Let_def
  by (auto intro!: reads_intros split: option.splits prod.splits)

lemma keeps_query_row:
  assumes "\<And>w x. I w \<Longrightarrow> f (db w) = Some x \<Longrightarrow> Q x" "\<And>x. Q x \<Longrightarrow> keeps I (k x)" "\<And>w. I w \<Longrightarrow> I (next_fault w)"
  shows "keeps I (bind (query_row f) k)"
  unfolding keeps_def
proof (intro allI impI)
  fix w assume w: "I w"
  show "I (snd (bind (query_row f) k w))"
  proof (cases "fault_now w \<or> f (db w) = None")
    case True
    with w assms(3) show ?thesis by (auto simp: bind_def handle_def query_row_def statement_def next_fault_def)
  next
    case False
    then obtain x where "f (db w) = Some x" by auto
    moreover from this w assms(1) have "keeps I (k x)" using assms(2) by blast
    ultimately show ?thesis
      using w False assms(3) by (auto simp: bind_def handle_def query_row_def statement_def keeps_def next_fault_def)
  qed
qed

lemma page_update_ok: "keeps rows_ok (page_update_settings D i inp)"
proof -
  have p: "keeps rows_ok (bind (page_patch_build inp p0) (\<lambda>p1. bind (page_patch_git inp p1) (\<lambda>(p2, og2).
     bind (page_patch_domain D inp p2 og2) (\<lambda>(p3, og3). bind (page_patch_account inp p3 og3) (\<lambda>(p4, changed).
     bind (page_patch_region inp p4) (\<lambda>(p5, moved). page_save p5 (changed \<or> moved)))))))" if "page_ok p0" for p0
    using that
    by (auto intro!: keeps_bind_yields [OF keeps_reads_rows [OF reads_page_patches(1)] page_patch_build_ok]
        keeps_bind_yields [OF keeps_reads_rows [OF reads_page_patches(2)] page_patch_git_ok]
        keeps_bind_yields [OF keeps_reads_rows [OF reads_page_patches(3)] page_patch_domain_ok]
        keeps_bind_yields [OF keeps_reads_rows [OF reads_page_patches(4)] page_patch_account_ok]
        keeps_bind_yields [OF keeps_reads_rows [OF reads_page_patches(5)] page_patch_region_ok] page_save_ok
        simp: page_ok_base)
  show ?thesis
    unfolding page_update_settings_def pages_get_by_id_def
  proof (rule keeps_query_row [where Q = page_ok])
    show "page_ok x" if "rows_ok w" "map_option page_after_scan (by_id i (pages (db w))) = Some x" for w x
      using that by (auto simp: by_id_def dest: list_all_find_live)
  qed (use p in simp_all)
qed

lemma page_delete_ok: "keeps rows_ok (page_delete C i)"
proof -
  have d: "keeps rows_ok (pages_delete_if_not_deploying i)"
    by (auto simp: pages_delete_if_not_deploying_def keeps_def bind_now statement_def soft_delete_def page_ok_def
        intro!: list_all_update_live split: option.splits)
  have r: "reads (page_teardown C q)" "reads (notify_project_resource_deleted pr ev nm dt)" for q pr ev nm dt
    unfolding page_teardown_def notify_project_resource_deleted_def notify_resource_deleted_def projects_get_by_id_def attach_team_def
    by (auto intro!: reads_intros)
  have c: "keeps rows_ok (page_delete_commit C i)"
    unfolding page_delete_commit_def
    by (intro keeps_intros d keeps_reads_rows r reads_intros)
  show ?thesis
    unfolding page_delete_def pages_get_by_id_def by (intro keeps_intros keeps_reads_rows reads_intros c)
qed

lemma page_defaults_ok: "page_ok p \<Longrightarrow> page_ok (page_defaults p)"
  by (simp add: page_ok_def page_defaults_def or_default_def pm_auto)

lemma pages_create_ok: "page_ok p \<Longrightarrow> keeps rows_ok (pages_create p)"
  by (drule page_defaults_ok) (auto simp: pages_create_def keeps_def insert_row_def Let_def append_row_def fill_defaults_def page_ok_def)

lemma new_page_ok:
  assumes "validate_package_manager (cp_pm inp) = None"
    and "normalize_domain (cp_domain inp) \<noteq> [] \<and> cp_manage_dns inp \<Longrightarrow>
      normalize_domain (normalize_domain (cp_domain inp)) \<noteq> [] \<Longrightarrow> cp_dns_account inp \<noteq> None \<and> trim_space (cp_dns_zone inp) \<noteq> []"
    and "normalize_domain (cp_domain inp) = [] \<Longrightarrow> \<not> cp_manage_dns inp"
  shows "page_ok (new_page inp pp)"
  using assms by (auto simp: page_ok_def new_page_def or_default_def pm_auto Let_def trim_words)

lemma page_create_ok: "keeps rows_ok (page_create D inp)"
proof -
  let ?A = "normalize_domain (cp_domain inp) \<noteq> [] \<and> cp_manage_dns inp \<longrightarrow>
      normalize_domain (normalize_domain (cp_domain inp)) \<noteq> [] \<longrightarrow> cp_dns_account inp \<noteq> None \<and> trim_space (cp_dns_zone inp) \<noteq> []"
  let ?check = "\<lambda>og pp. if normalize_domain (cp_domain inp) \<noteq> []
      then validate_custom_domain D og pp (normalize_domain (cp_domain inp)) (cp_manage_dns inp) (cp_dns_account inp) (cp_dns_zone inp)
      else if cp_manage_dns inp then err (ErrMsg ''custom_domain is required when manage_dns is enabled'') else ret ()"
  have c: "yields (\<lambda>_. ?A \<and> (normalize_domain (cp_domain inp) = [] \<longrightarrow> \<not> cp_manage_dns inp)) (?check og pp)" for og pp
    using yields_custom_domain [of "normalize_domain (cp_domain inp)" "cp_manage_dns inp" "cp_dns_account inp" "cp_dns_zone inp" D og pp]
    by (auto simp: yields_def)
  have r: "reads (?check og pp)" for og pp by (auto intro!: reads_intros)
  have q: "reads (pages_exists_by_name a b)" for a b
    unfolding pages_exists_by_name_def by (intro reads_intros)
  have v: "reads (validate_page_cloud_account pn a)" "reads (validate_resource og a ty)" for og a ty pn
    by (intro reads_intros)+
  have e: "keeps rows_ok (seq (?check og pp) (seq (of_option (validate_package_manager (cp_pm inp)))
      (bind (handle (pages_exists_by_name (cp_project inp) (cp_name inp)) (\<lambda>e. err (ErrWrap ''cannot verify name uniqueness'' e)) ret)
        (\<lambda>dup. if dup then err (name_taken ''page'' (cp_name inp))
          else handle (pages_create (new_page inp pp)) (\<lambda>e. err (if e = ErrUnique then name_taken ''page'' (cp_name inp) else e)) ret))))"
    for og pp
  proof (rule keeps_seq_yields [OF keeps_reads_rows [OF r] c], rule keeps_seq_yields [OF keeps_reads_rows [OF reads_checks(3)] yields_of_option])
    assume "?A \<and> (normalize_domain (cp_domain inp) = [] \<longrightarrow> \<not> cp_manage_dns inp)" "validate_package_manager (cp_pm inp) = None"
    then have "page_ok (new_page inp pp)" by (intro new_page_ok) simp_all
    then show "keeps rows_ok (bind (handle (pages_exists_by_name (cp_project inp) (cp_name inp))
          (\<lambda>e. err (ErrWrap ''cannot verify name uniqueness'' e)) ret) (\<lambda>dup. if dup then err (name_taken ''page'' (cp_name inp))
          else handle (pages_create (new_page inp pp)) (\<lambda>e. err (if e = ErrUnique then name_taken ''page'' (cp_name inp) else e)) ret))"
      by (intro keeps_bind keeps_if keeps_handle keeps_err keeps_ret keeps_reads_rows [OF q] pages_create_ok)
  qed
  show ?thesis
    unfolding page_create_def Let_def
    by (intro keeps_if keeps_err keeps_bind keeps_option e keeps_reads_rows [OF reads_checks(2)]
        keeps_seq keeps_reads_rows [OF reads_checks(4)] v reads_seq)
qed

section \<open>Properties of the settings\<close>

text \<open>C20 (page_rows_ok): every row of the table of pages has a root directory, a package manager the builder knows, an output
  directory if it is built, and, if its DNS is managed, a domain, and an account and a zone for it unless the domain
  is only dots; creating, changing and deleting pages keeps this for any input, answer of the DNS and failure.\<close>

theorem page_rows_ok:
  assumes "list_all page_ok (pages (db w))"
  shows "list_all page_ok (pages (db (snd (page_create D inp w)))) \<and>
    list_all page_ok (pages (db (snd (page_update_settings D i change w)))) \<and>
    list_all page_ok (pages (db (snd (page_delete C i w))))"
  using assms page_create_ok [of D inp] page_update_ok [of D i change] page_delete_ok [of C i] by (simp add: keeps_def)

definition no_page_change :: update_page_input where
  "no_page_change = \<lparr>up_description = None, up_repo = None, up_branch = None, up_git_provider = None, up_publish_path = None,
     up_account = None, up_region = None, up_domain = None, up_manage_dns = None, up_dns_account = None, up_dns_zone = None,
     up_build_enabled = None, up_pm = None, up_install = None, up_build = None, up_output = None, up_root = None,
     up_node = None, up_env = None\<rparr>"

definition demo_dns :: page_dns where
  "demo_dns = \<lparr>pdn_for = (\<lambda>_. None), pdn_records = (\<lambda>_ _. Inr [])\<rparr>"

definition demo_create :: create_page_input where
  "demo_create = \<lparr>cp_project = 3, cp_name = ''site'', cp_description = [], cp_repo = ''r'', cp_branch = [], cp_git_provider = None,
     cp_publish_path = [], cp_provider = [], cp_account = None, cp_region = [], cp_domain = [], cp_manage_dns = False,
     cp_dns_account = None, cp_dns_zone = [], cp_build_enabled = True, cp_pm = [], cp_install = [], cp_build = [],
     cp_output = [], cp_root = [], cp_node = [], cp_env = None\<rparr>"

lemma page_rows_ok_witness:
  "list_all page_ok (pages (db (snd (page_create demo_dns demo_create (world_of queued_page_db))))) \<and>
   list_all page_ok (pages (db (snd (page_update_settings demo_dns 5 (no_page_change\<lparr>up_manage_dns := Some False\<rparr>) (world_of queued_page_db))))) \<and>
   list_all page_ok (pages (db (snd (page_delete demo_page_cloud 5 (world_of queued_page_db)))))"
proof (rule page_rows_ok)
  have "trim_space ''Z'' = ''Z''" by code_simp
  then show "list_all page_ok (pages (db (world_of queued_page_db)))"
    by (simp add: queued_page_db_def page_ok_def demo_page_def validate_package_manager_def trim_words)
qed

text \<open>What belongs to the deploys and to the webhook, not to the settings.\<close>

definition page_deploy_state :: "page \<Rightarrow> uuid \<times> time option \<times> uuid \<times> string \<times> page_provider \<times> page_status \<times> page_runtime option \<times> string \<times> bool" where
  "page_deploy_state p = (bm_id p, bm_deleted p, pg_project p, pg_name p, pg_provider p, pg_status p, pg_runtime p,
     pg_webhook_secret p, pg_auto_deploy p)"

definition worker_deploy_state :: "worker \<Rightarrow> uuid \<times> time option \<times> uuid \<times> string \<times> worker_status \<times> worker_runtime option \<times> string list \<times> string \<times> bool" where
  "worker_deploy_state k = (bm_id k, bm_deleted k, wk_project k, wk_name k, wk_status k, wk_runtime k, wk_r2_confirmed k,
     wk_webhook_secret k, wk_auto_deploy k)"

lemma page_save_keeps_state: "keeps (\<lambda>w. map page_deploy_state (pages (db w)) = L) (page_save p b)"
  by (auto simp: page_save_def pages_update_settings_def pages_update_settings_if_not_deploying_def keeps_def exec_def
      update_where_def statement_def bind_def handle_def seq_def now_def Let_def map_update_live copy_page_settings_def page_deploy_state_def)

lemma worker_save_keeps_state: "keeps (\<lambda>w. map worker_deploy_state (workers (db w)) = L) (worker_save k b)"
  by (auto simp: worker_save_def workers_update_settings_def workers_update_settings_if_not_deploying_def keeps_def exec_def
      update_where_def statement_def bind_def handle_def seq_def now_def Let_def map_update_live copy_worker_settings_def worker_deploy_state_def)

lemma reads_worker_patches [reads_intros]:
  "reads (worker_patch_git inp k)" "reads (worker_patch_build inp k)" "reads (worker_patch_account inp k og)"
  unfolding worker_patch_git_def worker_patch_build_def worker_patch_account_def Let_def
  by (auto intro!: reads_intros split: option.splits prod.splits)

text \<open>Saving settings, whatever was changed, however stale the row it started from and
  whether it succeeds or not, never changes the status, the runtime, the confirmed buckets, the webhook or the identity
  of any page or worker: what a running deploy writes is not overwritten.\<close>

theorem settings_keep_deploy_state:
  "map page_deploy_state (pages (db (snd (page_update_settings D i inp w)))) = map page_deploy_state (pages (db w)) \<and>
   map worker_deploy_state (workers (db (snd (worker_update j inp' w')))) = map worker_deploy_state (workers (db w'))"
proof
  let ?P = "\<lambda>w0. map page_deploy_state (pages (db w0)) = map page_deploy_state (pages (db w))"
  note r = keeps_reads [where P = "\<lambda>d. map page_deploy_state (pages d) = map page_deploy_state (pages (db w))"]
  have "keeps ?P (page_update_settings D i inp)"
    unfolding page_update_settings_def pages_get_by_id_def
    by (intro keeps_bind keeps_pair page_save_keeps_state r reads_intros)
  then show "map page_deploy_state (pages (db (snd (page_update_settings D i inp w)))) = map page_deploy_state (pages (db w))"
    by (simp add: keeps_def)
next
  let ?P = "\<lambda>w0. map worker_deploy_state (workers (db w0)) = map worker_deploy_state (workers (db w'))"
  note r = keeps_reads [where P = "\<lambda>d. map worker_deploy_state (workers d) = map worker_deploy_state (workers (db w'))"]
  have "keeps ?P (worker_update j inp')"
    unfolding worker_update_def workers_get_by_id_def
    by (intro keeps_bind keeps_pair worker_save_keeps_state r reads_intros)
  then show "map worker_deploy_state (workers (db (snd (worker_update j inp' w')))) = map worker_deploy_state (workers (db w'))"
    by (simp add: keeps_def)
qed

section \<open>The cloud target of a page that is deploying\<close>

abbreviation page_free :: "uuid \<Rightarrow> database \<Rightarrow> bool" where
  "page_free \<equiv> claimable pages (\<lambda>p. pg_status p \<noteq> PageDeploying)"

lemma by_id_copy:
  assumes "by_id i t = Some x"
  shows "by_id i (update_live (\<lambda>r. bm_id r = i) (copy_page_settings n p) t) = Some (copy_page_settings n p x)"
  using assms by (induction t) (auto simp: by_id_Cons update_live_def live_def copy_page_settings_def)

text \<open>A save that changes the account or the region of a page that is deploying is refused and
  leaves the database alone; but a save whose request names neither writes the account and the region of the row it
  read, so a save that read the page before another request moved it and a deploy began moves the target back under
  the running deploy.\<close>

theorem settings_save_guard:
  assumes "faults w = []" "by_id (bm_id p) (pages (db w)) = Some x" "\<not> page_free (bm_id p) (db w)"
    and "up_account inp = None" "up_region inp = None"
  shows "(\<exists>e. fst (page_save p True w) = Inl e) \<and> db (snd (page_save p True w)) = db w \<and>
    page_patch_account inp p og = ret (p, False) \<and> page_patch_region inp p = ret (p, False) \<and>
    (\<exists>y. by_id (bm_id p) (pages (db (snd (page_save p False w)))) = Some y \<and> pg_status y = PageDeploying \<and>
       pg_cloud_account y = pg_cloud_account p \<and> pg_region y = pg_region p)"
proof -
  have none: "select_live (\<lambda>x. bm_id x = bm_id p \<and> pg_status x \<noteq> PageDeploying) (pages (db w)) = []"
    using assms(3) by (simp add: claimable_def)
  then have refused: "(\<exists>e. fst (page_save p True w) = Inl e) \<and> db (snd (page_save p True w)) = db w"
    using assms(1) by (simp add: page_save_def pages_update_settings_if_not_deploying_def update_where_def bind_now
        statement_def bind_def handle_def update_live_none next_fault_def)
  have "bm_id x = bm_id p" "live x" "x \<in> set (pages (db w))" using assms(2) by (auto dest: find_live_iff)
  with assms(3) have "pg_status x = PageDeploying"
    using claimableI [of x pages "db w" "bm_id p" "\<lambda>p. pg_status p \<noteq> PageDeploying"] by blast
  then show ?thesis
    using refused assms(1,2,4,5) by (simp add: page_patch_account_def page_patch_region_def page_save_def pages_update_settings_def
        bind_now seq_def bind_def handle_def exec_def statement_def by_id_copy, simp add: copy_page_settings_def)
qed

lemma settings_save_guard_witness:
  "\<exists>y. by_id 5 (pages (db (snd (page_save (demo_page\<lparr>pg_cloud_account := Some 4\<rparr>) False (world_of queued_page_db))))) = Some y \<and>
     pg_status y = PageDeploying \<and> pg_cloud_account y = Some 4"
proof -
  let ?p = "demo_page\<lparr>pg_cloud_account := Some 4\<rparr>"
  have q: "pages queued_page_db = [demo_page]" by (simp add: queued_page_db_def)
  have d: "bm_id demo_page = 5" "live demo_page" "pg_status demo_page = PageDeploying"
    by (simp_all add: demo_page_def live_def)
  have "by_id (bm_id ?p) (pages (db (world_of queued_page_db))) = Some demo_page" using d by (simp add: q by_id_Cons)
  moreover have "\<not> page_free (bm_id ?p) (db (world_of queued_page_db))" using d by (simp add: q claimable_def select_live_def)
  ultimately show ?thesis
    using settings_save_guard [of "world_of queued_page_db" ?p demo_page no_page_change None] d
    by (simp add: no_page_change_def) blast
qed

section \<open>Deletion\<close>

lemma reads_teardowns [reads_intros]:
  "reads (page_teardown C p)" "reads (worker_teardown C' k)" "reads (notify_project_resource_deleted pr ev nm dt)"
  unfolding page_teardown_def worker_teardown_def notify_project_resource_deleted_def notify_resource_deleted_def
    projects_get_by_id_def attach_team_def resolve_worker_git_token_def resolve_git_token_def provider_token_def resources_get_by_id_def Let_def
  by (auto intro!: reads_intros split: option.splits sum.splits)

text \<open>C19 (delete_excludes_deploy): the statement of a delete finds the page either deploying, and then nothing is deleted, called
  or torn down, or not, and then the row is gone when the teardown starts: no later trigger of the page, in any race
  with other requests that free no deploying page, wins its slot.\<close>

theorem delete_excludes_deploy:
  assumes "page_delete_commit C i w = (r, w')" "distinct_ids (pages (db w))"
  shows "(\<not> page_free i (db w) \<longrightarrow> (\<exists>e. r = Inl e) \<and> db w' = db w \<and> calls w' = calls w) \<and>
    (r = Inr () \<longrightarrow> by_id i (pages (db w')) = None \<and>
       (\<forall>es. frees_none page_free es \<longrightarrow> race_wins pages_try_mark_deploying i es w' = 0))"
proof -
  let ?P = "\<lambda>x. bm_id x = i \<and> pg_status x \<noteq> PageDeploying"
  have none: "find_live ?P (pages (db w)) = None \<longleftrightarrow> \<not> page_free i (db w)"
    by (auto simp: claimable_def select_live_def find_live_def find_None_iff filter_empty_conv)
  have busy: "(\<exists>e. r = Inl e) \<and> db w' = db w \<and> calls w' = calls w" if "\<not> page_free i (db w)"
    using assms(1) that none by (auto simp: page_delete_commit_def pages_delete_if_not_deploying_def bind_now bind_def handle_def
        statement_def next_fault_def split: if_splits)
  have gone: "by_id i (pages (db w')) = None" if r: "r = Inr ()"
  proof -
    from assms(1) r obtain g w1 where g: "pages_delete_if_not_deploying i w = (Inr (Some g), w1)"
      and k: "seq (if pg_runtime g \<noteq> None \<and> page_cloud_provisioned g then page_teardown C g else ret ())
        (notify_project_resource_deleted (pg_project g) ''page_deleted'' (pg_name g) (''Page '' @ quoted (pg_name g) @ '' was deleted'')) w1 = (Inr (), w')"
      by (auto simp: page_delete_commit_def bind_Inr split: option.splits)
    have "reads (seq (if pg_runtime g \<noteq> None \<and> page_cloud_provisioned g then page_teardown C g else ret ())
        (notify_project_resource_deleted (pg_project g) ''page_deleted'' (pg_name g) (''Page '' @ quoted (pg_name g) @ '' was deleted'')))"
      by (intro reads_seq reads_if reads_ret reads_teardowns)
    from readsD [OF this k] have w1: "db w' = db w1" .
    from g obtain x where x: "find_live ?P (pages (db w)) = Some x" and p: "pages (db w1) = soft_delete (clock w) ?P (pages (db w))"
      by (auto simp: pages_delete_if_not_deploying_def bind_now statement_def split: if_splits option.splits)
    have xs: "x \<in> set (pages (db w))" "live x" "bm_id x = i" "pg_status x \<noteq> PageDeploying"
      using x by (auto simp: find_live_def find_Some_iff)
    have only: "y = x" if "y \<in> set (pages (db w))" "live y" "bm_id y = i" for y
      using that xs assms(2) by_id_Some_iff [of "pages (db w)" i y] by_id_Some_iff [of "pages (db w)" i x] by simp
    show ?thesis
      unfolding w1 p by_id_None
    proof (intro ballI impI)
      fix y assume y: "y \<in> set (soft_delete (clock w) ?P (pages (db w)))" "live y"
      then obtain z where z: "z \<in> set (pages (db w))" "y = (if live z \<and> ?P z then z\<lparr>bm_deleted := Some (clock w)\<rparr> else z)"
        by (auto simp: soft_delete_def update_live_def)
      have n: "\<not> (live z \<and> ?P z)"
      proof
        assume "live z \<and> ?P z"
        with z(2) have "y = z\<lparr>bm_deleted := Some (clock w)\<rparr>" by (subst z(2)) (rule if_P)
        with y(2) show False by (simp add: live_def)
      qed
      with z(2) have "y = z" by (metis (no_types, lifting))
      with n y(2) have "y = z \<and> \<not> ?P z" by blast
      with z(1) y(2) only xs show "bm_id y \<noteq> i" by blast
    qed
  qed
  have "race_wins pages_try_mark_deploying i es w' = 0" if "r = Inr ()" "frees_none page_free es" for es
  proof -
    have "\<not> page_free i (db w')"
      using gone [OF that(1)] by (auto simp: claimable_def select_live_def by_id_None filter_empty_conv)
    then show ?thesis using page_slot.one_winner [OF that(2), of i w'] by simp
  qed
  with busy gone show ?thesis by blast
qed

lemma delete_excludes_deploy_witness:
  "(\<exists>e. fst (page_delete_commit demo_page_cloud 5 (world_of queued_page_db)) = Inl e) \<and>
   calls (snd (page_delete_commit demo_page_cloud 5 (world_of queued_page_db))) = []"
proof -
  obtain r w' where c: "page_delete_commit demo_page_cloud 5 (world_of queued_page_db) = (r, w')"
    by (cases "page_delete_commit demo_page_cloud 5 (world_of queued_page_db)")
  have q: "pages queued_page_db = [demo_page]" by (simp add: queued_page_db_def)
  have n: "\<not> page_free 5 (db (world_of queued_page_db))"
    by (simp add: q claimable_def select_live_def demo_page_def)
  have "distinct_ids (pages (db (world_of queued_page_db)))" by (simp add: q distinct_ids_def)
  from delete_excludes_deploy [OF c this] n have "(\<exists>e. r = Inl e) \<and> calls w' = calls (world_of queued_page_db)" by simp
  with c show ?thesis by simp
qed

text \<open>A domain of dots is normalised twice, and the second time nothing of it is left to check.\<close>

lemma dotted_domain_unchecked:
  "normalize_domain ''..'' = ''.'' \<and>
   validate_custom_domain D og pp (normalize_domain ''..'') True None [] = ret ()"
proof -
  have "normalize_domain ''..'' = ''.''" "normalize_domain ''.'' = []" by code_simp+
  then show ?thesis by (simp add: validate_custom_domain_def Let_def)
qed

end
