(* ===== verification/Setting_Service.thy ===== *)
theory Setting_Service imports Team_Service begin

text \<open>
  The platform settings (\<open>service/setting_service.go\<close>): the defaults of the first start, the checks and side effects
  of a change, and the mail server.  What the process finds around it (the address in its environment, the nodes of
  the cluster, the addresses of the machine, whether the default target binds ingresses) is the record
  \<open>surroundings\<close>; the order in which Go walks a map literal is a parameter.
\<close>

section \<open>Operations\<close>

record surroundings =
  su_env_ip :: string
  su_nodes :: "(string \<times> string list) list option"
  su_local_ip :: string
  su_ingress :: "go_error option"

definition setting_base_domain :: string where "setting_base_domain = ''base_domain''"
definition setting_server_ip :: string where "setting_server_ip = ''server_ip''"
definition setting_setup_done :: string where "setting_setup_done = ''setup_done''"
definition setting_panel_domain :: string where "setting_panel_domain = ''panel_domain''"
definition setting_https_email :: string where "setting_https_email = ''https_email''"

text \<open>The mask is eight times the bullet \<open>U+2022\<close>, in UTF-8.\<close>

definition setting_secret_mask :: string where
  "setting_secret_mask = concat (replicate 8 [CHR 0xE2, CHR 0x80, CHR 0xA2])"

text \<open>\<open>v, _ := Settings().Get(key)\<close>: a failed read gives the empty string.\<close>

definition setting_or_empty :: "string \<Rightarrow> string io" where
  "setting_or_empty k = handle (settings_get k) (\<lambda>_. ret []) ret"

definition detect_k3s_node_ip :: "surroundings \<Rightarrow> string" where
  "detect_k3s_node_ip S = (case su_nodes S of
     None \<Rightarrow> []
   | Some ns \<Rightarrow> (case find (\<lambda>(ip, roles). ip \<noteq> [] \<and> list_ex (\<lambda>r. r = ''control-plane'' \<or> r = ''master'') roles) ns of
        Some (ip, _) \<Rightarrow> ip
      | None \<Rightarrow> (case find (\<lambda>(ip, _). ip \<noteq> []) ns of Some (ip, _) \<Rightarrow> ip | None \<Rightarrow> [])))"

definition default_domain_of :: "string \<Rightarrow> unit io" where
  "default_domain_of ip =
     (if ip = [] then ret ()
      else bind (setting_or_empty setting_base_domain) (\<lambda>existing.
        if existing = [] then attempt (settings_set setting_base_domain (ip @ ''.sslip.io'')) else ret ()))"

definition init_defaults :: "surroundings \<Rightarrow> unit io" where
  "init_defaults S = (let envIP = trim_space (su_env_ip S) in
     seq (if envIP = [] then ret ()
          else bind (setting_or_empty setting_server_ip) (\<lambda>cur.
            if cur = envIP then ret () else attempt (settings_set setting_server_ip envIP)))
     (bind (setting_or_empty setting_setup_done) (\<lambda>finished.
       if finished = ''true'' then ret ()
       else
         let ip = (if envIP \<noteq> [] then envIP else or_default (su_local_ip S) (detect_k3s_node_ip S)) in
         seq (if envIP = [] \<and> ip \<noteq> [] then attempt (settings_set setting_server_ip ip) else ret ())
         (seq (default_domain_of ip) (attempt (settings_set setting_setup_done ''true''))))))"

definition apply_panel_domain :: "surroundings \<Rightarrow> string \<Rightarrow> unit io" where
  "apply_panel_domain S dm = (case su_ingress S of
     Some e \<Rightarrow> err e
   | None \<Rightarrow> if dm = [] then cluster DeletePanelIngress
       else bind (setting_or_empty setting_https_email) (\<lambda>email. cluster (PanelIngress dm email)))"

definition apply_https_email :: "surroundings \<Rightarrow> string \<Rightarrow> unit io" where
  "apply_https_email S email = bind (setting_or_empty setting_panel_domain) (\<lambda>panel.
     if panel = [] then ret ()
     else (case su_ingress S of Some e \<Rightarrow> err e | None \<Rightarrow> cluster (PanelIngress panel email)))"

definition reconcile_infra :: "surroundings \<Rightarrow> unit io" where
  "reconcile_infra S = bind (setting_or_empty setting_panel_domain) (\<lambda>dm. attempt (apply_panel_domain S dm))"

definition validate_google_oauth_configured :: "unit io" where
  "validate_google_oauth_configured =
     handle (settings_get setting_google_oauth_enabled) (\<lambda>e. err (ErrWrap ''check google oauth enabled'' e)) (\<lambda>enabled.
       if enabled \<noteq> ''true'' then err (ErrMsg ''Google OAuth must be enabled before enforcing Google-only sign-in'')
       else handle (settings_get setting_google_oauth_client_id) (\<lambda>e. err (ErrWrap ''check google oauth client id'' e)) (\<lambda>cid.
         handle (settings_get setting_google_oauth_client_secret) (\<lambda>e. err (ErrWrap ''check google oauth client secret'' e)) (\<lambda>sec.
           if cid = [] \<or> sec = [] then
             err (ErrMsg ''Google OAuth client ID and secret must be configured before enforcing Google-only sign-in'')
           else ret ())))"

definition reject_google_change :: "string \<Rightarrow> string \<Rightarrow> unit io" where
  "reject_google_change k v =
     (if k = setting_google_oauth_enabled \<and> v \<noteq> ''true'' \<or>
         (k = setting_google_oauth_client_id \<or> k = setting_google_oauth_client_secret) \<and> v = [] then
        handle (settings_get setting_auth_google_only) (\<lambda>e. err (ErrWrap ''check google-only mode'' e)) (\<lambda>only.
          if only = ''true'' then err (ErrMsg ''disable Google-only sign-in before changing Google OAuth settings'') else ret ())
      else ret ())"

definition setting_effects :: "surroundings \<Rightarrow> string \<Rightarrow> string \<Rightarrow> unit io" where
  "setting_effects S k v =
     (if k = setting_panel_domain then
        handle (apply_panel_domain S v) (\<lambda>e. err (ErrWrap ''setting saved, but ingress not applied'' e)) ret
      else if k = setting_https_email then
        handle (apply_https_email S v) (\<lambda>e. err (ErrWrap ''setting saved, but HTTPS config not applied'' e)) ret
      else ret ())"

definition setting_service_set :: "surroundings \<Rightarrow> string \<Rightarrow> string \<Rightarrow> unit io" where
  "setting_service_set S k v0 = (let v = trim_space v0 in
     if v = setting_secret_mask \<and> is_sensitive_setting_key k then ret ()
     else seq (if k = setting_auth_google_only \<and> v = ''true'' then validate_google_oauth_configured else ret ())
       (seq (reject_google_change k v) (seq (settings_set k v) (setting_effects S k v))))"

section \<open>The mail server\<close>

record smtp_config =
  sm_host :: string
  sm_port :: string
  sm_user :: string
  sm_password :: string
  sm_from :: string
  sm_enabled :: bool

definition get_smtp_config :: "smtp_config io" where
  "get_smtp_config =
     bind (setting_or_empty ''smtp_host'') (\<lambda>ho. bind (setting_or_empty ''smtp_port'') (\<lambda>po.
     bind (setting_or_empty ''smtp_user'') (\<lambda>us. bind (setting_or_empty ''smtp_password'') (\<lambda>pw.
     bind (setting_or_empty ''smtp_from'') (\<lambda>fr. bind (setting_or_empty ''smtp_enabled'') (\<lambda>en.
       ret \<lparr>sm_host = ho, sm_port = po, sm_user = us, sm_password = pw, sm_from = fr, sm_enabled = (en = ''true'')\<rparr>))))))"

definition smtp_pairs :: "smtp_config \<Rightarrow> (string \<times> string) list" where
  "smtp_pairs c = [(''smtp_host'', sm_host c), (''smtp_port'', sm_port c), (''smtp_user'', sm_user c),
     (''smtp_password'', sm_password c), (''smtp_from'', sm_from c),
     (''smtp_enabled'', if sm_enabled c then ''true'' else ''false'')]"

definition save_pairs :: "((string \<times> string) list \<Rightarrow> (string \<times> string) list) \<Rightarrow> (string \<times> string) list \<Rightarrow> unit io" where
  "save_pairs walk kvs = for_each (\<lambda>(k, v). settings_set k v) (walk kvs)"

definition save_smtp_config :: "((string \<times> string) list \<Rightarrow> (string \<times> string) list) \<Rightarrow> smtp_config \<Rightarrow> unit io" where
  "save_smtp_config walk c =
     (if sm_enabled c \<and> sm_host c = [] then err (ErrMsg ''SMTP host is required'')
      else if sm_enabled c \<and> sm_port c = [] then err (ErrMsg ''SMTP port is required'')
      else if sm_enabled c \<and> sm_from c = [] then err (ErrMsg ''SMTP from address is required'')
      else bind (if sm_password c = setting_secret_mask
          then bind get_smtp_config (\<lambda>old. ret (c\<lparr>sm_password := sm_password old\<rparr>)) else ret c)
        (\<lambda>c'. save_pairs walk (smtp_pairs c')))"

section \<open>Rules\<close>

lemma lookup_put: "settings_lookup k (settings_put k' v t) = (if k = k' then v else settings_lookup k t)"
proof -
  let ?f = "\<lambda>x. if st_key x = k' then x\<lparr>st_value := v\<rparr> else x"
  have "k \<noteq> k' \<Longrightarrow> settings_lookup k (map ?f t) = settings_lookup k t"
    and "list_ex (\<lambda>x. st_key x = k') t \<Longrightarrow> settings_lookup k' (map ?f t) = v"
    and "k \<noteq> k' \<Longrightarrow> settings_lookup k (t @ [y]) = (if st_key y = k then settings_lookup k (t @ [y]) else settings_lookup k t)"
    and "\<not> list_ex (\<lambda>x. st_key x = k') t \<Longrightarrow> settings_lookup k' (t @ [\<lparr>st_key = k', st_value = v\<rparr>]) = v" for y
    by (induction t) (auto simp: settings_lookup_def)
  from this(1,2,4) this(3) [of "\<lparr>st_key = k', st_value = v\<rparr>"] show ?thesis by (auto simp: settings_put_def)
qed

lemma setting_or_empty_eval:
  "setting_or_empty k w = (Inr (if fault_now w then [] else settings_lookup k (settings (db w))), next_fault w)"
  by (auto simp: setting_or_empty_def handle_def settings_get_def query_def statement_def next_fault_def)

lemma reads_setting [reads_intros]: "reads (setting_or_empty k)" "reads (settings_get k)"
  unfolding setting_or_empty_def settings_get_def by (intro reads_intros)+

lemma settings_set_eval:
  "settings_set k v w = (if fault_now w then (Inl ErrIO, next_fault w)
     else (Inr (), (next_fault w)\<lparr>db := settings_update (settings_put k v) (db w)\<rparr>))"
  by (simp add: settings_set_def exec_def statement_def)

section \<open>Google-only sign-in\<close>

definition google_ready :: "database \<Rightarrow> bool" where
  "google_ready d \<longleftrightarrow> settings_lookup setting_google_oauth_enabled (settings d) = ''true'' \<and>
     settings_lookup setting_google_oauth_client_id (settings d) \<noteq> [] \<and>
     settings_lookup setting_google_oauth_client_secret (settings d) \<noteq> []"

definition google_safe :: "world \<Rightarrow> bool" where
  "google_safe w \<longleftrightarrow> (settings_lookup setting_auth_google_only (settings (db w)) = ''true'' \<longrightarrow> google_ready (db w))"

lemma google_keys:
  "setting_auth_google_only \<noteq> setting_google_oauth_enabled" "setting_auth_google_only \<noteq> setting_google_oauth_client_id"
  "setting_auth_google_only \<noteq> setting_google_oauth_client_secret" "setting_google_oauth_enabled \<noteq> setting_google_oauth_client_id"
  "setting_google_oauth_enabled \<noteq> setting_google_oauth_client_secret"
  "setting_google_oauth_client_id \<noteq> setting_google_oauth_client_secret"
  by (simp_all add: setting_auth_google_only_def setting_google_oauth_enabled_def setting_google_oauth_client_id_def
      setting_google_oauth_client_secret_def)

lemma validate_configured: "validate_google_oauth_configured w = (Inr (), w') \<Longrightarrow> google_ready (db w) \<and> db w' = db w"
  by (auto simp: validate_google_oauth_configured_def google_ready_def handle_cases settings_get_def query_def statement_def
      next_fault_def split: if_splits)

lemma reject_allows:
  assumes "reject_google_change k v w = (Inr (), w')"
  shows "db w' = db w \<and> (k = setting_google_oauth_enabled \<and> v \<noteq> ''true'' \<or>
      (k = setting_google_oauth_client_id \<or> k = setting_google_oauth_client_secret) \<and> v = [] \<longrightarrow>
      settings_lookup setting_auth_google_only (settings (db w)) \<noteq> ''true'')"
  using assms by (auto simp: reject_google_change_def handle_cases settings_get_def query_def statement_def next_fault_def split: if_splits)

lemma google_safe_put:
  assumes "google_safe w" "k = setting_auth_google_only \<and> v = ''true'' \<Longrightarrow> google_ready (db w)"
    and "k = setting_google_oauth_enabled \<and> v \<noteq> ''true'' \<or>
      (k = setting_google_oauth_client_id \<or> k = setting_google_oauth_client_secret) \<and> v = [] \<Longrightarrow>
      settings_lookup setting_auth_google_only (settings (db w)) \<noteq> ''true''"
    and "settings d = settings_put k v (settings (db w))"
  shows "settings_lookup setting_auth_google_only (settings d) = ''true'' \<longrightarrow> google_ready d"
proof (cases "k = setting_auth_google_only")
  case True
  then show ?thesis using assms(2) google_keys unfolding google_ready_def assms(4) lookup_put by metis
next
  case False
  show ?thesis
  proof
    assume "settings_lookup setting_auth_google_only (settings d) = ''true''"
    then have only: "settings_lookup setting_auth_google_only (settings (db w)) = ''true''"
      using False unfolding assms(4) lookup_put by metis
    then have "google_ready (db w)" using assms(1) by (simp add: google_safe_def)
    with only assms(3) show "google_ready d" unfolding google_ready_def assms(4) lookup_put by metis
  qed
qed

lemma google_safe_step:
  assumes "google_safe w" "k = setting_auth_google_only \<and> v = ''true'' \<Longrightarrow> google_ready (db w)"
    and "k = setting_google_oauth_enabled \<and> v \<noteq> ''true'' \<or>
      (k = setting_google_oauth_client_id \<or> k = setting_google_oauth_client_secret) \<and> v = [] \<Longrightarrow>
      settings_lookup setting_auth_google_only (settings (db w)) \<noteq> ''true''"
  shows "google_safe (snd (settings_set k v w))"
proof (cases "fault_now w")
  case True with assms(1) show ?thesis by (simp add: settings_set_eval google_safe_def next_fault_def)
next
  case False
  have "settings (settings_update (settings_put k v) (db w)) = settings_put k v (settings (db w))" by simp
  from google_safe_put [OF assms this] False show ?thesis by (simp add: settings_set_eval google_safe_def)
qed

lemma google_safe_other:
  assumes "k \<notin> {setting_auth_google_only, setting_google_oauth_enabled, setting_google_oauth_client_id, setting_google_oauth_client_secret}"
  shows "keeps google_safe (settings_set k v)"
  unfolding keeps_def using assms by (intro allI impI google_safe_step) auto

lemma google_safe_reads: "reads m \<Longrightarrow> keeps google_safe m"
  by (simp add: keeps_def reads_def google_safe_def)

lemma reads_effects: "reads (setting_effects S k v)"
  unfolding setting_effects_def apply_panel_domain_def apply_https_email_def by (auto intro!: reads_intros split: option.splits)

lemma google_safe_set: "keeps google_safe (setting_service_set S k v0)"
  unfolding keeps_def
proof (intro allI impI)
  fix w assume w: "google_safe w"
  let ?v = "trim_space v0"
  let ?check = "if k = setting_auth_google_only \<and> ?v = ''true'' then validate_google_oauth_configured else ret ()"
  have r: "reads ?check" "reads (reject_google_change k ?v)"
    unfolding validate_google_oauth_configured_def reject_google_change_def by (auto intro!: reads_intros)
  have safe: "google_safe w'" if "db w' = db w" for w' using w that by (simp add: google_safe_def)
  obtain r1 w1 where c: "?check w = (r1, w1)" by (cases "?check w")
  obtain r2 w2 where d: "reject_google_change k ?v w1 = (r2, w2)" by (cases "reject_google_change k ?v w1")
  have dbs: "db w1 = db w" "db w2 = db w" using readsD [OF r(1) c] readsD [OF r(2) d] by simp_all
  show "google_safe (snd (setting_service_set S k v0 w))"
  proof (cases "?v = setting_secret_mask \<and> is_sensitive_setting_key k \<or> (\<exists>e. r1 = Inl e) \<or> (\<exists>e. r2 = Inl e)")
    case True
    then show ?thesis using c d safe [OF dbs(1)] safe [OF dbs(2)] w
      by (cases r1; cases r2) (auto simp: setting_service_set_def Let_def seq_def bind_def handle_def)
  next
    case False
    then have rs: "r1 = Inr ()" "r2 = Inr ()" by (cases r1; cases r2; auto)+
    have e: "setting_service_set S k v0 w = seq (settings_set k ?v) (setting_effects S k ?v) w2"
    proof -
      have n: "\<not> (?v = setting_secret_mask \<and> is_sensitive_setting_key k)" using False by blast
      show ?thesis unfolding setting_service_set_def Let_def if_not_P [OF n]
        using c d rs by (simp add: seq_def bind_def handle_def)
    qed
    have "google_safe (snd (settings_set k ?v w2))"
    proof (rule google_safe_step)
      show "google_safe w2" by (rule safe) (rule dbs)
      show "google_ready (db w2)" if "k = setting_auth_google_only \<and> ?v = ''true''"
        using c rs that dbs validate_configured [of w w1] by simp
      show "settings_lookup setting_auth_google_only (settings (db w2)) \<noteq> ''true''"
        if "k = setting_google_oauth_enabled \<and> ?v \<noteq> ''true'' \<or>
          (k = setting_google_oauth_client_id \<or> k = setting_google_oauth_client_secret) \<and> ?v = []"
        using reject_allows [of k ?v w1 w2] d rs that dbs by simp
    qed
    then show ?thesis
      unfolding e seq_def bind_def handle_def
      using google_safe_reads [OF reads_effects, of S k ?v] by (auto simp: keeps_def split: prod.splits sum.splits)
  qed
qed

lemma google_safe_save_pairs:
  assumes "\<And>k v. (k, v) \<in> set (walk kvs) \<Longrightarrow>
      k \<notin> {setting_auth_google_only, setting_google_oauth_enabled, setting_google_oauth_client_id, setting_google_oauth_client_secret}"
  shows "keeps google_safe (save_pairs walk kvs)"
proof -
  have "keeps google_safe (for_each (\<lambda>(k, v). settings_set k v) xs)"
    if "\<And>k v. (k, v) \<in> set xs \<Longrightarrow>
      k \<notin> {setting_auth_google_only, setting_google_oauth_enabled, setting_google_oauth_client_id, setting_google_oauth_client_secret}" for xs
    using that
  proof (induction xs)
    case (Cons x xs)
    obtain k v where x: "x = (k, v)" by (cases x)
    then have "keeps google_safe (settings_set k v)" using Cons.prems [of k v] by (intro google_safe_other) simp
    then show ?case using Cons x by (auto intro!: keeps_seq)
  qed simp
  then show ?thesis unfolding save_pairs_def using assms by blast
qed

lemma google_safe_smtp:
  assumes "\<And>kvs. set (walk kvs) \<subseteq> set kvs"
  shows "keeps google_safe (save_smtp_config walk c)"
proof -
  have p: "keeps google_safe (save_pairs walk (smtp_pairs c'))" for c'
  proof (rule google_safe_save_pairs)
    fix k v assume "(k, v) \<in> set (walk (smtp_pairs c'))"
    then have "(k, v) \<in> set (smtp_pairs c')" using assms by blast
    then have "k \<in> {''smtp_host'', ''smtp_port'', ''smtp_user'', ''smtp_password'', ''smtp_from'', ''smtp_enabled''}"
      by (auto simp: smtp_pairs_def)
    then show "k \<notin> {setting_auth_google_only, setting_google_oauth_enabled, setting_google_oauth_client_id, setting_google_oauth_client_secret}"
      by (auto simp: setting_auth_google_only_def setting_google_oauth_enabled_def setting_google_oauth_client_id_def
          setting_google_oauth_client_secret_def)
  qed
  have r: "reads (bind get_smtp_config (\<lambda>old. ret (c\<lparr>sm_password := sm_password old\<rparr>)))"
    unfolding get_smtp_config_def by (intro reads_intros)
  show ?thesis
    unfolding save_smtp_config_def by (intro keeps_if keeps_err keeps_bind keeps_ret google_safe_reads [OF r] p)
qed

lemma google_safe_defaults: "keeps google_safe (init_defaults S)"
proof -
  have s: "keeps google_safe (attempt (settings_set k v))"
    if "k \<in> {setting_base_domain, setting_server_ip, setting_setup_done}" for k v
    using that by (intro keeps_attempt google_safe_other)
      (auto simp: setting_base_domain_def setting_server_ip_def setting_setup_done_def setting_auth_google_only_def
        setting_google_oauth_enabled_def setting_google_oauth_client_id_def setting_google_oauth_client_secret_def)
  show ?thesis
    unfolding init_defaults_def Let_def default_domain_of_def
    by (intro keeps_seq keeps_bind keeps_if keeps_ret google_safe_reads [OF reads_setting(1)] s) simp_all
qed

text \<open>C5 (google_only_stays_ready): if Google-only sign-in is on, Google OAuth is on and has an identifier and a secret; the start of
  the process, a change of any setting and a change of the mail server keep this, whatever fails in between.\<close>

theorem google_only_stays_ready:
  assumes "settings_lookup setting_auth_google_only (settings (db w)) = ''true'' \<longrightarrow> google_ready (db w)"
    and "\<And>kvs. set (walk kvs) \<subseteq> set kvs"
    and "w' \<in> {snd (init_defaults S w), snd (setting_service_set S k v w), snd (save_smtp_config walk c w)}"
  shows "settings_lookup setting_auth_google_only (settings (db w')) = ''true'' \<longrightarrow> google_ready (db w')"
  using assms(1,3) google_safe_defaults [of S] google_safe_set [of S k v] google_safe_smtp [OF assms(2), of c]
  by (auto simp: keeps_def google_safe_def)

definition bare_surroundings :: surroundings where
  "bare_surroundings = \<lparr>su_env_ip = [], su_nodes = None, su_local_ip = ''10.0.0.1'', su_ingress = None\<rparr>"

definition google_db :: database where
  "google_db = empty_database\<lparr>settings := [\<lparr>st_key = ''auth_google_only'', st_value = ''true''\<rparr>,
     \<lparr>st_key = ''google_oauth_enabled'', st_value = ''true''\<rparr>, \<lparr>st_key = ''google_oauth_client_id'', st_value = ''i''\<rparr>,
     \<lparr>st_key = ''google_oauth_client_secret'', st_value = ''s''\<rparr>]\<rparr>"

lemma google_only_stays_ready_witness:
  "settings_lookup setting_auth_google_only (settings (db (snd (setting_service_set bare_surroundings setting_google_oauth_enabled ''false''
     (world_of google_db))))) = ''true'' \<and>
   google_ready (db (snd (setting_service_set bare_surroundings setting_google_oauth_enabled ''false'' (world_of google_db))))"
proof -
  let ?w = "snd (setting_service_set bare_surroundings setting_google_oauth_enabled ''false'' (world_of google_db))"
  note keys = setting_google_oauth_enabled_def setting_google_oauth_client_id_def setting_google_oauth_client_secret_def
    setting_auth_google_only_def
  have "trim_space ''false'' = ''false''" by code_simp
  moreover have "setting_secret_mask \<noteq> ''false''" by (simp add: setting_secret_mask_def numeral_eq_Suc)
  ultimately have "?w = world_of google_db"
    by (simp add: setting_service_set_def Let_def seq_def bind_def keys reject_google_change_def settings_get_def query_def
        statement_def google_db_def settings_lookup_def)
  then have on: "settings_lookup setting_auth_google_only (settings (db ?w)) = ''true''"
    by (simp add: google_db_def settings_lookup_def keys)
  have "settings_lookup setting_auth_google_only (settings (db ?w)) = ''true'' \<longrightarrow> google_ready (db ?w)"
    by (rule google_only_stays_ready [where w = "world_of google_db" and walk = id and S = bare_surroundings
      and k = setting_google_oauth_enabled and v = "''false''" and c = "\<lparr>sm_host = [], sm_port = [], sm_user = [], sm_password = [], sm_from = [], sm_enabled = False\<rparr>"])
      (simp_all add: google_ready_def google_db_def settings_lookup_def keys)
  with on show ?thesis by blast
qed

section \<open>The mail password\<close>

text \<open>Saving the mail settings with the masked password keeps the stored one, but if the read of the stored
  password fails, the save goes on and replaces the password with nothing.\<close>

theorem smtp_password_lost:
  assumes "sm_password c = setting_secret_mask" "\<not> sm_enabled c"
  shows "settings_lookup ''smtp_password'' (settings (db (snd (save_smtp_config id c (w\<lparr>faults := []\<rparr>))))) =
      settings_lookup ''smtp_password'' (settings (db w)) \<and>
    settings_lookup ''smtp_password'' (settings (db (snd (save_smtp_config id c (w\<lparr>faults := [False, False, False, True]\<rparr>))))) = []"
  using assms
  by (simp_all add: save_smtp_config_def get_smtp_config_def save_pairs_def smtp_pairs_def setting_or_empty_eval settings_set_eval
      bind_def handle_def seq_def next_fault_def fault_now_def lookup_put)

lemma smtp_password_lost_witness:
  "settings_lookup ''smtp_password'' (settings (db (snd (save_smtp_config id
     \<lparr>sm_host = [], sm_port = [], sm_user = [], sm_password = setting_secret_mask, sm_from = [], sm_enabled = False\<rparr>
     (world_of google_db\<lparr>faults := [False, False, False, True]\<rparr>))))) = []"
  using smtp_password_lost [of "\<lparr>sm_host = [], sm_port = [], sm_user = [], sm_password = setting_secret_mask, sm_from = [], sm_enabled = False\<rparr>"
      "world_of google_db"] by simp

end
