(* ===== verification/Domain_Service.thy ===== *)
theory Domain_Service imports Hosting_Service Setting_Service begin

text \<open>
  The domains of applications (\<open>service/domain_service.go\<close>).  The ingresses of the cluster are reached through the
  record \<open>ingress_binder\<close> (whether the application's target binds ingresses, what it answers about one, how it names
  them); creating, updating and deleting an ingress are recorded calls that may fail.
\<close>

section \<open>Host names\<close>

definition normalize_domain_host :: "string \<Rightarrow> string" where
  "normalize_domain_host h = trim_right_by (\<lambda>c. c = CHR ''.'') (to_lower (trim_space h))"

definition host_char :: "char \<Rightarrow> bool" where
  "host_char c \<longleftrightarrow> is_lower_char c \<or> is_digit_char c \<or> c = CHR ''-''"

definition label_error :: "string \<Rightarrow> go_error option" where
  "label_error l =
     (if l = [] \<or> length l > 63 then Some (ErrMsg (''each label must be 1-63 characters, got '' @ quoted l))
      else if hd l = CHR ''-'' \<or> last l = CHR ''-'' then
        Some (ErrMsg (''label '' @ quoted l @ '' must not start or end with a hyphen''))
      else (case find (\<lambda>c. \<not> host_char c) l of
          Some c \<Rightarrow> Some (ErrMsg (''invalid character '' @ single_quoted [c] @ '' in hostname''))
        | None \<Rightarrow> None))"

fun first_error :: "('a \<Rightarrow> go_error option) \<Rightarrow> 'a list \<Rightarrow> go_error option" where
  "first_error f [] = None"
| "first_error f (x # xs) = (case f x of Some e \<Rightarrow> Some e | None \<Rightarrow> first_error f xs)"

definition validate_domain_host :: "string \<Rightarrow> go_error option" where
  "validate_domain_host h =
     (if h = [] then Some (ErrMsg ''hostname cannot be empty'')
      else if length h > 253 then Some (ErrMsg ''hostname must be 253 characters or fewer'')
      else let labels = split_on (CHR ''.'') h in
        case first_error label_error labels of
          Some e \<Rightarrow> Some e
        | None \<Rightarrow> if length labels < 2 \<and> h \<noteq> ''localhost'' then
              Some (ErrMsg ''hostname must have at least two labels (e.g. app.example.com)'')
            else None)"

section \<open>Creation\<close>

record ingress_binder =
  ib_target :: "application \<Rightarrow> go_error option"
  ib_ready :: "domain \<Rightarrow> application \<Rightarrow> bool option"
  ib_expiry :: "domain \<Rightarrow> application \<Rightarrow> time option option"
  ib_name :: "application \<Rightarrow> string \<Rightarrow> string"
  ib_legacy :: "application \<Rightarrow> string \<Rightarrow> string"

record create_domain_input =
  cd_host :: string
  cd_tls :: bool
  cd_auto_cert :: bool

definition new_domain :: "uuid \<Rightarrow> string \<Rightarrow> bool \<Rightarrow> bool \<Rightarrow> domain" where
  "new_domain a h tls cert = \<lparr>bm_id = uuid_nil, bm_created = 0, bm_updated = 0, bm_deleted = None, dom_app = a, dom_host = h,
     dom_tls = tls, dom_auto_cert = cert, dom_cert_secret = [], dom_force_https = False, dom_cert_expiry = None,
     dom_ready = False\<rparr>"

definition taken_error :: "go_error \<Rightarrow> go_error" where
  "taken_error e = (if e = ErrUnique then ErrMsg ''domain already in use'' else e)"

definition undo_create :: "domain \<Rightarrow> go_error \<Rightarrow> domain io" where
  "undo_create d e = seq (attempt (domains_delete (bm_id d))) (err e)"

definition sync_ready :: "ingress_binder \<Rightarrow> application \<Rightarrow> domain \<Rightarrow> domain io" where
  "sync_ready B a d = (case ib_ready B d a of
     None \<Rightarrow> ret d
   | Some r \<Rightarrow> let d' = d\<lparr>dom_ready := r\<rparr> in seq (attempt (domains_update_row d')) (ret d'))"

definition domain_create :: "ingress_binder \<Rightarrow> uuid \<Rightarrow> create_domain_input \<Rightarrow> domain io" where
  "domain_create B ai inp = (let h = normalize_domain_host (cd_host inp) in
     case validate_domain_host h of
       Some e \<Rightarrow> err e
     | None \<Rightarrow> bind (applications_get_by_id ai) (\<lambda>a.
         handle (domains_create (new_domain ai h (cd_tls inp) (cd_auto_cert inp))) (\<lambda>e. err (taken_error e)) (\<lambda>d.
           case ib_target B a of
             Some e \<Rightarrow> undo_create d e
           | None \<Rightarrow> handle (cluster (CreateIngress (dom_host d) (bm_id a)))
               (\<lambda>e. undo_create d (ErrWrap ''create ingress failed'' e)) (\<lambda>_. sync_ready B a d))))"

subsection \<open>Generated domains\<close>

definition domain_label :: "string \<Rightarrow> string" where
  "domain_label n =
     (let s = map (\<lambda>c. if is_lower_char c \<or> is_digit_char c then c else CHR ''-'') (to_lower n);
          t = trim_by (\<lambda>c. c = CHR ''-'') s;
          u = (if t = [] then ''app'' else t) in
      if length u > 40 then take 40 u else u)"

definition is_dev_domain :: "string \<Rightarrow> bool" where
  "is_dev_domain b \<longleftrightarrow> contains b ''nip.io'' \<or> contains b ''sslip.io'' \<or> contains b ''traefik.me'' \<or>
     has_suffix b ''.localhost'' \<or> has_suffix b ''.local'' \<or> has_suffix b ''.test'' \<or> b = ''localhost''"

definition random_short :: "nat \<Rightarrow> string io" where
  "random_short n = bind (rand_bytes n) (\<lambda>bs. ret (take n (hex_encode bs)))"

definition generate_traefik_domain :: "ingress_binder \<Rightarrow> uuid \<Rightarrow> domain io" where
  "generate_traefik_domain B ai = bind (setting_or_empty setting_base_domain) (\<lambda>base.
     if base = [] then err (ErrMsg (''base domain not configured '' @ em_dash @ '' go to Settings to set it up''))
     else bind (applications_get_by_id ai) (\<lambda>a.
       bind (handle (domains_list_by_app ai) (\<lambda>_. ret []) ret) (\<lambda>existing.
       case ib_target B a of
         Some e \<Rightarrow> err e
       | None \<Rightarrow> (case find (\<lambda>d. has_suffix (dom_host d) (CHR ''.'' # base)) existing of
           Some d \<Rightarrow> seq (attempt (cluster (CreateIngress (dom_host d) (bm_id a)))) (ret d)
         | None \<Rightarrow> bind (random_short 4) (\<lambda>suffix.
             let tls = \<not> is_dev_domain base;
                 h = domain_label (a_name a) @ CHR ''-'' # suffix @ CHR ''.'' # base in
             bind (domains_create (new_domain ai h tls tls)) (\<lambda>d.
               handle (cluster (CreateIngress (dom_host d) (bm_id a)))
                 (\<lambda>e. undo_create d (ErrWrap ''create ingress failed'' e))
                 (\<lambda>_. let d' = (case ib_ready B d a of None \<Rightarrow> d | Some r \<Rightarrow> d\<lparr>dom_ready := r\<rparr>) in
                   seq (attempt (domains_update_row d')) (ret d'))))))))"

section \<open>Changes\<close>

text \<open>A rename writes the row first, so that the index decides whether the host is free, then creates the new
  ingress, and takes the row back if that fails; the old ingress is deleted last, under both of its names.\<close>

definition drop_old_ingress :: "ingress_binder \<Rightarrow> application \<Rightarrow> string \<Rightarrow> unit io" where
  "drop_old_ingress B a old = seq (attempt (cluster (DeleteIngressByName (ib_name B a old))))
     (if ib_legacy B a old \<noteq> ib_name B a old then attempt (cluster (DeleteIngressByName (ib_legacy B a old))) else ret ())"

definition rename_domain :: "ingress_binder \<Rightarrow> application \<Rightarrow> domain \<Rightarrow> domain \<Rightarrow> domain io" where
  "rename_domain B a old d = handle (domains_update_row d) (\<lambda>e. err (taken_error e)) (\<lambda>_.
     handle (cluster (CreateIngress (dom_host d) (bm_id a)))
       (\<lambda>e. handle (domains_update_row (d\<lparr>dom_host := dom_host old, dom_force_https := dom_force_https old\<rparr>))
          (\<lambda>_. err (ErrMsg (''ingress creation failed and rollback failed '' @ em_dash @ '' manual fix required'')))
          (\<lambda>_. err (ErrWrap ''failed to create ingress for new host'' e)))
       (\<lambda>_. seq (drop_old_ingress B a (dom_host old)) (sync_ready B a d)))"

definition change_domain :: "domain \<Rightarrow> application \<Rightarrow> domain io" where
  "change_domain d a = handle (domains_update_row d) (\<lambda>e. err (taken_error e)) (\<lambda>_.
     handle (cluster (UpdateIngress (dom_host d) (bm_id a))) (\<lambda>e. err (ErrWrap ''domain saved, but ingress not updated'' e)) (\<lambda>_. ret d))"

definition domain_update_commit :: "ingress_binder \<Rightarrow> application \<Rightarrow> domain \<Rightarrow> string option \<Rightarrow> bool option \<Rightarrow> domain io" where
  "domain_update_commit B a d host force =
     (let h = (case host of None \<Rightarrow> [] | Some x \<Rightarrow> if x = [] then [] else normalize_domain_host x) in
      case (case host of None \<Rightarrow> None | Some x \<Rightarrow> if x = [] then None else validate_domain_host h) of
        Some e \<Rightarrow> err e
      | None \<Rightarrow>
          let forced = (case force of None \<Rightarrow> d | Some f \<Rightarrow> d\<lparr>dom_force_https := f\<rparr>) in
          if h \<noteq> [] \<and> h \<noteq> dom_host d then
            (if dom_tls d \<and> \<not> dom_auto_cert d then err (ErrMsg ''cannot rename a domain with a manually configured TLS certificate'')
             else rename_domain B a d (forced\<lparr>dom_host := h\<rparr>))
          else change_domain forced a)"

definition domain_update :: "ingress_binder \<Rightarrow> uuid \<Rightarrow> string option \<Rightarrow> bool option \<Rightarrow> domain io" where
  "domain_update B i host force = bind (domains_get_by_id i) (\<lambda>d. bind (applications_get_by_id (dom_app d)) (\<lambda>a.
     case ib_target B a of Some e \<Rightarrow> err e | None \<Rightarrow> domain_update_commit B a d host force))"

section \<open>Lists and deletion\<close>

definition live_domain :: "ingress_binder \<Rightarrow> application \<Rightarrow> domain \<Rightarrow> domain" where
  "live_domain B a d0 =
     (let d1 = (case ib_ready B d0 a of None \<Rightarrow> d0 | Some r \<Rightarrow> d0\<lparr>dom_ready := r\<rparr>);
          d2 = (if dom_tls d1 \<and> dom_cert_secret d1 \<noteq> ''traefik-acme'' then d1\<lparr>dom_cert_secret := ''traefik-acme''\<rparr> else d1) in
      if dom_tls d2 \<and> dom_cert_secret d2 \<noteq> [] then
        (case ib_expiry B d2 a of
           Some (Some t) \<Rightarrow> if dom_cert_expiry d2 \<noteq> Some t then d2\<lparr>dom_cert_expiry := Some t\<rparr> else d2
         | _ \<Rightarrow> d2)
      else d2)"

fun sync_domains :: "ingress_binder \<Rightarrow> application \<Rightarrow> domain list \<Rightarrow> domain list io" where
  "sync_domains B a [] = ret []"
| "sync_domains B a (d # ds) = (let d' = live_domain B a d in
     seq (if d' = d then ret () else attempt (domains_update_row d'))
       (bind (sync_domains B a ds) (\<lambda>ds'. ret (d' # ds'))))"

definition domain_list :: "ingress_binder \<Rightarrow> uuid \<Rightarrow> domain list io" where
  "domain_list B ai = bind (domains_list_by_app ai) (\<lambda>ds.
     handle (applications_get_by_id ai) (\<lambda>_. ret ds) (\<lambda>a.
       if ib_target B a \<noteq> None then ret ds else sync_domains B a ds))"

definition domain_delete :: "ingress_binder \<Rightarrow> uuid \<Rightarrow> unit io" where
  "domain_delete B i = bind (domains_get_by_id i) (\<lambda>d. bind (applications_get_by_id (dom_app d)) (\<lambda>a.
     case ib_target B a of
       Some e \<Rightarrow> err e
     | None \<Rightarrow> handle (cluster (DeleteIngress (dom_host d))) (\<lambda>e. err (ErrWrap ''failed to remove ingress from cluster'' e)) (\<lambda>_.
         seq (domains_delete i) (notify_project_resource_deleted (a_project a) ''domain_deleted'' (dom_host d)
           (''Domain '' @ quoted (dom_host d) @ '' was deleted from application '' @ quoted (a_name a))))))"

end
