(* ===== verification/Domain_Registry.thy ===== *)
theory Domain_Registry imports Domain_Service begin

text \<open>
  What the domain service promises, as a registry: a map from a host to the application that owns it.  A request adds
  a free host, moves a host of an application to another name, or drops one, and a request that returns an error leaves
  the registry alone, as long as no more than one call fails while it runs.
\<close>

section \<open>The registry of a table\<close>

definition live_rows :: "'a base_model_scheme list \<Rightarrow> 'a base_model_scheme set" where
  "live_rows t = {x \<in> set t. live x}"

definition owners :: "domain list \<Rightarrow> string \<Rightarrow> uuid option" where
  "owners t h = map_option dom_app (find_live (\<lambda>x. dom_host x = h) t)"

definition registered :: "domain list \<Rightarrow> bool" where
  "registered t \<longleftrightarrow> distinct_ids t \<and> inj_on dom_host (live_rows t)"

inductive registry_step :: "(string \<Rightarrow> uuid option) \<Rightarrow> (string \<Rightarrow> uuid option) \<Rightarrow> bool" where
  stays: "registry_step R R"
| adds: "R h = None \<Longrightarrow> registry_step R (R(h \<mapsto> a))"
| moves: "R h = Some a \<Longrightarrow> R h' = None \<Longrightarrow> registry_step R (R(h := None, h' \<mapsto> a))"
| drops: "R h = Some a \<Longrightarrow> registry_step R (R(h := None))"

lemma owners_Some:
  assumes "registered t"
  shows "owners t h = Some a \<longleftrightarrow> (\<exists>x \<in> live_rows t. dom_host x = h \<and> dom_app x = a)"
proof
  assume "owners t h = Some a"
  then obtain x where "find_live (\<lambda>x. dom_host x = h) t = Some x" "dom_app x = a" by (auto simp: owners_def)
  then have "x \<in> live_rows t" "dom_host x = h" by (auto simp: find_live_def live_rows_def find_Some_iff)
  with \<open>dom_app x = a\<close> show "\<exists>x \<in> live_rows t. dom_host x = h \<and> dom_app x = a" by blast
next
  assume "\<exists>x \<in> live_rows t. dom_host x = h \<and> dom_app x = a"
  then obtain x where x: "x \<in> live_rows t" "dom_host x = h" "dom_app x = a" by blast
  then have "find_live (\<lambda>x. dom_host x = h) t \<noteq> None" by (auto simp: find_live_def find_None_iff live_rows_def)
  then obtain y where y: "find_live (\<lambda>x. dom_host x = h) t = Some y" by blast
  then have "y \<in> live_rows t" "dom_host y = h" by (auto simp: find_live_def live_rows_def find_Some_iff)
  with x assms have "y = x" by (auto simp: registered_def dest: inj_onD)
  with x y show "owners t h = Some a" by (simp add: owners_def)
qed

lemma owners_None: "owners t h = None \<longleftrightarrow> (\<forall>x \<in> live_rows t. dom_host x \<noteq> h)"
  by (auto simp: owners_def find_live_def find_None_iff live_rows_def)

lemma map_eqI: "(\<And>h a. f h = Some a \<longleftrightarrow> g h = Some a) \<Longrightarrow> f = g"
  by (intro ext) (metis option.exhaust)

lemma owners_eqI:
  assumes "registered t" "registered t'" "live_rows t' = live_rows t"
  shows "owners t' = owners t"
  using assms by (intro map_eqI) (simp add: owners_Some)

section \<open>Rows\<close>

lemma live_rows_append: "live_rows (t @ [d]) = (if live d then insert d (live_rows t) else live_rows t)"
  by (auto simp: live_rows_def)

lemma live_rows_delete: "live_rows (delete_pk n i t) = {x \<in> live_rows t. bm_id x \<noteq> i}"
  by (auto simp: live_rows_def delete_pk_def soft_delete_def update_live_def live_def)

lemma live_rows_replace:
  assumes "distinct_ids t" "by_id (bm_id d) t = Some old" "live d"
  shows "live_rows (replace_pk d t) = insert d (live_rows t - {old})"
proof -
  have old: "old \<in> set t" "live old" "bm_id old = bm_id d" using assms(2) by (auto dest: find_live_iff)
  have only: "y = old" if "y \<in> set t" "live y" "bm_id y = bm_id d" for y
    using that assms(1,2) by_id_Some_iff [of t "bm_id d" y] by simp
  have mem: "y \<in> set (replace_pk d t) \<longleftrightarrow> (\<exists>x \<in> set t. y = (if x = old then d else x))" for y
  proof -
    have "(live x \<and> bm_id x = bm_id d) = (x = old)" if "x \<in> set t" for x
    proof
      show "live x \<and> bm_id x = bm_id d" if "x = old" unfolding that by (intro conjI old)
    qed (use only [OF that] in simp)
    then show ?thesis by (simp add: replace_pk_def update_live_def image_iff cong: bex_cong) blast
  qed
  show ?thesis
  proof (rule set_eqI)
    fix y
    show "y \<in> live_rows (replace_pk d t) \<longleftrightarrow> y \<in> insert d (live_rows t - {old})"
      using mem [of y] old(1) assms(3) by (cases "y = d") (auto simp: live_rows_def)
  qed
qed

lemma registered_append:
  assumes "registered t" "live d" "bm_id d \<notin> set (map bm_id t)" "unique_live dom_host d t"
  shows "registered (t @ [d])" "owners (t @ [d]) = (owners t)(dom_host d \<mapsto> dom_app d)" "owners t (dom_host d) = None"
proof -
  have free: "x \<in> live_rows t \<Longrightarrow> dom_host x \<noteq> dom_host d" for x
    using assms(4) by (auto simp: unique_live_def live_rows_def list_all_iff)
  show r: "registered (t @ [d])"
    using assms free by (auto simp: registered_def distinct_ids_def live_rows_append inj_on_def) metis+
  show "owners t (dom_host d) = None" using free by (simp add: owners_None)
  show "owners (t @ [d]) = (owners t)(dom_host d \<mapsto> dom_app d)"
    using free assms(2) by (intro map_eqI) (auto simp: owners_Some [OF r] owners_Some [OF assms(1)] live_rows_append)
qed

lemma registered_delete:
  assumes "registered t"
  shows "registered (delete_pk n i t)"
    "by_id i t = Some d \<Longrightarrow> owners (delete_pk n i t) = (owners t)(dom_host d := None)"
    "by_id i t = Some d \<Longrightarrow> owners t (dom_host d) = Some (dom_app d)"
proof -
  show r: "registered (delete_pk n i t)"
    using assms by (auto simp: registered_def live_rows_delete inj_on_def)
  assume "by_id i t = Some d"
  then have d: "d \<in> live_rows t" "bm_id d = i" by (auto simp: live_rows_def dest: find_live_iff)
  have only: "x = d" if "x \<in> live_rows t" "bm_id x = i" for x
    using that d assms by_id_Some_iff [of t i x] by_id_Some_iff [of t i d] by (auto simp: registered_def live_rows_def)
  show "owners t (dom_host d) = Some (dom_app d)" using d by (auto simp: owners_Some [OF assms])
  have "bm_id x \<noteq> i \<longleftrightarrow> dom_host x \<noteq> dom_host d" if "x \<in> live_rows t" for x
  proof -
    have "inj_on dom_host (live_rows t)" using assms by (simp add: registered_def)
    from inj_on_eq_iff [OF this that d(1)] show ?thesis using only [OF that] d(2) by blast
  qed
  then show "owners (delete_pk n i t) = (owners t)(dom_host d := None)"
    by (intro map_eqI) (auto simp: owners_Some [OF r] owners_Some [OF assms] live_rows_delete)
qed

lemma registered_replace:
  assumes "registered t" "by_id (bm_id d) t = Some old" "live d"
    and "unique_live dom_host d (filter (\<lambda>x. bm_id x \<noteq> bm_id d) t)" "dom_app d = dom_app old"
  shows "registered (replace_pk d t)"
    "owners (replace_pk d t) = (owners t)(dom_host old := None, dom_host d \<mapsto> dom_app old)"
    "dom_host d \<noteq> dom_host old \<Longrightarrow> owners t (dom_host d) = None"
    "owners t (dom_host old) = Some (dom_app old)"
proof -
  have old: "old \<in> live_rows t" "bm_id old = bm_id d" using assms(2) by (auto simp: live_rows_def dest: find_live_iff)
  have dist: "distinct_ids t" using assms(1) by (simp add: registered_def)
  have only: "x = old" if "x \<in> live_rows t" "bm_id x = bm_id d" for x
    using that old by_id_Some_iff [OF dist, of "bm_id d" x] assms(2) by (auto simp: live_rows_def)
  have free: "dom_host x \<noteq> dom_host d" if "x \<in> live_rows t" "x \<noteq> old" for x
    using that only assms(4) by (auto simp: unique_live_def live_rows_def list_all_iff)
  note rows = live_rows_replace [OF dist assms(2,3)]
  show r: "registered (replace_pk d t)"
    using assms(1) free by (auto simp: registered_def rows inj_on_def) metis+
  show "dom_host d \<noteq> dom_host old \<Longrightarrow> owners t (dom_host d) = None" using free unfolding owners_None by metis
  show "owners t (dom_host old) = Some (dom_app old)" using old by (auto simp: owners_Some [OF assms(1)])
  have "x \<noteq> old \<longleftrightarrow> dom_host x \<noteq> dom_host old" if "x \<in> live_rows t" for x
  proof -
    have "inj_on dom_host (live_rows t)" using assms(1) by (simp add: registered_def)
    from inj_on_eq_iff [OF this that old(1)] show ?thesis by blast
  qed
  then show "owners (replace_pk d t) = (owners t)(dom_host old := None, dom_host d \<mapsto> dom_app old)"
    using free assms(5) by (intro map_eqI) (auto simp: owners_Some [OF r] owners_Some [OF assms(1)] rows)
qed

section \<open>Requests\<close>

text \<open>How many of the calls ahead fail: at most one, or none any more.\<close>

definition spent :: "world \<Rightarrow> bool" where
  "spent w \<longleftrightarrow> True \<notin> set (faults w) \<and> True \<notin> set (refusals w)"

definition one_failure :: "world \<Rightarrow> bool" where
  "one_failure w \<longleftrightarrow> length (filter id (faults w)) + length (filter id (refusals w)) \<le> 1"

text \<open>One call has been made: a statement, or a call to the surroundings.\<close>

definition one_call :: "world \<Rightarrow> world \<Rightarrow> bool" where
  "one_call w w' \<longleftrightarrow> faults w' = tl (faults w) \<and> refusals w' = refusals w \<or> faults w' = faults w \<and> refusals w' = tl (refusals w)"

lemma one_call_next [simp]: "one_call w (next_fault w)" "one_call w (next_answer w)"
  "one_call w (w'\<lparr>db := d\<rparr>) = one_call w w'" "one_call w (w'\<lparr>calls := c\<rparr>) = one_call w w'" "one_call w (w'\<lparr>id_next := n\<rparr>) = one_call w w'"
  by (simp_all add: one_call_def next_fault_def next_answer_def)

lemma spent_now: "spent w \<Longrightarrow> \<not> fault_now w"
  by (auto simp: spent_def fault_now_def split: list.splits)

lemma spent_tl: "spent w \<Longrightarrow> one_call w w' \<Longrightarrow> spent w'"
  by (cases "faults w"; cases "refusals w") (auto simp: spent_def one_call_def)

lemma failure_spends: "one_failure w \<Longrightarrow> fault_now w \<Longrightarrow> spent (next_fault w)"
  by (cases "faults w") (auto simp: spent_def one_failure_def fault_now_def next_fault_def filter_empty_conv)

lemma refusal_spends: "one_failure w \<Longrightarrow> refused_now w \<Longrightarrow> spent (next_answer w)"
  by (cases "refusals w") (auto simp: spent_def one_failure_def refused_now_def next_answer_def filter_empty_conv)

lemma one_failure_tl: "one_failure w \<Longrightarrow> one_call w w' \<Longrightarrow> one_failure w'"
  by (cases "faults w"; cases "refusals w") (auto simp: one_failure_def one_call_def split: if_splits)

lemma spent_updates [simp]: "spent (w\<lparr>db := d\<rparr>) = spent w" "spent (w\<lparr>calls := c\<rparr>) = spent w"
  by (simp_all add: spent_def)

definition holds :: "(string \<Rightarrow> uuid option) \<Rightarrow> world \<Rightarrow> bool" where
  "holds R w \<longleftrightarrow> registered (domains (db w)) \<and> owners (domains (db w)) = R"

lemma holds_same: "holds R w \<Longrightarrow> domains (db w') = domains (db w) \<Longrightarrow> holds R w'"
  by (simp add: holds_def)

lemma holds_reads: "reads m \<Longrightarrow> m w = (r, w') \<Longrightarrow> holds R w \<Longrightarrow> holds R w'"
  using readsD [of m w r w'] by (auto intro: holds_same)

lemma create_step:
  assumes "domains_create x w = (r, w1)" "holds R w"
  shows "one_call w w1" "r = Inl e \<Longrightarrow> holds R w1"
    "r = Inr d \<Longrightarrow> holds (R(dom_host x \<mapsto> dom_app x)) w1 \<and> R (dom_host x) = None \<and> dom_host d = dom_host x \<and>
       dom_app d = dom_app x \<and> by_id (bm_id d) (domains (db w1)) = Some d \<and> live d"
proof -
  show "one_call w w1"
    using assms(1) by (auto simp: domains_create_def insert_row_def Let_def split: if_splits)
  show "holds R w1" if "r = Inl e"
    using assms that by (auto simp: domains_create_def insert_row_def Let_def holds_def split: if_splits)
  assume "r = Inr d"
  with assms(1) have d: "d = fill_defaults w x" "bm_id d \<notin> set (map bm_id (domains (db w)))" "unique_live dom_host d (domains (db w))"
    and t: "domains (db w1) = domains (db w) @ [d]"
    by (auto simp: domains_create_def insert_row_def Let_def append_row_def split: if_splits)
  have l: "live d" "dom_host d = dom_host x" "dom_app d = dom_app x" by (simp_all add: d(1) fill_defaults_def live_def)
  have "registered (domains (db w))" "owners (domains (db w)) = R" using assms(2) by (simp_all add: holds_def)
  note a = registered_append [OF this(1) l(1) d(2,3)]
  have "by_id (bm_id d) (domains (db w1)) = Some d"
  proof (rule by_id_eqI)
    show "distinct_ids (domains (db w1))" using a(1) by (simp add: t registered_def)
  qed (simp_all add: t l)
  with a l assms(2) show "holds (R(dom_host x \<mapsto> dom_app x)) w1 \<and> R (dom_host x) = None \<and> dom_host d = dom_host x \<and>
       dom_app d = dom_app x \<and> by_id (bm_id d) (domains (db w1)) = Some d \<and> live d"
    by (simp add: holds_def t)
qed

lemma update_step:
  assumes "domains_update_row d w = (r, w1)" "holds R w" "by_id (bm_id d) (domains (db w)) = Some old" "live d" "dom_app d = dom_app old"
  shows "one_call w w1" "r = Inl e \<Longrightarrow> domains (db w1) = domains (db w)"
    "r = Inr u \<Longrightarrow> holds (R(dom_host old := None, dom_host d \<mapsto> dom_app old)) w1 \<and> by_id (bm_id d) (domains (db w1)) = Some d \<and>
       (dom_host d \<noteq> dom_host old \<longrightarrow> R (dom_host d) = None) \<and> R (dom_host old) = Some (dom_app old)"
proof -
  show "one_call w w1"
    using assms(1) by (auto simp: domains_update_row_def update_row_def statement_def split: if_splits)
  show "domains (db w1) = domains (db w)" if "r = Inl e"
    using assms(1) that by (auto simp: domains_update_row_def update_row_def statement_def split: if_splits)
  assume "r = Inr u"
  with assms(1,3) have q: "unique_live dom_host d (filter (\<lambda>x. bm_id x \<noteq> bm_id d) (domains (db w)))"
    and t: "domains (db w1) = replace_pk d (domains (db w))"
    by (auto simp: domains_update_row_def update_row_def statement_def split: if_splits)
  have h: "registered (domains (db w))" "owners (domains (db w)) = R" using assms(2) by (simp_all add: holds_def)
  note a = registered_replace [OF h(1) assms(3,4) q assms(5)]
  have "live_rows (domains (db w1)) = insert d (live_rows (domains (db w)) - {old})"
    unfolding t by (rule live_rows_replace) (use h(1) assms(3,4) in \<open>simp_all add: registered_def\<close>)
  then have "d \<in> set (domains (db w1))" unfolding live_rows_def by blast
  moreover have "distinct_ids (domains (db w1))" using a(1) by (simp add: t registered_def)
  ultimately have "by_id (bm_id d) (domains (db w1)) = Some d" using assms(4) by (simp add: by_id_eqI)
  with a h(2) show "holds (R(dom_host old := None, dom_host d \<mapsto> dom_app old)) w1 \<and> by_id (bm_id d) (domains (db w1)) = Some d \<and>
       (dom_host d \<noteq> dom_host old \<longrightarrow> R (dom_host d) = None) \<and> R (dom_host old) = Some (dom_app old)"
    by (simp add: holds_def t)
qed

lemma sync_ready_step:
  assumes "sync_ready B a d w = (r, w1)" "holds R w" "by_id (bm_id d) (domains (db w)) = Some d"
  shows "holds R w1 \<and> (\<exists>d'. r = Inr d' \<and> dom_host d' = dom_host d \<and> dom_app d' = dom_app d)"
proof (cases "ib_ready B d a")
  case None with assms show ?thesis by (auto simp: sync_ready_def)
next
  case (Some b)
  let ?d = "d\<lparr>dom_ready := b\<rparr>"
  obtain r2 w2 where u: "domains_update_row ?d w = (r2, w2)" by (cases "domains_update_row ?d w")
  have w1: "w1 = w2" "r = Inr ?d" using assms(1) Some u by (auto simp: sync_ready_def Let_def seq_def bind_def attempt_eval)
  have l: "live ?d" "bm_id ?d = bm_id d" using assms(3) by (auto simp: live_def dest: by_id_live)
  have R: "R (dom_host d) = Some (dom_app d)"
    using assms(2,3) registered_delete(3) [of "domains (db w)" "bm_id d" d] by (simp add: holds_def)
  have "holds R w2"
  proof (cases r2)
    case (Inl e) with update_step(2) [OF u assms(2), of d] assms l show ?thesis by (auto intro: holds_same)
  next
    case (Inr x) with update_step(3) [OF u assms(2), of d] assms l R show ?thesis by (simp add: fun_upd_triv fun_upd_idem)
  qed
  with w1 show ?thesis by simp
qed

end
