(* ===== verification/Domain_Refine.thy ===== *)
theory Domain_Refine imports Domain_Registry Deploy_Finish begin

text \<open>
  Every request of the domain service is a step of the registry of \<open>Domain_Registry\<close>: first a triple for each
  statement the requests share, then one for each request.  The flag \<open>b\<close> says that at most one call fails and that
  every application has a place for its ingresses; a request that returns an error then leaves the registry alone.
\<close>

section \<open>Assertions\<close>

definition lawful :: "bool \<Rightarrow> (string \<Rightarrow> uuid option) \<Rightarrow> world \<Rightarrow> bool" where
  "lawful b R w \<longleftrightarrow> holds R w \<and> (b \<longrightarrow> one_failure w)"

definition row_at :: "bool \<Rightarrow> (string \<Rightarrow> uuid option) \<Rightarrow> domain \<Rightarrow> world \<Rightarrow> bool" where
  "row_at b R d w \<longleftrightarrow> lawful b R w \<and> by_id (bm_id d) (domains (db w)) = Some d"

definition outcome :: "bool \<Rightarrow> (string \<Rightarrow> uuid option) \<Rightarrow> go_error + 'a \<Rightarrow> world \<Rightarrow> bool" where
  "outcome b R r w \<longleftrightarrow> (\<exists>R'. holds R' w \<and> registry_step R R' \<and> (b \<and> isl r \<longrightarrow> R' = R))"

lemma outcome_stays: "holds R w \<Longrightarrow> outcome b R r w"
  unfolding outcome_def by (blast intro: stays)

lemma outcome_ok: "holds R' w \<Longrightarrow> registry_step R R' \<Longrightarrow> outcome b R (Inr x) w"
  unfolding outcome_def by auto

lemma lawful_holds: "lawful b R w \<Longrightarrow> holds R w"
  by (simp add: lawful_def)

lemma row_lawful: "row_at b R d w \<Longrightarrow> lawful b R w"
  by (simp add: row_at_def)

lemma row_owner: "row_at b R d w \<Longrightarrow> live d \<and> R (dom_host d) = Some (dom_app d)"
  using registered_delete(3) [of "domains (db w)" "bm_id d" d]
  by (auto simp: row_at_def lawful_def holds_def live_def dest: by_id_live)

lemma spent_one: "spent w \<Longrightarrow> one_failure w"
proof -
  assume "spent w"
  then have "filter id (faults w) = []" "filter id (refusals w) = []" by (auto simp: spent_def filter_empty_conv)
  then show ?thesis by (simp add: one_failure_def)
qed

lemma keeps_one_statement [keeps_intros]: "keeps one_failure (statement f)"
  by (auto simp: keeps_def statement_def split: prod.splits elim!: one_failure_tl)

lemma keeps_one_steps [keeps_intros]:
  "keeps one_failure (query f)" "keeps one_failure (query_row g)" "keeps one_failure (exec h)" "keeps one_failure now"
  "keeps one_failure (cluster c)" "keeps one_failure (notify og ev ti de)" "keeps one_failure (rand_bytes n)"
  by (simp_all add: query_def query_row_def exec_def keeps_one_statement now_def keeps_intros)
     (simp_all add: keeps_def cluster_def rand_bytes_def one_failure_tl, simp_all add: one_failure_def)

lemma ens_read_any: "reads m \<Longrightarrow> keeps one_failure m \<Longrightarrow> ensures (lawful b R) m (\<lambda>_. lawful b R)"
  unfolding ensures_def lawful_def keeps_def reads_def by (auto intro: holds_same)

lemma ens_read_row: "reads m \<Longrightarrow> keeps one_failure m \<Longrightarrow> ensures (row_at b R d) m (\<lambda>_. row_at b R d)"
  unfolding ensures_def row_at_def lawful_def keeps_def reads_def by (auto intro: holds_same)

lemma ens_bind_read:
  assumes "reads m" "keeps one_failure m" "\<And>x. ensures (lawful b R) (k x) (outcome b R)"
  shows "ensures (lawful b R) (bind m k) (outcome b R)"
  unfolding bind_def
  by (rule ens_handle [OF ens_read_any [OF assms(1,2)]]) (auto intro: assms(3) ens_err outcome_stays lawful_holds)

lemma ens_err_lawful: "ensures (lawful b R) (err e) (outcome b R)"
  by (auto intro: ens_err outcome_stays lawful_holds)

section \<open>Statements\<close>

lemma ens_domain_get:
  "ensures (lawful b R) (domains_get_by_id i) (\<lambda>r w. case r of Inl _ \<Rightarrow> lawful b R w | Inr d \<Rightarrow> row_at b R d w \<and> bm_id d = i)"
  by (auto simp: ensures_def domains_get_by_id_def query_row_def statement_def row_at_def lawful_def
      holds_def split: option.splits dest: by_id_key elim: one_failure_tl)

lemma ens_domain_create:
  "ensures (lawful b R) (domains_create x) (\<lambda>r w. case r of Inl _ \<Rightarrow> holds R w
     | Inr d \<Rightarrow> R (dom_host x) = None \<and> row_at b (R(dom_host x \<mapsto> dom_app x)) d w \<and> dom_host d = dom_host x \<and> dom_app d = dom_app x)"
proof (unfold ensures_def, intro allI impI)
  fix w assume w: "lawful b R w"
  obtain r w1 where e: "domains_create x w = (r, w1)" by (cases "domains_create x w")
  note h = lawful_holds [OF w]
  have "b \<longrightarrow> one_failure w1" using w create_step(1) [OF e h] one_failure_tl by (auto simp: lawful_def)
  then show "case fst (domains_create x w) of Inl _ \<Rightarrow> holds R (snd (domains_create x w))
     | Inr d \<Rightarrow> R (dom_host x) = None \<and> row_at b (R(dom_host x \<mapsto> dom_app x)) d (snd (domains_create x w)) \<and>
         dom_host d = dom_host x \<and> dom_app d = dom_app x"
    using create_step(2,3) [OF e h] by (cases r) (simp_all add: e row_at_def lawful_def)
qed

lemma ens_domain_update:
  assumes "bm_id d = bm_id old" "live d" "dom_app d = dom_app old"
  shows "ensures (row_at b R old) (domains_update_row d) (\<lambda>r w. case r of Inl _ \<Rightarrow> row_at b R old w
     | Inr _ \<Rightarrow> row_at b (R(dom_host old := None, dom_host d \<mapsto> dom_app old)) d w \<and> (dom_host d \<noteq> dom_host old \<longrightarrow> R (dom_host d) = None))"
proof (unfold ensures_def, intro allI impI)
  fix w assume w: "row_at b R old w"
  obtain r w1 where e: "domains_update_row d w = (r, w1)" by (cases "domains_update_row d w")
  have h: "holds R w" "by_id (bm_id d) (domains (db w)) = Some old" using w assms(1) by (simp_all add: row_at_def lawful_def)
  note s = update_step [OF e h assms(2,3)]
  have b: "b \<longrightarrow> one_failure w1" using w s(1) one_failure_tl by (auto simp: row_at_def lawful_def)
  show "case fst (domains_update_row d w) of Inl _ \<Rightarrow> row_at b R old (snd (domains_update_row d w))
     | Inr _ \<Rightarrow> row_at b (R(dom_host old := None, dom_host d \<mapsto> dom_app old)) d (snd (domains_update_row d w)) \<and>
        (dom_host d \<noteq> dom_host old \<longrightarrow> R (dom_host d) = None)"
  proof (cases r)
    case (Inl x)
    with s(2) have "domains (db w1) = domains (db w)" by simp
    with w b Inl show ?thesis by (auto simp: e row_at_def lawful_def intro: holds_same)
  next
    case (Inr x) with s(3) b show ?thesis by (simp add: e row_at_def lawful_def)
  qed
qed

lemma update_spent:
  assumes "bm_id d = bm_id old" "live d" "dom_app d = dom_app old" "row_at b R old w" "R (dom_host d) = None" "spent w"
  shows "fst (domains_update_row d w) = Inr ()"
proof -
  have "unique_live dom_host d (filter (\<lambda>x. bm_id x \<noteq> bm_id d) (domains (db w)))"
    using assms(4,5) owners_None [of "domains (db w)" "dom_host d"]
    by (auto simp: row_at_def lawful_def holds_def unique_live_def list_all_iff live_rows_def)
  with spent_now [OF assms(6)] show ?thesis
    by (simp add: domains_update_row_def update_row_def statement_def)
qed

text \<open>A call to the cluster: when it fails, no later call does.\<close>

lemma ens_row_cluster: "ensures (row_at b R d) (cluster c) (\<lambda>r w. row_at b R d w \<and> (b \<and> isl r \<longrightarrow> spent w))"
proof -
  have "row_at b R d (snd (cluster c w))" if "row_at b R d w" for w
    using ens_read_row [OF reads_cluster keeps_one_steps(5)] that by (simp add: ensures_def)
  moreover have "b \<longrightarrow> isl (fst (cluster c w)) \<longrightarrow> spent (snd (cluster c w))" if "row_at b R d w" for w
    using that refusal_spends [of w] by (auto simp: cluster_def row_at_def lawful_def split: if_splits)
  ultimately show ?thesis unfolding ensures_def by blast
qed

lemma ens_sync_ready:
  "ensures (row_at b R d) (sync_ready B a d) (succeeds (\<lambda>_. holds R))"
  unfolding ensures_def row_at_def lawful_def
  by (metis prod.collapse succeeds_simps(1) sync_ready_step)

lemma ens_undo_create:
  assumes "R (dom_host d) = None"
  shows "ensures (\<lambda>w. row_at b (R(dom_host d \<mapsto> dom_app d)) d w \<and> (b \<longrightarrow> spent w)) (undo_create d e) (outcome b R)"
proof (unfold ensures_def, intro allI impI)
  fix w assume w: "row_at b (R(dom_host d \<mapsto> dom_app d)) d w \<and> (b \<longrightarrow> spent w)"
  let ?w = "snd (domains_delete (bm_id d) w)"
  have t: "domains (db ?w) = (if fault_now w then domains (db w) else delete_pk (clock w) (bm_id d) (domains (db w)))"
    by (simp add: domains_delete_def bind_def exec_def statement_def)
  have u: "undo_create d e w = (Inl e, ?w)" by (simp add: undo_create_def seq_def bind_def attempt_eval)
  have r: "registered (domains (db w))" "owners (domains (db w)) = R(dom_host d \<mapsto> dom_app d)"
    "by_id (bm_id d) (domains (db w)) = Some d" using w by (simp_all add: row_at_def lawful_def holds_def)
  show "outcome b R (fst (undo_create d e w)) (snd (undo_create d e w))"
  proof (cases "fault_now w")
    case True
    then have "\<not> b" using w spent_now by blast
    moreover have "holds (R(dom_host d \<mapsto> dom_app d)) ?w" using t True r by (simp add: holds_def)
    ultimately show ?thesis unfolding u outcome_def using adds [of R, OF assms] by auto
  next
    case False
    with t r registered_delete(1) [OF r(1)] registered_delete(2) [OF r(1), of "bm_id d" d "clock w"] assms have "holds R ?w"
      by (simp add: holds_def fun_upd_idem)
    then show ?thesis unfolding u by (simp add: outcome_stays)
  qed
qed

section \<open>Requests\<close>

lemma ens_create_then:
  assumes "R h = None"
    and "\<And>e. ensures (\<lambda>w. row_at b (R(h \<mapsto> ai)) d w \<and> (b \<longrightarrow> spent w)) (undo e) (outcome b R)"
    and "ensures (row_at b (R(h \<mapsto> ai)) d) rest (succeeds (\<lambda>_. holds (R(h \<mapsto> ai))))"
  shows "ensures (row_at b (R(h \<mapsto> ai)) d) (handle (cluster c) undo (\<lambda>_. rest)) (outcome b R)"
proof (rule ens_handle [OF ens_row_cluster])
  fix e show "ensures (\<lambda>w. row_at b (R(h \<mapsto> ai)) d w \<and> (b \<and> isl (Inl e :: go_error + unit) \<longrightarrow> spent w)) (undo e) (outcome b R)"
    using assms(2) by simp
next
  have "succeeds (\<lambda>_. holds (R(h \<mapsto> ai))) r w \<Longrightarrow> outcome b R r w" for r :: "go_error + 'a" and w
    using adds [of R h ai, OF assms(1)] outcome_ok by (cases r) auto
  then show "ensures (\<lambda>w. row_at b (R(h \<mapsto> ai)) d w \<and> (b \<and> isl (Inr x :: go_error + unit) \<longrightarrow> spent w)) rest (outcome b R)"
    for x by - (rule ens_post [OF ens_pre [OF assms(3)]], simp_all)
qed

lemma ens_touch:
  "ensures (row_at b R d) (seq (attempt (domains_update_row (d\<lparr>dom_ready := r\<rparr>))) (ret x)) (succeeds (\<lambda>_. holds R))"
proof (cases "live d")
  case True
  have "ensures (row_at b R d) (domains_update_row (d\<lparr>dom_ready := r\<rparr>)) (\<lambda>_. holds R)"
  proof (unfold ensures_def, intro allI impI)
    fix w assume w: "row_at b R d w"
    from row_owner [OF this] have o: "R(dom_host d := None, dom_host d \<mapsto> dom_app d) = R" by (simp add: fun_upd_idem)
    show "holds R (snd (domains_update_row (d\<lparr>dom_ready := r\<rparr>) w))"
      using ens_domain_update [of "d\<lparr>dom_ready := r\<rparr>" d b R] True w o
      by (cases "fst (domains_update_row (d\<lparr>dom_ready := r\<rparr>) w)")
        (auto simp: ensures_def live_def row_at_def lawful_def split: sum.splits)
  qed
  then show ?thesis by (auto intro!: ens_seq ens_attempt ens_ret)
next
  case False
  then have "\<not> row_at b R d w" for w using row_owner by blast
  then show ?thesis by (simp add: ensures_def)
qed

lemma reads_lookups [reads_intros]: "reads (applications_get_by_id i)" "reads (domains_list_by_app i)"
  by (simp_all add: applications_get_by_id_def domains_list_by_app_def reads_intros)

lemma one_lookups [keeps_intros]: "keeps one_failure (applications_get_by_id i)" "keeps one_failure (domains_list_by_app i)"
  by (simp_all add: applications_get_by_id_def domains_list_by_app_def keeps_intros)

lemma create_refines:
  assumes "b \<Longrightarrow> \<forall>a. ib_target B a = None"
  shows "ensures (lawful b R) (domain_create B ai inp) (outcome b R)"
proof -
  let ?h = "normalize_domain_host (cd_host inp)"
  have "ensures (lawful b R) (handle (domains_create (new_domain ai ?h (cd_tls inp) (cd_auto_cert inp))) (\<lambda>e. err (taken_error e)) (\<lambda>d.
           case ib_target B a of
             Some e \<Rightarrow> undo_create d e
           | None \<Rightarrow> handle (cluster (CreateIngress (dom_host d) (bm_id a)))
               (\<lambda>e. undo_create d (ErrWrap ''create ingress failed'' e)) (\<lambda>_. sync_ready B a d))) (outcome b R)" for a
  proof (rule ens_handle [OF ens_domain_create], goal_cases)
    case (1 e) show ?case by (auto intro: ens_err outcome_stays)
  next
    case (2 d)
    let ?A = "row_at b (R(?h \<mapsto> ai)) d"
    have *: "R ?h = None \<Longrightarrow> dom_host d = ?h \<Longrightarrow> dom_app d = ai \<Longrightarrow>
        ensures (\<lambda>w. ?A w \<and> (b \<longrightarrow> spent w)) (undo_create d e) (outcome b R)" for e
      using ens_undo_create [of R d b e] by simp
    have "R ?h = None \<Longrightarrow> dom_host d = ?h \<Longrightarrow> dom_app d = ai \<Longrightarrow> ensures ?A (case ib_target B a of
             Some e \<Rightarrow> undo_create d e
           | None \<Rightarrow> handle (cluster (CreateIngress (dom_host d) (bm_id a)))
               (\<lambda>e. undo_create d (ErrWrap ''create ingress failed'' e)) (\<lambda>_. sync_ready B a d)) (outcome b R)"
    proof (cases "ib_target B a")
      case None
      assume "R ?h = None" "dom_host d = ?h" "dom_app d = ai"
      with None * show ?thesis by (auto intro!: ens_create_then ens_sync_ready)
    next
      case (Some e)
      assume h: "R ?h = None" "dom_host d = ?h" "dom_app d = ai"
      from Some assms have "\<not> b" by auto
      with Some * [OF h] show ?thesis by simp
    qed
    then show ?case by (simp add: new_domain_def ensures_def)
  qed
  then have "ensures (lawful b R) (bind (applications_get_by_id ai) (\<lambda>a.
         handle (domains_create (new_domain ai ?h (cd_tls inp) (cd_auto_cert inp))) (\<lambda>e. err (taken_error e)) (\<lambda>d.
           case ib_target B a of
             Some e \<Rightarrow> undo_create d e
           | None \<Rightarrow> handle (cluster (CreateIngress (dom_host d) (bm_id a)))
               (\<lambda>e. undo_create d (ErrWrap ''create ingress failed'' e)) (\<lambda>_. sync_ready B a d)))) (outcome b R)"
    by (intro ens_bind_read reads_intros keeps_intros)
  then show ?thesis
    unfolding domain_create_def Let_def by (cases "validate_domain_host ?h") (simp_all add: ens_err_lawful)
qed

lemma ens_random_short: "ensures (lawful b R) (random_short n) (\<lambda>_. lawful b R)"
  unfolding random_short_def by (intro ens_read_any reads_intros keeps_intros)

lemma generate_refines:
  assumes "b \<Longrightarrow> \<forall>a. ib_target B a = None"
  shows "ensures (lawful b R) (generate_traefik_domain B ai) (outcome b R)"
proof -
  have new: "ensures (lawful b R) (bind (domains_create (new_domain ai h tls tls)) (\<lambda>d.
               handle (cluster (CreateIngress (dom_host d) (bm_id a)))
                 (\<lambda>e. undo_create d (ErrWrap ''create ingress failed'' e))
                 (\<lambda>_. let d' = (case ib_ready B d a of None \<Rightarrow> d | Some r \<Rightarrow> d\<lparr>dom_ready := r\<rparr>) in
                   seq (attempt (domains_update_row d')) (ret d')))) (outcome b R)" for h tls a
    unfolding bind_def
  proof (rule ens_handle [OF ens_domain_create], goal_cases)
    case (1 e) show ?case by (auto intro: ens_err outcome_stays)
  next
    case (2 d)
    have "ensures (row_at b R' d) (let d' = (case ib_ready B d a of None \<Rightarrow> d | Some r \<Rightarrow> d\<lparr>dom_ready := r\<rparr>) in
        seq (attempt (domains_update_row d')) (ret d')) (succeeds (\<lambda>_. holds R'))" for R'
      using ens_touch [of b R' d "dom_ready d" d] by (auto simp: Let_def split: option.splits intro: ens_touch)
    moreover have "R h = None \<Longrightarrow> dom_host d = h \<Longrightarrow> dom_app d = ai \<Longrightarrow>
        ensures (\<lambda>w. row_at b (R(h \<mapsto> ai)) d w \<and> (b \<longrightarrow> spent w)) (undo_create d e) (outcome b R)" for e
      using ens_undo_create [of R d b e] by simp
    ultimately have "R h = None \<Longrightarrow> dom_host d = h \<Longrightarrow> dom_app d = ai \<Longrightarrow> ensures (row_at b (R(h \<mapsto> ai)) d)
        (handle (cluster (CreateIngress (dom_host d) (bm_id a))) (\<lambda>e. undo_create d (ErrWrap ''create ingress failed'' e))
           (\<lambda>_. let d' = (case ib_ready B d a of None \<Rightarrow> d | Some r \<Rightarrow> d\<lparr>dom_ready := r\<rparr>) in
              seq (attempt (domains_update_row d')) (ret d'))) (outcome b R)"
      by (intro ens_create_then) auto
    then show ?case by (simp add: new_domain_def ensures_def)
  qed
  have reuse: "ensures (lawful b R) (seq (attempt (cluster c)) (ret d)) (outcome b R)" for c and d :: domain
    by (rule ens_post [OF ens_read_any]) (auto intro: reads_intros keeps_intros outcome_stays lawful_holds)
  have "ensures (lawful b R) (bind (random_short 4) (\<lambda>suffix.
      let tls = \<not> is_dev_domain base; h = domain_label (a_name a) @ CHR ''-'' # suffix @ CHR ''.'' # base in
             bind (domains_create (new_domain ai h tls tls)) (\<lambda>d.
               handle (cluster (CreateIngress (dom_host d) (bm_id a)))
                 (\<lambda>e. undo_create d (ErrWrap ''create ingress failed'' e))
                 (\<lambda>_. let d' = (case ib_ready B d a of None \<Rightarrow> d | Some r \<Rightarrow> d\<lparr>dom_ready := r\<rparr>) in
                   seq (attempt (domains_update_row d')) (ret d'))))) (outcome b R)" for base a
    unfolding bind_def [of "random_short 4"]
    by (rule ens_handle [OF ens_random_short]) (use new in \<open>simp_all add: Let_def ens_err_lawful\<close>)
  with reuse show ?thesis
    unfolding generate_traefik_domain_def setting_or_empty_def settings_get_def
    by (auto intro!: ens_bind_read reads_intros keeps_intros ens_err_lawful split: option.splits)
qed


lemma keeps_one_more [keeps_intros]: "keeps one_failure (drop_old_ingress B a h)" "reads (drop_old_ingress B a h)"
  unfolding drop_old_ingress_def by (intro keeps_intros) (intro reads_intros)

lemma moved_back:
  assumes "R h = Some a" "R h' = None"
  shows "(R(h := None, h' \<mapsto> a))(h' := None, h \<mapsto> a) = R"
  using assms by (auto simp: fun_eq_iff)

lemma ens_rollback:
  assumes "bm_id d = bm_id old" "live old" "live d" "dom_app d = dom_app old" "dom_host d \<noteq> dom_host old"
    and R: "R (dom_host old) = Some (dom_app old)" "R (dom_host d) = None"
  shows "ensures (\<lambda>w. row_at b (R(dom_host old := None, dom_host d \<mapsto> dom_app old)) d w \<and> (b \<longrightarrow> spent w))
    (handle (domains_update_row (d\<lparr>dom_host := dom_host old, dom_force_https := f\<rparr>)) (\<lambda>_. err e) (\<lambda>_. err e') :: 'a io) (outcome b R)"
proof (unfold ensures_def, intro allI impI)
  let ?R = "R(dom_host old := None, dom_host d \<mapsto> dom_app old)"
  let ?d = "d\<lparr>dom_host := dom_host old, dom_force_https := f\<rparr>"
  fix w assume w: "row_at b ?R d w \<and> (b \<longrightarrow> spent w)"
  obtain r w1 where u: "domains_update_row ?d w = (r, w1)" by (cases "domains_update_row ?d w")
  have d: "bm_id ?d = bm_id d" "live ?d" "dom_app ?d = dom_app d" "?R (dom_host ?d) = None"
    using assms(3,5) by (simp_all add: live_def)
  note e = ens_domain_update [OF d(1-3), of b ?R]
  have "outcome b R (Inl e'' :: go_error + 'a) w1" if "r = Inr x" for x e''
  proof -
    have "holds R w1" using ensuresD [OF e conjunct1 [OF w] u] that moved_back [of R "dom_host old" "dom_app old" "dom_host d", OF R] assms(4)
      by (simp add: row_at_def lawful_def)
    then show ?thesis by (rule outcome_stays)
  qed
  moreover have "outcome b R (Inl e'' :: go_error + 'a) w1" if r: "r = Inl x" for x e''
  proof -
    have "\<not> b" using update_spent [OF d(1-3), of b ?R w] d(4) w u r by auto
    moreover have "holds ?R w1" using ensuresD [OF e conjunct1 [OF w] u] r by (simp add: row_at_def lawful_def)
    ultimately show ?thesis unfolding outcome_def using moves [of R, OF R] by auto
  qed
  ultimately show "outcome b R (fst ((handle (domains_update_row ?d) (\<lambda>_. err e) (\<lambda>_. err e') :: 'a io) w))
     (snd ((handle (domains_update_row ?d) (\<lambda>_. err e) (\<lambda>_. err e') :: 'a io) w))"
    by (cases r) (simp_all add: u handle_def)
qed

lemma rename_refines:
  assumes d: "bm_id d = bm_id old" "live old" "live d" "dom_app d = dom_app old" "dom_host d \<noteq> dom_host old"
  shows "ensures (row_at b R old) (rename_domain B a old d) (outcome b R)"
proof (cases "R (dom_host old) = Some (dom_app old)")
  case True
  let ?R = "R(dom_host old := None, dom_host d \<mapsto> dom_app old)"
  have ok: "R (dom_host d) = None \<Longrightarrow> succeeds (\<lambda>_. holds ?R) r w \<Longrightarrow> outcome b R r w" for r :: "go_error + domain" and w
    by (cases r) (auto intro: outcome_ok [OF _ moves [of R, OF True]])
  have "R (dom_host d) = None \<Longrightarrow> ensures (row_at b ?R d) (handle (cluster (CreateIngress (dom_host d) (bm_id a)))
       (\<lambda>e. handle (domains_update_row (d\<lparr>dom_host := dom_host old, dom_force_https := dom_force_https old\<rparr>))
          (\<lambda>_. err (ErrMsg (''ingress creation failed and rollback failed '' @ em_dash @ '' manual fix required'')))
          (\<lambda>_. err (ErrWrap ''failed to create ingress for new host'' e)))
       (\<lambda>_. seq (drop_old_ingress B a (dom_host old)) (sync_ready B a d))) (outcome b R)"
  proof (rule ens_handle [OF ens_row_cluster], goal_cases)
    case (1 e) with ens_rollback [OF d, of R b] True show ?case by simp
  next
    case (2 x)
    have "ensures (row_at b ?R d) (drop_old_ingress B a (dom_host old)) (\<lambda>_. row_at b ?R d)"
      by (intro ens_read_row keeps_one_more)
    moreover have "succeeds (\<lambda>_. row_at b ?R d) (Inr y) w = row_at b ?R d w" for y :: unit and w by simp
    moreover have "\<exists>x. fst (drop_old_ingress B a (dom_host old) w) = Inr x" for w
      by (simp add: drop_old_ingress_def seq_def bind_def attempt_eval)
    ultimately have "ensures (row_at b ?R d) (drop_old_ingress B a (dom_host old)) (succeeds (\<lambda>_. row_at b ?R d))"
      by (intro ens_succeedsI)
    then have "ensures (row_at b ?R d) (seq (drop_old_ingress B a (dom_host old)) (sync_ready B a d)) (succeeds (\<lambda>_. holds ?R))"
      by (intro ens_seq [OF _ ens_sync_ready])
    from ens_post [OF this ok] 2 show ?case by (simp add: ensures_def)
  qed
  then show ?thesis
    unfolding rename_domain_def using d
    by (intro ens_handle [OF ens_domain_update]) (auto simp: ensures_def intro: outcome_stays lawful_holds row_lawful)
next
  case False
  then have "\<not> row_at b R old w" for w using row_owner by blast
  then show ?thesis by (simp add: ensures_def)
qed

lemma change_refines:
  assumes d: "bm_id d = bm_id old" "live old" "live d" "dom_app d = dom_app old" "dom_host d = dom_host old"
  shows "ensures (row_at b R old) (change_domain d a) (outcome b R)"
proof (cases "R (dom_host old) = Some (dom_app old)")
  case True
  then have "R(dom_host old := None, dom_host d \<mapsto> dom_app old) = R" using d(5) by (simp add: fun_upd_idem)
  note u = ens_domain_update [OF d(1,3,4), of b R, unfolded this]
  have "ensures (row_at b R d) (handle (cluster c) (\<lambda>e. err (ErrWrap s e)) (\<lambda>_. ret d)) (outcome b R)" for c s
    by (rule ens_handle [OF ens_row_cluster]) (auto intro!: ens_err ens_ret outcome_stays dest: row_lawful lawful_holds)
  then show ?thesis
    unfolding change_domain_def
    by (intro ens_handle [OF u]) (auto simp: ensures_def intro: outcome_stays lawful_holds row_lawful)
next
  case False
  then have "\<not> row_at b R old w" for w using row_owner by blast
  then show ?thesis by (simp add: ensures_def)
qed


lemma update_refines:
  assumes "b \<Longrightarrow> \<forall>a. ib_target B a = None"
  shows "ensures (lawful b R) (domain_update B i host force) (outcome b R)"
proof -
  have commit: "ensures (row_at b R d) (domain_update_commit B a d host force) (outcome b R)" for a d
  proof (cases "live d")
    case True
    then have e: "ensures (row_at b R d) (rename_domain B a d (d\<lparr>dom_force_https := f, dom_host := h\<rparr>)) (outcome b R)"
      "ensures (row_at b R d) (rename_domain B a d (d\<lparr>dom_host := h\<rparr>)) (outcome b R)"
      "ensures (row_at b R d) (change_domain d a) (outcome b R)" "ensures (row_at b R d) (change_domain (d\<lparr>dom_force_https := f\<rparr>) a) (outcome b R)"
      if "h \<noteq> dom_host d" for h f
      using that by (auto intro!: rename_refines change_refines simp: live_def)
    obtain h' where "h' \<noteq> dom_host d" by (metis list.distinct(1))
    from e(3,4) [OF this] have c: "ensures (row_at b R d) (change_domain d a) (outcome b R)"
      "ensures (row_at b R d) (change_domain (d\<lparr>dom_force_https := f\<rparr>) a) (outcome b R)" for f by blast+
    have x: "ensures (row_at b R d) (err er :: domain io) (outcome b R)" for er
      by (auto intro: ens_err outcome_stays lawful_holds row_lawful)
    show ?thesis unfolding domain_update_commit_def Let_def
      by (cases force) (auto simp: e(1,2) c x split: option.split)
  next
    case False
    then have "\<not> row_at b R d w" for w using row_owner by blast
    then show ?thesis by (simp add: ensures_def)
  qed
  have "ensures (row_at b R d) (bind (applications_get_by_id (dom_app d)) (\<lambda>a.
     case ib_target B a of Some e \<Rightarrow> err e | None \<Rightarrow> domain_update_commit B a d host force)) (outcome b R)" for d
    unfolding bind_def
  proof (rule ens_handle [OF ens_read_row])
    show "ensures (row_at b R d) (err e :: domain io) (outcome b R)" for e
      by (auto intro: ens_err outcome_stays lawful_holds row_lawful)
    then show "ensures (row_at b R d) (case ib_target B a of Some e \<Rightarrow> err e | None \<Rightarrow> domain_update_commit B a d host force) (outcome b R)" for a
      by (auto simp: commit split: option.split)
  qed (intro reads_intros keeps_intros)+
  then show ?thesis
    unfolding domain_update_def bind_def [of "domains_get_by_id i"]
    by (intro ens_handle [OF ens_domain_get]) (auto simp: ensures_def intro: outcome_stays lawful_holds)
qed

lemma ens_domain_delete:
  "ensures (row_at b R d) (domains_delete (bm_id d)) (\<lambda>r w. case r of Inl _ \<Rightarrow> holds R w | Inr _ \<Rightarrow> holds (R(dom_host d := None)) w)"
  using registered_delete(1) [of "domains (db w)" for w] registered_delete(2) [of "domains (db w)" "bm_id d" d for w]
  by (auto simp: ensures_def domains_delete_def bind_def exec_def statement_def row_at_def lawful_def holds_def next_fault_def)

lemma told_anyway: "ensures (holds R) (notify_project_resource_deleted pr ev nm dt) (succeeds (\<lambda>_. holds R))"
proof -
  have "reads (notify_project_resource_deleted pr ev nm dt)"
    unfolding notify_project_resource_deleted_def notify_resource_deleted_def projects_get_by_id_def attach_team_def by (intro reads_intros)
  then have "ensures (holds R) (notify_project_resource_deleted pr ev nm dt) (\<lambda>r. holds R)"
    unfolding ensures_def reads_def by (auto intro: holds_same)
  moreover have "\<exists>x. fst (notify_project_resource_deleted pr ev nm dt w) = Inr x" for w
    by (auto simp: notify_project_resource_deleted_def notify_resource_deleted_def handle_def split: prod.splits sum.splits)
  ultimately show ?thesis by (rule ens_succeedsI)
qed

lemma delete_refines: "ensures (lawful b R) (domain_delete B i) (outcome b R)"
proof -
  have x: "ensures (row_at b R d) (err er :: unit io) (outcome b R)" for er d
    by (auto intro: ens_err outcome_stays lawful_holds row_lawful)
  have "ensures (row_at b R d) (seq (domains_delete (bm_id d)) (notify_project_resource_deleted pr ev nm dt)) (outcome b R)" for d pr ev nm dt
  proof (cases "R (dom_host d) = Some (dom_app d)")
    case True
    have "succeeds (\<lambda>_. holds (R(dom_host d := None))) r w \<Longrightarrow> outcome b R r w" for r :: "go_error + unit" and w
      by (cases r) (auto intro: outcome_ok [OF _ drops [of R, OF True]])
    then have "ensures (holds (R(dom_host d := None))) (notify_project_resource_deleted pr ev nm dt) (outcome b R)"
      by (rule ens_post [OF told_anyway])
    then show ?thesis unfolding seq_def bind_def
      by (intro ens_handle [OF ens_domain_delete]) (auto simp: ensures_def intro: outcome_stays)
  next
    case False
    then have "\<not> row_at b R d w" for w using row_owner by blast
    then show ?thesis by (simp add: ensures_def)
  qed
  then have c: "ensures (row_at b R d) (handle (cluster c) (\<lambda>e. err (ErrWrap s e)) (\<lambda>_. seq (domains_delete (bm_id d))
      (notify_project_resource_deleted pr ev nm dt))) (outcome b R)" for d c s pr ev nm dt
    by (intro ens_handle [OF ens_row_cluster]) (auto simp: ensures_def intro: outcome_stays lawful_holds row_lawful)
  have "ensures (row_at b R d) (bind (applications_get_by_id (dom_app d)) (\<lambda>a. case ib_target B a of
       Some e \<Rightarrow> err e
     | None \<Rightarrow> handle (cluster (DeleteIngress (dom_host d))) (\<lambda>e. err (ErrWrap ''failed to remove ingress from cluster'' e)) (\<lambda>_.
         seq (domains_delete (bm_id d)) (notify_project_resource_deleted (a_project a) ''domain_deleted'' (dom_host d)
           (''Domain '' @ quoted (dom_host d) @ '' was deleted from application '' @ quoted (a_name a)))))) (outcome b R)" for d
    unfolding bind_def
  proof (rule ens_handle [OF ens_read_row])
    show "ensures (row_at b R d) (err e :: unit io) (outcome b R)" for e by (rule x)
  qed (auto simp: c x split: option.split intro!: reads_intros keeps_intros)
  then show ?thesis
    unfolding domain_delete_def bind_def [of "domains_get_by_id i"]
    by (intro ens_handle [OF ens_domain_get]) (auto simp: ensures_def intro: outcome_stays lawful_holds)
qed


subsection \<open>The list\<close>

text \<open>A list writes back the rows it has read; while they still are copies of the stored rows, no host moves.\<close>

definition copies :: "domain list \<Rightarrow> world \<Rightarrow> bool" where
  "copies ds w \<longleftrightarrow> (\<forall>d \<in> set ds. live d \<and> (\<exists>old. by_id (bm_id d) (domains (db w)) = Some old \<and>
     dom_host old = dom_host d \<and> dom_app old = dom_app d))"

lemma live_domain_same: "bm_id (live_domain B a d) = bm_id d" "dom_host (live_domain B a d) = dom_host d"
  "dom_app (live_domain B a d) = dom_app d" "live (live_domain B a d) = live d"
proof -
  have "\<exists>r s e. live_domain B a d = d\<lparr>dom_ready := r, dom_cert_secret := s, dom_cert_expiry := e\<rparr>"
  proof -
    define d1 where "d1 = (case ib_ready B d a of None \<Rightarrow> d | Some r \<Rightarrow> d\<lparr>dom_ready := r\<rparr>)"
    define d2 where "d2 = (if dom_tls d1 \<and> dom_cert_secret d1 \<noteq> ''traefik-acme'' then d1\<lparr>dom_cert_secret := ''traefik-acme''\<rparr> else d1)"
    have "\<exists>r. d1 = d\<lparr>dom_ready := r\<rparr>" unfolding d1_def by (cases "ib_ready B d a") (auto intro: exI [of _ "dom_ready d"])
    then obtain r where 1: "d1 = d\<lparr>dom_ready := r\<rparr>" ..
    have "\<exists>s. d2 = d1\<lparr>dom_cert_secret := s\<rparr>" unfolding d2_def by (auto intro: exI [of _ "dom_cert_secret d1"])
    then obtain s where 2: "d2 = d1\<lparr>dom_cert_secret := s\<rparr>" ..
    have "live_domain B a d = (if dom_tls d2 \<and> dom_cert_secret d2 \<noteq> [] then (case ib_expiry B d2 a of
        Some (Some t) \<Rightarrow> if dom_cert_expiry d2 \<noteq> Some t then d2\<lparr>dom_cert_expiry := Some t\<rparr> else d2 | _ \<Rightarrow> d2) else d2)"
      unfolding live_domain_def Let_def d2_def d1_def ..
    moreover have "\<exists>e. d2 = d2\<lparr>dom_cert_expiry := e\<rparr>" by (rule exI [of _ "dom_cert_expiry d2"]) simp
    ultimately have "\<exists>e. live_domain B a d = d2\<lparr>dom_cert_expiry := e\<rparr>" by (auto split: option.split)
    then show ?thesis unfolding 2 1 by auto
  qed
  then show "bm_id (live_domain B a d) = bm_id d" "dom_host (live_domain B a d) = dom_host d"
    "dom_app (live_domain B a d) = dom_app d" "live (live_domain B a d) = live d" by (auto simp: live_def)
qed

lemma sync_one:
  assumes u: "domains_update_row d' w = (r, w1)" and h: "holds R w" and c: "copies (d' # ds) w"
  shows "holds R w1 \<and> copies ds w1"
proof -
  from c obtain old where old: "live d'" "by_id (bm_id d') (domains (db w)) = Some old" "dom_host d' = dom_host old" "dom_app d' = dom_app old"
    by (auto simp: copies_def)
  show ?thesis
  proof (cases r)
    case (Inl e)
    with update_step(2) [OF u h old(2,1,4)] have "domains (db w1) = domains (db w)" by blast
    with h c show ?thesis by (auto simp: copies_def intro: holds_same)
  next
    case (Inr x)
    note s = update_step(3) [OF u h old(2,1,4) Inr]
    have t: "domains (db w1) = replace_pk d' (domains (db w))"
      using u Inr by (auto simp: domains_update_row_def update_row_def statement_def split: if_splits)
    have "distinct_ids (domains (db w))" using h by (simp add: holds_def registered_def)
    note i = by_id_replace_pk [OF this old(1)]
    have "copies ds w1" unfolding copies_def
    proof (intro ballI conjI)
      fix d assume d: "d \<in> set ds"
      with c obtain o' where "live d" "by_id (bm_id d) (domains (db w)) = Some o'" "dom_host o' = dom_host d" "dom_app o' = dom_app d"
        by (auto simp: copies_def)
      then show "live d" "\<exists>old. by_id (bm_id d) (domains (db w1)) = Some old \<and> dom_host old = dom_host d \<and> dom_app old = dom_app d"
        using old by (auto simp: t i)
    qed
    moreover have "holds R w1" using s old(3) by (clarsimp simp: fun_upd_idem)
    ultimately show ?thesis by simp
  qed
qed

lemma sync_keeps: "holds R w \<Longrightarrow> copies ds w \<Longrightarrow> holds R (snd (sync_domains B a ds w))"
proof (induction ds arbitrary: w)
  case (Cons d ds)
  let ?d = "live_domain B a d"
  obtain r w1 where u: "domains_update_row ?d w = (r, w1)" by (cases "domains_update_row ?d w")
  have c: "copies (?d # ds) w" "copies ds w" using Cons.prems(2) by (simp_all add: copies_def live_domain_same)
  have "holds R w1 \<and> copies ds w1" by (rule sync_one [OF u Cons.prems(1) c(1)])
  with Cons.IH [of w1] Cons.IH [of w] Cons.prems(1) c(2) show ?case
    by (auto simp: Let_def seq_def bind_def handle_def attempt_def u split: prod.splits sum.splits)
qed simp

lemma list_refines: "ensures (lawful b R) (domain_list B ai) (outcome b R)"
proof -
  have listed: "ensures (lawful b R) (domains_list_by_app ai) (\<lambda>r w. holds R w \<and> (case r of Inl _ \<Rightarrow> True | Inr ds \<Rightarrow> copies ds w))"
  proof (unfold ensures_def, intro allI impI)
    fix w assume "lawful b R w"
    then have h: "holds R w" by (rule lawful_holds)
    then have "distinct_ids (domains (db w))" by (simp add: holds_def registered_def)
    then have "copies (select_live (\<lambda>x. dom_app x = ai) (domains (db w))) w"
      using by_id_eqI [of "domains (db w)"] by (auto simp: copies_def select_live_def)
    with h show "holds R (snd (domains_list_by_app ai w)) \<and>
       (case fst (domains_list_by_app ai w) of Inl _ \<Rightarrow> True | Inr ds \<Rightarrow> copies ds (snd (domains_list_by_app ai w)))"
      by (auto simp: domains_list_by_app_def query_def statement_def next_fault_def copies_def holds_def)
  qed
  have read: "ensures (\<lambda>w. holds R w \<and> copies ds w) (applications_get_by_id ai) (\<lambda>_ w. holds R w \<and> copies ds w)" for ds
    using reads_lookups(1) [of ai] by (simp add: ensures_def reads_def holds_def copies_def)
  have "ensures (\<lambda>w. holds R w \<and> copies ds w) (sync_domains B a ds) (outcome b R)" for ds a
    unfolding ensures_def using sync_keeps outcome_stays by blast
  then have "ensures (\<lambda>w. holds R w \<and> copies ds w) (handle (applications_get_by_id ai) (\<lambda>_. ret ds) (\<lambda>a.
       if ib_target B a \<noteq> None then ret ds else sync_domains B a ds)) (outcome b R)" for ds
    by (intro ens_handle [OF read]) (auto intro: ens_ret outcome_stays)
  then show ?thesis unfolding domain_list_def bind_def
    by (intro ens_handle [OF listed]) (auto simp: ensures_def intro: outcome_stays)
qed


section \<open>The properties\<close>

datatype domain_request = DomainCreate uuid create_domain_input | DomainGenerate uuid
  | DomainUpdate uuid "string option" "bool option" | DomainDelete uuid | DomainList uuid

definition silently :: "'a io \<Rightarrow> unit io" where
  "silently m = bind m (\<lambda>_. ret ())"

fun serve_domain :: "ingress_binder \<Rightarrow> domain_request \<Rightarrow> unit io" where
  "serve_domain B (DomainCreate a inp) = silently (domain_create B a inp)"
| "serve_domain B (DomainGenerate a) = silently (generate_traefik_domain B a)"
| "serve_domain B (DomainUpdate i host force) = silently (domain_update B i host force)"
| "serve_domain B (DomainDelete i) = domain_delete B i"
| "serve_domain B (DomainList a) = silently (domain_list B a)"

lemma ens_silently: "ensures A m (outcome b R) \<Longrightarrow> ensures A (silently m) (outcome b R)"
  unfolding ensures_def silently_def bind_def handle_def outcome_def by (fastforce split: prod.splits sum.splits)

lemma serve_refines: "(b \<Longrightarrow> \<forall>a. ib_target B a = None) \<Longrightarrow> ensures (lawful b R) (serve_domain B q) (outcome b R)"
  by (cases q) (simp_all add: ens_silently create_refines generate_refines update_refines delete_refines list_refines)

text \<open>C8 (domain_requests_refine): every request of the domain service (create, generate, update, delete, list), whatever
  calls fail while it runs, is a step of the registry of hosts: it leaves the registry as it is, adds a free host, moves
  an application's host to a free name or drops a host, and no two live rows ever have the same host.  When at most one
  call fails and the applications have a place for ingresses, a request that returns an error leaves the registry as it
  was: the code's compensation (delete the new row, rename the row back) suffices.\<close>

theorem domain_requests_refine:
  assumes "registered (domains (db w))" and "serve_domain B q w = (r, w')"
  shows "registered (domains (db w')) \<and> registry_step (owners (domains (db w))) (owners (domains (db w'))) \<and>
    (one_failure w \<and> (\<forall>a. ib_target B a = None) \<and> isl r \<longrightarrow> owners (domains (db w')) = owners (domains (db w)))"
proof -
  let ?R = "owners (domains (db w))" and ?b = "one_failure w \<and> (\<forall>a. ib_target B a = None)"
  have "lawful ?b ?R w" using assms(1) by (simp add: lawful_def holds_def)
  from ensuresD [OF serve_refines this assms(2)] have "outcome ?b ?R r w'" by blast
  then show ?thesis by (auto simp: outcome_def holds_def)
qed

definition demo_domain :: domain where
  "demo_domain = (new_domain 5 ''www.shop.io'' False False)\<lparr>bm_id := 7\<rparr>"

definition demo_binder :: ingress_binder where
  "demo_binder = \<lparr>ib_target = (\<lambda>_. None), ib_ready = (\<lambda>_ _. Some True), ib_expiry = (\<lambda>_ _. None), ib_name = (\<lambda>_ h. h), ib_legacy = (\<lambda>_ h. h)\<rparr>"

definition demo_domain_db :: "domain \<Rightarrow> database" where
  "demo_domain_db d = empty_database\<lparr>applications := [demo_app 5 AppRunning], domains := [d]\<rparr>"

lemma demo_registered: "registered (domains (demo_domain_db d))"
  by (simp add: demo_domain_db_def registered_def distinct_ids_def live_rows_def inj_on_def)

lemma calm_world [simp]: "calm (world_of d)"
  by (simp add: calm_def)

lemma domain_requests_refine_witness:
  "case serve_domain demo_binder (DomainDelete 7) (world_of (demo_domain_db demo_domain)) of (r, w') \<Rightarrow>
     registered (domains (db w')) \<and> registry_step (owners [demo_domain]) (owners (domains (db w'))) \<and> owners (domains (db w')) ''www.shop.io'' = None"
proof -
  obtain r w' where e: "serve_domain demo_binder (DomainDelete 7) (world_of (demo_domain_db demo_domain)) = (r, w')"
    by (cases "serve_domain demo_binder (DomainDelete 7) (world_of (demo_domain_db demo_domain))")
  note [simp del] = next_fault_world_of
  have "domains (db (snd (serve_domain demo_binder (DomainDelete 7) (world_of (demo_domain_db demo_domain))))) = delete_pk 1000 7 [demo_domain]"
    by (simp add: demo_domain_db_def domain_delete_def bind_def domains_get_by_id_def query_row_def statement_def by_id_Cons
      demo_domain_def new_domain_def live_def applications_get_by_id_def demo_app_def demo_binder_def cluster_def seq_def
      domains_delete_def exec_def handle_def notify_project_resource_deleted_def projects_get_by_id_def attach_team_def
      empty_database_def split: if_splits prod.splits sum.splits)
  then have t: "domains (db w') = delete_pk 1000 7 [demo_domain]" unfolding e by simp
  have "registered (domains (db w')) \<and> registry_step (owners [demo_domain]) (owners (domains (db w')))"
    using domain_requests_refine [OF _ e] by (simp add: demo_registered) (simp add: demo_domain_db_def)
  moreover have "owners (domains (db w')) ''www.shop.io'' = None"
    by (simp add: t owners_None live_rows_delete) (simp add: live_rows_def demo_domain_def)
  ultimately show ?thesis unfolding e by simp
qed

text \<open>A list is a GET that writes whole rows.  When the row it read for a domain has been
  renamed in the meantime and the readiness (or the certificate) it looks up has changed, its write puts the old host
  back: the registry names the old host again and not the new one, and no call to the cluster follows, although the
  rename has moved the ingress.\<close>

theorem list_undoes_rename:
  assumes "registered (domains (db w))" "by_id (bm_id d) (domains (db w)) = Some cur" "live d" "dom_app d = dom_app cur"
    and "dom_host d \<noteq> dom_host cur" "owners (domains (db w)) (dom_host d) = None" "live_domain B a d \<noteq> d" "spent w"
    and "sync_domains B a [d] w = (r, w')"
  shows "by_id (bm_id d) (domains (db w')) = Some (live_domain B a d) \<and> owners (domains (db w')) (dom_host d) = Some (dom_app d) \<and>
    owners (domains (db w')) (dom_host cur) = None \<and> calls w' = calls w"
proof -
  let ?d = "live_domain B a d" and ?R = "owners (domains (db w))"
  note same = live_domain_same [of B a d]
  have h: "holds ?R w" using assms(1) by (simp add: holds_def)
  have row: "row_at False ?R cur w" using h assms(2) by_id_key [OF assms(2)] by (simp add: row_at_def lawful_def)
  obtain q w1 where u: "domains_update_row ?d w = (q, w1)" by (cases "domains_update_row ?d w")
  have c: "bm_id ?d = bm_id cur" "live ?d" "dom_app ?d = dom_app cur" using assms(2-4) by (auto simp: same dest: by_id_key)
  have "q = Inr ()" using update_spent [OF c row _ assms(8)] assms(6) u by (simp add: same)
  with u assms(2) have "holds (?R(dom_host cur := None, dom_host ?d \<mapsto> dom_app cur)) w1 \<and> by_id (bm_id ?d) (domains (db w1)) = Some ?d"
    using update_step(3) [OF u h _ c(2,3), of "()"] by (simp add: same)
  moreover have "w' = w1" using assms(7,9) u by (simp add: Let_def seq_def bind_def attempt_eval)
  moreover have "calls w1 = calls w"
    using u by (auto simp: domains_update_row_def update_row_def statement_def next_fault_def split: if_splits)
  ultimately show ?thesis using assms(4,5) by (simp add: same holds_def)
qed


lemma list_undoes_rename_witness:
  "case sync_domains demo_binder (demo_app 5 AppRunning) [demo_domain] (world_of (demo_domain_db (demo_domain\<lparr>dom_host := ''shop.io''\<rparr>))) of
     (r, w') \<Rightarrow> owners (domains (db w')) ''www.shop.io'' = Some 5 \<and> owners (domains (db w')) ''shop.io'' = None"
proof -
  let ?w = "world_of (demo_domain_db (demo_domain\<lparr>dom_host := ''shop.io''\<rparr>))"
  obtain r w' where e: "sync_domains demo_binder (demo_app 5 AppRunning) [demo_domain] ?w = (r, w')"
    by (cases "sync_domains demo_binder (demo_app 5 AppRunning) [demo_domain] ?w")
  have "owners (domains (db w')) (dom_host demo_domain) = Some (dom_app demo_domain) \<and>
      owners (domains (db w')) (dom_host (demo_domain\<lparr>dom_host := ''shop.io''\<rparr>)) = None"
    using list_undoes_rename [OF _ _ _ _ _ _ _ _ e, of "demo_domain\<lparr>dom_host := ''shop.io''\<rparr>"]
    by (simp add: demo_registered) (simp add: demo_domain_db_def demo_domain_def new_domain_def live_def by_id_Cons owners_None
        live_rows_def demo_binder_def live_domain_def spent_def)
  then show ?thesis unfolding e by (simp add: demo_domain_def new_domain_def)
qed

end
