(* ===== verification/Config_Secrets.thy ===== *)
theory Config_Secrets imports Setting_Service "HOL-Library.List_Lexorder" begin

text \<open>
  The secrets in the configuration of a shared resource: what clients see of them and what becomes of them when a
  client sends the masked configuration back (\<open>service/resource_service.go\<close>: \<open>RedactResourceConfig\<close>,
  \<open>mergeSecretConfig\<close>; \<open>secret/keys.go\<close>).
\<close>

section \<open>Objects as Go maps\<close>

text \<open>\<open>json.Marshal\<close> of a \<open>map[string]any\<close>: one field for each key, sorted by their bytes.  Numbers pass through a
  \<open>float64\<close>; how it is printed is the parameter \<open>num\<close>.\<close>

definition sorted_keys :: "(string \<times> 'a) list \<Rightarrow> string list" where
  "sorted_keys kvs = sort (remdups (map fst kvs))"

definition canon :: "(string \<times> 'a) list \<Rightarrow> (string \<times> 'a) list" where
  "canon kvs = map (\<lambda>k. (k, the (map_of (rev kvs) k))) (sorted_keys kvs)"

primrec any_json :: "(string \<Rightarrow> string) \<Rightarrow> json \<Rightarrow> json" where
  "any_json num JNull = JNull"
| "any_json num (JBool b) = JBool b"
| "any_json num (JNumber s) = JNumber (num s)"
| "any_json num (JString s) = JString s"
| "any_json num (JArray js) = JArray (map (any_json num) js)"
| "any_json num (JObject kvs) = JObject (canon (map (map_prod id (any_json num)) kvs))"

section \<open>The code\<close>

definition is_resource_config_key :: "string \<Rightarrow> bool" where
  "is_resource_config_key k \<longleftrightarrow> k \<in> {''token'', ''refresh_token'', ''password'', ''secret_key'', ''secret_access_key'',
     ''client_secret'', ''webhook_secret'', ''private_key'', ''passphrase'', ''api_token'', ''api_key''}"

fun object_entries :: "json \<Rightarrow> (string \<times> json) list" where
  "object_entries (JObject kvs) = canon kvs"
| "object_entries _ = []"

definition hidden :: "string \<Rightarrow> json \<Rightarrow> bool" where
  "hidden k v \<longleftrightarrow> is_resource_config_key k \<and> v \<noteq> JString []"

definition redact_config :: "(string \<Rightarrow> string) \<Rightarrow> json option \<Rightarrow> json option" where
  "redact_config num c = (case c of
     None \<Rightarrow> None
   | Some j \<Rightarrow> (case json_map j of
       None \<Rightarrow> Some (JObject [])
     | Some _ \<Rightarrow> if list_ex (\<lambda>(k, v). hidden k v) (object_entries j)
         then Some (JObject (map (\<lambda>(k, v). (k, if hidden k v then JString setting_secret_mask else any_json num v)) (object_entries j)))
         else c))"

definition redact_resource :: "(string \<Rightarrow> string) \<Rightarrow> shared_resource \<Rightarrow> shared_resource" where
  "redact_resource num r = r\<lparr>sr_config := redact_config num (sr_config r)\<rparr>"

definition stored_map :: "json option \<Rightarrow> (string \<rightharpoonup> json)" where
  "stored_map c = (case c of None \<Rightarrow> Map.empty | Some j \<Rightarrow> (case json_map j of None \<Rightarrow> Map.empty | Some m \<Rightarrow> m))"

definition masked :: "string \<Rightarrow> json \<Rightarrow> bool" where
  "masked k v \<longleftrightarrow> is_resource_config_key k \<and> v = JString setting_secret_mask"

definition merge_secret_config :: "(string \<Rightarrow> string) \<Rightarrow> json option \<Rightarrow> json option \<Rightarrow> json option" where
  "merge_secret_config num existing incoming = (case incoming of
     None \<Rightarrow> None
   | Some j \<Rightarrow> if list_ex (\<lambda>(k, v). masked k v) (object_entries j)
       then Some (JObject (List.map_filter (\<lambda>(k, v).
          if masked k v then map_option (\<lambda>e. (k, any_json num e)) (stored_map existing k) else Some (k, any_json num v))
          (object_entries j)))
       else incoming)"

section \<open>Lemmas\<close>

lemma map_of_rev_prod: "map_of (rev (map (map_prod id f) kvs)) k = map_option f (map_of (rev kvs) k)"
  by (induction kvs rule: rev_induct) auto

lemma sorted_keys_prod: "sorted_keys (map (map_prod id f) kvs) = sorted_keys kvs"
  by (simp add: sorted_keys_def comp_def)

lemma key_some: "k \<in> set (map fst kvs) \<Longrightarrow> map_of (rev kvs) k \<noteq> None"
  by (simp add: map_of_eq_None_iff image_iff)

lemma canon_prod: "canon (map (map_prod id f) kvs) = map (map_prod id f) (canon kvs)"
  unfolding canon_def sorted_keys_prod map_map
proof (rule map_cong [OF refl])
  fix k assume "k \<in> set (sorted_keys kvs)"
  then have "map_of (rev kvs) k \<noteq> None" by (intro key_some) (simp add: sorted_keys_def)
  then show "(k, the (map_of (rev (map (map_prod id f) kvs)) k)) = (map_prod id f \<circ> (\<lambda>k. (k, the (map_of (rev kvs) k)))) k"
    by (auto simp: map_of_rev_prod simp del: rev_map)
qed

lemma canon_keys: "map fst (canon kvs) = sorted_keys kvs" "distinct (map fst (canon kvs))"
  by (simp_all add: canon_def comp_def) (simp add: sorted_keys_def)

lemma map_of_canon: "map_of (canon kvs) = map_of (rev kvs)"
proof
  fix k show "map_of (canon kvs) k = map_of (rev kvs) k"
  proof (cases "k \<in> set (map fst kvs)")
    case True
    then have "map_of (canon kvs) k = Some (the (map_of (rev kvs) k))"
      by (intro map_of_is_SomeI canon_keys) (auto simp: canon_def sorted_keys_def)
    with key_some [OF True] show ?thesis by auto
  next
    case False
    then have "map_of (rev kvs) k = None" "map_of (canon kvs) k = None"
      by (simp_all add: map_of_eq_None_iff canon_keys flip: set_map) (simp add: canon_keys sorted_keys_def)
    then show ?thesis by simp
  qed
qed

lemma map_of_rev_canon: "map_of (rev (canon kvs)) = map_of (rev kvs)"
proof -
  have "map_of (rev (canon kvs)) = map_of (canon kvs)"
    by (rule map_of_inject_set [THEN iffD2]) (simp_all add: canon_keys sorted_keys_def rev_map [symmetric])
  then show ?thesis by (simp add: map_of_canon)
qed

lemma canon_canon: "canon (canon kvs) = canon kvs"
proof -
  have "sorted_keys (canon kvs) = sorted_keys kvs"
    by (simp add: sorted_keys_def canon_keys) (simp add: canon_keys sorted_keys_def remdups_id_iff_distinct sort_key_id_if_sorted)
  then show ?thesis unfolding canon_def [of "canon kvs"] by (simp add: map_of_rev_canon) (simp add: canon_def)
qed

lemma canon_mem: "(k, v) \<in> set (canon kvs) \<longleftrightarrow> map_of (rev kvs) k = Some v"
  by (metis canon_keys(2) map_of_canon map_of_eq_Some_iff)

lemma any_json_idem:
  assumes "\<And>s. num (num s) = num s"
  shows "any_json num (any_json num j) = any_json num j"
proof (induction j)
  case (JObject kvs)
  have "map (map_prod id (any_json num)) (map (map_prod id (any_json num)) kvs) = map (map_prod id (any_json num)) kvs"
    using JObject by (auto simp: snds.simps)
  then show ?case by (simp add: canon_prod [symmetric] canon_canon del: map_map)
qed (simp_all add: assms)

lemma entries_map: "json_map j = Some m \<Longrightarrow> map_of (object_entries j) = m"
  by (cases j) (simp_all add: map_of_canon)

lemma entries_keys: "distinct (map fst (object_entries j))"
  by (cases j) (simp_all add: canon_keys sorted_keys_def)

lemma map_of_masking:
  "map_of (map (\<lambda>(k, v). (k, f k v)) L) k = map_option (f k) (map_of L k)"
  by (induction L) auto

lemma map_of_filtered: "k \<notin> fst ` set L \<Longrightarrow> map_of (List.map_filter (\<lambda>(k, v). map_option (Pair k) (g k v)) L) k = None"
proof (induction L)
  case (Cons x L) then show ?case by (cases x; cases "g (fst x) (snd x)") (simp_all add: List.map_filter_simps)
qed (simp add: List.map_filter_simps)

lemma map_of_filtering:
  "distinct (map fst L) \<Longrightarrow>
   map_of (List.map_filter (\<lambda>(k, v). map_option (Pair k) (g k v)) L) k = Option.bind (map_of L k) (g k)"
proof (induction L)
  case (Cons x L)
  then show ?case
    using map_of_filtered [of "fst x" L g] map_of_eq_None_iff [of L "fst x"]
    by (cases x; cases "g (fst x) (snd x)") (simp_all add: List.map_filter_simps)
qed (simp add: List.map_filter_simps)

lemma distinct_filtered:
  "distinct (map fst L) \<Longrightarrow> distinct (map fst (List.map_filter (\<lambda>(k, v). map_option (Pair k) (g k v)) L))"
proof (induction L)
  case (Cons x L)
  have "fst x \<notin> set (map fst (List.map_filter (\<lambda>(k, v). map_option (Pair k) (g k v)) L))"
    using map_of_filtered [of "fst x" L g] Cons.prems by (simp add: map_of_eq_None_iff)
  with Cons show ?case by (cases x; cases "g (fst x) (snd x)") (simp_all add: List.map_filter_simps)
qed (simp add: List.map_filter_simps)

lemma distinct_rev_map_of: "distinct (map fst L) \<Longrightarrow> json_map (JObject L) = Some (map_of L)"
proof -
  assume "distinct (map fst L)"
  then have "map_of (rev L) = map_of L" by (intro map_of_inject_set [THEN iffD2]) (simp_all add: rev_map [symmetric])
  then show ?thesis by simp
qed

text \<open>The maps a redaction and a merge give.\<close>

definition redacted_value :: "(string \<Rightarrow> string) \<Rightarrow> string \<Rightarrow> json \<Rightarrow> json" where
  "redacted_value num k v = (if hidden k v then JString setting_secret_mask else any_json num v)"

lemma redact_map:
  assumes "json_map j = Some m"
  shows "\<exists>j' m'. redact_config num (Some j) = Some j' \<and> json_map j' = Some m' \<and>
    ((\<forall>k. m' k = map_option (redacted_value num k) (m k)) \<or> m' = m \<and> (\<forall>k v. m k = Some v \<longrightarrow> \<not> hidden k v))"
proof (cases "list_ex (\<lambda>(k, v). hidden k v) (object_entries j)")
  case True
  let ?L = "map (\<lambda>(k, v). (k, redacted_value num k v)) (object_entries j)"
  have "redact_config num (Some j) = Some (JObject ?L)" using assms True by (simp add: redact_config_def redacted_value_def)
  moreover have "distinct (map fst ?L)" using entries_keys [of j] by (simp add: comp_def case_prod_unfold)
  then have "json_map (JObject ?L) = Some (map_of ?L)" by (rule distinct_rev_map_of)
  moreover have "map_of ?L k = map_option (redacted_value num k) (m k)" for k
    by (simp add: map_of_masking entries_map [OF assms])
  ultimately show ?thesis by blast
next
  case False
  have "\<not> hidden k v" if "m k = Some v" for k v
  proof -
    have "(k, v) \<in> set (object_entries j)" using that by (intro map_of_SomeD) (simp add: entries_map [OF assms])
    with False show ?thesis by (auto simp: list_ex_iff)
  qed
  moreover have "redact_config num (Some j) = Some j" using assms False by (simp add: redact_config_def)
  ultimately show ?thesis using assms by blast
qed

definition merged_value :: "(string \<Rightarrow> string) \<Rightarrow> (string \<rightharpoonup> json) \<Rightarrow> string \<Rightarrow> json \<Rightarrow> json option" where
  "merged_value num em k v = (if masked k v then map_option (any_json num) (em k) else Some (any_json num v))"

lemma merge_map:
  assumes "json_map j = Some m"
  shows "\<exists>j' m'. merge_secret_config num e (Some j) = Some j' \<and> json_map j' = Some m' \<and>
    ((\<forall>k. m' k = Option.bind (m k) (merged_value num (stored_map e) k)) \<or> m' = m \<and> (\<forall>k v. m k = Some v \<longrightarrow> \<not> masked k v))"
proof (cases "list_ex (\<lambda>(k, v). masked k v) (object_entries j)")
  case True
  let ?f = "\<lambda>(k, v). map_option (Pair k) (merged_value num (stored_map e) k v)"
  let ?L = "List.map_filter ?f (object_entries j)"
  have f: "(\<lambda>(k, v). if masked k v then map_option (\<lambda>e. (k, any_json num e)) (stored_map e k) else Some (k, any_json num v)) = ?f"
    by (auto simp: fun_eq_iff merged_value_def option.map_comp comp_def)
  have "merge_secret_config num e (Some j) = Some (JObject ?L)" using assms True unfolding merge_secret_config_def f by simp
  moreover have "distinct (map fst ?L)" by (rule distinct_filtered [OF entries_keys])
  then have "json_map (JObject ?L) = Some (map_of ?L)" by (rule distinct_rev_map_of)
  moreover have "map_of ?L k = Option.bind (m k) (merged_value num (stored_map e) k)" for k
    using map_of_filtering [OF entries_keys, of "merged_value num (stored_map e)"] by (simp add: entries_map [OF assms])
  ultimately show ?thesis by blast
next
  case False
  have "\<not> masked k v" if "m k = Some v" for k v
  proof -
    have "(k, v) \<in> set (object_entries j)" using that by (intro map_of_SomeD) (simp add: entries_map [OF assms])
    with False show ?thesis by (auto simp: list_ex_iff)
  qed
  moreover have "merge_secret_config num e (Some j) = Some j" using False by (simp add: merge_secret_config_def)
  ultimately show ?thesis using assms by blast
qed


section \<open>The properties\<close>

text \<open>What a client sees of a configuration has no credential: the value of every key the code counts as
  a secret is the mask or the empty text, and a configuration that is not an object is dropped whole.  The other
  fields are what was stored.\<close>

theorem redaction_hides:
  assumes "\<And>s. num (num s) = num s"
  shows "case redact_config num c of
      None \<Rightarrow> c = None
    | Some j \<Rightarrow> \<exists>m. json_map j = Some m \<and>
        (\<forall>k v. is_resource_config_key k \<and> m k = Some v \<longrightarrow> v \<in> {JString setting_secret_mask, JString []}) \<and>
        (\<forall>k. \<not> is_resource_config_key k \<longrightarrow> map_option (any_json num) (m k) = map_option (any_json num) (stored_map c k))"
proof (cases c)
  case (Some j)
  show ?thesis
  proof (cases "json_map j")
    case (Some m)
    obtain j' m' where r: "redact_config num (Some j) = Some j'" "json_map j' = Some m'"
      "(\<forall>k. m' k = map_option (redacted_value num k) (m k)) \<or> m' = m \<and> (\<forall>k v. m k = Some v \<longrightarrow> \<not> hidden k v)"
      using redact_map [OF Some] by metis
    have "v \<in> {JString setting_secret_mask, JString []}" if "is_resource_config_key k" "m' k = Some v" for k v
      using r(3) that by (auto simp: redacted_value_def hidden_def split: if_splits)
    moreover have "map_option (any_json num) (m' k) = map_option (any_json num) (m k)" if "\<not> is_resource_config_key k" for k
      using r(3) that any_json_idem [of num, OF assms]
      by (auto simp: redacted_value_def hidden_def option.map_comp comp_def)
    ultimately show ?thesis using r(1,2) Some \<open>c = Some j\<close> by (auto simp: stored_map_def)
  qed (use Some in \<open>simp add: redact_config_def stored_map_def\<close>)
qed (simp add: redact_config_def)

lemma redaction_hides_witness:
  "\<exists>m. json_map (JObject [(''token'', JString setting_secret_mask), (''user'', JString ''bo'')]) = Some m \<and>
     (\<exists>v. m ''token'' = Some v \<and> v \<in> {JString setting_secret_mask, JString []})"
proof -
  have r: "redact_config id (Some (JObject [(''user'', JString ''bo''), (''token'', JString ''s3cret'')])) =
      Some (JObject [(''token'', JString setting_secret_mask), (''user'', JString ''bo'')])"
    by (simp add: redact_config_def canon_def sorted_keys_def hidden_def is_resource_config_key_def less_char_def)
  have "\<exists>m. json_map (JObject [(''token'', JString setting_secret_mask), (''user'', JString ''bo'')]) = Some m \<and>
        (\<forall>k v. is_resource_config_key k \<and> m k = Some v \<longrightarrow> v \<in> {JString setting_secret_mask, JString []})"
    using redaction_hides [of id "Some (JObject [(''user'', JString ''bo''), (''token'', JString ''s3cret'')])"] unfolding r by auto
  then show ?thesis by (auto simp: is_resource_config_key_def)
qed

text \<open>C16 (masked_edit_roundtrip): a client that sends the masked configuration back changes nothing: every field, secret or not,
  has the stored value again, up to the printing of numbers.\<close>

theorem masked_edit_roundtrip:
  assumes "json_map j = Some m" and "\<And>s. num (num s) = num s"
  shows "\<exists>j' m'. merge_secret_config num (Some j) (redact_config num (Some j)) = Some j' \<and> json_map j' = Some m' \<and>
    (\<forall>k. map_option (any_json num) (m' k) = map_option (any_json num) (m k))"
proof -
  obtain j1 m1 where r: "redact_config num (Some j) = Some j1" "json_map j1 = Some m1"
    "(\<forall>k. m1 k = map_option (redacted_value num k) (m k)) \<or> m1 = m \<and> (\<forall>k v. m k = Some v \<longrightarrow> \<not> hidden k v)"
    using redact_map [OF assms(1)] by metis
  obtain j2 m2 where s: "merge_secret_config num (Some j) (Some j1) = Some j2" "json_map j2 = Some m2"
    "(\<forall>k. m2 k = Option.bind (m1 k) (merged_value num (stored_map (Some j)) k)) \<or> m2 = m1 \<and> (\<forall>k v. m1 k = Some v \<longrightarrow> \<not> masked k v)"
    using merge_map [OF r(2)] by metis
  have st: "stored_map (Some j) = m" using assms(1) by (simp add: stored_map_def)
  note idem = any_json_idem [of num, OF assms(2)]
  have 1: "map_option (any_json num) (m1 k) = map_option (any_json num) (m k)" if "\<not> (\<exists>v. m1 k = Some v \<and> masked k v)" for k
    using r(3) that idem by (cases "m k") (auto simp: redacted_value_def masked_def hidden_def)
  have "map_option (any_json num) (m2 k) = map_option (any_json num) (m k)" for k
  proof (cases "\<exists>v. m1 k = Some v \<and> masked k v")
    case True
    then have "m k \<noteq> None" using r(3) by auto
    with True s(3) idem show ?thesis by (auto simp: st merged_value_def)
  next
    case False
    have "map_option (any_json num) (m2 k) = map_option (any_json num) (m1 k)"
      using s(3) False idem by (cases "m1 k") (auto simp: merged_value_def)
    with 1 [OF False] show ?thesis by simp
  qed
  with r(1) s(1,2) show ?thesis by auto
qed

lemma masked_edit_roundtrip_witness:
  "\<exists>j' m'. merge_secret_config id (Some (JObject [(''token'', JString ''s3cret'')]))
       (redact_config id (Some (JObject [(''token'', JString ''s3cret'')]))) = Some j' \<and> json_map j' = Some m' \<and>
     map_option (any_json id) (m' ''token'') = Some (JString ''s3cret'')"
proof -
  let ?j = "JObject [(''token'', JString ''s3cret'')]"
  have "\<exists>j' m'. merge_secret_config id (Some ?j) (redact_config id (Some ?j)) = Some j' \<and> json_map j' = Some m' \<and>
    (\<forall>k. map_option (any_json id) (m' k) = map_option (any_json id) ([''token'' \<mapsto> JString ''s3cret''] k))"
    by (rule masked_edit_roundtrip) (simp_all add: fun_eq_iff)
  then obtain j' m' where "merge_secret_config id (Some ?j) (redact_config id (Some ?j)) = Some j'" "json_map j' = Some m'"
    "\<forall>k. map_option (any_json id) (m' k) = map_option (any_json id) ([''token'' \<mapsto> JString ''s3cret''] k)" by blast
  moreover from this(3) have "map_option (any_json id) (m' ''token'') = Some (JString ''s3cret'')"
    by (auto dest!: spec [of _ "''token''"])
  ultimately show ?thesis by blast
qed

end
