(* ===== verification/Resource_Service.thy ===== *)
theory Resource_Service imports Config_Secrets Ops_Store Page_Tags Calm_World begin

text \<open>
  The service that edits shared resources (\<open>service/resource_service.go\<close>) and resolves what a configuration refers to.
  What AWS, the git providers, the DNS providers and the key generator answer is the record \<open>resource_cloud\<close>, with how
  Go prints a \<open>float64\<close> and the day and month of a time.
\<close>

record git_provider =
  gp_refresh :: "json option \<Rightarrow> go_error + (json option \<times> bool)"
  gp_repos :: "json option \<Rightarrow> string option \<Rightarrow> go_error + string list"

record resource_cloud =
  rc_number :: "string \<Rightarrow> string"
  rc_mmdd :: "time \<Rightarrow> string"
  rc_bucket_region :: "aws_credentials \<Rightarrow> string \<Rightarrow> go_error + string"
  rc_resolve :: "aws_credentials \<Rightarrow> string \<Rightarrow> go_error + (string \<times> string \<times> string)"
  rc_buckets :: "aws_credentials \<Rightarrow> go_error + string list"
  rc_keygen :: "string \<Rightarrow> go_error + (string \<times> string)"
  rc_git :: "string \<Rightarrow> git_provider option"
  rc_text :: "go_error \<Rightarrow> string"

section \<open>Ownership\<close>

definition get_owned_resource :: "uuid \<Rightarrow> uuid \<Rightarrow> shared_resource io" where
  "get_owned_resource og i = handle (resources_get_by_id i) (\<lambda>_. err (err_not_found ''resource not found'')) (\<lambda>r.
     if sr_org r \<noteq> og then err (err_not_found ''resource not found'') else ret r)"

text \<open>\<open>json.Unmarshal(resource.Config, &creds)\<close>, without the validation that \<open>ParseCredentials\<close> adds.\<close>

definition aws_decode :: "json option \<Rightarrow> aws_credentials option" where
  "aws_decode cfg = (case cfg of
     None \<Rightarrow> None
   | Some j \<Rightarrow> if \<not> list_all (\<lambda>f. snd (json_field f j)) aws_fields then None
       else Some \<lparr>aws_mode = fst (json_field ''auth_mode'' j), aws_key_id = fst (json_field ''access_key_id'' j),
         aws_secret = fst (json_field ''secret_access_key'' j), aws_role = fst (json_field ''role_arn'' j),
         aws_external = fst (json_field ''external_id'' j), aws_region = fst (json_field ''default_region'' j)\<rparr>)"

definition cloud_account_credentials :: "uuid \<Rightarrow> uuid \<Rightarrow> (shared_resource \<times> aws_credentials) io" where
  "cloud_account_credentials og i = bind (get_owned_resource og i) (\<lambda>r.
     if sr_type r \<noteq> resource_cloud_account then err (ErrMsg ''resource is not a cloud account'')
     else (case aws_decode (sr_config r) of None \<Rightarrow> err (ErrMsg ''invalid config'') | Some c \<Rightarrow> ret (r, c)))"

section \<open>References to a cloud account\<close>

text \<open>What is stored is the reference and what follows from it, never the account's keys.\<close>

definition fields_ok :: "string list \<Rightarrow> json \<Rightarrow> bool" where
  "fields_ok fs j = list_all (\<lambda>f. snd (json_field f j)) fs"

definition chosen_region :: "resource_cloud \<Rightarrow> aws_credentials \<Rightarrow> string \<Rightarrow> string \<Rightarrow> go_error + string" where
  "chosen_region C c bucket region =
     (if region \<noteq> [] then Inr region
      else (case rc_bucket_region C c bucket of
          Inr r \<Rightarrow> Inr r
        | Inl _ \<Rightarrow> if aws_region c \<noteq> [] then Inr (aws_region c)
            else Inl (err_validation (''could not determine the region for bucket '' @ quoted bucket))))"

definition expand_s3 :: "libs \<Rightarrow> resource_cloud \<Rightarrow> uuid \<Rightarrow> json option \<Rightarrow> json option io" where
  "expand_s3 L C og cfg = (case cfg of
     None \<Rightarrow> ret None
   | Some j \<Rightarrow>
     if \<not> fields_ok [''cloud_account_id'', ''bucket'', ''region''] j then err (err_validation ''invalid config'')
     else let acc = fst (json_field ''cloud_account_id'' j); bucket = fst (json_field ''bucket'' j) in
       if acc = [] then ret None
       else if bucket = [] then err (err_validation ''bucket is required'')
       else (case uuid_parse L acc of
           None \<Rightarrow> err (err_validation ''invalid cloud_account_id'')
         | Some i \<Rightarrow> bind (cloud_account_credentials og i) (\<lambda>(r, c).
             if sr_provider r \<noteq> ''aws'' then err (err_validation ''selected cloud account is not an AWS account'')
             else (case chosen_region C c bucket (fst (json_field ''region'' j)) of
                 Inl e \<Rightarrow> err e
               | Inr region \<Rightarrow> ret (Some (JObject [(''bucket'', JString bucket), (''cloud_account_id'', JString acc),
                   (''endpoint'', JString (''https://s3.'' @ region @ ''.amazonaws.com'')), (''region'', JString region)]))))))"

definition expand_ecr :: "libs \<Rightarrow> uuid \<Rightarrow> json option \<Rightarrow> json option io" where
  "expand_ecr L og cfg = (case cfg of
     None \<Rightarrow> ret None
   | Some j \<Rightarrow>
     if \<not> fields_ok [''cloud_account_id'', ''region''] j then err (err_validation ''invalid config'')
     else let acc = fst (json_field ''cloud_account_id'' j); region = fst (json_field ''region'' j) in
       if acc = [] then ret None
       else if region = [] then err (err_validation ''region is required'')
       else (case uuid_parse L acc of
           None \<Rightarrow> err (err_validation ''invalid cloud_account_id'')
         | Some i \<Rightarrow> bind (cloud_account_credentials og i) (\<lambda>(r, c).
             if sr_provider r \<noteq> ''aws'' then err (err_validation ''selected cloud account is not an AWS account'')
             else ret (Some (JObject [(''cloud_account_id'', JString acc), (''region'', JString region)])))))"

text \<open>At each use the keys are looked up again; the account must be of the organisation that owns the resource.\<close>

definition text_of :: "(string \<rightharpoonup> json) \<Rightarrow> string \<Rightarrow> string" where
  "text_of m k = (case m k of Some (JString s) \<Rightarrow> s | _ \<Rightarrow> [])"

definition with_fields :: "resource_cloud \<Rightarrow> json \<Rightarrow> (string \<times> string) list \<Rightarrow> json" where
  "with_fields C j kvs = any_json (rc_number C) (JObject (object_entries j @ map (\<lambda>(k, v). (k, JString v)) kvs))"

definition account_keys :: "resource_cloud \<Rightarrow> aws_credentials \<Rightarrow> string \<Rightarrow> go_error + (string \<times> string) list" where
  "account_keys C c region =
     (if aws_static_keys c then Inr [(''access_key'', aws_key_id c), (''secret_key'', aws_secret c)]
      else (case rc_resolve C c region of
          Inl e \<Rightarrow> Inl e
        | Inr (ak, sk, tok) \<Rightarrow> Inr ([(''access_key'', ak), (''secret_key'', sk)] @
            (if tok \<noteq> [] then [(''session_token'', tok)] else []))))"

definition resolve_account_config :: "libs \<Rightarrow> resource_cloud \<Rightarrow> string \<Rightarrow> uuid \<Rightarrow> string \<Rightarrow> json option \<Rightarrow> json option io" where
  "resolve_account_config L C kind og provider cfg =
     (case (cfg, Option.bind cfg json_map) of
        (Some j, Some m) \<Rightarrow>
          if provider \<noteq> kind \<or> text_of m ''cloud_account_id'' = [] then ret cfg
          else (case uuid_parse L (text_of m ''cloud_account_id'') of
              None \<Rightarrow> err (ErrMsg ''invalid cloud_account_id'')
            | Some i \<Rightarrow> handle (resources_get_by_id i) (\<lambda>e. err (ErrWrap ''load cloud account'' e)) (\<lambda>a.
                if sr_org a \<noteq> og then err (ErrMsg ''cloud account not found'')
                else if sr_provider a \<noteq> ''aws'' then err (ErrMsg (''cloud account '' @ quoted (sr_name a) @ '' is not an AWS account''))
                else (case aws_parse_credentials (sr_config a) of
                    Inl e \<Rightarrow> err (ErrWrap ''invalid cloud account config'' e)
                  | Inr c \<Rightarrow> (case account_keys C c (or_default (aws_region c) (text_of m ''region'')) of
                      Inl e \<Rightarrow> err (ErrWrap (''resolve credentials for cloud account '' @ quoted (sr_name a)) e)
                    | Inr kvs \<Rightarrow> ret (Some (with_fields C j kvs))))))
      | _ \<Rightarrow> ret cfg)"

definition resolve_object_storage_config :: "libs \<Rightarrow> resource_cloud \<Rightarrow> uuid \<Rightarrow> string \<Rightarrow> json option \<Rightarrow> json option io" where
  "resolve_object_storage_config L C = resolve_account_config L C ''aws_s3''"

definition resolve_registry_config :: "libs \<Rightarrow> resource_cloud \<Rightarrow> uuid \<Rightarrow> string \<Rightarrow> json option \<Rightarrow> json option io" where
  "resolve_registry_config L C = resolve_account_config L C ''ecr''"

section \<open>Creation\<close>

record create_resource_input =
  cri_name :: string
  cri_type :: resource_type
  cri_provider :: string
  cri_config :: "json option"

definition short_hex :: "nat \<Rightarrow> string io" where
  "short_hex n = bind (rand_bytes n) (\<lambda>bs. ret (hex_encode bs))"

definition config_field :: "string \<Rightarrow> json option \<Rightarrow> string" where
  "config_field f c = (case c of None \<Rightarrow> [] | Some j \<Rightarrow> fst (json_field f j))"

definition dashed :: "string list \<Rightarrow> string" where
  "dashed = join_with ''-''"

definition auto_name :: "resource_cloud \<Rightarrow> create_resource_input \<Rightarrow> string io" where
  "auto_name C inp = bind now (\<lambda>t. bind (short_hex 2) (\<lambda>h.
     let d = rc_mmdd C t; p = or_default ''custom'' (to_lower (cri_provider inp));
         named = (\<lambda>f fallback. let v = config_field f (cri_config inp) in
           if v \<noteq> [] then dashed [p, v, d, h] else dashed [p, fallback, d, h]) in
     ret (if cri_type inp = resource_git_provider then named ''username'' ''git''
       else if cri_type inp = resource_registry then named ''username'' ''registry''
       else if cri_type inp = resource_ssh_key then dashed [''key'', p, d, h]
       else if cri_type inp = resource_cloud_account then dashed [p, ''account'', d, h]
       else if cri_type inp = resource_object_storage then named ''bucket'' ''storage''
       else dashed [''resource'', d, h])))"

definition expanded_config :: "libs \<Rightarrow> resource_cloud \<Rightarrow> uuid \<Rightarrow> resource_type \<Rightarrow> string \<Rightarrow> json option \<Rightarrow> json option io" where
  "expanded_config L C og ty provider cfg =
     bind (if ty = resource_object_storage \<and> provider = ''aws_s3'' then expand_s3 L C og cfg else ret None) (\<lambda>x.
       let cfg = (case x of None \<Rightarrow> cfg | Some j \<Rightarrow> Some j) in
       bind (if ty = resource_registry \<and> provider = ''ecr'' then expand_ecr L og cfg else ret None) (\<lambda>y.
         ret (case y of None \<Rightarrow> cfg | Some j \<Rightarrow> Some j)))"

definition new_resource :: "uuid \<Rightarrow> string \<Rightarrow> resource_type \<Rightarrow> string \<Rightarrow> json option \<Rightarrow> shared_resource" where
  "new_resource og name ty provider cfg = \<lparr>bm_id = uuid_nil, bm_created = 0, bm_updated = 0, bm_deleted = None, sr_org = og,
     sr_name = name, sr_type = ty, sr_provider = provider, sr_config = cfg, sr_status = ''active''\<rparr>"

definition resource_create :: "libs \<Rightarrow> resource_cloud \<Rightarrow> uuid \<Rightarrow> create_resource_input \<Rightarrow> shared_resource io" where
  "resource_create L C og inp =
     bind (expanded_config L C og (cri_type inp) (cri_provider inp) (cri_config inp)) (\<lambda>cfg.
     bind (if cri_name inp = [] then auto_name C (inp\<lparr>cri_config := cfg\<rparr>) else ret (cri_name inp)) (\<lambda>name.
       resources_create (new_resource og name (cri_type inp) (cri_provider inp) cfg)))"

definition generate_ssh_key :: "resource_cloud \<Rightarrow> uuid \<Rightarrow> string \<Rightarrow> string \<Rightarrow> shared_resource io" where
  "generate_ssh_key C og algorithm name =
     (if algorithm \<noteq> ''ed25519'' \<and> algorithm \<noteq> ''rsa-4096'' then
        err (ErrMsg (''unsupported algorithm: '' @ algorithm @ '' (use ed25519 or rsa-4096)''))
      else (case rc_keygen C algorithm of
          Inl e \<Rightarrow> err e
        | Inr (priv, pub) \<Rightarrow>
            bind (if name = [] then bind now (\<lambda>t. bind (short_hex 3) (\<lambda>h. ret (dashed [''key'', rc_mmdd C t, h]))) else ret name) (\<lambda>n.
              resources_create (new_resource og n resource_ssh_key algorithm (Some (JObject
                [(''algorithm'', JString algorithm), (''private_key'', JString priv), (''public_key'', JString pub)]))))))"


section \<open>Changes\<close>

record update_resource_input =
  uri_name :: "string option"
  uri_provider :: "string option"
  uri_config :: "json option option"

definition resource_update :: "libs \<Rightarrow> resource_cloud \<Rightarrow> uuid \<Rightarrow> uuid \<Rightarrow> update_resource_input \<Rightarrow> shared_resource io" where
  "resource_update L C og i inp = bind (get_owned_resource og i) (\<lambda>r0.
     let r1 = (case uri_name inp of None \<Rightarrow> r0 | Some n \<Rightarrow> r0\<lparr>sr_name := n\<rparr>);
         r = (case uri_provider inp of None \<Rightarrow> r1 | Some p \<Rightarrow> r1\<lparr>sr_provider := p\<rparr>) in
     bind (case uri_config inp of
         None \<Rightarrow> ret r
       | Some incoming \<Rightarrow> bind (expanded_config L C og (sr_type r) (sr_provider r) incoming) (\<lambda>cfg.
           ret (r\<lparr>sr_config := merge_secret_config (rc_number C) (sr_config r) cfg\<rparr>))) (\<lambda>r'.
       seq (resources_update_row r') (ret r')))"

text \<open>Each check aborts the delete when it fails, except the last one, whose error is dropped.\<close>

definition unused :: "'a option io \<Rightarrow> ('a \<Rightarrow> string) \<Rightarrow> unit io" where
  "unused find_user what = handle find_user (\<lambda>e. err (ErrWrap ''cannot verify resource references'' e)) (\<lambda>u.
     case u of None \<Rightarrow> ret () | Some x \<Rightarrow> err (ErrMsg (''resource is in use by '' @ what x)))"

definition resource_unused :: "libs \<Rightarrow> uuid \<Rightarrow> unit io" where
  "resource_unused L i =
     seq (unused (applications_find_by_resource i) (\<lambda>a. ''application '' @ quoted (a_name a) @ '' as '' @
            (if a_git_provider a = Some i then ''git provider'' else ''registry'')))
     (seq (unused (nodes_find_by_ssh_key i) (\<lambda>n. ''node '' @ quoted (sn_name n) @ '' as SSH key''))
     (seq (unused (managed_dbs_find_by_backup_s3 i) (\<lambda>m. ''database '' @ quoted (mdb_name m) @ '' as backup storage''))
     (seq (unused (resources_find_by_cloud_account resource_registry (uuid_str L i))
            (\<lambda>r. ''registry '' @ quoted (sr_name r) @ '' as cloud account''))
     (seq (unused (resources_find_by_cloud_account resource_object_storage (uuid_str L i))
            (\<lambda>r. ''object storage '' @ quoted (sr_name r) @ '' as cloud account''))
     (seq (unused (pages_find_by_resource i) (\<lambda>p. ''page '' @ quoted (pg_name p) @ '' as '' @
            (if pg_cloud_account p = Some i then ''cloud account'' else ''git provider'')))
       (handle (settings_get ''system_backup_s3_id'') (\<lambda>_. ret ()) (\<lambda>s3.
          if s3 = uuid_str L i then
            err (ErrMsg (''resource is in use as system backup storage '' @ em_dash @ '' change backup config first''))
          else ret ())))))))"

definition resource_delete :: "libs \<Rightarrow> uuid \<Rightarrow> uuid \<Rightarrow> unit io" where
  "resource_delete L og i = bind (get_owned_resource og i) (\<lambda>r.
     seq (resource_unused L i)
     (seq (resources_delete i)
       (notify_resource_deleted og ''resource_deleted'' (sr_name r)
          (''Shared resource '' @ quoted (sr_name r) @ '' ('' @ sr_type r @ '') was deleted''))))"

section \<open>What goes to a provider\<close>

definition list_buckets :: "resource_cloud \<Rightarrow> uuid \<Rightarrow> uuid \<Rightarrow> string list io" where
  "list_buckets C og i = bind (cloud_account_credentials og i) (\<lambda>(r, c).
     if sr_provider r \<noteq> ''aws'' then err (err_validation ''listing buckets is only supported for AWS cloud accounts'')
     else (case rc_buckets C c of Inl e \<Rightarrow> err (err_bad_request (rc_text C e)) | Inr bs \<Rightarrow> ret bs))"

text \<open>\<open>ListRepos\<close> and \<open>SearchRepos\<close>: a refreshed token is written back with the whole row; neither a failed refresh nor a
  failed write stops the request.\<close>

definition refreshed :: "git_provider \<Rightarrow> shared_resource \<Rightarrow> shared_resource io" where
  "refreshed g r = (case gp_refresh g (sr_config r) of
     Inl _ \<Rightarrow> ret r
   | Inr (cfg, changed) \<Rightarrow> if changed then (let r' = r\<lparr>sr_config := cfg\<rparr> in seq (attempt (resources_update_row r')) (ret r')) else ret r)"

definition repos :: "resource_cloud \<Rightarrow> uuid \<Rightarrow> uuid \<Rightarrow> string option \<Rightarrow> string list io" where
  "repos C og i q = bind (get_owned_resource og i) (\<lambda>r.
     if sr_type r \<noteq> resource_git_provider then err (ErrMsg ''resource is not a git provider'')
     else (case rc_git C (sr_provider r) of
         None \<Rightarrow> err (ErrMsg (''unsupported provider: '' @ sr_provider r))
       | Some g \<Rightarrow> bind (refreshed g r) (\<lambda>r'. from_result (gp_repos g (sr_config r') q))))"

definition list_repos :: "resource_cloud \<Rightarrow> uuid \<Rightarrow> uuid \<Rightarrow> string list io" where
  "list_repos C og i = repos C og i None"

definition search_repos :: "resource_cloud \<Rightarrow> uuid \<Rightarrow> uuid \<Rightarrow> string \<Rightarrow> string list io" where
  "search_repos C og i q = repos C og i (Some q)"

definition dns_for :: "string \<Rightarrow> go_error + string" where
  "dns_for p = (if p \<in> {[], ''aws'', ''route53''} then Inr ''route53''
     else if p = ''cloudflare'' then Inr ''cloudflare''
     else Inl (ErrMsg (''DNS management is not supported for provider '' @ quoted p)))"

definition resource_dns :: "uuid \<Rightarrow> uuid \<Rightarrow> (string \<times> json option) io" where
  "resource_dns og i = bind (get_owned_resource og i) (\<lambda>r.
     if sr_type r \<noteq> resource_cloud_account then err (ErrMsg ''resource is not a cloud account'')
     else (case dns_for (sr_provider r) of Inl e \<Rightarrow> err e | Inr p \<Rightarrow> ret (p, sr_config r)))"

definition dns_upsert_record :: "uuid \<Rightarrow> uuid \<Rightarrow> string \<Rightarrow> unit io" where
  "dns_upsert_record og i name = bind (resource_dns og i) (\<lambda>(p, _). cluster (CallDNS ''upsert'' name))"

definition dns_delete_record :: "uuid \<Rightarrow> uuid \<Rightarrow> string \<Rightarrow> string \<Rightarrow> unit io" where
  "dns_delete_record og i name ty = bind (resource_dns og i) (\<lambda>(p, _). seq (cluster (CallDNS ''delete'' name))
     (notify_resource_deleted og ''dns_record_deleted'' name (''DNS record '' @ quoted name @ '' ('' @ ty @ '') was deleted'')))"


section \<open>Deletion\<close>

lemma unused_Inr: "unused (query f) what w = (Inr (), w') \<longleftrightarrow> f (db w) = None \<and> \<not> fault_now w \<and> w' = next_fault w"
  by (auto simp: unused_def handle_def query_def statement_def split: option.splits)

lemma unused_ok: "\<not> fault_now w \<Longrightarrow> f (db w) = None \<Longrightarrow> unused (query f) what w = (Inr (), next_fault w)"
  by (simp add: unused_Inr)

text \<open>What the checks see: references by identifier, and by the canonical text of the identifier in the configuration of a registry or
  an object storage.\<close>

definition unnamed :: "libs \<Rightarrow> uuid \<Rightarrow> database \<Rightarrow> bool" where
  "unnamed L i d \<longleftrightarrow>
     (\<forall>a \<in> set (applications d). live a \<longrightarrow> a_git_provider a \<noteq> Some i \<and> a_registry a \<noteq> Some i) \<and>
     (\<forall>n \<in> set (nodes d). live n \<longrightarrow> sn_key n \<noteq> Some i) \<and>
     (\<forall>m \<in> set (managed_dbs d). live m \<longrightarrow> mdb_backup_s3 m \<noteq> Some i) \<and>
     (\<forall>r \<in> set (shared_resources d). live r \<and> sr_type r \<in> {resource_registry, resource_object_storage} \<longrightarrow>
        config_text ''cloud_account_id'' (sr_config r) \<noteq> Some (uuid_str L i)) \<and>
     (\<forall>p \<in> set (pages d). live p \<longrightarrow> pg_cloud_account p \<noteq> Some i \<and> pg_git_provider p \<noteq> Some i \<and> pg_dns_account p \<noteq> Some i)"

lemma find_live_None: "find_live P t = None \<longleftrightarrow> (\<forall>x \<in> set t. live x \<longrightarrow> \<not> P x)"
  by (auto simp: find_live_def find_None_iff)

lemmas finders = applications_find_by_resource_def nodes_find_by_ssh_key_def managed_dbs_find_by_backup_s3_def
  resources_find_by_cloud_account_def pages_find_by_resource_def

lemma resource_unused_Inr:
  assumes "resource_unused L i w = (Inr (), w')"
  shows "unnamed L i (db w) \<and> db w' = db w"
proof -
  from assms have "unnamed L i (db w)"
    by (auto simp: resource_unused_def seq_Inr finders unused_Inr find_live_None unnamed_def)
  moreover have "reads (resource_unused L i)"
    unfolding resource_unused_def unused_def finders settings_get_def by (intro reads_intros)
  ultimately show ?thesis using readsD assms by blast
qed

lemma resource_unused_calm:
  assumes "calm w" "unnamed L i (db w)" "settings_lookup ''system_backup_s3_id'' (settings (db w)) \<noteq> uuid_str L i"
  shows "\<exists>w'. resource_unused L i w = (Inr (), w') \<and> calm w' \<and> db w' = db w"
proof -
  let ?n = next_fault
  have u: "seq (unused (query f) what) k v = k (?n v)" if "calm v" "f (db v) = None" for f what and k :: "unit io" and v
    using that by (simp add: seq_def bind_def handle_def unused_ok)
  have g: "settings_get key v = (Inr (settings_lookup key (settings (db v))), ?n v)" if "calm v" for key v
    using that by (simp add: settings_get_def query_def statement_def)
  have "resource_unused L i w = (Inr (), ?n (?n (?n (?n (?n (?n (?n w)))))))"
    using assms unfolding resource_unused_def finders
    by (subst u, simp, simp add: find_live_None unnamed_def)+
      (simp add: handle_def g)
  then show ?thesis using assms(1) by simp
qed

lemma resource_unused_backup:
  assumes "calm w" "resource_unused L i w = (Inr (), w')"
  shows "settings_lookup ''system_backup_s3_id'' (settings (db w)) \<noteq> uuid_str L i"
proof -
  have g: "settings_get k v = (if fault_now v then (Inl ErrIO, next_fault v) else (Inr (settings_lookup k (settings (db v))), next_fault v))" for k v
    by (simp add: settings_get_def query_def statement_def)
  show ?thesis using assms by (auto simp: resource_unused_def seq_Inr finders unused_Inr handle_def g err_def split: if_splits)
qed

text \<open>What refers to a resource.  The account of a registry or an object storage is the one whose keys \<open>resolve_account_config\<close> takes:
  whatever identifier the stored text parses to.\<close>

definition account_of :: "libs \<Rightarrow> json option \<Rightarrow> uuid option" where
  "account_of L c = Option.bind (Option.bind c json_map) (\<lambda>m. uuid_parse L (text_of m ''cloud_account_id''))"

definition unreferenced :: "libs \<Rightarrow> uuid \<Rightarrow> database \<Rightarrow> bool" where
  "unreferenced L i d \<longleftrightarrow>
     (\<forall>a \<in> set (applications d). live a \<longrightarrow> Some i \<notin> {a_git_provider a, a_registry a}) \<and>
     (\<forall>n \<in> set (nodes d). live n \<longrightarrow> sn_key n \<noteq> Some i) \<and>
     (\<forall>m \<in> set (managed_dbs d). live m \<longrightarrow> mdb_backup_s3 m \<noteq> Some i) \<and>
     (\<forall>r \<in> set (shared_resources d). live r \<and> sr_type r \<in> {resource_registry, resource_object_storage} \<longrightarrow>
        account_of L (sr_config r) \<noteq> Some i) \<and>
     (\<forall>p \<in> set (pages d). live p \<longrightarrow> Some i \<notin> {pg_cloud_account p, pg_git_provider p, pg_dns_account p})"

text \<open>The stored references to accounts are spelled as \<open>uuid.String\<close> prints them.\<close>

definition canonical_refs :: "libs \<Rightarrow> database \<Rightarrow> bool" where
  "canonical_refs L d \<longleftrightarrow> (\<forall>r \<in> set (shared_resources d). live r \<and> sr_type r \<in> {resource_registry, resource_object_storage} \<longrightarrow>
     (\<forall>k. account_of L (sr_config r) = Some k \<longrightarrow> config_text ''cloud_account_id'' (sr_config r) = Some (uuid_str L k)))"

lemma unnamed_unreferenced: "canonical_refs L d \<Longrightarrow> unnamed L i d \<Longrightarrow> unreferenced L i d"
  unfolding canonical_refs_def unnamed_def unreferenced_def by fastforce


lemma resource_delete_calm:
  assumes "calm w" "by_id i (shared_resources (db w)) = Some r" "sr_org r = og" "unnamed L i (db w)"
    and "settings_lookup ''system_backup_s3_id'' (settings (db w)) \<noteq> uuid_str L i"
  shows "\<exists>w' t. resource_delete L og i w = (Inr (), w') \<and> db w' = shared_resources_update (delete_pk t i) (db w)"
proof -
  have g: "get_owned_resource og i w = (Inr r, next_fault w)"
    using assms(1-3) by (simp add: get_owned_resource_def handle_def resources_get_by_id_def query_row_def statement_def)
  obtain w2 where u: "resource_unused L i (next_fault w) = (Inr (), w2)" "calm w2" "db w2 = db w"
    using resource_unused_calm [of "next_fault w" L i] assms(1,4,5) by auto
  show ?thesis
    using assms(1) u(2,3) by (simp add: resource_delete_def seq_def bind_def handle_def g u(1) resources_delete_def exec_def statement_def
        notify_resource_deleted_def) blast
qed

definition account_row :: shared_resource where
  "account_row = (new_resource 2 ''aws'' resource_cloud_account ''aws'' (Some (JObject [])))\<lparr>bm_id := 9\<rparr>"

definition account_db :: database where
  "account_db = empty_database\<lparr>shared_resources := [account_row]\<rparr>"

lemma demo_id_text: "uuid_str demo_libs u \<noteq> []"
  by (simp add: demo_libs_def) (subst enc_nat.simps, simp)

lemma account_db_ok:
  "by_id 9 (shared_resources account_db) = Some account_row" "unnamed demo_libs 9 account_db"
  "settings_lookup ''system_backup_s3_id'' (settings account_db) \<noteq> uuid_str demo_libs 9"
  by (simp_all add: account_db_def account_row_def new_resource_def by_id_Cons live_def unnamed_def empty_database_def
      settings_lookup_def resource_cloud_account_def resource_registry_def resource_object_storage_def)
     (simp add: demo_id_text [symmetric])

definition used_account :: shared_resource where
  "used_account = account_row\<lparr>bm_id := 8\<rparr>"

definition referring_registry :: shared_resource where
  "referring_registry = account_row\<lparr>bm_id := 7, sr_type := resource_registry, sr_provider := ''ecr'',
     sr_config := Some (JObject [(''cloud_account_id'', JString (uuid_str demo_libs 8))])\<rparr>"

definition two_accounts_db :: database where
  "two_accounts_db = empty_database\<lparr>shared_resources := [account_row, used_account, referring_registry]\<rparr>"

lemma two_accounts:
  "by_id 9 (shared_resources two_accounts_db) = Some account_row" "unnamed demo_libs 9 two_accounts_db"
  "canonical_refs demo_libs two_accounts_db" "account_of demo_libs (sr_config referring_registry) = Some 8"
proof -
  have a: "account_of demo_libs (sr_config referring_registry) = Some 8"
    "config_text ''cloud_account_id'' (sr_config referring_registry) = Some (uuid_str demo_libs 8)"
    using demo_uuid_ok by (simp_all add: account_of_def referring_registry_def text_of_def uuid_ok_def config_text_def)
  then show "account_of demo_libs (sr_config referring_registry) = Some 8" by simp
  have n: "uuid_str demo_libs 8 \<noteq> uuid_str demo_libs 9"
  proof
    assume "uuid_str demo_libs 8 = uuid_str demo_libs 9"
    then have "Some (8 :: uuid) = Some 9" using demo_uuid_ok unfolding uuid_ok_def by metis
    then show False by simp
  qed
  have t: "sr_type account_row = resource_cloud_account" "sr_type used_account = resource_cloud_account"
    "resource_cloud_account \<notin> {resource_registry, resource_object_storage}"
    by (simp_all add: account_row_def used_account_def new_resource_def resource_cloud_account_def resource_registry_def resource_object_storage_def)
  show "by_id 9 (shared_resources two_accounts_db) = Some account_row"
    by (simp add: two_accounts_db_def by_id_Cons account_row_def new_resource_def live_def)
  show "unnamed demo_libs 9 two_accounts_db" using a(2) n t by (auto simp: unnamed_def two_accounts_db_def empty_database_def)
  show "canonical_refs demo_libs two_accounts_db" using a t by (auto simp: canonical_refs_def two_accounts_db_def)
qed


definition worker_on_account :: worker where
  "worker_on_account = \<lparr>bm_id = 5, bm_created = 0, bm_updated = 0, bm_deleted = None, wk_project = 3, wk_name = ''w'',
     wk_description = [], wk_git_repo = ''r'', wk_git_branch = ''main'', wk_git_provider = None, wk_root_dir = ''.'',
     wk_wrangler_config = [], wk_package_manager = ''auto'', wk_install_command = [], wk_build_command = [],
     wk_deploy_command = [], wk_build_env = Map.empty, wk_r2_confirmed = [], wk_cloud_account = Some 9,
     wk_runtime = None, wk_status = WorkerIdle, wk_webhook_secret = [], wk_auto_deploy = False\<rparr>"

text \<open>The delete does not look at workers, although the store has the query: a cloud account or a git
  provider that only workers refer to is deleted, and the workers keep a reference that no lookup finds.\<close>

theorem delete_misses_workers:
  assumes "calm w" "by_id i (shared_resources (db w)) = Some r" "sr_org r = og" "unnamed L i (db w)"
    and "settings_lookup ''system_backup_s3_id'' (settings (db w)) \<noteq> uuid_str L i"
    and "k \<in> set (workers (db w))" "live k" "wk_cloud_account k = Some i"
  shows "fst (resource_delete L og i w) = Inr () \<and> k \<in> set (workers (db (snd (resource_delete L og i w)))) \<and>
    by_id i (shared_resources (db (snd (resource_delete L og i w)))) = None"
proof -
  obtain w' t where "resource_delete L og i w = (Inr (), w')" "db w' = shared_resources_update (delete_pk t i) (db w)"
    using resource_delete_calm [OF assms(1-5)] by blast
  with assms(6) show ?thesis by (simp add: by_id_delete_pk)
qed

lemma delete_misses_workers_witness:
  "fst (resource_delete demo_libs 2 9 (world_of (account_db\<lparr>workers := [worker_on_account]\<rparr>))) = Inr () \<and>
   worker_on_account \<in> set (workers (db (snd (resource_delete demo_libs 2 9 (world_of (account_db\<lparr>workers := [worker_on_account]\<rparr>))))))"
proof -
  let ?w = "world_of (account_db\<lparr>workers := [worker_on_account]\<rparr>)"
  have u: "unnamed demo_libs 9 (db ?w)" using account_db_ok(2) by (simp add: unnamed_def)
  show ?thesis
    using delete_misses_workers [of ?w 9 account_row 2 demo_libs worker_on_account] account_db_ok u
    by (simp add: calm_def account_row_def new_resource_def worker_on_account_def live_def)
qed

section \<open>Whose keys\<close>

text \<open>C21 (keys_of_own_account): the configuration a backup or a registry is used with is the stored one, or the stored one with the
  keys of a cloud account of the organisation that owns the resource: a forged reference to an account of another
  organisation gives no keys.\<close>

theorem keys_of_own_account:
  assumes "resolve_account_config L C kind og provider cfg w = (Inr cfg', w')"
  shows "cfg' = cfg \<or> (\<exists>i a c region kvs j. by_id i (shared_resources (db w)) = Some a \<and> sr_org a = og \<and> sr_provider a = ''aws'' \<and>
    aws_parse_credentials (sr_config a) = Inr c \<and> account_keys C c region = Inr kvs \<and> cfg = Some j \<and> cfg' = Some (with_fields C j kvs))"
proof -
  consider (same) "cfg' = cfg" | (use) j m i a where "cfg = Some j" "json_map j = Some m" "uuid_parse L (text_of m ''cloud_account_id'') = Some i"
      "by_id i (shared_resources (db w)) = Some a" "sr_org a = og" "sr_provider a = ''aws''"
      "(case aws_parse_credentials (sr_config a) of
          Inl e \<Rightarrow> err (ErrWrap ''invalid cloud account config'' e)
        | Inr c \<Rightarrow> (case account_keys C c (or_default (aws_region c) (text_of m ''region'')) of
             Inl e \<Rightarrow> err (ErrWrap (''resolve credentials for cloud account '' @ quoted (sr_name a)) e)
           | Inr kvs \<Rightarrow> ret (Some (with_fields C j kvs)))) (next_fault w) = (Inr cfg', w')"
    using assms by (auto simp: resolve_account_config_def handle_cases resources_get_by_id_def query_row_Inr
        split: option.splits if_splits)
  then show ?thesis
  proof cases
    case (use j m i a)
    from use(7) obtain c kvs where "aws_parse_credentials (sr_config a) = Inr c" "cfg' = Some (with_fields C j kvs)"
      "account_keys C c (or_default (aws_region c) (text_of m ''region'')) = Inr kvs" by (auto split: sum.splits)
    with use(1,4,5,6) show ?thesis by blast
  qed simp
qed


definition demo_resource_cloud :: resource_cloud where
  "demo_resource_cloud = \<lparr>rc_number = id, rc_mmdd = (\<lambda>_. ''0101''), rc_bucket_region = (\<lambda>_ _. Inl ErrIO), rc_resolve = (\<lambda>_ _. Inl ErrIO),
     rc_buckets = (\<lambda>_. Inr []), rc_keygen = (\<lambda>_. Inl ErrIO), rc_git = (\<lambda>_. None), rc_text = (\<lambda>_. [])\<rparr>"

definition keyed_account_db :: database where
  "keyed_account_db = empty_database\<lparr>shared_resources := [account_row\<lparr>sr_config :=
     Some (JObject [(''access_key_id'', JString ''k''), (''secret_access_key'', JString ''s'')])\<rparr>]\<rparr>"

lemma keys_of_own_account_witness:
  "\<exists>a. by_id 9 (shared_resources keyed_account_db) = Some a \<and> sr_org a = 2 \<and>
     fst (resolve_account_config demo_libs demo_resource_cloud ''ecr'' 2 ''ecr''
       (Some (JObject [(''cloud_account_id'', JString (uuid_str demo_libs 9))])) (world_of keyed_account_db)) \<noteq>
     Inr (Some (JObject [(''cloud_account_id'', JString (uuid_str demo_libs 9))]))"
proof -
  let ?j = "JObject [(''cloud_account_id'', JString (uuid_str demo_libs 9))]"
  let ?m = "resolve_account_config demo_libs demo_resource_cloud ''ecr'' 2 ''ecr'' (Some ?j) (world_of keyed_account_db)"
  have n: "uuid_str demo_libs 9 \<noteq> []" by (rule demo_id_text)
  have u: "uuid_parse demo_libs (uuid_str demo_libs 9) = Some 9" using demo_uuid_ok by (simp add: uuid_ok_def)
  have e: "?m = (Inr (Some (with_fields demo_resource_cloud ?j [(''access_key'', ''k''), (''secret_key'', ''s'')])), world_of keyed_account_db)"
    using n u by (simp add: resolve_account_config_def text_of_def handle_def resources_get_by_id_def query_row_def statement_def
        keyed_account_db_def account_row_def new_resource_def by_id_Cons live_def aws_parse_credentials_def aws_fields_def
        equal_fold_def to_lower_def lower_char_def is_upper_char_def char_in_def aws_validate_def aws_static_keys_def aws_assume_role_def account_keys_def Let_def)
  have ne: "with_fields demo_resource_cloud ?j [(''access_key'', ''k''), (''secret_key'', ''s'')] \<noteq> ?j"
  proof
    assume "with_fields demo_resource_cloud ?j [(''access_key'', ''k''), (''secret_key'', ''s'')] = ?j"
    then have "json_map (with_fields demo_resource_cloud ?j [(''access_key'', ''k''), (''secret_key'', ''s'')]) = json_map ?j" by simp
    then have "[''cloud_account_id'' \<mapsto> JString (uuid_str demo_libs 9), ''access_key'' \<mapsto> JString ''k'', ''secret_key'' \<mapsto> JString ''s''] =
        [''cloud_account_id'' \<mapsto> JString (uuid_str demo_libs 9)]"
      by (simp add: with_fields_def map_of_rev_canon canon_def sorted_keys_def fun_upd_twist)
    then show False by (auto dest: fun_cong [of _ _ "''access_key''"])
  qed
  from keys_of_own_account [OF e] ne obtain i a where "by_id i (shared_resources (db (world_of keyed_account_db))) = Some a" "sr_org a = 2"
    by auto
  moreover from this have "i = 9"
    by (auto simp: keyed_account_db_def account_row_def new_resource_def by_id_Cons split: if_splits)
  ultimately show ?thesis using ne e by auto
qed

end
