(* ===== verification/Cron_Match.thy ===== *)
theory Cron_Match imports Prelude_Go begin

text \<open>
  When a cron expression is due (\<open>service/system_backup_service.go\<close>: \<open>shouldRunNow\<close> and the functions under it),
  and the Go library functions it reads numbers and fields with.  The minute, hour, day, month and weekday of the
  local time are a record.
\<close>

section \<open>Library functions\<close>

text \<open>\<open>strings.Fields\<close>, and \<open>strconv.Atoi\<close> for a 64-bit \<open>int\<close>.\<close>

fun split_spaces :: "string \<Rightarrow> string list" where
  "split_spaces [] = [[]]"
| "split_spaces (c # s) =
     (if is_space_char c then [] # split_spaces s
      else (case split_spaces s of [] \<Rightarrow> [[c]] | p # ps \<Rightarrow> (c # p) # ps))"

definition go_fields :: "string \<Rightarrow> string list" where
  "go_fields s = filter (\<lambda>p. p \<noteq> []) (split_spaces s)"

definition digit_value :: "char \<Rightarrow> int" where
  "digit_value c = int (of_char c) - 48"

definition digits_value :: "string \<Rightarrow> int" where
  "digits_value s = foldl (\<lambda>n c. 10 * n + digit_value c) 0 s"

definition unsigned_of :: "string \<Rightarrow> int option" where
  "unsigned_of s = (if s \<noteq> [] \<and> list_all is_digit_char s then Some (digits_value s) else None)"

definition atoi :: "string \<Rightarrow> int option" where
  "atoi s =
     (case (case s of [] \<Rightarrow> None
        | c # t \<Rightarrow> if c = CHR ''-'' then map_option uminus (unsigned_of t)
            else if c = CHR ''+'' then unsigned_of t else unsigned_of s) of
        None \<Rightarrow> None
      | Some n \<Rightarrow> if - (2 ^ 63) \<le> n \<and> n < 2 ^ 63 then Some n else None)"

section \<open>The code\<close>

definition before :: "char \<Rightarrow> string \<Rightarrow> string" where
  "before c s = takeWhile (\<lambda>x. x \<noteq> c) s"

definition after :: "char \<Rightarrow> string \<Rightarrow> string" where
  "after c s = tl (dropWhile (\<lambda>x. x \<noteq> c) s)"

definition match_step :: "string \<Rightarrow> int \<Rightarrow> int \<Rightarrow> bool" where
  "match_step atom step v =
     (if atom = ''*'' then v mod step = 0
      else if CHR ''-'' \<in> set atom then
        (case (atoi (before (CHR ''-'') atom), atoi (after (CHR ''-'') atom)) of
           (Some lo, Some hi) \<Rightarrow> \<not> lo > hi \<and> v \<ge> lo \<and> v \<le> hi \<and> (v - lo) mod step = 0
         | _ \<Rightarrow> False)
      else (case atoi atom of
          None \<Rightarrow> False
        | Some n \<Rightarrow> if step = 1 then n = v else v \<ge> n \<and> (v - n) mod step = 0))"

definition match_cron_atom :: "string \<Rightarrow> int \<Rightarrow> bool" where
  "match_cron_atom atom v =
     (if CHR ''/'' \<in> set atom then
        (case atoi (after (CHR ''/'') atom) of
           None \<Rightarrow> False
         | Some s \<Rightarrow> if s \<le> 0 then False else match_step (before (CHR ''/'') atom) s v)
      else match_step atom 1 v)"

definition match_field :: "string \<Rightarrow> int \<Rightarrow> bool" where
  "match_field pattern v = list_ex (\<lambda>a. match_cron_atom a v) (split_on (CHR '','') pattern)"

definition match_weekday_field :: "string \<Rightarrow> int \<Rightarrow> bool" where
  "match_weekday_field pattern wd =
     (if match_field pattern wd then True else if wd = 0 then match_field pattern 7 else False)"

record civil =
  cv_minute :: nat
  cv_hour :: nat
  cv_day :: nat
  cv_month :: nat
  cv_weekday :: nat

definition should_run_at :: "string \<Rightarrow> civil \<Rightarrow> bool" where
  "should_run_at e t = (case go_fields e of
     [mi, ho, dy, mo, wd] \<Rightarrow> match_field mi (int (cv_minute t)) \<and> match_field ho (int (cv_hour t)) \<and>
       match_field dy (int (cv_day t)) \<and> match_field mo (int (cv_month t)) \<and> match_weekday_field wd (int (cv_weekday t))
   | _ \<Rightarrow> False)"

section \<open>Expressions\<close>

text \<open>The reference: the expressions a user means, their text, and the values they denote.\<close>

datatype cron_atom = Any "nat option" | At nat "nat option" | Between nat nat "nat option"

definition step_text :: "nat option \<Rightarrow> string" where
  "step_text k = (case k of None \<Rightarrow> [] | Some n \<Rightarrow> CHR ''/'' # digits_of n)"

primrec atom_text :: "cron_atom \<Rightarrow> string" where
  "atom_text (Any k) = ''*'' @ step_text k"
| "atom_text (At n k) = digits_of n @ step_text k"
| "atom_text (Between lo hi k) = digits_of lo @ CHR ''-'' # digits_of hi @ step_text k"

definition step_of :: "nat option \<Rightarrow> nat" where
  "step_of k = (case k of None \<Rightarrow> 1 | Some n \<Rightarrow> n)"

primrec denotes :: "cron_atom \<Rightarrow> nat \<Rightarrow> bool" where
  "denotes (Any k) v = (step_of k dvd v)"
| "denotes (At n k) v = (if step_of k = 1 then v = n else n \<le> v \<and> step_of k dvd (v - n))"
| "denotes (Between lo hi k) v = (lo \<le> v \<and> v \<le> hi \<and> step_of k dvd (v - lo))"

definition int64 :: "nat \<Rightarrow> bool" where
  "int64 n \<longleftrightarrow> n < 2 ^ 63"

definition step_fits :: "nat option \<Rightarrow> bool" where
  "step_fits k \<longleftrightarrow> (case k of None \<Rightarrow> True | Some n \<Rightarrow> 0 < n \<and> int64 n)"

primrec fits :: "cron_atom \<Rightarrow> bool" where
  "fits (Any k) = step_fits k"
| "fits (At n k) = (int64 n \<and> step_fits k)"
| "fits (Between lo hi k) = (int64 lo \<and> int64 hi \<and> step_fits k)"

definition field_text :: "cron_atom list \<Rightarrow> string" where
  "field_text as = join_with [CHR '',''] (map atom_text as)"

definition field_denotes :: "cron_atom list \<Rightarrow> nat \<Rightarrow> bool" where
  "field_denotes as v \<longleftrightarrow> (\<exists>a \<in> set as. denotes a v)"

section \<open>Numbers\<close>

lemma digits_value_snoc: "digits_value (s @ [c]) = 10 * digits_value s + digit_value c"
  by (simp add: digits_value_def)

lemma digit_value_char: "k < 10 \<Longrightarrow> digit_value (char_of (48 + k :: nat)) = int k"
  by (simp add: digit_value_def)

lemma digits_value_digits_of: "digits_value (digits_of n) = int n"
proof (induction n rule: digits_of.induct)
  case (1 n)
  show ?case
  proof (cases "n < 10")
    case True
    then have "digits_of n = [char_of (48 + n)]" by (subst digits_of.simps) simp
    then show ?thesis using digit_value_char [OF True] by (simp add: digits_value_def)
  next
    case False
    then have "digits_of n = digits_of (n div 10) @ [char_of (48 + n mod 10)]" by (subst digits_of.simps) simp
    then have "digits_value (digits_of n) = 10 * int (n div 10) + int (n mod 10)"
      using 1 [OF False] digit_value_char [of "n mod 10"] by (simp add: digits_value_snoc)
    also have "\<dots> = int (10 * (n div 10) + n mod 10)" by (simp only: of_nat_add of_nat_mult of_nat_numeral)
    finally show ?thesis by (simp only: mult_div_mod_eq)
  qed
qed

lemma digits_of_char: "c \<in> set (digits_of n) \<Longrightarrow> is_digit_char c"
  using digits_of_digits [of n] by (simp add: list_all_iff)

lemma not_digits: "\<not> is_digit_char (CHR ''-'')" "\<not> is_digit_char (CHR ''+'')" "\<not> is_digit_char (CHR ''/'')"
  "\<not> is_digit_char (CHR '','')" "\<not> is_digit_char (CHR ''*'')" "\<not> is_digit_char (CHR '' '')"
  by (simp_all add: is_digit_char_def char_in_def)

lemma digits_lack: "\<not> is_digit_char c \<Longrightarrow> c \<notin> set (digits_of n)"
  using digits_of_char by blast

lemma atoi_digits_of [simp]: "int64 n \<Longrightarrow> atoi (digits_of n) = Some (int n)"
proof -
  assume n: "int64 n"
  obtain c t where ct: "digits_of n = c # t" using digits_of_not_Nil by (cases "digits_of n") blast
  have "c \<noteq> CHR ''-''" "c \<noteq> CHR ''+''" using digits_of_char [of c n] not_digits ct by auto
  moreover have "unsigned_of (digits_of n) = Some (int n)"
    by (simp add: unsigned_of_def digits_of_digits digits_value_digits_of)
  moreover have "int n < 2 ^ 63" using n by (simp add: int64_def)
  ultimately show ?thesis using ct by (simp add: atoi_def)
qed

section \<open>What the code matches\<close>

lemma before_append: "c \<notin> set s \<Longrightarrow> before c (s @ c # t) = s" "c \<notin> set s \<Longrightarrow> after c (s @ c # t) = t"
  by (induction s) (auto simp: before_def after_def)

lemma int_mod_dvd: "0 < k \<Longrightarrow> int v mod int k = 0 \<longleftrightarrow> k dvd v"
  by (metis mod_eq_0_iff_dvd of_nat_dvd_iff)

lemma int_diff_mod_dvd: "0 < k \<Longrightarrow> n \<le> v \<Longrightarrow> (int v - int n) mod int k = 0 \<longleftrightarrow> k dvd (v - n)"
  using int_mod_dvd [of k "v - n"] by (simp add: of_nat_diff)

lemma digits_not_star: "digits_of n \<noteq> ''*''"
  using digits_of_char [of "CHR ''*''" n] not_digits by fastforce

lemma match_step_any: "0 < k \<Longrightarrow> match_step ''*'' (int k) (int v) = (k dvd v)"
  by (simp add: match_step_def int_mod_dvd)

lemma match_step_at:
  assumes "0 < k" "int64 n"
  shows "match_step (digits_of n) (int k) (int v) = (if k = 1 then v = n else n \<le> v \<and> k dvd (v - n))"
proof -
  have "CHR ''-'' \<notin> set (digits_of n)" by (rule digits_lack) (simp add: not_digits)
  then show ?thesis
    using assms int_diff_mod_dvd [of k n v] by (auto simp: match_step_def digits_not_star)
qed

lemma match_step_between:
  assumes "0 < k" "int64 lo" "int64 hi"
  shows "match_step (digits_of lo @ CHR ''-'' # digits_of hi) (int k) (int v) = (lo \<le> v \<and> v \<le> hi \<and> k dvd (v - lo))"
proof -
  have "CHR ''-'' \<notin> set (digits_of lo)" by (rule digits_lack) (simp add: not_digits)
  moreover have "digits_of lo @ CHR ''-'' # digits_of hi \<noteq> ''*''"
    using digits_of_not_Nil [of lo] by (cases "digits_of lo") auto
  ultimately show ?thesis
    using assms int_diff_mod_dvd [of k lo v] by (auto simp: match_step_def before_append)
qed

lemma match_cron_atom_stepped:
  assumes "CHR ''/'' \<notin> set s" "step_fits k"
  shows "match_cron_atom (s @ step_text k) (int v) = match_step s (int (step_of k)) (int v)"
  using assms
  by (cases k) (auto simp: match_cron_atom_def step_text_def step_of_def step_fits_def before_append)

lemma match_cron_atom_text:
  assumes "fits a"
  shows "match_cron_atom (atom_text a) (int v) = denotes a v"
proof -
  have slash: "CHR ''/'' \<notin> set (digits_of n)" for n by (rule digits_lack) (simp add: not_digits)
  have pos: "step_fits k \<Longrightarrow> 0 < step_of k" for k by (cases k) (simp_all add: step_fits_def step_of_def)
  show ?thesis
  proof (cases a)
    case (Any k)
    then show ?thesis using assms pos match_cron_atom_stepped [of "''*''" k v] by (simp add: match_step_any)
  next
    case (At n k)
    then show ?thesis using assms pos slash match_cron_atom_stepped [of "digits_of n" k v] by (simp add: match_step_at)
  next
    case (Between lo hi k)
    then show ?thesis
      using assms pos slash match_cron_atom_stepped [of "digits_of lo @ CHR ''-'' # digits_of hi" k v]
      by (simp add: match_step_between)
  qed
qed

lemma split_on_append: "d \<notin> set s \<Longrightarrow> split_on d (s @ d # t) = s # split_on d t"
  by (induction s) auto

lemma split_on_join: "as \<noteq> [] \<Longrightarrow> (\<And>a. a \<in> set as \<Longrightarrow> d \<notin> set a) \<Longrightarrow> split_on d (join_with [d] as) = as"
  by (induction "[d]" as rule: join_with.induct) (auto simp: split_on_append split_on_no_sep)

lemma atom_text_lacks:
  assumes "c \<in> {CHR '','', CHR '' ''} \<or> is_space_char c"
  shows "c \<notin> set (atom_text a)"
proof -
  have "\<not> is_digit_char c" "c \<noteq> CHR ''*''" "c \<noteq> CHR ''/''" "c \<noteq> CHR ''-''"
    using assms by (auto simp: is_digit_char_def is_space_char_def char_in_def)
  moreover from this have "c \<notin> set (step_text k)" for k
    by (cases k) (auto simp: step_text_def dest: digits_of_char)
  ultimately show ?thesis by (cases a) (auto dest: digits_of_char)
qed

lemma match_field_text:
  assumes "as \<noteq> []" "\<And>a. a \<in> set as \<Longrightarrow> fits a"
  shows "match_field (field_text as) (int v) = field_denotes as v"
proof -
  have "split_on (CHR '','') (field_text as) = map atom_text as"
    unfolding field_text_def by (rule split_on_join) (use assms(1) atom_text_lacks in auto)
  then show ?thesis using assms(2) by (auto simp: match_field_def field_denotes_def list_ex_iff match_cron_atom_text)
qed

lemma split_spaces_not_Nil [simp]: "split_spaces s \<noteq> []"
  by (induction s) (auto split: list.splits)

lemma split_spaces_word: "\<not> (\<exists>c \<in> set p. is_space_char c) \<Longrightarrow> split_spaces p = [p]"
  by (induction p) auto

lemma split_spaces_append:
  "\<not> (\<exists>c \<in> set p. is_space_char c) \<Longrightarrow> is_space_char d \<Longrightarrow> split_spaces (p @ d # s) = p # split_spaces s"
  by (induction p) auto

lemma go_fields_join:
  "is_space_char d \<Longrightarrow> (\<And>p. p \<in> set ps \<Longrightarrow> p \<noteq> [] \<and> \<not> (\<exists>c \<in> set p. is_space_char c)) \<Longrightarrow> go_fields (join_with [d] ps) = ps"
proof (induction "[d]" ps rule: join_with.induct)
  case (3 x y ys)
  have x: "x \<noteq> []" "\<not> (\<exists>c \<in> set x. is_space_char c)" using 3(3) by auto
  have "go_fields (join_with [d] (y # ys)) = y # ys" using 3 by auto
  then show ?case using split_spaces_append [OF x(2) 3(2), of "join_with [d] (y # ys)"] x(1) by (simp add: go_fields_def)
qed (auto simp: go_fields_def split_spaces_word)

lemma set_join_with: "set (join_with sep ps) \<subseteq> set sep \<union> (\<Union>p \<in> set ps. set p)"
  by (induction sep ps rule: join_with.induct) auto

lemma field_text_word:
  assumes "as \<noteq> []"
  shows "field_text as \<noteq> [] \<and> \<not> (\<exists>c \<in> set (field_text as). is_space_char c)"
proof
  have "set (field_text as) \<subseteq> {CHR '',''} \<union> (\<Union>a \<in> set as. set (atom_text a))"
    using set_join_with [of "[CHR '','']" "map atom_text as"] by (auto simp: field_text_def)
  moreover have "\<not> is_space_char (CHR '','')" by (simp add: is_space_char_def char_in_def)
  ultimately show "\<not> (\<exists>c \<in> set (field_text as). is_space_char c)" using atom_text_lacks by blast
  have "atom_text a \<noteq> []" for a by (cases a) simp_all
  with assms show "field_text as \<noteq> []" by (cases "map atom_text as" rule: remdups_adj.cases) (auto simp: field_text_def)
qed

text \<open>C27 (cron_schedule_meaning): the text of an expression of five fields is due exactly at the minutes its fields denote: every
  field holds, and a weekday field holds on Sunday for 0 and for 7.  A stepped star counts from zero in every field, so
  in the fields that start at one it means the multiples of the step, and a number with step one means that number
  alone.\<close>

theorem cron_schedule_meaning:
  assumes "list_all (\<lambda>as. as \<noteq> [] \<and> list_all fits as) [mi, ho, dy, mo, wd]"
  shows "should_run_at (join_with '' '' (map field_text [mi, ho, dy, mo, wd])) t \<longleftrightarrow>
    field_denotes mi (cv_minute t) \<and> field_denotes ho (cv_hour t) \<and> field_denotes dy (cv_day t) \<and>
    field_denotes mo (cv_month t) \<and>
    (field_denotes wd (cv_weekday t) \<or> cv_weekday t = 0 \<and> field_denotes wd 7)"
proof -
  have "go_fields (join_with '' '' (map field_text [mi, ho, dy, mo, wd])) = map field_text [mi, ho, dy, mo, wd]"
    by (rule go_fields_join) (use assms field_text_word in \<open>auto simp: is_space_char_def char_in_def\<close>)
  moreover have "match_field (field_text as) (int v) = field_denotes as v" if "as \<in> {mi, ho, dy, mo, wd}" for as v
    using assms that by (intro match_field_text) (auto simp: list_all_iff)
  moreover from this [of wd 7] have "match_field (field_text wd) 7 = field_denotes wd 7" by simp
  ultimately show ?thesis by (simp add: should_run_at_def match_weekday_field_def)
qed

lemma cron_schedule_meaning_witness:
  "should_run_at ''*/15 9-17 * 1,2 7'' \<lparr>cv_minute = 30, cv_hour = 10, cv_day = 4, cv_month = 2, cv_weekday = 0\<rparr>"
proof -
  let ?fs = "[[Any (Some 15)], [Between 9 17 None], [Any None], [At 1 None, At 2 None], [At 7 None]]"
  have t: "join_with '' '' (map field_text ?fs) = ''*/15 9-17 * 1,2 7''" by code_simp
  show ?thesis
    using cron_schedule_meaning [of "[Any (Some 15)]" "[Between 9 17 None]" "[Any None]" "[At 1 None, At 2 None]" "[At 7 None]"
        "\<lparr>cv_minute = 30, cv_hour = 10, cv_day = 4, cv_month = 2, cv_weekday = 0\<rparr>"]
    unfolding t by (simp add: step_fits_def int64_def step_of_def field_denotes_def)
qed

end
