(* ===== verification/System_Backup.thy ===== *)
theory System_Backup imports Resource_Service Cron_Match Job_Worker begin

text \<open>
  Backups of the API's own database (\<open>service/system_backup_service.go\<close>).  The record \<open>backup_host\<close> is what the
  machine answers: the URL of the database as \<open>url.Parse\<close> splits it, whether a temporary file can be created and
  measured, the UTC stamp of a time, and what lists an object store.  \<open>pg_dump\<close>, \<open>pg_restore\<close> and the object store are
  recorded calls that may fail.
\<close>

record db_url =
  du_host :: string
  du_port :: string
  du_user :: string
  du_password :: "string option"
  du_path :: string

record backup_host =
  bh_url :: "go_error + db_url"
  bh_temp :: "go_error option"
  bh_size :: "go_error + int"
  bh_stamp :: "time \<Rightarrow> string"
  bh_text :: "go_error \<Rightarrow> string"
  bh_objects :: "string \<Rightarrow> go_error + (string \<times> string \<times> int) list"

section \<open>The configuration\<close>

record backup_config =
  bc_enabled :: bool
  bc_s3 :: string
  bc_schedule :: string
  bc_path :: string
  bc_retention :: int

definition itoa :: "int \<Rightarrow> string" where
  "itoa n = (if n < 0 then CHR ''-'' # digits_of (nat (- n)) else digits_of (nat n))"

definition retention_of :: "string \<Rightarrow> int" where
  "retention_of s = (if s = [] then 30 else (case atoi s of Some v \<Rightarrow> if v > 0 then v else 30 | None \<Rightarrow> 30))"

definition get_backup_config :: "backup_config io" where
  "get_backup_config =
     bind (setting_or_empty ''system_backup_enabled'') (\<lambda>en. bind (setting_or_empty ''system_backup_s3_id'') (\<lambda>s3.
     bind (setting_or_empty ''system_backup_schedule'') (\<lambda>sc. bind (setting_or_empty ''system_backup_path'') (\<lambda>pa.
     bind (setting_or_empty ''system_backup_retention'') (\<lambda>re.
       ret \<lparr>bc_enabled = (en = ''true''), bc_s3 = s3, bc_schedule = sc, bc_path = pa, bc_retention = retention_of re\<rparr>)))))"

definition backup_pairs :: "backup_config \<Rightarrow> (string \<times> string) list" where
  "backup_pairs c = [(''system_backup_s3_id'', bc_s3 c), (''system_backup_schedule'', bc_schedule c),
     (''system_backup_path'', bc_path c), (''system_backup_retention'', itoa (bc_retention c)),
     (''system_backup_enabled'', if bc_enabled c then ''true'' else ''false'')]"

definition check_backup_s3 :: "libs \<Rightarrow> string \<Rightarrow> unit io" where
  "check_backup_s3 L s3 =
     (if s3 = [] then ret ()
      else (case uuid_parse L s3 of
          None \<Rightarrow> err (ErrMsg ''invalid S3 resource ID'')
        | Some i \<Rightarrow> handle (resources_get_by_id i) (\<lambda>e. err (ErrWrap ''S3 resource not found'' e)) (\<lambda>r.
            if sr_type r \<noteq> resource_object_storage then
              err (ErrMsg (''resource '' @ quoted (sr_name r) @ '' is not an object storage resource''))
            else ret ())))"

definition save_backup_config :: "libs \<Rightarrow> ((string \<times> string) list \<Rightarrow> (string \<times> string) list) \<Rightarrow> backup_config \<Rightarrow> unit io" where
  "save_backup_config L visit c =
     (if bc_enabled c \<and> bc_s3 c = [] then err (ErrMsg ''S3 storage resource is required when backups are enabled'')
      else if bc_enabled c \<and> bc_schedule c = [] then err (ErrMsg ''backup schedule is required when backups are enabled'')
      else if bc_enabled c \<and> length (go_fields (bc_schedule c)) \<noteq> 5 then
        err (ErrMsg (''invalid cron schedule '' @ quoted (bc_schedule c) @ '': expected 5 fields''))
      else seq (check_backup_s3 L (bc_s3 c)) (save_pairs visit (backup_pairs c)))"

section \<open>Starting a backup\<close>

definition s3_fields :: "string list" where
  "s3_fields = [''endpoint'', ''bucket'', ''access_key'', ''secret_key'', ''session_token'', ''region'']"

definition s3_bucket :: "json option \<Rightarrow> go_error + string" where
  "s3_bucket cfg = (case cfg of
     None \<Rightarrow> Inl (ErrMsg ''invalid config'')
   | Some j \<Rightarrow> if \<not> fields_ok s3_fields j then Inl (ErrMsg ''invalid config'')
       else if fst (json_field ''bucket'' j) = [] then Inl (ErrMsg ''bucket is required'')
       else Inr (fst (json_field ''bucket'' j)))"

definition queued_backup :: "time \<Rightarrow> string \<Rightarrow> system_backup" where
  "queued_backup t bucket = \<lparr>bm_id = uuid_nil, bm_created = 0, bm_updated = 0, bm_deleted = None, sb_status = ''queued'', sb_size = 0,
     sb_file = [], sb_bucket = bucket, sb_path = [], sb_error = [], sb_started = Some t, sb_finished = None\<rparr>"

definition backup_resource :: "libs \<Rightarrow> backup_config \<Rightarrow> shared_resource io" where
  "backup_resource L c =
     (if bc_s3 c = [] then err (ErrMsg ''system backup S3 resource not configured'')
      else (case uuid_parse L (bc_s3 c) of
          None \<Rightarrow> err (ErrMsg ''invalid S3 resource ID'')
        | Some i \<Rightarrow> handle (resources_get_by_id i) (\<lambda>e. err (ErrWrap ''S3 resource not found'' e)) ret))"

definition failed_at :: "time \<Rightarrow> string \<Rightarrow> system_backup \<Rightarrow> system_backup" where
  "failed_at t why b = b\<lparr>sb_status := ''failed'', sb_finished := Some t, sb_error := why\<rparr>"

definition trigger_backup :: "libs \<Rightarrow> backup_host \<Rightarrow> system_backup io" where
  "trigger_backup L H = bind get_backup_config (\<lambda>c. bind (backup_resource L c) (\<lambda>r.
     case s3_bucket (sr_config r) of
       Inl e \<Rightarrow> err (ErrWrap ''invalid object storage config'' e)
     | Inr bucket \<Rightarrow> bind now (\<lambda>t.
         handle (sys_backups_create (queued_backup t bucket)) (\<lambda>e. err (ErrWrap ''failed to create backup record'' e)) (\<lambda>b.
           handle (enqueue (new_system_backup_job (bm_id b)))
             (\<lambda>e. seq (attempt (sys_backups_update_row (failed_at t (''Failed to enqueue backup job: '' @ bh_text H e) b)))
                (err (ErrWrap ''enqueue backup job'' e)))
             (\<lambda>_. ret b)))))"

text \<open>One tick of the scheduler on a replica.\<close>

definition backup_tick :: "libs \<Rightarrow> backup_host \<Rightarrow> (time \<Rightarrow> civil) \<Rightarrow> bool \<Rightarrow> unit io" where
  "backup_tick L H local leader =
     (if \<not> leader then ret ()
      else bind get_backup_config (\<lambda>c. bind now (\<lambda>t.
        if bc_enabled c \<and> bc_schedule c \<noteq> [] \<and> should_run_at (bc_schedule c) (local t) then attempt (trigger_backup L H) else ret ())))"

section \<open>The job\<close>

definition fail_backup :: "system_backup \<Rightarrow> string \<Rightarrow> unit io" where
  "fail_backup b why = bind now (\<lambda>t. attempt (sys_backups_update_row (failed_at t why b)))"

definition parse_database_url :: "backup_host \<Rightarrow> go_error + (string \<times> string \<times> string \<times> string \<times> string)" where
  "parse_database_url H = (case bh_url H of
     Inl e \<Rightarrow> Inl (ErrWrap ''invalid database URL'' e)
   | Inr u \<Rightarrow> Inr (du_host u, or_default ''5432'' (du_port u), du_user u, (case du_password u of None \<Rightarrow> [] | Some p \<Rightarrow> p),
       trim_prefix (du_path u) ''/''))"

definition expire_backup :: "system_backup \<Rightarrow> unit io" where
  "expire_backup b =
     (if sb_status b \<noteq> ''completed'' then ret ()
      else seq (if sb_path b \<noteq> [] then attempt (cluster (CallStorage ''delete'' (sb_path b))) else ret ())
        (bind now (\<lambda>t. attempt (sys_backups_update_row (b\<lparr>bm_deleted := Some t\<rparr>)))))"

definition enforce_retention :: "int \<Rightarrow> unit io" where
  "enforce_retention n =
     (if n \<le> 0 then ret ()
      else handle (sys_backups_list \<lparr>lp_page = 1, lp_per_page = 1000\<rparr>) (\<lambda>_. ret ()) (\<lambda>(bs, total).
        if int total \<le> n then ret () else for_each expire_backup (drop (nat n) bs)))"

definition run_backup :: "backup_host \<Rightarrow> system_backup \<Rightarrow> backup_config \<Rightarrow> unit io" where
  "run_backup H b0 c = bind now (\<lambda>t.
     let file = ''orkai-'' @ bh_stamp H t @ ''.dump''; dir = or_default ''orkai-backups'' (bc_path c);
         b = b0\<lparr>sb_path := dir @ CHR ''/'' # file, sb_file := file\<rparr>;
         failed = (\<lambda>b why e. fail_backup b (why @ '': '' @ bh_text H e)) in
     case bh_temp H of
       Some e \<Rightarrow> failed b ''failed to create temp file'' e
     | None \<Rightarrow> (case parse_database_url H of
         Inl e \<Rightarrow> failed b ''failed to parse database URL'' e
       | Inr _ \<Rightarrow> handle (cluster (CallStorage ''pg_dump'' [])) (failed b ''pg_dump failed'') (\<lambda>_.
           case bh_size H of
             Inl e \<Rightarrow> failed b ''failed to stat dump file'' e
           | Inr n \<Rightarrow> let b' = b\<lparr>sb_size := n\<rparr> in
               handle (cluster (CallStorage ''upload'' (sb_path b'))) (failed b' ''S3 upload failed'') (\<lambda>_. bind now (\<lambda>t'.
                 seq (attempt (sys_backups_update_row (b'\<lparr>sb_status := ''completed'', sb_finished := Some t'\<rparr>)))
                   (enforce_retention (bc_retention c)))))))"

definition run_backup_job :: "libs \<Rightarrow> resource_cloud \<Rightarrow> backup_host \<Rightarrow> uuid \<Rightarrow> unit io" where
  "run_backup_job L C H i = handle (sys_backups_get_by_id i) (\<lambda>e. err (ErrWrap ''load backup'' e)) (\<lambda>b.
     if sb_status b = ''completed'' \<or> sb_status b = ''failed'' then ret ()
     else bind get_backup_config (\<lambda>c. bind (backup_resource L c) (\<lambda>r.
       handle (resolve_object_storage_config L C (sr_org r) (sr_provider r) (sr_config r))
         (\<lambda>e. err (ErrWrap ''resolve S3 credentials'' e)) (\<lambda>_.
       let b' = b\<lparr>sb_status := ''running''\<rparr> in
       handle (sys_backups_update_row b') (\<lambda>e. err (ErrWrap ''mark backup running'' e)) (\<lambda>_. run_backup H b' c)))))"

section \<open>Restoring\<close>

text \<open>Scan and restore are for an installation without users; the restore replaces the database, so what follows is a call.\<close>

definition fresh_only :: "string \<Rightarrow> 'a io \<Rightarrow> 'a io" where
  "fresh_only why m = handle users_count (\<lambda>e. err (ErrWrap ''failed to check user count'' e)) (\<lambda>n.
     if n > 0 then err (ErrMsg why) else m)"

definition scan_s3_backups :: "backup_host \<Rightarrow> string \<Rightarrow> (string \<times> string \<times> int) list io" where
  "scan_s3_backups H path = fresh_only ''restore scan is only available on fresh installations''
     (case bh_objects H (or_default ''orkai-backups'' path) of
        Inl e \<Rightarrow> err (ErrWrap ''failed to list object storage'' e)
      | Inr os \<Rightarrow> ret (filter (\<lambda>(key, name, size). has_suffix name ''.dump'') os))"

definition restore_from_s3 :: "backup_host \<Rightarrow> string \<Rightarrow> unit io" where
  "restore_from_s3 H key = fresh_only ''restore only available on fresh installation''
     (case bh_temp H of
        Some e \<Rightarrow> err (ErrWrap ''failed to create temp file'' e)
      | None \<Rightarrow> handle (cluster (CallStorage ''download'' key)) (\<lambda>e. err (ErrWrap ''S3 download failed'' e)) (\<lambda>_.
          case parse_database_url H of
            Inl e \<Rightarrow> err (ErrWrap ''failed to parse database URL'' e)
          | Inr _ \<Rightarrow> handle (cluster (CallStorage ''pg_restore'' key)) (\<lambda>e. err (ErrWrap ''pg_restore failed'' e)) ret))"


section \<open>Retention\<close>

lemma by_id_expired:
  "by_id j (replace_pk (r\<lparr>bm_deleted := Some t\<rparr>) T) = (if j = bm_id r then None else by_id j T)"
  by (induction T) (auto simp: replace_pk_def update_live_def by_id_Cons live_def)

text \<open>The calls that ask the storage to delete the objects of expired backups.\<close>

definition object_deletes :: "system_backup list \<Rightarrow> cluster_call list" where
  "object_deletes bs = map (\<lambda>b. CallStorage ''delete'' (sb_path b)) (filter (\<lambda>b. sb_status b = ''completed'' \<and> sb_path b \<noteq> []) bs)"

lemma expire_calm:
  assumes "calm w"
  shows "\<exists>w'. expire_backup b w = (Inr (), w') \<and> calm w' \<and> calls w' = calls w @ object_deletes [b] \<and>
    (\<forall>j. by_id j (sys_backups (db w')) = (if j = bm_id b \<and> sb_status b = ''completed'' then None else by_id j (sys_backups (db w))))"
proof (cases "sb_status b = ''completed''")
  case True
  let ?c = "if sb_path b \<noteq> [] then attempt (cluster (CallStorage ''delete'' (sb_path b))) else ret ()"
  have "\<exists>w1. ?c w = (Inr (), w1) \<and> calm w1 \<and> db w1 = db w \<and> calls w1 = calls w @ object_deletes [b]"
    using assms True by (cases "sb_path b = []") (simp_all add: attempt_eval cluster_def object_deletes_def)
  then obtain w1 where c: "?c w = (Inr (), w1)" "calm w1" "db w1 = db w" "calls w1 = calls w @ object_deletes [b]" by blast
  have u: "attempt (sys_backups_update_row x) w1 = (Inr (), (next_fault w1)\<lparr>db := sys_backups_update (replace_pk x) (db w1)\<rparr>)" for x
    using c(2) by (simp add: attempt_eval sys_backups_update_row_def update_row_def statement_def no_index_def)
  have "expire_backup b w = (bind now (\<lambda>t. attempt (sys_backups_update_row (b\<lparr>bm_deleted := Some t\<rparr>)))) w1"
    using True c(1) by (simp add: expire_backup_def seq_def bind_def handle_def)
  then show ?thesis using c True by (simp add: bind_now u by_id_expired)
qed (use assms in \<open>simp add: expire_backup_def object_deletes_def\<close>)

lemma expire_all:
  assumes "calm w"
  shows "\<exists>w'. for_each expire_backup bs w = (Inr (), w') \<and> calm w' \<and> calls w' = calls w @ object_deletes bs \<and>
    (\<forall>j. by_id j (sys_backups (db w')) =
       (if \<exists>b \<in> set bs. bm_id b = j \<and> sb_status b = ''completed'' then None else by_id j (sys_backups (db w))))"
  using assms
proof (induction bs arbitrary: w)
  case Nil
  then show ?case by (simp add: object_deletes_def)
next
  case (Cons b bs)
  obtain w1 where e: "expire_backup b w = (Inr (), w1)" "calm w1" "calls w1 = calls w @ object_deletes [b]"
    "\<forall>j. by_id j (sys_backups (db w1)) = (if j = bm_id b \<and> sb_status b = ''completed'' then None else by_id j (sys_backups (db w)))"
    using expire_calm [OF Cons.prems] by blast
  obtain w' where f: "for_each expire_backup bs w1 = (Inr (), w')" "calm w'" "calls w' = calls w1 @ object_deletes bs"
    "\<forall>j. by_id j (sys_backups (db w')) =
       (if \<exists>b \<in> set bs. bm_id b = j \<and> sb_status b = ''completed'' then None else by_id j (sys_backups (db w1)))"
    using Cons.IH [OF e(2)] by blast
  have "for_each expire_backup (b # bs) w = (Inr (), w')" using e(1) f(1) by (simp add: seq_def bind_def handle_def)
  moreover have "calls w' = calls w @ object_deletes (b # bs)" using e(3) f(3) by (simp add: object_deletes_def)
  ultimately show ?case using e(4) f(2,4) by auto
qed

text \<open>Whatever fails, only completed backups of the list go.\<close>

definition only_gone :: "system_backup list \<Rightarrow> world \<Rightarrow> world \<Rightarrow> bool" where
  "only_gone bs w w' \<longleftrightarrow> (\<forall>j. by_id j (sys_backups (db w')) = by_id j (sys_backups (db w)) \<or>
     by_id j (sys_backups (db w')) = None \<and> (\<exists>b \<in> set bs. bm_id b = j \<and> sb_status b = ''completed''))"

lemma expire_any: "\<exists>w'. expire_backup b w = (Inr (), w') \<and> only_gone [b] w w'"
proof (cases "sb_status b = ''completed''")
  case True
  let ?c = "if sb_path b \<noteq> [] then attempt (cluster (CallStorage ''delete'' (sb_path b))) else ret ()"
  have "\<exists>w1. ?c w = (Inr (), w1) \<and> db w1 = db w"
    by (cases "sb_path b = []") (simp_all add: attempt_eval cluster_def)
  then obtain w1 where c: "?c w = (Inr (), w1)" "db w1 = db w" by blast
  have "expire_backup b w = (bind now (\<lambda>t. attempt (sys_backups_update_row (b\<lparr>bm_deleted := Some t\<rparr>)))) w1"
    using True c(1) by (simp add: expire_backup_def seq_def bind_def handle_def)
  then show ?thesis using c True
    by (simp add: bind_now attempt_eval sys_backups_update_row_def update_row_def statement_def no_index_def only_gone_def by_id_expired)
qed (simp add: expire_backup_def only_gone_def)

lemma expire_all_any: "\<exists>w'. for_each expire_backup bs w = (Inr (), w') \<and> only_gone bs w w'"
proof (induction bs arbitrary: w)
  case (Cons b bs)
  obtain w1 where e: "expire_backup b w = (Inr (), w1)" "only_gone [b] w w1" using expire_any by blast
  obtain w' where f: "for_each expire_backup bs w1 = (Inr (), w')" "only_gone bs w1 w'" using Cons.IH by blast
  have "for_each expire_backup (b # bs) w = (Inr (), w')" using e(1) f(1) by (simp add: seq_def bind_def handle_def)
  moreover have "only_gone (b # bs) w w'"
    unfolding only_gone_def
  proof
    fix j
    show "by_id j (sys_backups (db w')) = by_id j (sys_backups (db w)) \<or>
        by_id j (sys_backups (db w')) = None \<and> (\<exists>x \<in> set (b # bs). bm_id x = j \<and> sb_status x = ''completed'')"
      using e(2) [unfolded only_gone_def, rule_format, of j] f(2) [unfolded only_gone_def, rule_format, of j] by auto
  qed
  ultimately show ?case by blast
qed (simp add: only_gone_def)

text \<open>What the retention looks at: the rows beyond the newest \<open>n\<close> of the newest thousand, whatever their status.\<close>

definition beyond :: "int \<Rightarrow> system_backup list \<Rightarrow> system_backup list" where
  "beyond n t = drop (nat n) (take 1000 (newest_first (select_live (\<lambda>_. True) t)))"

lemma beyond_mem: "b \<in> set (beyond n t) \<Longrightarrow> b \<in> set t \<and> live b"
  by (auto simp: beyond_def newest_first_def select_live_def dest!: in_set_dropD in_set_takeD)

lemma retention_calm:
  assumes "calm w" "0 < n"
  shows "\<exists>w'. enforce_retention n w = (Inr (), w') \<and> calm w' \<and> calls w' = calls w @ object_deletes (beyond n (sys_backups (db w))) \<and>
    (\<forall>j. by_id j (sys_backups (db w')) =
       (if \<exists>b \<in> set (beyond n (sys_backups (db w))). bm_id b = j \<and> sb_status b = ''completed'' then None
        else by_id j (sys_backups (db w))))"
proof -
  let ?L = "newest_first (select_live (\<lambda>_. True) (sys_backups (db w)))"
  have l: "sys_backups_list \<lparr>lp_page = 1, lp_per_page = 1000\<rparr> w = (Inr (take 1000 ?L, length ?L), next_fault w)"
    using assms(1) by (simp add: sys_backups_list_def query_page_def query_def statement_def page_of_def lp_limit_def lp_offset_def)
  show ?thesis
  proof (cases "int (length ?L) \<le> n")
    case True
    then have "beyond n (sys_backups (db w)) = []" by (simp add: beyond_def)
    with True l assms show ?thesis by (simp add: enforce_retention_def handle_def object_deletes_def)
  next
    case False
    with l assms(2) have "enforce_retention n w = for_each expire_backup (beyond n (sys_backups (db w))) (next_fault w)"
      by (simp add: enforce_retention_def handle_def beyond_def)
    with expire_all [of "next_fault w" "beyond n (sys_backups (db w))"] assms(1) show ?thesis by (simp del: split_paired_Ex cong: if_cong)
  qed
qed

lemma retention_any:
  assumes "0 < n"
  shows "\<exists>w'. enforce_retention n w = (Inr (), w') \<and> only_gone (beyond n (sys_backups (db w))) w w'"
proof (cases "fault_now w")
  case True
  then have "enforce_retention n w = (Inr (), next_fault w)"
    using assms by (simp add: enforce_retention_def handle_def sys_backups_list_def query_page_def query_def statement_def)
  then show ?thesis by (simp add: only_gone_def)
next
  case False
  let ?L = "newest_first (select_live (\<lambda>_. True) (sys_backups (db w)))"
  have l: "sys_backups_list \<lparr>lp_page = 1, lp_per_page = 1000\<rparr> w = (Inr (take 1000 ?L, length ?L), next_fault w)"
    using False by (simp add: sys_backups_list_def query_page_def query_def statement_def page_of_def lp_limit_def lp_offset_def)
  show ?thesis
  proof (cases "int (length ?L) \<le> n")
    case True
    with l assms show ?thesis by (simp add: enforce_retention_def handle_def only_gone_def)
  next
    case False
    with l assms have "enforce_retention n w = for_each expire_backup (beyond n (sys_backups (db w))) (next_fault w)"
      by (simp add: enforce_retention_def handle_def beyond_def)
    with expire_all_any [of "beyond n (sys_backups (db w))" "next_fault w"] show ?thesis by (simp add: only_gone_def)
  qed
qed


section \<open>How a job ends\<close>

definition backup_ended :: "system_backup \<Rightarrow> bool" where
  "backup_ended b \<longleftrightarrow> sb_status b \<in> {''completed'', ''failed''} \<and> sb_finished b \<noteq> None"

definition row_ended :: "uuid \<Rightarrow> world \<Rightarrow> bool" where
  "row_ended i w \<longleftrightarrow> calm w \<and> (case by_id i (sys_backups (db w)) of None \<Rightarrow> True | Some b \<Rightarrow> backup_ended b)"

lemma backup_write:
  assumes "calm w" "distinct_ids (sys_backups (db w))" "by_id (bm_id b) (sys_backups (db w)) \<noteq> None" "live b"
  obtains w' where "sys_backups_update_row b w = (Inr (), w')" "calm w'" "distinct_ids (sys_backups (db w'))"
    "by_id (bm_id b) (sys_backups (db w')) = Some b"
proof -
  let ?w = "(next_fault w)\<lparr>db := sys_backups_update (replace_pk b) (db w)\<rparr>"
  have "sys_backups_update_row b w = (Inr (), ?w)"
    using assms(1) by (simp add: sys_backups_update_row_def update_row_def statement_def no_index_def)
  then show thesis using that [of ?w] assms by (simp add: by_id_replace_pk)
qed

definition backup_at :: "uuid \<Rightarrow> world \<Rightarrow> bool" where
  "backup_at i w \<longleftrightarrow> calm w \<and> distinct_ids (sys_backups (db w)) \<and> by_id i (sys_backups (db w)) \<noteq> None"

lemma backup_at_reads: "reads m \<Longrightarrow> keeps calm m \<Longrightarrow> ensures (backup_at i) m (\<lambda>_. backup_at i)"
  by (simp add: ensures_def reads_def keeps_def backup_at_def)

lemma fail_backup_ends:
  assumes "bm_id b = i" "live b"
  shows "ensures (backup_at i) (fail_backup b why) (succeeds (\<lambda>_. row_ended i))"
proof (unfold ensures_def, intro allI impI)
  fix w assume w: "backup_at i w"
  let ?b = "failed_at (clock w) why b"
  have b: "bm_id ?b = i" "live ?b" "backup_ended ?b" using assms by (simp_all add: failed_at_def live_def backup_ended_def)
  obtain w' where u: "sys_backups_update_row ?b w = (Inr (), w')" "calm w'" "by_id i (sys_backups (db w')) = Some ?b"
    using backup_write [of w ?b] w b by (auto simp: backup_at_def)
  then show "succeeds (\<lambda>_. row_ended i) (fst (fail_backup b why w)) (snd (fail_backup b why w))"
    using b(3) by (simp add: fail_backup_def bind_now attempt_eval row_ended_def)
qed

lemma complete_backup_ends:
  assumes "bm_id b = i" "live b" "backup_ended b"
  shows "ensures (backup_at i) (seq (attempt (sys_backups_update_row b)) (enforce_retention n)) (succeeds (\<lambda>_. row_ended i))"
proof (unfold ensures_def, intro allI impI)
  fix w assume w: "backup_at i w"
  obtain w1 where u: "sys_backups_update_row b w = (Inr (), w1)" "calm w1" "by_id i (sys_backups (db w1)) = Some b"
    using backup_write [of w b] w assms by (auto simp: backup_at_def)
  have "\<exists>w'. enforce_retention n w1 = (Inr (), w') \<and> row_ended i w'"
  proof (cases "0 < n")
    case True
    obtain w' where e: "enforce_retention n w1 = (Inr (), w')" "calm w'"
      "by_id i (sys_backups (db w')) = (if \<exists>x \<in> set (beyond n (sys_backups (db w1))). bm_id x = i \<and> sb_status x = ''completed'' then None
        else by_id i (sys_backups (db w1)))"
      using retention_calm [OF u(2) True] by blast
    then have "row_ended i w'" using u(3) assms(3) unfolding row_ended_def e(3) by simp
    with e(1) show ?thesis by blast
  next
    case False
    then show ?thesis using u(2,3) assms(3) by (simp add: enforce_retention_def row_ended_def)
  qed
  then show "succeeds (\<lambda>_. row_ended i) (fst (seq (attempt (sys_backups_update_row b)) (enforce_retention n) w))
      (snd (seq (attempt (sys_backups_update_row b)) (enforce_retention n) w))"
    by (auto simp: seq_def bind_def handle_def attempt_eval u(1))
qed

lemma run_backup_ends:
  assumes "bm_id b = i" "live b"
  shows "ensures (backup_at i) (run_backup H b c) (succeeds (\<lambda>_. row_ended i))"
proof -
  have call: "ensures (backup_at i) (cluster x) (\<lambda>_. backup_at i)" for x by (intro backup_at_reads reads_intros calm_steps)
  have fin: "ensures (backup_at i) (bind now (\<lambda>t. seq (attempt (sys_backups_update_row
      (b'\<lparr>sb_status := ''completed'', sb_finished := Some t\<rparr>))) (enforce_retention n))) (succeeds (\<lambda>_. row_ended i))"
    if "bm_id b' = i" "live b'" for b' n
  proof -
    have "ensures (backup_at i) (seq (attempt (sys_backups_update_row (b'\<lparr>sb_status := ''completed'', sb_finished := Some t\<rparr>)))
        (enforce_retention n)) (succeeds (\<lambda>_. row_ended i))" for t
      using that by (intro complete_backup_ends) (simp_all add: live_def backup_ended_def)
    then show ?thesis by (simp add: ensures_def bind_now)
  qed
  have body: "ensures (backup_at i) (case bh_temp H of
       Some e \<Rightarrow> fail_backup b (w1 e)
     | None \<Rightarrow> (case parse_database_url H of
         Inl e \<Rightarrow> fail_backup b (w2 e)
       | Inr _ \<Rightarrow> handle (cluster x) (\<lambda>e. fail_backup b (w3 e)) (\<lambda>_.
           case bh_size H of
             Inl e \<Rightarrow> fail_backup b (w4 e)
           | Inr n \<Rightarrow> let b' = b\<lparr>sb_size := n\<rparr> in
               handle (cluster (CallStorage ''upload'' (sb_path b'))) (\<lambda>e. fail_backup b' (w5 e)) (\<lambda>_. bind now (\<lambda>t'.
                 seq (attempt (sys_backups_update_row (b'\<lparr>sb_status := ''completed'', sb_finished := Some t'\<rparr>)))
                   (enforce_retention (bc_retention c)))))))
    (succeeds (\<lambda>_. row_ended i))" if b: "bm_id b = i" "live b" for b w1 w2 w3 w4 w5 x
  proof -
    have b': "bm_id (b\<lparr>sb_size := n\<rparr>) = i" "live (b\<lparr>sb_size := n\<rparr>)" for n using b by (simp_all add: live_def)
    note f = fail_backup_ends [OF b] fail_backup_ends [OF b'] and h = ens_handle [OF call]
    show ?thesis unfolding Let_def
      by (cases "bh_temp H"; cases "parse_database_url H"; cases "bh_size H")
        (simp_all only: option.case sum.case f h fin [OF b'])
  qed
  have now: "(\<And>t. ensures (backup_at i) (k t) Q) \<Longrightarrow> ensures (backup_at i) (bind now k) Q" for k :: "time \<Rightarrow> unit io" and Q
    by (simp add: ensures_def bind_now)
  show ?thesis
    unfolding run_backup_def Let_def
    by (rule now, rule body [unfolded Let_def]) (use assms in \<open>simp_all add: live_def\<close>)
qed


text \<open>Until the row is marked running, the job only reads.\<close>

definition untouched :: "database \<Rightarrow> world \<Rightarrow> bool" where
  "untouched d w \<longleftrightarrow> calm w \<and> db w = d"

lemma ens_untouched: "reads m \<Longrightarrow> keeps calm m \<Longrightarrow> ensures (untouched d) m (\<lambda>_. untouched d)"
  by (simp add: ensures_def reads_def keeps_def untouched_def)

lemma ens_wrap:
  assumes "reads m" "keeps calm m" "\<And>e w. untouched d w \<Longrightarrow> Q (Inl e) w" "\<And>x. ensures (untouched d) (k x) Q"
  shows "ensures (untouched d) (handle m (\<lambda>e. err (f e)) k) Q" "ensures (untouched d) (bind m k) Q"
proof -
  show "ensures (untouched d) (handle m (\<lambda>e. err (f e)) k) Q"
    by (rule ens_handle [OF ens_untouched [OF assms(1,2)]]) (auto intro: assms(3,4) ens_err)
  show "ensures (untouched d) (bind m k) Q"
    unfolding bind_def by (rule ens_handle [OF ens_untouched [OF assms(1,2)]]) (auto intro: assms(3,4) ens_err)
qed

lemma config_reads [reads_intros]: "reads get_backup_config" "reads (backup_resource L c)"
  unfolding get_backup_config_def backup_resource_def
  by (auto intro!: reads_intros split: option.splits)

lemma resolve_reads [reads_intros]: "reads (resolve_account_config L C kind og p cfg)"
  unfolding resolve_account_config_def
  by (cases "Option.bind cfg json_map"; cases cfg) (auto intro!: reads_intros split: option.splits sum.splits)

lemma calm_lookups [keeps_intros]:
  "keeps calm (settings_get k)" "keeps calm (setting_or_empty k)" "keeps calm (resources_get_by_id i)" "keeps calm (sys_backups_get_by_id i)"
  unfolding setting_or_empty_def settings_get_def resources_get_by_id_def sys_backups_get_by_id_def
  by (intro keeps_intros calm_steps)+

lemma calm_config [keeps_intros]: "keeps calm get_backup_config" "keeps calm (backup_resource L c)"
  unfolding get_backup_config_def backup_resource_def
  by (auto intro!: keeps_intros split: option.splits)

lemma calm_resolve [keeps_intros]: "keeps calm (resolve_account_config L C kind og p cfg)"
  unfolding resolve_account_config_def
  by (cases "Option.bind cfg json_map"; cases cfg) (auto intro!: keeps_intros split: option.splits sum.splits)

definition job_fate :: "uuid \<Rightarrow> database \<Rightarrow> go_error + unit \<Rightarrow> world \<Rightarrow> bool" where
  "job_fate i d r w \<longleftrightarrow> (case r of Inr _ \<Rightarrow> row_ended i w | Inl _ \<Rightarrow> db w = d)"

text \<open>When no statement fails, the job of a backup ends it: afterwards the backup is completed or failed with
  its end time, or the retention has already removed it, whatever \<open>pg_dump\<close>'s surroundings answer.  A job that returns an
  error (a missing or wrong configuration) has changed nothing, and its row stays as it was.\<close>

theorem backup_job_ends:
  assumes "calm w" "distinct_ids (sys_backups (db w))" "by_id i (sys_backups (db w)) = Some b"
    and "sb_status b \<notin> {''completed'', ''failed''}" "run_backup_job L C H i w = (r, w')"
  shows "case r of
      Inr _ \<Rightarrow> (case by_id i (sys_backups (db w')) of None \<Rightarrow> True | Some b' \<Rightarrow> backup_ended b')
    | Inl _ \<Rightarrow> db w' = db w"
proof -
  let ?d = "db w" and ?b = "b\<lparr>sb_status := ''running''\<rparr>"
  have b: "bm_id ?b = i" "live ?b" using assms(3) by (auto simp: live_def dest: by_id_key by_id_live)
  have stop: "job_fate i ?d (Inl e) v" if "untouched ?d v" for e v using that by (simp add: job_fate_def untouched_def)
  have run: "ensures (untouched ?d) (handle (sys_backups_update_row ?b) (\<lambda>e. err (ErrWrap ''mark backup running'' e))
      (\<lambda>_. run_backup H ?b c)) (job_fate i ?d)" for c
  proof (unfold ensures_def, intro allI impI)
    fix v assume v: "untouched ?d v"
    obtain v1 where u: "sys_backups_update_row ?b v = (Inr (), v1)" "calm v1" "distinct_ids (sys_backups (db v1))"
      "by_id i (sys_backups (db v1)) = Some ?b"
      using backup_write [of v ?b] v b assms(2,3) by (auto simp: untouched_def)
    then have "backup_at i v1" by (simp add: backup_at_def)
    from ens_succeedsD [OF run_backup_ends [OF b] this] obtain x v2 where "run_backup H ?b c v1 = (Inr x, v2)" "row_ended i v2" by blast
    then show "job_fate i ?d (fst (handle (sys_backups_update_row ?b) (\<lambda>e. err (ErrWrap ''mark backup running'' e)) (\<lambda>_. run_backup H ?b c) v))
        (snd (handle (sys_backups_update_row ?b) (\<lambda>e. err (ErrWrap ''mark backup running'' e)) (\<lambda>_. run_backup H ?b c) v))"
      by (simp add: handle_def u(1) job_fate_def)
  qed
  have main: "ensures (untouched ?d) (bind get_backup_config (\<lambda>c. bind (backup_resource L c) (\<lambda>r.
       handle (resolve_object_storage_config L C (sr_org r) (sr_provider r) (sr_config r))
         (\<lambda>e. err (ErrWrap ''resolve S3 credentials'' e)) (\<lambda>_.
       handle (sys_backups_update_row ?b) (\<lambda>e. err (ErrWrap ''mark backup running'' e)) (\<lambda>_. run_backup H ?b c))))) (job_fate i ?d)"
    unfolding resolve_object_storage_config_def
    by (rule ens_wrap(2), rule config_reads, rule calm_config, erule stop, rule ens_wrap(2), rule config_reads, rule calm_config, erule stop,
      rule ens_wrap(1), rule resolve_reads, rule calm_resolve, erule stop, rule run)
  have "sys_backups_get_by_id i w = (Inr b, next_fault w)"
    using assms(1,3) by (simp add: sys_backups_get_by_id_def query_row_def statement_def)
  then have eq: "run_backup_job L C H i w = bind get_backup_config (\<lambda>c. bind (backup_resource L c) (\<lambda>r.
       handle (resolve_object_storage_config L C (sr_org r) (sr_provider r) (sr_config r))
         (\<lambda>e. err (ErrWrap ''resolve S3 credentials'' e)) (\<lambda>_.
       handle (sys_backups_update_row ?b) (\<lambda>e. err (ErrWrap ''mark backup running'' e)) (\<lambda>_. run_backup H ?b c)))) (next_fault w)"
    using assms(4) unfolding run_backup_job_def Let_def by simp
  have "untouched ?d (next_fault w)" using assms(1) by (simp add: untouched_def)
  from ensuresD [OF main this eq [symmetric, unfolded assms(5)]] have "job_fate i ?d r w'" .
  then show ?thesis by (cases r) (simp_all add: job_fate_def row_ended_def)
qed


text \<open>When the context of the job ends while \<open>pg_dump\<close> runs (the worker shuts down, or the
  thirty minutes are over), the write of the failure fails too: the job returns no error, its message is deleted, and
  the row says running from then on.\<close>

theorem interrupted_backup_stays_running:
  assumes "by_id i (sys_backups (db w)) = Some b" "distinct_ids (sys_backups (db w))" "sb_status b \<notin> {''completed'', ''failed''}"
    and "uuid_parse L (settings_lookup ''system_backup_s3_id'' (settings (db w))) = Some j"
    and "settings_lookup ''system_backup_s3_id'' (settings (db w)) \<noteq> []"
    and "by_id j (shared_resources (db w)) = Some r" "sr_provider r \<noteq> ''aws_s3''"
    and "bh_temp H = None" "bh_url H = Inr u"
    and "faults w = replicate 8 False @ [True]" "refusals w = [True]"
    and "js_system_backup S = run_backup_job L C H" "ms_job m = new_system_backup_job i"
  shows "by_id i (sys_backups (db (snd (process_message S m w)))) = Some (b\<lparr>sb_status := ''running''\<rparr>) \<and>
    calls (snd (process_message S m w)) = calls w @ [CallStorage ''pg_dump'' [], CallQueue ''delete'' (ms_id m)]"
proof -
  let ?b = "b\<lparr>sb_status := ''running''\<rparr>"
  define W where "W k = w\<lparr>faults := drop k (faults w)\<rparr>" for k
  have b: "bm_id ?b = i" "live ?b" using assms(1) by (auto simp: live_def dest: by_id_key by_id_live)
  have f: "\<not> fault_now (W k)" "next_fault (W k) = W (Suc k)" if "k < 8" for k
    using that assms(10) by (auto simp: W_def fault_now_def next_fault_def drop_Suc tl_drop numeral_eq_Suc less_Suc_eq)
  have d: "db (W k) = db w" "(W k)\<lparr>db := db w\<rparr> = W k" "W 0 = w" for k by (simp_all add: W_def)
  have s: "setting_or_empty key (W k) = (Inr (settings_lookup key (settings (db w))), W (Suc k))" if "k < 8" for key k
    using f [OF that] by (simp add: setting_or_empty_def settings_get_def handle_def query_def statement_def d)
  obtain c where c: "get_backup_config (W 1) = (Inr c, W 6)" "bc_s3 c = settings_lookup ''system_backup_s3_id'' (settings (db w))"
    by (simp add: get_backup_config_def bind_def handle_def s eval_nat_numeral)
  have g: "sys_backups_get_by_id i w = (Inr b, W 1)"
    using f [of 0] assms(1) by (simp add: sys_backups_get_by_id_def query_row_def statement_def d)
  have r: "backup_resource L c (W 6) = (Inr r, W 7)"
    using f [of 6] assms(4-6) by (simp add: backup_resource_def c(2) resources_get_by_id_def query_row_def statement_def handle_def d)
  have e: "resolve_object_storage_config L C (sr_org r) (sr_provider r) (sr_config r) (W 7) = (Inr (sr_config r), W 7)"
    using assms(7) by (simp add: resolve_object_storage_config_def resolve_account_config_def split: option.split)
  let ?w8 = "(W 8)\<lparr>db := sys_backups_update (replace_pk ?b) (db w)\<rparr>"
  have u: "sys_backups_update_row ?b (W 7) = (Inr (), ?w8)"
    using f [of 7] by (simp add: sys_backups_update_row_def update_row_def statement_def no_index_def d)
  have "faults (W 8) = [True]" "refusals (W 8) = [True]" "calls (W 8) = calls w" using assms(10,11) by (simp_all add: W_def)
  then have "\<exists>w9. run_backup H ?b c ?w8 = (Inr (), w9) \<and> db w9 = db ?w8 \<and> faults w9 = [] \<and> calls w9 = calls w @ [CallStorage ''pg_dump'' []]"
    using assms(8,9) by (simp add: run_backup_def bind_now Let_def parse_database_url_def handle_def cluster_def refused_now_def next_answer_def fault_now_def next_fault_def
        fail_backup_def attempt_eval sys_backups_update_row_def update_row_def statement_def)
  then obtain w9 where w9: "run_backup H ?b c ?w8 = (Inr (), w9)" "db w9 = db ?w8" "faults w9 = []" "calls w9 = calls w @ [CallStorage ''pg_dump'' []]"
    by blast
  have "\<not> (sb_status b = ''completed'' \<or> sb_status b = ''failed'')" using assms(3) by simp
  then have "run_backup_job L C H i w = (Inr (), w9)"
    unfolding run_backup_job_def Let_def bind_def by (simp add: handle_def g c(1) r e u w9(1) del: One_nat_def)
  then have "process_message S m w = (Inr (), w9\<lparr>calls := calls w9 @ [CallQueue ''delete'' (ms_id m)]\<rparr>)"
    using w9(3) assms(12,13) by (simp add: process_message_def dispatch_job_def new_system_backup_job_def empty_job_def with_id_def handle_def
        attempt_eval queue_delete_def pgmq_eval fault_now_def next_fault_def)
  then show ?thesis using w9(2,4) assms(1,2) b by (simp add: by_id_replace_pk)
qed


section \<open>Restoring\<close>

text \<open>With a user in the database, nothing is downloaded and nothing restored.\<close>

lemma restore_only_fresh:
  assumes "select_live (\<lambda>_. True) (users (db w)) \<noteq> []"
  shows "isl (fst (restore_from_s3 H key w)) \<and> calls (snd (restore_from_s3 H key w)) = calls w \<and> db (snd (restore_from_s3 H key w)) = db w"
  using assms by (simp add: restore_from_s3_def fresh_only_def handle_def users_count_def query_def statement_def next_fault_def)

section \<open>Witnesses\<close>

definition demo_host :: backup_host where
  "demo_host = \<lparr>bh_url = Inr \<lparr>du_host = ''db'', du_port = [], du_user = ''o'', du_password = None, du_path = ''/orkai''\<rparr>, bh_temp = None,
     bh_size = Inr 5, bh_stamp = (\<lambda>_. ''s''), bh_text = (\<lambda>_. []), bh_objects = (\<lambda>_. Inr [])\<rparr>"

definition demo_backup :: "uuid \<Rightarrow> string \<Rightarrow> system_backup" where
  "demo_backup i st = (queued_backup 0 ''b'')\<lparr>bm_id := i, bm_created := uint i, sb_status := st\<rparr>"

definition demo_backup_db :: "system_backup list \<Rightarrow> database" where
  "demo_backup_db bs = empty_database\<lparr>sys_backups := bs, shared_resources := [(new_resource 2 ''s3'' resource_object_storage ''minio'' None)\<lparr>bm_id := 9\<rparr>],
     settings := [\<lparr>st_key = ''system_backup_s3_id'', st_value = uuid_str demo_libs 9\<rparr>]\<rparr>"

lemma demo_backup_rows: "bm_id (demo_backup i st) = i" "live (demo_backup i st)" "sb_status (demo_backup i st) = st"
  "bm_deleted (demo_backup i st) = None"
  by (simp_all add: demo_backup_def queued_backup_def live_def)

definition stored_backup :: "uuid \<Rightarrow> system_backup" where
  "stored_backup i = (demo_backup i ''completed'')\<lparr>sb_path := ''key''\<rparr>"

lemma stored_backup_rows: "bm_id (stored_backup i) = i" "live (stored_backup i)" "sb_status (stored_backup i) = ''completed''"
  "sb_path (stored_backup i) = ''key''" "bm_created (stored_backup i) = uint i"
  by (simp_all add: stored_backup_def demo_backup_rows live_def) (simp add: demo_backup_def)


lemma backup_job_ends_witness:
  "case run_backup_job demo_libs demo_resource_cloud demo_host 1 (world_of (demo_backup_db [demo_backup 1 ''queued''])) of
     (Inr _, w') \<Rightarrow> (case by_id 1 (sys_backups (db w')) of None \<Rightarrow> True | Some b' \<Rightarrow> backup_ended b')
   | (Inl _, w') \<Rightarrow> db w' = demo_backup_db [demo_backup 1 ''queued'']"
proof -
  let ?w = "world_of (demo_backup_db [demo_backup 1 ''queued''])"
  obtain r w' where e: "run_backup_job demo_libs demo_resource_cloud demo_host 1 ?w = (r, w')"
    by (cases "run_backup_job demo_libs demo_resource_cloud demo_host 1 ?w")
  have "case r of
      Inr _ \<Rightarrow> (case by_id 1 (sys_backups (db w')) of None \<Rightarrow> True | Some b' \<Rightarrow> backup_ended b')
    | Inl _ \<Rightarrow> db w' = db ?w"
    using backup_job_ends [OF _ _ _ _ e, of "demo_backup 1 ''queued''"]
    by (simp add: calm_def distinct_ids_def) (simp add: demo_backup_db_def by_id_Cons demo_backup_rows)
  then show ?thesis unfolding e by (cases r) simp_all
qed

lemma interrupted_backup_stays_running_witness:
  "by_id 1 (sys_backups (db (snd (process_message
      (demo_services\<lparr>js_system_backup := run_backup_job demo_libs demo_resource_cloud demo_host\<rparr>)
      \<lparr>ms_id = 4, ms_reads = 1, ms_job = new_system_backup_job 1\<rparr>
      ((world_of (demo_backup_db [demo_backup 1 ''queued'']))\<lparr>faults := replicate 8 False @ [True], refusals := [True]\<rparr>))))) =
   Some (demo_backup 1 ''running'')"
proof -
  let ?w = "(world_of (demo_backup_db [demo_backup 1 ''queued'']))\<lparr>faults := replicate 8 False @ [True], refusals := [True]\<rparr>"
  let ?S = "demo_services\<lparr>js_system_backup := run_backup_job demo_libs demo_resource_cloud demo_host\<rparr>"
  let ?m = "\<lparr>ms_id = 4, ms_reads = 1, ms_job = new_system_backup_job 1\<rparr>"
  have l: "settings_lookup ''system_backup_s3_id'' (settings (db ?w)) = uuid_str demo_libs 9"
    by (simp add: demo_backup_db_def settings_lookup_def)
  have "by_id 1 (sys_backups (db (snd (process_message ?S ?m ?w)))) = Some (demo_backup 1 ''queued''\<lparr>sb_status := ''running''\<rparr>) \<and>
    calls (snd (process_message ?S ?m ?w)) = calls ?w @ [CallStorage ''pg_dump'' [], CallQueue ''delete'' (ms_id ?m)]"
  proof (rule interrupted_backup_stays_running [where L = demo_libs and C = demo_resource_cloud and H = demo_host and j = 9 and
        r = "(new_resource 2 ''s3'' resource_object_storage ''minio'' None)\<lparr>bm_id := 9\<rparr>" and
        u = "\<lparr>du_host = ''db'', du_port = [], du_user = ''o'', du_password = None, du_path = ''/orkai''\<rparr>"])
    show "uuid_parse demo_libs (settings_lookup ''system_backup_s3_id'' (settings (db ?w))) = Some 9"
      unfolding l using demo_uuid_ok by (simp add: uuid_ok_def)
    show "settings_lookup ''system_backup_s3_id'' (settings (db ?w)) \<noteq> []" unfolding l by (rule demo_id_text)
  qed (simp_all add: demo_backup_db_def by_id_Cons demo_backup_rows distinct_ids_def new_resource_def live_def demo_host_def)
  then show ?thesis by (simp add: demo_backup_def)
qed

end
