(* ===== verification/K8s_Names.thy ===== *)
theory K8s_Names imports Ops_Store Cron_Match Hosting_Service begin

text \<open>
  The names that Kubernetes objects get: \<open>sanitizeK8sName\<close> of \<open>service/app_service.go\<close>, which must agree with
  \<open>sanitize\<close> of \<open>orchestrator/k3s/deploy.go\<close>, the names of ingresses (\<open>orchestrator/k3s/ingress.go\<close>), and what the orchestrator derives from the
  engine of a managed database (\<open>orchestrator/k3s/database.go\<close>).
\<close>

section \<open>Names\<close>

definition sanitize_k8s_name :: "string \<Rightarrow> string" where
  "sanitize_k8s_name name =
     (let n = to_lower name; n = replace_all ''_'' ''-'' n; n = replace_all '' '' ''-'' n
      in if length n > 63 then take 63 n else n)"

definition k3s_sanitize :: "string \<Rightarrow> string" where
  "k3s_sanitize name =
     (let n = to_lower name; n = replace_all ''_'' ''-'' n; n = replace_all '' '' ''-'' n
      in if length n > 63 then take 63 n else n)"

definition namespace_or_default :: "string \<Rightarrow> string" where
  "namespace_or_default ns = (if ns \<noteq> [] then ns else ''default'')"

definition app_k8s_name :: "application \<Rightarrow> string" where
  "app_k8s_name a = (if a_k8s_name a \<noteq> [] then a_k8s_name a else k3s_sanitize (a_name a))"

definition db_k8s_name :: "managed_database \<Rightarrow> string" where
  "db_k8s_name m = (if mdb_k8s m \<noteq> [] then mdb_k8s m else k3s_sanitize (mdb_name m))"

definition cron_job_k8s_name :: "cron_job \<Rightarrow> string" where
  "cron_job_k8s_name c = (if cj_k8s_name c \<noteq> [] then cj_k8s_name c else k3s_sanitize (cj_name c))"

definition ingress_name :: "(string \<Rightarrow> string) \<Rightarrow> string \<Rightarrow> string \<Rightarrow> string" where
  "ingress_name sha app host =
     (let s = app @ CHR ''-'' # k3s_sanitize host in
      if length s \<le> 63 then s
      else take 54 s @ CHR ''-'' # take 8 (sha (app @ CHR ''-'' # host)))"

definition legacy_ingress_name :: "string \<Rightarrow> string \<Rightarrow> string" where
  "legacy_ingress_name app host =
     (let name = app @ CHR ''-'' # k3s_sanitize host in if length name > 63 then take 63 name else name)"

section \<open>What an engine implies\<close>

definition engine_image :: "string \<Rightarrow> string" where
  "engine_image e = (if e = ''valkey'' then ''valkey/valkey''
     else if e \<in> {''postgres'', ''mysql'', ''mariadb'', ''redis'', ''mongo''} then e else [])"

definition engine_port :: "string \<Rightarrow> int" where
  "engine_port e = (if e = ''postgres'' then 5432 else if e \<in> {''mysql'', ''mariadb''} then 3306
     else if e \<in> {''redis'', ''valkey''} then 6379 else if e = ''mongo'' then 27017 else 0)"

definition redis_cli :: "string \<Rightarrow> string" where
  "redis_cli e = (if e = ''valkey'' then ''valkey-cli'' else ''redis-cli'')"

definition db_username :: "string \<Rightarrow> string" where
  "db_username e = (if e \<in> {''postgres'', ''mongo''} then ''orkai'' else if e \<in> {''mysql'', ''mariadb''} then ''root'' else [])"

definition host_port :: "string \<Rightarrow> int \<Rightarrow> string" where
  "host_port host port = host @ CHR '':'' # digits_of (nat port)"

definition db_connection_string :: "string \<Rightarrow> string \<Rightarrow> int \<Rightarrow> string \<Rightarrow> string \<Rightarrow> string" where
  "db_connection_string e host port pw name =
     (if e = ''postgres'' then ''postgresql://orkai:'' @ pw @ ''@'' @ host_port host port @ ''/'' @ name
      else if e \<in> {''mysql'', ''mariadb''} then ''mysql://root:'' @ pw @ ''@'' @ host_port host port @ ''/'' @ name
      else if e \<in> {''redis'', ''valkey''} then ''redis://:'' @ pw @ ''@'' @ host_port host port
      else if e = ''mongo'' then ''mongodb://orkai:'' @ pw @ ''@'' @ host_port host port @ ''/'' @ name
      else [])"

definition db_env_secret :: "string \<Rightarrow> string \<Rightarrow> string \<Rightarrow> (string \<rightharpoonup> string)" where
  "db_env_secret e pw name =
     (if e = ''postgres'' then [''POSTGRES_PASSWORD'' \<mapsto> pw, ''POSTGRES_USER'' \<mapsto> ''orkai'', ''POSTGRES_DB'' \<mapsto> name]
      else if e = ''mysql'' then [''MYSQL_ROOT_PASSWORD'' \<mapsto> pw, ''MYSQL_DATABASE'' \<mapsto> name]
      else if e = ''mariadb'' then [''MARIADB_ROOT_PASSWORD'' \<mapsto> pw, ''MARIADB_DATABASE'' \<mapsto> name]
      else if e = ''redis'' then [''REDIS_PASSWORD'' \<mapsto> pw]
      else if e = ''valkey'' then [''VALKEY_PASSWORD'' \<mapsto> pw]
      else if e = ''mongo'' then [''MONGO_INITDB_ROOT_USERNAME'' \<mapsto> ''orkai'', ''MONGO_INITDB_ROOT_PASSWORD'' \<mapsto> pw]
      else [''PASSWORD'' \<mapsto> pw])"

definition postgres_major_version :: "string \<Rightarrow> int" where
  "postgres_major_version v = (case atoi (hd (split_on CHR ''.'' v)) of None \<Rightarrow> 0 | Some n \<Rightarrow> n)"

definition db_data_path :: "string \<Rightarrow> string \<Rightarrow> string" where
  "db_data_path e v =
     (if e = ''postgres'' then (if postgres_major_version v \<ge> 18 then ''/var/lib/postgresql'' else ''/var/lib/postgresql/data'')
      else if e \<in> {''mysql'', ''mariadb''} then ''/var/lib/mysql''
      else if e \<in> {''redis'', ''valkey''} then ''/data''
      else if e = ''mongo'' then ''/data/db''
      else ''/data'')"


section \<open>What the names are good for\<close>

lemma replace_all_one: "replace_all [a] [b] s = replace_char a b s"
  unfolding replace_all_char replace_char_def by (induction s) simp_all

lemma k3s_sanitize_eq: "k3s_sanitize s = sanitize_k8s_name s"
  by (simp add: k3s_sanitize_def sanitize_k8s_name_def)

lemma sanitize_length: "length (sanitize_k8s_name s) \<le> 63"
  by (simp add: sanitize_k8s_name_def Let_def)

definition label_char :: "char \<Rightarrow> bool" where
  "label_char c \<longleftrightarrow> is_lower_char c \<or> is_digit_char c \<or> c = CHR ''-''"

text \<open>RFC 1123: what Kubernetes accepts as the name of a service or a stateful set.\<close>

definition dns_label :: "string \<Rightarrow> bool" where
  "dns_label s \<longleftrightarrow> s \<noteq> [] \<and> length s \<le> 63 \<and> list_all label_char s \<and> hd s \<noteq> CHR ''-'' \<and> last s \<noteq> CHR ''-''"

definition label_of :: "char \<Rightarrow> char" where
  "label_of c = (let c = lower_char c; c = (if c = CHR ''_'' then CHR ''-'' else c) in if c = CHR '' '' then CHR ''-'' else c)"

lemma sanitize_map: "sanitize_k8s_name s = take 63 (map label_of s)"
proof -
  have "map label_of s = replace_char CHR '' '' CHR ''-'' (replace_char CHR ''_'' CHR ''-'' (to_lower s))"
    by (simp add: to_lower_def replace_char_def label_of_def Let_def comp_def)
  then show ?thesis by (simp add: sanitize_k8s_name_def replace_all_one Let_def)
qed

lemma label_char_of:
  assumes "is_name_char c"
  shows "label_char (label_of c) \<and> label_of c \<noteq> CHR ''-''"
proof (cases "is_upper_char c")
  case True
  then have n: "65 \<le> (of_char c :: nat)" "(of_char c :: nat) \<le> 90" by (simp_all add: is_upper_char_def char_in_def)
  let ?l = "char_of (of_char c + (32::nat))"
  have v: "(of_char ?l :: nat) = of_char c + 32" using n by simp
  have "?l \<noteq> d" if "(of_char d :: nat) < 97 \<and> (of_char d :: nat) \<notin> {97..122}" for d using that v n by auto
  from this [of "CHR ''_''"] this [of "CHR '' ''"] this [of "CHR ''-''"]
  have "?l \<noteq> CHR ''_''" "?l \<noteq> CHR '' ''" "?l \<noteq> CHR ''-''" by simp_all
  moreover have "is_lower_char ?l" using v n by (simp add: is_lower_char_def char_in_def)
  ultimately show ?thesis using True by (simp add: label_of_def lower_char_def label_char_def)
next
  case False
  with assms have "is_lower_char c \<or> is_digit_char c" by (simp add: is_name_char_def)
  moreover from this have "c \<noteq> CHR ''_''" "c \<noteq> CHR '' ''" "c \<noteq> CHR ''-''"
    by (auto simp: is_lower_char_def is_digit_char_def char_in_def)
  ultimately show ?thesis using False by (auto simp: label_of_def lower_char_def label_char_def)
qed

lemma label_char_safe: "is_name_char c \<or> c = CHR ''_'' \<or> c = CHR ''-'' \<Longrightarrow> label_char (label_of c)"
  using label_char_of [of c]
  by (auto simp: label_of_def lower_char_def label_char_def is_upper_char_def char_in_def)

text \<open>A database name that the check accepts and that ends in a letter or a digit becomes a name that
  Kubernetes accepts: a label of RFC 1123.\<close>

theorem safe_name_deployable:
  assumes "safe_name s" "length s \<le> 63" "is_name_char (last s)"
  shows "dns_label (sanitize_k8s_name s)"
proof -
  obtain c r where s: "s = c # r" "is_name_char c" "\<forall>x \<in> set r. is_name_char x \<or> x = CHR ''_'' \<or> x = CHR ''-''"
    using assms(1) by (cases s) (auto simp: safe_name_def list_all_iff)
  have m: "sanitize_k8s_name s = map label_of s" using assms(2) by (simp add: sanitize_map)
  have "list_all label_char (map label_of s)" using s label_char_safe by (auto simp: list_all_iff)
  moreover have "hd (map label_of s) \<noteq> CHR ''-''" "last (map label_of s) \<noteq> CHR ''-''"
    using s(1,2) label_char_of [of c] label_char_of [OF assms(3)] by (simp_all add: last_map split: if_splits)
  ultimately show ?thesis unfolding m dns_label_def using s(1) assms(2) by simp
qed

theorem safe_name_deployable_witness:
  "safe_name ''My_db1'' \<and> length ''My_db1'' \<le> 63 \<and> is_name_char (last ''My_db1'') \<and> dns_label (sanitize_k8s_name ''My_db1'')"
  using safe_name_deployable [of "''My_db1''"] by (simp add: safe_name_def is_name_char_def is_lower_char_def is_upper_char_def is_digit_char_def char_in_def)

text \<open>A name that ends in a hyphen or an underscore passes the check and is refused by Kubernetes.\<close>

lemma safe_name_refused: "safe_name ''db_'' \<and> \<not> dns_label (sanitize_k8s_name ''db_'')"
proof -
  have "last (sanitize_k8s_name ''db_'') = CHR ''-''" by (simp add: sanitize_map label_of_def lower_char_def is_upper_char_def char_in_def)
  then show ?thesis by (simp add: dns_label_def safe_name_def is_name_char_def is_lower_char_def char_in_def)
qed

section \<open>Ingresses\<close>

lemma ingress_name_length:
  assumes "length (sha (app @ CHR ''-'' # host)) \<ge> 8"
  shows "length (ingress_name sha app host) \<le> 63"
  using assms by (auto simp: ingress_name_def Let_def)

text \<open>Two applications of a project share its namespace, and the parts of a name do not delimit themselves: the ingress of
  one application can have the name of another's, and creating it replaces that one.\<close>

lemma ingress_name_clash:
  assumes "map label_of x = x" "length (app @ x @ host) \<le> 61"
  shows "ingress_name sha app (x @ CHR ''-'' # host) = ingress_name sha (app @ CHR ''-'' # x) host"
proof -
  have "label_of CHR ''-'' = CHR ''-''" by (simp add: label_of_def lower_char_def is_upper_char_def char_in_def)
  with assms show ?thesis by (simp add: ingress_name_def k3s_sanitize_eq sanitize_map)
qed

lemma ingress_name_clash_example:
  "ingress_name sha ''shop'' ''eu-west.example.com'' = ingress_name sha ''shop-eu'' ''west.example.com''"
  using ingress_name_clash [of "''eu''" "''shop''" "''west.example.com''" sha]
  by (simp add: label_of_def lower_char_def is_upper_char_def char_in_def)

end
