(* ===== verification/Database_Service.thy ===== *)
theory Database_Service imports K8s_Names System_Backup begin

text \<open>
  Managed databases (\<open>service/database_service.go\<close>).  The record \<open>db_manager\<close> is what the database manager of the
  default target and the object storage answer: the error of finding a manager, the phase of a database at the n-th
  poll, whether the context ends in the wait after it, the state of a backup's or a restore's Kubernetes job, the
  port that external access gets, the errors of building an upload or download job, and the printed form of a time
  and an error.  What changes the cluster is a recorded call that may fail.  The updates that \<open>syncLiveStatuses\<close>
  leaves to goroutines are made at once.
\<close>

record db_manager =
  dm_target :: "go_error option"
  dm_phase :: "nat \<Rightarrow> managed_database \<Rightarrow> go_error + string"
  dm_ends :: "nat \<Rightarrow> bool"
  dm_backup_job :: "uuid \<Rightarrow> string"
  dm_restore_job :: "uuid \<Rightarrow> string"
  dm_node_port :: "managed_database \<Rightarrow> int"
  dm_upload :: "json option \<Rightarrow> string \<Rightarrow> string \<Rightarrow> go_error option"
  dm_download :: "json option \<Rightarrow> string \<Rightarrow> string \<Rightarrow> go_error option"
  dm_stamp :: "time \<Rightarrow> string"
  dm_text :: "go_error \<Rightarrow> string"

section \<open>Creation\<close>

record create_db_input =
  cdi_project :: uuid
  cdi_name :: string
  cdi_database :: string
  cdi_engine :: string
  cdi_version :: string
  cdi_storage :: string
  cdi_cpu :: string
  cdi_mem :: string

definition new_database :: "create_db_input \<Rightarrow> project \<Rightarrow> managed_database" where
  "new_database inp p = \<lparr>bm_id = uuid_nil, bm_created = 0, bm_updated = 0, bm_deleted = None,
     mdb_project = cdi_project inp, mdb_name = cdi_name inp, mdb_database = or_default (cdi_name inp) (cdi_database inp),
     mdb_engine = cdi_engine inp, mdb_version = cdi_version inp, mdb_storage = or_default ''1Gi'' (cdi_storage inp),
     mdb_cpu = or_default ''500m'' (cdi_cpu inp), mdb_mem = or_default ''512Mi'' (cdi_mem inp), mdb_credentials = [],
     mdb_namespace = p_namespace p, mdb_k8s = sanitize_k8s_name (cdi_name inp), mdb_status = ''idle'', mdb_port = 0,
     mdb_external = False, mdb_backup_enabled = False, mdb_backup_schedule = [], mdb_backup_s3 = None\<rparr>"

fun map_io :: "('a \<Rightarrow> ('s, 'b) act) \<Rightarrow> 'a list \<Rightarrow> ('s, 'b list) act" where
  "map_io f [] = ret []"
| "map_io f (x # xs) = bind (f x) (\<lambda>y. bind (map_io f xs) (\<lambda>ys. ret (y # ys)))"

text \<open>What \<open>DeployDatabase\<close> writes into the row once the cluster has its objects.\<close>

definition deployed_database :: "managed_database \<Rightarrow> managed_database" where
  "deployed_database m = m\<lparr>mdb_namespace := namespace_or_default (mdb_namespace m), mdb_k8s := db_k8s_name m,
     mdb_credentials := db_k8s_name m @ ''-credentials'', mdb_status := ''pending''\<rparr>"

definition name_free :: "bool io \<Rightarrow> string \<Rightarrow> unit io" where
  "name_free m msg = handle m (\<lambda>e. err (ErrWrap ''cannot verify name uniqueness'' e)) (\<lambda>dup. if dup then err (ErrMsg msg) else ret ())"

definition k8s_name_free :: "uuid \<Rightarrow> string \<Rightarrow> unit io" where
  "k8s_name_free p n = seq (name_free (managed_dbs_exists_by_k8s_name p n) (''a database with K8s name '' @ quoted n @ '' already exists''))
     (name_free (applications_exists_by_k8s_name p n) (''an application with K8s name '' @ quoted n @ '' already exists '' @ em_dash @
        '' app and database names must not collide''))"

definition deploy_new :: "db_manager \<Rightarrow> managed_database \<Rightarrow> managed_database io" where
  "deploy_new M m =
     (let undo = (\<lambda>e. seq (attempt (managed_dbs_delete (bm_id m))) (err e)) in
      case dm_target M of
        Some e \<Rightarrow> undo e
      | None \<Rightarrow> handle (cluster (CallDatabase ''deploy'' (bm_id m))) undo (\<lambda>_.
          let m' = deployed_database m in seq (attempt (managed_dbs_update_row m')) (ret m')))"

definition database_create :: "db_manager \<Rightarrow> create_db_input \<Rightarrow> managed_database io" where
  "database_create M inp =
     (if \<not> is_valid_version (cdi_engine inp) (cdi_version inp) then
        err (ErrMsg (''unsupported version '' @ quoted (cdi_version inp) @ '' for engine '' @ quoted (cdi_engine inp)))
      else if \<not> safe_name (cdi_name inp) then
        err (name_error ''database'')
      else if \<not> safe_name (or_default (cdi_name inp) (cdi_database inp)) then
        err (ErrMsg (''database name '' @ quoted (or_default (cdi_name inp) (cdi_database inp)) @ '' contains invalid characters''))
      else bind (project_found (cdi_project inp)) (\<lambda>p.
        if p_namespace p = [] then err (ErrMsg ''project has no namespace configured'')
        else let m = new_database inp p in
          seq (k8s_name_free (cdi_project inp) (mdb_k8s m)) (bind (managed_dbs_create m) (deploy_new M))))"

section \<open>Live status\<close>

definition live_status :: "managed_database \<Rightarrow> string \<Rightarrow> string" where
  "live_status m ph =
     (if ph = ''running'' then ''running'' else if ph = ''stopped'' then ''stopped''
      else if ph = ''not deployed'' then (if mdb_status m \<noteq> ''idle'' then ''error'' else [])
      else if ph = ''pending'' then ''deploying'' else [])"

definition sync_live_status :: "db_manager \<Rightarrow> managed_database \<Rightarrow> managed_database io" where
  "sync_live_status M m =
     (if mdb_status m = ''idle'' then ret m
      else (case dm_phase M 0 m of
          Inl _ \<Rightarrow> ret m
        | Inr ph \<Rightarrow> let s = live_status m ph in
            if s \<noteq> [] \<and> s \<noteq> mdb_status m
            then (let m' = m\<lparr>mdb_status := s\<rparr> in seq (attempt (managed_dbs_update_row m')) (ret m'))
            else ret m))"

definition sync_live_statuses :: "db_manager \<Rightarrow> managed_database list \<Rightarrow> managed_database list io" where
  "sync_live_statuses M ms = (case dm_target M of Some _ \<Rightarrow> ret ms | None \<Rightarrow> map_io (sync_live_status M) ms)"

definition database_list :: "db_manager \<Rightarrow> uuid \<Rightarrow> list_params \<Rightarrow> (managed_database list \<times> nat) io" where
  "database_list M p q = bind (managed_dbs_list_by_project p q) (\<lambda>(ms, n). bind (sync_live_statuses M ms) (\<lambda>ms. ret (ms, n)))"

definition database_list_all :: "db_manager \<Rightarrow> list_params \<Rightarrow> list_filter \<Rightarrow> (managed_database list \<times> nat) io" where
  "database_list_all M q f = bind (managed_dbs_list_all q f) (\<lambda>(ms, n). bind (sync_live_statuses M ms) (\<lambda>ms. ret (ms, n)))"

definition with_manager :: "db_manager \<Rightarrow> 'a io \<Rightarrow> 'a io" where
  "with_manager M k = (case dm_target M of Some e \<Rightarrow> err e | None \<Rightarrow> k)"

definition reconciled_status :: "managed_database \<Rightarrow> string \<Rightarrow> string" where
  "reconciled_status m ph =
     (if ph = ''running'' then ''running''
      else if ph = ''not deployed'' then (if mdb_status m = ''idle'' then ''idle'' else ''error'')
      else if ph = ''pending'' then ''pending'' else if ph = ''stopped'' then ''stopped'' else mdb_status m)"

definition database_status :: "db_manager \<Rightarrow> uuid \<Rightarrow> string io" where
  "database_status M i = bind (managed_dbs_get_by_id i) (\<lambda>m. with_manager M (case dm_phase M 0 m of
     Inl e \<Rightarrow> err e
   | Inr ph \<Rightarrow> let s = reconciled_status m ph in
       seq (if s \<noteq> mdb_status m then attempt (managed_dbs_update_row (m\<lparr>mdb_status := s\<rparr>)) else ret ()) (ret ph)))"

section \<open>Deletion and external access\<close>

definition database_delete :: "db_manager \<Rightarrow> uuid \<Rightarrow> unit io" where
  "database_delete M i = bind (managed_dbs_get_by_id i) (\<lambda>m. with_manager M
     (handle (cluster (CallDatabase ''delete'' i)) (\<lambda>e. err (ErrWrap ''failed to delete database resources'' e)) (\<lambda>_.
       seq (if mdb_external m then attempt (cluster (CallDatabase ''disable external'' i)) else ret ())
         (seq (managed_dbs_delete i) (notify_project_resource_deleted (mdb_project m) ''database_deleted'' (mdb_name m)
           (''Database '' @ quoted (mdb_name m) @ '' was deleted''))))))"

definition en_dash :: string where
  "en_dash = [char_of (226 :: nat), char_of (128 :: nat), char_of (147 :: nat)]"

definition port_taken :: "uuid \<Rightarrow> int \<Rightarrow> unit io" where
  "port_taken i port = handle (managed_dbs_find_by_external_port port) (\<lambda>_. ret ()) (\<lambda>c.
     if bm_id c \<noteq> i then err (ErrMsg (''port '' @ digits_of (nat port) @ '' is already used by database '' @ quoted (mdb_name c))) else ret ())"

definition update_external_access :: "db_manager \<Rightarrow> uuid \<Rightarrow> bool \<Rightarrow> int \<Rightarrow> managed_database io" where
  "update_external_access M i enabled port = bind (managed_dbs_get_by_id i) (\<lambda>m. with_manager M
     (let save = (\<lambda>m'. handle (managed_dbs_update_row m') (\<lambda>e. err (ErrWrap ''update database'' e)) (\<lambda>_. ret m')) in
      if enabled then
        (if port > 0 \<and> (port < 30000 \<or> port > 32767) then
           err (ErrMsg (''NodePort must be between 30000'' @ en_dash @ ''32767, got '' @ itoa port))
         else seq (if port > 0 then port_taken i port else ret ())
           (let m1 = (if port > 0 then m\<lparr>mdb_port := port\<rparr> else m) in
            handle (cluster (CallDatabase ''enable external'' i)) (\<lambda>e. err (ErrWrap ''enable external access'' e)) (\<lambda>_.
              save (m1\<lparr>mdb_external := True, mdb_port := dm_node_port M m1\<rparr>))))
      else handle (cluster (CallDatabase ''disable external'' i)) (\<lambda>e. err (ErrWrap ''disable external access'' e)) (\<lambda>_.
        save (m\<lparr>mdb_external := False, mdb_port := 0\<rparr>))))"

section \<open>The backup settings of a database\<close>

record update_backup_input =
  ubi_enabled :: bool
  ubi_schedule :: string
  ubi_s3 :: "uuid option"

definition check_db_backup_s3 :: "managed_database \<Rightarrow> uuid option \<Rightarrow> unit io" where
  "check_db_backup_s3 m s3 = (case s3 of None \<Rightarrow> ret ()
   | Some s \<Rightarrow> handle (resources_get_by_id s) (\<lambda>e. err (ErrWrap ''S3 resource not found'' e)) (\<lambda>r.
       if sr_type r \<noteq> resource_object_storage then err (ErrMsg (''resource '' @ sr_name r @ '' is not an object storage resource''))
       else handle (projects_get_by_id (mdb_project m)) (\<lambda>e. err (ErrWrap ''project not found'' e)) (\<lambda>p.
         if sr_org r \<noteq> p_org p then err (ErrMsg ''S3 resource does not belong to this organization'') else ret ())))"

definition update_backup_config :: "uuid \<Rightarrow> update_backup_input \<Rightarrow> managed_database io" where
  "update_backup_config i inp = bind (managed_dbs_get_by_id i) (\<lambda>m.
     if ubi_enabled inp \<and> ubi_schedule inp \<noteq> [] \<and> length (go_fields (ubi_schedule inp)) \<noteq> 5 then
       err (ErrMsg (''invalid cron schedule '' @ quoted (ubi_schedule inp) @ '': expected 5 fields (minute hour dom month dow)''))
     else seq (check_db_backup_s3 m (ubi_s3 inp))
       (let m' = m\<lparr>mdb_backup_enabled := ubi_enabled inp, mdb_backup_schedule := ubi_schedule inp, mdb_backup_s3 := ubi_s3 inp\<rparr> in
        handle (managed_dbs_update_row m') (\<lambda>e. err (ErrWrap ''update database'' e)) (\<lambda>_. ret m')))"

section \<open>Backups\<close>

definition db_backup_ext :: "string \<Rightarrow> string" where
  "db_backup_ext e = (if e \<in> {''postgres'', ''mysql'', ''mariadb''} then ''sql'' else if e = ''mongo'' then ''archive''
     else if e \<in> {''redis'', ''valkey''} then ''rdb'' else ''dump'')"

definition db_safe_name :: "managed_database \<Rightarrow> string" where
  "db_safe_name m = (if mdb_k8s m \<noteq> [] then mdb_k8s m else mdb_name m)"

definition load_backup_storage :: "libs \<Rightarrow> resource_cloud \<Rightarrow> uuid option \<Rightarrow> (string \<times> json option) option io" where
  "load_backup_storage L C s3 = (case s3 of None \<Rightarrow> ret None
   | Some s \<Rightarrow> handle (resources_get_by_id s) (\<lambda>e. err (ErrWrap ''load S3 resource'' e)) (\<lambda>r.
       handle (resolve_object_storage_config L C (sr_org r) (sr_provider r) (sr_config r))
         (\<lambda>e. err (ErrWrap ''resolve S3 credentials'' e)) (\<lambda>cfg. ret (Some (sr_provider r, cfg)))))"

definition pending_backup :: "time \<Rightarrow> uuid \<Rightarrow> database_backup" where
  "pending_backup t i = \<lparr>bm_id = uuid_nil, bm_created = 0, bm_updated = 0, bm_deleted = None, dbb_database = i,
     dbb_status = ''pending'', dbb_restore = [], dbb_size = 0, dbb_path = [], dbb_started = Some t, dbb_finished = None\<rparr>"

definition ended_backup :: "string \<Rightarrow> time \<Rightarrow> database_backup \<Rightarrow> database_backup" where
  "ended_backup s t b = b\<lparr>dbb_status := s, dbb_finished := Some t\<rparr>"

definition trigger_db_backup :: "uuid \<Rightarrow> database_backup io" where
  "trigger_db_backup i = bind (managed_dbs_get_by_id i) (\<lambda>_. bind now (\<lambda>t.
     handle (db_backups_create (pending_backup t i)) (\<lambda>e. err (ErrWrap ''create backup record'' e)) (\<lambda>b.
       handle (enqueue (new_database_backup_job (bm_id b)))
         (\<lambda>e. bind now (\<lambda>t'. seq (attempt (db_backups_update_row (ended_backup ''failed'' t' b)))
            (err (ErrWrap ''enqueue database backup job'' e))))
         (\<lambda>_. ret b))))"

definition run_due_backups :: "(time \<Rightarrow> civil) \<Rightarrow> unit io" where
  "run_due_backups local = handle managed_dbs_list_backup_enabled (\<lambda>_. ret ()) (for_each (\<lambda>m. bind now (\<lambda>t.
     if mdb_backup_schedule m = [] \<or> \<not> should_run_at (mdb_backup_schedule m) (local t) then ret ()
     else attempt (trigger_db_backup (bm_id m)))))"

definition db_backup_tick :: "(time \<Rightarrow> civil) \<Rightarrow> bool \<Rightarrow> unit io" where
  "db_backup_tick local leader = (if leader then run_due_backups local else ret ())"

text \<open>The job.  A failure it records is final: it returns no error, and the message is deleted.\<close>

definition fail_db_backup :: "database_backup \<Rightarrow> unit io" where
  "fail_db_backup b = bind now (\<lambda>t. attempt (db_backups_update_row (ended_backup ''failed'' t b)))"

text \<open>Up to six polls, five seconds apart; the result is the phase of the last poll, or what ends the job.\<close>

datatype readiness = Ready string | NotUsable | CtxEnded

fun await_ready :: "db_manager \<Rightarrow> managed_database \<Rightarrow> nat \<Rightarrow> nat \<Rightarrow> readiness" where
  "await_ready M m k n = (case dm_phase M k m of
     Inl _ \<Rightarrow> NotUsable
   | Inr ph \<Rightarrow> if ph = ''running'' then Ready ph
       else if ph = ''not deployed'' then NotUsable
       else (case n of 0 \<Rightarrow> Ready ph
         | Suc n' \<Rightarrow> if dm_ends M k then CtxEnded else await_ready M m (Suc k) n'))"

declare await_ready.simps [simp del]

definition s3_key :: "libs \<Rightarrow> db_manager \<Rightarrow> managed_database \<Rightarrow> database_backup \<Rightarrow> time \<Rightarrow> string" where
  "s3_key L M m b t = (if dbb_path b \<noteq> [] then dbb_path b
     else ''orkai/db-backups/'' @ mdb_engine m @ ''-'' @ db_safe_name m @ ''/'' @ dm_stamp M t @ ''-'' @
       take 8 (uuid_str L (bm_id b)) @ ''.'' @ db_backup_ext (mdb_engine m))"

definition backup_file :: "libs \<Rightarrow> uuid \<Rightarrow> managed_database \<Rightarrow> string" where
  "backup_file L i m = ''/backup/'' @ uuid_str L i @ ''.'' @ db_backup_ext (mdb_engine m)"

definition launch_backup :: "libs \<Rightarrow> resource_cloud \<Rightarrow> db_manager \<Rightarrow> managed_database \<Rightarrow> database_backup \<Rightarrow> unit io" where
  "launch_backup L C M m b = handle (load_backup_storage L C (mdb_backup_s3 m)) (\<lambda>_. fail_db_backup b) (\<lambda>storage. bind now (\<lambda>t.
     let key = s3_key L M m b t; b' = b\<lparr>dbb_path := key, dbb_status := ''running''\<rparr> in
     handle (db_backups_update_row b') (\<lambda>e. err (ErrWrap ''mark backup running'' e)) (\<lambda>_.
       if (case storage of None \<Rightarrow> False | Some (_, cfg) \<Rightarrow> dm_upload M cfg (backup_file L (bm_id b) m) key \<noteq> None) then fail_db_backup b'
       else handle (cluster (CallDatabase ''backup'' (bm_id b))) (\<lambda>_. fail_db_backup b') ret)))"

definition start_backup :: "libs \<Rightarrow> resource_cloud \<Rightarrow> db_manager \<Rightarrow> managed_database \<Rightarrow> database_backup \<Rightarrow> unit io" where
  "start_backup L C M m b = (case await_ready M m 0 5 of
     CtxEnded \<Rightarrow> err (ErrMsg ''context canceled'')
   | NotUsable \<Rightarrow> fail_db_backup b
   | Ready ph \<Rightarrow> if ph \<noteq> ''running'' then fail_db_backup b else launch_backup L C M m b)"

definition run_db_backup_job :: "libs \<Rightarrow> resource_cloud \<Rightarrow> db_manager \<Rightarrow> uuid \<Rightarrow> unit io" where
  "run_db_backup_job L C M i = handle (db_backups_get_by_id i) (\<lambda>e. err (ErrWrap ''load backup'' e)) (\<lambda>b.
     if dbb_status b = ''completed'' \<or> dbb_status b = ''failed'' then ret ()
     else handle (managed_dbs_get_by_id (dbb_database b)) (\<lambda>_. fail_db_backup b) (\<lambda>m.
       if dm_target M \<noteq> None then fail_db_backup b
       else if dbb_status b = ''running'' \<and> dm_backup_job M i = ''completed'' then bind now (\<lambda>t.
         handle (db_backups_update_row (ended_backup ''completed'' t b)) (\<lambda>e. err (ErrWrap ''reconcile backup completed'' e)) ret)
       else if dbb_status b = ''running'' \<and> dm_backup_job M i = ''failed'' then fail_db_backup b
       else start_backup L C M m b))"

text \<open>\<open>ListBackups\<close>: what the jobs say of running backups and restores is written back.\<close>

definition reconcile_backup :: "db_manager \<Rightarrow> database_backup \<Rightarrow> database_backup io" where
  "reconcile_backup M b = (let s = dm_backup_job M (bm_id b) in
     if dbb_status b \<noteq> ''running'' \<or> s = [] then ret b
     else bind now (\<lambda>t. let b' = (if s = ''completed'' \<or> s = ''failed'' then ended_backup s t b else b) in
       seq (attempt (db_backups_update_row b')) (ret b')))"

definition reconcile_restore :: "db_manager \<Rightarrow> database_backup \<Rightarrow> database_backup io" where
  "reconcile_restore M b = (let s = dm_restore_job M (bm_id b) in
     if dbb_restore b \<noteq> ''running'' \<or> s = [] then ret b
     else (let b' = (if s = ''completed'' \<or> s = ''failed'' then b\<lparr>dbb_restore := s\<rparr> else b) in
       seq (attempt (db_backups_update_row b')) (ret b')))"

definition list_db_backups :: "db_manager \<Rightarrow> uuid \<Rightarrow> list_params \<Rightarrow> (database_backup list \<times> nat) io" where
  "list_db_backups M i q = bind (db_backups_list_by_database i q) (\<lambda>(bs, n).
     if dm_target M \<noteq> None then ret (bs, n)
     else bind (map_io (reconcile_backup M) bs) (\<lambda>bs. bind (map_io (reconcile_restore M) bs) (\<lambda>bs. ret (bs, n))))"

section \<open>Restoring\<close>

definition restore_key :: "libs \<Rightarrow> managed_database \<Rightarrow> database_backup \<Rightarrow> string" where
  "restore_key L m b = (if dbb_path b \<noteq> [] then dbb_path b
     else ''orkai/'' @ mdb_name m @ ''/'' @ uuid_str L (bm_id b) @ ''.'' @ db_backup_ext (mdb_engine m))"

definition restorable :: "uuid \<Rightarrow> database_backup \<Rightarrow> unit io" where
  "restorable i b =
     (if dbb_database b \<noteq> i then err (ErrMsg ''backup does not belong to this database'')
      else if dbb_status b \<noteq> ''completed'' then err (ErrMsg (''can only restore from a completed backup (current: '' @ dbb_status b @ '')''))
      else if dbb_restore b = ''running'' then err (ErrMsg ''a restore is already in progress for this backup'')
      else ret ())"

definition restore_backup :: "libs \<Rightarrow> resource_cloud \<Rightarrow> db_manager \<Rightarrow> uuid \<Rightarrow> uuid \<Rightarrow> unit io" where
  "restore_backup L C M i j = bind (managed_dbs_get_by_id i) (\<lambda>m. with_manager M (case dm_phase M 0 m of
     Inl e \<Rightarrow> err (ErrWrap ''cannot check database status'' e)
   | Inr ph \<Rightarrow>
     if ph \<noteq> ''running'' then err (ErrMsg (''database '' @ quoted (mdb_name m) @ '' must be running to restore (current: '' @ ph @ '')''))
     else handle (db_backups_get_by_id j) (\<lambda>e. err (ErrWrap ''backup not found'' e)) (\<lambda>b.
       seq (restorable i b)
       (handle (load_backup_storage L C (mdb_backup_s3 m)) (\<lambda>e. err (ErrWrap ''load S3 config'' e)) (\<lambda>storage. case storage of
           None \<Rightarrow> err (ErrMsg (''S3 storage is not configured for this database '' @ em_dash @ '' configure backup settings first''))
         | Some (_, cfg) \<Rightarrow> (case dm_download M cfg (restore_key L m b) (backup_file L j m) of
             Some e \<Rightarrow> err (ErrWrap ''build download job'' e)
           | None \<Rightarrow> handle (cluster (CallDatabase ''restore'' j)) (\<lambda>e. err (ErrWrap ''start restore job'' e)) (\<lambda>_.
               attempt (db_backups_update_row (b\<lparr>dbb_restore := ''running''\<rparr>)))))))))"

end
