(* ===== verification/Database_Backup.thy ===== *)
theory Database_Backup imports Database_Service begin

text \<open>
  What the requests and jobs of \<open>Database_Service\<close> do to the row of a backup: \<open>later b c\<close> relates a row to what it may
  become.  The proofs carry the copy that an operation holds in memory: the stored row lies between the row at the
  start and that copy, whichever writes fail.
\<close>

section \<open>How a backup may change\<close>

definition finished :: "string \<Rightarrow> bool" where
  "finished s \<longleftrightarrow> s = ''completed'' \<or> s = ''failed''"

definition later :: "database_backup \<Rightarrow> database_backup \<Rightarrow> bool" where
  "later b c \<longleftrightarrow> bm_id c = bm_id b \<and> live c \<and> dbb_database c = dbb_database b \<and>
     (dbb_path b \<noteq> [] \<longrightarrow> dbb_path c = dbb_path b) \<and>
     (finished (dbb_status b) \<longrightarrow> dbb_status c = dbb_status b \<and> dbb_finished c = dbb_finished b \<and> dbb_path c = dbb_path b) \<and>
     (dbb_status b = ''running'' \<longrightarrow> dbb_status c = ''running'' \<or> finished (dbb_status c))"

lemma later_refl: "live b \<Longrightarrow> later b b"
  by (simp add: later_def)

lemma later_trans: "later a b \<Longrightarrow> later b c \<Longrightarrow> later a c"
  unfolding later_def by metis

text \<open>\<open>among a xs\<close>: the stored row of \<open>a\<close> is later than \<open>a\<close>, and the copies \<open>xs\<close> in memory are later than it.\<close>

definition among :: "database_backup \<Rightarrow> database_backup list \<Rightarrow> world \<Rightarrow> bool" where
  "among a xs w \<longleftrightarrow> distinct_ids (db_backups (db w)) \<and> (\<exists>c. by_id (bm_id a) (db_backups (db w)) = Some c \<and> later a c \<and>
     (\<forall>x \<in> set xs. bm_id x = bm_id a \<longrightarrow> later c x))"

abbreviation onward :: "database_backup \<Rightarrow> world \<Rightarrow> bool" where
  "onward a \<equiv> among a []"

lemma among_set: "set xs = set ys \<Longrightarrow> among a xs = among a ys"
  by (simp add: among_def fun_eq_iff)

lemma among_onward: "among a xs w \<Longrightarrow> onward a w"
  by (auto simp: among_def)

lemma among_forward: "among a (b # xs) w \<Longrightarrow> later b b' \<Longrightarrow> among a (b' # xs) w"
proof -
  assume "among a (b # xs) w" "later b b'"
  moreover have "bm_id b' = bm_id b" using \<open>later b b'\<close> by (simp add: later_def)
  ultimately show ?thesis using later_trans by (fastforce simp: among_def)
qed

lemma among_reads: "reads m \<Longrightarrow> ensures (among a xs) m (\<lambda>_. among a xs)"
  by (simp add: ensures_def reads_def among_def)

lemma by_id_replace_other: "bm_id r \<noteq> j \<Longrightarrow> by_id j (replace_pk r t) = by_id j t" for r :: "'a base_model_scheme"
  by (induction t) (auto simp: replace_pk_def update_live_def by_id_Cons)

text \<open>Writing a copy, or a later version of it, whether the write succeeds or fails.\<close>

lemma among_write:
  assumes "live b" "bm_id b \<notin> bm_id ` set xs"
  shows "ensures (among a (b # xs)) (db_backups_update_row b) (\<lambda>_. among a (b # xs))"
proof (unfold ensures_def, intro allI impI)
  fix w assume w: "among a (b # xs) w"
  then obtain c where c: "distinct_ids (db_backups (db w))" "by_id (bm_id a) (db_backups (db w)) = Some c" "later a c"
      "\<forall>x \<in> set (b # xs). bm_id x = bm_id a \<longrightarrow> later c x"
    by (auto simp: among_def)
  show "among a (b # xs) (snd (db_backups_update_row b w))"
  proof (cases "fault_now w")
    case True
    then show ?thesis using w by (simp add: db_backups_update_row_def update_row_def statement_def among_def)
  next
    case False
    then have u: "snd (db_backups_update_row b w) = (next_fault w)\<lparr>db := db_backups_update (replace_pk b) (db w)\<rparr>"
      by (simp add: db_backups_update_row_def update_row_def statement_def no_index_def)
    show ?thesis
    proof (cases "bm_id b = bm_id a")
      case True
      then have l: "later c b" using c(4) by simp
      have "by_id (bm_id a) (replace_pk b (db_backups (db w))) = Some b"
        using c(1,2) True assms(1) by (simp add: by_id_replace_pk)
      moreover have "\<forall>x \<in> set (b # xs). bm_id x = bm_id a \<longrightarrow> later b x"
        using assms(2) True later_refl [OF assms(1)] by (auto simp: image_iff)
      ultimately show ?thesis using c(1) later_trans [OF c(3) l] by (simp add: u among_def)
    next
      case False
      then show ?thesis using c by (auto simp: u among_def by_id_replace_other)
    qed
  qed
qed

lemma among_write_later:
  assumes "later b b'" "bm_id b \<notin> bm_id ` set xs"
  shows "ensures (among a (b # xs)) (db_backups_update_row b') (\<lambda>_. among a (b' # xs))"
proof -
  have "live b'" "bm_id b' \<notin> bm_id ` set xs" using assms by (auto simp: later_def)
  from among_write [OF this] show ?thesis by (rule ens_pre) (rule among_forward [OF _ assms(1)])
qed

lemma single_write: "later b b' \<Longrightarrow> ensures (among a [b]) (db_backups_update_row b') (\<lambda>_. among a [b'])"
  by (rule among_write_later) simp_all

lemma among_step:
  assumes "later b b'" "bm_id b \<notin> bm_id ` set xs"
  shows "ensures (among a (b # xs)) (seq (attempt (db_backups_update_row b')) (ret b'))
    (succeeds (\<lambda>y w. among a (y # xs) w \<and> later b y))"
proof -
  have "ensures (among a (b # xs)) (attempt (db_backups_update_row b')) (succeeds (\<lambda>_. among a (b' # xs)))"
    by (rule ens_attempt) (rule among_write_later [OF assms])
  then show ?thesis by (rule ens_seq) (rule ens_ret, simp add: assms(1))
qed

section \<open>The job\<close>

lemma later_ended: "live b \<Longrightarrow> \<not> finished (dbb_status b) \<Longrightarrow> finished s \<Longrightarrow> later b (ended_backup s t b)"
  by (auto simp: later_def ended_backup_def live_def finished_def)

lemma later_launched:
  "live b \<Longrightarrow> \<not> finished (dbb_status b) \<Longrightarrow> (dbb_path b \<noteq> [] \<Longrightarrow> key = dbb_path b) \<Longrightarrow> later b (b\<lparr>dbb_path := key, dbb_status := ''running''\<rparr>)"
  by (auto simp: later_def live_def finished_def)

lemma ens_bind_now: "(\<And>t. ensures A (k t) Q) \<Longrightarrow> ensures A (bind now k) Q"
  by (simp add: ensures_def bind_now)

lemma fail_onward:
  assumes "live b" "\<not> finished (dbb_status b)"
  shows "ensures (among a [b]) (fail_db_backup b) (\<lambda>_. onward a)"
proof -
  have "ensures (among a [b]) (attempt (db_backups_update_row (ended_backup ''failed'' t b))) (\<lambda>_. onward a)" for t
    unfolding attempt_def
    by (rule ens_handle [OF single_write [OF later_ended [OF assms]]]) (auto simp: finished_def dest: among_onward intro!: ens_ret)
  then show ?thesis unfolding fail_db_backup_def by (rule ens_bind_now)
qed

lemma launch_onward:
  assumes b: "live b" "\<not> finished (dbb_status b)"
  shows "ensures (among a [b]) (launch_backup L C M m b) (\<lambda>_. onward a)"
proof -
  have call: "ensures (among a [x]) (cluster c) (\<lambda>_. among a [x])" for x c by (rule among_reads) (rule reads_intros)
  have stop: "ensures (among a [x]) (err e) (\<lambda>_. onward a)" "ensures (among a [x]) (ret u) (\<lambda>_. onward a)" for x e u
    by (auto intro: ens_err ens_ret dest: among_onward)
  have go: "ensures (among a [b]) (handle (db_backups_update_row b') (\<lambda>e. err (f e)) (\<lambda>_.
       if c then fail_db_backup b' else handle (cluster (CallDatabase ''backup'' (bm_id b))) (\<lambda>_. fail_db_backup b') ret)) (\<lambda>_. onward a)"
    if "b' = b\<lparr>dbb_path := key, dbb_status := ''running''\<rparr>" "dbb_path b \<noteq> [] \<Longrightarrow> key = dbb_path b" for b' key c f
  proof -
    have b': "live b'" "\<not> finished (dbb_status b')" using b(1) that(1) by (simp_all add: live_def finished_def)
    have l: "later b b'" using later_launched [OF b that(2)] that(1) by simp
    show ?thesis
      by (rule ens_handle [OF single_write [OF l]], rule stop, rule ens_if, rule fail_onward [OF b'],
        rule ens_handle [OF call], rule fail_onward [OF b'], rule stop)
  qed
  have s: "ensures (among a [b]) (load_backup_storage L C x) (\<lambda>_. among a [b])" for x
    by (rule among_reads) (auto simp: load_backup_storage_def resolve_object_storage_config_def intro!: reads_intros split: option.split)
  show ?thesis
    unfolding launch_backup_def Let_def
    by (rule ens_handle [OF s], rule fail_onward [OF b], rule ens_bind_now, rule go [OF refl], simp add: s3_key_def)
qed

lemma start_onward:
  assumes "live b" "\<not> finished (dbb_status b)"
  shows "ensures (among a [b]) (start_backup L C M m b) (\<lambda>_. onward a)"
  unfolding start_backup_def
  by (cases "await_ready M m 0 5") (auto intro: fail_onward [OF assms] launch_onward [OF assms] ens_err dest: among_onward)

lemma among_read:
  assumes "onward a w" "db_backups_get_by_id i w = (Inr b, w')"
  shows "among a [b] w' \<and> live b \<and> bm_id b = i"
proof -
  from assms(2) have "by_id i (db_backups (db w)) = Some b" "db w' = db w"
    by (auto simp: db_backups_get_by_id_def query_row_Inr)
  moreover from this have b: "bm_id b = i" "live b" by (auto simp: live_def dest: by_id_key by_id_live)
  ultimately show ?thesis using assms(1) later_refl [OF b(2)] by (auto simp: among_def)
qed

lemma after_read:
  assumes "\<And>b. live b \<Longrightarrow> bm_id b = i \<Longrightarrow> ensures (among a [b]) (k b) (\<lambda>_. onward a)" "\<And>e. ensures (onward a) (h e) (\<lambda>_. onward a)"
  shows "ensures (onward a) (handle (db_backups_get_by_id i) h k) (\<lambda>_. onward a)"
proof (unfold ensures_def, intro allI impI)
  fix w assume w: "onward a w"
  show "onward a (snd (handle (db_backups_get_by_id i) h k w))"
  proof (cases "db_backups_get_by_id i w")
    case (Pair r w')
    show ?thesis
    proof (cases r)
      case (Inl e)
      have "reads (db_backups_get_by_id i)" by (rule reads_intros)
      then have "db w' = db w" using Pair unfolding reads_def by (metis snd_conv)
      then have "onward a w'" using w by (simp add: among_def)
      then show ?thesis using assms(2) [of e] Pair Inl by (simp add: handle_def ensures_def)
    next
      case (Inr b)
      then have "among a [b] w' \<and> live b \<and> bm_id b = i" using among_read [OF w] Pair by simp
      then show ?thesis using assms(1) [of b] Pair Inr by (simp add: handle_def ensures_def)
    qed
  qed
qed

lemma job_onward: "ensures (onward a) (run_db_backup_job L C M i) (\<lambda>_. onward a)"
  unfolding run_db_backup_job_def
proof (rule after_read)
  show "ensures (onward a) (err (ErrWrap ''load backup'' e)) (\<lambda>_. onward a)" for e by (rule ens_err)
  fix b :: database_backup assume b: "live b" "bm_id b = i"
  let ?go = "handle (managed_dbs_get_by_id (dbb_database b)) (\<lambda>_. fail_db_backup b) (\<lambda>m.
       if dm_target M \<noteq> None then fail_db_backup b
       else if dbb_status b = ''running'' \<and> dm_backup_job M i = ''completed'' then bind now (\<lambda>t.
         handle (db_backups_update_row (ended_backup ''completed'' t b)) (\<lambda>e. err (ErrWrap ''reconcile backup completed'' e)) ret)
       else if dbb_status b = ''running'' \<and> dm_backup_job M i = ''failed'' then fail_db_backup b
       else start_backup L C M m b)"
  have "ensures (among a [b]) ?go (\<lambda>_. onward a)" if n: "\<not> finished (dbb_status b)"
  proof -
    have f: "finished ''completed''" by (simp add: finished_def)
    have w: "ensures (among a [b]) (handle (db_backups_update_row (ended_backup ''completed'' t b)) (\<lambda>e. err (g e)) ret) (\<lambda>_. onward a)" for t g
      by (rule ens_handle [OF single_write [OF later_ended [OF b(1) n f]]]) (auto intro: ens_err ens_ret dest: among_onward)
    show ?thesis
      by (rule ens_handle [OF among_reads], rule reads_intros, rule fail_onward [OF b(1) n], rule ens_if, rule fail_onward [OF b(1) n],
        rule ens_if, rule ens_bind_now, rule w, rule ens_if, rule fail_onward [OF b(1) n], rule start_onward [OF b(1) n])
  qed
  then show "ensures (among a [b]) (if dbb_status b = ''completed'' \<or> dbb_status b = ''failed'' then ret () else ?go) (\<lambda>_. onward a)"
    by (auto simp: finished_def intro: ens_ret dest: among_onward)
qed

section \<open>The list\<close>

lemma map_io_among:
  assumes f: "\<And>x zs. live x \<Longrightarrow> bm_id x \<notin> bm_id ` set zs \<Longrightarrow>
      ensures (among a (x # zs)) (f x) (succeeds (\<lambda>y w. among a (y # zs) w \<and> later x y))"
    and "distinct (map bm_id (xs @ zs))" "list_all live xs"
  shows "ensures (among a (xs @ zs)) (map_io f xs) (succeeds (\<lambda>ys w. among a (ys @ zs) w \<and> map bm_id ys = map bm_id xs \<and> list_all live ys))"
  using assms(2,3)
proof (induction xs arbitrary: zs)
  case Nil
  show ?case unfolding map_io.simps by (rule ens_ret) (simp only: succeeds_simps append_Nil list.map list.pred_inject simp_thms)
next
  case (Cons x xs)
  have one: "ensures (among a ((x # xs) @ zs)) (f x) (succeeds (\<lambda>y w. among a (y # xs @ zs) w \<and> later x y))"
    using f [of x "xs @ zs"] Cons.prems by auto
  have rest: "ensures (\<lambda>w. among a (y # xs @ zs) w \<and> later x y) (map_io f xs)
      (succeeds (\<lambda>ys w. among a (ys @ y # zs) w \<and> map bm_id ys = map bm_id xs \<and> list_all live ys \<and> later x y))" for y
  proof (cases "later x y")
    case True
    then have y: "bm_id y = bm_id x" by (simp add: later_def)
    have "ensures (among a (xs @ y # zs)) (map_io f xs)
        (succeeds (\<lambda>ys w. among a (ys @ y # zs) w \<and> map bm_id ys = map bm_id xs \<and> list_all live ys))"
      by (rule Cons.IH) (use Cons.prems y in auto)
    moreover have "among a (xs @ y # zs) = among a (y # xs @ zs)" by (rule among_set) auto
    ultimately show ?thesis using True by (simp add: ensures_def)
  qed (simp add: ensures_def)
  have fin: "ensures (\<lambda>w. among a (ys @ y # zs) w \<and> map bm_id ys = map bm_id xs \<and> list_all live ys \<and> later x y) (ret (y # ys))
      (succeeds (\<lambda>vs w. among a (vs @ zs) w \<and> map bm_id vs = map bm_id (x # xs) \<and> list_all live vs))" for y ys
  proof (rule ens_ret)
    fix w assume h: "among a (ys @ y # zs) w \<and> map bm_id ys = map bm_id xs \<and> list_all live ys \<and> later x y"
    moreover have "among a (ys @ y # zs) = among a ((y # ys) @ zs)" by (rule among_set) auto
    moreover have "bm_id y = bm_id x" "live y" using h by (simp_all add: later_def)
    ultimately show "succeeds (\<lambda>vs w. among a (vs @ zs) w \<and> map bm_id vs = map bm_id (x # xs) \<and> list_all live vs) (Inr (y # ys)) w"
      by simp
  qed
  show ?case unfolding map_io.simps by (rule ens_bind [OF one], rule ens_bind [OF rest], rule fin)
qed

lemma reconcile_step:
  assumes "live x" "bm_id x \<notin> bm_id ` set zs"
  shows "ensures (among a (x # zs)) (reconcile_backup M x) (succeeds (\<lambda>y w. among a (y # zs) w \<and> later x y))"
    and "ensures (among a (x # zs)) (reconcile_restore M x) (succeeds (\<lambda>y w. among a (y # zs) w \<and> later x y))"
proof -
  have l: "later x (if s = ''completed'' \<or> s = ''failed'' then ended_backup s t x else x)" if "dbb_status x = ''running''" for s t
    using assms(1) that later_ended [OF assms(1)] later_refl [OF assms(1)] by (simp add: finished_def)
  have r: "later x (if s = ''completed'' \<or> s = ''failed'' then x\<lparr>dbb_restore := s\<rparr> else x)" for s
    using assms(1) by (auto simp: later_def live_def)
  have same: "ensures (among a (x # zs)) (ret x) (succeeds (\<lambda>y w. among a (y # zs) w \<and> later x y))"
    by (rule ens_ret) (simp add: later_refl [OF assms(1)])
  show "ensures (among a (x # zs)) (reconcile_backup M x) (succeeds (\<lambda>y w. among a (y # zs) w \<and> later x y))"
    unfolding reconcile_backup_def Let_def
    by (rule ens_if, rule same, rule ens_bind_now, rule among_step [OF l assms(2)]) simp
  show "ensures (among a (x # zs)) (reconcile_restore M x) (succeeds (\<lambda>y w. among a (y # zs) w \<and> later x y))"
    unfolding reconcile_restore_def Let_def
    by (rule ens_if, rule same, rule among_step [OF r assms(2)])
qed

lemma page_rows:
  assumes "distinct_ids t" "bs = page_of q (newest_first (select_live P t))"
  shows "distinct (map bm_id bs)" "list_all live bs" "set bs \<subseteq> set t"
proof -
  let ?s = "newest_first (select_live P t)"
  have "distinct (map bm_id (select_live P t))"
    using assms(1) by (simp add: select_live_def distinct_ids_def distinct_map_filter)
  then have d: "distinct (map bm_id ?s)" by (simp add: newest_first_def distinct_map)
  have s: "set bs \<subseteq> set ?s" unfolding assms(2) page_of_def by (meson set_drop_subset set_take_subset subset_trans)
  show "distinct (map bm_id bs)" using d unfolding assms(2) page_of_def by (simp add: take_map [symmetric] drop_map [symmetric])
  show "list_all live bs" "set bs \<subseteq> set t"
    using s by (auto simp: newest_first_def select_live_def list_all_iff)
qed

lemma list_onward: "ensures (onward a) (list_db_backups M i q) (\<lambda>_. onward a)"
proof (unfold ensures_def, intro allI impI)
  fix w assume w: "onward a w"
  let ?k = "\<lambda>(bs, n). if dm_target M \<noteq> None then ret (bs, n)
     else bind (map_io (reconcile_backup M) bs) (\<lambda>bs. bind (map_io (reconcile_restore M) bs) (\<lambda>bs. ret (bs, n :: nat)))"
  obtain r w1 where e: "db_backups_list_by_database i q w = (r, w1)" by (cases "db_backups_list_by_database i q w")
  have "reads (db_backups_list_by_database i q)" by (rule reads_intros)
  then have d: "db w1 = db w" using e unfolding reads_def by (metis snd_conv)
  show "onward a (snd (list_db_backups M i q w))"
  proof (cases r)
    case (Inl x)
    then show ?thesis using w d e by (simp add: list_db_backups_def bind_def handle_def among_def)
  next
    case (Inr z)
    obtain bs n where z: "z = (bs, n)" by (cases z)
    have bs: "bs = page_of q (newest_first (select_live (\<lambda>b. dbb_database b = i) (db_backups (db w))))"
      using e Inr z by (auto simp: db_backups_list_by_database_def query_page_def query_def statement_def split: if_splits)
    have t: "distinct_ids (db_backups (db w))" using w by (simp add: among_def)
    note rows = page_rows [OF t bs]
    have a1: "among a (bs @ []) w1"
    proof -
      obtain c where c: "by_id (bm_id a) (db_backups (db w)) = Some c" "later a c" using w by (auto simp: among_def)
      have "later c x" if "x \<in> set bs" "bm_id x = bm_id a" for x
      proof -
        have l: "x \<in> set (db_backups (db w))" "live x" using rows that by (auto simp: list_all_iff)
        then have "x = c" using by_id_eqI [OF t l] c(1) that(2) by simp
        then show ?thesis using later_refl l(2) by simp
      qed
      then show ?thesis using c t d by (auto simp: among_def)
    qed
    have one: "ensures (among a (bs @ [])) (map_io (reconcile_backup M) bs)
        (succeeds (\<lambda>ys w. among a (ys @ []) w \<and> map bm_id ys = map bm_id bs \<and> list_all live ys))"
      by (rule map_io_among [OF reconcile_step(1)]) (use rows in simp_all)
    have two: "ensures (\<lambda>w. among a (ys @ []) w \<and> map bm_id ys = map bm_id bs \<and> list_all live ys) (map_io (reconcile_restore M) ys)
        (succeeds (\<lambda>ys. onward a))" for ys
    proof (cases "map bm_id ys = map bm_id bs \<and> list_all live ys")
      case True
      have "ensures (among a (ys @ [])) (map_io (reconcile_restore M) ys)
          (succeeds (\<lambda>zs w. among a (zs @ []) w \<and> map bm_id zs = map bm_id ys \<and> list_all live zs))"
        by (rule map_io_among [OF reconcile_step(2)]) (use rows True in simp_all)
      then have "ensures (among a (ys @ [])) (map_io (reconcile_restore M) ys) (succeeds (\<lambda>ys. onward a))"
        by (rule ens_post) (auto simp: succeeds_def dest: among_onward split: sum.splits)
      then show ?thesis by (rule ens_pre) simp
    next
      case False
      then show ?thesis by (auto simp: ensures_def)
    qed
    have "ensures (among a (bs @ [])) (?k (bs, n)) (\<lambda>_. onward a)"
      unfolding prod.case
      by (rule ens_if, rule ens_ret, erule among_onward, rule ens_bind [OF one], rule ens_bind [OF two], rule ens_ret)
    with a1 have "onward a (snd (?k (bs, n) w1))" by (simp add: ensures_def)
    then show ?thesis using e Inr z by (simp add: list_db_backups_def bind_def handle_def)
  qed
qed

section \<open>Restore and trigger\<close>

lemma ens_read_then:
  "reads m \<Longrightarrow> (\<And>e. ensures (among a xs) (h e) Q) \<Longrightarrow> (\<And>x. ensures (among a xs) (k x) Q) \<Longrightarrow> ensures (among a xs) (handle m h k) Q"
  by (rule ens_handle [OF among_reads])

lemma ens_read_bind:
  "reads m \<Longrightarrow> (\<And>x. ensures (among a xs) (k x) (\<lambda>_. onward a)) \<Longrightarrow> ensures (among a xs) (bind m k) (\<lambda>_. onward a)"
  unfolding bind_def by (rule ens_read_then) (auto intro: ens_err dest: among_onward)

lemma ens_option:
  "(x = None \<Longrightarrow> ensures A m Q) \<Longrightarrow> (\<And>y. x = Some y \<Longrightarrow> ensures A (n y) Q) \<Longrightarrow>
   ensures A (case x of None \<Rightarrow> m | Some y \<Rightarrow> n y) Q"
  by (cases x) simp_all

lemma ens_sum:
  "(\<And>e. x = Inl e \<Longrightarrow> ensures A (h e) Q) \<Longrightarrow> (\<And>y. x = Inr y \<Longrightarrow> ensures A (k y) Q) \<Longrightarrow>
   ensures A (case x of Inl e \<Rightarrow> h e | Inr y \<Rightarrow> k y) Q"
  by (cases x) simp_all

lemma restore_onward: "ensures (onward a) (restore_backup L C M i j) (\<lambda>_. onward a)"
proof -
  have e: "ensures (among a xs) (err x) (\<lambda>_. onward a)" for xs and x :: go_error by (rule ens_err) (erule among_onward)
  have s: "reads (load_backup_storage L C x)" for x
    by (auto simp: load_backup_storage_def resolve_object_storage_config_def intro!: reads_intros split: option.split)
  have fin: "ensures (among a [b]) (attempt (db_backups_update_row (b\<lparr>dbb_restore := st\<rparr>))) (\<lambda>_. onward a)" if "live b" for b st
  proof -
    have "later b (b\<lparr>dbb_restore := st\<rparr>)" using that by (auto simp: later_def live_def)
    from single_write [OF this] show ?thesis
      unfolding attempt_def by (rule ens_handle) (auto intro: ens_ret dest: among_onward)
  qed
  have tail: "ensures (among a [b]) (seq (restorable i b)
       (handle (load_backup_storage L C (mdb_backup_s3 m)) (\<lambda>e. err (ErrWrap x1 e)) (\<lambda>storage. case storage of
           None \<Rightarrow> err x2
         | Some (_, cfg) \<Rightarrow> (case dm_download M cfg (restore_key L m b) (backup_file L j m) of
             Some e \<Rightarrow> err (ErrWrap x3 e)
           | None \<Rightarrow> handle (cluster c) (\<lambda>e. err (ErrWrap x4 e)) (\<lambda>_. attempt (db_backups_update_row (b\<lparr>dbb_restore := ''running''\<rparr>)))))))
    (\<lambda>_. onward a)" if "live b" for b m x1 x2 x3 x4 c
    unfolding seq_def
    by (rule ens_read_bind, simp add: restorable_def reads_intros, rule ens_read_then [OF s], rule e)
      (auto intro!: e ens_read_then [OF reads_cluster] fin [OF that] split: option.split)
  show ?thesis
    unfolding restore_backup_def with_manager_def
    by (rule ens_read_bind, rule reads_intros, rule ens_option, rule ens_sum, rule e, rule ens_if, rule e, rule after_read,
      rule tail, assumption, rule e, rule e)
qed

lemma insert_onward:
  "ensures (onward a) (db_backups_create r) (\<lambda>x w. onward a w \<and> (\<forall>b. x = Inr b \<longrightarrow> live b \<and> bm_id b \<noteq> bm_id a))"
proof (unfold ensures_def, intro allI impI)
  fix w assume w: "onward a w"
  then obtain c where c: "distinct_ids (db_backups (db w))" "by_id (bm_id a) (db_backups (db w)) = Some c" "later a c"
    by (auto simp: among_def)
  have m: "bm_id a \<in> bm_id ` set (db_backups (db w))" using find_live_iff [OF c(2)] by (metis imageI)
  show "onward a (snd (db_backups_create r w)) \<and> (\<forall>b. fst (db_backups_create r w) = Inr b \<longrightarrow> live b \<and> bm_id b \<noteq> bm_id a)"
    using c m by (auto simp: db_backups_create_def insert_row_def Let_def among_def append_row_def by_id_append fill_defaults_def
        live_def distinct_ids_def image_iff no_index_def)
qed

lemma trigger_onward: "ensures (onward a) (trigger_db_backup i) (\<lambda>_. onward a)"
proof -
  have u: "ensures (onward a) (attempt (db_backups_update_row (ended_backup s t b))) (succeeds (\<lambda>_. onward a))"
    if "live b" "bm_id b \<noteq> bm_id a" for s t b
  proof -
    have l: "live (ended_backup s t b)" "bm_id (ended_backup s t b) \<noteq> bm_id a" using that by (simp_all add: ended_backup_def live_def)
    have "ensures (among a [ended_backup s t b]) (db_backups_update_row (ended_backup s t b)) (\<lambda>_. among a [ended_backup s t b])"
      by (rule among_write [OF l(1)]) simp
    then have "ensures (onward a) (db_backups_update_row (ended_backup s t b)) (\<lambda>_. onward a)"
      by (rule ens_pre [THEN ens_post]) (use l(2) in \<open>auto simp: among_def\<close>)
    then show ?thesis by (rule ens_attempt)
  qed
  have en: "ensures (onward a) (enqueue j) (\<lambda>_. onward a)" for j
    by (auto simp: ensures_def enqueue_def among_def)
  have k: "ensures (onward a) (handle (enqueue j)
         (\<lambda>e. bind now (\<lambda>t'. seq (attempt (db_backups_update_row (ended_backup ''failed'' t' b))) (err (f e)))) (\<lambda>_. ret b)) (\<lambda>_. onward a)"
    if "live b" "bm_id b \<noteq> bm_id a" for b j f
    by (rule ens_handle [OF en], rule ens_bind_now, rule ens_seq [OF u [OF that]], rule ens_err) (auto intro: ens_ret)
  have kk: "ensures (\<lambda>w. onward a w \<and> (\<forall>b'. (Inr b :: go_error + database_backup) = Inr b' \<longrightarrow> live b' \<and> bm_id b' \<noteq> bm_id a)) (handle (enqueue j)
         (\<lambda>e. bind now (\<lambda>t'. seq (attempt (db_backups_update_row (ended_backup ''failed'' t' b))) (err (f e)))) (\<lambda>_. ret b)) (\<lambda>_. onward a)"
    for b j f
    using k [of b j f] by (auto simp: ensures_def)
  show ?thesis
    unfolding trigger_db_backup_def
    by (rule ens_read_bind, rule reads_intros, rule ens_bind_now, rule ens_handle [OF insert_onward], rule ens_err, simp, rule kk)
qed

lemma due_onward: "ensures (onward a) (run_due_backups local) (\<lambda>_. onward a)"
proof -
  have one: "ensures (onward a) (bind now (\<lambda>t. if c t then ret () else attempt (trigger_db_backup i))) (succeeds (\<lambda>_. onward a))" for c i
    by (rule ens_bind_now, rule ens_if, rule ens_ret, simp, rule ens_attempt [OF trigger_onward])
  show ?thesis
    unfolding run_due_backups_def
    by (rule ens_handle [OF among_reads], rule reads_intros, rule ens_ret, simp)
      (rule ens_post [OF ens_for_each [OF one]], auto simp: succeeds_def split: sum.splits)
qed

text \<open>C26 (backup_never_reopened): whatever fails and however often its message is delivered, the row of a backup only moves on:
  a completed or failed backup keeps its status and its end, a running one is never pending again, and the object
  key, once chosen, stays, so that a restore reads what the backup wrote.  The job, the list with its
  reconciliation, the restore, the trigger and the scheduler all obey it, for their own backup and for every other.\<close>

theorem backup_never_reopened:
  assumes "distinct_ids (db_backups (db w))" "by_id (bm_id a) (db_backups (db w)) = Some a"
    and "w' \<in> {snd (run_db_backup_job L C M j w), snd (list_db_backups M k q w), snd (restore_backup L C M k j w),
      snd (trigger_db_backup k w), snd (run_due_backups local w)}"
  shows "\<exists>c. by_id (bm_id a) (db_backups (db w')) = Some c \<and> later a c"
proof -
  have "live a" using assms(2) by (auto simp: live_def dest: by_id_live)
  then have "onward a w" using assms(1,2) later_refl by (simp add: among_def)
  then have "onward a w'"
    using assms(3) job_onward [of a L C M j] list_onward [of a M k q] restore_onward [of a L C M k j] trigger_onward [of a k]
      due_onward [of a local] by (auto simp: ensures_def)
  then show ?thesis by (auto simp: among_def)
qed

section \<open>How the job ends\<close>

definition present :: "uuid \<Rightarrow> world \<Rightarrow> bool" where
  "present i w \<longleftrightarrow> calm w \<and> distinct_ids (db_backups (db w)) \<and> by_id i (db_backups (db w)) \<noteq> None"

definition settled :: "uuid \<Rightarrow> world \<Rightarrow> bool" where
  "settled i w \<longleftrightarrow> (\<exists>b. by_id i (db_backups (db w)) = Some b \<and>
     (finished (dbb_status b) \<and> dbb_finished b \<noteq> None \<or>
      dbb_status b = ''running'' \<and> dbb_path b \<noteq> [] \<and> CallDatabase ''backup'' i \<in> set (calls w)))"

lemma db_backup_write:
  assumes "present (bm_id b) w" "live b"
  obtains w' where "db_backups_update_row b w = (Inr (), w')" "present (bm_id b) w'"
    "by_id (bm_id b) (db_backups (db w')) = Some b" "calls w' = calls w"
proof -
  let ?w = "(next_fault w)\<lparr>db := db_backups_update (replace_pk b) (db w)\<rparr>"
  have "db_backups_update_row b w = (Inr (), ?w)"
    using assms(1) by (simp add: present_def db_backups_update_row_def update_row_def statement_def no_index_def)
  then show thesis using that [of ?w] assms by (auto simp: present_def by_id_replace_pk next_fault_def calm_def)
qed

lemma write_ended:
  assumes "bm_id b = i" "live b" "finished s"
  shows "ensures (present i) (db_backups_update_row (ended_backup s t b)) (succeeds (\<lambda>_. settled i))"
proof (unfold ensures_def, intro allI impI)
  fix w assume w: "present i w"
  let ?b = "ended_backup s t b"
  have b: "bm_id ?b = i" "live ?b" "finished (dbb_status ?b)" "dbb_finished ?b \<noteq> None"
    using assms by (simp_all add: ended_backup_def live_def)
  obtain w' where "db_backups_update_row ?b w = (Inr (), w')" "by_id i (db_backups (db w')) = Some ?b"
    using db_backup_write [of ?b w] w b by auto
  then show "succeeds (\<lambda>_. settled i) (fst (db_backups_update_row ?b w)) (snd (db_backups_update_row ?b w))"
    using b by (auto simp: settled_def)
qed

lemma fail_settles:
  assumes "bm_id b = i" "live b"
  shows "ensures (present i) (fail_db_backup b) (succeeds (\<lambda>_. settled i))"
proof -
  have "ensures (present i) (db_backups_update_row (ended_backup ''failed'' t b)) (\<lambda>_. settled i)" for t
    by (rule ens_post [OF write_ended [OF assms]]) (auto simp: finished_def succeeds_def split: sum.splits)
  then show ?thesis unfolding fail_db_backup_def by (intro ens_bind_now ens_attempt)
qed

lemma present_reads: "reads m \<Longrightarrow> keeps calm m \<Longrightarrow> ensures (present i) m (\<lambda>_. present i)"
  by (simp add: ensures_def reads_def keeps_def present_def)

lemma launch_settles:
  assumes b: "bm_id b = i" "live b"
  shows "ensures (present i) (launch_backup L C M m b) (succeeds (\<lambda>_. settled i))"
proof -
  have go: "ensures (present i) (handle (db_backups_update_row b') (\<lambda>e. err (f e)) (\<lambda>_.
       if c then fail_db_backup b' else handle (cluster (CallDatabase ''backup'' (bm_id b))) (\<lambda>_. fail_db_backup b') ret))
       (succeeds (\<lambda>_. settled i))"
    if b': "b' = b\<lparr>dbb_path := key, dbb_status := ''running''\<rparr>" "key \<noteq> []" for b' key c f
  proof (unfold ensures_def, intro allI impI)
    fix w assume w: "present i w"
    have x: "bm_id b' = i" "live b'" "dbb_status b' = ''running''" "dbb_path b' \<noteq> []" using b b' by (simp_all add: live_def)
    obtain w1 where u: "db_backups_update_row b' w = (Inr (), w1)" "present i w1" "by_id i (db_backups (db w1)) = Some b'"
      using db_backup_write [of b' w] w x by auto
    obtain u2 w2 where f2: "fail_db_backup b' w1 = (Inr u2, w2)" "settled i w2"
      using ens_succeedsD [OF fail_settles [OF x(1,2)] u(2)] by blast
    define w3 where "w3 = (next_answer w1)\<lparr>calls := calls w1 @ [CallDatabase ''backup'' (bm_id b)]\<rparr>"
    have p3: "present i w3" using u(2) by (simp add: w3_def present_def calm_def)
    have s3: "settled i w3" using u(3) x b(1) by (simp add: w3_def settled_def)
    obtain u4 w4 where f4: "fail_db_backup b' w3 = (Inr u4, w4)" "settled i w4"
      using ens_succeedsD [OF fail_settles [OF x(1,2)] p3] by blast
    have f3: "cluster (CallDatabase ''backup'' (bm_id b)) w1 = (if refused_now w1 then Inl ErrIO else Inr (), w3)"
      by (simp add: cluster_def w3_def)
    show "succeeds (\<lambda>_. settled i) (fst (handle (db_backups_update_row b') (\<lambda>e. err (f e)) (\<lambda>_.
       if c then fail_db_backup b' else handle (cluster (CallDatabase ''backup'' (bm_id b))) (\<lambda>_. fail_db_backup b') ret) w))
      (snd (handle (db_backups_update_row b') (\<lambda>e. err (f e)) (\<lambda>_.
       if c then fail_db_backup b' else handle (cluster (CallDatabase ''backup'' (bm_id b))) (\<lambda>_. fail_db_backup b') ret) w))"
      by (cases c; cases "refused_now w1") (use u(1) f2 f3 f4 s3 in \<open>simp_all add: handle_def ret_def\<close>)
  qed
  have k: "s3_key L M m b t \<noteq> []" for t by (simp add: s3_key_def)
  have s: "ensures (present i) (load_backup_storage L C x) (\<lambda>_. present i)" for x
    by (rule present_reads) (auto simp: load_backup_storage_def resolve_object_storage_config_def intro!: reads_intros keeps_intros split: option.split)
  show ?thesis
    unfolding launch_backup_def Let_def
    by (rule ens_handle [OF s], rule fail_settles [OF b], rule ens_bind_now, rule go [OF refl k])
qed

text \<open>The context ends during the wait for the database: at some poll before the last, after polls of which each found
  the database neither running nor undeployed.\<close>

definition wait_cut_short :: "db_manager \<Rightarrow> managed_database \<Rightarrow> bool" where
  "wait_cut_short M m \<longleftrightarrow> (\<exists>k<5. dm_ends M k \<and> (\<forall>j\<le>k. \<exists>ph. dm_phase M j m = Inr ph \<and> ph \<notin> {''running'', ''not deployed''}))"

lemma await_ready_cut:
  "await_ready M m k n = CtxEnded \<Longrightarrow>
   \<exists>i<n. dm_ends M (k + i) \<and> (\<forall>j\<le>i. \<exists>ph. dm_phase M (k + j) m = Inr ph \<and> ph \<notin> {''running'', ''not deployed''})"
proof (induction n arbitrary: k)
  case 0
  then show ?case by (auto simp: await_ready.simps [of M m k 0] split: sum.splits if_splits)
next
  case (Suc n)
  obtain ph where ph: "dm_phase M k m = Inr ph" "ph \<notin> {''running'', ''not deployed''}"
    using Suc.prems by (auto simp: await_ready.simps [of M m k "Suc n"] split: sum.splits if_splits)
  show ?case
  proof (cases "dm_ends M k")
    case True
    then show ?thesis using ph by (intro exI [of _ 0]) simp
  next
    case False
    then have "await_ready M m (Suc k) n = CtxEnded"
      using Suc.prems ph by (simp add: await_ready.simps [of M m k "Suc n"])
    then obtain i where i: "i < n" "dm_ends M (Suc k + i)"
        "\<And>j. j \<le> i \<Longrightarrow> \<exists>ph. dm_phase M (Suc k + j) m = Inr ph \<and> ph \<notin> {''running'', ''not deployed''}"
      using Suc.IH by blast
    have "\<exists>ph. dm_phase M (k + j) m = Inr ph \<and> ph \<notin> {''running'', ''not deployed''}" if "j \<le> Suc i" for j
      using i(3) [of "j - 1"] that ph by (cases j) auto
    with i show ?thesis by (intro exI [of _ "Suc i"]) simp
  qed
qed

lemma wait_cut: "await_ready M m 0 5 = CtxEnded \<Longrightarrow> wait_cut_short M m"
  using await_ready_cut [of M m 0 5] by (simp add: wait_cut_short_def)

definition db_job_fate :: "db_manager \<Rightarrow> database_backup \<Rightarrow> world \<Rightarrow> go_error + unit \<Rightarrow> world \<Rightarrow> bool" where
  "db_job_fate M b w r w' \<longleftrightarrow> (case r of
     Inr _ \<Rightarrow> settled (bm_id b) w'
   | Inl e \<Rightarrow> e = ErrMsg ''context canceled'' \<and> db w' = db w \<and> calls w' = calls w \<and>
       (\<exists>m. by_id (dbb_database b) (managed_dbs (db w)) = Some m \<and> wait_cut_short M m))"

text \<open>\<open>started w\<close>: nothing was written since \<open>w\<close> and nothing asked of the cluster.\<close>

definition started :: "world \<Rightarrow> world \<Rightarrow> bool" where
  "started w v \<longleftrightarrow> calm v \<and> db v = db w \<and> calls v = calls w"


section \<open>Witnesses\<close>

definition demo_db_manager :: db_manager where
  "demo_db_manager = \<lparr>dm_target = None, dm_phase = (\<lambda>_ _. Inr ''running''), dm_ends = (\<lambda>_. False), dm_backup_job = (\<lambda>_. []),
     dm_restore_job = (\<lambda>_. []), dm_node_port = (\<lambda>_. 30000), dm_upload = (\<lambda>_ _ _. None), dm_download = (\<lambda>_ _ _. None),
     dm_stamp = (\<lambda>_. ''s''), dm_text = (\<lambda>_. [])\<rparr>"

definition demo_db_backup :: "string \<Rightarrow> database_backup" where
  "demo_db_backup st = (pending_backup 0 7)\<lparr>bm_id := 1, dbb_status := st\<rparr>"

lemma demo_db_backup_rows: "bm_id (demo_db_backup st) = 1" "live (demo_db_backup st)" "dbb_status (demo_db_backup st) = st"
  "bm_deleted (demo_db_backup st) = None"
  by (simp_all add: demo_db_backup_def pending_backup_def live_def)

lemma backup_never_reopened_witness:
  "\<exists>c. by_id 1 (db_backups (db (snd (run_db_backup_job demo_libs demo_resource_cloud demo_db_manager 1
      (world_of (empty_database\<lparr>db_backups := [demo_db_backup ''running'']\<rparr>)))))) = Some c \<and> later (demo_db_backup ''running'') c"
  using backup_never_reopened [of "world_of (empty_database\<lparr>db_backups := [demo_db_backup ''running'']\<rparr>)" "demo_db_backup ''running''" _
      demo_libs demo_resource_cloud demo_db_manager 1, OF _ _ insertI1]
  by (simp add: distinct_ids_def by_id_Cons demo_db_backup_rows)

definition demo_backup_world :: world where
  "demo_backup_world = (world_of (empty_database\<lparr>db_backups := [demo_db_backup ''pending'']\<rparr>))\<lparr>refusals := [True]\<rparr>"


end
