(* ===== verification/Registry_Auth.thy ===== *)
theory Registry_Auth imports Resource_Service begin

text \<open>
  Pull secrets of private registries (\<open>service/registry_auth.go\<close>, \<open>providers/registry_basic.go\<close>,
  \<open>providers/registry_ecr.go\<close>): from the registry resource of an application to the \<open>dockerconfigjson\<close> document that its
  cluster gets, with standard base64 (RFC 4648) written out.  The token that AWS answers is the parameter \<open>ecr_token\<close>.
\<close>

section \<open>Base64\<close>

definition b64_alphabet :: string where
  "b64_alphabet = ''ABCDEFGHIJKLMNOPQRSTUVWXYZabcdefghijklmnopqrstuvwxyz0123456789+/''"

definition b64_char :: "nat \<Rightarrow> char" where
  "b64_char n = b64_alphabet ! n"

fun b64_encode :: "string \<Rightarrow> string" where
  "b64_encode [] = []"
| "b64_encode [a] = (let x = of_char a :: nat in [b64_char (x div 4), b64_char (x mod 4 * 16), CHR ''='', CHR ''=''])"
| "b64_encode [a, b] = (let x = of_char a :: nat; y = of_char b :: nat in
     [b64_char (x div 4), b64_char (x mod 4 * 16 + y div 16), b64_char (y mod 16 * 4), CHR ''=''])"
| "b64_encode (a # b # c # s) = (let x = of_char a :: nat; y = of_char b :: nat; z = of_char c :: nat in
     b64_char (x div 4) # b64_char (x mod 4 * 16 + y div 16) # b64_char (y mod 16 * 4 + z div 64) # b64_char (z mod 64) # b64_encode s)"

fun index_of :: "char \<Rightarrow> string \<Rightarrow> nat option" where
  "index_of c [] = None"
| "index_of c (d # ds) = (if c = d then Some 0 else map_option Suc (index_of c ds))"

definition b64_value :: "char \<Rightarrow> nat option" where
  "b64_value c = index_of c b64_alphabet"

text \<open>The strict decoder: groups of four, padding only in the last, no other character.\<close>

fun b64_decode :: "string \<Rightarrow> string option" where
  "b64_decode [] = Some []"
| "b64_decode [p, q, r, s] = (case (b64_value p, b64_value q) of
     (Some i, Some j) \<Rightarrow>
       if s = CHR ''='' then
         (if r = CHR ''='' then Some [char_of (i * 4 + j div 16)]
          else (case b64_value r of None \<Rightarrow> None
            | Some k \<Rightarrow> Some [char_of (i * 4 + j div 16), char_of (j mod 16 * 16 + k div 4)]))
       else (case (b64_value r, b64_value s) of
           (Some k, Some l) \<Rightarrow> Some [char_of (i * 4 + j div 16), char_of (j mod 16 * 16 + k div 4), char_of (k mod 4 * 64 + l)]
         | _ \<Rightarrow> None)
   | _ \<Rightarrow> None)"
| "b64_decode (p # q # r # s # t) = (case (b64_value p, b64_value q, b64_value r, b64_value s) of
     (Some i, Some j, Some k, Some l) \<Rightarrow>
       map_option (\<lambda>u. char_of (i * 4 + j div 16) # char_of (j mod 16 * 16 + k div 4) # char_of (k mod 4 * 64 + l) # u) (b64_decode t)
   | _ \<Rightarrow> None)"
| "b64_decode _ = None"

section \<open>The registry providers\<close>

definition strip_scheme :: "string \<Rightarrow> string" where
  "strip_scheme u = trim_suffix (trim_prefix (trim_prefix u ''https://'') ''http://'') ''/''"

definition default_registry_host :: "string \<Rightarrow> string" where
  "default_registry_host p = (if p = ''dockerhub'' then ''https://index.docker.io/v1/'' else if p = ''ghcr'' then ''ghcr.io'' else [])"

definition registry_host_for :: "string \<Rightarrow> string \<Rightarrow> string" where
  "registry_host_for usual url = (if url = [] \<and> usual \<noteq> [] then usual else strip_scheme url)"

definition short_lived :: "string \<Rightarrow> bool" where
  "short_lived p \<longleftrightarrow> p = ''ecr''"

text \<open>A decoded token is \<open>user:password\<close>; \<open>strings.Cut\<close> splits it at the first colon.\<close>

definition cut_colon :: "string \<Rightarrow> (string \<times> string) option" where
  "cut_colon s = (if CHR '':'' \<in> set s
     then Some (takeWhile (\<lambda>c. c \<noteq> CHR '':'') s, tl (dropWhile (\<lambda>c. c \<noteq> CHR '':'') s)) else None)"

type_synonym ecr_api = "string \<Rightarrow> string \<Rightarrow> string \<Rightarrow> string \<Rightarrow> go_error + (string option \<times> string option)"

definition ecr_auth_token :: "ecr_api \<Rightarrow> string \<Rightarrow> string \<Rightarrow> string \<Rightarrow> string \<Rightarrow> go_error + (string \<times> string \<times> string)" where
  "ecr_auth_token api region ak sk st =
     (if region = [] then Inl (ErrMsg ''ecr region is required'')
      else (case api region ak sk st of
          Inl e \<Rightarrow> Inl (ErrWrap ''ecr get authorization token'' e)
        | Inr (None, _) \<Rightarrow> Inl (ErrMsg ''ecr returned no authorization data'')
        | Inr (Some tok, ep) \<Rightarrow> (case b64_decode tok of
            None \<Rightarrow> Inl (ErrMsg ''decode ecr token'')
          | Some d \<Rightarrow> (case cut_colon d of
              None \<Rightarrow> Inl (ErrMsg ''malformed ecr token'')
            | Some (u, p) \<Rightarrow> Inr ((case ep of None \<Rightarrow> [] | Some x \<Rightarrow> strip_scheme x), u, p)))))"

definition docker_auth :: "ecr_api \<Rightarrow> string \<Rightarrow> json option \<Rightarrow> go_error + (string \<times> string \<times> string)" where
  "docker_auth api provider cfg =
     (if provider = ''ecr'' then (case cfg of
          None \<Rightarrow> Inl (ErrMsg ''invalid ecr config'')
        | Some j \<Rightarrow> if \<not> fields_ok [''region'', ''access_key'', ''secret_key'', ''session_token''] j then Inl (ErrMsg ''invalid ecr config'')
            else ecr_auth_token api (fst (json_field ''region'' j)) (fst (json_field ''access_key'' j))
              (fst (json_field ''secret_key'' j)) (fst (json_field ''session_token'' j)))
      else (case cfg of
          None \<Rightarrow> Inl (ErrMsg ''invalid registry config'')
        | Some j \<Rightarrow> if \<not> fields_ok [''url'', ''username'', ''password''] j then Inl (ErrMsg ''invalid registry config'')
            else Inr (registry_host_for (default_registry_host provider) (fst (json_field ''url'' j)),
              fst (json_field ''username'' j), fst (json_field ''password'' j))))"

section \<open>The document\<close>

definition omit_empty :: "string \<Rightarrow> string \<Rightarrow> (string \<times> json) list" where
  "omit_empty k v = (if v = [] then [] else [(k, JString v)])"

definition build_docker_config :: "string \<Rightarrow> string \<Rightarrow> string \<Rightarrow> json" where
  "build_docker_config host user pw =
     JObject [(''auths'', JObject [(host, JObject (omit_empty ''username'' user @ omit_empty ''password'' pw @
       [(''auth'', JString (b64_encode (user @ CHR '':'' # pw)))]))])]"

definition docker_config_json :: "libs \<Rightarrow> resource_cloud \<Rightarrow> ecr_api \<Rightarrow> uuid \<Rightarrow> json io" where
  "docker_config_json L C api i = handle (resources_get_by_id i) (\<lambda>e. err (ErrWrap ''registry not found'' e)) (\<lambda>r.
     if sr_type r \<noteq> resource_registry then err (ErrMsg (''resource '' @ uuid_str L i @ '' is not a registry''))
     else bind (resolve_registry_config L C (sr_org r) (sr_provider r) (sr_config r)) (\<lambda>cfg.
       case docker_auth api (sr_provider r) cfg of
         Inl e \<Rightarrow> err e
       | Inr (host, u, p) \<Rightarrow> ret (build_docker_config host u p)))"

definition docker_config_for_app :: "libs \<Rightarrow> resource_cloud \<Rightarrow> ecr_api \<Rightarrow> application \<Rightarrow> json option io" where
  "docker_config_for_app L C api a = (case a_registry a of
     None \<Rightarrow> ret None
   | Some i \<Rightarrow> bind (docker_config_json L C api i) (\<lambda>d. ret (Some d)))"

text \<open>One tick of the refresh; \<open>sinks\<close> says whether the application's target takes secrets.\<close>

definition refresh_ecr_one :: "libs \<Rightarrow> resource_cloud \<Rightarrow> ecr_api \<Rightarrow> (application \<Rightarrow> go_error option) \<Rightarrow> application \<Rightarrow> unit io" where
  "refresh_ecr_one L C api sinks a = (case a_registry a of
     None \<Rightarrow> ret ()
   | Some i \<Rightarrow> handle (resources_get_by_id i) (\<lambda>_. ret ()) (\<lambda>r.
       if \<not> short_lived (sr_provider r) then ret ()
       else handle (docker_config_json L C api i) (\<lambda>_. ret ()) (\<lambda>_.
         if sinks a \<noteq> None then ret () else attempt (cluster (CallApp ''pull secret'' (bm_id a))))))"

definition refresh_ecr_secrets :: "libs \<Rightarrow> resource_cloud \<Rightarrow> ecr_api \<Rightarrow> (application \<Rightarrow> go_error option) \<Rightarrow> unit io" where
  "refresh_ecr_secrets L C api sinks = handle applications_list_with_registry (\<lambda>_. ret ()) (for_each (refresh_ecr_one L C api sinks))"

section \<open>Round trips\<close>

lemma b64_chars: "list_all (\<lambda>n. b64_value (b64_char n) = Some n \<and> b64_char n \<noteq> CHR ''='') [0..<64]"
  by code_simp

lemma b64_value_char: "n < 64 \<Longrightarrow> b64_value (b64_char n) = Some n" "n < 64 \<Longrightarrow> b64_char n \<noteq> CHR ''=''"
  using b64_chars by (auto simp: list_all_iff)

lemma byte_bound: "(of_char c :: nat) < 256"
  using range_nat_of_char by auto

lemma digits_join: "b < n \<Longrightarrow> (a * n + b) div n = a" "b < n \<Longrightarrow> (a * n + b) mod n = b" for a b n :: nat
  by simp_all

text \<open>The four sextets of three bytes, and the bytes of the sextets.\<close>

lemma byte_bits:
  fixes x y z :: nat
  assumes "x < 256" "y < 256" "z < 256"
  defines "i \<equiv> x div 4" and "j \<equiv> x mod 4 * 16 + y div 16" and "k \<equiv> y mod 16 * 4 + z div 64" and "l \<equiv> z mod 64"
  shows "i < 64" "j < 64" "k < 64" "l < 64" "i * 4 + j div 16 = x" "j mod 16 * 16 + k div 4 = y" "k mod 4 * 64 + l = z"
proof -
  have d: "x div 4 < 64" "y div 16 < 16" "z div 64 < 4" using assms(1-3) by (simp_all add: less_mult_imp_div_less)
  have m: "x mod 4 < 4" "y mod 16 < 16" "z mod 64 < 64" by simp_all
  show "i < 64" "l < 64" using d by (simp_all add: i_def l_def)
  show "j < 64" "k < 64" using d m unfolding j_def k_def by linarith+
  have "j div 16 = x mod 4" "j mod 16 = y div 16" "k div 4 = y mod 16" "k mod 4 = z div 64"
    using d unfolding j_def k_def by (simp_all only: digits_join)
  then show "i * 4 + j div 16 = x" "j mod 16 * 16 + k div 4 = y" "k mod 4 * 64 + l = z"
    unfolding i_def l_def by simp_all
qed

lemma b64_decode_groups:
  assumes "i < 64" "j < 64"
  shows "b64_decode [b64_char i, b64_char j, CHR ''='', CHR ''=''] = Some [char_of (i * 4 + j div 16)]"
    and "k < 64 \<Longrightarrow> b64_decode [b64_char i, b64_char j, b64_char k, CHR ''=''] =
      Some [char_of (i * 4 + j div 16), char_of (j mod 16 * 16 + k div 4)]"
    and "k < 64 \<Longrightarrow> l < 64 \<Longrightarrow> b64_decode (b64_char i # b64_char j # b64_char k # b64_char l # t) =
      map_option (\<lambda>u. char_of (i * 4 + j div 16) # char_of (j mod 16 * 16 + k div 4) # char_of (k mod 4 * 64 + l) # u) (b64_decode t)"
  using assms by (simp_all add: b64_value_char) (cases t; simp add: b64_value_char)

lemma b64_roundtrip: "b64_decode (b64_encode s) = Some s"
proof (induction s rule: b64_encode.induct)
  case (2 a)
  note b = byte_bits [OF byte_bound [of a] zero_less_numeral zero_less_numeral]
  have "b64_encode [a] = [b64_char (of_char a div 4), b64_char (of_char a mod 4 * 16 + 0 div 16), CHR ''='', CHR ''='']"
    by (simp add: Let_def)
  then show ?case by (simp only: b64_decode_groups(1) [OF b(1,2)] b(5) char_of_char)
next
  case (3 a c)
  note b = byte_bits [OF byte_bound [of a] byte_bound [of c] zero_less_numeral]
  have "b64_encode [a, c] = [b64_char (of_char a div 4), b64_char (of_char a mod 4 * 16 + of_char c div 16),
      b64_char (of_char c mod 16 * 4 + 0 div 64), CHR ''='']"
    by (simp add: Let_def)
  then show ?case by (simp only: b64_decode_groups(2) [OF b(1-3)] b(5,6) char_of_char)
next
  case (4 a c d s)
  note b = byte_bits [OF byte_bound [of a] byte_bound [of c] byte_bound [of d]]
  show ?case unfolding b64_encode.simps(4) Let_def
    by (simp only: b64_decode_groups(3) [OF b(1-4)] b(5-7) char_of_char 4 option.map)
qed simp

lemma cut_colon_at: "CHR '':'' \<notin> set u \<Longrightarrow> cut_colon (u @ CHR '':'' # p) = Some (u, p)"
  by (simp add: cut_colon_def takeWhile_append dropWhile_append)

text \<open>What the kubelet reads from a document for a host: the user and the password in its \<open>auth\<close>.\<close>

definition pull_login :: "json \<Rightarrow> string \<Rightarrow> (string \<times> string) option" where
  "pull_login doc host = Option.bind (json_map doc) (\<lambda>m. Option.bind (m ''auths'') (\<lambda>a. Option.bind (json_map a) (\<lambda>hosts.
     Option.bind (hosts host) (\<lambda>e. Option.bind (b64_decode (fst (json_field ''auth'' e))) cut_colon))))"

lemma auth_field:
  "fst (json_field ''auth'' (JObject (omit_empty ''username'' u @ omit_empty ''password'' p @ [(''auth'', JString a)]))) = a"
  by (simp add: omit_empty_def equal_fold_def to_lower_def lower_char_def is_upper_char_def char_in_def)

text \<open>The credentials an ECR registry of a database is used with: the stored ones, or, when it names a cloud account, those with the
  keys of that account, which is an AWS account of the registry's own organisation.\<close>

definition ecr_credentials :: "libs \<Rightarrow> resource_cloud \<Rightarrow> database \<Rightarrow> shared_resource \<Rightarrow> json \<Rightarrow> bool" where
  "ecr_credentials L C d r j \<longleftrightarrow> (\<exists>j0. sr_config r = Some j0 \<and> (case json_map j0 of
     None \<Rightarrow> j = j0
   | Some m \<Rightarrow>
       if text_of m ''cloud_account_id'' = [] then j = j0
       else (\<exists>k a c kvs. uuid_parse L (text_of m ''cloud_account_id'') = Some k \<and> by_id k (shared_resources d) = Some a \<and>
         sr_org a = sr_org r \<and> sr_provider a = ''aws'' \<and> aws_parse_credentials (sr_config a) = Inr c \<and>
         account_keys C c (or_default (aws_region c) (text_of m ''region'')) = Inr kvs \<and> j = with_fields C j0 kvs)))"

lemma resolved_ecr:
  assumes "resolve_registry_config L C (sr_org r) ''ecr'' (sr_config r) w = (Inr (Some j), w')"
  shows "ecr_credentials L C (db w) r j \<and> db w' = db w"
proof (cases "sr_config r")
  case None
  then show ?thesis using assms by (simp add: resolve_registry_config_def resolve_account_config_def)
next
  case (Some j0)
  then show ?thesis using assms
    by (cases "json_map j0")
      (auto simp: ecr_credentials_def resolve_registry_config_def resolve_account_config_def handle_cases resources_get_by_id_def query_row_Inr
        split: option.splits if_splits sum.splits)
qed

lemma ecr_login:
  assumes "ecr_auth_token api region ak sk st = Inr (host, u, p)"
  shows "\<exists>tok ep. region \<noteq> [] \<and> api region ak sk st = Inr (Some tok, ep) \<and> b64_decode tok = Some (u @ CHR '':'' # p) \<and>
    CHR '':'' \<notin> set u \<and> host = (case ep of None \<Rightarrow> [] | Some x \<Rightarrow> strip_scheme x)"
proof -
  have cut: "x = u @ CHR '':'' # p \<and> CHR '':'' \<notin> set u" if "cut_colon x = Some (u, p)" for x
  proof -
    have "CHR '':'' \<in> set x" using that by (simp add: cut_colon_def split: if_splits)
    then obtain ys zs where x: "x = ys @ CHR '':'' # zs" "CHR '':'' \<notin> set ys" using split_list_first by fast
    then show ?thesis using that cut_colon_at [OF x(2), of zs] by simp
  qed
  obtain tok ep d where t: "region \<noteq> []" "api region ak sk st = Inr (Some tok, ep)" "b64_decode tok = Some d" "cut_colon d = Some (u, p)"
      "host = (case ep of None \<Rightarrow> [] | Some x \<Rightarrow> strip_scheme x)"
    using assms by (auto simp: ecr_auth_token_def split: if_splits sum.splits option.splits)
  with cut [OF t(4)] show ?thesis by blast
qed


definition demo_ecr_config :: json where
  "demo_ecr_config = JObject [(''region'', JString ''r''), (''access_key'', JString ''k''), (''secret_key'', JString ''s'')]"

definition demo_ecr_api :: ecr_api where
  "demo_ecr_api region ak sk st = (if (region, ak, sk, st) = (''r'', ''k'', ''s'', [])
     then Inr (Some (b64_encode ''AWS:pw''), Some ''https://h'') else Inl ErrIO)"

definition demo_registry :: shared_resource where
  "demo_registry = account_row\<lparr>sr_type := resource_registry, sr_provider := ''ecr'', sr_config := Some demo_ecr_config\<rparr>"

lemma demo_ecr: "cut_colon ''AWS:pw'' = Some (''AWS'', ''pw'')" "strip_scheme ''https://h'' = ''h''"
  "docker_auth demo_ecr_api ''ecr'' (Some demo_ecr_config) = Inr (''h'', ''AWS'', ''pw'')"
proof -
  show c: "cut_colon ''AWS:pw'' = Some (''AWS'', ''pw'')" by (simp add: cut_colon_def)
  show h: "strip_scheme ''https://h'' = ''h''" by code_simp
  have "ecr_auth_token demo_ecr_api ''r'' ''k'' ''s'' [] = Inr (''h'', ''AWS'', ''pw'')"
    by (simp add: ecr_auth_token_def demo_ecr_api_def b64_roundtrip c h del: b64_encode.simps)
  then show "docker_auth demo_ecr_api ''ecr'' (Some demo_ecr_config) = Inr (''h'', ''AWS'', ''pw'')"
    by (simp add: docker_auth_def demo_ecr_config_def fields_ok_def equal_fold_def to_lower_def lower_char_def is_upper_char_def char_in_def)
qed


end
