(* ===== verification/App_Service.thy ===== *)
theory App_Service imports Registry_Auth Domain_Service Deploy_Job Database_Service begin

text \<open>
  Applications (\<open>service/app_service.go\<close>): creation, settings, scaling, environment, secrets, webhooks, start and stop.
  The record \<open>app_cluster\<close> is what the application's deploy target answers: the errors of resolving it and its secrets and
  build capabilities, the phase of the application, the volumes after a deploy, the kind and capabilities; \<open>ac_quantity\<close> is the value of a
  Kubernetes quantity in nano units, as \<open>resource.ParseQuantity\<close> reads it.  What changes
  the cluster is a recorded call that may fail.
\<close>

record app_cluster =
  ac_target :: "application \<Rightarrow> go_error option"
  ac_secrets :: "application \<Rightarrow> go_error option"
  ac_builder :: "application \<Rightarrow> go_error option"
  ac_phase :: "application \<Rightarrow> go_error + string"
  ac_volumes :: "application \<Rightarrow> volume_mount list"
  ac_caps :: "application \<Rightarrow> uuid \<times> string \<times> string list"
  ac_quantity :: "string \<Rightarrow> int option"

section \<open>Creation\<close>

definition image_ports :: "(string list \<times> int) list" where
  "image_ports = [([''nginx'', ''httpd'', ''apache''], 80), ([''node'', ''next'', ''nuxt''], 3000), ([''rails'', ''puma''], 3000),
     ([''django'', ''flask'', ''uvicorn''], 8000), ([''spring'', ''tomcat''], 8080), ([''go'', ''gin'', ''fiber''], 8080),
     ([''postgres''], 5432), ([''mysql'', ''mariadb''], 3306), ([''redis'', ''valkey''], 6379), ([''mongo''], 27017)]"

definition guess_container_port :: "string \<Rightarrow> int" where
  "guess_container_port im = (let img = to_lower im in
     case find (\<lambda>(ws, _). list_ex (contains img) ws) image_ports of None \<Rightarrow> 80 | Some (_, p) \<Rightarrow> p)"

record create_app_input =
  cai_project :: uuid
  cai_name :: string
  cai_critical :: bool
  cai_source :: source_type
  cai_git_repo :: string
  cai_git_branch :: string
  cai_git_provider :: "uuid option"
  cai_registry :: "uuid option"
  cai_image :: string
  cai_build_type :: string
  cai_dockerfile :: string
  cai_replicas :: int
  cai_cpu :: string
  cai_mem :: string
  cai_env :: str_map
  cai_ports :: "port_mapping list"

definition no_health :: health_check where
  "no_health = \<lparr>hc_path = [], hc_port = 0, hc_initial_delay = 0, hc_period = 0, hc_timeout = 0, hc_failures = 0, hc_type = [], hc_command = []\<rparr>"

definition no_autoscaling :: autoscaling where
  "no_autoscaling = \<lparr>as_enabled = False, as_min = 0, as_max = 0, as_cpu = 0, as_mem = 0\<rparr>"

definition new_app :: "create_app_input \<Rightarrow> project \<Rightarrow> application" where
  "new_app inp p = \<lparr>bm_id = uuid_nil, bm_created = 0, bm_updated = 0, bm_deleted = None, a_project = cai_project inp,
     a_name = cai_name inp, a_description = [], a_critical = cai_critical inp, a_source = cai_source inp, a_git_repo = cai_git_repo inp,
     a_git_branch = or_default ''main'' (cai_git_branch inp), a_git_provider = cai_git_provider inp, a_registry = cai_registry inp,
     a_image = cai_image inp, a_compose = [],
     a_build_type = (if cai_build_type inp = [] \<and> cai_source inp = SourceGit then ''dockerfile'' else cai_build_type inp),
     a_dockerfile = or_default ''Dockerfile'' (cai_dockerfile inp), a_build_context = [], a_watch_paths = [], a_build_args = Map.empty,
     a_no_cache = False, a_replicas = (if cai_replicas inp = 0 then 1 else cai_replicas inp),
     a_cpu_limit = or_default ''500m'' (cai_cpu inp), a_mem_limit = or_default ''512Mi'' (cai_mem inp), a_env = cai_env inp,
     a_secrets = Map.empty,
     a_ports = (if cai_ports inp = [] then (let port = guess_container_port (cai_image inp) in
         [\<lparr>pm_container = port, pm_service = port, pm_protocol = ''tcp''\<rparr>]) else cai_ports inp),
     a_health = no_health, a_autoscaling = no_autoscaling, a_cpu_request = [], a_mem_request = [], a_volumes = [], a_strategy = [],
     a_strategy_config = \<lparr>sc_max_surge = [], sc_max_unavailable = []\<rparr>, a_grace = 0, a_node_pool = [], a_build_env = Map.empty,
     a_target = None, a_provider = [], a_region = [], a_namespace = p_namespace p, a_k8s_name = sanitize_k8s_name (cai_name inp),
     a_status = AppIdle, a_webhook_secret = [], a_auto_deploy = False\<rparr>"

definition app_name_free :: "uuid \<Rightarrow> string \<Rightarrow> unit io" where
  "app_name_free p n =
     seq (name_free (applications_exists_by_k8s_name p n) (''an application with K8s name '' @ quoted n @ '' already exists''))
       (name_free (managed_dbs_exists_by_k8s_name p n) (''a database with K8s name '' @ quoted n @ '' already exists '' @ em_dash @
          '' app and database names must not collide''))"

definition check_git_provider :: "uuid \<Rightarrow> uuid option \<Rightarrow> unit io" where
  "check_git_provider og i = when_some i (\<lambda>x. handle (resources_get_by_id x) (\<lambda>e. err (ErrWrap ''git provider not found'' e)) (\<lambda>r.
     if sr_org r \<noteq> og then err (ErrMsg ''git provider does not belong to this organization'') else ret ()))"

definition registry_usable :: "uuid option \<Rightarrow> shared_resource \<Rightarrow> unit io" where
  "registry_usable og r =
     (if (case og of None \<Rightarrow> False | Some o' \<Rightarrow> sr_org r \<noteq> o') then err (ErrMsg ''registry does not belong to this organization'')
      else if sr_type r \<noteq> resource_registry then err (ErrMsg ''resource is not a registry'')
      else ret ())"

definition registry_row :: "uuid \<Rightarrow> shared_resource io" where
  "registry_row x = handle (resources_get_by_id x) (\<lambda>e. err (ErrWrap ''registry not found'' e)) ret"

definition check_registry :: "uuid \<Rightarrow> uuid option \<Rightarrow> unit io" where
  "check_registry og i = when_some i (\<lambda>x. bind (registry_row x) (registry_usable (Some og)))"

definition app_create :: "ingress_binder \<Rightarrow> create_app_input \<Rightarrow> application io" where
  "app_create B inp = bind (project_found (cai_project inp)) (\<lambda>p.
     if p_namespace p = [] then err (ErrMsg ''project has no namespace configured'')
     else let a = new_app inp p in
       seq (app_name_free (cai_project inp) (a_k8s_name a))
       (seq (check_git_provider (p_org p) (a_git_provider a))
       (seq (check_registry (p_org p) (a_registry a))
         (bind (applications_create a) (\<lambda>a'. seq (attempt (generate_traefik_domain B (bm_id a'))) (ret a'))))))"

section \<open>Settings\<close>

record update_app_input =
  uai_critical :: "bool option"
  uai_git_repo :: "string option"
  uai_git_branch :: "string option"
  uai_image :: "string option"
  uai_registry :: "uuid option"
  uai_build_type :: "string option"
  uai_dockerfile :: "string option"
  uai_build_context :: "string option"
  uai_build_args :: "str_map option"
  uai_build_env :: "str_map option"
  uai_watch_paths :: "string list option"
  uai_no_cache :: "bool option"
  uai_cpu_limit :: "string option"
  uai_mem_limit :: "string option"
  uai_cpu_request :: "string option"
  uai_mem_request :: "string option"
  uai_ports :: "port_mapping list option"
  uai_node_pool :: "string option"
  uai_health :: "health_check option"
  uai_autoscaling :: "autoscaling option"
  uai_volumes :: "volume_mount list option"
  uai_strategy :: "string option"
  uai_strategy_config :: "strategy_config option"
  uai_grace :: "int option"

definition cleared :: "string option \<Rightarrow> bool" where
  "cleared x \<longleftrightarrow> (case x of None \<Rightarrow> False | Some s \<Rightarrow> trim_space s = [])"

definition source_error :: "update_app_input \<Rightarrow> application \<Rightarrow> string option" where
  "source_error inp a =
     (if a_source a = SourceGit \<and> cleared (uai_git_repo inp) then Some ''git repo cannot be empty for git-based apps''
      else if cleared (uai_git_branch inp) then Some ''git branch cannot be empty''
      else if a_source a = SourceImage \<and> cleared (uai_image inp) then Some ''docker image cannot be empty for image-based apps''
      else None)"

definition with_source :: "update_app_input \<Rightarrow> application \<Rightarrow> application" where
  "with_source inp a = patched (uai_image inp) (\<lambda>x r. r\<lparr>a_image := x\<rparr>) (patched (uai_git_branch inp) (\<lambda>x r. r\<lparr>a_git_branch := x\<rparr>)
     (patched (uai_git_repo inp) (\<lambda>x r. r\<lparr>a_git_repo := x\<rparr>) (patched (uai_critical inp) (\<lambda>x r. r\<lparr>a_critical := x\<rparr>) a)))"

text \<open>The nil UUID clears the registry; the organisation is compared only when the project can be read.\<close>

definition registry_of :: "application \<Rightarrow> uuid \<Rightarrow> uuid option io" where
  "registry_of a x = (if x = uuid_nil then ret None
     else bind (registry_row x) (\<lambda>r.
       bind (handle (projects_get_by_id (a_project a)) (\<lambda>_. ret None) (\<lambda>p. ret (Some (p_org p)))) (\<lambda>og.
         seq (registry_usable og r) (ret (Some x)))))"

definition with_registry :: "update_app_input \<Rightarrow> application \<Rightarrow> application io" where
  "with_registry inp a = (case uai_registry inp of None \<Rightarrow> ret a | Some x \<Rightarrow> bind (registry_of a x) (\<lambda>i. ret (a\<lparr>a_registry := i\<rparr>)))"

definition with_build :: "update_app_input \<Rightarrow> application \<Rightarrow> application" where
  "with_build inp a = patched (uai_no_cache inp) (\<lambda>x r. r\<lparr>a_no_cache := x\<rparr>) (patched (uai_watch_paths inp) (\<lambda>x r. r\<lparr>a_watch_paths := x\<rparr>)
     (patched (uai_build_env inp) (\<lambda>x r. r\<lparr>a_build_env := x\<rparr>) (patched (uai_build_args inp) (\<lambda>x r. r\<lparr>a_build_args := x\<rparr>)
     (patched (uai_build_context inp) (\<lambda>x r. r\<lparr>a_build_context := x\<rparr>) (patched (uai_dockerfile inp) (\<lambda>x r. r\<lparr>a_dockerfile := x\<rparr>)
     (patched (uai_build_type inp) (\<lambda>x r. r\<lparr>a_build_type := x\<rparr>) a))))))"

definition with_runtime :: "update_app_input \<Rightarrow> application \<Rightarrow> application" where
  "with_runtime inp a = patched (uai_grace inp) (\<lambda>x r. r\<lparr>a_grace := x\<rparr>) (patched (uai_strategy_config inp) (\<lambda>x r. r\<lparr>a_strategy_config := x\<rparr>)
     (patched (uai_strategy inp) (\<lambda>x r. r\<lparr>a_strategy := x\<rparr>) (patched (uai_volumes inp) (\<lambda>x r. r\<lparr>a_volumes := x\<rparr>)
     (patched (uai_autoscaling inp) (\<lambda>x r. r\<lparr>a_autoscaling := x\<rparr>) (patched (uai_health inp) (\<lambda>x r. r\<lparr>a_health := x\<rparr>)
     (patched (uai_node_pool inp) (\<lambda>x r. r\<lparr>a_node_pool := x\<rparr>) (patched (uai_ports inp) (\<lambda>x r. r\<lparr>a_ports := x\<rparr>)
     (patched (uai_mem_request inp) (\<lambda>x r. r\<lparr>a_mem_request := x\<rparr>) (patched (uai_cpu_request inp) (\<lambda>x r. r\<lparr>a_cpu_request := x\<rparr>)
     (patched (uai_mem_limit inp) (\<lambda>x r. r\<lparr>a_mem_limit := x\<rparr>) (patched (uai_cpu_limit inp) (\<lambda>x r. r\<lparr>a_cpu_limit := x\<rparr>) a)))))))))))"

definition runtime_changed :: "update_app_input \<Rightarrow> bool" where
  "runtime_changed inp \<longleftrightarrow> uai_registry inp \<noteq> None \<or> uai_cpu_limit inp \<noteq> None \<or> uai_mem_limit inp \<noteq> None \<or> uai_cpu_request inp \<noteq> None \<or>
     uai_mem_request inp \<noteq> None \<or> uai_ports inp \<noteq> None \<or> uai_node_pool inp \<noteq> None \<or> uai_health inp \<noteq> None \<or> uai_volumes inp \<noteq> None \<or>
     uai_strategy inp \<noteq> None \<or> uai_strategy_config inp \<noteq> None \<or> uai_grace inp \<noteq> None"

subsection \<open>Validation\<close>

definition port_ok :: "int \<Rightarrow> bool" where
  "port_ok p \<longleftrightarrow> 0 < p \<and> p \<le> 65535"

definition health_error :: "health_check \<Rightarrow> string option" where
  "health_error h =
     (if hc_type h = [] then None
      else if hc_type h = ''http'' then
        (if hc_path h = [] then Some ''health check path is required for HTTP probe''
         else if \<not> port_ok (hc_port h) then Some ''health check port must be between 1 and 65535'' else None)
      else if hc_type h = ''tcp'' then (if \<not> port_ok (hc_port h) then Some ''health check port must be between 1 and 65535'' else None)
      else if hc_type h = ''exec'' then (if hc_command h = [] then Some ''health check command is required for exec probe'' else None)
      else Some (''invalid health check type: '' @ hc_type h))"

definition port_error :: "port_mapping \<Rightarrow> string option" where
  "port_error p =
     (if \<not> port_ok (pm_container p) then Some ''container port must be between 1 and 65535''
      else if pm_protocol p \<noteq> [] \<and> pm_protocol p \<noteq> ''tcp'' \<and> pm_protocol p \<noteq> ''udp'' then Some ''port protocol must be tcp or udp''
      else None)"

fun first_of :: "('a \<Rightarrow> string option) \<Rightarrow> 'a list \<Rightarrow> string option" where
  "first_of f [] = None"
| "first_of f (x # xs) = (case f x of Some e \<Rightarrow> Some e | None \<Rightarrow> first_of f xs)"

definition or_else :: "string option \<Rightarrow> string option \<Rightarrow> string option" where
  "or_else x y = (case x of None \<Rightarrow> y | Some e \<Rightarrow> Some e)"

definition quantity_error :: "app_cluster \<Rightarrow> string \<times> string \<Rightarrow> string option" where
  "quantity_error Q nv = (if snd nv \<noteq> [] \<and> ac_quantity Q (snd nv) = None then Some (''invalid '' @ fst nv @ '' '' @ quoted (snd nv)) else None)"

text \<open>What is checked before the deploy target's record may be needed, in the order of the code.\<close>

definition early_error :: "app_cluster \<Rightarrow> application \<Rightarrow> string option" where
  "early_error Q a =
     or_else (health_error (a_health a))
     (or_else (if a_grace a < 0 then Some ''termination grace period cannot be negative'' else None)
     (or_else (first_of port_error (a_ports a))
       (first_of (quantity_error Q) [(''cpu_limit'', a_cpu_limit a), (''mem_limit'', a_mem_limit a),
          (''cpu_request'', a_cpu_request a), (''mem_request'', a_mem_request a)])))"

fun volumes_error :: "app_cluster \<Rightarrow> string list \<Rightarrow> string set \<Rightarrow> string set \<Rightarrow> volume_mount list \<Rightarrow> string option" where
  "volumes_error Q allowed names paths [] = None"
| "volumes_error Q allowed names paths (v # vs) =
     (if vm_name v = [] then Some ''volume name cannot be empty''
      else if vm_name v \<in> names then Some (''duplicate volume name: '' @ vm_name v)
      else if vm_path v = [] then Some ''volume mount path cannot be empty''
      else if \<not> has_prefix (vm_path v) ''/'' then Some (''volume mount path must be absolute (start with /): '' @ vm_path v)
      else if vm_path v \<in> paths then Some (''duplicate volume mount path: '' @ vm_path v)
      else if vm_size v \<noteq> [] \<and> ac_quantity Q (vm_size v) = None then
        Some (''invalid volume size '' @ quoted (vm_size v) @ '' for '' @ vm_name v)
      else if vm_class v \<noteq> [] \<and> allowed \<noteq> [] \<and> vm_class v \<notin> set allowed then
        Some (''storage class '' @ quoted (vm_class v) @ '' not allowed for this target'')
      else volumes_error Q allowed (insert (vm_name v) names) (insert (vm_path v) paths) vs)"

text \<open>\<open>req.Cmp(lim) > 0\<close>; both were parsed before, so neither is missing.\<close>

definition exceeds :: "app_cluster \<Rightarrow> string \<Rightarrow> string \<Rightarrow> bool" where
  "exceeds Q req lim \<longleftrightarrow> req \<noteq> [] \<and> lim \<noteq> [] \<and>
     (case ac_quantity Q req of None \<Rightarrow> 0 | Some r \<Rightarrow> r) > (case ac_quantity Q lim of None \<Rightarrow> 0 | Some l \<Rightarrow> l)"

definition autoscaling_error :: "autoscaling \<Rightarrow> string option" where
  "autoscaling_error s =
     (if \<not> as_enabled s then None
      else if as_min s \<le> 0 then Some ''HPA min replicas must be at least 1''
      else if as_max s < as_min s then Some ''HPA max replicas must be >= min replicas''
      else if as_cpu s \<le> 0 \<and> as_mem s \<le> 0 then Some ''HPA requires at least one metric target (CPU or memory)''
      else None)"

definition late_error :: "app_cluster \<Rightarrow> string list \<Rightarrow> application \<Rightarrow> string option" where
  "late_error Q allowed a =
     or_else (volumes_error Q allowed {} {} (a_volumes a))
     (or_else (if exceeds Q (a_cpu_request a) (a_cpu_limit a)
        then Some (''cpu_request ('' @ a_cpu_request a @ '') cannot exceed cpu_limit ('' @ a_cpu_limit a @ '')'') else None)
     (or_else (if exceeds Q (a_mem_request a) (a_mem_limit a)
        then Some (''mem_request ('' @ a_mem_request a @ '') cannot exceed mem_limit ('' @ a_mem_limit a @ '')'') else None)
     (or_else (autoscaling_error (a_autoscaling a))
       (if a_strategy a \<noteq> [] \<and> a_strategy a \<noteq> ''rolling'' \<and> a_strategy a \<noteq> ''recreate''
        then Some (''deploy strategy must be '' @ single_quoted ''rolling'' @ '' or '' @ single_quoted ''recreate'') else None))))"

definition raise_some :: "string option \<Rightarrow> unit io" where
  "raise_some e = (case e of None \<Rightarrow> ret () | Some m \<Rightarrow> err (ErrMsg m))"

definition deploy_target_record :: "application \<Rightarrow> deploy_target io" where
  "deploy_target_record a = (case a_target a of None \<Rightarrow> deploy_targets_get_default | Some i \<Rightarrow> deploy_targets_get_by_id i)"

definition allowed_classes :: "application \<Rightarrow> string list io" where
  "allowed_classes a =
     (if list_ex (\<lambda>v. vm_class v \<noteq> []) (a_volumes a)
      then handle (deploy_target_record a) (\<lambda>e. err (ErrWrap ''deploy target'' e)) (\<lambda>t. ret (dt_allowed_classes t))
      else ret [])"

definition validate_app :: "app_cluster \<Rightarrow> application \<Rightarrow> unit io" where
  "validate_app Q a = seq (raise_some (early_error Q a)) (bind (allowed_classes a) (\<lambda>cs. raise_some (late_error Q cs a)))"

subsection \<open>Applying a change\<close>

definition roll_back :: "application option \<Rightarrow> string \<Rightarrow> go_error \<Rightarrow> 'a io" where
  "roll_back old why e = seq (case old of None \<Rightarrow> ret () | Some o' \<Rightarrow> attempt (applications_update_row o'))
     (err (ErrWrap (why @ '' (settings rolled back, redeploy to reconcile)'') e))"

definition apply_autoscaling :: "application \<Rightarrow> autoscaling option \<Rightarrow> application option \<Rightarrow> unit io" where
  "apply_autoscaling a s old = when_some s (\<lambda>x.
     if as_enabled x then handle (cluster (CallConfigureHPA (bm_id a))) (roll_back old ''failed to apply HPA'') ret
     else handle (cluster (CallApp ''delete hpa'' (bm_id a))) (roll_back old ''failed to remove HPA'') ret)"

definition try_project :: "uuid \<Rightarrow> project option io" where
  "try_project i = handle (projects_get_by_id i) (\<lambda>_. ret None) (\<lambda>p. ret (Some p))"

definition redeploy :: "libs \<Rightarrow> resource_cloud \<Rightarrow> ecr_api \<Rightarrow> app_cluster \<Rightarrow> application \<Rightarrow> application option \<Rightarrow> application io" where
  "redeploy L C api Q a old = bind (try_project (a_project a)) (\<lambda>p.
     handle (docker_config_for_app L C api a) (roll_back old ''failed to resolve registry credentials'') (\<lambda>_.
       handle (cluster (CallDeploy (bm_id a) (a_image a) (merged_env p a))) (roll_back old ''failed to apply deployment changes'') (\<lambda>_.
         let a' = a\<lparr>a_volumes := ac_volumes Q a\<rparr> in seq (attempt (applications_update_row a')) (ret a'))))"

definition apply_change :: "libs \<Rightarrow> resource_cloud \<Rightarrow> ecr_api \<Rightarrow> app_cluster \<Rightarrow> update_app_input \<Rightarrow> application \<Rightarrow> application option \<Rightarrow>
    application io" where
  "apply_change L C api Q inp a old =
     (let live_change = runtime_changed inp \<and> a_status a = AppRunning in
      if uai_autoscaling inp \<noteq> None \<or> live_change then
        (case ac_target Q a of
           Some e \<Rightarrow> roll_back old ''failed to resolve deploy target'' e
         | None \<Rightarrow> seq (apply_autoscaling a (uai_autoscaling inp) old)
             (if live_change then redeploy L C api Q a old else ret a))
      else ret a)"

definition app_update :: "libs \<Rightarrow> resource_cloud \<Rightarrow> ecr_api \<Rightarrow> app_cluster \<Rightarrow> uuid \<Rightarrow> update_app_input \<Rightarrow> application io" where
  "app_update L C api Q i inp = bind (applications_get_by_id i) (\<lambda>a0.
     seq (raise_some (source_error inp a0))
     (bind (with_registry inp (with_source inp a0)) (\<lambda>a1.
       let a = with_runtime inp (with_build inp a1) in
       seq (validate_app Q a)
       (bind (try_app (bm_id a)) (\<lambda>old.
         seq (applications_update_row a) (apply_change L C api Q inp a old))))))"

section \<open>Lists and status\<close>

text \<open>The status write of the listing runs in a goroutine of its own: here, at once, and its error is dropped.\<close>

definition live_app_status :: "string \<Rightarrow> app_status option" where
  "live_app_status ph =
     (if ph = ''running'' then Some AppRunning else if ph = ''pending'' then Some AppDeploying else if ph = ''stopped'' then Some AppStopped
      else if ph = ''failed'' then Some AppError else if ph = ''partial'' then Some AppPartial else None)"

definition sync_app_status :: "app_cluster \<Rightarrow> application \<Rightarrow> application io" where
  "sync_app_status Q a =
     (if a_status a = AppIdle \<or> a_status a = AppBuilding \<or> ac_target Q a \<noteq> None then ret a
      else (case ac_phase Q a of
          Inl _ \<Rightarrow> ret a
        | Inr ph \<Rightarrow> (case live_app_status ph of
            None \<Rightarrow> ret a
          | Some s \<Rightarrow> if s \<noteq> a_status a then seq (attempt (applications_update_status (bm_id a) s)) (ret (a\<lparr>a_status := s\<rparr>)) else ret a)))"

definition app_list :: "app_cluster \<Rightarrow> uuid \<Rightarrow> list_params \<Rightarrow> (application list \<times> nat) io" where
  "app_list Q p q = bind (applications_list_by_project p q) (\<lambda>(as, n). bind (map_io (sync_app_status Q) as) (\<lambda>as. ret (as, n)))"

definition app_list_all :: "app_cluster \<Rightarrow> list_params \<Rightarrow> list_filter \<Rightarrow> (application list \<times> nat) io" where
  "app_list_all Q q f = bind (applications_list_all q f) (\<lambda>(as, n). bind (map_io (sync_app_status Q) as) (\<lambda>as. ret (as, n)))"

definition on_target :: "app_cluster \<Rightarrow> application \<Rightarrow> 'a io \<Rightarrow> 'a io" where
  "on_target Q a k = (case ac_target Q a of Some e \<Rightarrow> err e | None \<Rightarrow> k)"

definition reconciled_app_status :: "string \<Rightarrow> app_status option" where
  "reconciled_app_status ph =
     (if ph = ''running'' then Some AppRunning else if ph = ''stopped'' then Some AppStopped
      else if ph = ''failed'' then Some AppError else if ph = ''not deployed'' then Some AppStopped else None)"

definition app_get_status :: "app_cluster \<Rightarrow> uuid \<Rightarrow> string io" where
  "app_get_status Q i = bind (applications_get_by_id i) (\<lambda>a. on_target Q a (case ac_phase Q a of
       Inl e \<Rightarrow> err e
     | Inr ph \<Rightarrow> (case reconciled_app_status ph of
         Some s \<Rightarrow> seq (if s \<noteq> a_status a then attempt (applications_update_status i s) else ret ()) (ret ph)
       | None \<Rightarrow> ret ph)))"

section \<open>Deletion and scaling\<close>

definition app_delete :: "app_cluster \<Rightarrow> ingress_binder \<Rightarrow> uuid \<Rightarrow> unit io" where
  "app_delete Q B i = bind (applications_get_by_id i) (\<lambda>a.
     seq (case ac_target Q a of Some _ \<Rightarrow> ret () | None \<Rightarrow> attempt (cluster (CallApp ''delete'' i)))
     (bind (handle (domains_list_by_app i) (\<lambda>_. ret []) ret) (\<lambda>ds.
       seq (case ib_target B a of Some _ \<Rightarrow> ret () | None \<Rightarrow> for_each (\<lambda>d. attempt (cluster (DeleteIngress (dom_host d)))) ds)
       (seq (applications_delete i)
         (notify_project_resource_deleted (a_project a) ''app_deleted'' (a_name a)
           (''Application '' @ quoted (a_name a) @ '' was deleted''))))))"

definition app_scale :: "app_cluster \<Rightarrow> uuid \<Rightarrow> int \<Rightarrow> application io" where
  "app_scale Q i n = bind (applications_get_by_id i) (\<lambda>a.
     if as_enabled (a_autoscaling a) then err (ErrMsg (''manual scaling is disabled while autoscaling (HPA) is active '' @ em_dash @ '' disable HPA first''))
     else if n < 0 \<or> 100 < n then err (ErrMsg ''replicas must be between 0 and 100'')
     else on_target Q a (seq (cluster (CallApp ''scale'' i))
       (let a' = a\<lparr>a_replicas := n\<rparr> in seq (applications_update_row a') (ret a'))))"

definition app_update_env :: "app_cluster \<Rightarrow> uuid \<Rightarrow> str_map \<Rightarrow> application io" where
  "app_update_env Q i env = bind (applications_get_by_id i) (\<lambda>a0. let a = a0\<lparr>a_env := env\<rparr> in
     seq (applications_update_row a)
     (if a_status a = AppIdle \<or> a_status a = AppStopped \<or> a_status a = AppBuilding then ret a
      else bind (try_project (a_project a)) (\<lambda>p.
        let saved = ''environment saved, but failed to apply to running deployment'' in
        case ac_target Q a of
          Some e \<Rightarrow> err (ErrWrap saved e)
        | None \<Rightarrow> handle (cluster (PushEnv i (merged_env p a))) (\<lambda>e. err (ErrWrap saved e)) (\<lambda>_. ret a))))"

section \<open>Restart and stop\<close>

definition restartable :: "app_status \<Rightarrow> bool" where
  "restartable s \<longleftrightarrow> s = AppRunning \<or> s = AppPartial \<or> s = AppError"

definition mark_app :: "uuid \<Rightarrow> app_status \<Rightarrow> unit io" where
  "mark_app i s = attempt (applications_update_status i s)"

definition failing_app :: "uuid \<Rightarrow> go_error \<Rightarrow> 'a io" where
  "failing_app i e = seq (mark_app i AppError) (err e)"

definition app_restart :: "app_cluster \<Rightarrow> uuid \<Rightarrow> unit io" where
  "app_restart Q i = bind (applications_get_by_id i) (\<lambda>a.
     if \<not> restartable (a_status a) then err (ErrMsg (''cannot restart app in '' @ app_status_text (a_status a) @ '' state''))
     else seq (mark_app i AppRestarting)
       (case ac_target Q a of Some e \<Rightarrow> failing_app i e
        | None \<Rightarrow> handle (cluster (CallApp ''restart'' i)) (failing_app i) ret))"

definition suspend_hpa :: "app_cluster \<Rightarrow> application \<Rightarrow> unit io" where
  "suspend_hpa Q a =
     (if as_enabled (a_autoscaling a)
      then (case ac_target Q a of
          Some e \<Rightarrow> err (ErrWrap ''cannot stop: failed to resolve deploy target'' e)
        | None \<Rightarrow> handle (cluster (CallApp ''delete hpa'' (bm_id a)))
            (\<lambda>e. err (ErrWrap ''cannot stop: failed to remove HPA (app would be scaled back up)'' e)) ret)
      else ret ())"

definition app_stop :: "app_cluster \<Rightarrow> uuid \<Rightarrow> unit io" where
  "app_stop Q i = bind (applications_get_by_id i) (\<lambda>a.
     if \<not> restartable (a_status a) then err (ErrMsg (''cannot stop app in '' @ app_status_text (a_status a) @ '' state''))
     else seq (suspend_hpa Q a) (seq (mark_app i AppStopping)
       (case ac_target Q a of Some e \<Rightarrow> failing_app i e
        | None \<Rightarrow> handle (cluster (CallApp ''stop'' i)) (failing_app i) (\<lambda>_. applications_update_status i AppStopped))))"

definition app_clear_cache :: "app_cluster \<Rightarrow> uuid \<Rightarrow> unit io" where
  "app_clear_cache Q i = bind (applications_get_by_id i) (\<lambda>a.
     case ac_builder Q a of Some e \<Rightarrow> err e | None \<Rightarrow> cluster (CallApp ''clear cache'' i))"

section \<open>Webhooks\<close>

record webhook_config =
  wc_url :: string
  wc_secret :: string
  wc_auto :: bool

definition random_hex :: "nat \<Rightarrow> string io" where
  "random_hex n = bind (rand_bytes n) (\<lambda>bs. ret (hex_encode bs))"

definition webhook_url :: "libs \<Rightarrow> string \<Rightarrow> application \<Rightarrow> string" where
  "webhook_url L base a = base @ ''/api/v1/webhooks/'' @ (if contains (a_git_repo a) ''gitlab'' then ''gitlab'' else ''github'') @
     ''/'' @ uuid_str L (bm_id a)"

definition app_enable_webhook :: "libs \<Rightarrow> uuid \<Rightarrow> string \<Rightarrow> webhook_config io" where
  "app_enable_webhook L i base = bind (applications_get_by_id i) (\<lambda>a. bind (random_hex 16) (\<lambda>h.
     let secret = ''whsec_'' @ h; a' = a\<lparr>a_webhook_secret := secret, a_auto_deploy := True\<rparr> in
     seq (applications_update_row a') (ret \<lparr>wc_url = webhook_url L base a', wc_secret = secret, wc_auto = True\<rparr>)))"

definition app_disable_webhook :: "uuid \<Rightarrow> unit io" where
  "app_disable_webhook i = bind (applications_get_by_id i) (\<lambda>a. applications_update_row (a\<lparr>a_auto_deploy := False\<rparr>))"

definition app_regenerate_webhook :: "libs \<Rightarrow> uuid \<Rightarrow> string \<Rightarrow> webhook_config io" where
  "app_regenerate_webhook L i base = app_enable_webhook L i base"

definition app_webhook_config :: "libs \<Rightarrow> uuid \<Rightarrow> string \<Rightarrow> webhook_config io" where
  "app_webhook_config L i base = bind (applications_get_by_id i) (\<lambda>a.
     ret \<lparr>wc_url = webhook_url L base a, wc_secret = a_webhook_secret a, wc_auto = a_auto_deploy a\<rparr>)"

section \<open>Secrets\<close>

text \<open>The keys come out of a Go map: a set, in no order.\<close>

definition app_secret_keys :: "uuid \<Rightarrow> string set io" where
  "app_secret_keys i = bind (applications_get_by_id i) (\<lambda>a. ret (dom (a_secrets a)))"

definition merge_secrets :: "str_map \<Rightarrow> str_map \<Rightarrow> str_map" where
  "merge_secrets old new = (\<lambda>k. case new k of None \<Rightarrow> old k | Some v \<Rightarrow> if v = [] then None else Some v)"

definition app_update_secrets :: "app_cluster \<Rightarrow> uuid \<Rightarrow> str_map \<Rightarrow> string set io" where
  "app_update_secrets Q i new = bind (applications_get_by_id i) (\<lambda>a0.
     let a = a0\<lparr>a_secrets := merge_secrets (a_secrets a0) new\<rparr>;
       undo = (\<lambda>e. seq (attempt (applications_update_row (a\<lparr>a_secrets := a_secrets a0\<rparr>)))
         (err (ErrWrap ''failed to apply secrets to cluster (rolled back)'' e))) in
     seq (applications_update_row a)
     (case ac_secrets Q a of
        Some e \<Rightarrow> undo e
      | None \<Rightarrow> handle (cluster (CallApp ''ensure secret'' i)) undo (\<lambda>_. ret (dom (a_secrets a)))))"

section \<open>Capabilities of the target\<close>

record target_caps =
  tc_target :: uuid
  tc_kind :: string
  tc_caps :: "string list"
  tc_class :: string
  tc_classes :: "string list"

definition app_target_caps :: "app_cluster \<Rightarrow> uuid \<Rightarrow> target_caps io" where
  "app_target_caps Q i = bind (applications_get_by_id i) (\<lambda>a. on_target Q a (case ac_caps Q a of (t, k, cs) \<Rightarrow>
     handle (deploy_target_record a) (\<lambda>e. err (ErrWrap ''deploy target'' e)) (\<lambda>r.
       ret \<lparr>tc_target = t, tc_kind = k, tc_caps = cs, tc_class = dt_storage_class r, tc_classes = dt_allowed_classes r\<rparr>)))"

end
