(* ===== verification/App_Rules.thy ===== *)
theory App_Rules imports App_Service Database_Backup begin

text \<open>
  What the application service guarantees: exactly which settings an update accepts; that an update or a change of
  secrets ends with the new row, or with the old one; and what a stop may leave.
\<close>

section \<open>Which settings are accepted\<close>

definition health_ok :: "health_check \<Rightarrow> bool" where
  "health_ok h \<longleftrightarrow> hc_type h = [] \<or> hc_type h = ''http'' \<and> hc_path h \<noteq> [] \<and> 1 \<le> hc_port h \<and> hc_port h \<le> 65535 \<or>
     hc_type h = ''tcp'' \<and> 1 \<le> hc_port h \<and> hc_port h \<le> 65535 \<or> hc_type h = ''exec'' \<and> hc_command h \<noteq> []"

definition mapping_ok :: "port_mapping \<Rightarrow> bool" where
  "mapping_ok p \<longleftrightarrow> 1 \<le> pm_container p \<and> pm_container p \<le> 65535 \<and> pm_protocol p \<in> {[], ''tcp'', ''udp''}"

definition quantity_ok :: "app_cluster \<Rightarrow> string \<Rightarrow> bool" where
  "quantity_ok Q s \<longleftrightarrow> s = [] \<or> ac_quantity Q s \<noteq> None"

definition within :: "app_cluster \<Rightarrow> string \<Rightarrow> string \<Rightarrow> bool" where
  "within Q req lim \<longleftrightarrow> req = [] \<or> lim = [] \<or> the (ac_quantity Q req) \<le> the (ac_quantity Q lim)"

definition volume_ok :: "app_cluster \<Rightarrow> string list \<Rightarrow> volume_mount \<Rightarrow> bool" where
  "volume_ok Q allowed v \<longleftrightarrow> vm_name v \<noteq> [] \<and> has_prefix (vm_path v) ''/'' \<and> quantity_ok Q (vm_size v) \<and>
     (vm_class v = [] \<or> allowed = [] \<or> vm_class v \<in> set allowed)"

definition volumes_ok :: "app_cluster \<Rightarrow> string list \<Rightarrow> volume_mount list \<Rightarrow> bool" where
  "volumes_ok Q allowed vs \<longleftrightarrow> distinct (map vm_name vs) \<and> distinct (map vm_path vs) \<and> (\<forall>v \<in> set vs. volume_ok Q allowed v)"

definition autoscaling_ok :: "autoscaling \<Rightarrow> bool" where
  "autoscaling_ok s \<longleftrightarrow> \<not> as_enabled s \<or> 1 \<le> as_min s \<and> as_min s \<le> as_max s \<and> (0 < as_cpu s \<or> 0 < as_mem s)"

definition settings_ok :: "app_cluster \<Rightarrow> string list \<Rightarrow> application \<Rightarrow> bool" where
  "settings_ok Q allowed a \<longleftrightarrow> health_ok (a_health a) \<and> 0 \<le> a_grace a \<and> (\<forall>p \<in> set (a_ports a). mapping_ok p) \<and>
     (\<forall>q \<in> {a_cpu_limit a, a_mem_limit a, a_cpu_request a, a_mem_request a}. quantity_ok Q q) \<and>
     volumes_ok Q allowed (a_volumes a) \<and> within Q (a_cpu_request a) (a_cpu_limit a) \<and> within Q (a_mem_request a) (a_mem_limit a) \<and>
     autoscaling_ok (a_autoscaling a) \<and> a_strategy a \<in> {[], ''rolling'', ''recreate''}"

lemma or_else_None: "or_else x y = None \<longleftrightarrow> x = None \<and> y = None"
  by (simp add: or_else_def split: option.splits)

lemma first_of_None: "first_of f xs = None \<longleftrightarrow> (\<forall>x \<in> set xs. f x = None)"
  by (induction xs) (auto split: option.splits)

lemma health_error_None: "health_error h = None \<longleftrightarrow> health_ok h"
  by (auto simp: health_error_def health_ok_def port_ok_def)

lemma port_error_None: "port_error p = None \<longleftrightarrow> mapping_ok p"
  by (auto simp: port_error_def mapping_ok_def port_ok_def)

lemma quantity_error_None: "quantity_error Q (n, v) = None \<longleftrightarrow> quantity_ok Q v"
  by (auto simp: quantity_error_def quantity_ok_def)

lemma autoscaling_error_None: "autoscaling_error s = None \<longleftrightarrow> autoscaling_ok s"
  by (auto simp: autoscaling_error_def autoscaling_ok_def)

lemma volumes_error_None:
  "volumes_error Q allowed ns ps vs = None \<longleftrightarrow> volumes_ok Q allowed vs \<and> vm_name ` set vs \<inter> ns = {} \<and> vm_path ` set vs \<inter> ps = {}"
proof (induction vs arbitrary: ns ps)
  case Nil then show ?case by (simp add: volumes_ok_def)
next
  case (Cons v vs)
  have p: "has_prefix (vm_path v) ''/'' \<Longrightarrow> vm_path v \<noteq> []" by (auto simp: has_prefix_def)
  show ?case
    by (auto simp: Cons.IH volumes_ok_def volume_ok_def quantity_ok_def dest: p)
qed

lemma exceeds_within: "quantity_ok Q req \<Longrightarrow> quantity_ok Q lim \<Longrightarrow> exceeds Q req lim \<longleftrightarrow> \<not> within Q req lim"
  by (auto simp: exceeds_def within_def quantity_ok_def split: option.splits)

lemma settings_checked: "early_error Q a = None \<and> late_error Q allowed a = None \<longleftrightarrow> settings_ok Q allowed a"
proof -
  have e: "early_error Q a = None \<longleftrightarrow> health_ok (a_health a) \<and> 0 \<le> a_grace a \<and> (\<forall>p \<in> set (a_ports a). mapping_ok p) \<and>
      (\<forall>q \<in> {a_cpu_limit a, a_mem_limit a, a_cpu_request a, a_mem_request a}. quantity_ok Q q)"
    by (simp add: early_error_def or_else_None first_of_None health_error_None port_error_None quantity_error_None not_less del: first_of.simps)
  have l: "late_error Q allowed a = None \<longleftrightarrow> volumes_ok Q allowed (a_volumes a) \<and> \<not> exceeds Q (a_cpu_request a) (a_cpu_limit a) \<and>
      \<not> exceeds Q (a_mem_request a) (a_mem_limit a) \<and> autoscaling_ok (a_autoscaling a) \<and> a_strategy a \<in> {[], ''rolling'', ''recreate''}"
    by (simp add: late_error_def or_else_None volumes_error_None autoscaling_error_None)
  show ?thesis unfolding e l settings_ok_def by (auto simp: exceeds_within)
qed

section \<open>An update, or nothing\<close>

text \<open>\<open>st c D\<close>: the database is \<open>D\<close>, and when \<open>c\<close> no statement will fail.\<close>

definition st :: "bool \<Rightarrow> database \<Rightarrow> world \<Rightarrow> bool" where
  "st c D w \<longleftrightarrow> db w = D \<and> (c \<longrightarrow> calm w)"

definition target_classes :: "database \<Rightarrow> application \<Rightarrow> string list" where
  "target_classes D a = (if list_ex (\<lambda>v. vm_class v \<noteq> []) (a_volumes a)
     then (case (case a_target a of None \<Rightarrow> find_live dt_default (deploy_targets D) | Some t \<Rightarrow> by_id t (deploy_targets D)) of
       None \<Rightarrow> [] | Some t \<Rightarrow> dt_allowed_classes t) else [])"

definition with_app :: "application \<Rightarrow> database \<Rightarrow> database" where
  "with_app a = applications_update (replace_pk a)"

definition new_settings :: "app_cluster \<Rightarrow> uuid \<Rightarrow> database \<Rightarrow> application \<Rightarrow> bool" where
  "new_settings Q i D a \<longleftrightarrow> bm_id a = i \<and> live a \<and> settings_ok Q (target_classes D a) a"

definition updated_or_not :: "app_cluster \<Rightarrow> uuid \<Rightarrow> bool \<Rightarrow> database \<Rightarrow> go_error + application \<Rightarrow> world \<Rightarrow> bool" where
  "updated_or_not Q i c D r w \<longleftrightarrow> (case r of
     Inl e \<Rightarrow> db w = D \<or> \<not> c \<and> (\<exists>a. new_settings Q i D a \<and> db w = with_app a D)
   | Inr a' \<Rightarrow> (\<exists>a. new_settings Q i D a \<and> (a' = a \<or> a' = a\<lparr>a_volumes := ac_volumes Q a\<rparr>) \<and> (db w = with_app a D \<or> db w = with_app a' D)))"

lemma st_reads: "reads m \<Longrightarrow> keeps calm m \<Longrightarrow> ensures (st c D) m (\<lambda>_. st c D)"
  by (simp add: ensures_def reads_def keeps_def st_def)

lemma st_read_then:
  assumes "reads m" "keeps calm m" "\<And>e. ensures (st c D) (h e) R" "\<And>x. ensures (st c D) (k x) R"
  shows "ensures (st c D) (handle m h k) R"
  by (rule ens_handle [OF st_reads [OF assms(1,2)]]) (rule assms(3,4))+

lemma st_err: "ensures (st c D) (err e) (updated_or_not Q i c D)"
  by (rule ens_err) (simp add: updated_or_not_def st_def)

lemma st_read_bind:
  assumes "reads m" "keeps calm m" "\<And>x. ensures (st c D) (k x) (updated_or_not Q i c D)"
  shows "ensures (st c D) (bind m k) (updated_or_not Q i c D)"
  unfolding bind_def by (rule st_read_then [OF assms(1,2) st_err assms(3)])

text \<open>A read whose result is known.\<close>

lemma st_query_row:
  assumes "\<And>x. f D = Some x \<Longrightarrow> ensures (st c D) (k x) R" "\<And>e. ensures (st c D) (h e) R"
  shows "ensures (st c D) (handle (query_row f) h k) R"
  using assms unfolding ensures_def
  by (auto simp: handle_def st_def query_row_def statement_def next_fault_def calm_def split: option.splits)

lemma raise_cases:
  assumes "x = None \<Longrightarrow> ensures (st c D) k (updated_or_not Q i c D)"
  shows "ensures (st c D) (seq (raise_some x) k) (updated_or_not Q i c D)"
  using assms st_err [of c D "ErrMsg (the x)" Q i] by (cases x) (simp_all add: raise_some_def seq_def bind_def ensures_def handle_def)

lemma ids_with_settings: "bm_id (with_source inp a) = bm_id a" "bm_deleted (with_source inp a) = bm_deleted a"
    "bm_id (with_build inp a) = bm_id a" "bm_deleted (with_build inp a) = bm_deleted a"
    "bm_id (with_runtime inp a) = bm_id a" "bm_deleted (with_runtime inp a) = bm_deleted a"
  by (simp_all add: with_source_def with_build_def with_runtime_def patched_def split: option.splits)

lemma reads_registry_of: "reads (registry_of a x)" "keeps calm (registry_of a x)"
  unfolding registry_of_def registry_row_def registry_usable_def resources_get_by_id_def projects_get_by_id_def attach_team_def
  by (intro reads_intros keeps_intros)+

lemma reads_docker_config: "reads (docker_config_for_app L C api a)" "keeps calm (docker_config_for_app L C api a)"
proof -
  have r: "reads (case x of Inl e \<Rightarrow> err e | Inr (h, u, p) \<Rightarrow> ret (build_docker_config h u p))"
    and k: "keeps calm (case x of Inl e \<Rightarrow> err e | Inr (h, u, p) \<Rightarrow> ret (build_docker_config h u p))"
    for x :: "go_error + string \<times> string \<times> string"
    by (cases x; auto simp: reads_def split: prod.splits)+
  show "reads (docker_config_for_app L C api a)"
    unfolding docker_config_for_app_def docker_config_json_def resources_get_by_id_def resolve_registry_config_def
    by (intro reads_intros r)
  show "keeps calm (docker_config_for_app L C api a)"
    unfolding docker_config_for_app_def docker_config_json_def resources_get_by_id_def resolve_registry_config_def
    by (intro keeps_intros k)
qed

lemma reads_try_project: "reads (try_project p)" "keeps calm (try_project p)"
  unfolding try_project_def projects_get_by_id_def attach_team_def by (intro reads_intros keeps_intros)+

subsection \<open>Applying the change\<close>

text \<open>After the row is written: \<open>old\<close> is the row before, when it could be read.\<close>

definition may_restore :: "bool \<Rightarrow> application option \<Rightarrow> application \<Rightarrow> bool" where
  "may_restore c old a0 \<longleftrightarrow> old = Some a0 \<or> \<not> c \<and> old = None"

lemma replace_back:
  assumes "distinct_ids t" "by_id (bm_id r) t = Some r0" "live r"
  shows "replace_pk r0 (replace_pk r t) = t"
proof -
  have k: "bm_id r0 = bm_id r" "live r0" "r0 \<in> set t" using find_live_iff [OF assms(2)] by simp_all
  have u: "x = r0" if "x \<in> set t" "live x" "bm_id x = bm_id r" for x
    using by_id_eqI [OF assms(1) that(1,2)] that(3) assms(2) by simp
  show ?thesis unfolding replace_pk_def update_live_def map_map comp_def
  proof (rule map_idI)
    fix x assume x: "x \<in> set t"
    show "(if live (if live x \<and> bm_id x = bm_id r then r else x) \<and> bm_id (if live x \<and> bm_id x = bm_id r then r else x) = bm_id r0
        then r0 else if live x \<and> bm_id x = bm_id r then r else x) = x"
    proof (cases "live x \<and> bm_id x = bm_id r")
      case True
      then have "x = r0" using u [OF x] by blast
      with True k(1) assms(3) show ?thesis by simp
    qed (auto simp: k(1))
  qed
qed

lemma restore_row:
  assumes "distinct_ids (applications D)" "by_id i (applications D) = Some a0" "bm_id a = i" "live a"
  shows "with_app a0 (with_app a D) = D"
  using replace_back [OF assms(1), of a a0] assms(2-4) by (simp add: with_app_def)

lemma roll_back_ends:
  assumes "distinct_ids (applications D)" "by_id i (applications D) = Some a0" "new_settings Q i D a" "may_restore c old a0"
  shows "ensures (st c (with_app a D)) (roll_back old why e)
    (\<lambda>r w. (\<exists>e'. r = Inl e') \<and> (db w = D \<or> \<not> c \<and> (\<exists>a. new_settings Q i D a \<and> db w = with_app a D)))"
proof -
  have r: "with_app a0 (with_app a D) = D"
    using restore_row [OF assms(1,2)] assms(3) by (simp add: new_settings_def)
  show ?thesis using assms(3,4) r
    by (auto simp: ensures_def st_def roll_back_def seq_def bind_def handle_def attempt_def applications_update_row_def update_row_def
        no_index_def statement_def may_restore_def with_app_def calm_def fault_now_def)
qed

lemma roll_back_update:
  assumes "distinct_ids (applications D)" "by_id i (applications D) = Some a0" "new_settings Q i D a" "may_restore c old a0"
  shows "ensures (st c (with_app a D)) (roll_back old why e) (updated_or_not Q i c D)"
  by (rule ens_post [OF roll_back_ends [OF assms]]) (auto simp: updated_or_not_def)

lemma written_twice: "bm_id a' = bm_id a \<Longrightarrow> bm_deleted a' = bm_deleted a \<Longrightarrow> live a \<Longrightarrow> with_app a' (with_app a D) = with_app a' D"
  by (auto simp: with_app_def replace_pk_def update_live_def live_def comp_def)

lemma redeploy_ends:
  assumes "distinct_ids (applications D)" "by_id i (applications D) = Some a0" "new_settings Q i D a" "may_restore c old a0"
  shows "ensures (st c (with_app a D)) (redeploy L C api Q a old) (updated_or_not Q i c D)"
proof -
  note rb = roll_back_update [OF assms]
  let ?a = "a\<lparr>a_volumes := ac_volumes Q a\<rparr>"
  have w: "with_app ?a (with_app a D) = with_app ?a D"
    by (rule written_twice) (use assms(3) in \<open>simp_all add: new_settings_def\<close>)
  have f: "ensures (st c (with_app a D)) (seq (attempt (applications_update_row ?a)) (ret ?a)) (updated_or_not Q i c D)"
  proof (rule ens_seq [OF ens_attempt])
    show "ensures (st c (with_app a D)) (applications_update_row ?a) (\<lambda>_ w. db w = with_app a D \<or> db w = with_app ?a D)"
      using w [unfolded with_app_def]
      by (auto simp: ensures_def st_def applications_update_row_def update_row_def statement_def no_index_def with_app_def)
    show "ensures (\<lambda>w. db w = with_app a D \<or> db w = with_app ?a D) (ret ?a) (updated_or_not Q i c D)"
      by (rule ens_ret) (use assms(3) in \<open>auto simp: updated_or_not_def\<close>)
  qed
  have p: "ensures (st c (with_app a D)) (try_project (a_project a)) (succeeds (\<lambda>_. st c (with_app a D)))"
    by (rule ens_succeedsI [OF st_reads [OF reads_try_project]])
       (auto simp: try_project_def handle_def split: prod.splits sum.splits)
  show ?thesis unfolding redeploy_def Let_def
    by (rule ens_bind [OF p])
       (rule st_read_then [OF reads_docker_config rb],
        rule st_read_then [OF reads_cluster calm_steps(5) rb f])
qed

lemma autoscaling_ends:
  assumes "distinct_ids (applications D)" "by_id i (applications D) = Some a0" "new_settings Q i D a" "may_restore c old a0"
    and "ensures (st c (with_app a D)) k (updated_or_not Q i c D)"
  shows "ensures (st c (with_app a D)) (seq (apply_autoscaling a s old) k) (updated_or_not Q i c D)"
proof -
  let ?A = "st c (with_app a D)"
  have b: "ensures ?A (seq (handle (cluster x) (roll_back old why) ret) k) (updated_or_not Q i c D)" for x why
    unfolding seq_def bind_def
  proof (rule ens_handle [where R = "\<lambda>r w. case r of Inl e \<Rightarrow> db w = D \<or> \<not> c \<and> (\<exists>a. new_settings Q i D a \<and> db w = with_app a D)
      | Inr _ \<Rightarrow> ?A w"])
    show "ensures ?A (handle (cluster x) (roll_back old why) ret) (\<lambda>r w. case r of
        Inl e \<Rightarrow> db w = D \<or> \<not> c \<and> (\<exists>a. new_settings Q i D a \<and> db w = with_app a D) | Inr _ \<Rightarrow> ?A w)"
      by (rule st_read_then [OF reads_cluster calm_steps(5)], rule ens_post [OF roll_back_ends [OF assms(1-4)]])
         (auto intro: ens_ret)
  qed (auto intro!: ens_err assms(5) simp: updated_or_not_def)
  have n: "ensures ?A (seq (ret ()) k) (updated_or_not Q i c D)"
    unfolding seq_def by (rule ens_bind [where B = "\<lambda>_. ?A"]) (auto intro: ens_ret assms(5))
  show ?thesis unfolding apply_autoscaling_def when_some_def
    by (cases s) (auto simp: b n)
qed

lemma change_ends:
  assumes "distinct_ids (applications D)" "by_id i (applications D) = Some a0" "new_settings Q i D a" "may_restore c old a0"
  shows "ensures (st c (with_app a D)) (apply_change L C api Q inp a old) (updated_or_not Q i c D)"
proof -
  have r: "ensures (st c (with_app a D)) (ret a) (updated_or_not Q i c D)"
    by (rule ens_ret) (use assms(3) in \<open>auto simp: updated_or_not_def st_def\<close>)
  then show ?thesis unfolding apply_change_def Let_def
    by (auto intro!: ens_if ens_option roll_back_update [OF assms] autoscaling_ends [OF assms] redeploy_ends [OF assms])
qed

lemma write_ends:
  assumes "distinct_ids (applications D)" "by_id i (applications D) = Some a0" "new_settings Q i D a"
  shows "ensures (st c D) (bind (try_app (bm_id a)) (\<lambda>old. seq (applications_update_row a) (apply_change L C api Q inp a old)))
    (updated_or_not Q i c D)"
proof -
  have i: "bm_id a = i" using assms(3) by (simp add: new_settings_def)
  have u: "ensures (st c D) (seq (applications_update_row a) (apply_change L C api Q inp a old)) (updated_or_not Q i c D)"
    if "may_restore c old a0" for old
    unfolding seq_def bind_def
  proof (rule ens_handle [where R = "\<lambda>r w. case r of Inl _ \<Rightarrow> st c D w | Inr _ \<Rightarrow> st c (with_app a D) w"])
    show "ensures (st c D) (applications_update_row a) (\<lambda>r w. case r of Inl _ \<Rightarrow> st c D w | Inr _ \<Rightarrow> st c (with_app a D) w)"
      by (auto simp: ensures_def st_def applications_update_row_def update_row_def statement_def no_index_def with_app_def)
  qed (use change_ends [OF assms that] st_err in \<open>simp_all\<close>)
  have "ensures (st c D) (try_app i) (succeeds (\<lambda>old w. st c D w \<and> may_restore c old a0))"
    using assms(2) by (auto simp: ensures_def try_app_def handle_def applications_get_by_id_def query_row_def statement_def st_def may_restore_def)
  then show ?thesis unfolding i
    by (rule ens_bind) (use u in \<open>auto simp: ensures_def\<close>)
qed

lemma validation:
  assumes "bm_id a = i" "live a" "\<And>cs. new_settings Q i D a \<Longrightarrow> ensures (st c D) k (updated_or_not Q i c D)"
  shows "ensures (st c D) (seq (validate_app Q a) k) (updated_or_not Q i c D)"
proof -
  have late: "ensures (st c D) (bind (allowed_classes a) (\<lambda>cs. seq (raise_some (late_error Q cs a)) k)) (updated_or_not Q i c D)"
    if e: "early_error Q a = None"
  proof -
    have k: "ensures (st c D) (seq (raise_some (late_error Q cs a)) k) (updated_or_not Q i c D)" if "cs = target_classes D a" for cs
      by (rule raise_cases) (use assms that e settings_checked [of Q a cs] in \<open>auto simp: new_settings_def\<close>)
    have t: "ensures (st c D) (bind (handle (query_row f) (\<lambda>e. err (g e)) (\<lambda>t. ret (dt_allowed_classes t))) (\<lambda>cs. seq (raise_some (late_error Q cs a)) k))
        (updated_or_not Q i c D)"
      if "\<And>t. f D = Some t \<Longrightarrow> dt_allowed_classes t = target_classes D a" for f :: "database \<Rightarrow> deploy_target option" and g
    proof -
      have "handle (handle m (\<lambda>e. err (g e)) (\<lambda>t. ret (h t))) err q = handle m (\<lambda>e. err (g e)) (\<lambda>t. q (h t))"
        for m :: "deploy_target io" and h and q :: "string list \<Rightarrow> application io"
        by (auto simp: handle_def fun_eq_iff split: prod.splits sum.splits)
      then have a: "handle (handle (query_row f) (\<lambda>e. err (g e)) (\<lambda>t. ret (dt_allowed_classes t))) err (\<lambda>cs. seq (raise_some (late_error Q cs a)) k) =
          handle (query_row f) (\<lambda>e. err (g e)) (\<lambda>t. seq (raise_some (late_error Q (dt_allowed_classes t) a)) k)" .
      show ?thesis unfolding bind_def a
        by (rule st_query_row) (auto intro: st_err k that)
    qed
    show ?thesis
    proof (cases "list_ex (\<lambda>v. vm_class v \<noteq> []) (a_volumes a)")
      case True
      then show ?thesis unfolding allowed_classes_def deploy_target_record_def deploy_targets_get_default_def deploy_targets_get_by_id_def
        by (cases "a_target a") (auto intro!: t simp: target_classes_def)
    next
      case False
      then show ?thesis using k [of "[]"]
        by (simp add: allowed_classes_def target_classes_def bind_def handle_def ensures_def)
    qed
  qed
  have assoc: "seq (validate_app Q a) k = seq (raise_some (early_error Q a)) (bind (allowed_classes a) (\<lambda>cs. seq (raise_some (late_error Q cs a)) k))"
    by (auto simp: validate_app_def seq_def bind_def handle_def fun_eq_iff split: prod.splits sum.splits)
  show ?thesis unfolding assoc by (rule raise_cases) (rule late)
qed

lemma registry_then:
  assumes "bm_id a = i" "live a" "\<And>a1. bm_id a1 = i \<Longrightarrow> live a1 \<Longrightarrow> ensures (st c D) (k a1) (updated_or_not Q i c D)"
  shows "ensures (st c D) (bind (with_registry inp a) k) (updated_or_not Q i c D)"
proof (cases "uai_registry inp")
  case None
  then have "bind (with_registry inp a) k = k a" by (simp add: with_registry_def bind_def handle_def fun_eq_iff)
  then show ?thesis using assms by simp
next
  case (Some x)
  then have "bind (with_registry inp a) k = bind (registry_of a x) (\<lambda>r. k (a\<lparr>a_registry := r\<rparr>))"
    by (auto simp: with_registry_def bind_def handle_def fun_eq_iff split: prod.splits sum.splits)
  then show ?thesis
    by (simp add: st_read_bind [OF reads_registry_of] assms live_def [symmetric]) (rule st_read_bind [OF reads_registry_of assms(3)];
      use assms(1,2) in \<open>simp add: live_def\<close>)
qed

lemma update_ends:
  assumes "distinct_ids (applications D)"
  shows "ensures (st c D) (app_update L C api Q i inp) (updated_or_not Q i c D)"
proof -
  have s: "ensures (st c D) (seq (raise_some (source_error inp a0)) (bind (with_registry inp (with_source inp a0)) (\<lambda>a1.
      let a = with_runtime inp (with_build inp a1) in seq (validate_app Q a) (bind (try_app (bm_id a)) (\<lambda>old.
        seq (applications_update_row a) (apply_change L C api Q inp a old)))))) (updated_or_not Q i c D)"
    if a0: "by_id i (applications D) = Some a0" for a0
  proof (rule raise_cases, rule registry_then)
    show "bm_id (with_source inp a0) = i" "live (with_source inp a0)"
      using find_live_iff [OF a0] by (simp_all add: ids_with_settings live_def)
    fix a1 :: application assume a1: "bm_id a1 = i" "live a1"
    show "ensures (st c D) (let a = with_runtime inp (with_build inp a1) in seq (validate_app Q a) (bind (try_app (bm_id a)) (\<lambda>old.
        seq (applications_update_row a) (apply_change L C api Q inp a old)))) (updated_or_not Q i c D)"
      unfolding Let_def
      by (rule validation [OF _ _ write_ends [OF assms a0]]) (use a1 in \<open>simp_all add: ids_with_settings live_def\<close>)
  qed
  show ?thesis unfolding app_update_def bind_def [of "applications_get_by_id i"] unfolding applications_get_by_id_def
    by (rule st_query_row [OF s st_err])
qed


section \<open>Secrets\<close>

text \<open>The values in force after a change: the new ones, an empty one deleting its key.\<close>

lemma secrets_ends:
  assumes "distinct_ids (applications D)" "by_id i (applications D) = Some a0"
  shows "ensures (st c D) (app_update_secrets Q i new) (\<lambda>r w. let a = a0\<lparr>a_secrets := merge_secrets (a_secrets a0) new\<rparr> in
    case r of Inl e \<Rightarrow> db w = D \<or> \<not> c \<and> db w = with_app a D | Inr ks \<Rightarrow> db w = with_app a D \<and> ks = dom (merge_secrets (a_secrets a0) new))"
proof -
  let ?a = "a0\<lparr>a_secrets := merge_secrets (a_secrets a0) new\<rparr>"
  let ?Q = "\<lambda>r w. case r of Inl e \<Rightarrow> db w = D \<or> \<not> c \<and> db w = with_app ?a D | Inr ks \<Rightarrow> db w = with_app ?a D \<and> ks = dom (merge_secrets (a_secrets a0) new)"
  let ?undo = "\<lambda>e. seq (attempt (applications_update_row (?a\<lparr>a_secrets := a_secrets a0\<rparr>)))
     (err (ErrWrap ''failed to apply secrets to cluster (rolled back)'' e))"
  let ?step = "\<lambda>x. seq (applications_update_row (x\<lparr>a_secrets := merge_secrets (a_secrets x) new\<rparr>))
      (case ac_secrets Q (x\<lparr>a_secrets := merge_secrets (a_secrets x) new\<rparr>) of
        None \<Rightarrow> handle (cluster (CallApp ''ensure secret'' i)) (\<lambda>e. seq (attempt (applications_update_row
          (x\<lparr>a_secrets := merge_secrets (a_secrets x) new\<rparr>\<lparr>a_secrets := a_secrets x\<rparr>)))
          (err (ErrWrap ''failed to apply secrets to cluster (rolled back)'' e)))
          (\<lambda>_. ret (dom (a_secrets (x\<lparr>a_secrets := merge_secrets (a_secrets x) new\<rparr>))))
      | Some e \<Rightarrow> seq (attempt (applications_update_row (x\<lparr>a_secrets := merge_secrets (a_secrets x) new\<rparr>\<lparr>a_secrets := a_secrets x\<rparr>)))
          (err (ErrWrap ''failed to apply secrets to cluster (rolled back)'' e)))"
  have k: "bm_id ?a = i" "live ?a" using find_live_iff [OF assms(2)] by (simp_all add: live_def)
  have b: "with_app (?a\<lparr>a_secrets := a_secrets a0\<rparr>) (with_app ?a D) = D"
    using restore_row [OF assms k] by simp
  have undo: "ensures (st c (with_app ?a D)) (?undo e) ?Q" for e
    using b by (auto simp: ensures_def st_def seq_def bind_def handle_def attempt_def applications_update_row_def update_row_def
        no_index_def statement_def with_app_def calm_def fault_now_def)
  have fin: "ensures (st c (with_app ?a D)) (ret (dom (a_secrets ?a))) ?Q"
    by (rule ens_ret) (simp add: st_def)
  have rest: "ensures (st c D) (seq (applications_update_row ?a) (case ac_secrets Q ?a of Some e \<Rightarrow> ?undo e
      | None \<Rightarrow> handle (cluster (CallApp ''ensure secret'' i)) ?undo (\<lambda>_. ret (dom (a_secrets ?a))))) ?Q"
    unfolding seq_def [of "applications_update_row ?a"] bind_def [of "applications_update_row ?a"]
  proof (rule ens_handle [where R = "\<lambda>r w. case r of Inl _ \<Rightarrow> st c D w | Inr _ \<Rightarrow> st c (with_app ?a D) w"])
    show "ensures (st c D) (applications_update_row ?a) (\<lambda>r w. case r of Inl _ \<Rightarrow> st c D w | Inr _ \<Rightarrow> st c (with_app ?a D) w)"
      by (auto simp: ensures_def st_def applications_update_row_def update_row_def statement_def no_index_def with_app_def)
  next
    fix x :: unit
    show "ensures (\<lambda>w. case Inr x :: go_error + unit of Inl _ \<Rightarrow> st c D w | Inr _ \<Rightarrow> st c (with_app ?a D) w)
        (case ac_secrets Q ?a of Some e \<Rightarrow> ?undo e | None \<Rightarrow> handle (cluster (CallApp ''ensure secret'' i)) ?undo (\<lambda>_. ret (dom (a_secrets ?a)))) ?Q"
      unfolding sum.case
      by (rule ens_option) (rule st_read_then [OF reads_cluster calm_steps(5) undo fin], rule undo)
  qed (auto intro!: ens_err simp: st_def)
  have e: "ensures (st c D) (err x) ?Q" for x by (rule ens_err) (simp add: st_def)
  show ?thesis unfolding app_update_secrets_def bind_def [of "applications_get_by_id i"] Let_def
    unfolding applications_get_by_id_def
  proof (rule st_query_row)
    fix x assume "by_id i (applications D) = Some x"
    then have x: "x = a0" using assms(2) by simp
    show "ensures (st c D) (?step x) ?Q" unfolding x by (rule rest)
  qed (rule e)
qed

text \<open>C23 (secrets_all_or_nothing): a change of an application's secrets is stored and then pushed to the cluster.  On success the
  stored secrets are the old ones overlaid with the new (an empty value deletes its key) and the keys reported are
  theirs; on an error the row is as it was, or, only when the restoring write failed too, holds the overlay.  The
  reported keys never include one whose value is empty, unless it was stored so before.\<close>

theorem secrets_all_or_nothing:
  assumes "distinct_ids (applications (db w))" "by_id i (applications (db w)) = Some a" "app_update_secrets Q i new w = (r, w')"
  shows "case r of
      Inl e \<Rightarrow> db w' = db w \<or> \<not> calm w \<and> db w' = with_app (a\<lparr>a_secrets := merge_secrets (a_secrets a) new\<rparr>) (db w)
    | Inr ks \<Rightarrow> db w' = with_app (a\<lparr>a_secrets := merge_secrets (a_secrets a) new\<rparr>) (db w) \<and>
        (\<forall>k. k \<in> ks \<longleftrightarrow> (case new k of None \<Rightarrow> k \<in> dom (a_secrets a) | Some v \<Rightarrow> v \<noteq> []))"
proof -
  have "k \<in> dom (merge_secrets (a_secrets a) new) \<longleftrightarrow> (case new k of None \<Rightarrow> k \<in> dom (a_secrets a) | Some v \<Rightarrow> v \<noteq> [])" for k
    by (auto simp: merge_secrets_def dom_def split: option.splits)
  then show ?thesis
    using ensuresD [OF secrets_ends [OF assms(1,2), where c = "calm w"] _ assms(3)]
    by (cases r) (simp_all add: st_def Let_def)
qed

section \<open>Witnesses\<close>

definition demo_app_cluster :: app_cluster where
  "demo_app_cluster = \<lparr>ac_target = (\<lambda>_. None), ac_secrets = (\<lambda>_. Some (ErrMsg ''no secrets'')), ac_builder = (\<lambda>_. None),
     ac_phase = (\<lambda>_. Inr ''running''), ac_volumes = a_volumes, ac_caps = (\<lambda>_. (0, ''k3s'', [])), ac_quantity = (\<lambda>_. Some 1)\<rparr>"

definition no_changes :: update_app_input where
  "no_changes = \<lparr>uai_critical = None, uai_git_repo = None, uai_git_branch = None, uai_image = None, uai_registry = None, uai_build_type = None,
     uai_dockerfile = None, uai_build_context = None, uai_build_args = None, uai_build_env = None, uai_watch_paths = None, uai_no_cache = None,
     uai_cpu_limit = None, uai_mem_limit = None, uai_cpu_request = None, uai_mem_request = None, uai_ports = None, uai_node_pool = None,
     uai_health = None, uai_autoscaling = None, uai_volumes = None, uai_strategy = None, uai_strategy_config = None, uai_grace = None\<rparr>"


lemma secrets_all_or_nothing_witness:
  "case app_update_secrets demo_app_cluster 5 [''KEY'' \<mapsto> ''v''] (world_of (empty_database\<lparr>applications := [demo_app 5 AppRunning]\<rparr>)) of
     (r, w') \<Rightarrow> isl r \<and> db w' = empty_database\<lparr>applications := [demo_app 5 AppRunning]\<rparr>"
proof -
  let ?w = "world_of (empty_database\<lparr>applications := [demo_app 5 AppRunning]\<rparr>)"
  obtain r w' where e: "app_update_secrets demo_app_cluster 5 [''KEY'' \<mapsto> ''v''] ?w = (r, w')"
    by (cases "app_update_secrets demo_app_cluster 5 [''KEY'' \<mapsto> ''v''] ?w")
  have r: "isl r"
    using e by (auto simp: app_update_secrets_def Let_def bind_def handle_def applications_get_by_id_def query_row_def statement_def by_id_Cons
        demo_app_def live_def seq_def attempt_def applications_update_row_def update_row_def no_index_def demo_app_cluster_def
        fault_now_def world_of_def next_fault_def)
  have "by_id 5 (applications (db ?w)) = Some (demo_app 5 AppRunning)" by (simp add: by_id_Cons demo_app_def live_def)
  from secrets_all_or_nothing [OF _ this e] show ?thesis using r unfolding e
    by (cases r) (simp_all add: distinct_ids_def calm_def)
qed

end
