(* ===== verification/Workload_Names.thy ===== *)
theory Workload_Names imports App_Rules Domain_Refine begin

text \<open>
  Applications and databases of a project share a namespace, so their Kubernetes names must differ.  The requests of both
  services, in any order and with any failures, keep them apart: the check before an insert and the fact that no later
  write of a row changes its project or its name.
\<close>

section \<open>The invariant\<close>

definition app_slot :: "application \<Rightarrow> uuid \<times> string" where
  "app_slot a = (a_project a, a_k8s_name a)"

definition db_slot :: "managed_database \<Rightarrow> uuid \<times> string" where
  "db_slot m = (mdb_project m, mdb_k8s m)"

definition apart :: "database \<Rightarrow> bool" where
  "apart d \<longleftrightarrow> distinct_ids (applications d) \<and> distinct_ids (managed_dbs d) \<and>
     distinct (map app_slot (filter live (applications d)) @ map db_slot (filter live (managed_dbs d)))"

text \<open>\<open>fits N M\<close>: the slots of the live rows are those that \<open>N\<close> and \<open>M\<close> record for their ids.\<close>

definition fits :: "(uuid \<Rightarrow> uuid \<times> string) \<Rightarrow> (uuid \<Rightarrow> uuid \<times> string) \<Rightarrow> database \<Rightarrow> bool" where
  "fits N M d \<longleftrightarrow> apart d \<and> (\<forall>a \<in> set (applications d). live a \<longrightarrow> app_slot a = N (bm_id a)) \<and>
     (\<forall>m \<in> set (managed_dbs d). live m \<longrightarrow> db_slot m = M (bm_id m))"

abbreviation fitting :: "(uuid \<Rightarrow> uuid \<times> string) \<Rightarrow> (uuid \<Rightarrow> uuid \<times> string) \<Rightarrow> world \<Rightarrow> bool" where
  "fitting N M \<equiv> on_db (fits N M)"

lemma distinct_slots_recorded:
  "distinct_ids t \<Longrightarrow> \<exists>N. \<forall>r \<in> set t. live r \<longrightarrow> s r = N (bm_id r)"
proof (rule exI [of _ "\<lambda>i. case by_id i t of None \<Rightarrow> undefined | Some r \<Rightarrow> s r"])
  assume "distinct_ids t"
  then show "\<forall>r \<in> set t. live r \<longrightarrow> s r = (case by_id (bm_id r) t of None \<Rightarrow> undefined | Some r \<Rightarrow> s r)"
    by (auto dest: by_id_eqI)
qed

lemma apart_fits: "apart d \<longleftrightarrow> (\<exists>N M. fits N M d)"
  unfolding fits_def using distinct_slots_recorded [of "applications d" app_slot] distinct_slots_recorded [of "managed_dbs d" db_slot]
  by (auto simp: apart_def)

text \<open>A table whose live rows keep their ids and slots, or die, keeps its slots distinct.\<close>

lemma update_live_slots:
  assumes "\<And>r. r \<in> set t \<Longrightarrow> live r \<Longrightarrow> P r \<Longrightarrow> live (f r) \<Longrightarrow> s (f r) = s r"
  shows "subseq (map s (filter live (update_live P f t))) (map s (filter live t))"
  using assms
proof (induction t)
  case (Cons r t)
  then have "subseq (map s (filter live (update_live P f t))) (map s (filter live t))" by simp
  moreover have "s (f r) = s r" if "live r" "P r" "live (f r)" using Cons.prems that by simp
  ultimately show ?case by (auto simp: update_live_def)
qed (simp add: update_live_def)

lemma subseq_set_distinct: "subseq xs ys \<Longrightarrow> set xs \<subseteq> set ys \<and> (distinct ys \<longrightarrow> distinct xs)"
  by (induction rule: list_emb.induct) auto

lemma subseq_distinct_append: "subseq xs ys \<Longrightarrow> distinct (ys @ zs) \<Longrightarrow> distinct (xs @ zs)"
  "subseq xs ys \<Longrightarrow> distinct (zs @ ys) \<Longrightarrow> distinct (zs @ xs)"
  using subseq_set_distinct [of xs ys] by auto

lemma fits_app_rows:
  assumes "fits N M d" "\<And>r. bm_id (f r) = bm_id r"
    and "\<And>r. r \<in> set (applications d) \<Longrightarrow> live r \<Longrightarrow> P r \<Longrightarrow> live (f r) \<Longrightarrow> app_slot (f r) = app_slot r"
  shows "fits N M (applications_update (update_live P f) d)"
proof -
  have ap: "distinct (map app_slot (filter live (applications d)) @ map db_slot (filter live (managed_dbs d)))"
    using assms(1) unfolding fits_def apart_def by blast
  have "distinct (map app_slot (filter live (update_live P f (applications d))) @ map db_slot (filter live (managed_dbs d)))"
    by (rule subseq_distinct_append(1) [OF update_live_slots]) (erule (3) assms(3), rule ap)
  moreover have "app_slot u = N (bm_id u)" if "u \<in> set (update_live P f (applications d))" "live u" for u
    using that(1)
  proof (cases rule: set_update_liveE)
    case (1 r)
    with that(2) assms show ?thesis by (simp add: fits_def)
  next
    case 2
    with that(2) assms(1) show ?thesis by (simp add: fits_def)
  qed
  ultimately show ?thesis using assms(1) by (simp add: fits_def apart_def distinct_ids_update_live assms(2))
qed

lemma fits_db_rows:
  assumes "fits N M d" "\<And>r. bm_id (f r) = bm_id r"
    and "\<And>r. r \<in> set (managed_dbs d) \<Longrightarrow> live r \<Longrightarrow> P r \<Longrightarrow> live (f r) \<Longrightarrow> db_slot (f r) = db_slot r"
  shows "fits N M (managed_dbs_update (update_live P f) d)"
proof -
  have ap: "distinct (map app_slot (filter live (applications d)) @ map db_slot (filter live (managed_dbs d)))"
    using assms(1) unfolding fits_def apart_def by blast
  have "distinct (map app_slot (filter live (applications d)) @ map db_slot (filter live (update_live P f (managed_dbs d))))"
    by (rule subseq_distinct_append(2) [OF update_live_slots]) (erule (3) assms(3), rule ap)
  moreover have "db_slot u = M (bm_id u)" if "u \<in> set (update_live P f (managed_dbs d))" "live u" for u
    using that(1)
  proof (cases rule: set_update_liveE)
    case (1 r)
    with that(2) assms show ?thesis by (simp add: fits_def)
  next
    case 2
    with that(2) assms(1) show ?thesis by (simp add: fits_def)
  qed
  ultimately show ?thesis using assms(1) by (simp add: fits_def apart_def distinct_ids_update_live assms(2))
qed

section \<open>Statements\<close>

lemma keeps_app_row:
  assumes "app_slot r = N (bm_id r)"
  shows "keeps (fitting N M) (applications_update_row r)"
  unfolding applications_update_row_def
proof (rule keeps_db_update_row)
  fix d assume d: "fits N M d"
  have "app_slot r = app_slot x" if "x \<in> set (applications d)" "live x" "bm_id x = bm_id r" for x
    using d that assms by (simp add: fits_def)
  then have "fits N M (applications_update (update_live (\<lambda>x. bm_id x = bm_id r) (\<lambda>x. if bm_id x = bm_id r then r else x)) d)"
    by (intro fits_app_rows [OF d]) auto
  moreover have "update_live (\<lambda>x. bm_id x = bm_id r) (\<lambda>x. if bm_id x = bm_id r then r else x) = replace_pk r"
    by (auto simp: replace_pk_def update_live_def fun_eq_iff)
  ultimately show "fits N M (applications_update (replace_pk r) d)" by simp
qed

lemma keeps_db_row:
  assumes "db_slot r = M (bm_id r)"
  shows "keeps (fitting N M) (managed_dbs_update_row r)"
  unfolding managed_dbs_update_row_def
proof (rule keeps_db_update_row)
  fix d assume d: "fits N M d"
  have "db_slot r = db_slot x" if "x \<in> set (managed_dbs d)" "live x" "bm_id x = bm_id r" for x
    using d that assms by (simp add: fits_def)
  then have "fits N M (managed_dbs_update (update_live (\<lambda>x. bm_id x = bm_id r) (\<lambda>x. if bm_id x = bm_id r then r else x)) d)"
    by (intro fits_db_rows [OF d]) auto
  moreover have "update_live (\<lambda>x. bm_id x = bm_id r) (\<lambda>x. if bm_id x = bm_id r then r else x) = replace_pk r"
    by (auto simp: replace_pk_def update_live_def fun_eq_iff)
  ultimately show "fits N M (managed_dbs_update (replace_pk r) d)" by simp
qed

lemma keeps_app_status [keeps_intros]: "keeps (fitting N M) (applications_update_status i s)"
  unfolding applications_update_status_def
  by (rule keeps_db_exec) (rule fits_app_rows; simp add: app_slot_def)

lemma keeps_app_delete [keeps_intros]: "keeps (fitting N M) (applications_delete i)"
  unfolding applications_delete_def delete_pk_def soft_delete_def
  by (intro keeps_intros keeps_db_exec) (rule fits_app_rows; simp add: live_def)

lemma keeps_db_delete [keeps_intros]: "keeps (fitting N M) (managed_dbs_delete i)"
  unfolding managed_dbs_delete_def delete_pk_def soft_delete_def
  by (intro keeps_intros keeps_db_exec) (rule fits_db_rows; simp add: live_def)

text \<open>Reads give rows that fit.\<close>

lemma keeps_read:
  assumes "\<And>d x. I d \<Longrightarrow> f d = Some x \<Longrightarrow> V x" "\<And>x. V x \<Longrightarrow> keeps (on_db I) (k x)" "\<And>e. keeps (on_db I) (h e)"
  shows "keeps (on_db I) (handle (query_row f) h k)"
  unfolding keeps_def
proof (intro allI impI)
  fix w assume w: "on_db I w"
  obtain r w1 where e: "query_row f w = (r, w1)" by (cases "query_row f w")
  have w1: "on_db I w1" by (rule keepsD [OF keeps_db_query_row w e])
  show "on_db I (snd (handle (query_row f) h k w))"
  proof (cases r)
    case (Inl x)
    with e w1 assms(3) show ?thesis by (simp add: keeps_def)
  next
    case (Inr x)
    then have "V x" using e w assms(1) by (simp add: query_row_Inr on_db_def)
    with Inr e w1 assms(2) show ?thesis by (simp add: keeps_def)
  qed
qed

lemma fits_app_row: "fits N M d \<Longrightarrow> by_id i (applications d) = Some a \<Longrightarrow> app_slot a = N i \<and> bm_id a = i"
  using find_live_iff [of i "applications d" a] unfolding fits_def by blast

lemma fits_db_row: "fits N M d \<Longrightarrow> by_id i (managed_dbs d) = Some m \<Longrightarrow> db_slot m = M i \<and> bm_id m = i"
  using find_live_iff [of i "managed_dbs d" m] unfolding fits_def by blast

lemma keeps_read_app:
  assumes "\<And>a. app_slot a = N i \<Longrightarrow> bm_id a = i \<Longrightarrow> keeps (fitting N M) (k a)"
  shows "(\<And>e. keeps (fitting N M) (h e)) \<Longrightarrow> keeps (fitting N M) (handle (applications_get_by_id i) h k)" 
    and "keeps (fitting N M) (bind (applications_get_by_id i) k)"
  unfolding applications_get_by_id_def bind_def
  by (rule keeps_read [where V = "\<lambda>a. app_slot a = N i \<and> bm_id a = i"]; simp add: fits_app_row assms)+

lemma keeps_read_db:
  assumes "\<And>m. db_slot m = M i \<Longrightarrow> bm_id m = i \<Longrightarrow> keeps (fitting N M) (k m)"
  shows "keeps (fitting N M) (bind (managed_dbs_get_by_id i) k)"
  unfolding managed_dbs_get_by_id_def bind_def
  by (rule keeps_read [where V = "\<lambda>m. db_slot m = M i \<and> bm_id m = i"]; simp add: fits_db_row assms)

text \<open>A page of rows.\<close>

lemma keeps_page:
  assumes "\<And>d x. I d \<Longrightarrow> x \<in> set (f d) \<Longrightarrow> V x" "\<And>xs n. (\<forall>x \<in> set xs. V x) \<Longrightarrow> keeps (on_db I) (k (xs, n))"
  shows "keeps (on_db I) (bind (query_page p f) k)"
  unfolding keeps_def
proof (intro allI impI)
  fix w assume w: "on_db I w"
  obtain r w1 where e: "query_page p f w = (r, w1)" by (cases "query_page p f w")
  have w1: "on_db I w1" by (rule keepsD [OF keeps_db_query_page w e])
  show "on_db I (snd (bind (query_page p f) k w))"
  proof (cases r)
    case (Inl x)
    with e w1 show ?thesis by (simp add: bind_def)
  next
    case (Inr x)
    then have "fst x = page_of p (f (db w))" using e by (auto simp: query_page_def query_Inr)
    then have "\<forall>y \<in> set (fst x). V y" using w assms(1) by (auto simp: page_of_def on_db_def dest!: in_set_takeD in_set_dropD)
    with Inr e w1 assms(2) [of "fst x" "snd x"] show ?thesis by (simp add: keeps_def bind_def)
  qed
qed

lemma keeps_map_io: "(\<And>x. x \<in> set xs \<Longrightarrow> keeps P (f x)) \<Longrightarrow> keeps P (map_io f xs)"
  by (induction xs) (auto intro!: keeps_intros)

section \<open>The application service\<close>

lemma keeps_of_reads: "reads m \<Longrightarrow> keeps (on_db I) m"
  by (simp add: reads_def keeps_def on_db_def)

lemma keeps_value:
  assumes "keeps P m" "\<And>w x w'. m w = (Inr x, w') \<Longrightarrow> V x" "\<And>x. V x \<Longrightarrow> keeps P (k x)"
  shows "keeps P (bind m k)"
  unfolding keeps_def
proof (intro allI impI)
  fix w assume w: "P w"
  obtain r w1 where e: "m w = (r, w1)" by (cases "m w")
  have w1: "P w1" by (rule keepsD [OF assms(1) w e])
  show "P (snd (bind m k w))"
    using e w1 assms(2) [of w _ w1] assms(3) by (cases r) (simp_all add: bind_def keeps_def)
qed

lemma slots_kept: "app_slot (with_source inp a) = app_slot a" "app_slot (with_build inp a) = app_slot a"
    "app_slot (with_runtime inp a) = app_slot a"
  by (simp_all add: with_source_def with_build_def with_runtime_def patched_def app_slot_def split: option.splits)

lemma with_registry_value: "with_registry inp a w = (Inr a1, w') \<Longrightarrow> app_slot a1 = app_slot a \<and> bm_id a1 = bm_id a"
  by (auto simp: with_registry_def bind_Inr app_slot_def split: option.splits)

lemma reads_with_registry: "reads (with_registry inp a)"
  unfolding with_registry_def by (intro reads_intros reads_registry_of)

lemma keeps_raise [keeps_intros]: "keeps P (raise_some e)"
  unfolding raise_some_def by (intro keeps_intros)

lemma keeps_validate: "keeps (on_db I) (validate_app Q a)"
  unfolding validate_app_def allowed_classes_def deploy_target_record_def
  by (intro keeps_intros keeps_of_reads reads_intros | simp add: deploy_targets_get_default_def deploy_targets_get_by_id_def reads_query_row)+

lemma keeps_roll_back: "(\<And>a. old = Some a \<Longrightarrow> app_slot a = N (bm_id a)) \<Longrightarrow> keeps (fitting N M) (roll_back old why e)"
  unfolding roll_back_def by (intro keeps_intros keeps_app_row) auto

lemma keeps_change:
  assumes "\<And>o'. old = Some o' \<Longrightarrow> app_slot o' = N (bm_id o')" "app_slot a = N (bm_id a)"
  shows "keeps (fitting N M) (apply_change L C api Q inp a old)"
proof -
  let ?a = "a\<lparr>a_volumes := ac_volumes Q a\<rparr>"
  have v: "keeps (fitting N M) (applications_update_row ?a)"
    by (rule keeps_app_row) (use assms(2) in \<open>simp add: app_slot_def\<close>)
  show ?thesis unfolding apply_change_def apply_autoscaling_def redeploy_def when_some_def Let_def
    by (intro keeps_intros keeps_roll_back v keeps_of_reads [OF reads_docker_config(1)] keeps_of_reads [OF reads_try_project(1)]) (erule assms(1))+
qed

lemma keeps_try_app:
  assumes "\<And>old. (\<And>a. old = Some a \<Longrightarrow> app_slot a = N (bm_id a)) \<Longrightarrow> keeps (fitting N M) (k old)"
  shows "keeps (fitting N M) (bind (try_app i) k)"
proof -
  have "bind (try_app i) k = handle (applications_get_by_id i) (\<lambda>_. k None) (\<lambda>a. k (Some a))"
    by (auto simp: try_app_def bind_def handle_def fun_eq_iff split: prod.splits sum.splits)
  then show ?thesis using assms by (auto intro!: keeps_read_app(1))
qed

lemma keeps_app_update: "keeps (fitting N M) (app_update L C api Q i inp)"
  unfolding app_update_def
proof (rule keeps_read_app(2), rule keeps_seq [OF keeps_raise])
  fix a0 assume a0: "app_slot a0 = N i" "bm_id a0 = i"
  show "keeps (fitting N M) (bind (with_registry inp (with_source inp a0)) (\<lambda>a1.
      let a = with_runtime inp (with_build inp a1) in seq (validate_app Q a) (bind (try_app (bm_id a)) (\<lambda>old.
        seq (applications_update_row a) (apply_change L C api Q inp a old)))))"
  proof (rule keeps_value [OF keeps_of_reads [OF reads_with_registry] with_registry_value])
    fix x assume x: "app_slot x = app_slot (with_source inp a0) \<and> bm_id x = bm_id (with_source inp a0)"
    let ?a = "with_runtime inp (with_build inp x)"
    have s: "app_slot ?a = N (bm_id ?a)" using x a0 by (simp add: slots_kept ids_with_settings)
    show "keeps (fitting N M) (let a = ?a in seq (validate_app Q a) (bind (try_app (bm_id a)) (\<lambda>old.
        seq (applications_update_row a) (apply_change L C api Q inp a old))))"
      unfolding Let_def
      by (intro keeps_seq keeps_validate keeps_try_app keeps_app_row keeps_change s)
  qed
qed

lemma keeps_sync_app: "keeps (fitting N M) (sync_app_status Q a)"
  unfolding sync_app_status_def by (auto intro!: keeps_intros split: option.splits sum.splits)

lemma keeps_app_list: "keeps (fitting N M) (app_list Q p q)" "keeps (fitting N M) (app_list_all Q q f)"
proof -
  have l: "keeps (fitting N M) (bind m (\<lambda>(as, n). bind (map_io (sync_app_status Q) as) (\<lambda>as. ret (as, n))))"
    if "keeps (fitting N M) m" for m :: "(application list \<times> nat) io"
    using that by (auto intro!: keeps_intros keeps_map_io keeps_sync_app)
  show "keeps (fitting N M) (app_list Q p q)" "keeps (fitting N M) (app_list_all Q q f)"
    unfolding app_list_def app_list_all_def
    by (rule l; simp add: applications_list_by_project_def applications_list_all_def keeps_intros)+
qed

lemma keeps_on_target: "keeps P k \<Longrightarrow> keeps P (on_target Q a k)"
  by (simp add: on_target_def split: option.splits)

lemma keeps_app_status_op: "keeps (fitting N M) (app_get_status Q i)"
  unfolding app_get_status_def
  by (rule keeps_read_app(2)) (auto intro!: keeps_on_target keeps_intros split: sum.splits)

lemma reads_notify_project: "reads (notify_project_resource_deleted pr ev nm dt)"
  unfolding notify_project_resource_deleted_def notify_resource_deleted_def projects_get_by_id_def attach_team_def by (intro reads_intros)

lemma keeps_app_delete_op: "keeps (fitting N M) (app_delete Q B i)"
  unfolding app_delete_def
  by (rule keeps_read_app(2)) (intro keeps_intros keeps_of_reads [OF reads_lookups(2)] keeps_of_reads [OF reads_notify_project])

lemma keeps_app_scale: "keeps (fitting N M) (app_scale Q i n)"
  unfolding app_scale_def Let_def
  by (rule keeps_read_app(2)) (intro keeps_on_target keeps_intros keeps_app_row; simp add: app_slot_def)

lemma keeps_app_env: "keeps (fitting N M) (app_update_env Q i env)"
  unfolding app_update_env_def Let_def
  by (rule keeps_read_app(2)) (intro keeps_on_target keeps_intros keeps_app_row keeps_of_reads [OF reads_try_project(1)]; simp add: app_slot_def)

lemma keeps_mark [keeps_intros]: "keeps (fitting N M) (mark_app i s)" "keeps (fitting N M) (failing_app i e)"
  unfolding mark_app_def failing_app_def by (intro keeps_intros)+

lemma keeps_app_restart: "keeps (fitting N M) (app_restart Q i)" "keeps (fitting N M) (app_stop Q i)"
  unfolding app_restart_def app_stop_def suspend_hpa_def
  by (rule keeps_read_app(2), intro keeps_intros)+

lemma keeps_random: "keeps (on_db I) (random_hex n)"
  unfolding random_hex_def by (intro keeps_intros)

lemma keeps_app_webhooks: "keeps (fitting N M) (app_enable_webhook L i base)" "keeps (fitting N M) (app_disable_webhook i)"
  unfolding app_enable_webhook_def app_disable_webhook_def Let_def
  by (rule keeps_read_app(2), intro keeps_intros keeps_random keeps_app_row, simp add: app_slot_def)+

lemma keeps_app_secrets: "keeps (fitting N M) (app_update_secrets Q i new)"
  unfolding app_update_secrets_def Let_def
  by (rule keeps_read_app(2)) (intro keeps_intros keeps_app_row; simp add: app_slot_def)

section \<open>The database service\<close>

lemma keeps_with_manager: "keeps P k \<Longrightarrow> keeps P (with_manager M' k)"
  by (simp add: with_manager_def split: option.splits)

lemma keeps_sync_db: "db_slot m = M (bm_id m) \<Longrightarrow> keeps (fitting N M) (sync_live_status D m)"
  unfolding sync_live_status_def Let_def
  by (auto intro!: keeps_intros keeps_db_row simp: db_slot_def split: sum.splits)

lemma keeps_sync_dbs: "\<forall>m \<in> set ms. db_slot m = M (bm_id m) \<Longrightarrow> keeps (fitting N M) (sync_live_statuses D ms)"
  unfolding sync_live_statuses_def by (auto intro!: keeps_intros keeps_map_io keeps_sync_db)

lemma keeps_db_list: "keeps (fitting N M) (database_list D p q)" "keeps (fitting N M) (database_list_all D q f)"
proof -
  have f: "db_slot m = M (bm_id m)" if "fits N M d" "m \<in> set (newest_first (select_live P (managed_dbs d)))" for P d and m :: managed_database
    using that by (auto simp: fits_def newest_first_def select_live_def)
  have k: "\<forall>m \<in> set ms. db_slot m = M (bm_id m) \<Longrightarrow>
      keeps (fitting N M) (case (ms, n) of (ms, n) \<Rightarrow> bind (sync_live_statuses D ms) (\<lambda>ms. ret (ms, n)))" for ms and n :: nat
    by (auto intro!: keeps_intros keeps_sync_dbs)
  show "keeps (fitting N M) (database_list D p q)"
    unfolding database_list_def managed_dbs_list_by_project_def
    by (rule keeps_page [where V = "\<lambda>m. db_slot m = M (bm_id m)"]) (erule (1) f, erule k)
  show "keeps (fitting N M) (database_list_all D q f)"
  proof (cases "empty_scope f")
    case True
    then show ?thesis using k [of "[]" 0] by (simp add: database_list_all_def managed_dbs_list_all_def keeps_def bind_def)
  next
    case False
    then show ?thesis unfolding database_list_all_def managed_dbs_list_all_def if_not_P [OF False]
      by (intro keeps_page [where V = "\<lambda>m. db_slot m = M (bm_id m)"]) (erule (1) f, erule k)
  qed
qed

lemma keeps_db_status: "keeps (fitting N M) (database_status D i)"
  unfolding database_status_def Let_def
  by (rule keeps_read_db) (auto intro!: keeps_with_manager keeps_intros keeps_db_row simp: db_slot_def split: sum.splits)

lemma keeps_db_delete_op: "keeps (fitting N M) (database_delete D i)"
  unfolding database_delete_def
  by (rule keeps_read_db) (intro keeps_with_manager keeps_intros keeps_of_reads [OF reads_notify_project])

lemma keeps_db_access: "keeps (fitting N M) (update_external_access D i en port)"
proof -
  have p: "keeps (fitting N M) (port_taken i port)" for i port
    unfolding port_taken_def by (intro keeps_intros keeps_of_reads reads_intros)
  show ?thesis unfolding update_external_access_def Let_def
    by (rule keeps_read_db) (intro keeps_with_manager keeps_intros p keeps_db_row; simp add: db_slot_def)
qed

lemma keeps_db_backup: "keeps (fitting N M) (update_backup_config i inp)"
proof -
  have c: "keeps (fitting N M) (check_db_backup_s3 m s3)" for m s3
    unfolding check_db_backup_s3_def resources_get_by_id_def projects_get_by_id_def attach_team_def
    by (intro keeps_intros)
  show ?thesis unfolding update_backup_config_def Let_def
    by (rule keeps_read_db) (intro keeps_intros c keeps_db_row; simp add: db_slot_def)
qed

section \<open>Creation\<close>

text \<open>The name is free, from the check to the insert.\<close>

definition free_slot :: "uuid \<times> string \<Rightarrow> database \<Rightarrow> bool" where
  "free_slot k d \<longleftrightarrow> apart d \<and> (\<forall>a \<in> set (applications d). live a \<longrightarrow> app_slot a \<noteq> k) \<and>
     (\<forall>m \<in> set (managed_dbs d). live m \<longrightarrow> db_slot m \<noteq> k)"

lemma apart_insert_app:
  assumes "free_slot (app_slot a) d" "bm_id a \<notin> set (map bm_id (applications d))" "live a"
  shows "apart (applications_update (append_row a) d)"
  using assms by (auto simp: free_slot_def apart_def append_row_def distinct_ids_def)

lemma apart_insert_db:
  assumes "free_slot (db_slot m) d" "bm_id m \<notin> set (map bm_id (managed_dbs d))" "live m"
  shows "apart (managed_dbs_update (append_row m) d)"
  using assms by (auto simp: free_slot_def apart_def append_row_def distinct_ids_def)

lemma ens_name_free:
  assumes "\<And>d. A d \<Longrightarrow> \<not> f d \<Longrightarrow> B d" "\<And>d. A d \<Longrightarrow> I d" "ensures (on_db B) k (\<lambda>_. on_db I)"
  shows "ensures (on_db A) (seq (name_free (query f) msg) k) (\<lambda>_. on_db I)"
  unfolding ensures_def
proof (intro allI impI)
  fix w assume w: "on_db A w"
  show "on_db I (snd (seq (name_free (query f) msg) k w))"
  proof (cases "\<not> fault_now w \<and> \<not> f (db w)")
    case True
    then have "on_db B (next_fault w)" using w assms(1) by (simp add: on_db_def)
    with True assms(3) show ?thesis
      by (simp add: seq_def bind_def handle_def name_free_def query_def statement_def ensures_def next_fault_def on_db_def)
  next
    case False
    then show ?thesis using w assms(2)
      by (auto simp: seq_def bind_def handle_def name_free_def query_def statement_def on_db_def)
  qed
qed

lemma apart_domains: "apart (domains_update f d) = apart d"
  by (simp add: apart_def)

lemma keeps_domain_create: "keeps (on_db apart) (domains_create x)"
  by (auto simp: domains_create_def keeps_def insert_row_def on_db_def Let_def apart_domains)

lemma keeps_generate: "keeps (on_db apart) (generate_traefik_domain B a)"
proof -
  have u: "keeps (on_db apart) (domains_update_row d)" for d
    unfolding domains_update_row_def by (rule keeps_db_update_row) (simp add: apart_domains)
  have x: "keeps (on_db apart) (undo_create d e)" for d e
    unfolding undo_create_def domains_delete_def by (intro keeps_intros keeps_db_exec) (simp add: apart_domains)
  have r: "keeps (on_db apart) (random_short n)" for n unfolding random_short_def by (intro keeps_intros)
  have s: "keeps (on_db apart) (setting_or_empty k)" for k
    unfolding setting_or_empty_def settings_get_def by (intro keeps_intros)
  show ?thesis unfolding generate_traefik_domain_def Let_def
    by (intro keeps_intros s r x u keeps_domain_create keeps_of_reads [OF reads_lookups(1)] keeps_of_reads [OF reads_lookups(2)])
qed

lemma ens_app_insert:
  "ensures (on_db (free_slot (app_slot a))) (bind (applications_create a) (\<lambda>a'. seq (attempt (generate_traefik_domain B (bm_id a'))) (ret a')))
    (\<lambda>_. on_db apart)"
proof -
  have i: "on_db apart (snd (applications_create a w))" if w: "on_db (free_slot (app_slot a)) w" for w
  proof (cases "applications_create a w")
    case (Pair r w1)
    show ?thesis
    proof (cases r)
      case (Inl e)
      have "db w1 = db w"
        using aon_insert_row Pair Inl unfolding applications_create_def all_or_nothing_def by blast
      then show ?thesis using Pair w by (simp add: on_db_def free_slot_def)
    next
      case (Inr x)
      note d = insert_rowD [OF Pair [unfolded applications_create_def Inr]]
      have "app_slot x = app_slot a" by (simp add: d(1) fill_defaults_def app_slot_def application_defaults_def)
      then have "apart (db w1)" using w d(2,4,5) by (simp add: on_db_def apart_insert_app)
      then show ?thesis using Pair by (simp add: on_db_def)
    qed
  qed
  have g: "keeps (on_db apart) (seq (attempt (generate_traefik_domain B j)) (ret x))" for j and x :: application
    by (intro keeps_intros keeps_generate)
  show ?thesis unfolding bind_def
    by (rule ens_handle [where R = "\<lambda>_. on_db apart"]) (use i g in \<open>simp_all add: ensures_def keeps_def\<close>)
qed

lemma ens_reads_free: "reads m \<Longrightarrow> ensures (on_db A) k Q \<Longrightarrow> (\<And>e w. on_db A w \<Longrightarrow> Q (Inl e) w) \<Longrightarrow> ensures (on_db A) (seq m k) Q"
  unfolding seq_def bind_def
  by (rule ens_handle [where R = "\<lambda>_. on_db A"]) (auto simp: ensures_def on_db_def reads_def)

lemma reads_project_found: "reads (project_found i)"
  unfolding project_found_def projects_get_by_id_def attach_team_def by (intro reads_intros)

lemma keeps_app_create: "keeps (on_db apart) (app_create B inp)"
proof -
  have k: "keeps (on_db apart) (if p_namespace p = [] then err (ErrMsg ''project has no namespace configured'')
     else let a = new_app inp p in
       seq (app_name_free (cai_project inp) (a_k8s_name a))
       (seq (check_git_provider (p_org p) (a_git_provider a))
       (seq (check_registry (p_org p) (a_registry a))
         (bind (applications_create a) (\<lambda>a'. seq (attempt (generate_traefik_domain B (bm_id a'))) (ret a'))))))" for p
  proof (rule keeps_if, simp, unfold Let_def)
    let ?a = "new_app inp p"
    let ?rest = "seq (check_git_provider (p_org p) (a_git_provider ?a)) (seq (check_registry (p_org p) (a_registry ?a))
         (bind (applications_create ?a) (\<lambda>a'. seq (attempt (generate_traefik_domain B (bm_id a'))) (ret a'))))"
    have rest: "ensures (on_db (free_slot (app_slot ?a))) ?rest (\<lambda>_. on_db apart)"
    proof (rule ens_reads_free, goal_cases)
      case 1 show ?case unfolding check_git_provider_def when_some_def resources_get_by_id_def by (intro reads_intros)
      case 2 show ?case
        by (rule ens_reads_free [OF _ ens_app_insert])
           (simp_all add: check_registry_def when_some_def registry_row_def resources_get_by_id_def registry_usable_def reads_intros
             on_db_def free_slot_def)
    qed (simp add: on_db_def free_slot_def)
    have s: "app_slot ?a = (cai_project inp, a_k8s_name ?a)" by (simp add: app_slot_def new_app_def)
    have s2: "a_project ?a = cai_project inp" by (simp add: new_app_def)
    have assoc: "seq (seq m n) k = seq m (seq n k)" for m n :: "unit io" and k :: "application io"
      by (auto simp: seq_def bind_def handle_def fun_eq_iff split: prod.splits sum.splits)
    have "ensures (on_db apart) (seq (app_name_free (cai_project inp) (a_k8s_name ?a)) ?rest) (\<lambda>_. on_db apart)"
      unfolding app_name_free_def assoc applications_exists_by_k8s_name_def managed_dbs_exists_by_k8s_name_def
    proof (rule ens_name_free [where B = "\<lambda>d. apart d \<and> (\<forall>a \<in> set (applications d). live a \<longrightarrow> app_slot a \<noteq> app_slot ?a)"])
      show "ensures (on_db (\<lambda>d. apart d \<and> (\<forall>a \<in> set (applications d). live a \<longrightarrow> app_slot a \<noteq> app_slot ?a)))
          (seq (name_free (query (\<lambda>d. select_live (\<lambda>m. mdb_project m = cai_project inp \<and> mdb_k8s m = a_k8s_name ?a) (managed_dbs d) \<noteq> []))
            (''a database with K8s name '' @ quoted (a_k8s_name ?a) @ '' already exists '' @ em_dash @
              '' app and database names must not collide'')) ?rest) (\<lambda>_. on_db apart)"
        by (rule ens_name_free [where B = "free_slot (app_slot ?a)", OF _ _ rest])
           (auto simp: free_slot_def s db_slot_def select_live_def filter_empty_conv)
    qed (auto simp: s s2 app_slot_def select_live_def filter_empty_conv)
    then show "keeps (on_db apart) (seq (app_name_free (cai_project inp) (a_k8s_name ?a)) ?rest)"
      by (simp add: ensures_def keeps_def)
  qed
  show ?thesis unfolding app_create_def
    by (intro keeps_bind keeps_of_reads [OF reads_project_found] k)
qed

lemma keeps_deploy_new:
  assumes "db_slot m = M (bm_id m)" "mdb_k8s m \<noteq> []"
  shows "keeps (fitting N M) (deploy_new D m)"
proof -
  have s: "db_slot (deployed_database m) = M (bm_id (deployed_database m))"
    using assms by (simp add: db_slot_def deployed_database_def db_k8s_name_def)
  show ?thesis unfolding deploy_new_def Let_def
    by (intro keeps_intros keeps_db_row s)
qed

lemma fits_recorded: "apart d \<Longrightarrow> m \<in> set (managed_dbs d) \<Longrightarrow> live m \<Longrightarrow> \<exists>N M. fits N M d \<and> db_slot m = M (bm_id m)"
  unfolding apart_fits by (fastforce simp: fits_def)

lemma ens_db_insert:
  assumes "mdb_k8s m \<noteq> []"
  shows "ensures (on_db (free_slot (db_slot m))) (bind (managed_dbs_create m) (deploy_new D)) (\<lambda>_. on_db apart)"
  unfolding ensures_def
proof (intro allI impI)
  fix w assume w: "on_db (free_slot (db_slot m)) w"
  obtain r w1 where e: "managed_dbs_create m w = (r, w1)" by (cases "managed_dbs_create m w")
  show "on_db apart (snd (bind (managed_dbs_create m) (deploy_new D) w))"
  proof (cases r)
    case (Inl x)
    have "db w1 = db w"
      using aon_insert_row e Inl unfolding managed_dbs_create_def all_or_nothing_def by blast
    then show ?thesis using e Inl w by (simp add: bind_def on_db_def free_slot_def)
  next
    case (Inr x)
    note d = insert_rowD [OF e [unfolded managed_dbs_create_def Inr]]
    have x: "db_slot x = db_slot m" "mdb_k8s x = mdb_k8s m" by (simp_all add: d(1) fill_defaults_def db_slot_def managed_db_defaults_def)
    then have a: "apart (db w1)" using w d(2,4,5) by (simp add: on_db_def apart_insert_db)
    have "x \<in> set (managed_dbs (db w1))" by (simp add: d(4) append_row_def)
    then obtain N M where f: "fits N M (db w1)" "db_slot x = M (bm_id x)" using fits_recorded [OF a _ d(5)] by blast
    have "keeps (fitting N M) (deploy_new D x)" by (rule keeps_deploy_new) (use f x assms in simp_all)
    then have "fitting N M (snd (deploy_new D x w1))" using f(1) by (simp add: keeps_def on_db_def)
    then have "on_db apart (snd (deploy_new D x w1))" by (auto simp: on_db_def apart_fits)
    then show ?thesis using e Inr by (simp add: bind_def)
  qed
qed

lemma sanitized_nonempty: "safe_name s \<Longrightarrow> sanitize_k8s_name s \<noteq> []"
  by (cases s) (auto simp: sanitize_map safe_name_def)

lemma keeps_db_create: "keeps (on_db apart) (database_create D inp)"
proof -
  have k: "keeps (on_db apart) (if p_namespace p = [] then err (ErrMsg ''project has no namespace configured'')
        else let m = new_database inp p in
          seq (k8s_name_free (cdi_project inp) (mdb_k8s m)) (bind (managed_dbs_create m) (deploy_new D)))"
    if "safe_name (cdi_name inp)" for p
  proof (rule keeps_if, simp, unfold Let_def)
    let ?m = "new_database inp p"
    let ?rest = "bind (managed_dbs_create ?m) (deploy_new D)"
    have n: "mdb_k8s ?m \<noteq> []" using sanitized_nonempty [OF that] by (simp add: new_database_def)
    have s: "db_slot ?m = (cdi_project inp, mdb_k8s ?m)" by (simp add: db_slot_def new_database_def)
    have s2: "mdb_project ?m = cdi_project inp" by (simp add: new_database_def)
    have assoc: "seq (seq m n) k = seq m (seq n k)" for m n :: "unit io" and k :: "managed_database io"
      by (auto simp: seq_def bind_def handle_def fun_eq_iff split: prod.splits sum.splits)
    have "ensures (on_db apart) (seq (k8s_name_free (cdi_project inp) (mdb_k8s ?m)) ?rest) (\<lambda>_. on_db apart)"
      unfolding k8s_name_free_def assoc applications_exists_by_k8s_name_def managed_dbs_exists_by_k8s_name_def
    proof (rule ens_name_free [where B = "\<lambda>d. apart d \<and> (\<forall>x \<in> set (managed_dbs d). live x \<longrightarrow> db_slot x \<noteq> db_slot ?m)"])
      show "ensures (on_db (\<lambda>d. apart d \<and> (\<forall>x \<in> set (managed_dbs d). live x \<longrightarrow> db_slot x \<noteq> db_slot ?m)))
          (seq (name_free (query (\<lambda>d. select_live (\<lambda>a. a_project a = cdi_project inp \<and> a_k8s_name a = mdb_k8s ?m) (applications d) \<noteq> []))
            (''an application with K8s name '' @ quoted (mdb_k8s ?m) @ '' already exists '' @ em_dash @
              '' app and database names must not collide'')) ?rest) (\<lambda>_. on_db apart)"
        by (rule ens_name_free [where B = "free_slot (db_slot ?m)", OF _ _ ens_db_insert [OF n]])
           (auto simp: free_slot_def s app_slot_def select_live_def filter_empty_conv)
    qed (auto simp: s s2 db_slot_def select_live_def filter_empty_conv)
    then show "keeps (on_db apart) (seq (k8s_name_free (cdi_project inp) (mdb_k8s ?m)) ?rest)"
      by (simp add: ensures_def keeps_def)
  qed
  show ?thesis unfolding database_create_def
    by (intro keeps_intros k keeps_of_reads [OF reads_project_found]) simp
qed

section \<open>Any requests\<close>

record workload_env =
  we_libs :: libs
  we_cloud :: resource_cloud
  we_ecr :: ecr_api
  we_apps :: app_cluster
  we_ingress :: ingress_binder
  we_dbs :: db_manager

datatype workload_request =
    CreateApp create_app_input | UpdateApp uuid update_app_input | ListApps uuid list_params | ListAllApps list_params list_filter
  | StatusApp uuid | DeleteApp uuid | ScaleApp uuid int | EnvApp uuid str_map | RestartApp uuid | StopApp uuid
  | WebhookApp uuid string | WebhookOffApp uuid | SecretsApp uuid str_map
  | CreateDb create_db_input | ListDbs uuid list_params | ListAllDbs list_params list_filter | StatusDb uuid | DeleteDb uuid
  | AccessDb uuid bool int | BackupDb uuid update_backup_input

fun serve_workload :: "workload_env \<Rightarrow> workload_request \<Rightarrow> unit io" where
  "serve_workload E (CreateApp inp) = silently (app_create (we_ingress E) inp)"
| "serve_workload E (UpdateApp i inp) = silently (app_update (we_libs E) (we_cloud E) (we_ecr E) (we_apps E) i inp)"
| "serve_workload E (ListApps p q) = silently (app_list (we_apps E) p q)"
| "serve_workload E (ListAllApps q f) = silently (app_list_all (we_apps E) q f)"
| "serve_workload E (StatusApp i) = silently (app_get_status (we_apps E) i)"
| "serve_workload E (DeleteApp i) = app_delete (we_apps E) (we_ingress E) i"
| "serve_workload E (ScaleApp i n) = silently (app_scale (we_apps E) i n)"
| "serve_workload E (EnvApp i env) = silently (app_update_env (we_apps E) i env)"
| "serve_workload E (RestartApp i) = app_restart (we_apps E) i"
| "serve_workload E (StopApp i) = app_stop (we_apps E) i"
| "serve_workload E (WebhookApp i b) = silently (app_enable_webhook (we_libs E) i b)"
| "serve_workload E (WebhookOffApp i) = app_disable_webhook i"
| "serve_workload E (SecretsApp i s) = silently (app_update_secrets (we_apps E) i s)"
| "serve_workload E (CreateDb inp) = silently (database_create (we_dbs E) inp)"
| "serve_workload E (ListDbs p q) = silently (database_list (we_dbs E) p q)"
| "serve_workload E (ListAllDbs q f) = silently (database_list_all (we_dbs E) q f)"
| "serve_workload E (StatusDb i) = silently (database_status (we_dbs E) i)"
| "serve_workload E (DeleteDb i) = database_delete (we_dbs E) i"
| "serve_workload E (AccessDb i on port) = silently (update_external_access (we_dbs E) i on port)"
| "serve_workload E (BackupDb i inp) = silently (update_backup_config i inp)"

lemma apart_of_fits: "(\<And>N M. keeps (fitting N M) m) \<Longrightarrow> keeps (on_db apart) m"
  unfolding keeps_def on_db_def apart_fits by blast

lemma keeps_silently: "keeps P m \<Longrightarrow> keeps P (silently m)"
  unfolding silently_def by (intro keeps_intros)

lemmas keeps_workload_ops = keeps_app_update keeps_app_list keeps_app_status_op keeps_app_delete_op keeps_app_scale keeps_app_env
  keeps_app_restart keeps_app_webhooks keeps_app_secrets keeps_db_list keeps_db_status keeps_db_delete_op keeps_db_access keeps_db_backup

lemma serve_apart: "keeps (on_db apart) (serve_workload E q)"
proof (cases q)
  case (CreateApp x) then show ?thesis by (simp add: keeps_silently keeps_app_create)
next
  case (CreateDb x) then show ?thesis by (simp add: keeps_silently keeps_db_create)
qed (simp_all only: serve_workload.simps, (rule apart_of_fits, (rule keeps_silently)?, rule keeps_workload_ops)+)

text \<open>C10 (workload_names_apart): applications and databases of a project run in one namespace, where two objects of one name
  would overwrite each other.  Whatever sequence of requests the application and the database service handle, one
  after another, and whichever of their statements and cluster calls fail, no two live applications, no two live databases
  and no application and database of a project ever have the same Kubernetes name.\<close>

theorem workload_names_apart:
  assumes "apart (db w)"
  shows "apart (db (snd (for_each (\<lambda>q. attempt (serve_workload E q)) qs w)))"
proof -
  have "keeps (on_db apart) (for_each (\<lambda>q. attempt (serve_workload E q)) qs)"
    by (intro keeps_intros serve_apart)
  then show ?thesis using assms by (simp add: keeps_def on_db_def)
qed

definition demo_workloads :: workload_env where
  "demo_workloads = \<lparr>we_libs = demo_libs, we_cloud = demo_resource_cloud, we_ecr = (\<lambda>_ _ _ _. Inl ErrIO), we_apps = demo_app_cluster,
     we_ingress = demo_binder, we_dbs = demo_db_manager\<rparr>"

lemma workload_names_apart_witness:
  "apart (db (snd (for_each (\<lambda>q. attempt (serve_workload demo_workloads q))
     [RestartApp 5, CreateDb \<lparr>cdi_project = 9, cdi_name = ''web'', cdi_database = [], cdi_engine = ''postgres'', cdi_version = ''16'',
        cdi_storage = [], cdi_cpu = [], cdi_mem = []\<rparr>, ListApps 9 \<lparr>lp_page = 1, lp_per_page = 10\<rparr>]
     (world_of (empty_database\<lparr>applications := [demo_app 5 AppRunning]\<rparr>)))))"
  by (rule workload_names_apart) (simp add: apart_def distinct_ids_def empty_database_def demo_app_def live_def)

end
