(* ===== verification/Webhooks.thy ===== *)
theory Webhooks imports Workload_Names begin

text \<open>
  Push webhooks (\<open>api/v1/webhook_handler.go\<close>): GitHub and GitLab report a push, the handler checks who speaks, whether the
  push concerns the application, and triggers a deployment.  \<open>webhook_libs\<close> holds HMAC-SHA-256 and the decoding of the two
  payloads from JSON; the watch patterns need \<open>filepath.Match\<close>, written out below with its own search strategy.
\<close>

section \<open>filepath.Match\<close>

text \<open>\<open>utf8.DecodeRuneInString\<close>: the rune and its width; an invalid byte is the replacement rune of width 1.\<close>

definition continues :: "nat \<Rightarrow> bool" where
  "continues b \<longleftrightarrow> 128 \<le> b \<and> b \<le> 191"

definition second_byte_ok :: "nat \<Rightarrow> nat \<Rightarrow> bool" where
  "second_byte_ok a b \<longleftrightarrow> (if a = 224 then 160 \<le> b \<and> b \<le> 191 else if a = 237 then 128 \<le> b \<and> b \<le> 159
     else if a = 240 then 144 \<le> b \<and> b \<le> 191 else if a = 244 then 128 \<le> b \<and> b \<le> 143 else continues b)"

definition rune_width :: "nat \<Rightarrow> nat" where
  "rune_width a = (if a < 128 then 1 else if 194 \<le> a \<and> a \<le> 223 then 2 else if 224 \<le> a \<and> a \<le> 239 then 3
     else if 240 \<le> a \<and> a \<le> 244 then 4 else 0)"

definition rune_error :: "nat \<times> nat" where
  "rune_error = (65533, 1)"

definition decode_rune :: "string \<Rightarrow> nat \<times> nat" where
  "decode_rune s = (case map of_char s of
     [] \<Rightarrow> (65533, 0)
   | a # t \<Rightarrow>
       if rune_width a = 1 then (a, 1)
       else (case t of [] \<Rightarrow> rune_error | b # t \<Rightarrow>
         if rune_width a = 0 \<or> \<not> second_byte_ok a b then rune_error
         else if rune_width a = 2 then ((a - 192) * 64 + (b - 128), 2)
         else (case t of [] \<Rightarrow> rune_error | c # t \<Rightarrow>
           if \<not> continues c then rune_error
           else if rune_width a = 3 then (((a - 224) * 64 + (b - 128)) * 64 + (c - 128), 3)
           else (case t of [] \<Rightarrow> rune_error | d # t \<Rightarrow>
             if \<not> continues d then rune_error
             else ((((a - 240) * 64 + (b - 128)) * 64 + (c - 128)) * 64 + (d - 128), 4)))))"

text \<open>\<open>getEsc\<close>: one end of a range; it must leave a rest.\<close>

definition plain_rune :: "string \<Rightarrow> (nat \<times> string) option" where
  "plain_rune p = (let (r, n) = decode_rune p in
     if r = 65533 \<and> n = 1 \<or> n = 0 \<or> drop n p = [] then None else Some (r, drop n p))"

fun get_esc :: "string \<Rightarrow> (nat \<times> string) option" where
  "get_esc [] = None"
| "get_esc (c # p) = (if c = CHR ''-'' \<or> c = CHR '']'' then None
     else if c = CHR 0x5C then plain_rune p
     else plain_rune (c # p))"

lemma plain_rune_shorter: "plain_rune p = Some (r, q) \<Longrightarrow> length q < length p"
  by (cases p) (auto simp: plain_rune_def split: prod.splits if_splits)

lemma get_esc_shorter: "get_esc p = Some (r, q) \<Longrightarrow> length q < length p"
  by (cases p) (auto split: if_splits dest!: plain_rune_shorter)

text \<open>The ranges of a class up to its closing bracket: whether \<open>r\<close> is in one, and the rest of the pattern.\<close>

declare get_esc.simps [simp del]

definition starts_with :: "char \<Rightarrow> string \<Rightarrow> bool" where
  "starts_with c p \<longleftrightarrow> (case p of [] \<Rightarrow> False | d # _ \<Rightarrow> d = c)"

function class_ranges :: "nat \<Rightarrow> bool \<Rightarrow> bool \<Rightarrow> string \<Rightarrow> (bool \<times> string) option" where
  "class_ranges r some found p =
     (if some \<and> starts_with CHR '']'' p then Some (found, tl p)
      else (case get_esc p of
          None \<Rightarrow> None
        | Some (lo, q) \<Rightarrow> if starts_with CHR ''-'' q
            then (case get_esc (tl q) of
                None \<Rightarrow> None
              | Some (hi, q') \<Rightarrow> class_ranges r True (found \<or> lo \<le> r \<and> r \<le> hi) q')
            else class_ranges r True (found \<or> r = lo) q))"
  by pat_completeness auto
termination
proof (relation "measure (\<lambda>(_, _, _, p). length p)")
  fix p q q' :: string and r :: nat and some found :: bool and x y :: "nat \<times> string" and lo hi :: nat
  assume "get_esc p = Some x" "(lo, q) = x" "get_esc (tl q) = Some y" "(hi, q') = y"
  then have "length q < length p" "length q' < length (tl q)" by (auto dest: get_esc_shorter)
  then show "((r, True, found \<or> lo \<le> r \<and> r \<le> hi, q'), (r, some, found, p)) \<in> measure (\<lambda>(_, _, _, p). length p)" by simp
qed (auto dest: get_esc_shorter)

declare class_ranges.simps [simp del]

definition class_match :: "nat \<Rightarrow> string \<Rightarrow> (bool \<times> string) option" where
  "class_match r p = (if starts_with CHR ''^'' p then map_option (\<lambda>(b, q). (\<not> b, q)) (class_ranges r False False (tl p))
     else class_ranges r False False p)"

lemma class_ranges_shorter: "class_ranges r s f p = Some (b, q) \<Longrightarrow> length q \<le> length p"
proof (induction r s f p arbitrary: b q rule: class_ranges.induct)
  case (1 r s f p)
  show ?case
  proof (cases "s \<and> starts_with CHR '']'' p")
    case True
    then show ?thesis using 1(3) by (subst (asm) class_ranges.simps) auto
  next
    case False
    then obtain lo q1 where g: "get_esc p = Some (lo, q1)"
      using 1(3) by (subst (asm) class_ranges.simps) (auto split: option.splits)
    note l = get_esc_shorter [OF g]
    show ?thesis
    proof (cases "starts_with CHR ''-'' q1")
      case True
      then obtain hi q2 where h: "get_esc (tl q1) = Some (hi, q2)"
        using 1(3) False g by (subst (asm) class_ranges.simps) (auto split: option.splits)
      have "class_ranges r True (f \<or> lo \<le> r \<and> r \<le> hi) q2 = Some (b, q)"
        using 1(3) False g True h by (subst (asm) class_ranges.simps) simp
      from 1(1) [OF False g refl True h refl this] get_esc_shorter [OF h] l show ?thesis by simp
    next
      case nd: False
      have "class_ranges r True (f \<or> r = lo) q1 = Some (b, q)"
        using 1(3) False g nd by (subst (asm) class_ranges.simps) simp
      from 1(2) [OF False g refl nd this] l show ?thesis by simp
    qed
  qed
qed

lemma class_match_shorter: "class_match r p = Some (b, q) \<Longrightarrow> length q \<le> length p"
  by (auto simp: class_match_def split: if_splits dest!: class_ranges_shorter)

text \<open>\<open>matchChunk\<close>: the rest of the name after a chunk without free stars.  A mismatch and a malformed chunk are both
  \<open>None\<close>: the caller of \<open>Match\<close> ignores the error, and a malformed chunk is malformed at every position.\<close>

function match_chunk :: "string \<Rightarrow> string \<Rightarrow> string option" where
  "match_chunk [] s = Some s"
| "match_chunk (c # p) [] = None"
| "match_chunk (c # p) (x # s) =
     (if c = CHR ''['' then (case class_match (fst (decode_rune (x # s))) p of
          None \<Rightarrow> None
        | Some (ok, q) \<Rightarrow> if ok then match_chunk q (drop (snd (decode_rune (x # s))) (x # s)) else None)
      else if c = CHR ''?'' then (if x = CHR ''/'' then None else match_chunk p (drop (snd (decode_rune (x # s))) (x # s)))
      else if c = CHR 0x5C then (case p of [] \<Rightarrow> None | e # q \<Rightarrow> if e = x then match_chunk q s else None)
      else if c = x then match_chunk p s else None)"
  by pat_completeness auto
termination
  by (relation "measure (\<lambda>(p, _). length p)") (auto dest!: class_match_shorter)

text \<open>\<open>scanChunk\<close>: whether stars lead, the chunk up to the next free star, and the rest.\<close>

fun scan_to :: "bool \<Rightarrow> string \<Rightarrow> string \<times> string" where
  "scan_to inr [] = ([], [])"
| "scan_to inr (c # p) =
     (if c = CHR 0x5C then (case p of [] \<Rightarrow> ([c], []) | e # q \<Rightarrow> (case scan_to inr q of (x, y) \<Rightarrow> (c # e # x, y)))
      else if c = CHR ''*'' \<and> \<not> inr then ([], c # p)
      else (case scan_to (if c = CHR ''['' then True else if c = CHR '']'' then False else inr) p of (x, y) \<Rightarrow> (c # x, y)))"

definition scan_chunk :: "string \<Rightarrow> bool \<times> string \<times> string" where
  "scan_chunk p = (let q = dropWhile (\<lambda>c. c = CHR ''*'') p in (length q < length p, scan_to False q))"

lemma scan_to_append: "scan_to b p = (x, y) \<Longrightarrow> x @ y = p"
proof (induction b p arbitrary: x y rule: scan_to.induct)
  case (2 b c p)
  then show ?case by (auto split: if_splits prod.splits list.splits)
qed simp

lemma scan_to_empty: "scan_to False p = ([], y) \<Longrightarrow> p = [] \<or> hd p = CHR ''*''"
  by (cases p) (auto split: if_splits prod.splits list.splits)

lemma scan_chunk_shorter: "p \<noteq> [] \<Longrightarrow> scan_chunk p = (b, x, y) \<Longrightarrow> length y < length p"
proof -
  assume p: "p \<noteq> []" and s: "scan_chunk p = (b, x, y)"
  let ?q = "dropWhile (\<lambda>c. c = CHR ''*'') p"
  have q: "length ?q \<le> length p" by (rule length_dropWhile_le)
  have xy: "x @ y = ?q" and t: "scan_to False ?q = (x, y)" using s scan_to_append by (auto simp: scan_chunk_def Let_def)
  show ?thesis
  proof (cases "x = []")
    case True
    then have "?q = [] \<or> hd ?q = CHR ''*''" using t by (intro scan_to_empty) simp
    then have "?q = []" using hd_dropWhile [of "\<lambda>c. c = CHR ''*''" p] by blast
    moreover have "y = ?q" using xy True by simp
    ultimately have "y = []" by (rule trans [rotated])
    then show ?thesis using p by simp
  next
    case False
    then have "length y < length ?q" unfolding xy [symmetric] by simp
    then show ?thesis using q by simp
  qed
qed

text \<open>A star that did not match here skips bytes up to the next separator; the last chunk must use up the name.\<close>

fun star_match :: "string \<Rightarrow> bool \<Rightarrow> string \<Rightarrow> string option" where
  "star_match chunk final [] = None"
| "star_match chunk final (x # s) =
     (if x = CHR ''/'' then None
      else (case match_chunk chunk s of
          None \<Rightarrow> star_match chunk final s
        | Some t \<Rightarrow> if final \<and> t \<noteq> [] then star_match chunk final s else Some t))"

function file_match :: "string \<Rightarrow> string \<Rightarrow> bool" where
  "file_match p name =
     (if p = [] then name = []
      else (case scan_chunk p of (star, chunk, rest) \<Rightarrow>
        if star \<and> chunk = [] then CHR ''/'' \<notin> set name
        else (case match_chunk chunk name of
            Some t \<Rightarrow> if t = [] \<or> rest \<noteq> [] then file_match rest t
              else star \<and> (case star_match chunk True name of None \<Rightarrow> False | Some u \<Rightarrow> file_match rest u)
          | None \<Rightarrow> star \<and> (case star_match chunk (rest = []) name of None \<Rightarrow> False | Some u \<Rightarrow> file_match rest u))))"
  by pat_completeness auto
termination
  by (relation "measure (\<lambda>(p, _). length p)") (auto intro: scan_chunk_shorter [OF _ sym])

declare file_match.simps [simp del]

section \<open>Watch paths\<close>

definition file_base :: "string \<Rightarrow> string" where
  "file_base f = (if f = [] then ''.'' else let t = trim_right_by (\<lambda>c. c = CHR ''/'') f in
     if t = [] then ''/'' else rev (takeWhile (\<lambda>c. c \<noteq> CHR ''/'') (rev t)))"

definition match_path :: "string \<Rightarrow> string \<Rightarrow> bool" where
  "match_path file pattern =
     (if has_suffix pattern ''/'' then has_prefix file pattern
      else if has_suffix pattern ''/**'' then has_prefix file (trim_suffix pattern ''/**'' @ ''/'')
      else file_match pattern file \<or> file_match pattern (file_base file) \<or>
        (if CHR ''*'' \<notin> set pattern \<and> CHR ''?'' \<notin> set pattern then has_prefix file (pattern @ ''/'') \<or> file = pattern else False))"

section \<open>Requests\<close>

text \<open>\<open>wr_body\<close> is None when the body cannot be read; \<open>wr_header\<close> is \<open>Header.Get\<close>, empty for a header that is not there.\<close>

record webhook_request =
  wr_app :: string
  wr_header :: "string \<Rightarrow> string"
  wr_body :: "string option"

record push_payload =
  pp_ref :: string
  pp_after :: string
  pp_commits :: "(string list \<times> string list \<times> string list) list"

record webhook_libs =
  wl_hmac_sha256 :: "string \<Rightarrow> string \<Rightarrow> 8 word list"
  wl_github_push :: "string \<Rightarrow> push_payload option"
  wl_gitlab_push :: "string \<Rightarrow> push_payload option"

datatype webhook_answer =
    Said nat string
  | Triggered uuid string

definition read_body :: "webhook_request \<Rightarrow> string option" where
  "read_body r = map_option (take 10485760) (wr_body r)"

definition verify_github :: "webhook_libs \<Rightarrow> string \<Rightarrow> string \<Rightarrow> (string \<Rightarrow> string) \<Rightarrow> bool" where
  "verify_github W secret body hdr \<longleftrightarrow> hex_encode (wl_hmac_sha256 W secret body) = trim_prefix (hdr ''X-Hub-Signature-256'') ''sha256=''"

definition verify_gitlab :: "string \<Rightarrow> (string \<Rightarrow> string) \<Rightarrow> bool" where
  "verify_gitlab secret hdr \<longleftrightarrow> hdr ''X-Gitlab-Token'' = secret"

definition watched :: "application \<Rightarrow> push_payload \<Rightarrow> bool" where
  "watched a p \<longleftrightarrow> a_watch_paths a = [] \<or>
     list_ex (\<lambda>(added, removed, modified). list_ex (\<lambda>f. list_ex (match_path f) (a_watch_paths a)) (added @ removed @ modified)) (pp_commits p)"

definition deploy_pushed :: "platform \<Rightarrow> uuid \<Rightarrow> push_payload \<Rightarrow> webhook_answer io" where
  "deploy_pushed P i p =
     handle (deploy_trigger P \<lparr>ti_app = i, ti_force = False, ti_by = None, ti_type = ''webhook''\<rparr>)
       (\<lambda>_. ret (Said 500 ''deploy failed''))
       (\<lambda>d. seq (if pp_after p \<noteq> [] then attempt (deployments_update_row (d\<lparr>d_commit := pp_after p\<rparr>)) else ret ())
          (ret (Triggered (bm_id d) (pp_after p))))"

definition pushed_branch :: "push_payload \<Rightarrow> string" where
  "pushed_branch p = trim_prefix (pp_ref p) ''refs/heads/''"

definition github_webhook :: "libs \<Rightarrow> webhook_libs \<Rightarrow> platform \<Rightarrow> webhook_request \<Rightarrow> webhook_answer io" where
  "github_webhook L W P r = (case uuid_parse L (wr_app r) of None \<Rightarrow> ret (Said 400 ''invalid app ID'') | Some i \<Rightarrow>
     let event = wr_header r ''X-GitHub-Event'' in
     if event = ''ping'' then ret (Said 200 ''pong'')
     else if event \<noteq> ''push'' then ret (Said 200 (''ignored event: '' @ event))
     else (case read_body r of None \<Rightarrow> ret (Said 400 ''failed to read body'') | Some body \<Rightarrow>
       handle (applications_get_by_id i) (\<lambda>_. ret (Said 404 ''app not found'')) (\<lambda>a.
         if \<not> a_auto_deploy a then ret (Said 200 ''auto-deploy disabled'')
         else if a_webhook_secret a \<noteq> [] \<and> \<not> verify_github W (a_webhook_secret a) body (wr_header r) then ret (Said 401 ''invalid signature'')
         else (case wl_github_push W body of None \<Rightarrow> ret (Said 400 ''invalid payload'') | Some p \<Rightarrow>
           if pushed_branch p \<noteq> a_git_branch a
           then ret (Said 200 (''ignored push to '' @ pushed_branch p @ '' (watching '' @ a_git_branch a @ '')''))
           else if \<not> watched a p then ret (Said 200 ''no files matched watch paths, skipping deploy'')
           else deploy_pushed P i p))))"

definition gitlab_webhook :: "libs \<Rightarrow> webhook_libs \<Rightarrow> platform \<Rightarrow> webhook_request \<Rightarrow> webhook_answer io" where
  "gitlab_webhook L W P r = (case uuid_parse L (wr_app r) of None \<Rightarrow> ret (Said 400 ''invalid app ID'') | Some i \<Rightarrow>
     (case read_body r of None \<Rightarrow> ret (Said 400 ''failed to read body'') | Some body \<Rightarrow>
       handle (applications_get_by_id i) (\<lambda>_. ret (Said 404 ''app not found'')) (\<lambda>a.
         if \<not> a_auto_deploy a then ret (Said 200 ''auto-deploy disabled'')
         else if a_webhook_secret a \<noteq> [] \<and> \<not> verify_gitlab (a_webhook_secret a) (wr_header r) then ret (Said 401 ''invalid token'')
         else (case wl_gitlab_push W body of None \<Rightarrow> ret (Said 400 ''invalid payload'') | Some p \<Rightarrow>
           if pushed_branch p \<noteq> a_git_branch a then ret (Said 200 (''ignored push to '' @ pushed_branch p))
           else deploy_pushed P i p))))"

section \<open>Patterns without wildcards\<close>

definition no_wildcards :: "string \<Rightarrow> bool" where
  "no_wildcards p \<longleftrightarrow> list_all (\<lambda>c. c \<noteq> CHR ''*'' \<and> c \<noteq> CHR ''?'' \<and> c \<noteq> CHR ''['' \<and> c \<noteq> CHR 0x5C) p"

lemma plain_chunk: "no_wildcards p \<Longrightarrow> match_chunk p s = (if has_prefix s p then Some (drop (length p) s) else None)"
  by (induction p s rule: match_chunk.induct) (auto simp: no_wildcards_def has_prefix_def)

lemma plain_scan: "no_wildcards p \<Longrightarrow> scan_to False p = (p, [])"
proof (induction p)
  case (Cons c p)
  have "scan_to False (c # p) = (case scan_to False p of (x, y) \<Rightarrow> (c # x, y))"
    using Cons.prems by (auto simp: no_wildcards_def)
  then show ?case using Cons by (simp add: no_wildcards_def)
qed simp

lemma plain_file_match: "no_wildcards p \<Longrightarrow> file_match p name \<longleftrightarrow> name = p"
proof -
  assume p: "no_wildcards p"
  show ?thesis
  proof (cases "p = []")
    case True
    then show ?thesis by (simp add: file_match.simps)
  next
    case False
    then have "dropWhile (\<lambda>c. c = CHR ''*'') p = p" using p by (cases p) (auto simp: no_wildcards_def)
    then have s: "scan_chunk p = (False, p, [])" by (simp add: scan_chunk_def Let_def plain_scan [OF p])
    have e: "file_match [] t \<longleftrightarrow> t = []" for t by (simp add: file_match.simps)
    show ?thesis
      using False by (subst file_match.simps) (auto simp: s e plain_chunk [OF p] has_prefix_def split: option.splits if_splits)
  qed
qed

text \<open>Without wildcards a pattern means a file, a directory, or a file name anywhere.\<close>

lemma plain_match_path:
  assumes p: "no_wildcards p" and d: "\<not> has_suffix p ''/''"
  shows "match_path f p \<longleftrightarrow> f = p \<or> has_prefix f (p @ ''/'') \<or> file_base f = p"
proof -
  have w: "CHR ''*'' \<notin> set p" "CHR ''?'' \<notin> set p" using p by (auto simp: no_wildcards_def list_all_iff)
  have "set ''/**'' \<subseteq> set p" if "has_suffix p ''/**''"
    using that unfolding has_suffix_def by (metis set_drop_subset)
  then have s: "\<not> has_suffix p ''/**''" using w by auto
  show ?thesis unfolding match_path_def if_not_P [OF d] if_not_P [OF s] plain_file_match [OF p] by (auto simp: w)
qed

section \<open>Who can make the program deploy\<close>

definition untouched :: "world \<Rightarrow> world \<Rightarrow> bool" where
  "untouched w w' \<longleftrightarrow> db w' = db w \<and> queue w' = queue w \<and> calls w' = calls w \<and> outbox w' = outbox w"

lemma untouched_refl [simp]: "untouched w w" by (simp add: untouched_def)

lemma read_app:
  assumes "applications_get_by_id i w = (r, w1)"
  shows "untouched w w1" "r = Inr a \<Longrightarrow> by_id i (applications (db w)) = Some a"
  using assms by (auto simp: applications_get_by_id_def query_row_def statement_def untouched_def next_fault_def split: if_splits option.splits)

text \<open>A handler that reads the application and goes on by a test either leaves the world alone or passed the test.\<close>

lemma read_then_test:
  assumes run: "handle (applications_get_by_id i) (\<lambda>_. ret x) k w = (res, w')" and moved: "\<not> untouched w w'"
    and k: "\<And>a w1 r w2. k a w1 = (r, w2) \<Longrightarrow> Q a \<or> w2 = w1"
  shows "\<exists>a. by_id i (applications (db w)) = Some a \<and> Q a"
proof -
  obtain r w1 where r: "applications_get_by_id i w = (r, w1)" by (cases "applications_get_by_id i w")
  show ?thesis
  proof (cases r)
    case (Inl e)
    then have "w' = w1" using run r by (simp add: handle_def)
    then show ?thesis using moved read_app(1) [OF r] by simp
  next
    case (Inr a)
    then have "k a w1 = (res, w')" using run r by (simp add: handle_def)
    then have "Q a \<or> w' = w1" by (rule k)
    then show ?thesis using moved read_app [OF r] Inr by auto
  qed
qed

definition concerns :: "application \<Rightarrow> push_payload \<Rightarrow> bool" where
  "concerns a p \<longleftrightarrow> a_auto_deploy a \<and> pushed_branch p = a_git_branch a"

text \<open>C12 (webhook_authentic): the webhook routes need no login, so what they check is all that protects a deployment.
  A request that changes anything (a row, the queue, the cluster, a notification) names a live application with automatic
  deployment, carries a push to the branch the application follows and, if the application has a secret, proves that it
  knows it: for GitHub the signature header is the HMAC-SHA-256 of the body, in hexadecimal, and a changed file matches a
  watch path if there are any; for GitLab the token is the secret.\<close>

theorem webhook_authentic:
  assumes "\<not> untouched w w'"
  shows "(github_webhook L W P r w = (res, w') \<longrightarrow>
      (\<exists>i a body p. uuid_parse L (wr_app r) = Some i \<and> by_id i (applications (db w)) = Some a \<and> read_body r = Some body \<and>
        wl_github_push W body = Some p \<and> concerns a p \<and> watched a p \<and>
        (a_webhook_secret a = [] \<or> verify_github W (a_webhook_secret a) body (wr_header r)))) \<and>
    (gitlab_webhook L W P r w = (res, w') \<longrightarrow>
      (\<exists>i a body p. uuid_parse L (wr_app r) = Some i \<and> by_id i (applications (db w)) = Some a \<and> read_body r = Some body \<and>
        wl_gitlab_push W body = Some p \<and> concerns a p \<and>
        (a_webhook_secret a = [] \<or> verify_gitlab (a_webhook_secret a) (wr_header r))))"
proof (intro conjI impI)
  assume g: "github_webhook L W P r w = (res, w')"
  obtain i where i: "uuid_parse L (wr_app r) = Some i"
    using g assms by (cases "uuid_parse L (wr_app r)") (auto simp: github_webhook_def)
  have "wr_header r ''X-GitHub-Event'' = ''push''"
    using g assms i by (auto simp: github_webhook_def Let_def split: if_splits)
  moreover obtain body where b: "read_body r = Some body"
    using g assms i by (cases "read_body r") (auto simp: github_webhook_def Let_def split: if_splits)
  ultimately have "handle (applications_get_by_id i) (\<lambda>_. ret (Said 404 ''app not found'')) (\<lambda>a.
         if \<not> a_auto_deploy a then ret (Said 200 ''auto-deploy disabled'')
         else if a_webhook_secret a \<noteq> [] \<and> \<not> verify_github W (a_webhook_secret a) body (wr_header r) then ret (Said 401 ''invalid signature'')
         else (case wl_github_push W body of None \<Rightarrow> ret (Said 400 ''invalid payload'') | Some p \<Rightarrow>
           if pushed_branch p \<noteq> a_git_branch a
           then ret (Said 200 (''ignored push to '' @ pushed_branch p @ '' (watching '' @ a_git_branch a @ '')''))
           else if \<not> watched a p then ret (Said 200 ''no files matched watch paths, skipping deploy'')
           else deploy_pushed P i p)) w = (res, w')"
    using g i by (simp add: github_webhook_def Let_def)
  from read_then_test [OF this assms, of "\<lambda>a. \<exists>p. wl_github_push W body = Some p \<and> concerns a p \<and> watched a p \<and>
        (a_webhook_secret a = [] \<or> verify_github W (a_webhook_secret a) body (wr_header r))"]
  have "\<exists>a. by_id i (applications (db w)) = Some a \<and> (\<exists>p. wl_github_push W body = Some p \<and> concerns a p \<and> watched a p \<and>
        (a_webhook_secret a = [] \<or> verify_github W (a_webhook_secret a) body (wr_header r)))"
    by (force simp: concerns_def split: if_splits option.splits)
  then show "\<exists>i a body p. uuid_parse L (wr_app r) = Some i \<and> by_id i (applications (db w)) = Some a \<and> read_body r = Some body \<and>
        wl_github_push W body = Some p \<and> concerns a p \<and> watched a p \<and>
        (a_webhook_secret a = [] \<or> verify_github W (a_webhook_secret a) body (wr_header r))" using i b by blast
next
  assume g: "gitlab_webhook L W P r w = (res, w')"
  obtain i where i: "uuid_parse L (wr_app r) = Some i"
    using g assms by (cases "uuid_parse L (wr_app r)") (auto simp: gitlab_webhook_def)
  obtain body where b: "read_body r = Some body"
    using g assms i by (cases "read_body r") (auto simp: gitlab_webhook_def)
  have "handle (applications_get_by_id i) (\<lambda>_. ret (Said 404 ''app not found'')) (\<lambda>a.
         if \<not> a_auto_deploy a then ret (Said 200 ''auto-deploy disabled'')
         else if a_webhook_secret a \<noteq> [] \<and> \<not> verify_gitlab (a_webhook_secret a) (wr_header r) then ret (Said 401 ''invalid token'')
         else (case wl_gitlab_push W body of None \<Rightarrow> ret (Said 400 ''invalid payload'') | Some p \<Rightarrow>
           if pushed_branch p \<noteq> a_git_branch a then ret (Said 200 (''ignored push to '' @ pushed_branch p))
           else deploy_pushed P i p)) w = (res, w')"
    using g i b by (simp add: gitlab_webhook_def)
  from read_then_test [OF this assms, of "\<lambda>a. \<exists>p. wl_gitlab_push W body = Some p \<and> concerns a p \<and>
        (a_webhook_secret a = [] \<or> verify_gitlab (a_webhook_secret a) (wr_header r))"]
  have "\<exists>a. by_id i (applications (db w)) = Some a \<and> (\<exists>p. wl_gitlab_push W body = Some p \<and> concerns a p \<and>
        (a_webhook_secret a = [] \<or> verify_gitlab (a_webhook_secret a) (wr_header r)))"
    by (force simp: concerns_def split: if_splits option.splits)
  then show "\<exists>i a body p. uuid_parse L (wr_app r) = Some i \<and> by_id i (applications (db w)) = Some a \<and> read_body r = Some body \<and>
        wl_gitlab_push W body = Some p \<and> concerns a p \<and>
        (a_webhook_secret a = [] \<or> verify_gitlab (a_webhook_secret a) (wr_header r))" using i b by blast
qed

definition demo_push :: "string \<Rightarrow> webhook_request" where
  "demo_push token = \<lparr>wr_app = uuid_str demo_libs 5, wr_header = (\<lambda>h. if h = ''X-Gitlab-Token'' then token else []), wr_body = Some ''push''\<rparr>"

definition demo_webhook_libs :: webhook_libs where
  "demo_webhook_libs = \<lparr>wl_hmac_sha256 = (\<lambda>k m. map (\<lambda>c. of_nat (of_char c)) (k @ m)), wl_github_push = (\<lambda>_. None),
     wl_gitlab_push = (\<lambda>b. if b = ''push'' then Some \<lparr>pp_ref = ''refs/heads/main'', pp_after = ''c0ffee'', pp_commits = []\<rparr> else None)\<rparr>"

definition demo_hooked :: world where
  "demo_hooked = world_of (empty_database\<lparr>applications := [(demo_app 5 AppRunning)\<lparr>a_webhook_secret := ''whsec'', a_auto_deploy := True\<rparr>]\<rparr>)"

lemma demo_push_runs: "queue (snd (gitlab_webhook demo_libs demo_webhook_libs demo_platform (demo_push ''whsec'') demo_hooked)) \<noteq> []"
proof -
  have u: "uuid_parse demo_libs (uuid_str demo_libs 5) = Some 5" using demo_uuid_ok by (simp add: uuid_ok_def)
  show ?thesis
    by (simp add: gitlab_webhook_def demo_push_def u demo_webhook_libs_def demo_hooked_def read_body_def applications_get_by_id_def query_row_def
        statement_def by_id_Cons demo_app_def live_def fault_now_def next_fault_def handle_def bind_def seq_def verify_gitlab_def
        pushed_branch_def trim_prefix_def has_prefix_def deploy_pushed_def deploy_trigger_def app_busy_def deployments_create_def
        insert_row_def no_index_def enqueue_def set_app_status_def attempt_def applications_update_status_def exec_def
        deployments_update_row_def update_row_def Let_def fill_defaults_def blank_deployment_def append_row_def empty_database_def)
qed

lemma webhook_authentic_witness:
  "\<exists>a. by_id 5 (applications (db demo_hooked)) = Some a \<and> a_webhook_secret a = ''whsec'' \<and> concerns a \<lparr>pp_ref = ''refs/heads/main'', pp_after = ''c0ffee'', pp_commits = []\<rparr>"
proof -
  let ?g = "gitlab_webhook demo_libs demo_webhook_libs demo_platform (demo_push ''whsec'')"
  obtain res w' where e: "?g demo_hooked = (res, w')" by (cases "?g demo_hooked")
  have "\<not> untouched demo_hooked w'" using demo_push_runs unfolding e by (auto simp: untouched_def demo_hooked_def)
  from webhook_authentic [OF this, of demo_libs demo_webhook_libs demo_platform "demo_push ''whsec''" res] e demo_uuid_ok
  show ?thesis
    by (auto simp: demo_push_def demo_webhook_libs_def read_body_def uuid_ok_def verify_gitlab_def demo_hooked_def by_id_Cons demo_app_def live_def
        split: if_splits)
qed

end
