(* ===== verification/Project_Service.thy ===== *)
theory Project_Service imports Workload_Names Authz_Guards begin

text \<open>
  Projects (\<open>service/project_service.go\<close>): each gets a namespace of the cluster, named after it, with a service
  account; its variables, quota and network policy are pushed there.  \<open>project_targets\<close> holds the errors of resolving
  the Kubernetes inspector, the target of an application and the cron manager.
\<close>

record project_targets =
  pt_k8s :: "go_error option"
  pt_app :: "application \<Rightarrow> go_error option"
  pt_cron :: "go_error option"

section \<open>Namespaces\<close>

lemma length_halved: "length (replace_all [a, a] [a] s) \<le> length s"
  by (induction "[a, a]" "[a]" s rule: replace_all.induct) (auto simp: has_prefix_def)

lemma length_halved_less: "contains s [a, a] \<Longrightarrow> length (replace_all [a, a] [a] s) < length s"
proof (induction s)
  case (Cons c s)
  show ?case
  proof (cases "has_prefix (c # s) [a, a]")
    case True
    then obtain t where "s = a # t" "c = a" by (auto simp: has_prefix_iff)
    then show ?thesis using length_halved [of a t] by (simp add: has_prefix_def)
  next
    case False
    then show ?thesis using Cons by simp
  qed
qed simp

function collapse_dashes :: "string \<Rightarrow> string" where
  "collapse_dashes s = (if contains s ''--'' then collapse_dashes (replace_all ''--'' ''-'' s) else s)"
  by pat_completeness auto
termination
  by (relation "measure length") (auto simp: length_halved_less)

declare collapse_dashes.simps [simp del]

definition is_slug_char :: "char \<Rightarrow> bool" where
  "is_slug_char c \<longleftrightarrow> is_lower_char c \<or> is_digit_char c \<or> c = CHR ''-''"

definition name_slug :: "string \<Rightarrow> string" where
  "name_slug name =
     (if is_ascii name
      then (let s = to_lower name; s = replace_all '' '' ''-'' s; s = replace_all ''_'' ''-'' s
            in trim_by (\<lambda>c. c = CHR ''-'') (collapse_dashes (filter is_slug_char s)))
      else ''proj'')"

definition id_suffix :: "libs \<Rightarrow> uuid \<Rightarrow> string" where
  "id_suffix L i = take 8 (replace_all ''-'' [] (uuid_str L i))"

definition generate_namespace :: "libs \<Rightarrow> string \<Rightarrow> uuid \<Rightarrow> string" where
  "generate_namespace L name i =
     (let ns = ''sb-'' @ name_slug name @ ''-'' @ id_suffix L i in if length ns > 63 then take 63 ns else ns)"

section \<open>Creation\<close>

record create_project_input =
  cpi_name :: string
  cpi_description :: string
  cpi_environment :: environment
  cpi_team :: uuid

definition invalid_environment :: "environment \<Rightarrow> go_error" where
  "invalid_environment e = ErrMsg (''invalid environment '' @ quoted e @ '' (must be one of prod, testing, sandbox, qa, poc, development)'')"

definition new_project :: "uuid \<Rightarrow> create_project_input \<Rightarrow> project" where
  "new_project og inp = \<lparr>bm_id = uuid_nil, bm_created = 0, bm_updated = 0, bm_deleted = None, p_org = og, p_team = cpi_team inp,
     p_team_row = None, p_name = cpi_name inp, p_namespace = [], p_description = cpi_description inp,
     p_environment = cpi_environment inp, p_env = None, p_service_account = [], p_quota = None, p_netpol = False\<rparr>"

definition abandon_project :: "project \<Rightarrow> string \<Rightarrow> go_error \<Rightarrow> 'a io" where
  "abandon_project p why e = seq (attempt (projects_delete (bm_id p))) (err (ErrWrap why e))"

definition set_up_namespace :: "project_targets \<Rightarrow> project \<Rightarrow> project io" where
  "set_up_namespace T p = (case pt_k8s T of
     Some e \<Rightarrow> abandon_project p ''failed to create namespace'' e
   | None \<Rightarrow> handle (cluster (CreateNamespace (p_namespace p))) (abandon_project p ''failed to create namespace'') (\<lambda>_.
       let sa = ''sa-'' @ p_namespace p in
       handle (cluster (EnsureServiceAccount (p_namespace p) sa)) (abandon_project p ''failed to create service account'') (\<lambda>_.
         let p' = p\<lparr>p_service_account := sa\<rparr> in seq (projects_update_row p') (ret p'))))"

definition project_create :: "libs \<Rightarrow> project_targets \<Rightarrow> uuid \<Rightarrow> create_project_input \<Rightarrow> project io" where
  "project_create L T og inp =
     (if \<not> env_is_valid (cpi_environment inp) then err (invalid_environment (cpi_environment inp))
      else handle (teams_get_by_id (cpi_team inp)) (\<lambda>_. err (ErrMsg ''team not found'')) (\<lambda>t.
        if t_org t \<noteq> og then err (ErrMsg ''team not found'')
        else bind (projects_create (new_project og inp)) (\<lambda>p0.
          let p = p0\<lparr>p_namespace := generate_namespace L (cpi_name inp) (bm_id p0)\<rparr> in
          seq (projects_update_row p) (set_up_namespace T p))))"

section \<open>Lists\<close>

definition project_list_for_user :: "uuid \<Rightarrow> role \<Rightarrow> uuid \<Rightarrow> list_params \<Rightarrow> (project list \<times> nat) io" where
  "project_list_for_user u r og q =
     (if is_privileged r then projects_list_by_org og q
      else bind (team_members_list_team_ids_by_user u) (\<lambda>ts. projects_list_by_teams og ts q))"

section \<open>Changes\<close>

record update_project_input =
  upi_name :: "string option"
  upi_description :: "string option"
  upi_environment :: "environment option"
  upi_env :: "str_map option"
  upi_quota :: "resource_quota option"
  upi_netpol :: "bool option"

definition with_project :: "update_project_input \<Rightarrow> project \<Rightarrow> project" where
  "with_project inp p = patched (upi_netpol inp) (\<lambda>x r. r\<lparr>p_netpol := x\<rparr>) (patched (upi_quota inp) (\<lambda>x r. r\<lparr>p_quota := Some x\<rparr>)
     (patched (upi_env inp) (\<lambda>x r. r\<lparr>p_env := Some x\<rparr>) (patched (upi_environment inp) (\<lambda>x r. r\<lparr>p_environment := x\<rparr>)
     (patched (upi_description inp) (\<lambda>x r. r\<lparr>p_description := x\<rparr>) (patched (upi_name inp) (\<lambda>x r. r\<lparr>p_name := x\<rparr>) p)))))"

definition first_thousand :: list_params where
  "first_thousand = \<lparr>lp_page = 1, lp_per_page = 1000\<rparr>"

definition push_env_to_apps :: "project_targets \<Rightarrow> project \<Rightarrow> unit io" where
  "push_env_to_apps T p = handle (applications_list_by_project (bm_id p) first_thousand) (\<lambda>_. ret ()) (\<lambda>(as, _).
     for_each (\<lambda>a. if pt_app T a \<noteq> None then ret () else attempt (cluster (PushEnv (bm_id a) (merged_env (Some p) a)))) as)"

text \<open>The jobs get a copy with the merged variables, which is not stored.\<close>

definition push_env_to_jobs :: "project_targets \<Rightarrow> project \<Rightarrow> unit io" where
  "push_env_to_jobs T p = handle (cron_jobs_list_by_project (bm_id p) first_thousand) (\<lambda>_. ret ()) (\<lambda>(cs, _).
     if pt_cron T \<noteq> None then ret () else for_each (\<lambda>c. attempt (cluster (CallCron ''update'' (bm_id c)))) cs)"

definition with_k8s :: "project_targets \<Rightarrow> cluster_call \<Rightarrow> unit io" where
  "with_k8s T c = (case pt_k8s T of Some _ \<Rightarrow> ret () | None \<Rightarrow> attempt (cluster c))"

definition sync_project :: "project_targets \<Rightarrow> update_project_input \<Rightarrow> project \<Rightarrow> unit io" where
  "sync_project T inp p =
     (if p_namespace p = [] then ret ()
      else seq (when_some (upi_env inp) (\<lambda>env. seq (with_k8s T (EnsureConfigMap (p_namespace p) env))
          (seq (push_env_to_apps T p) (push_env_to_jobs T p))))
        (seq (when_some (upi_quota inp) (\<lambda>q. with_k8s T (EnsureResourceQuota (p_namespace p) q)))
          (when_some (upi_netpol inp) (\<lambda>b. with_k8s T (EnsureNetworkPolicy (p_namespace p) b)))))"

definition project_update :: "project_targets \<Rightarrow> uuid \<Rightarrow> update_project_input \<Rightarrow> project io" where
  "project_update T i inp = bind (projects_get_by_id i) (\<lambda>p0.
     if (case upi_environment inp of None \<Rightarrow> False | Some e \<Rightarrow> \<not> env_is_valid e)
     then err (invalid_environment (the (upi_environment inp)))
     else let p = with_project inp p0 in seq (projects_update_row p) (seq (sync_project T inp p) (ret p)))"

definition project_update_env :: "project_targets \<Rightarrow> uuid \<Rightarrow> str_map option \<Rightarrow> project io" where
  "project_update_env T i env = project_update T i \<lparr>upi_name = None, upi_description = None, upi_environment = None,
     upi_env = env, upi_quota = None, upi_netpol = None\<rparr>"

definition project_delete :: "project_targets \<Rightarrow> uuid \<Rightarrow> unit io" where
  "project_delete T i = bind (projects_get_by_id i) (\<lambda>p.
     seq (if p_namespace p = [] then ret () else with_k8s T (DeleteNamespace (p_namespace p)))
       (seq (projects_delete i)
         (notify_resource_deleted (p_org p) ''project_deleted'' (p_name p) (''Project '' @ quoted (p_name p) @ '' was deleted''))))"

section \<open>What the namespaces are good for\<close>

lemma collapsed_set: "set (collapse_dashes s) \<subseteq> set s"
proof (induction s rule: collapse_dashes.induct)
  case (1 s)
  have h: "set (replace_all ''--'' ''-'' t) \<subseteq> set t" for t
    by (induction "''--''" "''-''" t rule: replace_all.induct) (auto simp: has_prefix_iff)
  show ?case by (subst collapse_dashes.simps) (use 1 h in auto)
qed

lemma slug_chars: "list_all label_char (name_slug s)"
proof (cases "is_ascii s")
  case True
  have c: "set (collapse_dashes (filter is_slug_char t)) \<subseteq> {c. label_char c}" for t
    using collapsed_set [of "filter is_slug_char t"] by (auto simp: is_slug_char_def label_char_def)
  have "set (trim_by (\<lambda>c. c = CHR ''-'') (collapse_dashes (filter is_slug_char t))) \<subseteq> {c. label_char c}" for t
    using set_trim_by c by (rule subset_trans)
  then show ?thesis unfolding name_slug_def Let_def if_P [OF True] list_all_iff by blast
next
  case False
  then show ?thesis by (simp add: name_slug_def label_char_def is_lower_char_def char_in_def)
qed

text \<open>What the text of an identifier looks like: lower-case hexadecimal digits in groups, more than eight of them.\<close>

definition hex_char :: "char \<Rightarrow> bool" where
  "hex_char c \<longleftrightarrow> is_digit_char c \<or> char_in c 97 102"

definition uuid_text_ok :: "libs \<Rightarrow> bool" where
  "uuid_text_ok L \<longleftrightarrow> (\<forall>i. 8 \<le> length (replace_all ''-'' [] (uuid_str L i)) \<and> list_all hex_char (replace_all ''-'' [] (uuid_str L i)))"

lemma id_suffix_shape:
  assumes "uuid_text_ok L"
  shows "length (id_suffix L i) = 8" "list_all hex_char (id_suffix L i)"
proof -
  let ?t = "replace_all ''-'' [] (uuid_str L i)"
  have t: "8 \<le> length ?t" "list_all hex_char ?t" using assms by (auto simp: uuid_text_ok_def)
  show "length (id_suffix L i) = 8" unfolding id_suffix_def length_take using t(1) by (rule min_absorb2)
  show "list_all hex_char (id_suffix L i)" using t(2) by (auto simp: id_suffix_def list_all_iff dest: in_set_takeD)
qed

lemma short_namespace:
  assumes "uuid_text_ok L" "length (name_slug n) \<le> 51"
  shows "generate_namespace L n i = ''sb-'' @ name_slug n @ ''-'' @ id_suffix L i"
  using assms(2) id_suffix_shape(1) [OF assms(1), of i] by (simp add: generate_namespace_def Let_def)

lemma long_namespace:
  assumes "uuid_text_ok L" "59 \<le> length (name_slug n)"
  shows "generate_namespace L n i = take 63 (''sb-'' @ name_slug n @ ''-'')"
proof -
  let ?p = "''sb-'' @ name_slug n @ ''-''"
  have p: "63 \<le> length ?p" using assms(2) by simp
  have "generate_namespace L n i = take 63 (?p @ id_suffix L i)"
    using id_suffix_shape(1) [OF assms(1), of i] assms(2) by (simp add: generate_namespace_def Let_def)
  also have "\<dots> = take 63 ?p" using p by (simp only: take_append diff_is_0_eq' take_0 append_Nil2)
  finally show ?thesis .
qed

lemma namespace_label:
  assumes "uuid_text_ok L" "length (name_slug n) \<le> 51"
  shows "dns_label (generate_namespace L n i)"
proof -
  let ?x = "id_suffix L i"
  note x = id_suffix_shape [OF assms(1), of i]
  have ne: "?x \<noteq> []" using x(1) by auto
  then have "hex_char (last ?x)" using x(2) by (simp add: list_all_iff)
  then have l: "last ?x \<noteq> CHR ''-''" by (auto simp: hex_char_def is_digit_char_def char_in_def)
  have "list_all label_char ?x"
    using x(2) by (auto simp: list_all_iff hex_char_def label_char_def is_lower_char_def char_in_def)
  then show ?thesis unfolding short_namespace [OF assms] dns_label_def
    using slug_chars [of n] ne l x(1) assms(2)
    by (simp add: label_char_def is_lower_char_def char_in_def)
qed

text \<open>C11 (namespace_isolates): a project's namespace is the boundary of its quota, its network policy and its deletion.  While the
  slug of a project's name has at most 51 characters, the namespace is a valid Kubernetes name and two projects share one
  only if their slugs and the first eight digits of their identifiers agree.  From 59 characters on, the cut to 63 removes
  the identifier entirely: every project whose name has that slug gets the same namespace.\<close>

theorem namespace_isolates:
  assumes "uuid_text_ok L"
  shows "(length (name_slug n) \<le> 51 \<longrightarrow> dns_label (generate_namespace L n i) \<and>
      (\<forall>m j. length (name_slug m) \<le> 51 \<longrightarrow>
        (generate_namespace L m j = generate_namespace L n i \<longleftrightarrow> name_slug m = name_slug n \<and> id_suffix L j = id_suffix L i))) \<and>
    (59 \<le> length (name_slug n) \<longrightarrow> (\<forall>j. generate_namespace L n j = generate_namespace L n i))"
proof (intro conjI impI allI)
  assume n: "length (name_slug n) \<le> 51"
  show "dns_label (generate_namespace L n i)" by (rule namespace_label [OF assms n])
  fix m j assume m: "length (name_slug m) \<le> 51"
  show "generate_namespace L m j = generate_namespace L n i \<longleftrightarrow> name_slug m = name_slug n \<and> id_suffix L j = id_suffix L i"
    unfolding short_namespace [OF assms n] short_namespace [OF assms m]
    using id_suffix_shape(1) [OF assms, of i] id_suffix_shape(1) [OF assms, of j]
      append_eq_append_conv [of "''-'' @ id_suffix L j" "''-'' @ id_suffix L i" "name_slug m" "name_slug n"] by auto
next
  fix j assume n: "59 \<le> length (name_slug n)"
  show "generate_namespace L n j = generate_namespace L n i" by (simp only: long_namespace [OF assms n])
qed

definition printed_ids :: libs where
  "printed_ids = demo_libs\<lparr>uuid_str := \<lambda>i. hex_encode [ucast (drop_bit 96 i), ucast (drop_bit 64 i), ucast (drop_bit 32 i), ucast i]\<rparr>"

lemma hex_digits: "list_all hex_char (hex_encode bs)"
proof -
  have d: "hex_char (hex_digit n)" if "n < 16" for n
    using that by (auto simp: hex_char_def hex_digit_def is_digit_char_def char_in_def)
  have u: "unat b div 16 < 16" for b :: "8 word" using unsigned_less [of b, where ?'a = nat] by simp
  show ?thesis by (induction bs) (auto simp: hex_encode_def d u)
qed

lemma printed_ids_ok: "uuid_text_ok printed_ids"
proof -
  have k: "replace_all ''-'' [] s = s" if "list_all hex_char s" for s
    using that by (induction s) (auto simp: has_prefix_def hex_char_def is_digit_char_def char_in_def)
  show ?thesis by (simp add: uuid_text_ok_def printed_ids_def k [OF hex_digits] hex_digits)
qed

lemma demo_slug: "name_slug ''My Shop'' = ''my-shop''"
  by (simp add: name_slug_def collapse_dashes.simps is_ascii_def) code_simp

lemma demo_long_slug: "name_slug (replicate 60 CHR ''a'') = replicate 60 CHR ''a''"
  by code_simp

lemma namespace_isolates_witness:
  "dns_label (generate_namespace printed_ids ''My Shop'' 7) \<and>
   generate_namespace printed_ids (replicate 60 CHR ''a'') 7 = generate_namespace printed_ids (replicate 60 CHR ''a'') 8"
  using namespace_isolates [OF printed_ids_ok, of "''My Shop''" 7] namespace_isolates [OF printed_ids_ok, of "replicate 60 CHR ''a''" 8]
  by (simp add: demo_slug demo_long_slug)

end
