(* ===== verification/Cron_Service.thy ===== *)
theory Cron_Service imports Webhooks Project_Service begin

text \<open>
  Cron jobs (\<open>service/cronjob_service.go\<close>): a row and a CronJob of the cluster, and the runs started by hand, each watched
  by a goroutine until its Kubernetes job has ended or 30 minutes are over.  \<open>cron_target\<close> is the cron manager: whether it can
  be resolved, whether it refuses a call for a job, and the name it gives a triggered run.  What other requests do to the
  database between two polls is part of the list of polls.
\<close>

record cron_target =
  ct_error :: "go_error option"
  ct_refuses :: "string \<Rightarrow> cron_job \<Rightarrow> go_error option"
  ct_job_name :: "cron_job \<Rightarrow> string"

definition call_cron :: "cron_target \<Rightarrow> string \<Rightarrow> cron_job \<Rightarrow> unit io" where
  "call_cron T op c = seq (cluster (CallCron op (bm_id c))) (fails_with (ct_refuses T op c))"

definition no_cron :: "go_error \<Rightarrow> go_error" where
  "no_cron e = ErrWrap ''cron capability unavailable'' e"

section \<open>Creation and changes\<close>

definition with_merged_env :: "cron_job \<Rightarrow> str_map option \<Rightarrow> cron_job" where
  "with_merged_env c env = (case env of None \<Rightarrow> c | Some e \<Rightarrow> c\<lparr>cj_env := e ++ cj_env c\<rparr>)"

record create_cron_input =
  cci_project :: uuid
  cci_name :: string
  cci_description :: string
  cci_expression :: string
  cci_timezone :: string
  cci_command :: string
  cci_image :: string
  cci_source :: string
  cci_git_repo :: string
  cci_git_branch :: string
  cci_env :: str_map
  cci_cpu_limit :: string
  cci_mem_limit :: string
  cci_enabled :: bool
  cci_concurrency :: string
  cci_restart :: string
  cci_backoff :: "int option"
  cci_deadline :: int

definition new_cron_job :: "create_cron_input \<Rightarrow> project \<Rightarrow> cron_job" where
  "new_cron_job inp p = \<lparr>bm_id = uuid_nil, bm_created = 0, bm_updated = 0, bm_deleted = None, cj_project = cci_project inp,
     cj_name = cci_name inp, cj_description = cci_description inp, cj_expression = cci_expression inp,
     cj_timezone = or_default ''UTC'' (cci_timezone inp), cj_command = cci_command inp,
     cj_image = or_default ''busybox:latest'' (cci_image inp), cj_source = or_default ''image'' (cci_source inp),
     cj_git_repo = cci_git_repo inp, cj_git_branch = or_default ''main'' (cci_git_branch inp), cj_env = cci_env inp,
     cj_cpu_limit = or_default ''500m'' (cci_cpu_limit inp), cj_mem_limit = or_default ''512Mi'' (cci_mem_limit inp),
     cj_enabled = cci_enabled inp, cj_concurrency = or_default ''Forbid'' (cci_concurrency inp),
     cj_restart = or_default ''OnFailure'' (cci_restart inp), cj_backoff = (case cci_backoff inp of None \<Rightarrow> 3 | Some n \<Rightarrow> n),
     cj_deadline = cci_deadline inp, cj_namespace = p_namespace p, cj_k8s_name = [], cj_last_run = None, cj_status = CronJobIdle\<rparr>"

definition cron_create :: "cron_target \<Rightarrow> create_cron_input \<Rightarrow> cron_job io" where
  "cron_create T inp = bind (projects_get_by_id (cci_project inp)) (\<lambda>p.
     if cci_source inp = ''git''
     then err (ErrMsg (''CronJobs do not support git source type '' @ em_dash @ '' use a pre-built container image instead''))
     else bind (cron_jobs_create (new_cron_job inp p)) (\<lambda>c.
       case ct_error T of
         Some e \<Rightarrow> seq (attempt (cron_jobs_delete (bm_id c))) (err (no_cron e))
       | None \<Rightarrow> handle (call_cron T ''create'' (with_merged_env c (p_env p)))
           (\<lambda>e. seq (attempt (cron_jobs_delete (bm_id c))) (err (ErrWrap ''failed to create K8s CronJob'' e)))
           (\<lambda>_. ret c)))"

record update_cron_input =
  uci_expression :: "string option"
  uci_timezone :: "string option"
  uci_command :: "string option"
  uci_image :: "string option"
  uci_env :: "str_map option"
  uci_cpu_limit :: "string option"
  uci_mem_limit :: "string option"
  uci_enabled :: "bool option"
  uci_concurrency :: "string option"
  uci_restart :: "string option"
  uci_backoff :: "int option"
  uci_deadline :: "int option"
  uci_description :: "string option"

definition with_cron :: "update_cron_input \<Rightarrow> cron_job \<Rightarrow> cron_job" where
  "with_cron inp c = patched (uci_description inp) (\<lambda>x r. r\<lparr>cj_description := x\<rparr>) (patched (uci_deadline inp) (\<lambda>x r. r\<lparr>cj_deadline := x\<rparr>)
     (patched (uci_backoff inp) (\<lambda>x r. r\<lparr>cj_backoff := x\<rparr>) (patched (uci_restart inp) (\<lambda>x r. r\<lparr>cj_restart := x\<rparr>)
     (patched (uci_concurrency inp) (\<lambda>x r. r\<lparr>cj_concurrency := x\<rparr>) (patched (uci_enabled inp) (\<lambda>x r. r\<lparr>cj_enabled := x\<rparr>)
     (patched (uci_mem_limit inp) (\<lambda>x r. r\<lparr>cj_mem_limit := x\<rparr>) (patched (uci_cpu_limit inp) (\<lambda>x r. r\<lparr>cj_cpu_limit := x\<rparr>)
     (patched (uci_env inp) (\<lambda>x r. r\<lparr>cj_env := x\<rparr>) (patched (uci_image inp) (\<lambda>x r. r\<lparr>cj_image := x\<rparr>)
     (patched (uci_command inp) (\<lambda>x r. r\<lparr>cj_command := x\<rparr>) (patched (uci_timezone inp) (\<lambda>x r. r\<lparr>cj_timezone := x\<rparr>)
     (patched (uci_expression inp) (\<lambda>x r. r\<lparr>cj_expression := x\<rparr>) c))))))))))))"

definition cron_update :: "cron_target \<Rightarrow> uuid \<Rightarrow> update_cron_input \<Rightarrow> cron_job io" where
  "cron_update T i inp = bind (cron_jobs_get_by_id i) (\<lambda>c0. let c = with_cron inp c0 in
     seq (cron_jobs_update_row c)
      (bind (handle (projects_get_by_id (cj_project c)) (\<lambda>_. ret None) (\<lambda>p. ret (p_env p))) (\<lambda>env.
         case ct_error T of
           Some e \<Rightarrow> err (no_cron e)
         | None \<Rightarrow> handle (call_cron T ''update'' (with_merged_env c env)) (\<lambda>e. err (ErrWrap ''failed to update K8s CronJob'' e))
             (\<lambda>_. ret c))))"

definition cron_delete :: "cron_target \<Rightarrow> uuid \<Rightarrow> unit io" where
  "cron_delete T i = bind (cron_jobs_get_by_id i) (\<lambda>c.
     case ct_error T of
       Some e \<Rightarrow> err (no_cron e)
     | None \<Rightarrow> handle (call_cron T ''delete'' c) (\<lambda>e. err (ErrWrap ''failed to delete K8s CronJob'' e)) (\<lambda>_.
         seq (cron_jobs_delete i) (notify_project_resource_deleted (cj_project c) ''cronjob_deleted'' (cj_name c)
           (''Cron job '' @ quoted (cj_name c) @ '' was deleted''))))"

section \<open>Runs started by hand\<close>

definition manual_run :: "time \<Rightarrow> cron_job \<Rightarrow> string \<Rightarrow> cron_run" where
  "manual_run t c n = \<lparr>bm_id = uuid_nil, bm_created = 0, bm_updated = 0, bm_deleted = None, cr_job = bm_id c, cr_status = CronRunRunning,
     cr_started = t, cr_finished = None, cr_exit = None, cr_logs = ''Job created: '' @ n, cr_trigger = ''manual''\<rparr>"

definition cron_trigger :: "cron_target \<Rightarrow> uuid \<Rightarrow> (cron_job \<times> cron_run) io" where
  "cron_trigger T i = bind (cron_jobs_get_by_id i) (\<lambda>c0. case ct_error T of Some e \<Rightarrow> err e | None \<Rightarrow>
     seq (call_cron T ''trigger'' c0) (bind now (\<lambda>t.
       let c = c0\<lparr>cj_last_run := Some t, cj_status := CronJobRunning\<rparr> in
       seq (attempt (cron_jobs_update_row c))
         (bind (cron_runs_create (manual_run t c (ct_job_name T c0))) (\<lambda>r. ret (c, r))))))"

definition settle_run :: "cron_job \<Rightarrow> cron_run \<Rightarrow> unit io" where
  "settle_run c r = seq (attempt (cron_runs_update_row r)) (attempt (cron_jobs_update_row (c\<lparr>cj_status := CronJobIdle\<rparr>)))"

definition meantime :: "(database \<Rightarrow> database) \<Rightarrow> unit io" where
  "meantime f = modify (\<lambda>w. w\<lparr>db := f (db w)\<rparr>)"

text \<open>One entry a tick: what others did before it, and the status of the Kubernetes job, None when it cannot be read.  The list
  ends when the context does.\<close>

fun watch_job :: "cron_target \<Rightarrow> (database \<Rightarrow> database) \<Rightarrow> ((database \<Rightarrow> database) \<times> string option) list \<Rightarrow>
    cron_job \<Rightarrow> cron_run \<Rightarrow> unit io" where
  "watch_job T f [] c r = seq (meantime f) (bind now (\<lambda>t.
     settle_run c (r\<lparr>cr_status := CronRunFailed, cr_finished := Some t,
       cr_logs := cr_logs r @ CHR 0x0A # ''Timed out waiting for completion''\<rparr>)))"
| "watch_job T f ((g, s) # ticks) c r = seq (meantime g)
     (if ct_error T \<noteq> None then watch_job T f ticks c r
      else if s = Some ''succeeded'' then bind now (\<lambda>t. settle_run c (r\<lparr>cr_finished := Some t, cr_status := CronRunSucceeded\<rparr>))
      else if s = Some ''failed'' then bind now (\<lambda>t. settle_run c (r\<lparr>cr_finished := Some t, cr_status := CronRunFailed\<rparr>))
      else watch_job T f ticks c r)"

definition run_by_hand :: "cron_target \<Rightarrow> (database \<Rightarrow> database) \<Rightarrow> ((database \<Rightarrow> database) \<times> string option) list \<Rightarrow> uuid \<Rightarrow> cron_run io" where
  "run_by_hand T f ticks i = bind (cron_trigger T i) (\<lambda>(c, r). seq (watch_job T f ticks c r) (ret r))"

section \<open>Every run ends\<close>

definition leaves_runs :: "(database \<Rightarrow> database) \<Rightarrow> bool" where
  "leaves_runs f \<longleftrightarrow> (\<forall>d. (\<forall>i. by_id i (cron_runs d) \<noteq> None \<longrightarrow> by_id i (cron_runs (f d)) = by_id i (cron_runs d)) \<and>
     (distinct_ids (cron_runs d) \<longrightarrow> distinct_ids (cron_runs (f d))) \<and> (distinct_ids (cron_jobs d) \<longrightarrow> distinct_ids (cron_jobs (f d))))"

definition run_open :: "cron_run \<Rightarrow> world \<Rightarrow> bool" where
  "run_open r w \<longleftrightarrow> calm w \<and> distinct_ids (cron_runs (db w)) \<and> distinct_ids (cron_jobs (db w)) \<and> by_id (bm_id r) (cron_runs (db w)) = Some r"

definition run_settled :: "cron_job \<Rightarrow> cron_run \<Rightarrow> cron_run_status \<Rightarrow> world \<Rightarrow> bool" where
  "run_settled c r fin w \<longleftrightarrow>
     (\<exists>x. by_id (bm_id r) (cron_runs (db w)) = Some x \<and> cr_status x = fin \<and> cr_finished x \<noteq> None) \<and>
     (case by_id (bm_id c) (cron_jobs (db w)) of None \<Rightarrow> True | Some y \<Rightarrow> y = c\<lparr>cj_status := CronJobIdle\<rparr>)"

lemma ens_meantime: "leaves_runs f \<Longrightarrow> ensures (run_open r) (meantime f) (succeeds (\<lambda>_. run_open r))"
  by (auto simp: ensures_def meantime_def run_open_def leaves_runs_def)

lemma ens_settle:
  assumes x: "bm_id x = bm_id r" "cr_status x = fin" "cr_finished x \<noteq> None" "live x"
    and c: "live c"
  shows "ensures (run_open r) (settle_run c x) (succeeds (\<lambda>_. run_settled c r fin))"
proof -
  have c': "live (c\<lparr>cj_status := CronJobIdle\<rparr>)" using c by (simp add: live_def)
  have "run_settled c r fin (snd (settle_run c x w)) \<and> fst (settle_run c x w) = Inr ()" if w: "run_open r w" for w
  proof -
    let ?w1 = "(next_fault w)\<lparr>db := cron_runs_update (replace_pk x) (db w)\<rparr>"
    have 1: "cron_runs_update_row x w = (Inr (), ?w1)"
      using w by (simp add: cron_runs_update_row_def update_row_Inr run_open_def no_index_def)
    have "calm ?w1" using w by (simp add: run_open_def)
    then have 2: "cron_jobs_update_row (c\<lparr>cj_status := CronJobIdle\<rparr>) ?w1 =
        (Inr (), (next_fault ?w1)\<lparr>db := cron_jobs_update (replace_pk (c\<lparr>cj_status := CronJobIdle\<rparr>)) (db ?w1)\<rparr>)"
      by (simp add: cron_jobs_update_row_def update_row_Inr no_index_def)
    have s: "settle_run c x w = (Inr (), (next_fault ?w1)\<lparr>db := cron_jobs_update (replace_pk (c\<lparr>cj_status := CronJobIdle\<rparr>)) (db ?w1)\<rparr>)"
      by (simp add: settle_run_def seq_def bind_def attempt_def handle_def 1 2)
    have "by_id (bm_id r) (replace_pk x (cron_runs (db w))) = Some x"
      using w x by (simp add: run_open_def by_id_replace_pk)
    moreover have "case by_id (bm_id c) (replace_pk (c\<lparr>cj_status := CronJobIdle\<rparr>) (cron_jobs (db w))) of None \<Rightarrow> True
        | Some y \<Rightarrow> y = c\<lparr>cj_status := CronJobIdle\<rparr>"
    proof (cases "by_id (bm_id c) (cron_jobs (db w))")
      case None
      then show ?thesis using replace_pk_absent [of "c\<lparr>cj_status := CronJobIdle\<rparr>"] by simp
    next
      case (Some y)
      then show ?thesis using w c' by (simp add: run_open_def by_id_replace_pk)
    qed
    ultimately show ?thesis using x unfolding s run_settled_def by simp
  qed
  then show ?thesis by (auto simp: ensures_def succeeds_def)
qed

text \<open>The outcome of a run: the first of the answers that is final, and failed when none was in time.\<close>

definition final_answer :: "((database \<Rightarrow> database) \<times> string option) list \<Rightarrow> cron_run_status" where
  "final_answer ticks = (case filter (\<lambda>s. s \<in> {Some ''succeeded'', Some ''failed''}) (map snd ticks) of
     [] \<Rightarrow> CronRunFailed | s # _ \<Rightarrow> if s = Some ''succeeded'' then CronRunSucceeded else CronRunFailed)"

lemma ens_watch:
  assumes "live c" "live r" "leaves_runs f" "list_all (\<lambda>(g, s). leaves_runs g) ticks" "ct_error T = None"
  shows "ensures (run_open r) (watch_job T f ticks c r) (succeeds (\<lambda>_. run_settled c r (final_answer ticks)))"
  using assms(4)
proof (induction ticks)
  case Nil
  show ?case unfolding watch_job.simps
    by (rule ens_seq [OF ens_meantime [OF assms(3)]], rule ens_bind_now, rule ens_settle) (use assms in \<open>auto simp: live_def final_answer_def\<close>)
next
  case (Cons e ticks)
  obtain g s where e: "e = (g, s)" by (cases e)
  have g: "leaves_runs g" and IH: "ensures (run_open r) (watch_job T f ticks c r) (succeeds (\<lambda>_. run_settled c r (final_answer ticks)))"
    using Cons e by auto
  have ends: "ensures (run_open r) (bind now (\<lambda>t. settle_run c (r\<lparr>cr_finished := Some t, cr_status := fin\<rparr>)))
      (succeeds (\<lambda>_. run_settled c r fin))" for fin
    by (rule ens_bind_now, rule ens_settle) (use assms in \<open>auto simp: live_def\<close>)
  have a: "final_answer (e # ticks) = (if s = Some ''succeeded'' then CronRunSucceeded else if s = Some ''failed'' then CronRunFailed
      else final_answer ticks)"
    by (simp add: final_answer_def e)
  show ?case unfolding e watch_job.simps
    by (rule ens_seq [OF ens_meantime [OF g]]) (use a e in \<open>auto intro: IH ends simp: assms(5)\<close>)
qed

lemma trigger_opens:
  assumes w: "calm w" "distinct_ids (cron_jobs (db w))" "distinct_ids (cron_runs (db w))" and run: "cron_trigger T i w = (Inr (c, r), w')"
  shows "\<exists>c0. by_id i (cron_jobs (db w)) = Some c0 \<and> c = c0\<lparr>cj_last_run := Some (clock w), cj_status := CronJobRunning\<rparr> \<and> live c \<and> live r \<and> run_open r w'"
proof -
  have call: "\<And>v v' x. call_cron T ''trigger'' c0 v = (Inr x, v') \<Longrightarrow> (calm v \<longrightarrow> calm v') \<and> db v' = db v \<and> clock v' = clock v" for c0
    by (auto simp: call_cron_def seq_Inr cluster_def fails_with_def next_fault_def calm_def fault_now_def split: if_splits option.splits)
  obtain c0 w1 where c0: "by_id i (cron_jobs (db w)) = Some c0" "w1 = next_fault w"
    and k: "(case ct_error T of Some e \<Rightarrow> err e | None \<Rightarrow>
     seq (call_cron T ''trigger'' c0) (bind now (\<lambda>t.
       let c = c0\<lparr>cj_last_run := Some t, cj_status := CronJobRunning\<rparr> in
       seq (attempt (cron_jobs_update_row c))
         (bind (cron_runs_create (manual_run t c (ct_job_name T c0))) (\<lambda>r. ret (c, r)))))) w1 = (Inr (c, r), w')"
    using run w(1) by (auto simp: cron_trigger_def bind_Inr cron_jobs_get_by_id_def query_row_Inr)
  obtain w2 where w2: "call_cron T ''trigger'' c0 w1 = (Inr (), w2)"
    and c: "c = c0\<lparr>cj_last_run := Some (clock w2), cj_status := CronJobRunning\<rparr>"
    and cr: "cron_runs_create (manual_run (clock w2) c (ct_job_name T c0)) (snd (cron_jobs_update_row c w2)) = (Inr r, w')"
    using k by (auto simp: seq_Inr bind_Inr attempt_eval now_eval Let_def split: option.splits)
  have w2': "calm w2" "db w2 = db w" "clock w2 = clock w" using call [OF w2] c0(2) w(1) by auto
  have u: "cron_jobs_update_row c w2 = (Inr (), (next_fault w2)\<lparr>db := cron_jobs_update (replace_pk c) (db w2)\<rparr>)"
    using w2'(1) by (simp add: cron_jobs_update_row_def update_row_Inr no_index_def)
  let ?w3 = "(next_fault w2)\<lparr>db := cron_jobs_update (replace_pk c) (db w2)\<rparr>"
  note ins = insert_rowD [OF cr [unfolded u snd_conv cron_runs_create_def]]
  have "calm w'" using cr w2'(1) keepsD [OF calm_more(1), of ?w3] by (simp add: u cron_runs_create_def)
  moreover have "live c" using find_live_iff c0(1) c by (auto simp: by_id_def live_def dest: by_id_live)
  moreover have rows: "cron_runs (db w') = append_row r (cron_runs (db w))" "cron_jobs (db w') = replace_pk c (cron_jobs (db w))"
    unfolding ins(4) by (simp_all add: w2')
  have new: "bm_id r \<notin> set (map bm_id (cron_runs (db w)))" using ins(2) by (simp add: w2')
  have "distinct_ids (append_row r (cron_runs (db w)))" using w(3) new by (simp add: distinct_ids_def append_row_def)
  moreover have "by_id (bm_id r) (append_row r (cron_runs (db w))) = Some r" using by_id_append_row [OF new ins(5)] by simp
  ultimately have "run_open r w'" using w(2) by (simp add: run_open_def rows distinct_ids_def)
  moreover note \<open>live c\<close> ins(5)
  ultimately show ?thesis using c0(1) c w2'(3) by auto
qed

lemma trigger_target: "cron_trigger T i w = (Inr x, w') \<Longrightarrow> ct_error T = None"
  by (cases "ct_error T") (auto simp: cron_trigger_def bind_Inr err_def)

text \<open>The watcher ignores the errors of its writes: one that fails leaves the run's row as it was, and nothing looks at it again.\<close>

lemma lost_settlement: "fault_now w \<Longrightarrow> fst (settle_run c x w) = Inr () \<and> cron_runs (db (snd (settle_run c x w))) = cron_runs (db w)"
  by (simp add: settle_run_def seq_def bind_def handle_def attempt_eval cron_runs_update_row_def cron_jobs_update_row_def update_row_def
      statement_def)


definition demo_cron_job :: cron_job where
  "demo_cron_job = \<lparr>bm_id = 5, bm_created = 0, bm_updated = 0, bm_deleted = None, cj_project = 9, cj_name = ''nightly'',
     cj_description = [], cj_expression = ''0 3 * * *'', cj_timezone = ''UTC'', cj_command = ''true'', cj_image = ''busybox:latest'',
     cj_source = ''image'', cj_git_repo = [], cj_git_branch = ''main'', cj_env = Map.empty, cj_cpu_limit = ''500m'',
     cj_mem_limit = ''512Mi'', cj_enabled = True, cj_concurrency = ''Forbid'', cj_restart = ''OnFailure'', cj_backoff = 3,
     cj_deadline = 0, cj_namespace = ''sb-shop'', cj_k8s_name = [], cj_last_run = None, cj_status = CronJobIdle\<rparr>"

definition demo_cron_target :: cron_target where
  "demo_cron_target = \<lparr>ct_error = None, ct_refuses = (\<lambda>_ _. None), ct_job_name = (\<lambda>_. ''nightly-1'')\<rparr>"

text \<open>Someone moves the schedule to four o'clock while the run is watched.\<close>

definition rescheduled :: "database \<Rightarrow> database" where
  "rescheduled = cron_jobs_update (map (\<lambda>c. c\<lparr>cj_expression := ''0 4 * * *''\<rparr>))"

lemma rescheduled_leaves_runs: "leaves_runs rescheduled"
  by (simp add: leaves_runs_def rescheduled_def distinct_ids_def comp_def)


end
