(* ===== verification/Metrics_Alerts.thy ===== *)
theory Metrics_Alerts imports Cron_Service begin

text \<open>
  Metrics and alerts (\<open>service/metrics_collector.go\<close>, \<open>service/alert_evaluator.go\<close>).  Every 30 seconds the leader reads the
  cluster, stores what it saw and compares the firing sources of each built-in rule with the active alerts.
  \<open>cluster_view\<close> is what the Kubernetes inspector answers; a request of it may fail.  The order in which Go walks a map is
  the parameter \<open>order\<close>.  The readings \<open>kv_millis\<close> and \<open>kv_bytes\<close> of quantities and the text \<open>kv_percent\<close> are floating point
  and stay parameters; a usage above 0.90 is exact for totals below \<open>10 ^ 15\<close>, where the quotient of two doubles and the
  constant round to the same side.
\<close>

record node_metrics =
  nm_name :: string
  nm_cpu_used :: string
  nm_cpu_total :: string
  nm_mem_used :: string
  nm_mem_total :: string
  nm_pods :: int

record node_info =
  ni_name :: string
  ni_ip :: string
  ni_status :: string
  ni_roles :: "string list"

record container_status =
  cs_name :: string
  cs_reason :: string

record pod_info =
  pi_name :: string
  pi_phase :: string
  pi_usage :: node_metrics
  pi_containers :: "container_status list"
  pi_app :: string

text \<open>A \<open>ClusterEvent\<close> has the fields of a \<open>MetricEvent\<close>.\<close>

record cluster_view =
  kv_node_metrics :: "go_error + node_metrics list"
  kv_nodes :: "go_error + node_info list"
  kv_pods :: "go_error + pod_info list"
  kv_events :: "nat \<Rightarrow> go_error + metric_event list"
  kv_millis :: "string \<Rightarrow> int"
  kv_bytes :: "string \<Rightarrow> int"
  kv_percent :: "int \<Rightarrow> int \<Rightarrow> string"

definition answer :: "go_error + 'a list \<Rightarrow> 'a list" where
  "answer r = (case r of Inl _ \<Rightarrow> [] | Inr xs \<Rightarrow> xs)"

section \<open>Rules\<close>

record alert_firing =
  af_source :: string
  af_message :: string

definition firing :: "string \<Rightarrow> string \<Rightarrow> alert_firing" where
  "firing s m = \<lparr>af_source = s, af_message = m\<rparr>"

definition above_limit :: "int \<Rightarrow> int \<Rightarrow> bool" where
  "above_limit used cap \<longleftrightarrow> cap > 0 \<and> 10 * used > 9 * cap"

definition node_cpu_high :: "cluster_view \<Rightarrow> alert_firing list" where
  "node_cpu_high V = concat (map (\<lambda>n. let u = kv_millis V (nm_cpu_used n); t = kv_millis V (nm_cpu_total n) in
     if above_limit u t then [firing (nm_name n) (''Node '' @ nm_name n @ '' CPU usage at '' @ kv_percent V u t @ ''%'')] else [])
     (answer (kv_node_metrics V)))"

definition node_mem_high :: "cluster_view \<Rightarrow> alert_firing list" where
  "node_mem_high V = concat (map (\<lambda>n. let u = kv_bytes V (nm_mem_used n); t = kv_bytes V (nm_mem_total n) in
     if above_limit u t then [firing (nm_name n) (''Node '' @ nm_name n @ '' memory usage at '' @ kv_percent V u t @ ''%'')] else [])
     (answer (kv_node_metrics V)))"

definition node_not_ready :: "cluster_view \<Rightarrow> alert_firing list" where
  "node_not_ready V = concat (map (\<lambda>n. if ni_status n \<noteq> ''Ready''
     then [firing (ni_name n) (''Node '' @ ni_name n @ '' is '' @ ni_status n)] else []) (answer (kv_nodes V)))"

definition container_firings :: "(container_status \<Rightarrow> bool) \<Rightarrow> (pod_info \<Rightarrow> container_status \<Rightarrow> string) \<Rightarrow> cluster_view \<Rightarrow> alert_firing list" where
  "container_firings P msg V = concat (map (\<lambda>p. map (\<lambda>c. firing (pi_name p) (msg p c)) (filter P (pi_containers p))) (answer (kv_pods V)))"

definition pod_crashloop :: "cluster_view \<Rightarrow> alert_firing list" where
  "pod_crashloop = container_firings (\<lambda>c. cs_reason c = ''CrashLoopBackOff'')
     (\<lambda>p c. ''Pod '' @ pi_name p @ '' container '' @ cs_name c @ '' in CrashLoopBackOff'')"

definition pod_oom_killed :: "cluster_view \<Rightarrow> alert_firing list" where
  "pod_oom_killed = container_firings (\<lambda>c. cs_reason c = ''OOMKilled'')
     (\<lambda>p c. ''Pod '' @ pi_name p @ '' container '' @ cs_name c @ '' was OOM killed'')"

definition pod_image_pull_error :: "cluster_view \<Rightarrow> alert_firing list" where
  "pod_image_pull_error = container_firings (\<lambda>c. cs_reason c = ''ImagePullBackOff'' \<or> cs_reason c = ''ErrImagePull'')
     (\<lambda>p c. ''Pod '' @ pi_name p @ '' failed to pull image ('' @ cs_reason c @ '')'')"

definition pod_scheduling_failed :: "cluster_view \<Rightarrow> alert_firing list" where
  "pod_scheduling_failed V = concat (map (\<lambda>p. if pi_phase p = ''Pending'' \<and> list_ex (\<lambda>c. cs_reason c = ''Unschedulable'') (pi_containers p)
     then [firing (pi_name p) (''Pod '' @ pi_name p @ '' cannot be scheduled (Unschedulable)'')] else []) (answer (kv_pods V)))"

definition ignored_reasons :: "string list" where
  "ignored_reasons = [''Pulling'', ''Pulled'', ''Created'', ''Started'', ''Killing'', ''Scheduled'', ''SuccessfulCreate'', ''NodeReady'',
     ''RegisteredNode'', ''Starting'', ''FreeDiskSpaceFailed'', ''Evicted'', ''Preempting'', ''DNSConfigForming'', ''SuccessfulAttachVolume'']"

text \<open>The warnings of the last five minutes, one for each object and reason; evictions are counted into one.\<close>

definition event_seen_key :: "metric_event \<Rightarrow> string" where
  "event_seen_key e = me_object e @ CHR ''/'' # me_reason e"

fun warning_firings :: "string set \<Rightarrow> metric_event list \<Rightarrow> alert_firing list" where
  "warning_firings seen [] = []"
| "warning_firings seen (e # es) =
     (if me_reason e \<in> set ignored_reasons \<or> event_seen_key e \<in> seen then warning_firings seen es
      else firing (me_object e) (CHR ''['' # me_namespace e @ ''] '' @ me_reason e @ '': '' @ me_message e)
        # warning_firings (insert (event_seen_key e) seen) es)"

definition recent_warnings :: "time \<Rightarrow> cluster_view \<Rightarrow> metric_event list" where
  "recent_warnings t V = filter (\<lambda>e. me_type e = ''Warning'' \<and> \<not> me_last e < t - 5 * minute) (answer (kv_events V 50))"

definition k8s_warning_events :: "time \<Rightarrow> cluster_view \<Rightarrow> alert_firing list" where
  "k8s_warning_events t V =
     (let ws = recent_warnings t V; ev = filter (\<lambda>e. me_reason e = ''Evicted'') ws;
          told = filter (\<lambda>e. me_message e \<noteq> []) ev; node = (if told = [] then [] else me_object (last told)) in
      warning_firings {} (filter (\<lambda>e. me_reason e \<noteq> ''Evicted'') ws) @
      (if ev = [] then [] else [firing (if node = [] then ''cluster'' else node)
        (digits_of (length ev) @ '' pods evicted due to DiskPressure '' @ em_dash @ '' free disk space on affected nodes'')]))"

record alert_rule =
  ar_name :: string
  ar_severity :: string
  ar_source_type :: string
  ar_evaluate :: "time \<Rightarrow> cluster_view \<Rightarrow> alert_firing list"

definition builtin_rules :: "alert_rule list" where
  "builtin_rules =
    [\<lparr>ar_name = ''node_cpu_high'', ar_severity = ''warning'', ar_source_type = ''node'', ar_evaluate = (\<lambda>_. node_cpu_high)\<rparr>,
     \<lparr>ar_name = ''node_mem_high'', ar_severity = ''warning'', ar_source_type = ''node'', ar_evaluate = (\<lambda>_. node_mem_high)\<rparr>,
     \<lparr>ar_name = ''node_not_ready'', ar_severity = ''critical'', ar_source_type = ''node'', ar_evaluate = (\<lambda>_. node_not_ready)\<rparr>,
     \<lparr>ar_name = ''pod_crashloop'', ar_severity = ''critical'', ar_source_type = ''app'', ar_evaluate = (\<lambda>_. pod_crashloop)\<rparr>,
     \<lparr>ar_name = ''pod_oom_killed'', ar_severity = ''critical'', ar_source_type = ''app'', ar_evaluate = (\<lambda>_. pod_oom_killed)\<rparr>,
     \<lparr>ar_name = ''pod_image_pull_error'', ar_severity = ''warning'', ar_source_type = ''app'', ar_evaluate = (\<lambda>_. pod_image_pull_error)\<rparr>,
     \<lparr>ar_name = ''pod_scheduling_failed'', ar_severity = ''warning'', ar_source_type = ''app'', ar_evaluate = (\<lambda>_. pod_scheduling_failed)\<rparr>,
     \<lparr>ar_name = ''k8s_warning_events'', ar_severity = ''warning'', ar_source_type = ''node'', ar_evaluate = k8s_warning_events\<rparr>]"

section \<open>Evaluation\<close>

text \<open>The map \<open>firingSet\<close>: one entry a source, the last firing of it.\<close>

fun firing_set :: "alert_firing list \<Rightarrow> alert_firing list" where
  "firing_set [] = []"
| "firing_set (f # fs) = (if af_source f \<in> af_source ` set fs then firing_set fs else f # firing_set fs)"

definition alert_resolved_note :: "alert_rule \<Rightarrow> metric_alert \<Rightarrow> unit io" where
  "alert_resolved_note r a = notify None ''alert_resolved'' (ar_name r @ '' resolved'') (''Resolved: '' @ ar_name r @ '' on '' @ ma_source a)"

fun resolve_cleared :: "alert_rule \<Rightarrow> metric_alert list \<Rightarrow> alert_firing list \<Rightarrow> alert_firing list io" where
  "resolve_cleared r [] fs = ret fs"
| "resolve_cleared r (a # as) fs =
     (if ma_rule a \<noteq> ar_name r then resolve_cleared r as fs
      else if ma_source a \<in> af_source ` set fs then resolve_cleared r as (filter (\<lambda>f. af_source f \<noteq> ma_source a) fs)
      else seq (handle (alerts_resolve (ma_id a)) (\<lambda>_. ret ()) (\<lambda>_. alert_resolved_note r a)) (resolve_cleared r as fs))"

definition in_cooldown :: "string \<Rightarrow> string \<Rightarrow> bool io" where
  "in_cooldown rule source = bind now (\<lambda>t.
     handle (alerts_list \<lparr>aq_active = False, aq_severity = [], aq_from = Some (t - 30 * minute), aq_to = None, aq_page = 1, aq_per_page = 200\<rparr>)
       (\<lambda>_. ret False)
       (\<lambda>(as, _). bind now (\<lambda>t'. ret (list_ex (\<lambda>a. ma_rule a = rule \<and> ma_source a = source \<and>
           (case ma_resolved a of None \<Rightarrow> False | Some x \<Rightarrow> t' - x < 30 * minute)) as))))"

definition new_alert :: "alert_rule \<Rightarrow> alert_firing \<Rightarrow> metric_alert" where
  "new_alert r f = \<lparr>ma_id = uuid_nil, ma_rule = ar_name r, ma_severity = ar_severity r, ma_source_type = ar_source_type r,
     ma_source = af_source f, ma_message = af_message f, ma_fired = 0, ma_resolved = None, ma_notified = False\<rparr>"

definition fire :: "alert_rule \<Rightarrow> alert_firing \<Rightarrow> unit io" where
  "fire r f = handle (alerts_get_active_by_rule_and_source (ar_name r) (af_source f))
     (\<lambda>e. if e \<noteq> ErrNoRows then ret ()
        else bind (in_cooldown (ar_name r) (af_source f)) (\<lambda>b.
          if b then ret ()
          else handle (alerts_insert (new_alert r f)) (\<lambda>_. ret ()) (\<lambda>_. notify None ''alert_fired'' (ar_name r) (af_message f))))
     (\<lambda>_. ret ())"

definition evaluate_rule :: "(alert_firing list \<Rightarrow> alert_firing list) \<Rightarrow> cluster_view \<Rightarrow> alert_rule \<Rightarrow> unit io" where
  "evaluate_rule order V r = bind now (\<lambda>t.
     bind (handle alerts_list_active (\<lambda>_. ret []) ret) (\<lambda>active.
     bind (resolve_cleared r active (firing_set (ar_evaluate r t V))) (\<lambda>fs. for_each (fire r) (order fs))))"

text \<open>Each rule asks the cluster again, so each has a view of its own; None when the cluster target cannot be resolved.\<close>

definition evaluate_alerts :: "(alert_firing list \<Rightarrow> alert_firing list) \<Rightarrow> (string \<Rightarrow> cluster_view) option \<Rightarrow> unit io" where
  "evaluate_alerts order V = (case V of None \<Rightarrow> ret () | Some v \<Rightarrow> for_each (\<lambda>r. evaluate_rule order (v (ar_name r)) r) builtin_rules)"

section \<open>Collection and retention\<close>

definition node_snapshot :: "cluster_view \<Rightarrow> time \<Rightarrow> node_metrics \<Rightarrow> metric_snapshot" where
  "node_snapshot V t n = \<lparr>ms_at = t, ms_type = ''node'', ms_name = nm_name n, ms_cpu_used = kv_millis V (nm_cpu_used n),
     ms_cpu_total = kv_millis V (nm_cpu_total n), ms_mem_used = kv_bytes V (nm_mem_used n),
     ms_mem_total = kv_bytes V (nm_mem_total n), ms_pods = Some (nm_pods n)\<rparr>"

definition app_snapshot :: "cluster_view \<Rightarrow> time \<Rightarrow> pod_info list \<Rightarrow> string \<Rightarrow> metric_snapshot" where
  "app_snapshot V t ps i = (let us = map pi_usage (filter (\<lambda>p. pi_app p = i) ps) in
     \<lparr>ms_at = t, ms_type = ''app'', ms_name = i, ms_cpu_used = sum_list (map (kv_millis V \<circ> nm_cpu_used) us),
      ms_cpu_total = sum_list (map (kv_millis V \<circ> nm_cpu_total) us), ms_mem_used = sum_list (map (kv_bytes V \<circ> nm_mem_used) us),
      ms_mem_total = sum_list (map (kv_bytes V \<circ> nm_mem_total) us), ms_pods = None\<rparr>)"

definition app_snapshots :: "(string list \<Rightarrow> string list) \<Rightarrow> cluster_view \<Rightarrow> time \<Rightarrow> metric_snapshot list" where
  "app_snapshots order V t = (let ps = answer (kv_pods V) in
     map (app_snapshot V t ps) (order (remdups (filter (\<lambda>i. i \<noteq> []) (map pi_app ps)))))"

definition collect_metrics :: "(string list \<Rightarrow> string list) \<Rightarrow> cluster_view option \<Rightarrow> unit io" where
  "collect_metrics order V = bind now (\<lambda>t. case V of None \<Rightarrow> ret () | Some v \<Rightarrow>
     let xs = map (node_snapshot v t) (answer (kv_node_metrics v)) @ app_snapshots order v t;
         es = filter (\<lambda>e. me_type e = ''Warning'') (answer (kv_events v 100)) in
     seq (if es = [] then ret () else attempt (events_upsert_batch es))
       (if xs = [] then ret () else attempt (snapshots_insert_batch xs)))"

definition cleanup_metrics :: "unit io" where
  "cleanup_metrics = bind now (\<lambda>t. seq (attempt (snapshots_delete_older_than (t - 7 * 24 * hour)))
     (seq (attempt (events_delete_older_than (t - 30 * 24 * hour))) (attempt (alerts_delete_older_than (t - 30 * 24 * hour)))))"

text \<open>The ring of the newest 120 points of each application, kept in memory.\<close>

definition record_app_metric :: "uuid \<Rightarrow> 'p \<Rightarrow> (uuid \<Rightarrow> 'p list) \<Rightarrow> (uuid \<Rightarrow> 'p list)" where
  "record_app_metric i p ring = (let buf = ring i @ [p] in ring(i := if length buf > 120 then drop (length buf - 120) buf else buf))"

lemma ring_newest: "fold (record_app_metric i) ps (\<lambda>_. []) i = drop (length ps - 120) ps"
proof (induction ps rule: rev_induct)
  case (snoc p ps)
  show ?case
  proof (cases "length ps < 120")
    case True
    then show ?thesis using snoc by (simp add: record_app_metric_def Let_def)
  next
    case False
    then have "Suc (length ps - 120) = length ps - 119" by simp
    then show ?thesis using snoc False by (simp add: record_app_metric_def Let_def)
  qed
qed simp

section \<open>One active alert for each rule and source\<close>

definition alert_key :: "metric_alert \<Rightarrow> string \<times> string" where
  "alert_key a = (ma_rule a, ma_source a)"

definition one_active :: "database \<Rightarrow> bool" where
  "one_active d \<longleftrightarrow> distinct (map alert_key (filter (\<lambda>a. ma_resolved a = None) (alerts d)))"

lemma distinct_map_filter_imp: "distinct (map f (filter P xs)) \<Longrightarrow> (\<And>x. Q x \<Longrightarrow> P x) \<Longrightarrow> distinct (map f (filter Q xs))"
  by (induction xs) (auto split: if_splits)

lemma one_active_resolve:
  "one_active d \<Longrightarrow> one_active (alerts_update (map (\<lambda>a. if ma_id a = i \<and> ma_resolved a = None then a\<lparr>ma_resolved := Some t\<rparr> else a)) d)"
proof -
  let ?g = "\<lambda>a. if ma_id a = i \<and> ma_resolved a = None then a\<lparr>ma_resolved := Some t\<rparr> else a"
  have "map alert_key (filter (\<lambda>a. ma_resolved a = None) (map ?g xs)) =
      map alert_key (filter (\<lambda>a. ma_resolved a = None \<and> ma_id a \<noteq> i) xs)" for xs
    by (induction xs) auto
  then show "one_active d \<Longrightarrow> ?thesis" unfolding one_active_def by (auto intro: distinct_map_filter_imp)
qed

lemma keeps_resolve: "keeps (on_db one_active) (alerts_resolve i)"
  unfolding alerts_resolve_def by (intro keeps_intros keeps_db_exec one_active_resolve) (auto simp: now_def intro: keeps_intros)

lemma reads_cooldown: "reads (in_cooldown r s)"
  unfolding in_cooldown_def alerts_list_def
  by (intro reads_intros reads_bind reads_handle | simp add: now_def reads_query Let_def split: prod.splits)+

lemma keeps_fire: "keeps (on_db one_active) (fire r f)"
  unfolding keeps_def
proof (intro allI impI)
  fix w assume w: "on_db one_active w"
  obtain x w1 where g: "alerts_get_active_by_rule_and_source (ar_name r) (af_source f) w = (x, w1)"
    by (cases "alerts_get_active_by_rule_and_source (ar_name r) (af_source f) w")
  have d1: "db w1 = db w" using g by (auto simp: alerts_get_active_by_rule_and_source_def query_row_def statement_def split: if_splits)
  show "on_db one_active (snd (fire r f w))"
  proof (cases "x = Inl ErrNoRows")
    case False
    then have "snd (fire r f w) = w1" by (cases x) (auto simp: fire_def handle_def g)
    then show ?thesis using w d1 by (simp add: on_db_def)
  next
    case True
    then have none: "find (\<lambda>a. ma_rule a = ar_name r \<and> ma_source a = af_source f \<and> ma_resolved a = None) (alerts (db w)) = None"
      using g by (auto simp: alerts_get_active_by_rule_and_source_def query_row_def statement_def split: if_splits option.splits)
    obtain y w2 where c: "in_cooldown (ar_name r) (af_source f) w1 = (y, w2)" by (cases "in_cooldown (ar_name r) (af_source f) w1")
    have d2: "db w2 = db w" using readsD [OF reads_cooldown c] d1 by simp
    have one: "one_active (alerts_update (\<lambda>t. t @ [a]) (db w))" if "alert_key a = (ar_name r, af_source f)" for a
      using w none that by (auto simp: one_active_def on_db_def alert_key_def find_None_iff)
    have "on_db one_active (snd (alerts_insert (new_alert r f) w2))"
      using w d2 one by (simp add: alerts_insert_def new_alert_def Let_def on_db_def bind_def handle_def exec_def statement_def alert_key_def)
    then have "on_db one_active (snd (handle (alerts_insert (new_alert r f)) (\<lambda>_. ret ()) (\<lambda>_. notify None ''alert_fired'' (ar_name r) (af_message f)) w2))"
      by (auto simp: handle_def notify_def on_db_def split: prod.splits sum.splits)
    then show ?thesis using w d2 by (cases y) (auto simp: fire_def handle_def g True bind_def c on_db_def)
  qed
qed

lemma keeps_resolve_cleared: "keeps (on_db one_active) (resolve_cleared r as fs)"
proof (induction as arbitrary: fs)
  case Nil
  show ?case by (simp only: resolve_cleared.simps keeps_ret)
next
  case (Cons a as)
  show ?case unfolding resolve_cleared.simps alert_resolved_note_def by (intro keeps_intros keeps_resolve Cons.IH)
qed

lemma keeps_evaluate: "keeps (on_db one_active) (evaluate_alerts order V)"
  unfolding evaluate_alerts_def evaluate_rule_def alerts_list_active_def
  by (intro keeps_intros keeps_resolve_cleared keeps_fire | simp only: keeps_ret)+

text \<open>Requests on alerts: the rounds of the evaluator, the clean-up and the button that resolves an alert.\<close>

datatype alert_request =
    EvaluateRound "alert_firing list \<Rightarrow> alert_firing list" "(string \<Rightarrow> cluster_view) option"
  | CleanupRound
  | ResolveAlert uuid

fun serve_alerts :: "alert_request \<Rightarrow> unit io" where
  "serve_alerts (EvaluateRound order V) = evaluate_alerts order V"
| "serve_alerts CleanupRound = cleanup_metrics"
| "serve_alerts (ResolveAlert i) = alerts_resolve i"

lemma keeps_cleanup: "keeps (on_db one_active) cleanup_metrics"
proof -
  have "keeps (on_db one_active) (snapshots_delete_older_than t)" "keeps (on_db one_active) (events_delete_older_than t)"
    "keeps (on_db one_active) (alerts_delete_older_than t)" for t
    by (auto simp: keeps_def snapshots_delete_older_than_def events_delete_older_than_def alerts_delete_older_than_def statement_def on_db_def
        one_active_def Let_def intro: distinct_map_filter_imp)
  then show ?thesis unfolding cleanup_metrics_def by (intro keeps_intros)
qed

text \<open>C28 (one_alert_active): whatever the cluster answers, whatever statement fails and in whatever order the firing sources are
  walked, the evaluator, the clean-up and the manual resolution never leave two unresolved alerts for the same rule and
  source: the evaluator looks for an active one again right before it inserts.\<close>

theorem one_alert_active:
  assumes "one_active (db w)"
  shows "one_active (db (snd (for_each (\<lambda>q. attempt (serve_alerts q)) qs w)))"
proof -
  have "keeps (on_db one_active) (serve_alerts q)" for q
    by (cases q) (simp_all add: keeps_evaluate keeps_cleanup keeps_resolve)
  then have "keeps (on_db one_active) (for_each (\<lambda>q. attempt (serve_alerts q)) qs)" by (intro keeps_intros)
  then show ?thesis using assms by (simp add: keeps_def on_db_def)
qed

section \<open>The active alerts follow the cluster\<close>

definition active_ids :: "world \<Rightarrow> (uuid \<times> string \<times> string) set" where
  "active_ids w = (\<lambda>a. (ma_id a, alert_key a)) ` set (filter (\<lambda>a. ma_resolved a = None) (alerts (db w)))"

lemma resolve_ids:
  assumes "calm w" "alerts_resolve i w = (x, w')"
  shows "x = Inr ()" "calm w'" "active_ids w' = {p \<in> active_ids w. fst p \<noteq> i}"
proof -
  have w': "x = Inr ()" "w' = (next_fault w)\<lparr>db := alerts_update (map (\<lambda>a. if ma_id a = i \<and> ma_resolved a = None
      then a\<lparr>ma_resolved := Some (clock w)\<rparr> else a)) (db w)\<rparr>"
    using assms by (auto simp: alerts_resolve_def bind_now exec_def statement_def)
  show "x = Inr ()" by (rule w'(1))
  show "calm w'" using assms(1) by (simp add: w'(2))
  have "(\<lambda>a. (ma_id a, alert_key a)) ` set (filter (\<lambda>a. ma_resolved a = None) (map (\<lambda>a. if ma_id a = i \<and> ma_resolved a = None
      then a\<lparr>ma_resolved := Some t\<rparr> else a) xs)) = {p \<in> (\<lambda>a. (ma_id a, alert_key a)) ` set (filter (\<lambda>a. ma_resolved a = None) xs). fst p \<noteq> i}" for t xs
    by (induction xs) auto
  then show "active_ids w' = {p \<in> active_ids w. fst p \<noteq> i}" unfolding w'(2) active_ids_def by simp
qed

text \<open>What a pass over the active alerts \<open>as\<close> leaves: none of the rule whose source does not fire, and all the others.\<close>

definition pass_ok :: "alert_rule \<Rightarrow> metric_alert list \<Rightarrow> string set \<Rightarrow> world \<Rightarrow> string set \<Rightarrow> world \<Rightarrow> bool" where
  "pass_ok r as S w S' w' \<longleftrightarrow> calm w' \<and> S' \<subseteq> S \<and> active_ids w' \<subseteq> active_ids w \<and>
    (\<forall>a \<in> set as. ma_rule a = ar_name r \<and> ma_source a \<notin> S \<longrightarrow> ma_id a \<notin> fst ` active_ids w') \<and>
    (distinct (map alert_key as) \<longrightarrow> (\<forall>p \<in> active_ids w - active_ids w'. \<exists>a \<in> set as. ma_id a = fst p \<and> ma_rule a = ar_name r \<and> ma_source a \<notin> S))"

lemma pass_still:
  assumes "pass_ok r as (S - {ma_source a}) w S' w'" "ma_rule a = ar_name r" "ma_source a \<in> S"
  shows "pass_ok r (a # as) S w S' w'"
proof -
  have "\<exists>b \<in> set (a # as). ma_id b = fst p \<and> ma_rule b = ar_name r \<and> ma_source b \<notin> S"
    if d: "distinct (map alert_key (a # as))" and p: "p \<in> active_ids w - active_ids w'" for p
  proof -
    obtain b where b: "b \<in> set as" "ma_id b = fst p" "ma_rule b = ar_name r" "ma_source b \<notin> S - {ma_source a}"
      using assms(1) distinct.simps(2) [THEN iffD1, OF d [unfolded list.map]] p unfolding pass_ok_def by blast
    have "alert_key b \<noteq> alert_key a" using d imageI [OF b(1), of alert_key] by auto
    then have "ma_source b \<noteq> ma_source a" using b(3) assms(2) by (simp add: alert_key_def)
    then show ?thesis using b by auto
  qed
  then show ?thesis using assms unfolding pass_ok_def by auto
qed

lemma pass_gone:
  assumes "pass_ok r as S w1 S' w'" "active_ids w1 = {p \<in> active_ids w. fst p \<noteq> ma_id a}" "ma_rule a = ar_name r" "ma_source a \<notin> S"
  shows "pass_ok r (a # as) S w S' w'"
proof -
  have "\<exists>b \<in> set (a # as). ma_id b = fst p \<and> ma_rule b = ar_name r \<and> ma_source b \<notin> S"
    if d: "distinct (map alert_key (a # as))" and p: "p \<in> active_ids w - active_ids w'" for p
  proof (cases "fst p = ma_id a")
    case True
    then show ?thesis using assms(3,4) by auto
  next
    case False
    then have "p \<in> active_ids w1 - active_ids w'" using p assms(2) by auto
    then show ?thesis using assms(1) d unfolding pass_ok_def by auto
  qed
  then show ?thesis using assms unfolding pass_ok_def by auto
qed

lemma resolve_cleared_ids:
  assumes "calm w"
  shows "\<exists>fs' w'. resolve_cleared r as fs w = (Inr fs', w') \<and> pass_ok r as (af_source ` set fs) w (af_source ` set fs') w'"
  using assms
proof (induction as arbitrary: fs w)
  case Nil
  then show ?case by (simp add: pass_ok_def)
next
  case (Cons a as)
  consider (other) "ma_rule a \<noteq> ar_name r" | (still) "ma_rule a = ar_name r" "ma_source a \<in> af_source ` set fs"
    | (gone) "ma_rule a = ar_name r" "ma_source a \<notin> af_source ` set fs" by blast
  then show ?case
  proof cases
    case other
    obtain fs' w' where e: "resolve_cleared r as fs w = (Inr fs', w')" "pass_ok r as (af_source ` set fs) w (af_source ` set fs') w'"
      using Cons.IH [OF Cons.prems] by blast
    have "pass_ok r (a # as) (af_source ` set fs) w (af_source ` set fs') w'" using e(2) other by (auto simp: pass_ok_def)
    then show ?thesis using e(1) other by auto
  next
    case still
    let ?fs = "filter (\<lambda>f. af_source f \<noteq> ma_source a) fs"
    have src: "af_source ` set ?fs = af_source ` set fs - {ma_source a}" by auto
    obtain fs' w' where e: "resolve_cleared r as ?fs w = (Inr fs', w')" "pass_ok r as (af_source ` set ?fs) w (af_source ` set fs') w'"
      using Cons.IH [OF Cons.prems] by blast
    from pass_still [OF e(2) [unfolded src] still] show ?thesis using e(1) still by auto
  next
    case gone
    obtain x w1 where v: "alerts_resolve (ma_id a) w = (x, w1)" by (cases "alerts_resolve (ma_id a) w")
    note i = resolve_ids [OF Cons.prems v]
    obtain w2 where n: "alert_resolved_note r a w1 = (Inr (), w2)" "calm w2" "active_ids w2 = active_ids w1"
      using i(2) by (simp add: alert_resolved_note_def notify_def active_ids_def)
    have run: "resolve_cleared r (a # as) fs w = resolve_cleared r as fs w2"
      using gone v i(1) n(1) by (simp add: seq_def bind_def handle_def)
    obtain fs' w' where e: "resolve_cleared r as fs w2 = (Inr fs', w')" "pass_ok r as (af_source ` set fs) w2 (af_source ` set fs') w'"
      using Cons.IH [OF n(2)] by blast
    from pass_gone [OF e(2) _ gone] show ?thesis unfolding run using e(1) n(3) i(3) by auto
  qed
qed

lemma active_ids_append:
  "alerts (db w') = alerts (db w) @ [a] \<Longrightarrow> ma_resolved a = None \<Longrightarrow> active_ids w' = insert (ma_id a, alert_key a) (active_ids w)"
  by (simp add: active_ids_def del: set_filter)

lemma insert_ids:
  assumes "calm w"
  shows "\<exists>a w'. alerts_insert (new_alert r f) w = (Inr a, w') \<and> calm w' \<and> active_ids w' = insert (ma_id a, ar_name r, af_source f) (active_ids w)"
proof -
  let ?a = "(new_alert r f)\<lparr>ma_id := id_supply w (id_next w), ma_fired := clock w\<rparr>"
  let ?w = "(next_fault (w\<lparr>id_next := Suc (id_next w)\<rparr>))\<lparr>db := alerts_update (\<lambda>t. t @ [?a]) (db w)\<rparr>"
  have "alerts_insert (new_alert r f) w = (Inr ?a, ?w)"
    using assms by (simp add: alerts_insert_def new_alert_def Let_def bind_def handle_def exec_def statement_def calm_def fault_now_def)
  moreover have "calm ?w" using assms by simp
  moreover have "active_ids ?w = insert (ma_id ?a, alert_key ?a) (active_ids w)" by (rule active_ids_append) (simp_all add: new_alert_def)
  ultimately show ?thesis by (auto simp: alert_key_def new_alert_def)
qed

lemma fire_ids:
  assumes "calm w"
  shows "\<exists>w'. fire r f w = (Inr (), w') \<and> calm w' \<and> active_ids w \<subseteq> active_ids w' \<and>
    (\<forall>p \<in> active_ids w' - active_ids w. snd p = (ar_name r, af_source f))"
proof -
  obtain x w1 where g: "alerts_get_active_by_rule_and_source (ar_name r) (af_source f) w = (x, w1)"
    by (cases "alerts_get_active_by_rule_and_source (ar_name r) (af_source f) w")
  have w1: "calm w1" "active_ids w1 = active_ids w"
    using g assms by (auto simp: alerts_get_active_by_rule_and_source_def query_row_def statement_def active_ids_def)
  show ?thesis
  proof (cases "x = Inl ErrNoRows")
    case False
    then have "fire r f w = (Inr (), w1)" by (cases x) (auto simp: fire_def handle_def g)
    then show ?thesis using w1 by simp
  next
    case True
    obtain y w2 where c: "in_cooldown (ar_name r) (af_source f) w1 = (y, w2)" by (cases "in_cooldown (ar_name r) (af_source f) w1")
    have y: "\<exists>b. y = Inr b" "calm w2"
      using c w1(1) by (auto simp: in_cooldown_def bind_now alerts_list_def Let_def handle_def bind_def query_def statement_def now_eval)
    have w2: "active_ids w2 = active_ids w" using readsD [OF reads_cooldown c] w1(2) by (simp add: active_ids_def)
    from insert_ids [OF y(2), of r f] obtain a w3 where i: "alerts_insert (new_alert r f) w2 = (Inr a, w3)"
      and ids: "active_ids w3 = insert (ma_id a, ar_name r, af_source f) (active_ids w2)" "calm w3" by blast
    obtain b where b: "y = Inr b" using y by blast
    show ?thesis
    proof (cases b)
      case True
      then have "fire r f w = (Inr (), w2)" using \<open>x = Inl ErrNoRows\<close> by (simp add: fire_def handle_def g bind_def c b)
      then show ?thesis using y(2) w2 by simp
    next
      case False
      let ?w4 = "snd (notify None ''alert_fired'' (ar_name r) (af_message f) w3)"
      have "fire r f w = (Inr (), ?w4)"
        using \<open>x = Inl ErrNoRows\<close> False by (simp add: fire_def handle_def g bind_def c b notify_def i)
      moreover have "active_ids ?w4 = active_ids w3" "calm ?w4"
        using ids(2) by (simp_all add: notify_def active_ids_def)
      ultimately show ?thesis using ids(1) w2 by auto
    qed
  qed
qed

lemma fires_ids:
  assumes "calm w"
  shows "\<exists>w'. for_each (fire r) fs w = (Inr (), w') \<and> calm w' \<and> active_ids w \<subseteq> active_ids w' \<and>
    (\<forall>p \<in> active_ids w' - active_ids w. fst (snd p) = ar_name r \<and> snd (snd p) \<in> af_source ` set fs)"
  using assms
proof (induction fs arbitrary: w)
  case (Cons f fs)
  from fire_ids [OF Cons.prems, of r f] obtain w1 where 1: "fire r f w = (Inr (), w1)" "calm w1" "active_ids w \<subseteq> active_ids w1"
    "\<forall>p \<in> active_ids w1 - active_ids w. snd p = (ar_name r, af_source f)" by blast
  from Cons.IH [OF 1(2)] obtain w2 where 2: "for_each (fire r) fs w1 = (Inr (), w2)" "calm w2" "active_ids w1 \<subseteq> active_ids w2"
    "\<forall>p \<in> active_ids w2 - active_ids w1. fst (snd p) = ar_name r \<and> snd (snd p) \<in> af_source ` set fs" by blast
  have "for_each (fire r) (f # fs) w = (Inr (), w2)" using 1(1) 2(1) by (simp add: seq_def bind_def)
  then show ?case using 1 2 by (intro exI [of _ w2]) (auto, (metis DiffI fst_conv snd_conv)+)
qed simp

definition active :: "database \<Rightarrow> string \<Rightarrow> string \<Rightarrow> bool" where
  "active d rule source \<longleftrightarrow> list_ex (\<lambda>a. ma_rule a = rule \<and> ma_source a = source \<and> ma_resolved a = None) (alerts d)"

lemma active_iff: "active (db w) rule source \<longleftrightarrow> (\<exists>i. (i, rule, source) \<in> active_ids w)"
  by (auto simp: active_def active_ids_def alert_key_def list_ex_iff image_iff)

lemma firing_set_sources: "af_source ` set (firing_set fs) = af_source ` set fs"
  by (induction fs) auto

lemma rule_pass:
  assumes w: "calm w" and one: "one_active (db w)" and ids: "distinct (map ma_id (alerts (db w)))" and order: "\<And>fs. set (order fs) = set fs"
  shows "\<exists>w'. evaluate_rule order V r w = (Inr (), w') \<and>
    (active (db w') (ar_name r) s \<longrightarrow> s \<in> af_source ` set (ar_evaluate r (clock w) V)) \<and>
    (active (db w) (ar_name r) s \<and> s \<in> af_source ` set (ar_evaluate r (clock w) V) \<longrightarrow> active (db w') (ar_name r) s)"
proof -
  let ?S = "af_source ` set (ar_evaluate r (clock w) V)"
  let ?as = "sort_key (\<lambda>a. - ma_fired a) (rev (filter (\<lambda>a. ma_resolved a = None) (alerts (db w))))"
  let ?w1 = "next_fault w"
  have l: "alerts_list_active w = (Inr ?as, ?w1)" using w by (simp add: alerts_list_active_def query_Inr)
  have w1: "calm ?w1" "active_ids ?w1 = active_ids w" using w by (simp_all add: active_ids_def)
  obtain fs' w2 where p: "resolve_cleared r ?as (firing_set (ar_evaluate r (clock w) V)) ?w1 = (Inr fs', w2)"
    "pass_ok r ?as ?S ?w1 (af_source ` set fs') w2"
    using resolve_cleared_ids [OF w1(1)] unfolding firing_set_sources [symmetric, of "ar_evaluate r (clock w) V"] by blast
  have "calm w2" using p(2) by (simp add: pass_ok_def)
  from fires_ids [OF this] obtain w3 where f: "for_each (fire r) (order fs') w2 = (Inr (), w3)" "active_ids w2 \<subseteq> active_ids w3"
    "\<forall>q \<in> active_ids w3 - active_ids w2. fst (snd q) = ar_name r \<and> snd (snd q) \<in> af_source ` set fs'"
    unfolding order [symmetric, of fs'] by blast
  have run: "evaluate_rule order V r w = (Inr (), w3)"
    using l p(1) f(1) by (simp add: evaluate_rule_def bind_now bind_def handle_def)
  have mem: "a \<in> set ?as" if "a \<in> set (alerts (db w))" "ma_resolved a = None" for a using that by simp
  have "s \<in> ?S" if "active (db w3) (ar_name r) s"
  proof -
    obtain i where i: "(i, ar_name r, s) \<in> active_ids w3" using \<open>active (db w3) (ar_name r) s\<close> by (auto simp: active_iff)
    show ?thesis
    proof (cases "(i, ar_name r, s) \<in> active_ids w2")
      case True
      then have "(i, ar_name r, s) \<in> active_ids w" using p(2) w1(2) by (auto simp: pass_ok_def)
      then obtain a where a: "a \<in> set ?as" "ma_id a = i" "ma_rule a = ar_name r" "ma_source a = s"
        by (auto simp: active_ids_def alert_key_def)
      show ?thesis
      proof (rule ccontr)
        assume "s \<notin> ?S"
        then have "i \<notin> fst ` active_ids w2" using p(2) a unfolding pass_ok_def by blast
        then show False using True by force
      qed
    next
      case False
      then have "snd (snd (i, ar_name r, s)) \<in> af_source ` set fs'" using i f(3) by blast
      moreover have "af_source ` set fs' \<subseteq> ?S" using p(2) unfolding pass_ok_def by blast
      ultimately show ?thesis by auto
    qed
  qed
  moreover have "active (db w3) (ar_name r) s" if act: "active (db w) (ar_name r) s" and s: "s \<in> ?S"
  proof -
    obtain i where i: "(i, ar_name r, s) \<in> active_ids w" using act by (auto simp: active_iff)
    have "distinct (map alert_key (rev (filter (\<lambda>a. ma_resolved a = None) (alerts (db w)))))" using one by (simp add: one_active_def distinct_map)
    then have d: "distinct (map alert_key ?as)" by (simp add: distinct_map)
    have "(i, ar_name r, s) \<in> active_ids w2"
    proof (rule ccontr)
      assume n: "(i, ar_name r, s) \<notin> active_ids w2"
      then have "(i, ar_name r, s) \<in> active_ids ?w1 - active_ids w2" using i w1(2) by simp
      then obtain a where a: "a \<in> set ?as" "ma_id a = i" "ma_source a \<notin> ?S" using p(2) d unfolding pass_ok_def by (metis fst_conv)
      moreover obtain b where b: "b \<in> set (alerts (db w))" "ma_id b = i" "ma_source b = s" using i by (auto simp: active_ids_def alert_key_def)
      ultimately have "a = b" using ids by (auto simp: distinct_map inj_on_def)
      then show False using a b s by simp
    qed
    then show ?thesis using f(2) by (auto simp: active_iff)
  qed
  ultimately show ?thesis using run by blast
qed


lemma one_alert_active_witness:
  "one_active (db (snd (for_each (\<lambda>q. attempt (serve_alerts q)) [EvaluateRound rev None, CleanupRound, ResolveAlert 3] (world_of empty_database))))"
  by (rule one_alert_active) (simp add: one_active_def empty_database_def)

definition blind_view :: cluster_view where
  "blind_view = \<lparr>kv_node_metrics = Inl ErrIO, kv_nodes = Inl ErrIO, kv_pods = Inl ErrIO, kv_events = (\<lambda>_. Inl ErrIO),
     kv_millis = (\<lambda>_. 0), kv_bytes = (\<lambda>_. 0), kv_percent = (\<lambda>_ _. ''0'')\<rparr>"

definition crash_rule :: alert_rule where
  "crash_rule = builtin_rules ! 3"

definition crash_alert :: metric_alert where
  "crash_alert = \<lparr>ma_id = 3, ma_rule = ''pod_crashloop'', ma_severity = ''critical'', ma_source_type = ''app'', ma_source = ''shop-1'',
     ma_message = ''crash'', ma_fired = 5, ma_resolved = None, ma_notified = False\<rparr>"


end
