(* ===== verification/Notification_Service.thy ===== *)
theory Notification_Service imports Metrics_Alerts begin

text \<open>
  Notification channels and mail (\<open>service/notification_service.go\<close>).  What leaves the program is a log of \<open>outgoing\<close> steps:
  HTTP requests, redirects that the client follows included, and the steps of SMTP sessions.  \<open>net_world\<close> is what the network answers to each of them.  The asynchronous
  variants run the same functions in a goroutine of their own.
\<close>

section \<open>The network\<close>

datatype outgoing =
    HttpPost string json
  | HttpGet string
  | SmtpDial string bool
  | SmtpStartTLS
  | SmtpEncrypted
  | SmtpAuth string string
  | SmtpMail string
  | SmtpRcpt string
  | SmtpData string
  | SmtpQuit

text \<open>\<open>SmtpEncrypted\<close> is the end of a TLS handshake.  \<open>nw_http\<close> answers the requests of the first and of the second attempt: the
  status and, when the answer has one, the location it names, resolved against the URL of the request.\<close>

record net_world =
  nw_http :: "nat \<Rightarrow> nat \<Rightarrow> string \<Rightarrow> json option \<Rightarrow> go_error + nat \<times> string option"
  nw_dial :: "string \<Rightarrow> bool \<Rightarrow> go_error option"
  nw_client :: "go_error option"
  nw_starttls :: bool
  nw_upgrade :: "go_error option"
  nw_auth :: "go_error option"
  nw_mail :: "go_error option"
  nw_rcpt :: "string \<Rightarrow> go_error option"
  nw_data :: "go_error option"
  nw_write :: "go_error option"
  nw_close :: "go_error option"
  nw_quit :: "go_error option"

type_synonym 'a out = "(outgoing list, 'a) act"

definition emit :: "outgoing \<Rightarrow> unit out" where
  "emit x = modify (\<lambda>l. l @ [x])"

definition fails_as :: "string \<Rightarrow> go_error option \<Rightarrow> unit out" where
  "fails_as what e = (case e of None \<Rightarrow> ret () | Some x \<Rightarrow> err (ErrWrap what x))"

section \<open>HTTP\<close>

fun after_text :: "string \<Rightarrow> string \<Rightarrow> string option" where
  "after_text sep [] = (if sep = [] then Some [] else None)"
| "after_text sep (c # s) = (if has_prefix (c # s) sep then Some (drop (length sep) (c # s)) else after_text sep s)"

definition url_host :: "string \<Rightarrow> string" where
  "url_host u = takeWhile (\<lambda>c. c \<noteq> CHR '':'') (takeWhile (\<lambda>c. c \<noteq> CHR ''/'') (case after_text ''://'' u of None \<Rightarrow> u | Some h \<Rightarrow> h))"

definition is_blocked_url :: "string \<Rightarrow> bool" where
  "is_blocked_url u \<longleftrightarrow> url_host u \<in> {''localhost'', ''127.0.0.1'', ''0.0.0.0'', ''::1'', ''kubernetes.default''} \<or>
     has_prefix (url_host u) ''10.'' \<or> has_prefix (url_host u) ''192.168.''"

text \<open>\<open>http.Client.Post\<close> without a \<open>CheckRedirect\<close>: at most ten requests.  After 307 and 308 the body is posted again, after 301, 302
  and 303 the location is fetched without it; no location is screened.\<close>

definition redirect_to :: "nat \<times> string option \<Rightarrow> (bool \<times> string) option" where
  "redirect_to a = (case a of
     (status, None) \<Rightarrow> None
   | (status, Some u) \<Rightarrow> if status \<in> {307, 308} then Some (True, u) else if status \<in> {301, 302, 303} then Some (False, u) else None)"

definition request :: "string \<Rightarrow> json option \<Rightarrow> outgoing" where
  "request u body = (case body of Some b \<Rightarrow> HttpPost u b | None \<Rightarrow> HttpGet u)"

fun client_post :: "net_world \<Rightarrow> nat \<Rightarrow> nat \<Rightarrow> string \<Rightarrow> json option \<Rightarrow> nat out" where
  "client_post N k 0 u body = err (ErrMsg ''stopped after 10 redirects'')"
| "client_post N k (Suc left) u body = seq (emit (request u body)) (case nw_http N k left u body of
     Inl e \<Rightarrow> err e
   | Inr a \<Rightarrow> (case redirect_to a of
       None \<Rightarrow> ret (fst a)
     | Some (again, u') \<Rightarrow> client_post N k left u' (if again then body else None)))"

lemma client_post_numeral: "client_post N k (numeral n) u body = seq (emit (request u body)) (case nw_http N k (pred_numeral n) u body of
     Inl e \<Rightarrow> err e
   | Inr a \<Rightarrow> (case redirect_to a of
       None \<Rightarrow> ret (fst a)
     | Some (again, u') \<Rightarrow> client_post N k (pred_numeral n) u' (if again then body else None)))"
  by (simp only: numeral_eq_Suc client_post.simps)

definition http_post_with_retry :: "net_world \<Rightarrow> string \<Rightarrow> json \<Rightarrow> nat out" where
  "http_post_with_retry N u body =
     (if is_blocked_url u then err (ErrMsg ''blocked: webhook URL points to internal network'')
      else bind (client_post N 0 10 u (Some body)) (\<lambda>status.
        if status = 429 then client_post N 1 10 u (Some body) else ret status))"

definition post_checked :: "net_world \<Rightarrow> string \<Rightarrow> string \<Rightarrow> json \<Rightarrow> unit out" where
  "post_checked N what u body = bind (http_post_with_retry N u body) (\<lambda>status.
     if status \<ge> 400 then err (ErrMsg (what @ '' returned status '' @ digits_of status)) else ret ())"

section \<open>SMTP\<close>

definition join_host_port :: "string \<Rightarrow> string \<Rightarrow> string" where
  "join_host_port h p = (if CHR '':'' \<in> set h then CHR ''['' # h @ '']:'' @ p else h @ CHR '':'' # p)"

text \<open>\<open>tls.DialWithDialer\<close> and \<open>net.DialTimeout\<close>; \<open>smtp.Client.StartTLS\<close>: only a handshake that succeeds encrypts the connection.\<close>

definition connect :: "net_world \<Rightarrow> string \<Rightarrow> bool \<Rightarrow> unit out" where
  "connect N addr implicit = seq (emit (SmtpDial addr implicit)) (case nw_dial N addr implicit of
     Some e \<Rightarrow> err e | None \<Rightarrow> if implicit then emit SmtpEncrypted else ret ())"

definition start_tls :: "net_world \<Rightarrow> unit out" where
  "start_tls N = seq (emit SmtpStartTLS) (case nw_upgrade N of Some e \<Rightarrow> err e | None \<Rightarrow> emit SmtpEncrypted)"

definition dial_and_send :: "net_world \<Rightarrow> smtp_config \<Rightarrow> string \<Rightarrow> string list \<Rightarrow> string \<Rightarrow> unit out" where
  "dial_and_send N cfg from recipients msg =
     (let addr = join_host_port (sm_host cfg) (sm_port cfg); implicit = (sm_port cfg = ''465'');
          tls = (implicit \<or> nw_starttls N) in
      seq (handle (connect N addr implicit) (\<lambda>e. err (ErrWrap (''dial '' @ addr) e)) ret)
     (seq (fails_as ''smtp client'' (nw_client N))
     (seq (if \<not> implicit \<and> nw_starttls N then handle (start_tls N) (\<lambda>e. err (ErrWrap ''starttls'' e)) ret else ret ())
     (seq (if sm_user cfg = [] then ret ()
           else if \<not> tls then err (ErrMsg (''SMTP server does not support STARTTLS '' @ em_dash @
              '' refusing to send credentials over plaintext (use port 465 for implicit TLS)''))
           else seq (emit (SmtpAuth (sm_user cfg) (sm_password cfg))) (fails_as ''auth'' (nw_auth N)))
     (seq (seq (emit (SmtpMail from)) (fails_as ''mail from'' (nw_mail N)))
     (seq (for_each (\<lambda>r. seq (emit (SmtpRcpt r)) (fails_as (''rcpt to '' @ r) (nw_rcpt N r))) recipients)
     (seq (fails_as ''data'' (nw_data N)) (seq (fails_as ''write'' (nw_write N))
     (seq (seq (emit (SmtpData msg)) (fails_as ''close data'' (nw_close N)))
     (seq (emit SmtpQuit) (fails_with (nw_quit N))))))))))))"

definition crlf :: string where
  "crlf = [CHR 0x0D, CHR 0x0A]"

definition mail_text :: "string \<Rightarrow> string \<Rightarrow> string \<Rightarrow> string \<Rightarrow> string \<Rightarrow> string" where
  "mail_text subject from recipients ctype body = ''Subject: '' @ subject @ crlf @ ''From: '' @ from @ crlf @ ''To: '' @ recipients @ crlf @
     ''MIME-Version: 1.0'' @ crlf @ ''Content-Type: '' @ ctype @ ''; charset=UTF-8'' @ crlf @ crlf @ body"

section \<open>Channels\<close>

definition upper_char :: "char \<Rightarrow> char" where
  "upper_char c = (if is_lower_char c then char_of (of_char c - 32 :: nat) else c)"

definition config_field :: "string \<Rightarrow> notify_channel \<Rightarrow> string option" where
  "config_field k c = (case nc_config c of None \<Rightarrow> None | Some j \<Rightarrow> (case json_field k j of (v, ok) \<Rightarrow> if ok then Some v else None))"

text \<open>\<open>config.events\<close> decodes into a pointer to a list of strings; what does not decode allows every event.\<close>

fun string_items :: "json list \<Rightarrow> string list option" where
  "string_items [] = Some []"
| "string_items (j # js) = (case (case j of JString s \<Rightarrow> Some s | JNull \<Rightarrow> Some [] | _ \<Rightarrow> None) of
     None \<Rightarrow> None | Some s \<Rightarrow> map_option ((#) s) (string_items js))"

fun events_entry :: "(string \<times> json) list \<Rightarrow> string list option \<Rightarrow> string list option option" where
  "events_entry [] acc = Some acc"
| "events_entry ((k, v) # kvs) acc =
     (if \<not> equal_fold k ''events'' then events_entry kvs acc
      else (case v of
          JNull \<Rightarrow> events_entry kvs None
        | JArray js \<Rightarrow> (case string_items js of None \<Rightarrow> None | Some es \<Rightarrow> events_entry kvs (Some es))
        | _ \<Rightarrow> None))"

definition channel_allows_event :: "notify_channel \<Rightarrow> string \<Rightarrow> bool" where
  "channel_allows_event c event = (case nc_config c of
     Some (JObject kvs) \<Rightarrow> (case events_entry kvs None of Some (Some es) \<Rightarrow> event \<in> set es | _ \<Rightarrow> True)
   | _ \<Rightarrow> True)"

definition event_severity :: "string \<Rightarrow> string" where
  "event_severity e =
     (if e \<in> {''deploy_failed'', ''build_timeout'', ''app_crashed'', ''backup_failed'', ''node_not_ready'', ''disk_pressure'', ''alert_fired''}
      then ''critical''
      else if e \<in> {''deploy_success'', ''backup_success'', ''alert_resolved'', ''member_joined'', ''database_created''} then ''info''
      else ''warning'')"

text \<open>A notifier works on the store and on the log of what it sent.\<close>

type_synonym 'a notifier = "(world \<times> outgoing list, 'a) act"

definition on_store :: "'a io \<Rightarrow> 'a notifier" where
  "on_store m = (\<lambda>(w, l). case m w of (r, w') \<Rightarrow> (r, (w', l)))"

definition on_net :: "'a out \<Rightarrow> 'a notifier" where
  "on_net m = (\<lambda>(w, l). case m l of (r, l') \<Rightarrow> (r, (w, l')))"

definition recipients_of :: "string \<Rightarrow> string list" where
  "recipients_of s = map trim_space (split_on CHR '','' s)"

definition send_email :: "net_world \<Rightarrow> notify_channel \<Rightarrow> string \<Rightarrow> string \<Rightarrow> string \<Rightarrow> unit notifier" where
  "send_email N c title msg severity =
     handle (on_store get_smtp_config) (\<lambda>e. err (ErrWrap ''failed to get SMTP config'' e)) (\<lambda>cfg.
       if \<not> sm_enabled cfg \<or> sm_host cfg = [] then err (ErrMsg ''SMTP is not configured or disabled'')
       else (case config_field ''recipients'' c of
           None \<Rightarrow> err (ErrWrap ''invalid email config'' (ErrMsg ''json''))
         | Some rs \<Rightarrow> if rs = [] then err (ErrMsg ''no email recipients configured'')
             else on_net (dial_and_send N cfg (sm_from cfg) (recipients_of rs)
               (mail_text (''[Orkai]['' @ map upper_char severity @ ''] '' @ title) (sm_from cfg) (join_with '', '' (recipients_of rs)) ''text/plain'' msg))))"

definition telegram_url :: "string \<Rightarrow> string" where
  "telegram_url token = ''https://api.telegram.org/bot'' @ token @ ''/sendMessage''"

definition send_telegram :: "net_world \<Rightarrow> notify_channel \<Rightarrow> string \<Rightarrow> string \<Rightarrow> unit out" where
  "send_telegram N c title msg =
     (case (config_field ''bot_token'' c, config_field ''chat_id'' c) of
        (Some token, Some chat) \<Rightarrow>
          if token = [] \<or> chat = [] then err (ErrMsg ''telegram bot_token and chat_id are required'')
          else post_checked N ''telegram API'' (telegram_url token)
            (JObject [(''chat_id'', JString chat), (''parse_mode'', JString ''Markdown''),
              (''text'', JString (CHR ''*'' # title @ ''*'' @ CHR 0x0A # msg))])
      | _ \<Rightarrow> err (ErrWrap ''invalid telegram config'' (ErrMsg ''json'')))"

text \<open>Discord, Slack and Google Chat differ in their names, the field of the payload and the stars around the title.\<close>

definition send_webhook :: "net_world \<Rightarrow> string \<Rightarrow> string \<Rightarrow> string \<Rightarrow> string \<Rightarrow> notify_channel \<Rightarrow> string \<Rightarrow> string \<Rightarrow> string \<Rightarrow> unit out" where
  "send_webhook N host what fld stars c title msg severity =
     (case config_field ''webhook_url'' c of
        None \<Rightarrow> err (ErrWrap (''invalid '' @ host @ '' config'') (ErrMsg ''json''))
      | Some u \<Rightarrow> if u = [] then err (ErrMsg (host @ '' webhook_url is required''))
          else post_checked N what u (JObject [(fld, JString (stars @ ''['' @ map upper_char severity @ ''] '' @ title @ stars @ CHR 0x0A # msg))]))"

definition send_discord :: "net_world \<Rightarrow> notify_channel \<Rightarrow> string \<Rightarrow> string \<Rightarrow> string \<Rightarrow> unit out" where
  "send_discord N = send_webhook N ''discord'' ''discord webhook'' ''content'' ''**''"

definition send_google_chat :: "net_world \<Rightarrow> notify_channel \<Rightarrow> string \<Rightarrow> string \<Rightarrow> string \<Rightarrow> unit out" where
  "send_google_chat N = send_webhook N ''google chat'' ''google chat webhook'' ''text'' ''*''"

definition send_slack :: "net_world \<Rightarrow> notify_channel \<Rightarrow> string \<Rightarrow> string \<Rightarrow> string \<Rightarrow> unit out" where
  "send_slack N = send_webhook N ''slack'' ''slack webhook'' ''text'' ''*''"

definition send_to_channel :: "net_world \<Rightarrow> notify_channel \<Rightarrow> string \<Rightarrow> string \<Rightarrow> string \<Rightarrow> unit notifier" where
  "send_to_channel N c title msg severity =
     (if nc_type c = ''email'' then send_email N c title msg severity
      else if nc_type c = ''telegram'' then on_net (send_telegram N c title msg)
      else if nc_type c = ''discord'' then on_net (send_discord N c title msg severity)
      else if nc_type c = ''slack'' then on_net (send_slack N c title msg severity)
      else if nc_type c = ''google_chat'' then on_net (send_google_chat N c title msg severity)
      else err (ErrMsg (''unsupported channel type: '' @ nc_type c)))"

section \<open>Operations\<close>

definition save_channel :: "uuid \<Rightarrow> string \<Rightarrow> bool \<Rightarrow> json option \<Rightarrow> notify_channel io" where
  "save_channel og ty enabled cfg = channels_upsert \<lparr>bm_id = uuid_nil, bm_created = 0, bm_updated = 0, bm_deleted = None,
     nc_org = og, nc_type = ty, nc_enabled = enabled, nc_config = cfg\<rparr>"

definition test_channel :: "net_world \<Rightarrow> uuid \<Rightarrow> string \<Rightarrow> unit notifier" where
  "test_channel N og ty = handle (on_store (channels_get og ty)) (\<lambda>e. err (ErrWrap ''channel not found'' e))
     (\<lambda>c. send_to_channel N c ''Orkai Test'' ''Orkai test notification'' ''info'')"

definition notify_channels :: "net_world \<Rightarrow> uuid \<Rightarrow> string \<Rightarrow> string \<Rightarrow> string \<Rightarrow> unit notifier" where
  "notify_channels N og event title msg = bind (on_store (channels_list_by_org og)) (for_each (\<lambda>c.
     if \<not> nc_enabled c then ret () else if \<not> channel_allows_event c event then ret ()
     else attempt (send_to_channel N c title msg (event_severity event))))"

definition notify_all_orgs :: "net_world \<Rightarrow> string \<Rightarrow> string \<Rightarrow> string \<Rightarrow> unit notifier" where
  "notify_all_orgs N event title msg = handle (on_store channels_list_all_enabled) (\<lambda>_. ret ()) (for_each (\<lambda>c.
     if \<not> channel_allows_event c event then ret ()
     else attempt (send_to_channel N c title msg (event_severity event))))"

definition mail_ready :: "string \<Rightarrow> (smtp_config \<Rightarrow> unit notifier) \<Rightarrow> unit notifier" where
  "mail_ready off k = handle (on_store get_smtp_config) (\<lambda>e. err (ErrWrap ''failed to get SMTP config'' e)) (\<lambda>cfg.
     if \<not> sm_enabled cfg \<or> sm_host cfg = [] then err (ErrMsg off)
     else if sm_from cfg = [] then err (ErrMsg ''SMTP from address is not configured'') else k cfg)"

definition invitation_html :: "string \<Rightarrow> string \<Rightarrow> string" where
  "invitation_html r url =
     (let q = [CHR 0x22]; nl = [CHR 0x0A] in
      ''<html><body style='' @ q @ ''font-family:sans-serif;color:#333;max-width:600px;margin:0 auto'' @ q @ ''>'' @ nl @
      ''<h2 style='' @ q @ ''color:#2563eb'' @ q @ ''>Orkai Team Invitation</h2>'' @ nl @
      ''<p>You've been invited to join a Orkai team as <strong>'' @ r @ ''</strong>.</p>'' @ nl @
      ''<p><a href='' @ q @ url @ q @ '' style='' @ q @ ''display:inline-block;padding:12px 24px;background:#2563eb;color:#fff;text-decoration:none;border-radius:6px;font-weight:600'' @ q @
      ''>Accept Invitation</a></p>'' @ nl @
      ''<p style='' @ q @ ''margin-top:16px;font-size:13px;color:#666'' @ q @ ''>Or copy this link: '' @ url @ ''</p>'' @ nl @
      ''<p style='' @ q @ ''font-size:12px;color:#999'' @ q @ ''>This invitation expires in 7 days.</p>'' @ nl @ ''</body></html>'')"

definition send_invitation_email :: "net_world \<Rightarrow> string \<Rightarrow> string \<Rightarrow> string \<Rightarrow> unit notifier" where
  "send_invitation_email N recipient r url = mail_ready ''SMTP is not configured'' (\<lambda>cfg. on_net (dial_and_send N cfg (sm_from cfg) [recipient]
     (mail_text ''You've been invited to join Orkai'' (sm_from cfg) recipient ''text/html'' (invitation_html r url))))"

definition test_smtp :: "net_world \<Rightarrow> unit notifier" where
  "test_smtp N = mail_ready ''SMTP is not configured or disabled'' (\<lambda>cfg. on_net (dial_and_send N cfg (sm_from cfg) [sm_from cfg]
     (mail_text ''Orkai SMTP Test'' (sm_from cfg) (sm_from cfg) ''text/plain'' ''This is a test email from Orkai.'')))"

section \<open>What leaves the program\<close>

text \<open>\<open>sealed t l\<close>: on a connection that is encrypted if \<open>t\<close> says so, no step of the log sends credentials in the clear.  A new
  connection is plain, and a handshake that ends encrypts it.\<close>

fun sealed :: "bool \<Rightarrow> outgoing list \<Rightarrow> bool" where
  "sealed t [] = True"
| "sealed t (x # l) = (case x of
     SmtpDial a b \<Rightarrow> sealed False l
   | SmtpEncrypted \<Rightarrow> sealed True l
   | SmtpAuth u p \<Rightarrow> t \<and> sealed t l
   | _ \<Rightarrow> sealed t l)"

fun tls_after :: "bool \<Rightarrow> outgoing list \<Rightarrow> bool" where
  "tls_after t [] = t"
| "tls_after t (x # l) = (case x of SmtpDial a b \<Rightarrow> tls_after False l | SmtpEncrypted \<Rightarrow> tls_after True l | _ \<Rightarrow> tls_after t l)"

lemma sealed_append: "sealed t (l @ k) \<longleftrightarrow> sealed t l \<and> sealed (tls_after t l) k"
proof (induction l arbitrary: t)
  case (Cons x l)
  then show ?case by (cases x) simp_all
qed simp

lemma tls_after_append: "tls_after t (l @ k) = tls_after (tls_after t l) k"
proof (induction l arbitrary: t)
  case (Cons x l)
  then show ?case by (cases x) simp_all
qed simp

lemma sealed_snoc: "sealed t (l @ [x]) \<longleftrightarrow> sealed t l \<and> (case x of SmtpAuth u p \<Rightarrow> tls_after t l | _ \<Rightarrow> True)"
  by (cases x) (simp_all add: sealed_append)

lemma tls_after_snoc: "tls_after t (l @ [x]) = (case x of SmtpDial a b \<Rightarrow> False | SmtpEncrypted \<Rightarrow> True | _ \<Rightarrow> tls_after t l)"
  by (cases x) (simp_all add: tls_after_append)

lemma handshake [simp]:
  "sealed t (l @ [SmtpDial a b, SmtpEncrypted]) \<longleftrightarrow> sealed t l" "tls_after t (l @ [SmtpDial a b, SmtpEncrypted])"
  "sealed t (l @ [SmtpStartTLS, SmtpEncrypted]) \<longleftrightarrow> sealed t l" "tls_after t (l @ [SmtpStartTLS, SmtpEncrypted])"
  by (simp_all add: sealed_append tls_after_append)

text \<open>Where a request may go: to a URL of the set or, from there, where an answer of the network redirects it; the flag says that the
  body goes along.\<close>

inductive led_to :: "net_world \<Rightarrow> string set \<Rightarrow> bool \<Rightarrow> string \<Rightarrow> bool" for N U where
  led_start: "u \<in> U \<Longrightarrow> led_to N U True u"
| led_follow: "led_to N U p u \<Longrightarrow> nw_http N k n u body = Inr a \<Longrightarrow> redirect_to a = Some (again, u') \<Longrightarrow> led_to N U (p \<and> again) u'"

text \<open>A log is proper for a set of posts and of recipients when it is sealed and has no others.\<close>

definition allowed :: "net_world \<Rightarrow> string set \<Rightarrow> string set \<Rightarrow> outgoing \<Rightarrow> bool" where
  "allowed N U R x = (case x of HttpPost u b \<Rightarrow> led_to N U True u | HttpGet u \<Rightarrow> led_to N U False u | SmtpRcpt r \<Rightarrow> r \<in> R | _ \<Rightarrow> True)"

definition proper :: "net_world \<Rightarrow> string set \<Rightarrow> string set \<Rightarrow> outgoing list \<Rightarrow> bool" where
  "proper N U R l \<longleftrightarrow> sealed False l \<and> (\<forall>x \<in> set l. allowed N U R x)"

lemma proper_emit:
  "proper N U R l \<Longrightarrow> allowed N U R x \<Longrightarrow> (\<And>u p. x = SmtpAuth u p \<Longrightarrow> tls_after False l) \<Longrightarrow> proper N U R (l @ [x])"
  by (cases x) (auto simp: proper_def sealed_snoc)

lemma proper_handshake:
  "proper N U R l \<Longrightarrow> proper N U R (l @ [SmtpDial a b, SmtpEncrypted])"
  "proper N U R l \<Longrightarrow> proper N U R (l @ [SmtpStartTLS, SmtpEncrypted])"
  by (simp_all add: proper_def allowed_def)

lemma proper_keeps_emit:
  "allowed N U R x \<Longrightarrow> (\<And>u p. x \<noteq> SmtpAuth u p) \<Longrightarrow> keeps (proper N U R) (emit x)"
  unfolding emit_def by (intro keeps_modify proper_emit) auto

lemma keeps_fails_as [keeps_intros]: "keeps P (fails_as what e)"
  by (auto simp: fails_as_def keeps_def split: option.splits)

lemma keeps_fails_with_any: "keeps P (fails_with e)"
  by (auto simp: fails_with_def keeps_def split: option.splits)

lemma ens_fails_as: "ensures A (fails_as what e) (\<lambda>_. A)"
  by (auto simp: fails_as_def ensures_def split: option.splits)

lemma ens_of_keeps: "keeps P m \<Longrightarrow> ensures P m (\<lambda>_. P)"
  by (simp add: keeps_def ensures_def)

lemma proper_client: "led_to N U (body \<noteq> None) u \<Longrightarrow> keeps (proper N U R) (client_post N k left u body)"
proof (induction left arbitrary: u body)
  case (Suc left)
  have p: "keeps (proper N U R) (emit (request u body))"
    using Suc.prems by (intro proper_keeps_emit) (auto simp: allowed_def request_def split: option.splits)
  have n: "keeps (proper N U R) (client_post N k left u' (if again then body else None))"
    if "nw_http N k left u body = Inr a" "redirect_to a = Some (again, u')" for a again u'
  proof (rule Suc.IH)
    have "((if again then body else None) \<noteq> None) = (body \<noteq> None \<and> again)" by simp
    then show "led_to N U ((if again then body else None) \<noteq> None) u'" using led_follow [OF Suc.prems that] by (cases again) auto
  qed
  show ?case using n [of _ True] n [of _ False] by (auto intro!: keeps_seq keeps_ret keeps_err p split: sum.splits option.splits)
qed simp

lemma proper_post:
  assumes "\<not> is_blocked_url u \<Longrightarrow> u \<in> U"
  shows "keeps (proper N U R) (http_post_with_retry N u body)"
proof (cases "is_blocked_url u")
  case True
  then show ?thesis by (simp add: http_post_with_retry_def)
next
  case False
  have c: "keeps (proper N U R) (client_post N k left u (Some body))" for k left
    by (rule proper_client) (simp add: led_start assms [OF False])
  show ?thesis unfolding http_post_with_retry_def if_not_P [OF False] by (intro keeps_bind keeps_if keeps_ret c)
qed

lemma proper_post_checked: "(\<not> is_blocked_url u \<Longrightarrow> u \<in> U) \<Longrightarrow> keeps (proper N U R) (post_checked N what u body)"
  unfolding post_checked_def by (intro keeps_intros proper_post)

lemma proper_session:
  assumes R: "set rs \<subseteq> R"
  shows "keeps (proper N U R) (dial_and_send N cfg from rs msg)"
proof -
  let ?P = "proper N U R" and ?A = "\<lambda>t l. proper N U R l \<and> tls_after False l = t"
  let ?i = "sm_port cfg = ''465''" and ?up = "sm_port cfg \<noteq> ''465'' \<and> nw_starttls N"
  have step: "ensures ?P m (\<lambda>r. ?P) \<Longrightarrow> ensures ?P (seq (handle m (\<lambda>e. err (f e)) ret) k) (\<lambda>r. ?P)"
    if "ensures ?P k (\<lambda>r. ?P)" for m :: "unit out" and f and k :: "unit out"
    using that by (auto simp: ensures_def seq_def bind_def handle_def split: prod.splits sum.splits)
  have dial: "ensures ?P (handle (connect N a ?i) (\<lambda>e. err (f e)) ret) (\<lambda>r s. ?P s \<and> (isl r \<or> tls_after False s = ?i))" for a f
    by (auto simp: ensures_def connect_def emit_def seq_def bind_def handle_def tls_after_snoc intro!: proper_emit proper_handshake simp: allowed_def split: option.splits)
  have upgrade: "ensures (?A ?i) (if ?up then handle (start_tls N) (\<lambda>e. err (f e)) ret else ret ())
      (\<lambda>r s. ?P s \<and> (isl r \<or> tls_after False s = (?i \<or> nw_starttls N)))" for f
    by (auto simp: ensures_def start_tls_def emit_def seq_def bind_def handle_def tls_after_snoc intro!: proper_emit proper_handshake simp: allowed_def split: option.splits)
  have rest: "keeps ?P (seq (seq (emit (SmtpMail from)) (fails_as w1 e1))
     (seq (for_each (\<lambda>r. seq (emit (SmtpRcpt r)) (fails_as (w2 r) (e2 r))) rs)
     (seq (fails_as w3 e3) (seq (fails_as w4 e4) (seq (seq (emit (SmtpData msg)) (fails_as w5 e5)) (seq (emit SmtpQuit) (fails_with e6)))))))"
    for w1 e1 w2 e2 w3 e3 w4 e4 w5 e5 e6
  proof -
    have p: "keeps ?P (for_each (\<lambda>r. seq (emit (SmtpRcpt r)) (fails_as (w2 r) (e2 r))) rs)"
      using R by (induction rs) (auto intro!: keeps_intros proper_keeps_emit simp: allowed_def)
    show ?thesis by (intro p keeps_seq keeps_fails_as keeps_fails_with_any proper_keeps_emit) (simp_all add: allowed_def)
  qed
  have auth: "ensures (?A (?i \<or> nw_starttls N)) (if sm_user cfg = [] then ret () else if \<not> (?i \<or> nw_starttls N) then err x
      else seq (emit (SmtpAuth (sm_user cfg) (sm_password cfg))) (fails_as ''auth'' (nw_auth N))) (\<lambda>r. ?P)" for x
    by (auto simp: ensures_def emit_def seq_def bind_def handle_def fails_as_def allowed_def intro!: proper_emit split: option.splits)
  have quiet: "ensures (?A t) (seq (fails_as w e) k) (\<lambda>r. ?P)" if "ensures (?A t) k (\<lambda>r. ?P)" for t w e and k :: "unit out"
    using that by (cases e) (auto simp: fails_as_def seq_def bind_def handle_def ensures_def)
  have go: "ensures A (seq m k) (\<lambda>r. ?P)"
    if "ensures A m (\<lambda>r s. ?P s \<and> (isl r \<or> tls_after False s = t))" "ensures (?A t) k (\<lambda>r. ?P)" for A t and m k :: "unit out"
    using that unfolding ensures_def seq_def bind_def handle_def by (fastforce split: prod.splits sum.splits)
  have last: "ensures A (seq m k) (\<lambda>r. ?P)" if "ensures A m (\<lambda>r. ?P)" "keeps ?P k" for A and m k :: "unit out"
    using that unfolding ensures_def keeps_def seq_def bind_def handle_def by (fastforce split: prod.splits sum.splits)
  have "ensures ?P (dial_and_send N cfg from rs msg) (\<lambda>_. ?P)"
    unfolding dial_and_send_def Let_def
    by (rule go [OF dial], rule quiet, rule go [OF upgrade], rule last [OF auth], rule rest)
  then show ?thesis by (simp add: keeps_def ensures_def)
qed

definition channel_posts :: "notify_channel \<Rightarrow> string set" where
  "channel_posts c =
     (if nc_type c = ''telegram'' then telegram_url ` {t. config_field ''bot_token'' c = Some t}
      else if nc_type c \<in> {''discord'', ''slack'', ''google_chat''} then {u. config_field ''webhook_url'' c = Some u}
      else {})"

definition channel_mails :: "notify_channel \<Rightarrow> string set" where
  "channel_mails c = (case config_field ''recipients'' c of
     Some rs \<Rightarrow> if nc_type c = ''email'' then set (recipients_of rs) else {} | None \<Rightarrow> {})"

abbreviation sent :: "net_world \<Rightarrow> string set \<Rightarrow> string set \<Rightarrow> world \<times> outgoing list \<Rightarrow> bool" where
  "sent N U R \<equiv> (\<lambda>(w, l). proper N U R l)"

lemma keeps_on_net: "keeps (proper N U R) m \<Longrightarrow> keeps (sent N U R) (on_net m)"
  by (auto simp: keeps_def on_net_def split: prod.splits)

lemma keeps_on_store: "keeps (sent N U R) (on_store m)"
  by (auto simp: keeps_def on_store_def split: prod.splits)

lemma send_proper:
  assumes "{u \<in> channel_posts c. \<not> is_blocked_url u} \<subseteq> U" "channel_mails c \<subseteq> R"
  shows "keeps (sent N U R) (send_to_channel N c title msg severity)"
proof -
  have w: "keeps (proper N U R) (send_webhook N h what fld stars c title msg severity)"
    if "nc_type c \<in> {''discord'', ''slack'', ''google_chat''}" for h what fld stars
    unfolding send_webhook_def using assms(1) that
    by (intro keeps_intros proper_post_checked) (auto simp: channel_posts_def)
  have t: "keeps (proper N U R) (send_telegram N c title msg)" if "nc_type c = ''telegram''"
    unfolding send_telegram_def using assms(1) that
    by (auto simp: channel_posts_def split: option.splits intro!: proper_post_checked)
  have e: "keeps (sent N U R) (send_email N c title msg severity)" if "nc_type c = ''email''"
    unfolding send_email_def using assms(2) that
    by (intro keeps_intros keeps_on_store keeps_on_net proper_session) (auto simp: channel_mails_def)
  show ?thesis
    unfolding send_to_channel_def send_discord_def send_slack_def send_google_chat_def
    by (simp add: keeps_on_net w t e)
qed


text \<open>The screen compares texts: it misses the metadata address of clouds, the other private ranges, IPv6 hosts (the host is cut
  at its first colon, so the entry \<open>::1\<close> never matches), upper case and a user name before the host.\<close>

lemma unscreened:
  "\<not> is_blocked_url ''http://169.254.169.254/latest/meta-data''" "\<not> is_blocked_url ''http://172.16.0.1/''"
  "\<not> is_blocked_url ''http://[::1]:6443/''" "\<not> is_blocked_url ''http://LOCALHOST/''" "\<not> is_blocked_url ''http://x@127.0.0.1/''"
  by (simp_all add: is_blocked_url_def url_host_def has_prefix_def)

definition demo_net :: net_world where
  "demo_net = \<lparr>nw_http = (\<lambda>_ left _ _. Inr (if left = 9 then (307, Some ''http://10.0.0.1/'') else (200, None))), nw_dial = (\<lambda>_ _. None),
     nw_client = None, nw_starttls = True, nw_upgrade = None, nw_auth = None,
     nw_mail = None, nw_rcpt = (\<lambda>_. None), nw_data = None, nw_write = None, nw_close = None, nw_quit = None\<rparr>"

definition demo_channel :: notify_channel where
  "demo_channel = \<lparr>bm_id = 4, bm_created = 0, bm_updated = 0, bm_deleted = None, nc_org = 2, nc_type = ''slack'', nc_enabled = True,
     nc_config = Some (JObject [(''webhook_url'', JString ''http://169.254.169.254/'')])\<rparr>"

lemma demo_slack: "\<exists>x. send_slack demo_net demo_channel t m s [] = (Inr (),
    [HttpPost ''http://169.254.169.254/'' x, HttpPost ''http://10.0.0.1/'' x])"
proof -
  have c: "config_field ''webhook_url'' demo_channel = Some ''http://169.254.169.254/''"
    by (simp add: config_field_def demo_channel_def equal_fold_def to_lower_def lower_char_def is_upper_char_def char_in_def)
  have b: "\<not> is_blocked_url ''http://169.254.169.254/''" by (simp add: is_blocked_url_def url_host_def has_prefix_def)
  have p: "client_post demo_net 0 10 ''http://169.254.169.254/'' (Some x) [] =
      (Inr 200, [HttpPost ''http://169.254.169.254/'' x, HttpPost ''http://10.0.0.1/'' x])" for x
    by (simp add: client_post_numeral demo_net_def redirect_to_def request_def emit_def seq_def bind_def handle_def)
  show ?thesis
    by (simp add: send_slack_def send_webhook_def c post_checked_def http_post_with_retry_def b bind_def handle_def p)
qed


end
