(* ===== verification/Node_Service.thy ===== *)
theory Node_Service imports Notification_Service begin

text \<open>
  Server nodes (\<open>service/node_service.go\<close>): rows, the log streams of their installation, and the installation itself, over
  SSH with a host key that is trusted on first use.  \<open>ssh_host\<close> is what the machine and the cluster answer.
\<close>

section \<open>Log streams\<close>

text \<open>A subscriber is a channel with a buffer of 256 lines; a line for a full channel is dropped.\<close>

type_synonym streams = "uuid \<Rightarrow> (nat \<times> string list) list"

definition subscribe_logs :: "uuid \<Rightarrow> nat \<Rightarrow> streams \<Rightarrow> streams" where
  "subscribe_logs i ch S = S(i := S i @ [(ch, [])])"

fun drop_channel :: "nat \<Rightarrow> (nat \<times> string list) list \<Rightarrow> (nat \<times> string list) list" where
  "drop_channel ch [] = []"
| "drop_channel ch (x # xs) = (if fst x = ch then xs else x # drop_channel ch xs)"

definition unsubscribe_logs :: "uuid \<Rightarrow> nat \<Rightarrow> streams \<Rightarrow> streams" where
  "unsubscribe_logs i ch S = S(i := drop_channel ch (S i))"

definition broadcast_line :: "uuid \<Rightarrow> string \<Rightarrow> streams \<Rightarrow> streams" where
  "broadcast_line i l S = S(i := map (\<lambda>(ch, b). (ch, if length b < 256 then b @ [l] else b)) (S i))"

section \<open>Rows\<close>

record create_node_input =
  cni_name :: string
  cni_host :: string
  cni_port :: int
  cni_user :: string
  cni_auth :: string
  cni_key :: "uuid option"
  cni_password :: string
  cni_role :: string

definition node_create :: "uuid \<Rightarrow> create_node_input \<Rightarrow> server_node io" where
  "node_create og inp =
     seq (case cni_key inp of None \<Rightarrow> ret () | Some k \<Rightarrow>
         handle (resources_get_by_id k) (\<lambda>e. err (ErrWrap ''SSH key not found'' e)) (\<lambda>r.
           if sr_org r \<noteq> og then err (ErrMsg ''SSH key does not belong to this organization'') else ret ()))
       (nodes_create \<lparr>bm_id = uuid_nil, bm_created = 0, bm_updated = 0, bm_deleted = None, sn_name = cni_name inp, sn_host = cni_host inp,
          sn_port = (if cni_port inp = 0 then 22 else cni_port inp), sn_user = or_default ''root'' (cni_user inp),
          sn_auth = or_default ''password'' (cni_auth inp), sn_key = cni_key inp, sn_password = cni_password inp,
          sn_role = or_default ''worker'' (cni_role inp), sn_status = NodePending, sn_message = [], sn_k8s = [], sn_fingerprint = []\<rparr>)"

definition node_delete :: "uuid \<Rightarrow> uuid \<Rightarrow> unit io" where
  "node_delete og i = bind (nodes_get_by_id i) (\<lambda>n. seq (nodes_delete i)
     (notify_resource_deleted og ''node_deleted'' (sn_name n) (''Server node '' @ quoted (sn_name n) @ '' ('' @ sn_host n @ '') was deleted'')))"

section \<open>The installation\<close>

datatype ssh_login =
    NoLogin
  | PasswordLogin string
  | KeyLogin string string

text \<open>\<open>sh_key\<close> is the host key that the machine presents, \<open>sh_text\<close> the text of an error; \<open>sh_cluster\<close> answers the requests for
  the nodes of the cluster one after the other.\<close>

record ssh_host =
  sh_tcp :: "go_error option"
  sh_key :: string
  sh_sha256 :: "string \<Rightarrow> string"
  sh_parse_key :: "string \<Rightarrow> string \<Rightarrow> go_error option"
  sh_login :: "ssh_login \<Rightarrow> go_error option"
  sh_session :: "go_error option"
  sh_pipe :: "go_error option"
  sh_start :: "string \<Rightarrow> go_error option"
  sh_output :: "string list"
  sh_read_error :: "go_error option"
  sh_wait :: "go_error option"
  sh_text :: "go_error \<Rightarrow> string"
  sh_cluster :: "nat \<Rightarrow> go_error + node_info list"

datatype install_step =
    Line string
  | Login ssh_login
  | Ran string

type_synonym 'a installer = "(world \<times> install_step list, 'a) act"

definition on_rows :: "'a io \<Rightarrow> 'a installer" where
  "on_rows m = (\<lambda>(w, l). case m w of (r, w') \<Rightarrow> (r, (w', l)))"

definition step :: "install_step \<Rightarrow> unit installer" where
  "step s = modify (\<lambda>(w, l). (w, l @ [s]))"

definition give_up :: "string \<Rightarrow> 'a installer" where
  "give_up msg = err (ErrMsg msg)"

definition give_up_on :: "ssh_host \<Rightarrow> string \<Rightarrow> go_error option \<Rightarrow> unit installer" where
  "give_up_on H what e = (case e of None \<Rightarrow> ret () | Some x \<Rightarrow> give_up (what @ sh_text H x))"

definition fingerprint :: "ssh_host \<Rightarrow> string" where
  "fingerprint H = ''SHA256:'' @ b64_encode (sh_sha256 H (sh_key H))"

definition json_text :: "string \<Rightarrow> json option \<Rightarrow> string option" where
  "json_text k j = (case j of None \<Rightarrow> None | Some x \<Rightarrow> (case json_field k x of (v, ok) \<Rightarrow> if ok then Some v else None))"

definition node_login :: "ssh_host \<Rightarrow> server_node \<Rightarrow> ssh_login installer" where
  "node_login H n =
     (if sn_auth n = ''password'' then ret (PasswordLogin (sn_password n))
      else if sn_auth n = ''ssh_key'' then (case sn_key n of None \<Rightarrow> ret NoLogin | Some k \<Rightarrow>
        handle (on_rows (resources_get_by_id k)) (\<lambda>e. give_up (''Failed to load SSH key: '' @ sh_text H e)) (\<lambda>r.
          case (json_text ''private_key'' (sr_config r), json_text ''passphrase'' (sr_config r)) of
            (Some key, Some pass) \<Rightarrow> seq (give_up_on H ''Failed to parse SSH key: '' (sh_parse_key H key pass)) (ret (KeyLogin key pass))
          | _ \<Rightarrow> give_up (''Invalid SSH key config: '' @ sh_text H (ErrMsg ''json''))))
      else ret NoLogin)"

text \<open>\<open>ssh.Dial\<close>: the connection, the check of the host key, the login.  The first key is trusted and returned.\<close>

definition host_key_mismatch :: "ssh_host \<Rightarrow> server_node \<Rightarrow> go_error" where
  "host_key_mismatch H n = ErrMsg (''host key mismatch: expected '' @ sn_fingerprint n @ '', got '' @ fingerprint H @ '' '' @ em_dash @ '' possible MITM attack'')"

definition ssh_dial :: "ssh_host \<Rightarrow> server_node \<Rightarrow> ssh_login \<Rightarrow> string installer" where
  "ssh_dial H n how = seq (give_up_on H ''SSH connection failed: '' (sh_tcp H))
     (if sn_fingerprint n = []
      then seq (step (Line (''Host key fingerprint (TOFU): '' @ fingerprint H)))
        (seq (step (Login how)) (seq (give_up_on H ''SSH connection failed: '' (sh_login H how)) (ret (fingerprint H))))
      else if fingerprint H \<noteq> sn_fingerprint n then give_up (''SSH connection failed: '' @ sh_text H (host_key_mismatch H n))
      else seq (step (Login how)) (seq (give_up_on H ''SSH connection failed: '' (sh_login H how)) (ret [])))"

definition server_ip :: "ssh_host \<Rightarrow> string" where
  "server_ip H = (case sh_cluster H 0 of
     Inr (n # ns) \<Rightarrow> (case find (\<lambda>m. ''control-plane'' \<in> set (ni_roles m) \<or> ''master'' \<in> set (ni_roles m)) (n # ns) of
         Some m \<Rightarrow> ni_ip m | None \<Rightarrow> ni_ip n)
   | _ \<Rightarrow> ''127.0.0.1'')"

definition install_command :: "server_node \<Rightarrow> string \<Rightarrow> string \<Rightarrow> string" where
  "install_command n url token =
     (let r = (if sn_role n = ''server'' then ''server --server '' @ url @ '' --flannel-backend=wireguard-native'' else ''agent'') in
      ''curl -sfL https://get.k3s.io | INSTALL_K3S_EXEC='' @ shell_quote r @ '' K3S_URL='' @ shell_quote url @ '' K3S_TOKEN='' @
      shell_quote token @ '' sh -s - 2>&1'')"

definition stream_output :: "ssh_host \<Rightarrow> unit installer" where
  "stream_output H = seq
     (for_each (\<lambda>l. step (Line l)) (filter (\<lambda>l. l \<noteq> []) (map trim_space (concat (map (split_on CHR 0x0A) (sh_output H))))))
     (case sh_read_error H of None \<Rightarrow> ret () | Some e \<Rightarrow> step (Line (''Read error: '' @ sh_text H e)))"

fun await_join :: "ssh_host \<Rightarrow> string list \<Rightarrow> server_node \<Rightarrow> nat list \<Rightarrow> unit installer" where
  "await_join H known n [] = give_up ''Timeout: node did not join cluster within 120 seconds''"
| "await_join H known n (i # is) = (case sh_cluster H (i + 2) of
     Inl e \<Rightarrow> await_join H known n is
   | Inr ns \<Rightarrow> (case find (\<lambda>m. ni_name m \<notin> set known \<or> ni_ip m = sn_host n) ns of
       Some m \<Rightarrow> seq (step (Line (''Node '' @ ni_name m @ '' joined the cluster! Status: '' @ ni_status m)))
         (seq (on_rows (attempt (nodes_update_status (bm_id n) NodeReady [])))
           (on_rows (attempt (nodes_update_row (n\<lparr>sn_k8s := ni_name m, sn_status := NodeReady\<rparr>)))))
     | None \<Rightarrow> seq (step (Line (''Waiting... ('' @ digits_of ((i + 1) * 5) @ ''s)''))) (await_join H known n is)))"

definition connected :: "ssh_host \<Rightarrow> server_node \<Rightarrow> unit installer" where
  "connected H n = bind (on_rows (setting_or_empty ''k3s_token'')) (\<lambda>token.
     let url = ''https://'' @ server_ip H @ '':6443''; known = map ni_name (answer (sh_cluster H 1)); cmd = install_command n url token in
     if token = [] then give_up (''K3s token not configured. Set it in Settings '' @ [char_of (226 :: nat), char_of (134 :: nat), char_of (146 :: nat)] @ '' k3s_token'')
     else seq (step (Line (''K3s server: '' @ url))) (seq (step (Line ''Installing K3s...''))
       (seq (give_up_on H ''Failed to create SSH session: '' (sh_session H)) (seq (give_up_on H ''Failed to pipe stdout: '' (sh_pipe H))
       (seq (step (Ran cmd)) (seq (give_up_on H ''Failed to start install command: '' (sh_start H cmd)) (seq (stream_output H)
       (seq (give_up_on H ''K3s installation failed: '' (sh_wait H))
       (seq (step (Line ''K3s installed. Waiting for node to join cluster...'')) (await_join H known n [0..<24])))))))))) "

definition install_node :: "ssh_host \<Rightarrow> server_node \<Rightarrow> unit installer" where
  "install_node H n = seq (step (Line (''Connecting to '' @ sn_user n @ ''@'' @ sn_host n @ '':'' @ itoa (sn_port n) @ ''...'')))
     (bind (node_login H n) (\<lambda>how. bind (ssh_dial H n how) (\<lambda>seen. seq (step (Line ''Connected successfully.''))
       (if seen = [] then connected H n
        else let n' = n\<lparr>sn_fingerprint := seen\<rparr> in seq (on_rows (attempt (nodes_update_row n'))) (connected H n')))))"

definition finish_with_error :: "uuid \<Rightarrow> string \<Rightarrow> unit installer" where
  "finish_with_error i msg = seq (step (Line (''ERROR: '' @ msg))) (on_rows (attempt (nodes_update_status i NodeError msg)))"

definition run_initialize :: "ssh_host \<Rightarrow> server_node \<Rightarrow> unit installer" where
  "run_initialize H n = handle (install_node H n) (\<lambda>e. finish_with_error (bm_id n) (case e of ErrMsg m \<Rightarrow> m | _ \<Rightarrow> sh_text H e)) ret"

text \<open>The request and the goroutine it starts.\<close>

definition node_initialize :: "ssh_host \<Rightarrow> uuid \<Rightarrow> unit installer" where
  "node_initialize H i = bind (on_rows (nodes_get_by_id i)) (\<lambda>n.
     seq (on_rows (attempt (nodes_update_status i NodeInitializing []))) (run_initialize H n))"

section \<open>How an installation ends\<close>

definition row_with :: "uuid \<Rightarrow> (server_node \<Rightarrow> bool) \<Rightarrow> (install_step list \<Rightarrow> bool) \<Rightarrow> world \<times> install_step list \<Rightarrow> bool" where
  "row_with i F G = (\<lambda>(w, l). calm w \<and> distinct_ids (nodes (db w)) \<and> (\<exists>m. by_id i (nodes (db w)) = Some m \<and> F m) \<and> G l)"

abbreviation any_row :: "server_node \<Rightarrow> bool" where
  "any_row \<equiv> (\<lambda>_. True)"

definition ready_with :: "ssh_host \<Rightarrow> server_node \<Rightarrow> bool" where
  "ready_with H m \<longleftrightarrow> sn_status m = NodeReady \<and> sn_fingerprint m = fingerprint H"

text \<open>The outcome of the installation: the node is ready, or an error that is still to be written.\<close>

definition installed :: "uuid \<Rightarrow> ssh_host \<Rightarrow> (install_step list \<Rightarrow> bool) \<Rightarrow> go_error + 'a \<Rightarrow> world \<times> install_step list \<Rightarrow> bool" where
  "installed i H G r = (case r of Inl e \<Rightarrow> row_with i any_row G | Inr _ \<Rightarrow> row_with i (ready_with H) G)"

lemma ens_rows_read:
  assumes "reads m" "keeps calm m"
  shows "ensures (row_with i F G) (on_rows m) (\<lambda>_. row_with i F G)"
  unfolding ensures_def
proof (intro allI impI)
  fix s assume a: "row_with i F G s"
  obtain w l where s: "s = (w, l)" by (cases s)
  obtain r w' where m: "m w = (r, w')" by (cases "m w")
  have "db w' = db w" by (rule readsD [OF assms(1) m])
  moreover have "calm w'" using keepsD [OF assms(2) _ m] a by (simp add: s row_with_def)
  ultimately show "row_with i F G (snd (on_rows m s))" using a m by (simp add: s on_rows_def row_with_def)
qed

lemma ens_step: "(\<And>l. G l \<Longrightarrow> G (l @ [x])) \<Longrightarrow> ensures (row_with i F G) (step x) (succeeds (\<lambda>_. row_with i F G))"
  by (auto simp: ensures_def step_def row_with_def)

lemma ens_give_up: "ensures A (give_up m) (\<lambda>r s. A s \<and> isl r)"
  by (simp add: give_up_def ensures_def)

lemma ens_give_up_on: "ensures A (give_up_on H what e) (\<lambda>_. A)"
  by (auto simp: give_up_on_def give_up_def ensures_def split: option.splits)

lemma ens_row_write:
  assumes "bm_id x = i" "live x"
  shows "ensures (row_with i F G) (on_rows (attempt (nodes_update_row x))) (succeeds (\<lambda>_. row_with i (\<lambda>m. m = x) G))"
proof -
  have "on_rows (attempt (nodes_update_row x)) (w, l) = (Inr (), (next_fault w)\<lparr>db := nodes_update (replace_pk x) (db w)\<rparr>, l)" if "calm w" for w l
    using that by (simp add: on_rows_def attempt_def handle_def nodes_update_row_def update_row_def statement_def no_index_def)
  then show ?thesis using assms
    by (auto simp: ensures_def row_with_def by_id_replace_pk)
qed

lemma ens_row_status:
  "ensures (row_with i F G) (on_rows (attempt (nodes_update_status i s msg)))
    (succeeds (\<lambda>_. row_with i (\<lambda>m. \<exists>m0. F m0 \<and> m = m0\<lparr>sn_status := s, sn_message := msg\<rparr>) G))"
proof -
  have run: "on_rows (attempt (nodes_update_status i s msg)) (w, l) = (Inr (), (next_fault w)\<lparr>db := nodes_update (update_live (\<lambda>n. bm_id n = i)
      (\<lambda>n. n\<lparr>sn_status := s, sn_message := msg\<rparr>)) (db w)\<rparr>, l)" if "calm w" for w l
    using that by (simp add: on_rows_def attempt_def handle_def nodes_update_status_def exec_def statement_def)
  have ids: "map bm_id (update_live P (\<lambda>n. n\<lparr>sn_status := s, sn_message := msg\<rparr>) t) = map bm_id t" for P and t :: "server_node list"
    by (induction t) (auto simp: update_live_def)
  have "by_id i (update_live (\<lambda>n. bm_id n = i) (\<lambda>n. n\<lparr>sn_status := s, sn_message := msg\<rparr>) t) =
      map_option (\<lambda>n. n\<lparr>sn_status := s, sn_message := msg\<rparr>) (by_id i t)" for t :: "server_node list"
    by (induction t) (auto simp: update_live_def by_id_Cons live_def)
  then show ?thesis using run by (auto simp: ensures_def row_with_def distinct_ids_def ids)
qed

lemma ens_weaken: "ensures (row_with i F G) m Q \<Longrightarrow> (\<And>x. F' x \<Longrightarrow> F x) \<Longrightarrow> ensures (row_with i F' G) m Q"
  by (erule ens_pre) (auto simp: row_with_def)

lemma calm_reads: "keeps calm (resources_get_by_id k)" "keeps calm (setting_or_empty key)" "keeps calm (nodes_get_by_id i)"
  "reads (setting_or_empty key)" "reads (resources_get_by_id k)" "reads (nodes_get_by_id i)"
  by (simp_all add: resources_get_by_id_def setting_or_empty_def settings_get_def nodes_get_by_id_def keeps_intros reads_intros)

lemma ens_stop_or:
  assumes "ensures A m (\<lambda>_. A)" "ensures A k Q" "\<And>e s. A s \<Longrightarrow> Q (Inl e) s"
  shows "ensures A (seq m k) Q"
  unfolding seq_def bind_def by (rule ens_handle [OF assms(1)]) (auto intro: ens_err assms(2,3))

lemma any_row_of [simp]: "row_with i F G s \<Longrightarrow> row_with i any_row G s"
  by (auto simp: row_with_def)

text \<open>Quiet steps go on in the state they found, or stop with an error that is written later.\<close>

lemma go_line: "ensures (row_with i any_row (\<lambda>_. True)) k (installed i H (\<lambda>_. True)) \<Longrightarrow>
    ensures (row_with i any_row (\<lambda>_. True)) (seq (step x) k) (installed i H (\<lambda>_. True))"
  by (rule ens_seq [OF ens_step]) auto

lemma go_check: "ensures (row_with i any_row (\<lambda>_. True)) k (installed i H (\<lambda>_. True)) \<Longrightarrow>
    ensures (row_with i any_row (\<lambda>_. True)) (seq (give_up_on H' what e) k) (installed i H (\<lambda>_. True))"
  by (rule ens_stop_or [OF ens_give_up_on]) (auto simp: installed_def)

lemma go_stop: "ensures (row_with i any_row (\<lambda>_. True)) (give_up m) (installed i H (\<lambda>_. True))"
  by (simp add: give_up_def ensures_def installed_def)

lemma await_installed:
  assumes n: "bm_id n = i" "live n" "sn_fingerprint n = fingerprint H"
  shows "ensures (row_with i any_row (\<lambda>_. True)) (await_join H known n is) (installed i H (\<lambda>_. True))"
proof (induction "is")
  case Nil
  show ?case by (simp add: go_stop)
next
  case (Cons j js)
  have joined: "ensures (row_with i any_row (\<lambda>_. True)) (seq (on_rows (attempt (nodes_update_status (bm_id n) NodeReady [])))
      (on_rows (attempt (nodes_update_row (n\<lparr>sn_k8s := x, sn_status := NodeReady\<rparr>))))) (installed i H (\<lambda>_. True))" for x
  proof -
    have l: "bm_id (n\<lparr>sn_k8s := x, sn_status := NodeReady\<rparr>) = i" "live (n\<lparr>sn_k8s := x, sn_status := NodeReady\<rparr>)"
      using n by (simp_all add: live_def)
    show ?thesis unfolding n(1)
      by (rule ens_seq [OF ens_row_status], rule ens_post [OF ens_weaken [OF ens_row_write [OF l, where F = any_row]]])
        (use n in \<open>auto simp: succeeds_def installed_def row_with_def ready_with_def split: sum.splits\<close>)
  qed
  show ?case using Cons.IH by (auto simp: go_line joined split: sum.splits option.splits)
qed

lemma stream_keeps: "ensures (row_with i F (\<lambda>_. True)) (stream_output H) (\<lambda>_. row_with i F (\<lambda>_. True))"
proof -
  have s: "keeps (row_with i F (\<lambda>_. True)) (step x)" for x by (auto simp: keeps_def step_def row_with_def)
  show ?thesis unfolding stream_output_def ensures_def keeps_def [symmetric]
    by (intro keeps_intros s)
qed

lemma go_read:
  assumes "reads m" "keeps calm m" "\<And>x. ensures (row_with i any_row (\<lambda>_. True)) (k x) (installed i H (\<lambda>_. True))"
  shows "ensures (row_with i any_row (\<lambda>_. True)) (bind (on_rows m) k) (installed i H (\<lambda>_. True))"
  unfolding bind_def by (rule ens_handle [OF ens_rows_read [OF assms(1,2)]]) (auto intro: ens_err assms(3) simp: installed_def)

lemma connected_installed:
  assumes "bm_id n = i" "live n" "sn_fingerprint n = fingerprint H"
  shows "ensures (row_with i any_row (\<lambda>_. True)) (connected H n) (installed i H (\<lambda>_. True))"
proof -
  have s: "ensures (row_with i any_row (\<lambda>_. True)) (seq (stream_output H) k) (installed i H (\<lambda>_. True))"
    if "ensures (row_with i any_row (\<lambda>_. True)) k (installed i H (\<lambda>_. True))" for k :: "unit installer"
    by (rule ens_stop_or [OF stream_keeps that]) (simp add: installed_def)
  show ?thesis unfolding connected_def
    by (rule go_read [OF calm_reads(4,2)]) (auto simp: Let_def intro!: go_line go_check go_stop s await_installed assms)
qed

lemma login_any: "ensures (row_with i F G) (node_login H n) (\<lambda>_. row_with i F G)"
proof -
  have "keeps (row_with i F G) (on_rows (resources_get_by_id k))" for k
    using ens_rows_read [OF calm_reads(5,1), of i F G k] by (simp add: ensures_def keeps_def)
  moreover have "keeps (row_with i F G) (give_up m :: 'x installer)" for m by (simp add: give_up_def)
  moreover have "keeps (row_with i F G) (give_up_on H w e)" for w e
    using ens_give_up_on [of "row_with i F G" H w e] by (simp add: ensures_def keeps_def)
  ultimately have "keeps (row_with i F G) (node_login H n)" unfolding node_login_def by (intro keeps_intros | simp add: give_up_def)+
  then show ?thesis by (simp add: ensures_def keeps_def)
qed

text \<open>The dial returns the fingerprint to be stored, empty when the stored one matched.\<close>

lemma dial_pins:
  "ensures (row_with i any_row (\<lambda>_. True)) (ssh_dial H n how) (\<lambda>r s. row_with i any_row (\<lambda>_. True) s \<and>
    (case r of Inl e \<Rightarrow> True | Inr seen \<Rightarrow> seen = [] \<and> sn_fingerprint n = fingerprint H \<or> seen = fingerprint H))"
proof -
  let ?Q = "\<lambda>r s. row_with i any_row (\<lambda>_. True) s \<and>
    (case r of Inl e \<Rightarrow> True | Inr seen \<Rightarrow> seen = [] \<and> sn_fingerprint n = fingerprint H \<or> seen = fingerprint H)"
  have l: "ensures (row_with i any_row (\<lambda>_. True)) (seq (step x) k) ?Q" if "ensures (row_with i any_row (\<lambda>_. True)) k ?Q" for x and k :: "string installer"
    by (rule ens_seq [OF ens_step]) (auto intro: that)
  have c: "ensures (row_with i any_row (\<lambda>_. True)) (seq (give_up_on H w e) k) ?Q" if "ensures (row_with i any_row (\<lambda>_. True)) k ?Q" for w e and k :: "string installer"
    by (rule ens_stop_or [OF ens_give_up_on that]) auto
  show ?thesis unfolding ssh_dial_def
    by (auto intro!: l c ens_ret ens_err simp: give_up_def)
qed

lemma install_installed:
  assumes n: "bm_id n = i" "live n"
  shows "ensures (row_with i any_row (\<lambda>_. True)) (install_node H n) (installed i H (\<lambda>_. True))"
proof -
  have store: "ensures (row_with i any_row (\<lambda>_. True)) (if seen = [] then connected H n
        else let n' = n\<lparr>sn_fingerprint := seen\<rparr> in seq (on_rows (attempt (nodes_update_row n'))) (connected H n')) (installed i H (\<lambda>_. True))"
    if "seen = [] \<and> sn_fingerprint n = fingerprint H \<or> seen = fingerprint H" for seen
  proof (cases "seen = []")
    case True
    then have "sn_fingerprint n = fingerprint H" using that by (auto simp: fingerprint_def)
    then show ?thesis using True connected_installed [OF n] by simp
  next
    case False
    let ?n = "n\<lparr>sn_fingerprint := seen\<rparr>"
    have "bm_id ?n = i" "live ?n" "sn_fingerprint ?n = fingerprint H" using n that False by (auto simp: live_def)
    from connected_installed [OF this] have c: "ensures (row_with i (\<lambda>m. m = ?n) (\<lambda>_. True)) (connected H ?n) (installed i H (\<lambda>_. True))"
      by (rule ens_weaken) simp
    have "ensures (row_with i any_row (\<lambda>_. True)) (seq (on_rows (attempt (nodes_update_row ?n))) (connected H ?n)) (installed i H (\<lambda>_. True))"
      by (rule ens_seq [OF ens_row_write c]) (use n in \<open>auto simp: live_def\<close>)
    then show ?thesis using False by (simp add: Let_def)
  qed
  have d: "ensures (row_with i any_row (\<lambda>_. True)) (bind (ssh_dial H n how) (\<lambda>seen. seq (step (Line x))
       (if seen = [] then connected H n
        else let n' = n\<lparr>sn_fingerprint := seen\<rparr> in seq (on_rows (attempt (nodes_update_row n'))) (connected H n')))) (installed i H (\<lambda>_. True))" for how x
    unfolding bind_def
  proof (rule ens_handle [OF dial_pins])
    fix e :: go_error
    show "ensures (\<lambda>s. row_with i any_row (\<lambda>_. True) s \<and> (case Inl e of Inl e \<Rightarrow> True | Inr seen \<Rightarrow> seen = [] \<and> sn_fingerprint n = fingerprint H \<or> seen = fingerprint H))
        (err e) (installed i H (\<lambda>_. True))" by (auto simp: ensures_def installed_def)
  next
    fix seen
    show "ensures (\<lambda>s. row_with i any_row (\<lambda>_. True) s \<and> (case Inr seen of Inl e \<Rightarrow> True | Inr seen \<Rightarrow> seen = [] \<and> sn_fingerprint n = fingerprint H \<or> seen = fingerprint H))
       (seq (step (Line x)) (if seen = [] then connected H n
        else let n' = n\<lparr>sn_fingerprint := seen\<rparr> in seq (on_rows (attempt (nodes_update_row n'))) (connected H n'))) (installed i H (\<lambda>_. True))"
    proof (cases "seen = [] \<and> sn_fingerprint n = fingerprint H \<or> seen = fingerprint H")
      case True
      show ?thesis by (rule ens_pre [OF go_line [OF store [OF True]]]) auto
    next
      case False
      show ?thesis by (rule ens_pre [where A = "\<lambda>_. False"]) (use False in \<open>auto simp: ensures_def\<close>)
    qed
  qed
  have "ensures (row_with i any_row (\<lambda>_. True)) (bind (node_login H n) (\<lambda>how. bind (ssh_dial H n how) (\<lambda>seen. seq (step (Line ''Connected successfully.''))
       (if seen = [] then connected H n
        else let n' = n\<lparr>sn_fingerprint := seen\<rparr> in seq (on_rows (attempt (nodes_update_row n'))) (connected H n'))))) (installed i H (\<lambda>_. True))"
    unfolding bind_def [of "node_login H n"] by (rule ens_handle [OF login_any]) (auto simp: installed_def intro: ens_err d)
  then show ?thesis unfolding install_node_def by (rule go_line)
qed

lemma mismatch_idle:
  assumes "sn_fingerprint n \<noteq> []" "sn_fingerprint n \<noteq> fingerprint H"
  shows "ensures (row_with i F (list_all (\<lambda>s. \<exists>t. s = Line t))) (install_node H n) (\<lambda>r s. isl r \<and> row_with i F (list_all (\<lambda>s. \<exists>t. s = Line t)) s)"
proof -
  let ?A = "row_with i F (list_all (\<lambda>s. \<exists>t. s = Line t))"
  have d: "ensures ?A (ssh_dial H n how) (\<lambda>r s. isl r \<and> ?A s)" for how
    using assms by (cases "sh_tcp H") (auto simp: ssh_dial_def give_up_on_def give_up_def ensures_def seq_def bind_def handle_def)
  have "ensures ?A (bind (ssh_dial H n how) k) (\<lambda>r s. isl r \<and> ?A s)" for how and k :: "string \<Rightarrow> unit installer"
    unfolding bind_def by (rule ens_handle [OF d]) (auto simp: ensures_def)
  then have "ensures ?A (bind (node_login H n) (\<lambda>how. bind (ssh_dial H n how) k)) (\<lambda>r s. isl r \<and> ?A s)" for k :: "string \<Rightarrow> unit installer"
    unfolding bind_def [of "node_login H n"] by (intro ens_handle [OF login_any]) (auto intro: ens_err)
  then show ?thesis unfolding install_node_def by (intro ens_seq [OF ens_step]) auto
qed

lemma run_ends:
  assumes n: "bm_id n = i" "live n"
  shows "ensures (row_with i any_row (\<lambda>_. True)) (run_initialize H n)
    (\<lambda>_. row_with i (\<lambda>m. sn_status m = NodeError \<or> ready_with H m) (\<lambda>_. True))"
proof -
  let ?R = "row_with i (\<lambda>m. sn_status m = NodeError \<or> ready_with H m) (\<lambda>_. True)"
  have e: "ensures (row_with i any_row (\<lambda>_. True)) (finish_with_error i msg) (\<lambda>_. ?R)" for msg
    unfolding finish_with_error_def
    by (rule ens_seq [OF ens_step], simp, rule ens_post [OF ens_row_status]) (auto simp: row_with_def succeeds_def split: sum.splits)
  have r: "ensures (installed i H (\<lambda>_. True) (Inr x)) (ret x) (\<lambda>_. ?R)" for x :: unit
    by (auto simp: ensures_def installed_def row_with_def)
  show ?thesis unfolding run_initialize_def n(1)
    by (rule ens_handle [OF install_installed [OF n]]) (auto simp: installed_def intro: e r [unfolded installed_def, simplified])
qed

lemma run_idle:
  assumes n: "bm_id n = i" "live n" and f: "sn_fingerprint n \<noteq> []" "sn_fingerprint n \<noteq> fingerprint H"
  shows "ensures (row_with i any_row (list_all (\<lambda>s. \<exists>t. s = Line t))) (run_initialize H n)
    (\<lambda>_. row_with i (\<lambda>m. sn_status m = NodeError) (list_all (\<lambda>s. \<exists>t. s = Line t)))"
proof -
  have e: "ensures (row_with i any_row (list_all (\<lambda>s. \<exists>t. s = Line t))) (finish_with_error i msg)
      (\<lambda>_. row_with i (\<lambda>m. sn_status m = NodeError) (list_all (\<lambda>s. \<exists>t. s = Line t)))" for msg
    unfolding finish_with_error_def
    by (rule ens_seq [OF ens_step], simp, rule ens_post [OF ens_row_status]) (auto simp: row_with_def succeeds_def split: sum.splits)
  show ?thesis unfolding run_initialize_def n(1)
    by (rule ens_handle [OF mismatch_idle [OF f]], rule ens_pre [OF e], simp, simp add: ensures_def)
qed

text \<open>A machine with the wrong key, in any world: the invariant that the run keeps although statements may fail.\<close>

definition untouched :: "server_node \<Rightarrow> world \<times> install_step list \<Rightarrow> bool" where
  "untouched n = (\<lambda>(w, l). list_all (\<lambda>s. \<exists>t. s = Line t) l \<and>
     (\<exists>m. by_id (bm_id n) (nodes (db w)) = Some m \<and> sn_fingerprint m = sn_fingerprint n \<and>
       sn_status m \<in> {sn_status n, NodeInitializing, NodeError}))"

lemma untouched_read: "reads m \<Longrightarrow> keeps (untouched n) (on_rows m)"
  by (auto simp: keeps_def untouched_def on_rows_def reads_def split: prod.splits) (metis snd_conv)+

lemma untouched_line: "keeps (untouched n) (step (Line t))"
  by (auto simp: keeps_def untouched_def step_def)

lemma by_id_status:
  "by_id i (update_live (\<lambda>n. bm_id n = i) (\<lambda>n. n\<lparr>sn_status := s, sn_message := msg\<rparr>) t) =
     map_option (\<lambda>n. n\<lparr>sn_status := s, sn_message := msg\<rparr>) (by_id i t)" for t :: "server_node list"
  by (induction t) (auto simp: update_live_def by_id_Cons live_def)

lemma untouched_status:
  "s \<in> {NodeInitializing, NodeError} \<Longrightarrow> keeps (untouched n) (on_rows (attempt (nodes_update_status (bm_id n) s msg)))"
  by (auto simp: keeps_def untouched_def on_rows_def attempt_eval nodes_update_status_def exec_def statement_def by_id_status split: prod.splits)

lemma untouched_stop: "keeps (untouched n) (give_up msg)" "keeps (untouched n) (give_up_on H what e)"
  by (auto simp: give_up_def give_up_on_def split: option.splits)

lemma keeps_failing: "keeps P m \<Longrightarrow> (\<And>s. isl (fst (m s))) \<Longrightarrow> keeps P (bind m k)"
  unfolding keeps_def bind_def handle_def by (metis (mono_tags, lifting) case_prod_conv err_eval isl_def old.sum.simps(5) snd_conv surjective_pairing)

lemma mismatch_untouched:
  assumes "sn_fingerprint n \<noteq> []" "sn_fingerprint n \<noteq> fingerprint H"
  shows "keeps (untouched n) (run_initialize H n)"
proof -
  have l: "keeps (untouched n) (node_login H n)"
    unfolding node_login_def by (intro keeps_intros untouched_read untouched_stop reads_intros calm_reads)
  have d: "ssh_dial H n how = seq (give_up_on H ''SSH connection failed: '' (sh_tcp H))
      (give_up (''SSH connection failed: '' @ sh_text H (host_key_mismatch H n)))" for how
    using assms by (auto simp: ssh_dial_def)
  have "isl (fst (ssh_dial H n how s))" for how s
    by (cases "sh_tcp H") (simp_all add: d give_up_on_def give_up_def seq_def bind_def handle_def)
  moreover have "keeps (untouched n) (ssh_dial H n how)" for how unfolding d by (intro keeps_intros untouched_stop)
  ultimately have d2: "keeps (untouched n) (bind (ssh_dial H n how) k)" for how and k :: "string \<Rightarrow> unit installer"
    by (intro keeps_failing)
  have "keeps (untouched n) (install_node H n)"
    unfolding install_node_def by (rule keeps_seq [OF untouched_line], rule keeps_bind [OF l], rule d2)
  moreover have "keeps (untouched n) (finish_with_error (bm_id n) msg)" for msg
    unfolding finish_with_error_def by (intro keeps_seq untouched_line untouched_status) simp
  ultimately show ?thesis unfolding run_initialize_def by (intro keeps_handle) simp_all
qed

lemma calm_install:
  assumes "calm w" "distinct_ids (nodes (db w))" "by_id i (nodes (db w)) = Some n" and "node_initialize H i (w, []) = (r, (w', l))"
  shows "\<exists>m. by_id i (nodes (db w')) = Some m \<and> (sn_status m = NodeError \<or> sn_status m = NodeReady \<and> sn_fingerprint m = fingerprint H) \<and>
    (sn_fingerprint n \<noteq> [] \<and> sn_fingerprint n \<noteq> fingerprint H \<longrightarrow> sn_status m = NodeError)"
proof -
  have n: "bm_id n = i" "live n" using by_id_key [OF assms(3)] by_id_live [OF assms(3)] by (simp_all add: live_def)
  have g: "on_rows (nodes_get_by_id i) (w, []) = (Inr n, next_fault w, [])"
    using assms(1,3) by (simp add: on_rows_def nodes_get_by_id_def query_row_Inr [THEN iffD2])
  have a: "row_with i any_row G (next_fault w, [])" if "G []" for G using assms(1-3) that by (simp add: row_with_def)
  have run: "seq (on_rows (attempt (nodes_update_status i NodeInitializing []))) (run_initialize H n) (next_fault w, []) = (r, (w', l))"
    using assms(4) g by (simp add: node_initialize_def bind_def)
  have u: "ensures (row_with i any_row G) (on_rows (attempt (nodes_update_status i NodeInitializing []))) (succeeds (\<lambda>_. row_with i any_row G))" for G
    by (rule ens_post [OF ens_row_status]) (auto simp: row_with_def succeeds_def split: sum.splits)
  have 1: "row_with i (\<lambda>m. sn_status m = NodeError \<or> ready_with H m) (\<lambda>_. True) (w', l)"
    by (rule ensuresD [OF ens_seq [OF u run_ends [OF n]] a run]) simp
  show ?thesis
  proof (cases "sn_fingerprint n \<noteq> [] \<and> sn_fingerprint n \<noteq> fingerprint H")
    case True
    have "row_with i (\<lambda>m. sn_status m = NodeError) (list_all (\<lambda>s. \<exists>t. s = Line t)) (w', l)"
      by (rule ensuresD [OF ens_seq [OF u run_idle [OF n]] a run]) (use True in auto)
    then show ?thesis by (auto simp: row_with_def)
  next
    case False
    then show ?thesis using 1 by (auto simp: row_with_def ready_with_def)
  qed
qed


definition demo_host :: ssh_host where
  "demo_host = \<lparr>sh_tcp = None, sh_key = ''k2'', sh_sha256 = id, sh_parse_key = (\<lambda>_ _. None), sh_login = (\<lambda>_. None), sh_session = None,
     sh_pipe = None, sh_start = (\<lambda>_. None), sh_output = [''done''], sh_read_error = None, sh_wait = None, sh_text = (\<lambda>_. ''error''),
     sh_cluster = (\<lambda>_. Inr [])\<rparr>"

definition demo_node :: server_node where
  "demo_node = \<lparr>bm_id = 5, bm_created = 0, bm_updated = 0, bm_deleted = None, sn_name = ''n'', sn_host = ''h'', sn_port = 22, sn_user = ''root'',
     sn_auth = ''password'', sn_key = None, sn_password = ''pw'', sn_role = ''worker'', sn_status = NodePending, sn_message = [], sn_k8s = [],
     sn_fingerprint = ''SHA256:other''\<rparr>"


end
