(* ===== verification/Version_Service.thy ===== *)
theory Version_Service imports Node_Service begin

text \<open>
  Versions and upgrades (\<open>service/version_service.go\<close>): the hourly look for a release, the information shared between replicas
  through a setting, and the start of the upgrader container.  JSON and GitHub are the record \<open>release_libs\<close>, Docker and the
  files of the host the record \<open>upgrade_host\<close>.
\<close>

section \<open>Comparing versions\<close>

definition clean_version :: "string \<Rightarrow> string" where
  "clean_version v = trim_prefix v ''v''"

definition base_version :: "string \<Rightarrow> string" where
  "base_version v = takeWhile (\<lambda>c. c \<noteq> CHR ''-'') v"

text \<open>\<open>strconv.Atoi\<close> without its error: 0 for what is no number, the nearest bound for one that is out of range.\<close>

definition atoi_value :: "string \<Rightarrow> int" where
  "atoi_value s = (case (case s of [] \<Rightarrow> None
        | c # t \<Rightarrow> if c = CHR ''-'' then map_option uminus (unsigned_of t)
            else if c = CHR ''+'' then unsigned_of t else unsigned_of s) of
      None \<Rightarrow> 0 | Some n \<Rightarrow> max (- (2 ^ 63)) (min (2 ^ 63 - 1) n))"

definition version_triple :: "string \<Rightarrow> int \<times> int \<times> int" where
  "version_triple v = (let parts = split_n CHR ''.'' 3 (base_version (clean_version v)) in
     (atoi_value (parts ! 0), if length parts > 1 then atoi_value (parts ! 1) else 0, if length parts > 2 then atoi_value (parts ! 2) else 0))"

definition is_newer :: "string \<Rightarrow> string \<Rightarrow> bool" where
  "is_newer latest current = (case (version_triple latest, version_triple current) of ((la, lb, lc), (ca, cb, cc)) \<Rightarrow>
     if la \<noteq> ca then la > ca else if lb \<noteq> cb then lb > cb else lc > cc)"

definition should_update :: "string \<Rightarrow> string \<Rightarrow> bool" where
  "should_update latest current = (let l = clean_version latest; c = clean_version current in
     if l = c then False
     else if CHR ''-'' \<in> set c \<and> base_version c = base_version l \<and> CHR ''-'' \<notin> set l then True
     else is_newer latest current)"

section \<open>The shared information\<close>

record version_info =
  vi_current :: string
  vi_latest :: string
  vi_available :: bool
  vi_url :: string
  vi_changelog :: string
  vi_published :: string

record release_answer =
  ra_tag :: string
  ra_url :: string
  ra_body :: string
  ra_published :: string

text \<open>\<open>rl_release\<close> is None when the request, its status or its body fails; \<open>rl_marshal\<close> and \<open>rl_unmarshal\<close> are JSON.\<close>

record release_libs =
  rl_version :: string
  rl_release :: "release_answer option"
  rl_marshal :: "version_info \<Rightarrow> string"
  rl_unmarshal :: "string \<Rightarrow> version_info option"

record version_state =
  vs_world :: world
  vs_cached :: "version_info option"
  vs_shared :: "version_info option"
  vs_expires :: time

type_synonym 'a versions = "(version_state, 'a) act"

definition on_settings :: "'a io \<Rightarrow> 'a versions" where
  "on_settings m = (\<lambda>s. case m (vs_world s) of (r, w') \<Rightarrow> (r, s\<lparr>vs_world := w'\<rparr>))"

definition version_ttl :: duration where
  "version_ttl = 5 * minute"

definition shared_version_info :: "version_info option versions" where
  "shared_version_info = gets (\<lambda>s. if clock (vs_world s) < vs_expires s then vs_shared s else None)"

definition load_shared_version_info :: "release_libs \<Rightarrow> version_info option versions" where
  "load_shared_version_info R = handle (on_settings (settings_get ''version_info'')) (\<lambda>_. ret None) (\<lambda>raw.
     if raw = [] then ret None
     else (case rl_unmarshal R raw of None \<Rightarrow> ret None | Some i \<Rightarrow>
       seq (modify (\<lambda>s. s\<lparr>vs_shared := Some i, vs_expires := clock (vs_world s) + version_ttl\<rparr>)) (ret (Some i))))"

definition unknown_version :: "release_libs \<Rightarrow> version_info" where
  "unknown_version R = \<lparr>vi_current = rl_version R, vi_latest = rl_version R, vi_available = False, vi_url = [], vi_changelog = [], vi_published = []\<rparr>"

text \<open>The second look inside the flight that concurrent callers share finds what the first found, without others between.\<close>

definition get_version_info :: "release_libs \<Rightarrow> version_info versions" where
  "get_version_info R = bind shared_version_info (\<lambda>x. case x of Some i \<Rightarrow> ret i | None \<Rightarrow>
     bind shared_version_info (\<lambda>y. bind (case y of Some i \<Rightarrow> ret (Some i) | None \<Rightarrow> load_shared_version_info R) (\<lambda>z.
       case z of Some i \<Rightarrow> ret i | None \<Rightarrow> gets (\<lambda>s. case vs_cached s of Some i \<Rightarrow> i | None \<Rightarrow> unknown_version R))))"

definition set_cached :: "release_libs \<Rightarrow> unit versions" where
  "set_cached R = modify (\<lambda>s. s\<lparr>vs_cached := Some (unknown_version R\<lparr>vi_latest := []\<rparr>)\<rparr>)"

definition save_version_info :: "release_libs \<Rightarrow> version_info \<Rightarrow> unit versions" where
  "save_version_info R i = seq (modify (\<lambda>s. s\<lparr>vs_cached := Some i, vs_shared := Some i, vs_expires := clock (vs_world s) + version_ttl\<rparr>))
     (on_settings (attempt (settings_set ''version_info'' (rl_marshal R i))))"

definition check_for_update :: "release_libs \<Rightarrow> unit versions" where
  "check_for_update R = (case rl_release R of
     None \<Rightarrow> set_cached R
   | Some a \<Rightarrow> save_version_info R \<lparr>vi_current = rl_version R, vi_latest = ra_tag a,
       vi_available = (rl_version R \<noteq> ''dev'' \<and> should_update (ra_tag a) (rl_version R)),
       vi_url = ra_url a, vi_changelog = ra_body a, vi_published = ra_published a\<rparr>)"

section \<open>Upgrades\<close>

datatype upgrade_step =
    RemoveContainer
  | RunUpgrader

text \<open>\<open>uh_inspect\<close>: the output of \<open>docker inspect\<close>, None when there is no such container; \<open>uh_run\<close>: whether the container
  starts, and its output.\<close>

record upgrade_host =
  uh_inspect :: "string option"
  uh_socket :: bool
  uh_script :: bool
  uh_write :: "string \<times> string \<Rightarrow> go_error option"
  uh_run :: "bool \<times> string"

text \<open>The state is the status file, if it is there and decodes, and the Docker commands so far.\<close>

type_synonym upgrade_state = "(string \<times> string) option \<times> upgrade_step list"

definition get_upgrade_status :: "upgrade_state \<Rightarrow> string \<times> string" where
  "get_upgrade_status s = (case fst s of None \<Rightarrow> (''idle'', []) | Some x \<Rightarrow> x)"

definition clear_upgrade_status :: "(upgrade_state, unit) act" where
  "clear_upgrade_status = modify (\<lambda>(_, l). (None, l))"

definition write_upgrade_status :: "upgrade_host \<Rightarrow> string \<times> string \<Rightarrow> (upgrade_state, unit) act" where
  "write_upgrade_status H x = (case uh_write H x of Some e \<Rightarrow> err e | None \<Rightarrow> modify (\<lambda>(_, l). (Some x, l)))"

definition docker :: "upgrade_step \<Rightarrow> (upgrade_state, unit) act" where
  "docker x = modify (\<lambda>(f, l). (f, l @ [x]))"

definition trigger_upgrade :: "upgrade_host \<Rightarrow> (upgrade_state, unit) act" where
  "trigger_upgrade H =
     seq (case uh_inspect H of None \<Rightarrow> ret () | Some out \<Rightarrow>
         if trim_space out = ''true'' then err (ErrMsg ''upgrade already in progress (upgrader container is running)'') else docker RemoveContainer)
    (bind (gets get_upgrade_status) (\<lambda>cur.
     if fst cur = ''upgrading'' then err (ErrMsg ''upgrade already in progress'')
     else if \<not> uh_socket H then err (ErrMsg (''docker socket not mounted '' @ em_dash @ '' add /var/run/docker.sock volume to the orkai container''))
     else if \<not> uh_script H then err (ErrMsg (''upgrade-lib.sh not found at /opt/orkai '' @ em_dash @ '' ensure /opt/orkai is mounted''))
     else handle (write_upgrade_status H (''upgrading'', ''Starting upgrade...'')) (\<lambda>e. err (ErrWrap ''cannot persist upgrade state'' e)) (\<lambda>_.
       seq (docker RunUpgrader) (if fst (uh_run H) then ret ()
         else let msg = ''Failed to start upgrader: '' @ trim_space (snd (uh_run H)) in
           seq (attempt (write_upgrade_status H (''error'', msg))) (err (ErrMsg msg))))))"

section \<open>Upgrades never go in circles\<close>

lemma triple_of_base: "base_version (clean_version a) = base_version (clean_version b) \<Longrightarrow> version_triple a = version_triple b"
  by (simp add: version_triple_def)

lemma is_newer_less: "is_newer l c \<longleftrightarrow> (case version_triple c of (ca, cb, cc) \<Rightarrow> case version_triple l of (la, lb, lc) \<Rightarrow>
    ca < la \<or> ca = la \<and> (cb < lb \<or> cb = lb \<and> cc < lc))"
  by (auto simp: is_newer_def split: prod.splits)

definition released_after :: "string \<Rightarrow> string \<Rightarrow> bool" where
  "released_after l c \<longleftrightarrow> base_version (clean_version l) = base_version (clean_version c) \<and> CHR ''-'' \<in> set (clean_version c) \<and> CHR ''-'' \<notin> set (clean_version l)"

lemma should_update_iff: "should_update l c \<longleftrightarrow> released_after l c \<or> is_newer l c"
proof (cases "clean_version l = clean_version c")
  case True
  then have "version_triple l = version_triple c" by (simp add: version_triple_def)
  then show ?thesis using True by (auto simp: should_update_def Let_def released_after_def is_newer_def split: prod.splits)
next
  case False
  then show ?thesis by (auto simp: should_update_def Let_def released_after_def)
qed

lemma should_update_trans: "should_update c b \<Longrightarrow> should_update b a \<Longrightarrow> should_update c a"
proof -
  assume cb: "should_update c b" and ba: "should_update b a"
  consider (both) "released_after c b" "released_after b a" | (left) "released_after c b" "is_newer b a"
    | (right) "is_newer c b" "released_after b a" | (newer) "is_newer c b" "is_newer b a"
    using cb ba by (auto simp: should_update_iff)
  then show ?thesis
  proof cases
    case both
    then show ?thesis by (simp add: released_after_def)
  next
    case left
    then have "version_triple c = version_triple b" by (intro triple_of_base) (simp add: released_after_def)
    then show ?thesis using left(2) by (simp add: should_update_iff is_newer_def)
  next
    case right
    then have "version_triple b = version_triple a" by (intro triple_of_base) (simp add: released_after_def)
    then show ?thesis using right(1) by (simp add: should_update_iff is_newer_def)
  next
    case newer
    then show ?thesis by (auto simp: should_update_iff is_newer_less split: prod.splits)
  qed
qed

lemma should_update_irrefl: "\<not> should_update v v"
  by (simp add: should_update_def)

lemma upgrades_ascend:
  assumes "(a, b) \<in> {(c, l). should_update l c}\<^sup>+"
  shows "should_update b a"
  using assms by (induction rule: trancl.induct) (auto intro: should_update_trans)

text \<open>However often the installation follows the offered update, it never comes back to a version it
  had: being offered as an update is a strict partial order on version texts, the step from a pre-release to its release
  included, and malformed or overlong numbers, too.\<close>

theorem upgrades_acyclic:
  "irreflp should_update \<and> transp should_update \<and> acyclic {(c, l). should_update l c}"
  using should_update_irrefl should_update_trans upgrades_ascend unfolding acyclic_def irreflp_def transp_def by blast

text \<open>Examples: a release replaces its pre-release, and never the other way round.\<close>

lemma upgrade_examples:
  "should_update ''v1.2.0'' ''v1.2.0-rc1''" "\<not> should_update ''v1.2.0-rc1'' ''v1.2.0''" "should_update ''v1.10.0'' ''1.9.3''"
  "\<not> should_update ''v1.2.0-rc2'' ''v1.2.0-rc1''"
  by code_simp+

end
