(* ===== verification/Secret_Store.thy ===== *)
theory Secret_Store imports Version_Service begin

text \<open>
  Credentials at rest (\<open>secret/store.go\<close>, \<open>secret/json.go\<close>, \<open>secret/keys.go\<close>, \<open>store/pg/secrets_helpers.go\<close> and the saving
  methods of the stores).  AES-GCM and HKDF are the record \<open>aead\<close>, with the law \<open>aead_laws\<close>; Go's order of ranging over a map is
  the parameter \<open>se_range\<close>.  The other theories keep rows in the clear: \<open>sealed_tables_refine\<close> is what allows that.
\<close>

section \<open>The store of secrets\<close>

text \<open>What \<open>rand.Read\<close> draws for one nonce: its bytes, or an error.\<close>

type_synonym draw = "(nat \<Rightarrow> char) option"

record aead =
  ae_hkdf :: "string \<Rightarrow> string \<Rightarrow> nat \<Rightarrow> char"
  ae_seal :: "string \<Rightarrow> string \<Rightarrow> string \<Rightarrow> string"
  ae_open :: "string \<Rightarrow> string \<Rightarrow> string \<Rightarrow> string option"

definition aead_laws :: "aead \<Rightarrow> bool" where
  "aead_laws A \<longleftrightarrow> (\<forall>k n p. ae_open A k n (ae_seal A k n p) = Some p)"

record secret_store =
  ss_encrypt :: "draw \<Rightarrow> string \<Rightarrow> go_error + string"
  ss_decrypt :: "string \<Rightarrow> go_error + string"

definition wire_prefix :: string where
  "wire_prefix = ''enc:v1:''"

definition hkdf_info :: string where
  "hkdf_info = ''orkai-secrets-v1''"

definition err_not_encrypted :: go_error where
  "err_not_encrypted = ErrMsg ''value is not encrypted''"

definition gcm_nonce_size :: nat where
  "gcm_nonce_size = 12"

definition aes_encrypt :: "aead \<Rightarrow> string \<Rightarrow> draw \<Rightarrow> string \<Rightarrow> go_error + string" where
  "aes_encrypt A key d p =
     (if p = [] then Inr []
      else if length key \<notin> {16, 24, 32} then Inl (ErrMsg ''crypto/aes: invalid key size'')
      else (case d of None \<Rightarrow> Inl ErrIO
        | Some bytes \<Rightarrow> (let nonce = map bytes [0..<gcm_nonce_size] in
            Inr (wire_prefix @ b64_encode (nonce @ ae_seal A key nonce p)))))"

text \<open>Go's decoder skips line breaks.\<close>

definition aes_decrypt :: "aead \<Rightarrow> string \<Rightarrow> string \<Rightarrow> go_error + string" where
  "aes_decrypt A key c =
     (if c = [] then Inr []
      else if \<not> has_prefix c wire_prefix then Inl err_not_encrypted
      else (case b64_decode (filter (\<lambda>x. x \<noteq> CHR 0x0A \<and> x \<noteq> CHR 0x0D) (trim_prefix c wire_prefix)) of
        None \<Rightarrow> Inl (ErrWrap ''decryption failed'' (ErrMsg ''illegal base64 data''))
      | Some bytes \<Rightarrow>
          if length key \<notin> {16, 24, 32} then Inl (ErrMsg ''crypto/aes: invalid key size'')
          else if length bytes < gcm_nonce_size then Inl (ErrMsg ''decryption failed'')
          else (case ae_open A key (take gcm_nonce_size bytes) (drop gcm_nonce_size bytes) of
            None \<Rightarrow> Inl (ErrWrap ''decryption failed'' (ErrMsg ''cipher: message authentication failed''))
          | Some p \<Rightarrow> Inr p)))"

definition new_from_setup_secret :: "aead \<Rightarrow> string \<Rightarrow> secret_store" where
  "new_from_setup_secret A setup =
     (let key = map (ae_hkdf A setup hkdf_info) [0..<32] in \<lparr>ss_encrypt = aes_encrypt A key, ss_decrypt = aes_decrypt A key\<rparr>)"

definition encrypt_optional :: "secret_store \<Rightarrow> draw \<Rightarrow> string \<Rightarrow> go_error + string" where
  "encrypt_optional S d p = (if p = [] then Inr [] else ss_encrypt S d p)"

definition decrypt_optional :: "secret_store \<Rightarrow> string \<Rightarrow> go_error + string" where
  "decrypt_optional S c = (if c = [] then Inr [] else ss_decrypt S c)"

section \<open>Maps and configurations\<close>

definition is_notification_config_key :: "string \<Rightarrow> bool" where
  "is_notification_config_key k \<longleftrightarrow> k \<in> {''bot_token'', ''webhook_url''}"

text \<open>The loops over a map: \<open>f\<close> is the cipher, \<open>what\<close> the text of its error, the list the keys in the order of \<open>range\<close>.\<close>

fun crypt_strings :: "(string \<Rightarrow> string \<Rightarrow> go_error + string) \<Rightarrow> string \<Rightarrow> str_map \<Rightarrow> string list \<Rightarrow> str_map \<Rightarrow> go_error + str_map" where
  "crypt_strings f what m [] out = Inr out"
| "crypt_strings f what m (k # ks) out = (case m k of
     None \<Rightarrow> crypt_strings f what m ks out
   | Some v \<Rightarrow> if v = [] then crypt_strings f what m ks (out(k \<mapsto> v))
       else (case f k v of
         Inl e \<Rightarrow> Inl (ErrWrap (what @ quoted k) e)
       | Inr c \<Rightarrow> crypt_strings f what m ks (out(k \<mapsto> c))))"

definition encrypt_string_map ::
  "(string set \<Rightarrow> string list) \<Rightarrow> secret_store \<Rightarrow> (string \<Rightarrow> draw) \<Rightarrow> str_map \<Rightarrow> go_error + str_map" where
  "encrypt_string_map rg S d m = crypt_strings (\<lambda>k. ss_encrypt S (d k)) ''encrypt secret '' m (rg (dom m)) Map.empty"

definition decrypt_string_map :: "(string set \<Rightarrow> string list) \<Rightarrow> secret_store \<Rightarrow> str_map \<Rightarrow> go_error + str_map" where
  "decrypt_string_map rg S m = crypt_strings (\<lambda>_. ss_decrypt S) ''decrypt secret '' m (rg (dom m)) Map.empty"

fun crypt_fields :: "(string \<Rightarrow> string \<Rightarrow> go_error + string) \<Rightarrow> string \<Rightarrow> (string \<Rightarrow> bool) \<Rightarrow> string list \<Rightarrow> (string \<rightharpoonup> json) \<Rightarrow> bool
    \<Rightarrow> go_error + (string \<rightharpoonup> json) \<times> bool" where
  "crypt_fields f what sec [] cfg changed = Inr (cfg, changed)"
| "crypt_fields f what sec (k # ks) cfg changed =
     (if \<not> sec k then crypt_fields f what sec ks cfg changed
      else (case cfg k of
        Some (JString s) \<Rightarrow>
          if s = [] then crypt_fields f what sec ks cfg changed
          else (case f k s of
            Inl e \<Rightarrow> Inl (ErrWrap (what @ quoted k) e)
          | Inr c \<Rightarrow> crypt_fields f what sec ks (cfg(k \<mapsto> JString c)) True)
      | _ \<Rightarrow> crypt_fields f what sec ks cfg changed))"

definition crypt_json :: "(string set \<Rightarrow> string list) \<Rightarrow> (string \<Rightarrow> string) \<Rightarrow> (string \<Rightarrow> string \<Rightarrow> go_error + string) \<Rightarrow> string
    \<Rightarrow> (string \<Rightarrow> bool) \<Rightarrow> json option \<Rightarrow> go_error + json option" where
  "crypt_json rg num f what sec raw = (case raw of
     None \<Rightarrow> Inr None
   | Some j \<Rightarrow> (case json_map j of
       None \<Rightarrow> Inl (ErrMsg ''json: cannot unmarshal into Go value'')
     | Some cfg \<Rightarrow> (case crypt_fields f what sec (rg (dom cfg)) cfg False of
         Inl e \<Rightarrow> Inl e
       | Inr (cfg', changed) \<Rightarrow>
           Inr (if \<not> changed then raw
                else Some (JObject (map (\<lambda>(k, v). (k, any_json num (the (cfg' k)))) (object_entries j)))))))"

definition encrypt_json_field_values where
  "encrypt_json_field_values rg num S (d :: string \<Rightarrow> draw) raw sec =
     crypt_json rg num (\<lambda>k. ss_encrypt S (d k)) ''encrypt config field '' sec raw"

definition decrypt_json_field_values where
  "decrypt_json_field_values rg num S raw sec = crypt_json rg num (\<lambda>_. ss_decrypt S) ''decrypt config field '' sec raw"

section \<open>Rows\<close>

text \<open>The helpers change the row they are given, also where they fail: a pair of the row and the error.  \<open>sealer\<close> is what the
  stores of one server share.\<close>

record sealer =
  se_aead :: aead
  se_setup :: string
  se_range :: "string set \<Rightarrow> string list"
  se_num :: "string \<Rightarrow> string"

definition se_store :: "sealer \<Rightarrow> secret_store" where
  "se_store E = new_from_setup_secret (se_aead E) (se_setup E)"

type_synonym 'a changed = "'a \<times> go_error option"

text \<open>\<open>x.F, err = f(x.F)\<close>: the field becomes the zero value when \<open>f\<close> fails.\<close>

definition set_field :: "('v \<Rightarrow> 'a) \<Rightarrow> 'v \<Rightarrow> string \<Rightarrow> go_error + 'v \<Rightarrow> 'a changed" where
  "set_field upd zero what r = (case r of Inl e \<Rightarrow> (upd zero, Some (ErrWrap what e)) | Inr v \<Rightarrow> (upd v, None))"

definition and_then :: "'a changed \<Rightarrow> ('a \<Rightarrow> 'a changed) \<Rightarrow> 'a changed" where
  "and_then c f = (case c of (x, Some e) \<Rightarrow> (x, Some e) | (x, None) \<Rightarrow> f x)"

definition encrypt_application_secrets :: "sealer \<Rightarrow> (string \<Rightarrow> draw) \<Rightarrow> application \<Rightarrow> application changed" where
  "encrypt_application_secrets E d a =
     and_then (set_field (\<lambda>v. a\<lparr>a_webhook_secret := v\<rparr>) [] ''encrypt webhook_secret''
                (encrypt_optional (se_store E) (d ''webhook_secret'') (a_webhook_secret a)))
       (\<lambda>a. set_field (\<lambda>m. a\<lparr>a_secrets := m\<rparr>) Map.empty ''encrypt secrets''
                (encrypt_string_map (se_range E) (se_store E) (\<lambda>k. d (''secrets.'' @ k)) (a_secrets a)))"

definition decrypt_application_secrets :: "sealer \<Rightarrow> application \<Rightarrow> application changed" where
  "decrypt_application_secrets E a =
     and_then (set_field (\<lambda>v. a\<lparr>a_webhook_secret := v\<rparr>) [] ''decrypt webhook_secret'' (decrypt_optional (se_store E) (a_webhook_secret a)))
       (\<lambda>a. set_field (\<lambda>m. a\<lparr>a_secrets := m\<rparr>) Map.empty ''decrypt secrets''
                (decrypt_string_map (se_range E) (se_store E) (a_secrets a)))"

text \<open>A column that the stores encrypt on their own (the two-factor secret of a user, the password of a node): the row keeps the
  plain value when that fails.\<close>

definition encrypt_user_2fa :: "sealer \<Rightarrow> (string \<Rightarrow> draw) \<Rightarrow> user \<Rightarrow> user changed" where
  "encrypt_user_2fa E d u = (case encrypt_optional (se_store E) (d ''two_fa_secret'') (u_2fa_secret u) of
     Inl e \<Rightarrow> (u, Some e) | Inr v \<Rightarrow> (u\<lparr>u_2fa_secret := v\<rparr>, None))"

definition decrypt_user :: "sealer \<Rightarrow> user \<Rightarrow> user changed" where
  "decrypt_user E u = set_field (\<lambda>v. u\<lparr>u_2fa_secret := v\<rparr>) [] ''decrypt two_fa_secret'' (decrypt_optional (se_store E) (u_2fa_secret u))"

definition encrypt_page_webhook :: "sealer \<Rightarrow> (string \<Rightarrow> draw) \<Rightarrow> page \<Rightarrow> page changed" where
  "encrypt_page_webhook E d p = set_field (\<lambda>v. p\<lparr>pg_webhook_secret := v\<rparr>) [] ''encrypt webhook_secret''
     (encrypt_optional (se_store E) (d ''webhook_secret'') (pg_webhook_secret p))"

definition decrypt_page :: "sealer \<Rightarrow> page \<Rightarrow> page changed" where
  "decrypt_page E p = set_field (\<lambda>v. p\<lparr>pg_webhook_secret := v\<rparr>) [] ''decrypt webhook_secret''
     (decrypt_optional (se_store E) (pg_webhook_secret p))"

definition encrypt_worker_webhook :: "sealer \<Rightarrow> (string \<Rightarrow> draw) \<Rightarrow> worker \<Rightarrow> worker changed" where
  "encrypt_worker_webhook E d k = set_field (\<lambda>v. k\<lparr>wk_webhook_secret := v\<rparr>) [] ''encrypt webhook_secret''
     (encrypt_optional (se_store E) (d ''webhook_secret'') (wk_webhook_secret k))"

definition decrypt_worker :: "sealer \<Rightarrow> worker \<Rightarrow> worker changed" where
  "decrypt_worker E k = set_field (\<lambda>v. k\<lparr>wk_webhook_secret := v\<rparr>) [] ''decrypt webhook_secret''
     (decrypt_optional (se_store E) (wk_webhook_secret k))"

definition encrypt_node_password :: "sealer \<Rightarrow> (string \<Rightarrow> draw) \<Rightarrow> server_node \<Rightarrow> server_node changed" where
  "encrypt_node_password E d n = (case encrypt_optional (se_store E) (d ''password'') (sn_password n) of
     Inl e \<Rightarrow> (n, Some e) | Inr v \<Rightarrow> (n\<lparr>sn_password := v\<rparr>, None))"

definition decrypt_node :: "sealer \<Rightarrow> server_node \<Rightarrow> server_node changed" where
  "decrypt_node E n = set_field (\<lambda>v. n\<lparr>sn_password := v\<rparr>) [] ''decrypt password'' (decrypt_optional (se_store E) (sn_password n))"

text \<open>\<open>decryptApplications\<close>, \<open>decryptUsers\<close>, \<open>decryptPages\<close>, \<open>decryptWorkers\<close>, \<open>decryptNodes\<close>: the first error ends the loop and
  the callers drop the rows.\<close>

fun decrypt_rows :: "('a \<Rightarrow> 'a changed) \<Rightarrow> 'a list \<Rightarrow> go_error + 'a list" where
  "decrypt_rows dec [] = Inr []"
| "decrypt_rows dec (c # cs) = (case dec c of
     (_, Some e) \<Rightarrow> Inl e
   | (x, None) \<Rightarrow> (case decrypt_rows dec cs of Inl e \<Rightarrow> Inl e | Inr xs \<Rightarrow> Inr (x # xs)))"

definition encrypt_resource :: "sealer \<Rightarrow> (string \<Rightarrow> draw) \<Rightarrow> shared_resource \<Rightarrow> shared_resource changed" where
  "encrypt_resource E d r = (if sr_config r = None then (r, None)
     else (case encrypt_json_field_values (se_range E) (se_num E) (se_store E) d (sr_config r) is_resource_config_key of
       Inl e \<Rightarrow> (r, Some e) | Inr c \<Rightarrow> (r\<lparr>sr_config := c\<rparr>, None)))"

definition decrypt_resource :: "sealer \<Rightarrow> shared_resource \<Rightarrow> shared_resource changed" where
  "decrypt_resource E r = (if sr_config r = None then (r, None)
     else (case decrypt_json_field_values (se_range E) (se_num E) (se_store E) (sr_config r) is_resource_config_key of
       Inl e \<Rightarrow> (r, Some e) | Inr c \<Rightarrow> (r\<lparr>sr_config := c\<rparr>, None)))"

definition encrypt_channel :: "sealer \<Rightarrow> (string \<Rightarrow> draw) \<Rightarrow> notify_channel \<Rightarrow> notify_channel changed" where
  "encrypt_channel E d c = (if nc_config c = None then (c, None)
     else (case encrypt_json_field_values (se_range E) (se_num E) (se_store E) d (nc_config c) is_notification_config_key of
       Inl e \<Rightarrow> (c, Some e) | Inr x \<Rightarrow> (c\<lparr>nc_config := x\<rparr>, None)))"

definition decrypt_channel :: "sealer \<Rightarrow> notify_channel \<Rightarrow> notify_channel changed" where
  "decrypt_channel E c = (if nc_config c = None then (c, None)
     else (case decrypt_json_field_values (se_range E) (se_num E) (se_store E) (nc_config c) is_notification_config_key of
       Inl e \<Rightarrow> (c, Some e) | Inr x \<Rightarrow> (c\<lparr>nc_config := x\<rparr>, None)))"

section \<open>Saving and reading\<close>

text \<open>The tables as PostgreSQL holds them.  The statement of a save fails with \<open>io\<close>; the result is the caller's row, the error and the
  table.\<close>

definition save_row ::
  "('a \<Rightarrow> 'a changed) \<Rightarrow> ('a \<Rightarrow> 'a changed) \<Rightarrow> ('a \<Rightarrow> 'a list \<Rightarrow> 'a list) \<Rightarrow> go_error option \<Rightarrow> 'a \<Rightarrow> 'a list \<Rightarrow> 'a changed \<times> 'a list" where
  "save_row enc dec wr io x T = (case enc x of
     (c, Some e) \<Rightarrow> ((c, Some e), T)
   | (c, None) \<Rightarrow> (case io of Some e \<Rightarrow> ((c, Some e), T) | None \<Rightarrow> (dec c, wr c T)))"

definition put_row :: "('a \<Rightarrow> uuid) \<Rightarrow> 'a \<Rightarrow> 'a list \<Rightarrow> 'a list" where
  "put_row pk c T = map (\<lambda>r. if pk r = pk c then c else r) T"

definition add_row :: "'a \<Rightarrow> 'a list \<Rightarrow> 'a list" where
  "add_row c T = T @ [c]"

definition pg_setting_get :: "sealer \<Rightarrow> string \<Rightarrow> setting list \<Rightarrow> go_error + string" where
  "pg_setting_get E k T = (case find (\<lambda>x. st_key x = k) T of
     None \<Rightarrow> Inr []
   | Some x \<Rightarrow> if is_sensitive_setting_key k then decrypt_optional (se_store E) (st_value x) else Inr (st_value x))"

definition pg_setting_set :: "sealer \<Rightarrow> draw \<Rightarrow> string \<Rightarrow> string \<Rightarrow> setting list \<Rightarrow> go_error + setting list" where
  "pg_setting_set E d k v T =
     (case (if is_sensitive_setting_key k \<and> v \<noteq> [] then ss_encrypt (se_store E) d v else Inr v) of
       Inl e \<Rightarrow> Inl e | Inr c \<Rightarrow> Inr (settings_put k c T))"

fun decrypt_settings :: "sealer \<Rightarrow> setting list \<Rightarrow> go_error + setting list" where
  "decrypt_settings E [] = Inr []"
| "decrypt_settings E (x # T) =
     (case (if is_sensitive_setting_key (st_key x) then decrypt_optional (se_store E) (st_value x) else Inr (st_value x)) of
       Inl e \<Rightarrow> Inl e
     | Inr v \<Rightarrow> (case decrypt_settings E T of Inl e \<Rightarrow> Inl e | Inr xs \<Rightarrow> Inr (x\<lparr>st_value := v\<rparr> # xs)))"

definition pg_setting_get_all :: "sealer \<Rightarrow> setting list \<Rightarrow> go_error + setting list" where
  "pg_setting_get_all E T = decrypt_settings E (sort_key st_key T)"

section \<open>The contract of a store of secrets\<close>

definition is_sealed :: "string \<Rightarrow> bool" where
  "is_sealed c \<longleftrightarrow> c = [] \<or> has_prefix c wire_prefix"

definition sealer_ok :: "sealer \<Rightarrow> bool" where
  "sealer_ok E \<longleftrightarrow> aead_laws (se_aead E) \<and> (\<forall>K. finite K \<longrightarrow> distinct (se_range E K) \<and> set (se_range E K) = K) \<and>
     (\<forall>s. se_num E (se_num E s) = se_num E s)"

lemma crypt_strings_at:
  assumes "crypt_strings f what m ks out = Inr r"
  shows "r k = (case m k of Some v \<Rightarrow> if k \<notin> set ks then out k else if v = [] then Some [] else Some (projr (f k v)) | None \<Rightarrow> out k)"
    and "k \<in> set ks \<Longrightarrow> m k = Some v \<Longrightarrow> v \<noteq> [] \<Longrightarrow> f k v = Inr (projr (f k v))"
  using assms
  by (induction ks arbitrary: out) (auto split: option.splits if_splits sum.splits)

lemma crypt_strings_total:
  assumes "\<And>k v. m k = Some v \<Longrightarrow> v \<noteq> [] \<Longrightarrow> \<exists>c. f k v = Inr c"
  shows "\<exists>r. crypt_strings f what m ks out = Inr r"
proof (induction ks arbitrary: out)
  case (Cons k ks)
  show ?case
  proof (cases "m k")
    case None then show ?thesis using Cons by simp
  next
    case (Some v)
    then show ?thesis using Cons assms [of k v] by (cases "v = []") auto
  qed
qed simp

text \<open>What becomes of one field of a configuration.\<close>

definition secret_text :: "(string \<Rightarrow> bool) \<Rightarrow> string \<Rightarrow> json option \<Rightarrow> bool" where
  "secret_text sec k v \<longleftrightarrow> sec k \<and> (case v of Some (JString s) \<Rightarrow> s \<noteq> [] | _ \<Rightarrow> False)"

fun crypted :: "(string \<Rightarrow> string \<Rightarrow> go_error + string) \<Rightarrow> string \<Rightarrow> json option \<Rightarrow> json option" where
  "crypted f k (Some (JString s)) = Some (JString (projr (f k s)))"
| "crypted f k v = v"

lemma crypt_fields_step:
  "crypt_fields f what sec (k # ks) cfg ch =
     (if secret_text sec k (cfg k) then (case cfg k of Some (JString s) \<Rightarrow> (case f k s of
         Inl e \<Rightarrow> Inl (ErrWrap (what @ quoted k) e) | Inr c \<Rightarrow> crypt_fields f what sec ks (cfg(k \<mapsto> JString c)) True) | _ \<Rightarrow> undefined)
      else crypt_fields f what sec ks cfg ch)"
  by (auto simp: secret_text_def split: option.splits json.splits)

lemma secret_textE:
  assumes "secret_text sec k v" obtains s where "sec k" "v = Some (JString s)" "s \<noteq> []"
  using assms by (auto simp: secret_text_def split: option.splits json.splits)

lemma crypt_fields_at:
  assumes "crypt_fields f what sec ks cfg ch = Inr (cfg', ch')" "distinct ks"
  shows "(\<forall>k. cfg' k = (if k \<in> set ks \<and> secret_text sec k (cfg k) then crypted f k (cfg k) else cfg k)) \<and>
    (\<forall>k s. k \<in> set ks \<longrightarrow> secret_text sec k (cfg k) \<longrightarrow> cfg k = Some (JString s) \<longrightarrow> f k s = Inr (projr (f k s))) \<and>
    (ch' \<longleftrightarrow> ch \<or> (\<exists>k\<in>set ks. secret_text sec k (cfg k)))"
  using assms
proof (induction ks arbitrary: cfg ch)
  case (Cons k ks)
  show ?case
  proof (cases "secret_text sec k (cfg k)")
    case True
    then obtain s where s: "sec k" "cfg k = Some (JString s)" "s \<noteq> []" by (rule secret_textE)
    from Cons.prems(1) True s obtain c where c: "f k s = Inr c" "crypt_fields f what sec ks (cfg(k \<mapsto> JString c)) True = Inr (cfg', ch')"
      by (auto simp: crypt_fields_step simp del: crypt_fields.simps split: sum.splits)
    have n: "k \<notin> set ks" using Cons.prems(2) by simp
    have "(cfg(k \<mapsto> JString c)) q = cfg q" if "q \<in> set ks" for q using n that by auto
    with Cons.IH [OF c(2)] Cons.prems(2) n s c(1) True show ?thesis by auto
  next
    case False
    then have "crypt_fields f what sec ks cfg ch = Inr (cfg', ch')"
      using Cons.prems(1) by (simp add: crypt_fields_step del: crypt_fields.simps)
    from Cons.IH [OF this] Cons.prems(2) False show ?thesis by auto
  qed
qed auto

lemma crypt_fields_total:
  assumes "\<And>k s. k \<in> set ks \<Longrightarrow> secret_text sec k (cfg k) \<Longrightarrow> cfg k = Some (JString s) \<Longrightarrow> \<exists>c. f k s = Inr c" "distinct ks"
  shows "\<exists>r. crypt_fields f what sec ks cfg ch = Inr r"
  using assms
proof (induction ks arbitrary: cfg ch)
  case (Cons k ks)
  show ?case
  proof (cases "secret_text sec k (cfg k)")
    case True
    then obtain s where s: "sec k" "cfg k = Some (JString s)" "s \<noteq> []" by (rule secret_textE)
    then obtain c where c: "f k s = Inr c" using Cons.prems(1) [of k s] True by auto
    have n: "k \<notin> set ks" using Cons.prems(2) by simp
    have "\<exists>r. crypt_fields f what sec ks (cfg(k \<mapsto> JString c)) True = Inr r"
      by (rule Cons.IH) (use Cons.prems n in \<open>auto split: if_splits\<close>)
    then show ?thesis using True s c by (simp add: crypt_fields_step del: crypt_fields.simps)
  next
    case False
    then show ?thesis using Cons by (auto simp: crypt_fields_step simp del: crypt_fields.simps)
  qed
qed simp

lemma crypt_json_at:
  assumes m: "json_map j = Some m" and r: "crypt_json rg num f what sec (Some j) = Inr r"
    and g: "distinct (rg (dom m))" "set (rg (dom m)) = dom m"
  obtains j' m' where "r = Some j'" "json_map j' = Some m'"
    "\<And>k s. secret_text sec k (m k) \<Longrightarrow> m k = Some (JString s) \<Longrightarrow> f k s = Inr (projr (f k s))"
    "(\<forall>k. m' k = map_option (any_json num) (if secret_text sec k (m k) then crypted f k (m k) else m k)) \<or>
     (\<forall>k. \<not> secret_text sec k (m k)) \<and> j' = j"
proof -
  obtain cfg' ch where c: "crypt_fields f what sec (rg (dom m)) m False = Inr (cfg', ch)"
    using m r by (auto simp: crypt_json_def split: sum.splits)
  have dom: "secret_text sec k (m k) \<Longrightarrow> k \<in> dom m" for k by (auto elim: secret_textE)
  have at: "cfg' k = (if secret_text sec k (m k) then crypted f k (m k) else m k)" for k
    using crypt_fields_at [OF c g(1)] dom [of k] g(2) by auto
  have ok: "f k s = Inr (projr (f k s))" if "secret_text sec k (m k)" "m k = Some (JString s)" for k s
    using crypt_fields_at [OF c g(1)] dom [OF that(1)] g(2) that by simp
  have "ch \<longleftrightarrow> (\<exists>k\<in>dom m. secret_text sec k (m k))" using crypt_fields_at [OF c g(1)] g(2) by simp
  then have ch: "ch \<longleftrightarrow> (\<exists>k. secret_text sec k (m k))" using dom by blast
  show thesis
  proof (cases ch)
    case False
    then have "r = Some j" using m r c by (simp add: crypt_json_def)
    moreover have "\<forall>k. \<not> secret_text sec k (m k)" using False ch by blast
    ultimately show thesis using m ok by (intro that [of j m]) blast+
  next
    case True
    let ?L = "map (\<lambda>(k, v). (k, any_json num (the (cfg' k)))) (object_entries j)"
    have r': "r = Some (JObject ?L)" using m r c True by (simp add: crypt_json_def)
    have "distinct (map fst ?L)" using entries_keys [of j] by (simp add: comp_def case_prod_unfold)
    then have j': "json_map (JObject ?L) = Some (map_of ?L)" by (rule distinct_rev_map_of)
    have "map_of ?L k = map_option (\<lambda>_. any_json num (the (cfg' k))) (m k)" for k
      using map_of_masking [of "\<lambda>k _. any_json num (the (cfg' k))" "object_entries j" k] by (simp add: entries_map [OF m])
    moreover have "map_option (\<lambda>_. any_json num (the (cfg' k))) (m k) = map_option (any_json num) (cfg' k)" for k
      using at [of k] by (cases "m k") (auto simp: secret_text_def split: json.splits)
    ultimately have "map_of ?L k = map_option (any_json num) (if secret_text sec k (m k) then crypted f k (m k) else m k)" for k
      using at by simp
    then show thesis using r' j' ok by (intro that [of "JObject ?L" "map_of ?L"]) blast+
  qed
qed

lemma crypt_json_total:
  assumes m: "json_map j = Some m" and g: "distinct (rg (dom m))"
    and f: "\<And>k s. secret_text sec k (m k) \<Longrightarrow> m k = Some (JString s) \<Longrightarrow> \<exists>c. f k s = Inr c"
  shows "\<exists>r. crypt_json rg num f what sec (Some j) = Inr r"
proof -
  obtain cfg' ch where "crypt_fields f what sec (rg (dom m)) m False = Inr (cfg', ch)"
    using crypt_fields_total [OF _ g, of sec m f what False] f by (metis surj_pair)
  then show ?thesis using m by (simp add: crypt_json_def)
qed

lemma finite_json_map: "json_map j = Some m \<Longrightarrow> finite (dom m)"
  by (cases j) (auto simp: finite_dom_map_of)

text \<open>\<open>secret.Store\<close>, for the clients of this theory: what was encrypted decrypts, and what is encrypted shows.\<close>

locale secret_contract =
  fixes store :: "'e \<Rightarrow> secret_store" and good :: "'e \<Rightarrow> bool"
  assumes opens: "good e \<Longrightarrow> ss_encrypt (store e) d p = Inr c \<Longrightarrow> ss_decrypt (store e) c = Inr p"
    and seals: "good e \<Longrightarrow> ss_encrypt (store e) d p = Inr c \<Longrightarrow> p \<noteq> [] \<Longrightarrow> has_prefix c wire_prefix"
begin

lemma not_empty: "has_prefix c wire_prefix \<Longrightarrow> c \<noteq> []"
  by (auto simp: has_prefix_def wire_prefix_def)

lemma optional:
  assumes "good e" "encrypt_optional (store e) d p = Inr c"
  shows "decrypt_optional (store e) c = Inr p" "is_sealed c"
proof -
  have "c \<noteq> [] \<and> has_prefix c wire_prefix \<and> ss_decrypt (store e) c = Inr p" if "p \<noteq> []"
    using assms that opens [of e d p c] seals [of e d p c] not_empty by (simp add: encrypt_optional_def)
  then show "decrypt_optional (store e) c = Inr p" "is_sealed c"
    using assms(2) by (auto simp: encrypt_optional_def decrypt_optional_def is_sealed_def split: if_splits)
qed

lemma string_map:
  assumes g: "good e" and fin: "\<And>K. finite K \<Longrightarrow> set (rg K) = K" "finite (dom m)" and r: "encrypt_string_map rg (store e) d m = Inr r"
  shows "decrypt_string_map rg (store e) r = Inr m" "\<forall>v\<in>ran r. is_sealed v"
proof -
  let ?f = "\<lambda>k. ss_encrypt (store e) (d k)"
  note at = crypt_strings_at [OF r [unfolded encrypt_string_map_def]]
  have set: "set (rg (dom m)) = dom m" using fin by simp
  have some: "\<exists>c. r k = Some c \<and> (if v = [] then c = [] else has_prefix c wire_prefix \<and> ss_decrypt (store e) c = Inr v)" if "m k = Some v" for k v
  proof (cases "v = []")
    case False
    have "?f k v = Inr (projr (?f k v))" using at(2) [of k v] that False set by auto
    then show ?thesis using at(1) [of k] that False set opens [OF g] seals [OF g] by auto
  qed (use at(1) [of k] that set in auto)
  have none: "r k = None" if "m k = None" for k using at(1) [of k] that by simp
  have origin: "\<exists>v. m k = Some v \<and> (if v = [] then c = [] else has_prefix c wire_prefix \<and> ss_decrypt (store e) c = Inr v)" if "r k = Some c" for k c
    using some [of k] none [of k] that by (cases "m k") auto
  have "r k = None \<longleftrightarrow> m k = None" for k using some [of k] none [of k] by (cases "m k") auto
  then have dom: "dom r = dom m" by (simp add: dom_def)
  obtain q where q: "decrypt_string_map rg (store e) r = Inr q"
    using crypt_strings_total [of r "\<lambda>_. ss_decrypt (store e)"] origin unfolding decrypt_string_map_def by metis
  note dt = crypt_strings_at [OF q [unfolded decrypt_string_map_def]]
  have "q k = m k" for k
  proof (cases "m k")
    case None then show ?thesis using dt(1) [of k] none by simp
  next
    case (Some v)
    then obtain c where c: "r k = Some c" "if v = [] then c = [] else has_prefix c wire_prefix \<and> ss_decrypt (store e) c = Inr v"
      using some by blast
    show ?thesis using dt(1) [of k] Some c set dom not_empty [of c] by (auto split: if_splits)
  qed
  then show "decrypt_string_map rg (store e) r = Inr m" using q by (simp add: fun_eq_iff)
  show "\<forall>v\<in>ran r. is_sealed v" using origin by (fastforce simp: ran_def is_sealed_def split: if_splits)
qed

lemma config:
  assumes g: "good e" and fin: "\<And>K. finite K \<Longrightarrow> distinct (rg K) \<and> set (rg K) = K" and num: "\<And>s. num (num s) = num s"
    and m: "json_map j = Some m" and r: "encrypt_json_field_values rg num (store e) d (Some j) sec = Inr r"
  obtains j' m' j'' m'' where "r = Some j'" "json_map j' = Some m'" "\<And>k s. sec k \<Longrightarrow> m' k = Some (JString s) \<Longrightarrow> is_sealed s"
    "decrypt_json_field_values rg num (store e) r sec = Inr (Some j'')" "json_map j'' = Some m''"
    "\<And>k. map_option (any_json num) (m'' k) = map_option (any_json num) (m k)"
proof -
  let ?f = "\<lambda>k. ss_encrypt (store e) (d k)" and ?g = "\<lambda>_ :: string. ss_decrypt (store e)"
  have fm: "distinct (rg (dom m))" "set (rg (dom m)) = dom m" using fin [OF finite_json_map [OF m]] by auto
  obtain j' m' where e: "r = Some j'" "json_map j' = Some m'"
    "\<And>k s. secret_text sec k (m k) \<Longrightarrow> m k = Some (JString s) \<Longrightarrow> ?f k s = Inr (projr (?f k s))"
    and at: "(\<forall>k. m' k = map_option (any_json num) (if secret_text sec k (m k) then crypted ?f k (m k) else m k)) \<or>
      (\<forall>k. \<not> secret_text sec k (m k)) \<and> j' = j"
    using crypt_json_at [OF m r [unfolded encrypt_json_field_values_def] fm] by blast
  have sec: "\<exists>c. m' k = Some (JString c) \<and> has_prefix c wire_prefix \<and> ss_decrypt (store e) c = Inr s"
    if "secret_text sec k (m k)" "m k = Some (JString s)" for k s
  proof -
    have "?f k s = Inr (projr (?f k s))" "s \<noteq> []" using e(3) that by (auto simp: secret_text_def)
    moreover have "m' k = Some (JString (projr (?f k s)))" using at
    proof
      assume "\<forall>k. m' k = map_option (any_json num) (if secret_text sec k (m k) then crypted ?f k (m k) else m k)"
      then have "m' k = map_option (any_json num) (crypted ?f k (m k))" using that(1) by simp
      then show ?thesis by (simp add: that(2))
    next
      assume "(\<forall>k. \<not> secret_text sec k (m k)) \<and> j' = j"
      then show ?thesis using that(1) by blast
    qed
    ultimately show ?thesis using opens [OF g] seals [OF g] by blast
  qed
  have other: "map_option (any_json num) (m' k) = map_option (any_json num) (m k)" if "\<not> secret_text sec k (m k)" for k
    using at that e(2) m by (auto simp: option.map_comp comp_def any_json_idem [OF num])
  have plain: "m k = Some (JString s)" if "m' k = Some (JString s)" "\<not> secret_text sec k (m k)" for k s
    using other [OF that(2)] that(1) by (cases "m k"; cases "the (m k)") auto
  have sealed: "is_sealed s" if k: "sec k" "m' k = Some (JString s)" for k s
  proof (cases "secret_text sec k (m k)")
    case True
    then obtain t where "m k = Some (JString t)" by (auto elim: secret_textE)
    then show ?thesis using sec [OF True] k(2) by (auto simp: is_sealed_def)
  next
    case False
    then show ?thesis using plain [OF k(2) False] k(1) by (simp add: secret_text_def is_sealed_def)
  qed
  have src: "secret_text sec k (m k)" if "secret_text sec k (m' k)" for k
  proof (rule ccontr)
    assume n: "\<not> secret_text sec k (m k)"
    from that obtain s where "sec k" "m' k = Some (JString s)" "s \<noteq> []" by (rule secret_textE)
    with plain [OF _ n] n show False by (simp add: secret_text_def)
  qed
  have dec: "\<exists>p. ?g k c = Inr p" if "secret_text sec k (m' k)" "m' k = Some (JString c)" for k c
    using sec [OF src [OF that(1)]] src [OF that(1)] that(2) by (auto elim!: secret_textE)
  have fm': "distinct (rg (dom m'))" "set (rg (dom m')) = dom m'" using fin [OF finite_json_map [OF e(2)]] by auto
  obtain q where q: "crypt_json rg num ?g ''decrypt config field '' sec (Some j') = Inr q"
    using crypt_json_total [where rg = rg and f = ?g and what = "''decrypt config field ''" and num = num, OF e(2) fm'(1)] dec by blast
  obtain j'' m'' where d: "q = Some j''" "json_map j'' = Some m''"
    and dt: "(\<forall>k. m'' k = map_option (any_json num) (if secret_text sec k (m' k) then crypted ?g k (m' k) else m' k)) \<or>
      (\<forall>k. \<not> secret_text sec k (m' k)) \<and> j'' = j'"
    using crypt_json_at [OF e(2) q fm'] by blast
  have eqs: "map_option (any_json num) (m'' k) = map_option (any_json num) (m k)" for k
  proof (cases "secret_text sec k (m k)")
    case True
    then obtain s where s: "m k = Some (JString s)" "sec k" by (auto elim: secret_textE)
    then obtain c where c: "m' k = Some (JString c)" "has_prefix c wire_prefix" "ss_decrypt (store e) c = Inr s" using sec [OF True] by blast
    have "secret_text sec k (m' k)" using c s not_empty by (simp add: secret_text_def)
    then have "m'' k = map_option (any_json num) (crypted ?g k (m' k))" using dt by metis
    then show ?thesis using c s by simp
  next
    case False
    have "\<not> secret_text sec k (m' k)" using src False by blast
    then have "map_option (any_json num) (m'' k) = map_option (any_json num) (m' k)"
      using dt d(2) e(2) by (auto simp: option.map_comp comp_def any_json_idem [OF num])
    then show ?thesis using other [OF False] by simp
  qed
  have "decrypt_json_field_values rg num (store e) r sec = Inr (Some j'')"
    using q d(1) e(1) by (simp add: decrypt_json_field_values_def)
  then show thesis by (intro that [of j' m' j'' m''] e(1,2) sealed d(2) eqs)
qed

end

lemma b64_encode_no_break: "filter (\<lambda>x. x \<noteq> CHR 0x0A \<and> x \<noteq> CHR 0x0D) (b64_encode s) = b64_encode s"
proof -
  have "list_all (\<lambda>n. b64_char n \<noteq> CHR 0x0A \<and> b64_char n \<noteq> CHR 0x0D) [0..<64]"
    by code_simp
  then have c: "n < 64 \<Longrightarrow> b64_char n \<noteq> CHR 0x0A \<and> b64_char n \<noteq> CHR 0x0D" for n by (auto simp: list_all_iff)
  have "\<forall>x\<in>set (b64_encode s). x \<noteq> CHR 0x0A \<and> x \<noteq> CHR 0x0D"
  proof (induction s rule: b64_encode.induct)
    case (2 a)
    then show ?case using byte_bits(1,2) [OF byte_bound [of a] zero_less_numeral zero_less_numeral] by (simp add: Let_def c)
  next
    case (3 a b)
    then show ?case using byte_bits(1-3) [OF byte_bound [of a] byte_bound [of b] zero_less_numeral] by (simp add: Let_def c)
  next
    case (4 a b d s)
    then show ?case using byte_bits(1-4) [OF byte_bound [of a] byte_bound [of b] byte_bound [of d]] by (simp add: Let_def c)
  qed simp
  then show ?thesis by (simp add: filter_id_conv)
qed

interpretation aes: secret_contract se_store sealer_ok
proof
  fix E d p c assume ok: "sealer_ok E" and r: "ss_encrypt (se_store E) d p = Inr c"
  let ?key = "map (ae_hkdf (se_aead E) (se_setup E) hkdf_info) [0..<32]"
  have e: "aes_encrypt (se_aead E) ?key d p = Inr c" using r by (simp add: se_store_def new_from_setup_secret_def Let_def)
  have shape: "has_prefix c wire_prefix \<and> aes_decrypt (se_aead E) ?key c = Inr p" if p: "p \<noteq> []"
  proof -
    obtain bytes where b: "d = Some bytes" using e p by (auto simp: aes_encrypt_def split: option.splits)
    define nonce where "nonce = map bytes [0..<gcm_nonce_size]"
    have c: "c = wire_prefix @ b64_encode (nonce @ ae_seal (se_aead E) ?key nonce p)"
      using e p b by (simp add: aes_encrypt_def nonce_def Let_def)
    have l: "length nonce = gcm_nonce_size" by (simp add: nonce_def)
    have n: "c \<noteq> []" "has_prefix c wire_prefix"
      "trim_prefix c wire_prefix = b64_encode (nonce @ ae_seal (se_aead E) ?key nonce p)"
      by (simp_all add: c wire_prefix_def has_prefix_def trim_prefix_def)
    have "ae_open (se_aead E) ?key nonce (ae_seal (se_aead E) ?key nonce p) = Some p"
      using ok by (simp add: sealer_ok_def aead_laws_def)
    then show ?thesis using n(2) l by (simp add: aes_decrypt_def n b64_encode_no_break b64_roundtrip)
  qed
  show "ss_decrypt (se_store E) c = Inr p"
    using shape e by (cases "p = []") (simp_all add: se_store_def new_from_setup_secret_def Let_def aes_encrypt_def aes_decrypt_def)
  show "p \<noteq> [] \<Longrightarrow> has_prefix c wire_prefix" using shape by simp
qed

section \<open>Tables of sealed rows\<close>

text \<open>A store whose saves encrypt refines one whose tables are in the clear: read back, the table after a save is the table before it
  with the row saved, and every row of it is sealed.\<close>

definition saves_refine :: "('a base_model_scheme \<Rightarrow> bool) \<Rightarrow> ('a base_model_scheme \<Rightarrow> bool) \<Rightarrow>
    ((string \<Rightarrow> draw) \<Rightarrow> 'a base_model_scheme \<Rightarrow> 'a base_model_scheme changed) \<Rightarrow>
    ('a base_model_scheme \<Rightarrow> 'a base_model_scheme changed) \<Rightarrow> bool" where
  "saves_refine rep at_rest enc dec \<longleftrightarrow>
     (\<forall>d io x T P wr y e T'. rep x \<longrightarrow> list_all at_rest T \<longrightarrow> decrypt_rows dec T = Inr P \<longrightarrow> wr \<in> {put_row bm_id, add_row} \<longrightarrow>
        save_row (enc d) dec wr io x T = ((y, e), T') \<longrightarrow>
        list_all at_rest T' \<and>
        (case e of None \<Rightarrow> y = x \<and> decrypt_rows dec T' = Inr (wr x P) | Some _ \<Rightarrow> T' = T))"

lemma decrypt_rows_cases:
  "decrypt_rows dec (c # cs) = Inr Q \<longleftrightarrow> (\<exists>x xs. dec c = (x, None) \<and> decrypt_rows dec cs = Inr xs \<and> Q = x # xs)"
  by (auto split: prod.splits option.splits sum.splits)

lemma decrypt_rows_add:
  "decrypt_rows dec T = Inr P \<Longrightarrow> dec c = (x, None) \<Longrightarrow> decrypt_rows dec (T @ [c]) = Inr (P @ [x])"
  by (induction T arbitrary: P) (auto split: prod.splits option.splits sum.splits)

lemma decrypt_rows_put:
  assumes "\<And>r y. dec r = (y, None) \<Longrightarrow> bm_id y = bm_id r" "dec c = (x, None)"
  shows "decrypt_rows dec T = Inr P \<Longrightarrow> decrypt_rows dec (put_row bm_id c T) = Inr (put_row bm_id x P)"
proof (induction T arbitrary: P)
  case (Cons r T)
  then obtain y ys where y: "dec r = (y, None)" "decrypt_rows dec T = Inr ys" "P = y # ys" by (auto simp: decrypt_rows_cases simp del: decrypt_rows.simps)
  have "bm_id y = bm_id r" "bm_id x = bm_id c" using assms(1) [OF y(1)] assms(1) [OF assms(2)] .
  then show ?case using Cons.IH [OF y(2)] y assms(2) by (auto simp: put_row_def)
qed (simp add: put_row_def)

locale sealed_rows =
  fixes good :: "'e \<Rightarrow> bool"
    and rep :: "'a base_model_scheme \<Rightarrow> bool"
    and at_rest :: "'a base_model_scheme \<Rightarrow> bool"
    and enc :: "'e \<Rightarrow> (string \<Rightarrow> draw) \<Rightarrow> 'a base_model_scheme \<Rightarrow> 'a base_model_scheme changed"
    and dec :: "'e \<Rightarrow> 'a base_model_scheme \<Rightarrow> 'a base_model_scheme changed"
  assumes roundtrip: "good E \<Longrightarrow> rep x \<Longrightarrow> enc E d x = (c, None) \<Longrightarrow> dec E c = (x, None) \<and> at_rest c"
    and same_id: "dec E c = (y, None) \<Longrightarrow> bm_id y = bm_id c"
begin

lemma refine: "good E \<Longrightarrow> saves_refine rep at_rest (enc E) (dec E)"
  unfolding saves_refine_def
proof (intro allI impI)
  fix d io x T P wr y e T'
  assume g: "good E" "rep x" and T: "list_all at_rest T" "decrypt_rows (dec E) T = Inr P"
    and w: "wr \<in> {put_row bm_id, add_row}" and s: "save_row (enc E d) (dec E) wr io x T = ((y, e), T')"
  show "list_all at_rest T' \<and> (case e of None \<Rightarrow> y = x \<and> decrypt_rows (dec E) T' = Inr (wr x P) | Some _ \<Rightarrow> T' = T)"
  proof (cases "\<exists>c. enc E d x = (c, None) \<and> io = None")
    case False
    then have "T' = T" "e \<noteq> None" using s by (auto simp: save_row_def split: prod.splits option.splits)
    then show ?thesis using T by auto
  next
    case True
    then obtain c where c: "enc E d x = (c, None)" "io = None" by blast
    note rt = roundtrip [OF g c(1)]
    have r: "y = x" "e = None" "T' = wr c T" using s c rt by (simp_all add: save_row_def)
    have "list_all at_rest (wr c T)" using w T(1) rt by (auto simp: put_row_def add_row_def list_all_iff)
    moreover have "decrypt_rows (dec E) (wr c T) = Inr (wr x P)"
      using w T(2) rt decrypt_rows_add [OF T(2)] decrypt_rows_put [OF same_id _ T(2)] by (auto simp: add_row_def)
    ultimately show ?thesis using r by simp
  qed
qed

end

definition app_at_rest :: "application \<Rightarrow> bool" where
  "app_at_rest a \<longleftrightarrow> is_sealed (a_webhook_secret a) \<and> (\<forall>v\<in>ran (a_secrets a). is_sealed v)"

definition finite_secrets :: "application \<Rightarrow> bool" where
  "finite_secrets a \<longleftrightarrow> finite (dom (a_secrets a))"

lemma set_field_None: "set_field upd z what r = (y, None) \<longleftrightarrow> (\<exists>v. r = Inr v \<and> y = upd v)"
  by (auto simp: set_field_def split: sum.splits)

lemma and_then_None: "and_then c f = (y, None) \<longleftrightarrow> (\<exists>x. c = (x, None) \<and> f x = (y, None))"
  by (auto simp: and_then_def split: prod.splits option.splits)

lemma range_ok: "sealer_ok E \<Longrightarrow> finite K \<Longrightarrow> set (se_range E K) = K"
  by (simp add: sealer_ok_def)

interpretation apps_at_rest: sealed_rows sealer_ok finite_secrets app_at_rest encrypt_application_secrets decrypt_application_secrets
proof
  fix E d a c assume E: "sealer_ok E" "finite_secrets a" and e: "encrypt_application_secrets E d a = (c, None)"
  obtain w m where w: "encrypt_optional (se_store E) (d ''webhook_secret'') (a_webhook_secret a) = Inr w"
    and m: "encrypt_string_map (se_range E) (se_store E) (\<lambda>k. d (''secrets.'' @ k)) (a_secrets a) = Inr m"
    and c: "c = a\<lparr>a_webhook_secret := w, a_secrets := m\<rparr>"
    using e by (auto simp: encrypt_application_secrets_def and_then_None set_field_None)
  show "decrypt_application_secrets E c = (a, None) \<and> app_at_rest c"
    using aes.optional [OF E(1) w] aes.string_map [OF E(1) range_ok [OF E(1)] _ m] E(2)
    by (simp add: c decrypt_application_secrets_def and_then_None set_field_None app_at_rest_def finite_secrets_def)
next
  fix E c y assume "decrypt_application_secrets E c = (y, None)"
  then show "bm_id y = bm_id c" by (auto simp: decrypt_application_secrets_def and_then_None set_field_None)
qed

interpretation users_at_rest: sealed_rows sealer_ok "\<lambda>_. True" "\<lambda>u. is_sealed (u_2fa_secret u)" encrypt_user_2fa decrypt_user
  by unfold_locales
    (auto simp: encrypt_user_2fa_def decrypt_user_def set_field_None dest: aes.optional split: sum.splits)

interpretation pages_at_rest: sealed_rows sealer_ok "\<lambda>_. True" "\<lambda>p. is_sealed (pg_webhook_secret p)" encrypt_page_webhook decrypt_page
  by unfold_locales
    (auto simp: encrypt_page_webhook_def decrypt_page_def set_field_None dest: aes.optional)

interpretation workers_at_rest: sealed_rows sealer_ok "\<lambda>_. True" "\<lambda>k. is_sealed (wk_webhook_secret k)" encrypt_worker_webhook decrypt_worker
  by unfold_locales
    (auto simp: encrypt_worker_webhook_def decrypt_worker_def set_field_None dest: aes.optional)

interpretation nodes_at_rest: sealed_rows sealer_ok "\<lambda>_. True" "\<lambda>n. is_sealed (sn_password n)" encrypt_node_password decrypt_node
  by unfold_locales
    (auto simp: encrypt_node_password_def decrypt_node_def set_field_None dest: aes.optional split: sum.splits)

lemma find_settings_put: "\<exists>x. find (\<lambda>x. st_key x = k) (settings_put k c T) = Some x \<and> st_value x = c"
proof (cases "list_ex (\<lambda>x. st_key x = k) T")
  case True
  then show ?thesis by (induction T) (auto simp: settings_put_def split: if_splits)
next
  case False
  then have "find (\<lambda>x. st_key x = k) (T @ [y]) = find (\<lambda>x. st_key x = k) [y]" for y by (induction T) auto
  then show ?thesis using False by (simp add: settings_put_def)
qed

text \<open>A setting reads back as it was set, encrypted or not.\<close>

lemma pg_setting_roundtrip:
  assumes "sealer_ok E" "pg_setting_set E d k v T = Inr T'"
  shows "pg_setting_get E k T' = Inr v"
proof -
  obtain c where c: "T' = settings_put k c T"
    "(if is_sensitive_setting_key k \<and> v \<noteq> [] then ss_encrypt (se_store E) d v else Inr v) = Inr c"
    using assms(2) by (auto simp: pg_setting_set_def split: sum.splits)
  have "decrypt_optional (se_store E) c = Inr v" if "is_sensitive_setting_key k"
    using aes.optional(1) [OF assms(1), of d v c] c(2) that
    by (cases "v = []") (auto simp: encrypt_optional_def)
  then show ?thesis using find_settings_put [of k c T] c by (auto simp: pg_setting_get_def split: if_splits)
qed

section \<open>The properties\<close>

text \<open>C9 (sealed_tables_refine): the tables of applications, users, pages, workers and nodes hold their secrets encrypted, and the
  encrypting stores refine stores in the clear: after an insert or an update of a row, the table read back is the old one with
  that row, the caller has its row back in the clear, and no secret stands in the table unencrypted; a save that fails leaves the
  table as it was.\<close>

theorem sealed_tables_refine:
  assumes "sealer_ok E"
  shows "saves_refine finite_secrets app_at_rest (encrypt_application_secrets E) (decrypt_application_secrets E) \<and>
    saves_refine (\<lambda>_. True) (\<lambda>u. is_sealed (u_2fa_secret u)) (encrypt_user_2fa E) (decrypt_user E) \<and>
    saves_refine (\<lambda>_. True) (\<lambda>p. is_sealed (pg_webhook_secret p)) (encrypt_page_webhook E) (decrypt_page E) \<and>
    saves_refine (\<lambda>_. True) (\<lambda>k. is_sealed (wk_webhook_secret k)) (encrypt_worker_webhook E) (decrypt_worker E) \<and>
    saves_refine (\<lambda>_. True) (\<lambda>n. is_sealed (sn_password n)) (encrypt_node_password E) (decrypt_node E)"
  using apps_at_rest.refine [OF assms] users_at_rest.refine [OF assms] pages_at_rest.refine [OF assms]
    workers_at_rest.refine [OF assms] nodes_at_rest.refine [OF assms] by blast

text \<open>A server of a test: the cipher is the identity, numbers print as they are and maps are ranged over in order.\<close>

definition demo_sealer :: sealer where
  "demo_sealer = \<lparr>se_aead = \<lparr>ae_hkdf = (\<lambda>_ _ _. CHR ''k''), ae_seal = (\<lambda>_ _ p. p), ae_open = (\<lambda>_ _ c. Some c)\<rparr>,
     se_setup = ''setup'', se_range = sorted_list_of_set, se_num = id\<rparr>"

lemma demo_sealer_ok: "sealer_ok demo_sealer"
  by (simp add: sealer_ok_def demo_sealer_def aead_laws_def)

theorem sealed_tables_refine_witness:
  "saves_refine finite_secrets app_at_rest (encrypt_application_secrets demo_sealer) (decrypt_application_secrets demo_sealer) \<and>
   saves_refine (\<lambda>_. True) (\<lambda>u. is_sealed (u_2fa_secret u)) (encrypt_user_2fa demo_sealer) (decrypt_user demo_sealer)"
  using sealed_tables_refine [OF demo_sealer_ok] by blast

text \<open>C17 (configs_sealed): the configuration of a shared resource or a notification channel.  Once encrypted, every text under a
  secret key is empty or encrypted, and decrypting gives the configuration back as Go reads it, field by field.\<close>

theorem configs_sealed:
  assumes "sealer_ok E" "json_map j = Some m" "sec \<in> {is_resource_config_key, is_notification_config_key}"
    "encrypt_json_field_values (se_range E) (se_num E) (se_store E) d (Some j) sec = Inr r"
  shows "\<exists>j'' m''. list_all (\<lambda>(k, v). \<not> sec k \<or> (case v of JString s \<Rightarrow> is_sealed s | _ \<Rightarrow> True)) (case r of None \<Rightarrow> [] | Some j' \<Rightarrow> object_entries j') \<and>
    decrypt_json_field_values (se_range E) (se_num E) (se_store E) r sec = Inr (Some j'') \<and> json_map j'' = Some m'' \<and>
    map_option (any_json (se_num E)) \<circ> m'' = map_option (any_json (se_num E)) \<circ> m"
proof -
  have ok: "\<And>K. finite K \<Longrightarrow> distinct (se_range E K) \<and> set (se_range E K) = K" "\<And>s. se_num E (se_num E s) = se_num E s"
    using assms(1) by (simp_all add: sealer_ok_def)
  obtain j' m' j'' m'' where r: "r = Some j'" "json_map j' = Some m'" and s: "\<And>k s. sec k \<Longrightarrow> m' k = Some (JString s) \<Longrightarrow> is_sealed s"
    and d: "decrypt_json_field_values (se_range E) (se_num E) (se_store E) r sec = Inr (Some j'')" "json_map j'' = Some m''"
    "\<And>k. map_option (any_json (se_num E)) (m'' k) = map_option (any_json (se_num E)) (m k)"
    using aes.config [OF assms(1) ok assms(2,4)] by blast
  have "m' k = Some v" if "(k, v) \<in> set (object_entries j')" for k v
    using map_of_is_SomeI [OF entries_keys that] entries_map [OF r(2)] by simp
  then have "list_all (\<lambda>(k, v). \<not> sec k \<or> (case v of JString s \<Rightarrow> is_sealed s | _ \<Rightarrow> True)) (object_entries j')"
    using s by (fastforce simp: list_all_iff split: json.splits)
  then show ?thesis using r(1) d by (auto simp: fun_eq_iff)
qed

theorem configs_sealed_witness:
  "\<exists>j'' m''. decrypt_json_field_values (se_range demo_sealer) (se_num demo_sealer) (se_store demo_sealer)
       (projr (encrypt_json_field_values (se_range demo_sealer) (se_num demo_sealer) (se_store demo_sealer) (\<lambda>_. Some (\<lambda>_. CHR ''n''))
         (Some (JObject [(''token'', JString ''s3cret'')])) is_resource_config_key)) is_resource_config_key = Inr (Some j'') \<and>
     json_map j'' = Some m'' \<and> map_option (any_json id) (m'' ''token'') = Some (JString ''s3cret'')"
proof -
  let ?j = "JObject [(''token'', JString ''s3cret'')]" and ?d = "\<lambda>_ :: string. Some (\<lambda>_. CHR ''n'')"
  let ?e = "encrypt_json_field_values (se_range demo_sealer) (se_num demo_sealer) (se_store demo_sealer) ?d (Some ?j) is_resource_config_key"
  have "\<exists>r. ?e = Inr r"
    unfolding encrypt_json_field_values_def
    by (rule crypt_json_total [of _ "[''token'' \<mapsto> JString ''s3cret'']"])
      (auto simp: demo_sealer_def se_store_def new_from_setup_secret_def Let_def aes_encrypt_def)
  then obtain r where r: "?e = Inr r" by blast
  obtain j'' m'' where j: "decrypt_json_field_values (se_range demo_sealer) (se_num demo_sealer) (se_store demo_sealer) r is_resource_config_key =
      Inr (Some j'')" "json_map j'' = Some m''"
    and m: "map_option (any_json (se_num demo_sealer)) \<circ> m'' = map_option (any_json (se_num demo_sealer)) \<circ> [''token'' \<mapsto> JString ''s3cret'']"
    using configs_sealed [OF demo_sealer_ok _ _ r, of "[''token'' \<mapsto> JString ''s3cret'']"] by auto
  have "map_option (any_json id) (m'' ''token'') = Some (JString ''s3cret'')"
    using fun_cong [OF m, of "''token''"] by (simp add: demo_sealer_def)
  then show ?thesis unfolding r sum.sel using j by blast
qed

text \<open>C39 (failed_save_seals_twice): saving changes the caller's row in place, and a save whose statement fails leaves it encrypted.  A
  caller that goes on with the row (the installation of a node ignores the error of its first save) encrypts the ciphertext: from
  then on the node's password reads as a ciphertext of the password.\<close>

theorem failed_save_seals_twice:
  assumes "sealer_ok E" "sn_password n \<noteq> []" "encrypt_node_password E d n = (c, None)"
    "save_row (encrypt_node_password E d) (decrypt_node E) (put_row bm_id) (Some io) n T = ((y, e1), T1)"
    "save_row (encrypt_node_password E d') (decrypt_node E) (put_row bm_id) None y T1 = ((y2, None), T2)"
  shows "e1 = Some io \<and> T1 = T \<and> y = c \<and>
    list_all (\<lambda>r. bm_id r \<noteq> bm_id n \<or> (fst (decrypt_node E r) = c \<and> has_prefix (sn_password c) wire_prefix \<and>
      ss_decrypt (se_store E) (sn_password c) = Inr (sn_password n))) T2"
proof -
  have f: "e1 = Some io" "T1 = T" "y = c" using assms(3,4) by (auto simp: save_row_def)
  obtain v where v: "encrypt_optional (se_store E) (d ''password'') (sn_password n) = Inr v" "c = n\<lparr>sn_password := v\<rparr>"
    using assms(3) by (auto simp: encrypt_node_password_def split: sum.splits)
  then have p: "has_prefix (sn_password c) wire_prefix" "ss_decrypt (se_store E) (sn_password c) = Inr (sn_password n)"
    using assms(1,2) aes.seals aes.opens by (auto simp: encrypt_optional_def)
  obtain c2 where c2: "encrypt_node_password E d' c = (c2, None)" "T2 = put_row bm_id c2 T"
    using assms(5) f by (auto simp: save_row_def split: prod.splits option.splits)
  have "decrypt_node E c2 = (c, None)" "bm_id c2 = bm_id n"
    using nodes_at_rest.roundtrip [OF assms(1) _ c2(1)] c2(1) v(2) by (auto simp: encrypt_node_password_def split: sum.splits)
  then show ?thesis using f p c2(2) by (auto simp: put_row_def list_all_iff)
qed

theorem failed_save_seals_twice_witness:
  "\<exists>c T2. list_all (\<lambda>r. fst (decrypt_node demo_sealer r) = c) T2 \<and> length T2 = 1 \<and> has_prefix (sn_password c) wire_prefix \<and>
     ss_decrypt (se_store demo_sealer) (sn_password c) = Inr ''pw''"
proof -
  let ?n = "demo_node\<lparr>sn_password := ''pw''\<rparr>" and ?d = "\<lambda>_ :: string. Some (\<lambda>_. CHR ''n'')"
  have enc: "\<exists>c. encrypt_node_password demo_sealer ?d m = (m\<lparr>sn_password := c\<rparr>, None)" for m
    by (auto simp: encrypt_node_password_def encrypt_optional_def demo_sealer_def se_store_def new_from_setup_secret_def Let_def aes_encrypt_def)
  obtain p where c: "encrypt_node_password demo_sealer ?d ?n = (?n\<lparr>sn_password := p\<rparr>, None)" using enc by blast
  let ?c = "?n\<lparr>sn_password := p\<rparr>"
  obtain p2 where c2: "encrypt_node_password demo_sealer ?d ?c = (?c\<lparr>sn_password := p2\<rparr>, None)" using enc by blast
  have s1: "save_row (encrypt_node_password demo_sealer ?d) (decrypt_node demo_sealer) (put_row bm_id) (Some ErrIO) ?n [?n] = ((?c, Some ErrIO), [?n])"
    using c by (simp add: save_row_def)
  have s2: "save_row (encrypt_node_password demo_sealer ?d) (decrypt_node demo_sealer) (put_row bm_id) None ?c [?n] =
      ((?c, None), [?c\<lparr>sn_password := p2\<rparr>])"
    using c2 nodes_at_rest.roundtrip [OF demo_sealer_ok _ c2] by (simp add: save_row_def put_row_def)
  show ?thesis using failed_save_seals_twice [OF demo_sealer_ok _ c s1 s2]
    by (intro exI [of _ ?c] exI [of _ "[?c\<lparr>sn_password := p2\<rparr>]"]) simp
qed

end
