(* ===== verification/Api_Router.thy ===== *)
theory Api_Router imports Secret_Store Rate_Limiter Page_Paths begin

text \<open>
  The routes of the API (\<open>server/router.go\<close>): the table of all routes as \<open>NewRouter\<close> registers them, what a request passes
  before its handler runs, and what the handlers of an application's log and terminal sessions (\<open>api/ws\<close>) ask for before they upgrade
  the connection.  Which route a path selects is
  gin's; recovery, branding, logging, tracing and CORS let every request through and are left out.  \<open>registerSPA\<close> answers the rest.
\<close>

section \<open>The middlewares\<close>

datatype guard_kind = OfProject | OfApp | OfDatabase | OfPage | OfWorker | OfCronJob | OfDeployment | OfDomain

datatype middleware =
    LoginLimit
  | RestoreLimit
  | SetupAuth
  | SessionAuth
  | WsSession
  | RequireRole role
  | Guard guard_kind string

datatype http_method = GET | POST | PUT | PATCH | DELETE

record route =
  rt_method :: http_method
  rt_path :: string
  rt_chain :: "middleware list"
  rt_handler :: string

fun guard_of :: "guard_kind \<Rightarrow> libs \<Rightarrow> principal \<Rightarrow> string \<Rightarrow> unit io" where
  "guard_of OfProject = guard_project"
| "guard_of OfApp = guard_app"
| "guard_of OfDatabase = guard_database"
| "guard_of OfPage = guard_page"
| "guard_of OfWorker = guard_worker"
| "guard_of OfCronJob = guard_cron_job"
| "guard_of OfDeployment = guard_deployment"
| "guard_of OfDomain = guard_domain"

record http_request =
  rq_ip :: string
  rq_authorization :: string
  rq_query_token :: string
  rq_setup_secret :: string
  rq_param :: "string \<Rightarrow> string"

record router_deps =
  rd_libs :: libs
  rd_jwt :: jwt_manager
  rd_setup_secret :: string

text \<open>The state of a server's router: the counters of the two limiters, the session validator and the world.\<close>

type_synonym router_state = "rl_state \<times> rl_state \<times> session_validator \<times> world"

type_synonym 'a rio = "(router_state, 'a) act"

definition in_session :: "'a sio \<Rightarrow> 'a rio" where
  "in_session m = (\<lambda>(l, r, s). case m s of (x, s') \<Rightarrow> (x, (l, r, s')))"

definition too_many :: go_error where
  "too_many = problem 429 ''too many attempts, try again later''"

definition login_limit :: "string \<Rightarrow> unit rio" where
  "login_limit ip = (\<lambda>(l, r, v, w). case rate_limit 10 minute (clock w) ip l of
     (ok, l') \<Rightarrow> (if ok then Inr () else Inl too_many, (l', r, v, w)))"

definition restore_limit :: "string \<Rightarrow> unit rio" where
  "restore_limit ip = (\<lambda>(l, r, v, w). case rate_limit 5 (5 * minute) (clock w) ip r of
     (ok, r') \<Rightarrow> (if ok then Inr () else Inl too_many, (l, r', v, w)))"

text \<open>A request carries its principal once a session middleware has set it; before that the getters of the context give zero values.\<close>

definition no_principal :: principal where
  "no_principal = \<lparr>pr_user = uuid_nil, pr_org = uuid_nil, pr_role = []\<rparr>"

definition principal_of :: "principal option \<Rightarrow> principal" where
  "principal_of who = (case who of None \<Rightarrow> no_principal | Some p \<Rightarrow> p)"

fun pass :: "router_deps \<Rightarrow> http_request \<Rightarrow> middleware \<Rightarrow> principal option \<Rightarrow> principal option rio" where
  "pass D q LoginLimit who = seq (login_limit (rq_ip q)) (ret who)"
| "pass D q RestoreLimit who = seq (restore_limit (rq_ip q)) (ret who)"
| "pass D q SetupAuth who = seq (in_session (require_setup_secret (rd_setup_secret D) (rq_setup_secret q))) (ret who)"
| "pass D q SessionAuth who = bind (in_session (auth_middleware (rd_libs D) (rd_jwt D) (rq_authorization q))) (\<lambda>p. ret (Some p))"
| "pass D q WsSession who =
     bind (in_session (ws_auth (rd_libs D) (rd_jwt D) (rq_query_token q) (rq_authorization q))) (\<lambda>p. ret (Some p))"
| "pass D q (RequireRole r) who = seq (in_session (require_role [r] (principal_of who))) (ret who)"
| "pass D q (Guard k param) who = seq (in_session (on_world (guard_of k (rd_libs D) (principal_of who) (rq_param q param)))) (ret who)"

fun run_chain :: "router_deps \<Rightarrow> http_request \<Rightarrow> middleware list \<Rightarrow> principal option \<Rightarrow> principal option rio" where
  "run_chain D q [] who = ret who"
| "run_chain D q (m # ms) who = bind (pass D q m who) (run_chain D q ms)"

section \<open>The sessions of an application\<close>

text \<open>\<open>LogsHandler.Handle\<close> and \<open>TerminalHandler.Handle\<close> up to the upgrade of the connection; the result is the application whose log or
  shell the session gets.\<close>

definition app_session :: "libs \<Rightarrow> principal \<Rightarrow> string \<Rightarrow> application io" where
  "app_session L p param = (case uuid_parse L param of
     None \<Rightarrow> err (problem 400 ''invalid app ID'')
   | Some i \<Rightarrow> handle (applications_get_by_id i) (\<lambda>_. err (problem 404 ''app not found'')) (\<lambda>a.
       handle (projects_get_by_id (a_project a)) (\<lambda>_. err (problem 403 ''access denied'')) (\<lambda>pj.
         if p_org pj \<noteq> pr_org p then err (problem 403 ''access denied'') else ret a)))"

definition session_handlers :: "string list" where
  "session_handlers = [''logsHandler.Handle'', ''terminalHandler.Handle'']"

definition open_session :: "router_deps \<Rightarrow> http_request \<Rightarrow> principal \<Rightarrow> application rio" where
  "open_session D q p = in_session (on_world (app_session (rd_libs D) p (rq_param q ''appId'')))"

section \<open>The routes\<close>

definition route_group :: "string \<Rightarrow> middleware list \<Rightarrow> (http_method \<times> string \<times> middleware list \<times> string) list \<Rightarrow> route list" where
  "route_group base mws rs = map (\<lambda>(m, p, ms, h). \<lparr>rt_method = m, rt_path = base @ p, rt_chain = mws @ ms, rt_handler = h\<rparr>) rs"

definition ws_routes :: "route list" where
  "ws_routes =
   route_group ''/ws'' [WsSession]
    [(GET, ''/logs/:appId'', [], ''logsHandler.Handle''),
     (GET, ''/events'', [], ''SSEBroker.ServeHTTP''),
     (GET, ''/nodes/:id/logs'', [], ''nodeLogsHandler.Handle''),
     (GET, ''/terminal/:appId'', [], ''terminalHandler.Handle'')]"

definition public_routes :: "route list" where
  "public_routes =
   route_group ''/api/v1'' []
    [(GET, ''/auth/setup-status'', [], ''authHandler.SetupStatus''),
     (POST, ''/auth/register'', [LoginLimit], ''authHandler.Register''),
     (POST, ''/auth/login'', [LoginLimit], ''authHandler.Login''),
     (POST, ''/auth/refresh'', [], ''authHandler.Refresh''),
     (GET, ''/auth/providers'', [], ''oauthLogin.Providers''),
     (GET, ''/auth/oauth/:provider/login'', [LoginLimit], ''oauthLogin.Login''),
     (GET, ''/auth/oauth/:provider/callback'', [], ''oauthLogin.Callback''),
     (POST, ''/auth/oauth/2fa'', [LoginLimit], ''oauthLogin.Complete2FA''),
     (GET, ''/auth/github/callback'', [], ''githubOAuth.Callback''),
     (GET, ''/auth/github/setup/callback'', [], ''githubOAuth.SetupCallback''),
     (POST, ''/webhooks/github/:appId'', [], ''webhookHandler.GitHub''),
     (POST, ''/webhooks/gitlab/:appId'', [], ''webhookHandler.GitLab''),
     (GET, ''/team/invitations/info'', [], ''teamPublic.GetInvitationByToken''),
     (POST, ''/team/invitations/accept-public'', [LoginLimit], ''teamPublic.AcceptInvitationPublic''),
     (POST, ''/system/restore/scan'', [RestoreLimit, SetupAuth], ''sysBackupPublic.ScanS3Backups''),
     (POST, ''/system/restore/execute'', [RestoreLimit, SetupAuth], ''sysBackupPublic.RestoreFromS3'')]"

definition account_routes :: "route list" where
  "account_routes =
   route_group ''/api/v1'' [SessionAuth]
    [(GET, ''/auth/me'', [], ''authHandler.Me''),
     (POST, ''/auth/logout'', [], ''authHandler.Logout''),
     (PATCH, ''/auth/profile'', [], ''authHandler.UpdateProfile''),
     (POST, ''/auth/change-password'', [], ''authHandler.ChangePassword''),
     (GET, ''/auth/avatars'', [], ''authHandler.ListAvatars''),
     (POST, ''/auth/2fa/setup'', [], ''authHandler.Setup2FA''),
     (POST, ''/auth/2fa/verify'', [], ''authHandler.Verify2FA''),
     (POST, ''/auth/2fa/disable'', [], ''authHandler.Disable2FA''),
     (GET, ''/api-keys'', [], ''apiKeys.List''),
     (POST, ''/api-keys'', [], ''apiKeys.Create''),
     (DELETE, ''/api-keys/:id'', [], ''apiKeys.Revoke''),
     (GET, ''/auth/github/connect'', [], ''githubOAuth.Connect''),
     (GET, ''/auth/github/setup'', [], ''githubOAuth.SetupManifest''),
     (GET, ''/auth/github/status'', [], ''githubOAuth.GitHubStatus'')]"

definition project_routes :: "route list" where
  "project_routes =
   route_group ''/api/v1'' [SessionAuth]
    [(GET, ''/projects'', [], ''projects.List''),
     (POST, ''/projects'', [RequireRole role_admin], ''projects.Create'')] @
   route_group ''/api/v1/projects/:id'' [SessionAuth, Guard OfProject ''id'']
    [(GET, '''', [], ''projects.Get''),
     (PATCH, '''', [], ''projects.Update''),
     (DELETE, '''', [], ''projects.Delete''),
     (PUT, ''/env'', [], ''projects.UpdateEnv''),
     (GET, ''/apps'', [], ''appHandler.ListByProject''),
     (GET, ''/databases'', [], ''dbHandler.ListByProject''),
     (GET, ''/cronjobs'', [], ''cronJobHandler.ListByProject''),
     (GET, ''/pages'', [], ''pageHandler.ListByProject''),
     (GET, ''/workers'', [], ''workerHandler.ListByProject'')]"

definition app_routes :: "route list" where
  "app_routes =
   route_group ''/api/v1'' [SessionAuth]
    [(GET, ''/apps'', [], ''appHandler.ListAll''),
     (POST, ''/apps'', [], ''appHandler.Create'')] @
   route_group ''/api/v1/apps/:id'' [SessionAuth, Guard OfApp ''id'']
    [(GET, '''', [], ''appHandler.Get''),
     (DELETE, '''', [], ''appHandler.Delete''),
     (POST, ''/scale'', [], ''appHandler.Scale''),
     (PUT, ''/env'', [], ''appHandler.UpdateEnv''),
     (GET, ''/status'', [], ''appHandler.GetStatus''),
     (GET, ''/capabilities'', [], ''appHandler.GetCapabilities''),
     (GET, ''/pods'', [], ''appHandler.GetPods''),
     (GET, ''/metrics'', [], ''appHandler.GetMetrics''),
     (POST, ''/restart'', [], ''appHandler.Restart''),
     (POST, ''/stop'', [], ''appHandler.Stop''),
     (POST, ''/clear-cache'', [], ''appHandler.ClearBuildCache''),
     (PATCH, '''', [], ''appHandler.Update''),
     (GET, ''/pods/:podName/events'', [], ''appHandler.GetPodEvents''),
     (GET, ''/webhook'', [], ''appHandler.GetWebhookConfig''),
     (POST, ''/webhook/enable'', [], ''appHandler.EnableWebhook''),
     (POST, ''/webhook/disable'', [], ''appHandler.DisableWebhook''),
     (POST, ''/webhook/regenerate'', [], ''appHandler.RegenerateWebhook''),
     (GET, ''/secrets'', [], ''appHandler.GetSecrets''),
     (PUT, ''/secrets'', [], ''appHandler.UpdateSecrets'')] @
   route_group ''/api/v1'' [SessionAuth]
    [(POST, ''/apps/:id/deploy'', [Guard OfApp ''id''], ''deploys.Trigger''),
     (GET, ''/apps/:id/deployments'', [Guard OfApp ''id''], ''deploys.List''),
     (GET, ''/apps/:id/domains'', [Guard OfApp ''id''], ''domains.ListByApp''),
     (POST, ''/apps/:id/domains'', [Guard OfApp ''id''], ''domains.Create''),
     (POST, ''/apps/:id/domains/generate'', [Guard OfApp ''id''], ''domains.Generate'')]"

definition deployment_routes :: "route list" where
  "deployment_routes =
   route_group ''/api/v1'' [SessionAuth]
    [(GET, ''/deployments'', [], ''deploys.ListAll''),
     (GET, ''/deployments/queue'', [], ''deploys.ListQueue''),
     (GET, ''/deployments/:id'', [Guard OfDeployment ''id''], ''deploys.Get''),
     (POST, ''/deployments/:id/cancel'', [Guard OfDeployment ''id''], ''deploys.Cancel''),
     (POST, ''/deployments/:id/rollback'', [Guard OfDeployment ''id''], ''deploys.Rollback'')]"

definition cron_routes :: "route list" where
  "cron_routes =
   route_group ''/api/v1'' [SessionAuth]
    [(POST, ''/cronjobs'', [], ''cronJobs.Create''),
     (GET, ''/cronjobs/:id'', [Guard OfCronJob ''id''], ''cronJobs.Get''),
     (PATCH, ''/cronjobs/:id'', [Guard OfCronJob ''id''], ''cronJobs.Update''),
     (DELETE, ''/cronjobs/:id'', [Guard OfCronJob ''id''], ''cronJobs.Delete''),
     (POST, ''/cronjobs/:id/trigger'', [Guard OfCronJob ''id''], ''cronJobs.Trigger''),
     (GET, ''/cronjobs/:id/runs'', [Guard OfCronJob ''id''], ''cronJobs.ListRuns'')]"

definition domain_routes :: "route list" where
  "domain_routes =
   route_group ''/api/v1'' [SessionAuth]
    [(DELETE, ''/domains/:id'', [Guard OfDomain ''id''], ''domains.Delete''),
     (PATCH, ''/domains/:id'', [Guard OfDomain ''id''], ''domains.Update'')]"

definition database_routes :: "route list" where
  "database_routes =
   route_group ''/api/v1'' [SessionAuth]
    [(GET, ''/databases'', [], ''dbHandler.ListAll''),
     (GET, ''/databases/versions'', [], ''dbHandler.ListVersions''),
     (GET, ''/databases/used-ports'', [], ''dbHandler.UsedPorts''),
     (POST, ''/databases'', [], ''dbHandler.Create''),
     (GET, ''/databases/:id'', [Guard OfDatabase ''id''], ''dbHandler.Get''),
     (DELETE, ''/databases/:id'', [Guard OfDatabase ''id''], ''dbHandler.Delete''),
     (GET, ''/databases/:id/credentials'', [Guard OfDatabase ''id''], ''dbHandler.GetCredentials''),
     (GET, ''/databases/:id/status'', [Guard OfDatabase ''id''], ''dbHandler.GetStatus''),
     (GET, ''/databases/:id/pods'', [Guard OfDatabase ''id''], ''dbHandler.GetPods''),
     (POST, ''/databases/:id/backups'', [Guard OfDatabase ''id''], ''dbHandler.TriggerBackup''),
     (GET, ''/databases/:id/backups'', [Guard OfDatabase ''id''], ''dbHandler.ListBackups''),
     (POST, ''/databases/:id/backups/:backupId/restore'', [Guard OfDatabase ''id''], ''dbHandler.RestoreBackup''),
     (POST, ''/databases/:id/external-access'', [Guard OfDatabase ''id''], ''dbHandler.UpdateExternalAccess''),
     (PUT, ''/databases/:id/backup-config'', [Guard OfDatabase ''id''], ''dbHandler.UpdateBackupConfig'')]"

definition page_routes :: "route list" where
  "page_routes =
   route_group ''/api/v1'' [SessionAuth]
    [(GET, ''/pages'', [], ''pageHandler.ListAll''),
     (POST, ''/pages'', [], ''pageHandler.Create''),
     (GET, ''/pages/:id'', [Guard OfPage ''id''], ''pageHandler.Get''),
     (PATCH, ''/pages/:id'', [Guard OfPage ''id''], ''pageHandler.Update''),
     (DELETE, ''/pages/:id'', [Guard OfPage ''id''], ''pageHandler.Delete''),
     (POST, ''/pages/:id/deploy'', [Guard OfPage ''id''], ''pageHandler.Deploy''),
     (GET, ''/pages/:id/deployments'', [Guard OfPage ''id''], ''pageHandler.ListDeployments''),
     (GET, ''/pages/:id/deployments/:deployId'', [Guard OfPage ''id''], ''pageHandler.GetDeployment'')]"

definition worker_routes :: "route list" where
  "worker_routes =
   route_group ''/api/v1'' [SessionAuth]
    [(GET, ''/workers'', [], ''workerHandler.ListAll''),
     (POST, ''/workers'', [], ''workerHandler.Create''),
     (GET, ''/workers/:id'', [Guard OfWorker ''id''], ''workerHandler.Get''),
     (PATCH, ''/workers/:id'', [Guard OfWorker ''id''], ''workerHandler.Update''),
     (DELETE, ''/workers/:id'', [Guard OfWorker ''id''], ''workerHandler.Delete''),
     (POST, ''/workers/:id/deploy'', [Guard OfWorker ''id''], ''workerHandler.Deploy''),
     (POST, ''/workers/:id/confirm-r2'', [Guard OfWorker ''id''], ''workerHandler.ConfirmR2''),
     (GET, ''/workers/:id/deployments'', [Guard OfWorker ''id''], ''workerHandler.ListDeployments''),
     (GET, ''/workers/:id/deployments/:deployId'', [Guard OfWorker ''id''], ''workerHandler.GetDeployment'')]"

definition template_routes :: "route list" where
  "template_routes =
   route_group ''/api/v1'' [SessionAuth]
    [(GET, ''/templates'', [], ''templates.List''),
     (GET, ''/templates/:id'', [], ''templates.Get'')]"

definition cluster_routes :: "route list" where
  "cluster_routes =
   route_group ''/api/v1'' [SessionAuth, RequireRole role_admin]
    [(GET, ''/cluster/nodes'', [], ''cluster.GetNodes''),
     (GET, ''/cluster/capabilities'', [], ''cluster.GetCapabilities''),
     (GET, ''/cluster/metrics'', [], ''cluster.GetMetrics''),
     (GET, ''/cluster/pods'', [], ''cluster.GetAllPods''),
     (GET, ''/cluster/events'', [], ''cluster.GetEvents''),
     (GET, ''/cluster/pvcs'', [], ''cluster.GetPVCs''),
     (GET, ''/cluster/storage-classes'', [], ''cluster.GetStorageClasses''),
     (GET, ''/cluster/namespaces'', [], ''cluster.GetNamespaces''),
     (GET, ''/cluster/node-metrics'', [], ''cluster.GetNodeMetrics''),
     (GET, ''/cluster/topology'', [], ''cluster.GetTopology''),
     (GET, ''/cluster/node-pools'', [], ''cluster.GetNodePools''),
     (PUT, ''/cluster/nodes/:name/pool'', [], ''cluster.SetNodePool''),
     (GET, ''/cluster/traefik-config'', [], ''cluster.GetTraefikConfig''),
     (PUT, ''/cluster/traefik-config'', [], ''cluster.UpdateTraefikConfig''),
     (POST, ''/cluster/traefik-restart'', [], ''cluster.RestartTraefik''),
     (GET, ''/cluster/traefik-status'', [], ''cluster.GetTraefikStatus''),
     (GET, ''/cluster/helm-releases'', [], ''cluster.GetHelmReleases''),
     (GET, ''/cluster/daemonsets'', [], ''cluster.GetDaemonSets''),
     (DELETE, ''/cluster/pvcs/:namespace/:name'', [], ''cluster.DeletePVC''),
     (PUT, ''/cluster/pvcs/:namespace/:name/expand'', [], ''cluster.ExpandPVC''),
     (GET, ''/cluster/cleanup/stats'', [], ''cluster.GetCleanupStats''),
     (POST, ''/cluster/cleanup/evicted-pods'', [], ''cluster.CleanupEvictedPods''),
     (POST, ''/cluster/cleanup/failed-pods'', [], ''cluster.CleanupFailedPods''),
     (POST, ''/cluster/cleanup/completed-pods'', [], ''cluster.CleanupCompletedPods''),
     (POST, ''/cluster/cleanup/stale-replicasets'', [], ''cluster.CleanupStaleReplicaSets''),
     (POST, ''/cluster/cleanup/completed-jobs'', [], ''cluster.CleanupCompletedJobs''),
     (POST, ''/cluster/cleanup/orphan-ingresses'', [], ''cluster.CleanupOrphanIngresses'')]"

definition monitoring_routes :: "route list" where
  "monitoring_routes =
   route_group ''/api/v1'' [SessionAuth]
    [(GET, ''/monitoring/snapshots'', [], ''monitoring.GetSnapshots''),
     (GET, ''/monitoring/events'', [], ''monitoring.GetEvents''),
     (GET, ''/monitoring/alerts'', [], ''monitoring.GetAlerts''),
     (GET, ''/monitoring/alerts/active'', [], ''monitoring.GetActiveAlerts''),
     (POST, ''/monitoring/alerts/:id/resolve'', [], ''monitoring.ResolveAlert'')]"

definition setting_routes :: "route list" where
  "setting_routes =
   route_group ''/api/v1'' [SessionAuth, RequireRole role_admin]
    [(GET, ''/settings'', [], ''settings.GetAll''),
     (PUT, ''/settings'', [], ''settings.Update''),
     (GET, ''/settings/verify-domain'', [], ''settings.VerifyDomain''),
     (GET, ''/notifications/channels'', [], ''notif.ListChannels''),
     (GET, ''/notifications/events'', [], ''notif.ListEvents''),
     (PUT, ''/notifications/channels'', [], ''notif.SaveChannel''),
     (POST, ''/notifications/test'', [], ''notif.TestChannel''),
     (GET, ''/settings/smtp'', [], ''notif.GetSMTPConfig''),
     (PUT, ''/settings/smtp'', [], ''notif.SaveSMTPConfig''),
     (POST, ''/settings/smtp/test'', [], ''notif.TestSMTP'')]"

definition node_routes :: "route list" where
  "node_routes =
   route_group ''/api/v1'' [SessionAuth]
    [(GET, ''/nodes'', [], ''nodeHandler.List''),
     (POST, ''/nodes'', [], ''nodeHandler.Create''),
     (POST, ''/nodes/:id/initialize'', [], ''nodeHandler.Initialize''),
     (DELETE, ''/nodes/:id'', [], ''nodeHandler.Delete'')]"

definition team_routes :: "route list" where
  "team_routes =
   route_group ''/api/v1'' [SessionAuth]
    [(GET, ''/team/members'', [], ''team.ListMembers''),
     (PATCH, ''/team/members/:id/role'', [RequireRole role_admin], ''team.UpdateMemberRole''),
     (DELETE, ''/team/members/:id'', [RequireRole role_admin], ''team.RemoveMember''),
     (POST, ''/team/invitations'', [RequireRole role_admin], ''team.InviteMember''),
     (GET, ''/team/invitations'', [RequireRole role_admin], ''team.ListInvitations''),
     (DELETE, ''/team/invitations/:id'', [RequireRole role_admin], ''team.CancelInvitation''),
     (POST, ''/team/invitations/accept'', [], ''team.AcceptInvitation''),
     (GET, ''/teams'', [], ''team.ListTeams''),
     (POST, ''/teams'', [RequireRole role_admin], ''team.CreateTeam''),
     (DELETE, ''/teams/:id'', [RequireRole role_admin], ''team.DeleteTeam''),
     (GET, ''/teams/:id/members'', [RequireRole role_admin], ''team.ListTeamMembers''),
     (POST, ''/teams/:id/members'', [RequireRole role_admin], ''team.AddTeamMember''),
     (DELETE, ''/teams/:id/members/:userId'', [RequireRole role_admin], ''team.RemoveTeamMember'')]"

definition version_routes :: "route list" where
  "version_routes =
   route_group ''/api/v1'' [SessionAuth]
    [(GET, ''/version'', [], ''Version.GetVersionInfo''),
     (POST, ''/system/upgrade'', [RequireRole role_admin], ''Version.TriggerUpgrade''),
     (GET, ''/system/upgrade/status'', [RequireRole role_admin], ''Version.GetUpgradeStatus''),
     (DELETE, ''/system/upgrade/status'', [RequireRole role_admin], ''Version.ClearUpgradeStatus'')]"

definition backup_routes :: "route list" where
  "backup_routes =
   route_group ''/api/v1'' [SessionAuth, RequireRole role_admin]
    [(GET, ''/system/backup/config'', [], ''sysBackup.GetConfig''),
     (PUT, ''/system/backup/config'', [], ''sysBackup.SaveConfig''),
     (POST, ''/system/backup/trigger'', [], ''sysBackup.TriggerBackup''),
     (GET, ''/system/backup/list'', [], ''sysBackup.ListBackups'')]"

definition resource_routes :: "route list" where
  "resource_routes =
   route_group ''/api/v1'' [SessionAuth, RequireRole role_admin]
    [(GET, ''/resources'', [], ''resourceHandler.List''),
     (POST, ''/resources'', [], ''resourceHandler.Create''),
     (POST, ''/resources/generate-ssh-key'', [], ''resourceHandler.GenerateSSHKey''),
     (GET, ''/resources/:id/repos'', [], ''resourceHandler.ListRepos''),
     (GET, ''/resources/:id/repos/search'', [], ''resourceHandler.SearchRepos''),
     (GET, ''/resources/:id/buckets'', [], ''resourceHandler.ListBuckets''),
     (PATCH, ''/resources/:id'', [], ''resourceHandler.Update''),
     (DELETE, ''/resources/:id'', [], ''resourceHandler.Delete''),
     (POST, ''/resources/:id/test'', [], ''resourceHandler.TestConnection''),
     (GET, ''/resources/:id/dns/zones'', [], ''dnsHandler.ListZones''),
     (GET, ''/resources/:id/dns/records'', [], ''dnsHandler.ListRecords''),
     (POST, ''/resources/:id/dns/records'', [], ''dnsHandler.UpsertRecord''),
     (POST, ''/resources/:id/dns/records/delete'', [], ''dnsHandler.DeleteRecord'')]"

definition health_routes :: "route list" where
  "health_routes = route_group [] [] [(GET, ''/healthz'', [], ''healthz'')]"

definition new_router :: "route list" where
  "new_router = health_routes @ ws_routes @
     public_routes @ account_routes @ project_routes @ app_routes @ deployment_routes @ cron_routes @ domain_routes @
     database_routes @ page_routes @ worker_routes @ template_routes @ cluster_routes @ monitoring_routes @ setting_routes @
     node_routes @ team_routes @ version_routes @ backup_routes @ resource_routes"

section \<open>The static pages\<close>

datatype spa_answer = SpaNotFound | SpaAsset string | SpaIndex

text \<open>\<open>files\<close> is the directory as \<open>http.Dir\<close> opens it: whether a name is a directory, if it exists.\<close>

definition register_spa :: "(string \<Rightarrow> bool option) \<Rightarrow> string \<Rightarrow> spa_answer" where
  "register_spa files path =
     (if has_prefix path ''/api/'' \<or> has_prefix path ''/ws/'' \<or> path = ''/healthz'' then SpaNotFound
      else if path \<noteq> ''/'' \<and> files (trim_prefix (path_clean path) ''/'') = Some False then SpaAsset path
      else SpaIndex)"

text \<open>A request for which gin has no route.\<close>

definition no_route :: "string \<Rightarrow> (string \<Rightarrow> bool option) \<Rightarrow> string \<Rightarrow> spa_answer" where
  "no_route web_dist_dir files path = (if web_dist_dir \<noteq> [] then register_spa files path else SpaNotFound)"


section \<open>What the routes must ask for\<close>

text \<open>The rows a route is about, by its prefix: a path below \<open>/apps/:id\<close> concerns an application, and so on.\<close>

definition scopes :: "(string \<times> guard_kind) list" where
  "scopes = [(''/api/v1/projects/:id'', OfProject), (''/api/v1/apps/:id'', OfApp), (''/api/v1/databases/:id'', OfDatabase),
     (''/api/v1/pages/:id'', OfPage), (''/api/v1/workers/:id'', OfWorker), (''/api/v1/cronjobs/:id'', OfCronJob),
     (''/api/v1/deployments/:id'', OfDeployment), (''/api/v1/domains/:id'', OfDomain)]"

definition resource_project :: "guard_kind \<Rightarrow> database \<Rightarrow> uuid \<Rightarrow> uuid option" where
  "resource_project k d i = (case k of
     OfProject \<Rightarrow> Some i
   | OfApp \<Rightarrow> app_project d i
   | OfDatabase \<Rightarrow> database_project d i
   | OfPage \<Rightarrow> page_project d i
   | OfWorker \<Rightarrow> worker_project d i
   | OfCronJob \<Rightarrow> cron_job_project d i
   | OfDeployment \<Rightarrow> deployment_project d i
   | OfDomain \<Rightarrow> domain_project d i)"

definition admin_prefixes :: "string list" where
  "admin_prefixes = [''/api/v1/cluster/'', ''/api/v1/settings'', ''/api/v1/notifications/'', ''/api/v1/system/upgrade'', ''/api/v1/system/backup/'',
     ''/api/v1/resources'', ''/api/v1/teams/'', ''/api/v1/team/members/'', ''/api/v1/team/invitations/:id'']"

definition public_paths :: "string list" where
  "public_paths = [''/healthz'', ''/api/v1/auth/setup-status'', ''/api/v1/auth/register'', ''/api/v1/auth/login'', ''/api/v1/auth/refresh'',
     ''/api/v1/auth/providers'', ''/api/v1/auth/oauth/:provider/login'', ''/api/v1/auth/oauth/:provider/callback'', ''/api/v1/auth/oauth/2fa'',
     ''/api/v1/auth/github/callback'', ''/api/v1/auth/github/setup/callback'', ''/api/v1/webhooks/github/:appId'',
     ''/api/v1/webhooks/gitlab/:appId'', ''/api/v1/team/invitations/info'', ''/api/v1/team/invitations/accept-public'']"

definition restore_paths :: "string list" where
  "restore_paths = [''/api/v1/system/restore/scan'', ''/api/v1/system/restore/execute'']"

definition session_paths :: "string list" where
  "session_paths = [''/ws/logs/:appId'', ''/ws/terminal/:appId'']"

definition below :: "string \<Rightarrow> string list \<Rightarrow> bool" where
  "below path ps \<longleftrightarrow> list_ex (has_prefix path) ps"

text \<open>The shapes of the chains, and the table entry that agrees with its path.\<close>

definition open_chain :: "middleware list \<Rightarrow> bool" where
  "open_chain ms \<longleftrightarrow> list_all (\<lambda>m. m \<in> {LoginLimit, RestoreLimit, SetupAuth}) ms"

definition closed_chain :: "middleware list \<Rightarrow> bool" where
  "closed_chain ms \<longleftrightarrow> ms = [WsSession] \<or> ms = [SessionAuth] \<or> ms = [SessionAuth, RequireRole role_admin] \<or>
     (\<exists>k. ms = [SessionAuth, Guard k ''id''])"

definition fits :: "route \<Rightarrow> bool" where
  "fits r \<longleftrightarrow> (let p = rt_path r; ms = rt_chain r in
     (if open_chain ms then p \<in> set public_paths \<or> p \<in> set restore_paths \<and> SetupAuth \<in> set ms else closed_chain ms) \<and>
     (WsSession \<in> set ms \<longleftrightarrow> has_prefix p ''/ws/'') \<and>
     (below p admin_prefixes \<longrightarrow> RequireRole role_admin \<in> set ms) \<and>
     (p \<in> set session_paths \<longrightarrow> rt_handler r \<in> set session_handlers) \<and>
     list_all (\<lambda>(s, k). has_prefix p s \<longrightarrow> Guard k ''id'' \<in> set ms) scopes)"

lemma has_prefix_rec:
  "has_prefix s [] = True" "has_prefix [] (c # p) = False" "has_prefix (a # s) (c # p) = (a = c \<and> has_prefix s p)"
  by (simp_all add: has_prefix_def)

lemmas route_table_defs = fits_def open_chain_def closed_chain_def below_def admin_prefixes_def public_paths_def restore_paths_def scopes_def session_paths_def session_handlers_def
  route_group_def has_prefix_rec role_admin_def Let_def

lemma health_routes_fit: "list_all fits health_routes"
  by (simp add: health_routes_def route_table_defs)

lemma ws_routes_fit: "list_all fits ws_routes"
  by (simp add: ws_routes_def route_table_defs)

lemma public_routes_fit: "list_all fits public_routes"
  by (simp add: public_routes_def route_table_defs)

lemma account_routes_fit: "list_all fits account_routes"
  by (simp add: account_routes_def route_table_defs)

lemma project_routes_fit: "list_all fits project_routes"
  by (simp add: project_routes_def route_table_defs)

lemma app_routes_fit: "list_all fits app_routes"
  by (simp add: app_routes_def route_table_defs)

lemma deployment_routes_fit: "list_all fits deployment_routes"
  by (simp add: deployment_routes_def route_table_defs)

lemma cron_routes_fit: "list_all fits cron_routes"
  by (simp add: cron_routes_def route_table_defs)

lemma domain_routes_fit: "list_all fits domain_routes"
  by (simp add: domain_routes_def route_table_defs)

lemma database_routes_fit: "list_all fits database_routes"
  by (simp add: database_routes_def route_table_defs)

lemma page_routes_fit: "list_all fits page_routes"
  by (simp add: page_routes_def route_table_defs)

lemma worker_routes_fit: "list_all fits worker_routes"
  by (simp add: worker_routes_def route_table_defs)

lemma template_routes_fit: "list_all fits template_routes"
  by (simp add: template_routes_def route_table_defs)

lemma cluster_routes_fit: "list_all fits cluster_routes"
  by (simp add: cluster_routes_def route_table_defs)

lemma monitoring_routes_fit: "list_all fits monitoring_routes"
  by (simp add: monitoring_routes_def route_table_defs)

lemma setting_routes_fit: "list_all fits setting_routes"
  by (simp add: setting_routes_def route_table_defs)

lemma node_routes_fit: "list_all fits node_routes"
  by (simp add: node_routes_def route_table_defs)

lemma team_routes_fit: "list_all fits team_routes"
  by (simp add: team_routes_def route_table_defs)

lemma version_routes_fit: "list_all fits version_routes"
  by (simp add: version_routes_def route_table_defs)

lemma backup_routes_fit: "list_all fits backup_routes"
  by (simp add: backup_routes_def route_table_defs)

lemma resource_routes_fit: "list_all fits resource_routes"
  by (simp add: resource_routes_def route_table_defs)

lemmas section_fits = health_routes_fit ws_routes_fit public_routes_fit account_routes_fit project_routes_fit app_routes_fit deployment_routes_fit cron_routes_fit domain_routes_fit database_routes_fit page_routes_fit
  worker_routes_fit template_routes_fit cluster_routes_fit monitoring_routes_fit setting_routes_fit node_routes_fit team_routes_fit version_routes_fit backup_routes_fit resource_routes_fit

lemma new_router_fits: "list_all fits new_router"
  by (simp only: new_router_def list_all_append section_fits)

section \<open>What the middlewares let through\<close>

lemma guard_of_passes:
  assumes "guard_of k L p param w = (Inr x, w')"
  shows "\<exists>i pj. uuid_parse L param = Some i \<and> resource_project k (db w) i = Some pj \<and> accessible (db w) p pj \<and> db w' = db w"
proof (cases k)
  case OfProject
  with assms show ?thesis
    by (auto simp: guard_project_def guard_id_def resource_project_def split: option.splits dest!: check_project_Inr)
next
  case OfDeployment
  with assms show ?thesis
    by (auto simp: guard_deployment_def resource_project_def dest!: guard_two_steps deployment_guard.guard_passes)
next
  case OfDomain
  with assms show ?thesis
    by (auto simp: guard_domain_def resource_project_def dest!: guard_two_steps domain_guard.guard_passes)
next
  case OfDatabase
  with assms show ?thesis by (auto simp: guard_database_def resource_project_def dest!: database_guard.guard_passes)
next
  case OfCronJob
  with assms show ?thesis by (auto simp: guard_cron_job_def resource_project_def dest!: cron_guard.guard_passes)
qed (use assms in \<open>auto simp: guard_app_def guard_page_def guard_worker_def resource_project_def dest!: app_guard.guard_passes
      page_guard.guard_passes worker_guard.guard_passes\<close>)

lemma in_session_Inr: "in_session m (l, r, s) = (Inr x, z) \<longleftrightarrow> (\<exists>s'. m s = (Inr x, s') \<and> z = (l, r, s'))"
  by (auto simp: in_session_def split: prod.splits)

lemma seq_ret_Inr: "seq m (ret y) s = (Inr x, s') \<longleftrightarrow> x = y \<and> (\<exists>u. m s = (Inr u, s'))"
  by (auto simp: seq_def bind_Inr)

definition shows_setup_secret :: "router_deps \<Rightarrow> http_request \<Rightarrow> bool" where
  "shows_setup_secret D q \<longleftrightarrow> rq_setup_secret q \<noteq> [] \<and> rq_setup_secret q = rd_setup_secret D"

text \<open>A chain without session middlewares leaves the request without a principal, and one with \<open>SetupAuth\<close> asks for the secret.\<close>

lemma open_chain_passes:
  assumes "open_chain ms" "run_chain D q ms who s = (Inr who', s')"
  shows "who' = who \<and> (SetupAuth \<in> set ms \<longrightarrow> shows_setup_secret D q)"
  using assms
proof (induction ms arbitrary: s)
  case (Cons m ms)
  then obtain who1 s1 where m: "pass D q m who s = (Inr who1, s1)" and ms: "run_chain D q ms who1 s1 = (Inr who', s')"
    by (auto simp: bind_Inr)
  have k: "m \<in> {LoginLimit, RestoreLimit, SetupAuth}" "open_chain ms" using Cons.prems(1) by (auto simp: open_chain_def)
  have "who1 = who" using m k(1) by (auto simp: seq_ret_Inr)
  moreover have "shows_setup_secret D q" if "m = SetupAuth"
    using m that by (cases s) (auto simp: seq_ret_Inr in_session_Inr require_setup_secret_def shows_setup_secret_def split: if_splits)
  ultimately show ?case using Cons.IH [OF k(2), of s1] ms by auto
qed simp

definition session_of :: "router_deps \<Rightarrow> http_request \<Rightarrow> route \<Rightarrow> principal sio" where
  "session_of D q r = (if has_prefix (rt_path r) ''/ws/'' then ws_auth (rd_libs D) (rd_jwt D) (rq_query_token q) (rq_authorization q)
     else auth_middleware (rd_libs D) (rd_jwt D) (rq_authorization q))"

lemma closed_chain_passes:
  assumes "closed_chain ms" "run_chain D q ms None (l, rs, s) = (Inr who, (l', rs', v', w'))"
  shows "\<exists>p. who = Some p \<and>
    fst ((if WsSession \<in> set ms then ws_auth (rd_libs D) (rd_jwt D) (rq_query_token q) (rq_authorization q)
       else auth_middleware (rd_libs D) (rd_jwt D) (rq_authorization q)) s) = Inr p \<and>
    (RequireRole role_admin \<in> set ms \<longrightarrow> pr_role p = role_admin) \<and>
    (\<forall>k. Guard k ''id'' \<in> set ms \<longrightarrow> (\<exists>i pj. uuid_parse (rd_libs D) (rq_param q ''id'') = Some i \<and>
       resource_project k (db w') i = Some pj \<and> accessible (db w') p pj))"
proof -
  consider "ms = [WsSession]" | "ms = [SessionAuth]" | "ms = [SessionAuth, RequireRole role_admin]" | k where "ms = [SessionAuth, Guard k ''id'']"
    using assms(1) by (auto simp: closed_chain_def)
  then show ?thesis
  proof cases
    case 1
    then show ?thesis using assms(2) by (auto simp: bind_Inr in_session_Inr)
  next
    case 2
    then show ?thesis using assms(2) by (auto simp: bind_Inr in_session_Inr)
  next
    case 3
    then show ?thesis using assms(2)
      by (auto simp: bind_Inr in_session_Inr seq_ret_Inr require_role_def principal_of_def split: if_splits)
  next
    case (4 k)
    with assms(2) obtain p v1 w1 where a: "auth_middleware (rd_libs D) (rd_jwt D) (rq_authorization q) s = (Inr p, (v1, w1))"
      "who = Some p" "guard_of k (rd_libs D) p (rq_param q ''id'') w1 = (Inr (), w')"
      by (auto simp: bind_Inr in_session_Inr seq_ret_Inr on_world_Inr principal_of_def)
    show ?thesis using guard_of_passes [OF a(3)] a(1,2) 4 by auto
  qed
qed

section \<open>The properties\<close>

text \<open>A session is opened for an application of the user's organisation only; no team is asked for.\<close>

lemma app_session_Inr:
  assumes "app_session L p param w = (Inr a, w')"
  shows "\<exists>i pj. uuid_parse L param = Some i \<and> by_id i (applications (db w)) = Some a \<and>
    by_id (a_project a) (projects (db w)) = Some pj \<and> p_org pj = pr_org p \<and> db w' = db w"
proof -
  obtain i w1 pj where i: "uuid_parse L param = Some i" "applications_get_by_id i w = (Inr a, w1)"
    and pj: "projects_get_by_id (a_project a) w1 = (Inr pj, w')" "p_org pj = pr_org p"
    using assms by (auto simp: app_session_def handle_cases split: option.splits if_splits)
  from i(2) have "by_id i (applications (db w)) = Some a" "db w1 = db w"
    by (auto simp: applications_get_by_id_def query_row_Inr)
  then show ?thesis using i(1) projects_get_Inr [OF pj(1)] pj(2) by auto
qed

lemma open_session_Inr:
  assumes "open_session D q p (l, rs, v, w) = (Inr a, z)"
  shows "\<exists>i pj. uuid_parse (rd_libs D) (rq_param q ''appId'') = Some i \<and> by_id i (applications (db w)) = Some a \<and>
    by_id (a_project a) (projects (db w)) = Some pj \<and> p_org pj = pr_org p"
proof -
  obtain w' where "app_session (rd_libs D) p (rq_param q ''appId'') w = (Inr a, w')"
    using assms by (auto simp: open_session_def in_session_Inr on_world_Inr)
  from app_session_Inr [OF this] show ?thesis by blast
qed

text \<open>So a member of one team opens the terminal of another team's application.\<close>

lemma session_crosses_teams:
  assumes "uuid_parse L param = Some i" "by_id i (applications (db w)) = Some a" "by_id (a_project a) (projects (db w)) = Some pj"
    and "p_org pj = pr_org p" "p_team pj = uuid_nil" "calm w"
  shows "fst (app_session L p param w) = Inr a"
  using assms
  by (simp add: app_session_def applications_get_by_id_def projects_get_by_id_def query_row_def statement_def bind_def handle_def attach_team_def)



end
