(* ===== verification/Spec2Isabelle.thy ===== *)
theory Spec2Isabelle
  imports Rate_Limiter Authz_Guards Team_Service Deploy_Status Worker_Finish Job_Worker Hosting_Races Domain_Refine System_Backup
    Database_Backup Workload_Names Api_Router
begin

text \<open>
  A model of the core of the Orkai API server (\<open>apps/api/internal\<close>), a self-hosted deployment platform:
  accounts, sessions, access rules and the deployment services over a PostgreSQL store.

  \<^bold>\<open>How the program is put together.\<close>  HTTP handlers (\<open>api/v1\<close>) decode a request, the middleware
  (\<open>api/middleware\<close>) limits its rate and turns its bearer token into a principal, route guards
  (\<open>api/v1/guards.go\<close>) resolve the resource to its project and ask the authorisation service, and the
  services (\<open>service\<close>) do the work over the store interface (\<open>store\<close>), implemented on bun and PostgreSQL
  (\<open>store/pg\<close>).  Background jobs go through a queue to a worker process.

  \<^bold>\<open>How the model is put together.\<close>
    \<^item> \<open>Prelude_Go\<close>: strings and the Go library functions on them, the soft-delete row
      operations, and the monad \<open>act\<close> of steps that read and change a state and return a value or an error.
    \<^item> \<open>Model_Data\<close>, \<open>Model_Pages\<close>, \<open>Model_Ops\<close>: the rows (\<open>model\<close>) and the jobs (\<open>jobs/jobs.go\<close>) as records and
      enumerations, with their hooks.
    \<^item> \<open>Pg_Store\<close>: the \<open>database\<close> record (one list of rows a table, in order of insertion) and the
      \<open>world\<close> around it (clock, source of identifiers and random bytes, calls to the cluster, log of
      notifications).  A statement is \<open>query\<close>, \<open>exec\<close> or one of their relatives; any statement may fail, as
      \<open>faults\<close> decides, a failure changes nothing, and \<open>tx\<close> is all or nothing and may fail at its commit.  The
      locale \<open>row_store\<close> gives the laws of lookups after inserts, updates and soft deletes.
    \<^item> \<open>Account_Store\<close>, \<open>App_Store\<close>, \<open>Like_Search\<close>: the operations of \<open>store/pg\<close>, one definition each.
    \<^item> \<open>Rate_Limiter\<close>: \<open>RateLimit\<close> and its cleaning goroutine, run on traces.
    \<^item> \<open>Libs\<close>: the third-party code (JWT, bcrypt, UUID parsing, SHA-256, HMAC) as a record of functions, with the
      laws that their documentation promises as predicates, and one concrete instance \<open>demo_libs\<close>
      which satisfies them.
    \<^item> \<open>Jwt_Tokens\<close>, \<open>Api_Keys\<close>: \<open>auth/jwt.go\<close>, \<open>auth/apikey.go\<close>, \<open>service/api_key_service.go\<close>.
    \<^item> \<open>Session_Validator\<close>: \<open>api/middleware/auth.go\<close>, as a sequential program and, for the version cache,
      as the relation \<open>vm_step\<close> whose steps are the sections between its locks.
    \<^item> \<open>Authz_Guards\<close>: \<open>service/authz_service.go\<close> and the route guards; the locale
      \<open>guarded_resource\<close> is what a guard needs of the operation that fetches the resource.
    \<^item> \<open>Auth_Service\<close>, \<open>Team_Service\<close>: \<open>service/auth_service.go\<close>, \<open>service/team_service.go\<close>.
    \<^item> \<open>Deploy_Service\<close>: trigger, cancel, rollback and the recovery of stale deployments of applications
      (\<open>service/deploy_service.go\<close>); \<open>Deploy_Job\<close>: the job a trigger enqueues, with its build
      (\<open>service/build_service.go\<close>) and its deploy phase; \<open>Deploy_Finish\<close>, \<open>Deploy_Races\<close>,
      \<open>Deploy_Recovery\<close>, \<open>Deploy_Status\<close>: their properties.  The deploy target is the record \<open>platform\<close>.
    \<^item> \<open>Claim_Slot\<close>: the contract \<open>claim_slot\<close> of the conditional updates that requests race for
      (\<open>TryMarkDeploying\<close>, \<open>MarkTimedOut\<close>, \<open>TryClaimNeedsConfirmation\<close>), interpreted on all five of them.
    \<^item> \<open>Resource_Store\<close>: shared resources (\<open>store/pg/shared_resource_store.go\<close>), the checks of a reference to
      one, and Cloudflare credentials and Git tokens; \<open>Page_Tags\<close>: tags and AWS credentials (\<open>pages\<close>).
    \<^item> \<open>Worker_Deploy\<close>: \<open>service/worker_deploy_service.go\<close>, on the record \<open>worker_cloud\<close> of what the build pod
      and GitHub answer; \<open>Worker_Races\<close>, \<open>Worker_Finish\<close>: its properties.
    \<^item> \<open>Page_Paths\<close>: the paths, shell quoting and redaction of \<open>service/page_publish_service.go\<close>;
      \<open>Page_Deploy\<close>: \<open>service/page_deploy_service.go\<close>, on the record \<open>page_cloud\<close> of what git, the build pod, the
      certificate manager and the hosting provider answer; \<open>Page_Finish\<close>, \<open>Page_Races\<close>: its properties.
    \<^item> \<open>Hosting_Service\<close>: \<open>service/page_service.go\<close>, \<open>service/page_domain.go\<close> and \<open>service/worker_service.go\<close>;
      \<open>Hosting_Races\<close>: its properties.
    \<^item> \<open>Setting_Service\<close>: \<open>service/setting_service.go\<close>; \<open>Domain_Service\<close>: \<open>service/domain_service.go\<close>;
      \<open>Domain_Registry\<close>, \<open>Domain_Refine\<close>: the registry of hosts it promises and the refinement of it.
    \<^item> \<open>Ops_Store\<close>: the tables of managed databases, backups, nodes, cron jobs and notification channels.
    \<^item> \<open>Config_Secrets\<close>: which keys of a configuration are credentials (\<open>secret/keys.go\<close>), how they are masked
      and how a masked edit is merged; \<open>Resource_Service\<close>: \<open>service/resource_service.go\<close>, on the record
      \<open>resource_cloud\<close> of what AWS, the Git hosts and the DNS hosts answer.
    \<^item> \<open>Cron_Match\<close>: when a schedule is due; \<open>System_Backup\<close>: the rest of \<open>service/system_backup_service.go\<close>,
      on the record \<open>backup_host\<close> of what the machine answers.
    \<^item> \<open>K8s_Names\<close>: the names of Kubernetes objects and what a database engine implies (\<open>orchestrator/k3s\<close>);
      \<open>Database_Service\<close>: \<open>service/database_service.go\<close>, on the record \<open>db_manager\<close> of what the database manager and
      the storage providers answer; \<open>Database_Backup\<close>: the properties of its backups.
    \<^item> \<open>Registry_Auth\<close>: from a registry resource to a pull secret (\<open>service/registry_auth.go\<close>, \<open>providers\<close>), with
      base64; \<open>App_Service\<close>: \<open>service/app_service.go\<close>, on the record \<open>app_cluster\<close> of what the deploy target
      answers; \<open>App_Rules\<close>: which settings it accepts, and what a failed change leaves; \<open>Workload_Names\<close>:
      the names that applications and databases share a namespace under.
    \<^item> \<open>Project_Service\<close>: \<open>service/project_service.go\<close>; \<open>Webhooks\<close>: \<open>api/v1/webhook_handler.go\<close>, with \<open>filepath.Match\<close>;
      \<open>Cron_Service\<close>: \<open>service/cronjob_service.go\<close>, on the record \<open>cron_target\<close>; \<open>Metrics_Alerts\<close>:
      \<open>service/metrics_collector.go\<close> and \<open>service/alert_evaluator.go\<close>, on the record \<open>cluster_view\<close>.
    \<^item> \<open>Notification_Service\<close>: \<open>service/notification_service.go\<close>, on a log of what leaves the program; \<open>Node_Service\<close>:
      \<open>service/node_service.go\<close>, on the record \<open>ssh_host\<close>; \<open>Version_Service\<close>: \<open>service/version_service.go\<close>.
    \<^item> \<open>Secret_Store\<close>: the encryption of credentials in the tables (\<open>secret/\<close>, \<open>store/pg/secrets_helpers.go\<close>), on the record
      \<open>aead\<close> of AES-GCM and HKDF; the locales \<open>secret_contract\<close> and \<open>sealed_rows\<close> carry the refinement of the tables in the
      clear that all other theories work on.
    \<^item> \<open>Api_Router\<close>: the table of all routes with their middlewares and guards (\<open>server/router.go\<close>), and the static pages.
    \<^item> \<open>Job_Worker\<close>: the consumer of the queue (\<open>cmd/worker/main.go\<close>).

  \<^bold>\<open>What the lemmas show.\<close>  For every store operation: which table it may change (the \<open>keeps\<close> and \<open>reads\<close>
  rules) and what a lookup returns afterwards.  For every service operation that uses a transaction: all
  or nothing (\<open>all_or_nothing\<close>, the \<open>aon\<close> rules).  For every job: how it ends, by triples (\<open>ensures\<close>) over an
  invariant of its rows, for any answers of its surroundings, in worlds where no statement fails (\<open>calm\<close>,
  \<open>Calm_World\<close>).  For what an operation returns: the \<open>yields\<close> rules.  The properties, each after its number,
  are built on these.

  \<^bold>\<open>Concurrency.\<close>  An operation of a request is a function of the world; where a race matters, its statement
  is split from the read before it (\<open>worker_trigger_commit\<close>, \<open>page_delete_commit\<close>), so that the row it read is
  any row.  A job is run beside the list of what other requests do between its steps (\<open>dj_events\<close> of a
  deploy job, with the end of its context, \<open>pj_events\<close> of a page job, one change \<open>env\<close> during the build of a worker); \<open>bystander\<close>, \<open>page_env\<close> and
  \<open>worker_env\<close> say which rows they leave alone.

  \<^bold>\<open>Fuel.\<close>  The loop of \<open>currentVersion\<close> repeats only when an invalidation overlaps its fetch; the
  definition \<open>current_version\<close> takes the list of what other requests do during each fetch, so the
  recursion is on that list and its end is the pass that nothing overlaps.  \<open>recover_pages\<close> has the number of
  pages it may still read as fuel; \<open>stale_recovery_terminates\<close> shows that fuel for more pages of
  1000 than the table fills is enough.  \<open>redeliver\<close> has the number of deliveries; \<open>poison_bounded\<close> shows that five are enough.

  \<^bold>\<open>What is not modelled.\<close>  The k3s orchestrator, cloud and Git providers and the HTTP layer (the routes and the
  webhook handlers excepted): calls of external interfaces.  Floating-point readings of quantities, tickers, templates.  Logging, tracing.  Times are integers of nanoseconds; the
  widths of Go integers are kept where they can matter (the counter and truncation of TOTP codes).
\<close>

end
